(* ===== verification/Go_Float.thy ===== *)
theory Go_Float
  imports Go_Base
begin

text \<open>
  Go's \<^verbatim>\<open>float64\<close> as its IEEE-754 bit pattern, with the operations the sources use:
  comparison, conversion from and to \<^verbatim>\<open>int\<close>, addition and \<^verbatim>\<open>strconv.ParseFloat\<close>.
  \<open>math.Float64bits\<close> and \<open>math.Float64frombits\<close> are then the identity. Conversion to
  \<^verbatim>\<open>int\<close> of a value outside the 64-bit range (or of a NaN) is implementation-defined in Go; the
  model gives what amd64 gives, the least 64-bit integer.
\<close>

type_synonym f64 = "64 word"

section \<open>Fields of a pattern\<close>

definition f64_neg :: "f64 \<Rightarrow> bool" where
  "f64_neg x \<longleftrightarrow> 2 ^ 63 \<le> uint x"

definition f64_mag :: "f64 \<Rightarrow> int" where
  \<comment> \<open>the pattern without its sign bit\<close>
  "f64_mag x = uint x mod 2 ^ 63"

definition f64_expo :: "f64 \<Rightarrow> int" where
  "f64_expo x = f64_mag x div 2 ^ 52"

definition f64_frac :: "f64 \<Rightarrow> int" where
  "f64_frac x = f64_mag x mod 2 ^ 52"

definition f64_inf_mag :: int where
  "f64_inf_mag = 2047 * 2 ^ 52"

definition f64_is_nan :: "f64 \<Rightarrow> bool" where
  "f64_is_nan x \<longleftrightarrow> f64_inf_mag < f64_mag x"

definition f64_make :: "bool \<Rightarrow> int \<Rightarrow> f64" where
  "f64_make neg mag = word_of_int ((if neg then 2 ^ 63 else 0) + mag)"

section \<open>Comparison\<close>

text \<open>Sign and magnitude order the patterns as IEEE-754 orders the values; both zeros have key 0.\<close>

definition f64_key :: "f64 \<Rightarrow> int" where
  "f64_key x = (if f64_neg x then - f64_mag x else f64_mag x)"

definition f64_less :: "f64 \<Rightarrow> f64 \<Rightarrow> bool" where
  "f64_less a b \<longleftrightarrow> \<not> f64_is_nan a \<and> \<not> f64_is_nan b \<and> f64_key a < f64_key b"

definition f64_le :: "f64 \<Rightarrow> f64 \<Rightarrow> bool" where
  "f64_le a b \<longleftrightarrow> \<not> f64_is_nan a \<and> \<not> f64_is_nan b \<and> f64_key a \<le> f64_key b"

definition f64_eq :: "f64 \<Rightarrow> f64 \<Rightarrow> bool" where
  "f64_eq a b \<longleftrightarrow> \<not> f64_is_nan a \<and> \<not> f64_is_nan b \<and> f64_key a = f64_key b"

definition f64_zero :: f64 where "f64_zero = 0"
definition f64_one :: f64 where "f64_one = 0x3FF0000000000000"
definition f64_hundred :: f64 where "f64_hundred = 0x4059000000000000"
definition f64_nan :: f64 where "f64_nan = 0x7FF8000000000001"

lemmas f64_pattern_defs =
  f64_neg_def f64_mag_def f64_expo_def f64_frac_def f64_inf_mag_def f64_is_nan_def f64_key_def

lemma f64_key_zero [simp]: "f64_key f64_zero = 0"
  by (simp add: f64_zero_def f64_pattern_defs)

lemma f64_key_hundred [simp]: "f64_key f64_hundred = 0x4059000000000000"
  by (simp add: f64_hundred_def f64_pattern_defs)

lemma not_nan_consts [simp]:
  "\<not> f64_is_nan f64_zero" "\<not> f64_is_nan f64_one" "\<not> f64_is_nan f64_hundred"
  by (simp_all add: f64_zero_def f64_one_def f64_hundred_def f64_pattern_defs)

lemma f64_le_refl_iff [simp]: "f64_le x x \<longleftrightarrow> \<not> f64_is_nan x"
  by (simp add: f64_le_def)

lemma f64_not_less: "\<not> f64_is_nan a \<Longrightarrow> \<not> f64_is_nan b \<Longrightarrow> \<not> f64_less a b \<longleftrightarrow> f64_le b a"
  by (auto simp: f64_less_def f64_le_def)

lemma f64_le_trans: "f64_le a b \<Longrightarrow> f64_le b c \<Longrightarrow> f64_le a c"
  by (auto simp: f64_le_def)

section \<open>Rounding\<close>

text \<open>
  A finite value is an integer multiple of \<open>2 ^ (-1074)\<close>. Rounding \<open>p / q\<close> to 53
  significant bits, ties to even, gives the magnitude pattern \<open>shift * 2 ^ 52 + significand\<close>
  directly: for \<open>shift = 0\<close> it is a subnormal (or the least normal binade), and a carry out of the
  significand moves to the next exponent.
\<close>

function bit_length :: "int \<Rightarrow> int" where
  "bit_length n = (if n \<le> 0 then 0 else if 18446744073709551616 \<le> n
                     then 64 + bit_length (n div 18446744073709551616)
                   else 1 + bit_length (n div 2))"
  by pat_completeness auto
termination
  by (relation "measure nat") auto

declare bit_length.simps [simp del]

definition round_half_even :: "int \<Rightarrow> int \<Rightarrow> int" where
  "round_half_even n d =
     (let q = n div d; r = n mod d
      in if 2 * r < d \<or> (2 * r = d \<and> even q) then q else q + 1)"

definition f64_mag_of_ratio :: "int \<Rightarrow> int \<Rightarrow> int" where
  "f64_mag_of_ratio p q =
     (let n = p * 2 ^ 1074; s = max 0 (bit_length (n div q) - 53)
      in min (s * 2 ^ 52 + round_half_even n (q * 2 ^ nat s)) f64_inf_mag)"

definition f64_of_int :: "int \<Rightarrow> f64" where
  "f64_of_int n = f64_make (n < 0) (f64_mag_of_ratio \<bar>n\<bar> 1)"

definition f64_scaled :: "f64 \<Rightarrow> int" where
  \<comment> \<open>a finite value times \<open>2 ^ 1074\<close>\<close>
  "f64_scaled x =
     (let m = (if f64_expo x = 0 then f64_frac x else (2 ^ 52 + f64_frac x) * 2 ^ nat (f64_expo x - 1))
      in if f64_neg x then - m else m)"

definition f64_add :: "f64 \<Rightarrow> f64 \<Rightarrow> f64" where
  "f64_add a b =
     (if f64_is_nan a \<or> f64_is_nan b then f64_nan
      else if f64_mag a = f64_inf_mag
        then (if f64_mag b = f64_inf_mag \<and> f64_neg a \<noteq> f64_neg b then f64_nan else a)
      else if f64_mag b = f64_inf_mag then b
      else let t = f64_scaled a + f64_scaled b
           in f64_make (t < 0 \<or> (t = 0 \<and> f64_neg a \<and> f64_neg b))
                (f64_mag_of_ratio \<bar>t\<bar> (2 ^ 1074)))"

definition f64_to_int :: "f64 \<Rightarrow> int" where
  "f64_to_int x =
     (if f64_inf_mag \<le> f64_mag x then - (2 ^ 63)
      else let e = f64_expo x; s = (if e = 0 then f64_frac x else 2 ^ 52 + f64_frac x);
               m = (if 1075 \<le> e then s * 2 ^ nat (e - 1075) else s div 2 ^ nat (1075 - max e 1));
               n = (if f64_neg x then - m else m)
           in if in_int64 n then n else - (2 ^ 63))"

section \<open>strconv.ParseFloat\<close>

text \<open>
  Decimal floating-point syntax with an optional sign, fraction and exponent, and the names of the
  special values in any case. A value that rounds beyond the largest finite float is a range error.
  Hexadecimal mantissas, which ParseFloat also takes, are rejected here.
\<close>

definition is_digit :: "char \<Rightarrow> bool" where
  "is_digit c \<longleftrightarrow> digit_val c \<noteq> None"

definition parse_exponent :: "string \<Rightarrow> int option" where
  "parse_exponent s =
     (case s of
        [] \<Rightarrow> Some 0
      | c # cs \<Rightarrow>
          if lower_char c \<noteq> CHR ''e'' then None
          else let neg = (cs \<noteq> [] \<and> hd cs = CHR ''-'');
                   body = (if cs \<noteq> [] \<and> (hd cs = CHR ''-'' \<or> hd cs = CHR ''+'') then tl cs else cs)
               in map_option (\<lambda>n. if neg then - int n else int n) (digits_val body))"

definition parse_unsigned_float :: "bool \<Rightarrow> string \<Rightarrow> f64 option" where
  "parse_unsigned_float neg s =
     (if to_lower s = ''inf'' \<or> to_lower s = ''infinity'' then Some (f64_make neg f64_inf_mag)
      else
        let ip = takeWhile is_digit s; r1 = dropWhile is_digit s;
            dot = (r1 \<noteq> [] \<and> hd r1 = CHR ''.'');
            fp = (if dot then takeWhile is_digit (tl r1) else []);
            r2 = (if dot then dropWhile is_digit (tl r1) else r1)
        in case (digits_val (ip @ fp), parse_exponent r2) of
             (Some m, Some ex) \<Rightarrow>
               let k = ex - int (length fp);
                   mag = (if m = 0 then 0
                          else if 0 \<le> k then f64_mag_of_ratio (int m * 10 ^ nat k) 1
                          else f64_mag_of_ratio (int m) (10 ^ nat (- k)))
               in if mag = f64_inf_mag then None else Some (f64_make neg mag)
           | _ \<Rightarrow> None)"

definition parse_float :: "string \<Rightarrow> f64 option" where
  "parse_float s =
     (if to_lower s = ''nan'' then Some f64_nan
      else if s \<noteq> [] \<and> hd s = CHR ''-'' then parse_unsigned_float True (tl s)
      else if s \<noteq> [] \<and> hd s = CHR ''+'' then parse_unsigned_float False (tl s)
      else parse_unsigned_float False s)"

end
