(* ===== verification/Wire.thy ===== *)
theory Wire
  imports Go_Float
begin

text \<open>
  The protobuf wire library \<^verbatim>\<open>google.golang.org/protobuf/encoding/protowire\<close> is not part of the
  repository: it is the parameter \<open>protowire\<close> of the model. A consuming function returns the value
  and the number of bytes it read, \<open>None\<close> where the library returns a negative length; an appending
  function is given by the bytes it appends. The locale \<open>wire\<close> states the documented laws of that
  interface and proves the facts about message loops that its clients share. \<open>std_wire\<close>, the
  encoding the protobuf documentation prescribes, is a concrete instance.

  Every decoder of \<^verbatim>\<open>pbuf_decode.go\<close> is a loop "read a tag, switch on the field number"; the
  loop is \<open>wire_loop\<close>, run by \<open>wire_run\<close> with as much fuel as the message has bytes, and
  \<open>wire_run_terminates\<close> shows that this is enough.
\<close>

section \<open>The wire library as a parameter\<close>

record protowire =
  pw_consume_tag :: "byte list \<Rightarrow> (int \<times> int \<times> nat) option"
  pw_consume_varint :: "byte list \<Rightarrow> (u64 \<times> nat) option"
  pw_consume_fixed64 :: "byte list \<Rightarrow> (u64 \<times> nat) option"
  pw_consume_bytes :: "byte list \<Rightarrow> (byte list \<times> nat) option"
  pw_consume_field_value :: "int \<Rightarrow> int \<Rightarrow> byte list \<Rightarrow> nat option"
  pw_tag :: "int \<Rightarrow> int \<Rightarrow> byte list"
  pw_varint :: "u64 \<Rightarrow> byte list"
  pw_fixed64 :: "u64 \<Rightarrow> byte list"
  pw_bytes :: "byte list \<Rightarrow> byte list"

abbreviation (input) VarintType :: int where "VarintType \<equiv> 0"
abbreviation (input) Fixed64Type :: int where "Fixed64Type \<equiv> 1"
abbreviation (input) BytesType :: int where "BytesType \<equiv> 2"

text \<open>A string travels as its bytes.\<close>

definition pw_consume_string :: "protowire \<Rightarrow> byte list \<Rightarrow> (string \<times> nat) option" where
  "pw_consume_string pw b = map_option (\<lambda>(v, n). (bytes_str v, n)) (pw_consume_bytes pw b)"

definition pw_string :: "protowire \<Rightarrow> string \<Rightarrow> byte list" where
  "pw_string pw s = pw_bytes pw (str_bytes s)"

section \<open>Message loops\<close>

text \<open>
  What one field of a message does: fail with an error, return early, go on with \<open>n\<close> bytes of the
  value consumed, or find its own fuel spent (nested messages only).
\<close>

datatype 'a wire_step = StepErr string | StepRet 'a | StepNext 'a nat | StepFuel

primrec wire_loop ::
  "nat \<Rightarrow> protowire \<Rightarrow> string \<Rightarrow> (int \<Rightarrow> int \<Rightarrow> byte list \<Rightarrow> 'a \<Rightarrow> 'a wire_step)
   \<Rightarrow> byte list \<Rightarrow> 'a \<Rightarrow> (string + 'a) option" where
  "wire_loop 0 pw tagerr step body acc = (if body = [] then Some (Inr acc) else None)"
| "wire_loop (Suc fuel) pw tagerr step body acc =
     (if body = [] then Some (Inr acc)
      else case pw_consume_tag pw body of
             None \<Rightarrow> Some (Inl tagerr)
           | Some (num, typ, n) \<Rightarrow>
               (case step num typ (drop n body) acc of
                  StepErr e \<Rightarrow> Some (Inl e)
                | StepRet r \<Rightarrow> Some (Inr r)
                | StepFuel \<Rightarrow> None
                | StepNext acc' k \<Rightarrow> wire_loop fuel pw tagerr step (drop k (drop n body)) acc'))"

definition wire_run ::
  "protowire \<Rightarrow> string \<Rightarrow> (int \<Rightarrow> int \<Rightarrow> byte list \<Rightarrow> 'a \<Rightarrow> 'a wire_step)
   \<Rightarrow> byte list \<Rightarrow> 'a \<Rightarrow> (string + 'a) option" where
  "wire_run pw tagerr step body acc = wire_loop (length body) pw tagerr step body acc"

text \<open>The cases the switches of the decoders are made of.\<close>

definition skip_field :: "protowire \<Rightarrow> int \<Rightarrow> int \<Rightarrow> byte list \<Rightarrow> string \<Rightarrow> 'a \<Rightarrow> 'a wire_step" where
  "skip_field pw num typ b err acc =
     (case pw_consume_field_value pw num typ b of None \<Rightarrow> StepErr err | Some n \<Rightarrow> StepNext acc n)"

definition varint_field ::
  "protowire \<Rightarrow> int \<Rightarrow> byte list \<Rightarrow> string \<Rightarrow> string \<Rightarrow> (u64 \<Rightarrow> 'a) \<Rightarrow> 'a wire_step" where
  "varint_field pw typ b typerr valerr k =
     (if typ \<noteq> VarintType then StepErr typerr
      else case pw_consume_varint pw b of None \<Rightarrow> StepErr valerr | Some (v, n) \<Rightarrow> StepNext (k v) n)"

definition fixed64_field ::
  "protowire \<Rightarrow> int \<Rightarrow> byte list \<Rightarrow> string \<Rightarrow> string \<Rightarrow> (u64 \<Rightarrow> 'a) \<Rightarrow> 'a wire_step" where
  "fixed64_field pw typ b typerr valerr k =
     (if typ \<noteq> Fixed64Type then StepErr typerr
      else case pw_consume_fixed64 pw b of None \<Rightarrow> StepErr valerr | Some (v, n) \<Rightarrow> StepNext (k v) n)"

definition string_field ::
  "protowire \<Rightarrow> int \<Rightarrow> byte list \<Rightarrow> string \<Rightarrow> string \<Rightarrow> (string \<Rightarrow> 'a) \<Rightarrow> 'a wire_step" where
  "string_field pw typ b typerr valerr k =
     (if typ \<noteq> BytesType then StepErr typerr
      else case pw_consume_string pw b of None \<Rightarrow> StepErr valerr | Some (v, n) \<Rightarrow> StepNext (k v) n)"

text \<open>A nested message: read its bytes, then run its own parser on them.\<close>

definition message_field ::
  "protowire \<Rightarrow> int \<Rightarrow> byte list \<Rightarrow> string \<Rightarrow> string \<Rightarrow> (byte list \<Rightarrow> (string + 'b) option)
   \<Rightarrow> ('b \<Rightarrow> 'a) \<Rightarrow> 'a wire_step" where
  "message_field pw typ b typerr valerr parse k =
     (if typ \<noteq> BytesType then StepErr typerr
      else case pw_consume_bytes pw b of
             None \<Rightarrow> StepErr valerr
           | Some (v, n) \<Rightarrow>
               (case parse v of
                  None \<Rightarrow> StepFuel
                | Some (Inl e) \<Rightarrow> StepErr e
                | Some (Inr x) \<Rightarrow> StepNext (k x) n))"

lemmas field_defs =
  skip_field_def varint_field_def fixed64_field_def string_field_def message_field_def

section \<open>The laws of the interface\<close>

locale wire =
  fixes pw :: protowire
  assumes tag_len: "pw_consume_tag pw b = Some (num, typ, n) \<Longrightarrow> 0 < n \<and> n \<le> length b"
    and varint_len: "pw_consume_varint pw b = Some (v, n) \<Longrightarrow> 0 < n \<and> n \<le> length b"
    and fixed64_len: "pw_consume_fixed64 pw b = Some (v, n) \<Longrightarrow> 0 < n \<and> n \<le> length b"
    and bytes_len: "pw_consume_bytes pw b = Some (bs, n) \<Longrightarrow> length bs < n \<and> n \<le> length b"
    and field_value_len: "pw_consume_field_value pw num typ b = Some n \<Longrightarrow> n \<le> length b"
    and tag_tag: "1 \<le> num \<Longrightarrow> num < 2 ^ 29 \<Longrightarrow> 0 \<le> typ \<Longrightarrow> typ < 6 \<Longrightarrow>
      pw_consume_tag pw (pw_tag pw num typ @ r) = Some (num, typ, length (pw_tag pw num typ))"
    and varint_varint:
      "pw_consume_varint pw (pw_varint pw v @ r) = Some (v, length (pw_varint pw v))"
    and fixed64_fixed64:
      "pw_consume_fixed64 pw (pw_fixed64 pw v @ r) = Some (v, length (pw_fixed64 pw v))"
    and bytes_bytes: "length bs < 2 ^ 63 \<Longrightarrow>
      pw_consume_bytes pw (pw_bytes pw bs @ r) = Some (bs, length (pw_bytes pw bs))"
    and bytes_longer: "length bs < length (pw_bytes pw bs)"
    and field_value_varint:
      "pw_consume_field_value pw num VarintType b = map_option snd (pw_consume_varint pw b)"
    and field_value_fixed64:
      "pw_consume_field_value pw num Fixed64Type b = map_option snd (pw_consume_fixed64 pw b)"
    and field_value_bytes:
      "pw_consume_field_value pw num BytesType b = map_option snd (pw_consume_bytes pw b)"
begin

lemma tag_nonempty: "1 \<le> num \<Longrightarrow> num < 2 ^ 29 \<Longrightarrow> 0 \<le> typ \<Longrightarrow> typ < 6 \<Longrightarrow> pw_tag pw num typ \<noteq> []"
  using tag_tag [of num _ "[]"] tag_len by fastforce

lemma string_longer: "length s < length (pw_string pw s)"
  using bytes_longer [of "str_bytes s"] by (simp add: pw_string_def)

lemma string_string: "length s < 2 ^ 63 \<Longrightarrow>
    pw_consume_string pw (pw_string pw s @ r) = Some (s, length (pw_string pw s))"
  by (simp add: pw_consume_string_def pw_string_def bytes_bytes)

lemma loop_fuel_irrelevant:
  "length body \<le> f \<Longrightarrow> length body \<le> g \<Longrightarrow>
   wire_loop f pw tagerr step body acc = wire_loop g pw tagerr step body acc"
proof (induction f arbitrary: g body acc)
  case 0
  then show ?case by (cases g) auto
next
  case (Suc f)
  show ?case
  proof (cases g)
    case 0
    with Suc.prems show ?thesis by simp
  next
    case (Suc g')
    have "wire_loop f pw tagerr step (drop k (drop n body)) a =
          wire_loop g' pw tagerr step (drop k (drop n body)) a"
      if "pw_consume_tag pw body = Some (num, wt, n)" for num wt n k a
      using tag_len [OF that] Suc.prems Suc by (intro Suc.IH) auto
    with Suc show ?thesis
      by (auto split: option.splits wire_step.splits)
  qed
qed

lemma wire_run_fuel: "length body \<le> f \<Longrightarrow>
    wire_loop f pw tagerr step body acc = wire_run pw tagerr step body acc"
  unfolding wire_run_def by (rule loop_fuel_irrelevant) auto

lemma wire_run_Nil [simp]: "wire_run pw tagerr step [] acc = Some (Inr acc)"
  by (simp add: wire_run_def)

text \<open>One field at the front of the message, for any decoder.\<close>

lemma wire_run_step:
  assumes "body \<noteq> []" and tag: "pw_consume_tag pw body = Some (num, typ, n)"
  shows "wire_run pw tagerr step body acc =
     (case step num typ (drop n body) acc of
        StepErr e \<Rightarrow> Some (Inl e)
      | StepRet r \<Rightarrow> Some (Inr r)
      | StepFuel \<Rightarrow> None
      | StepNext acc' k \<Rightarrow> wire_run pw tagerr step (drop k (drop n body)) acc')"
proof -
  obtain f where f: "length body = Suc f"
    using \<open>body \<noteq> []\<close> by (cases body) auto
  have "wire_loop f pw tagerr step (drop k (drop n body)) a =
        wire_run pw tagerr step (drop k (drop n body)) a" for k a
    using tag_len [OF tag] f by (intro wire_run_fuel) auto
  with assms f show ?thesis
    unfolding wire_run_def [of _ _ _ body] by (simp split: wire_step.splits)
qed

lemma wire_run_field:
  assumes "1 \<le> num" "num < 2 ^ 29" "0 \<le> typ" "typ < 6"
  shows "wire_run pw tagerr step (pw_tag pw num typ @ r) acc =
     (case step num typ r acc of
        StepErr e \<Rightarrow> Some (Inl e)
      | StepRet x \<Rightarrow> Some (Inr x)
      | StepFuel \<Rightarrow> None
      | StepNext acc' k \<Rightarrow> wire_run pw tagerr step (drop k r) acc')"
proof -
  note step = wire_run_step [OF _ tag_tag [OF assms, of r], of tagerr step acc]
  show ?thesis
    by (subst step) (simp_all add: tag_nonempty [OF assms] split: wire_step.split)
qed

text \<open>A decoder returns when its nested decoders do.\<close>

lemma wire_loop_terminates:
  assumes "\<And>num typ b a. length b < m \<Longrightarrow> step num typ b a \<noteq> StepFuel"
  shows "length body \<le> f \<Longrightarrow> length body \<le> m \<Longrightarrow> wire_loop f pw tagerr step body acc \<noteq> None"
proof (induction f arbitrary: body acc)
  case (Suc f)
  show ?case
  proof (cases "body = [] \<or> pw_consume_tag pw body = None")
    case False
    then obtain num wt n where tag: "pw_consume_tag pw body = Some (num, wt, n)"
      by (metis option.exhaust prod_cases3)
    note len = tag_len [OF tag]
    then have "step num wt (drop n body) acc \<noteq> StepFuel"
      using Suc.prems by (intro assms) auto
    moreover have "wire_loop f pw tagerr step (drop k (drop n body)) a \<noteq> None" for k a
      using len Suc.prems by (intro Suc.IH) auto
    ultimately show ?thesis
      using tag False by (auto split: wire_step.splits)
  qed auto
qed auto

lemma wire_run_terminates:
  assumes "\<And>num typ b a. length b < length body \<Longrightarrow> step num typ b a \<noteq> StepFuel"
  shows "wire_run pw tagerr step body acc \<noteq> None"
  unfolding wire_run_def by (rule wire_loop_terminates [OF assms]) auto

lemma no_fuel_fields [simp]:
  "skip_field pw num typ b err acc \<noteq> StepFuel"
  "varint_field pw typ b e1 e2 kv \<noteq> StepFuel"
  "fixed64_field pw typ b e1 e2 kf \<noteq> StepFuel"
  "string_field pw typ b e1 e2 ks \<noteq> StepFuel"
  by (auto simp: field_defs split: option.splits)

lemma message_field_fuel:
  assumes "\<And>v. length v < length b \<Longrightarrow> parse v \<noteq> None"
  shows "message_field pw typ b e1 e2 parse k \<noteq> StepFuel"
proof (cases "pw_consume_bytes pw b")
  case (Some p)
  then obtain v n where p: "pw_consume_bytes pw b = Some (v, n)" by (cases p) auto
  with bytes_len have "parse v \<noteq> None" by (intro assms) fastforce
  with p show ?thesis by (auto simp: message_field_def split: sum.splits)
qed (simp add: message_field_def)

text \<open>Fields whose value was written by the matching appending function.\<close>

lemma field_rt [simp]:
  "varint_field pw VarintType (pw_varint pw v @ r) e1 e2 kv = StepNext (kv v) (length (pw_varint pw v))"
  "fixed64_field pw Fixed64Type (pw_fixed64 pw v @ r) e1 e2 kf =
     StepNext (kf v) (length (pw_fixed64 pw v))"
  by (simp_all add: varint_field_def fixed64_field_def varint_varint fixed64_fixed64)

lemma string_field_rt [simp]: "length s < 2 ^ 63 \<Longrightarrow>
    string_field pw BytesType (pw_string pw s @ r) e1 e2 ks = StepNext (ks s) (length (pw_string pw s))"
  by (simp add: string_field_def string_string)

lemma message_field_rt [simp]: "length bs < 2 ^ 63 \<Longrightarrow> parse bs = Some (Inr x) \<Longrightarrow>
    message_field pw BytesType (pw_bytes pw bs @ r) e1 e2 parse k =
      StepNext (k x) (length (pw_bytes pw bs))"
  by (simp add: message_field_def bytes_bytes)

lemma skip_rt [simp]:
  "skip_field pw num VarintType (pw_varint pw v @ r) e acc = StepNext acc (length (pw_varint pw v))"
  "skip_field pw num Fixed64Type (pw_fixed64 pw v @ r) e acc = StepNext acc (length (pw_fixed64 pw v))"
  "length bs < 2 ^ 63 \<Longrightarrow>
   skip_field pw num BytesType (pw_bytes pw bs @ r) e acc = StepNext acc (length (pw_bytes pw bs))"
  by (simp_all add: skip_field_def field_value_varint field_value_fixed64 field_value_bytes
      varint_varint fixed64_fixed64 bytes_bytes)

lemmas field_rt_end [simp] =
  field_rt [where r = "[]", simplified] string_field_rt [where r = "[]", simplified]
  message_field_rt [where r = "[]", simplified] bytes_bytes [where r = "[]", simplified]

lemma skip_string_rt [simp]: "length s < 2 ^ 63 \<Longrightarrow>
   skip_field pw num BytesType (pw_string pw s @ r) e acc = StepNext acc (length (pw_string pw s))"
  by (simp add: pw_string_def)

end

section \<open>The documented encoding as an instance\<close>

fun leb :: "nat \<Rightarrow> byte list" where
  "leb n = (if n < 128 then [word_of_nat n] else word_of_nat (n mod 128 + 128) # leb (n div 128))"

declare leb.simps [simp del]

fun take_varint :: "nat \<Rightarrow> byte list \<Rightarrow> (nat \<times> nat) option" where
  "take_varint 0 bs = None"
| "take_varint (Suc k) [] = None"
| "take_varint (Suc k) (b # bs) =
     (if unat b < 128 then Some (unat b, 1)
      else case take_varint k bs of
             None \<Rightarrow> None
           | Some (v, n) \<Rightarrow> Some (unat b - 128 + 128 * v, Suc n))"

definition std_consume_varint :: "byte list \<Rightarrow> (u64 \<times> nat) option" where
  "std_consume_varint b =
     (case take_varint 10 b of
        None \<Rightarrow> None
      | Some (v, n) \<Rightarrow> if v < 2 ^ 64 then Some (word_of_nat v, n) else None)"

fun le_bytes :: "nat \<Rightarrow> nat \<Rightarrow> byte list" where
  "le_bytes 0 n = []"
| "le_bytes (Suc k) n = word_of_nat (n mod 256) # le_bytes k (n div 256)"

fun le_nat :: "byte list \<Rightarrow> nat" where
  "le_nat [] = 0"
| "le_nat (b # bs) = unat b + 256 * le_nat bs"

definition std_consume_fixed64 :: "byte list \<Rightarrow> (u64 \<times> nat) option" where
  "std_consume_fixed64 b = (if length b < 8 then None else Some (word_of_nat (le_nat (take 8 b)), 8))"

definition std_consume_bytes :: "byte list \<Rightarrow> (byte list \<times> nat) option" where
  "std_consume_bytes b =
     (case std_consume_varint b of
        None \<Rightarrow> None
      | Some (m, n) \<Rightarrow>
          if length b - n < unat m then None else Some (take (unat m) (drop n b), n + unat m))"

definition std_consume_tag :: "byte list \<Rightarrow> (int \<times> int \<times> nat) option" where
  "std_consume_tag b =
     (case std_consume_varint b of
        None \<Rightarrow> None
      | Some (v, n) \<Rightarrow>
          let num = uint v div 8
          in if num < 1 \<or> 2 ^ 31 \<le> num then None else Some (num, uint v mod 8, n))"

definition std_consume_field_value :: "int \<Rightarrow> int \<Rightarrow> byte list \<Rightarrow> nat option" where
  "std_consume_field_value num typ b =
     (if typ = VarintType then map_option snd (std_consume_varint b)
      else if typ = Fixed64Type then map_option snd (std_consume_fixed64 b)
      else if typ = BytesType then map_option snd (std_consume_bytes b)
      else if typ = 5 \<and> 4 \<le> length b then Some 4 else None)"

definition std_wire :: protowire where
  "std_wire =
     \<lparr> pw_consume_tag = std_consume_tag, pw_consume_varint = std_consume_varint,
       pw_consume_fixed64 = std_consume_fixed64, pw_consume_bytes = std_consume_bytes,
       pw_consume_field_value = std_consume_field_value,
       pw_tag = (\<lambda>num typ. leb (nat (num * 8 + typ))), pw_varint = (\<lambda>v. leb (unat v)),
       pw_fixed64 = (\<lambda>v. le_bytes 8 (unat v)), pw_bytes = (\<lambda>bs. leb (length bs) @ bs) \<rparr>"

lemma take_varint_leb:
  "n < 128 ^ Suc k \<Longrightarrow> take_varint (Suc k) (leb n @ r) = Some (n, length (leb n))"
proof (induction n arbitrary: k rule: leb.induct)
  case (1 n)
  show ?case
  proof (cases "n < 128")
    case True
    then show ?thesis by (subst (1 2) leb.simps) (simp add: unat_of_nat)
  next
    case False
    with "1.prems" obtain j where k: "k = Suc j" by (cases k) auto
    have "n div 128 < 128 ^ Suc j"
      using "1.prems" k by (intro less_mult_imp_div_less) (simp add: mult.commute)
    note IH = "1.IH" [OF False this]
    have "n mod 128 + 128 < 256" by simp
    then have "unat (word_of_nat (n mod 128 + 128) :: byte) = n mod 128 + 128"
      by (simp add: unat_of_nat del: of_nat_add)
    with False k IH show ?thesis
      by (subst (1 2) leb.simps) (simp del: of_nat_add)
  qed
qed

lemma take_varint_len: "take_varint k b = Some (v, n) \<Longrightarrow> 0 < n \<and> n \<le> length b"
  by (induction k b arbitrary: v n rule: take_varint.induct)
    (fastforce split: if_splits option.splits)+

lemma std_varint_leb:
  "n < 2 ^ 64 \<Longrightarrow> std_consume_varint (leb n @ r) = Some (word_of_nat n, length (leb n))"
  using take_varint_leb [of n 9 r] by (simp add: std_consume_varint_def)

lemma std_varint_len: "std_consume_varint b = Some (v, n) \<Longrightarrow> 0 < n \<and> n \<le> length b"
  using take_varint_len by (fastforce simp: std_consume_varint_def split: option.splits if_splits)

lemma length_le_bytes [simp]: "length (le_bytes k n) = k"
  by (induction k n rule: le_bytes.induct) auto

lemma le_nat_le_bytes: "le_nat (le_bytes k n) = n mod 256 ^ k"
proof (induction k n rule: le_bytes.induct)
  case (2 k n)
  have "unat (word_of_nat (n mod 256) :: byte) = n mod 256"
    by (simp add: unat_of_nat)
  then show ?case
    using 2 by (simp add: mod_mult2_eq)
qed simp

lemma std_bytes_len: "std_consume_bytes b = Some (bs, n) \<Longrightarrow> length bs < n \<and> n \<le> length b"
  using std_varint_len
  by (fastforce simp: std_consume_bytes_def split: option.splits if_splits)

lemma std_tag_leb:
  assumes "1 \<le> num" "num < 2 ^ 29" "0 \<le> wt" "wt < 8"
  shows "std_consume_tag (leb (nat (num * 8 + wt)) @ r) =
     Some (num, wt, length (leb (nat (num * 8 + wt))))"
proof -
  define k where "k = num * 8 + wt"
  have k: "0 \<le> k" "k < 2 ^ 64" "k div 8 = num" "k mod 8 = wt" "nat k < 2 ^ 64"
    using assms by (auto simp: k_def)
  then have "uint (word_of_nat (nat k) :: u64) = k"
    by (simp add: uint_word_of_int)
  with k assms show ?thesis
    by (simp add: std_consume_tag_def std_varint_leb flip: k_def)
qed

interpretation std: wire std_wire
proof unfold_locales
  fix num wt :: int and r
  assume "1 \<le> num" "num < 2 ^ 29" "0 \<le> wt" "wt < 6"
  then show "pw_consume_tag std_wire (pw_tag std_wire num wt @ r) =
        Some (num, wt, length (pw_tag std_wire num wt))"
    by (simp add: std_wire_def std_tag_leb)
next
  fix b :: "byte list" and num wt n
  assume "pw_consume_field_value std_wire num wt b = Some n"
  then show "n \<le> length b"
    using std_varint_len std_bytes_len
    by (fastforce simp: std_wire_def std_consume_field_value_def std_consume_fixed64_def
        split: if_splits)
next
  fix bs r :: "byte list"
  assume "length bs < 2 ^ 63"
  then show "pw_consume_bytes std_wire (pw_bytes std_wire bs @ r) =
             Some (bs, length (pw_bytes std_wire bs))"
    by (simp add: std_wire_def std_consume_bytes_def std_varint_leb unat_of_nat)
next
  fix v :: u64 and r
  show "pw_consume_fixed64 std_wire (pw_fixed64 std_wire v @ r) =
        Some (v, length (pw_fixed64 std_wire v))"
    using unsigned_less [of v, where ?'a = nat]
    by (simp add: std_wire_def std_consume_fixed64_def le_nat_le_bytes)
next
  fix v :: u64 and r
  show "pw_consume_varint std_wire (pw_varint std_wire v @ r) =
        Some (v, length (pw_varint std_wire v))"
    using unsigned_less [of v, where ?'a = nat] by (simp add: std_wire_def std_varint_leb)
next
  fix bs :: "byte list"
  have "leb n \<noteq> []" for n by (subst leb.simps) simp
  then show "length bs < length (pw_bytes std_wire bs)"
    by (simp add: std_wire_def)
qed (auto simp: std_wire_def std_consume_tag_def std_consume_fixed64_def std_consume_field_value_def
      Let_def dest: std_varint_len std_bytes_len split: option.splits if_splits)

text \<open>The rules that evaluate the instance on concrete bytes.\<close>

lemmas std_wire_eval = std_wire_def leb.simps std_consume_tag_def std_consume_varint_def
  std_consume_bytes_def std_consume_field_value_def std_consume_fixed64_def pw_string_def
  pw_consume_string_def str_bytes_def bytes_str_def

end
