(* ===== verification/Pbuf_Encode.thy ===== *)
theory Pbuf_Encode
  imports Wire
begin

text \<open>
  Values of the property tree and their protobuf encoding (\<^verbatim>\<open>pkg/vdcapi/pbuf_encode.go\<close>): the
  dynamic type \<^verbatim>\<open>any\<close> as \<open>gany\<close>, the element tree \<^verbatim>\<open>pbufPropertyElement\<close> as \<open>pelem\<close>, the
  conversion of a value to elements under a query, the encoders and the frames the server sends.
\<close>

section \<open>Values\<close>

datatype gany =
    GNil | GBool bool | GInt int | GInt64 u64 | GUint64 u64 | GFloat f64 | GStr string
  | GBytes "byte list" | GObj "(string \<times> gany) list" | GArr "gany list" | GStrs "string list"

datatype pelem = PElem (pe_name: string) (pe_value: gany) (pe_elements: "pelem list")

section \<open>Property values as elements\<close>

definition is_wildcard :: "string \<Rightarrow> bool" where
  "is_wildcard n \<longleftrightarrow> n = '''' \<or> n = '' '' \<or> n = ''*''"

fun convert_leaf :: "string \<Rightarrow> gany \<Rightarrow> pelem"
and convert_all :: "(string \<times> gany) list \<Rightarrow> pelem list"
and convert_indexed :: "nat \<Rightarrow> gany list \<Rightarrow> pelem list" where
  "convert_leaf name (GObj m) = PElem name GNil (convert_all m)"
| "convert_leaf name (GArr xs) = PElem name GNil (convert_indexed 0 xs)"
| "convert_leaf name (GStrs xs) =
     PElem name GNil (map (\<lambda>(i, s). PElem (itoa (int i)) (GStr s) []) (enumerate 0 xs))"
| "convert_leaf name v = PElem name v []"
| "convert_all [] = []"
| "convert_all ((k, v) # m) = convert_leaf k v # convert_all m"
| "convert_indexed i [] = []"
| "convert_indexed i (x # xs) = convert_leaf (itoa (int i)) x # convert_indexed (Suc i) xs"

text \<open>
  \<open>convert_leaf\<close> is the conversion with no query below the value; a query selects and descends.
\<close>

function (sequential) convertValueToProperty :: "string \<Rightarrow> gany \<Rightarrow> pelem list \<Rightarrow> pelem"
and convert_query :: "(string \<times> gany) list \<Rightarrow> pelem list \<Rightarrow> pelem list" where
  "convertValueToProperty name v qs =
     (case v of
        GObj m \<Rightarrow> if qs = [] then convert_leaf name v else PElem name GNil (convert_query m qs)
      | _ \<Rightarrow> convert_leaf name v)"
| "convert_query m [] = []"
| "convert_query m (q # qs) =
     (if is_wildcard (pe_name q) then convert_all m @ convert_query m qs
      else case map_of m (pe_name q) of
             Some v \<Rightarrow> convertValueToProperty (pe_name q) v (pe_elements q) # convert_query m qs
           | None \<Rightarrow> convert_query m qs)"
  by pat_completeness auto
termination
proof (relation "measure (case_sum (\<lambda>(n, v, qs). 2 * size_list size qs + 1)
                                   (\<lambda>(m, qs). 2 * size_list size qs))")
  have "size_list size (pe_elements q) < size q" for q by (cases q) simp
  then show "\<And>m q qs v. \<not> is_wildcard (pe_name q) \<Longrightarrow> map_of m (pe_name q) = Some v \<Longrightarrow>
      (Inl (pe_name q, v, pe_elements q), Inr (m, q # qs))
      \<in> measure (case_sum (\<lambda>(n, v, qs). 2 * size_list size qs + 1)
                          (\<lambda>(m, qs). 2 * size_list size qs))"
    by (simp add: add.commute less_Suc_eq_le trans_le_add1 mult_le_mono less_imp_le)
qed auto

declare convertValueToProperty.simps [simp del]

definition buildPbufPropertyResult :: "pelem list \<Rightarrow> (string \<times> gany) list \<Rightarrow> pelem list" where
  "buildPbufPropertyResult query full =
     (if query = [] then convert_all full else convert_query full query)"

section \<open>Encoding\<close>

fun encodePropertyValue :: "protowire \<Rightarrow> gany \<Rightarrow> byte list" where
  "encodePropertyValue pw (GBool x) = pw_tag pw 1 VarintType @ pw_varint pw (if x then 1 else 0)"
| "encodePropertyValue pw (GUint64 x) = pw_tag pw 2 VarintType @ pw_varint pw x"
| "encodePropertyValue pw (GInt64 x) =
     (if 0 \<le> sint x then pw_tag pw 2 VarintType @ pw_varint pw x
      else pw_tag pw 3 VarintType @ pw_varint pw x)"
| "encodePropertyValue pw (GInt x) =
     (if 0 \<le> x then pw_tag pw 2 VarintType @ pw_varint pw (word_of_int x)
      else pw_tag pw 3 VarintType @ pw_varint pw (word_of_int x))"
| "encodePropertyValue pw (GFloat x) = pw_tag pw 4 Fixed64Type @ pw_fixed64 pw x"
| "encodePropertyValue pw (GStr x) = pw_tag pw 5 BytesType @ pw_string pw x"
| "encodePropertyValue pw (GBytes x) = pw_tag pw 6 BytesType @ pw_bytes pw x"
| "encodePropertyValue pw _ = []"

fun encodePropertyElement :: "protowire \<Rightarrow> pelem \<Rightarrow> byte list" where
  "encodePropertyElement pw (PElem name v es) =
     (if name \<noteq> '''' then pw_tag pw 1 BytesType @ pw_string pw name else []) @
     (case v of
        GNil \<Rightarrow> []
      | _ \<Rightarrow> let pv = encodePropertyValue pw v
             in if pv \<noteq> [] then pw_tag pw 2 BytesType @ pw_bytes pw pv else []) @
     concat (map (\<lambda>c. pw_tag pw 3 BytesType @ pw_bytes pw (encodePropertyElement pw c)) es)"

section \<open>Frames\<close>

text \<open>The length prefix is a 16-bit word: a longer payload wraps it.\<close>

definition buildPbufFrame :: "byte list \<Rightarrow> byte list" where
  "buildPbufFrame payload =
     (let n = word_of_nat (length payload) :: u16
      in [ucast (drop_bit 8 n), ucast n] @ payload)"

abbreviation "pbufTypeGenericResponse \<equiv> (1 :: u64)"
abbreviation "pbufTypeVdcResponseHello \<equiv> (3 :: u64)"
abbreviation "pbufTypeVdcResponseGetProp \<equiv> (5 :: u64)"
abbreviation "pbufTypeVdcSendPong \<equiv> (9 :: u64)"
abbreviation "pbufTypeVdcSendAnnounceDevice \<equiv> (10 :: u64)"
abbreviation "pbufTypeVdcSendVanish \<equiv> (11 :: u64)"
abbreviation "pbufTypeVdcSendPushNotification \<equiv> (12 :: u64)"
abbreviation "pbufTypeVdcSendIdentify \<equiv> (22 :: u64)"
abbreviation "pbufTypeVdcSendAnnounceVdc \<equiv> (23 :: u64)"

text \<open>The head of every message: its type and, for an answer, the id of the request.\<close>

definition msg_head :: "protowire \<Rightarrow> u64 \<Rightarrow> byte list" where
  "msg_head pw t = pw_tag pw 1 VarintType @ pw_varint pw t"

definition msg_id :: "protowire \<Rightarrow> u32 \<Rightarrow> bool \<Rightarrow> byte list" where
  "msg_id pw msgID hasID =
     (if hasID then pw_tag pw 2 VarintType @ pw_varint pw (ucast msgID) else [])"

definition sub_message :: "protowire \<Rightarrow> int \<Rightarrow> byte list \<Rightarrow> byte list" where
  "sub_message pw num sub = pw_tag pw num BytesType @ pw_bytes pw sub"

definition opt_string :: "protowire \<Rightarrow> int \<Rightarrow> string \<Rightarrow> byte list" where
  "opt_string pw num s = (if s \<noteq> '''' then pw_tag pw num BytesType @ pw_string pw s else [])"

definition buildPbufGenericResponse ::
  "protowire \<Rightarrow> u32 \<Rightarrow> bool \<Rightarrow> u64 \<Rightarrow> string \<Rightarrow> byte list" where
  "buildPbufGenericResponse pw msgID hasID code description =
     buildPbufFrame (msg_head pw pbufTypeGenericResponse @ msg_id pw msgID hasID @
       sub_message pw 3
         (pw_tag pw 1 VarintType @ pw_varint pw code @ opt_string pw 2 description))"

definition buildPbufHelloResponse :: "protowire \<Rightarrow> u32 \<Rightarrow> bool \<Rightarrow> string \<Rightarrow> byte list" where
  "buildPbufHelloResponse pw msgID hasID dsuid =
     buildPbufFrame (msg_head pw pbufTypeVdcResponseHello @ msg_id pw msgID hasID @
       sub_message pw 101 (pw_tag pw 1 BytesType @ pw_string pw dsuid))"

definition buildPbufGetPropertyResponse ::
  "protowire \<Rightarrow> u32 \<Rightarrow> bool \<Rightarrow> pelem list \<Rightarrow> byte list" where
  "buildPbufGetPropertyResponse pw msgID hasID props =
     buildPbufFrame (msg_head pw pbufTypeVdcResponseGetProp @ msg_id pw msgID hasID @
       sub_message pw 103
         (concat (map (\<lambda>p. pw_tag pw 1 BytesType @ pw_bytes pw (encodePropertyElement pw p)) props)))"

definition buildPbufPong :: "protowire \<Rightarrow> string \<Rightarrow> byte list" where
  "buildPbufPong pw dsuid =
     buildPbufFrame (msg_head pw pbufTypeVdcSendPong @ sub_message pw 106 (opt_string pw 1 dsuid))"

definition buildPbufAnnounceVdc :: "protowire \<Rightarrow> string \<Rightarrow> byte list" where
  "buildPbufAnnounceVdc pw vdcDSUID =
     buildPbufFrame (msg_head pw pbufTypeVdcSendAnnounceVdc @
       sub_message pw 120 (opt_string pw 1 vdcDSUID))"

definition buildPbufAnnounceDevice :: "protowire \<Rightarrow> string \<Rightarrow> string \<Rightarrow> byte list" where
  "buildPbufAnnounceDevice pw deviceDSUID vdcDSUID =
     buildPbufFrame (msg_head pw pbufTypeVdcSendAnnounceDevice @
       sub_message pw 107 (opt_string pw 1 deviceDSUID @ opt_string pw 2 vdcDSUID))"

definition buildPbufVanish :: "protowire \<Rightarrow> string \<Rightarrow> byte list" where
  "buildPbufVanish pw deviceDSUID =
     buildPbufFrame (msg_head pw pbufTypeVdcSendVanish @
       sub_message pw 108 (opt_string pw 1 deviceDSUID))"

definition buildPbufIdentify :: "protowire \<Rightarrow> string \<Rightarrow> byte list" where
  "buildPbufIdentify pw dsuid =
     buildPbufFrame (msg_head pw pbufTypeVdcSendIdentify @ sub_message pw 119 (opt_string pw 1 dsuid))"

definition buildPbufPushNotification ::
  "protowire \<Rightarrow> string \<Rightarrow> (string \<times> gany) list \<Rightarrow> byte list" where
  "buildPbufPushNotification pw deviceDSUID changed =
     buildPbufFrame (msg_head pw pbufTypeVdcSendPushNotification @
       sub_message pw 109
         (opt_string pw 1 deviceDSUID @
          concat (map (\<lambda>(k, v). sub_message pw 2
                       (encodePropertyElement pw (convertValueToProperty k v [])))
            (filter (\<lambda>(k, v). k \<noteq> ''deviceevents'') changed)) @
          (case map_of changed ''deviceevents'' of
             Some (GArr events) \<Rightarrow>
               concat (map (\<lambda>ev. sub_message pw 3
                 (encodePropertyElement pw (convertValueToProperty ''deviceevent'' ev []))) events)
           | _ \<Rightarrow> [])))"

end
