(* ===== verification/Pbuf_Decode.thy ===== *)
theory Pbuf_Decode
  imports Pbuf_Encode
begin

text \<open>
  The decoders of \<^verbatim>\<open>pkg/vdcapi/pbuf_decode.go\<close>. Each is \<open>wire_run\<close> over a step that switches on
  the field number, with the error texts of the source; \<open>None\<close> would be "out of fuel", which
  \<open>decoders_terminate\<close> rules out for every wire library that obeys its laws.
\<close>

section \<open>Envelope\<close>

record envelope =
  ev_type :: u64
  ev_id :: u32
  ev_hasID :: bool
  ev_sub :: "(int, byte list) gomap"

definition envelope_step ::
  "protowire \<Rightarrow> int \<Rightarrow> int \<Rightarrow> byte list \<Rightarrow> envelope \<Rightarrow> envelope wire_step" where
  "envelope_step pw num typ b e =
     (if num = 1 then varint_field pw typ b ''invalid type field'' ''invalid type varint''
        (\<lambda>v. e\<lparr>ev_type := v\<rparr>)
      else if num = 2 then
        varint_field pw typ b ''invalid message_id field'' ''invalid message_id varint''
          (\<lambda>v. e\<lparr>ev_hasID := True, ev_id := ucast v\<rparr>)
      else if typ = BytesType then
        (case pw_consume_bytes pw b of
           None \<Rightarrow> StepErr ''invalid bytes field''
         | Some (v, n) \<Rightarrow> StepNext (e\<lparr>ev_sub := AList.update num v (ev_sub e)\<rparr>) n)
      else skip_field pw num typ b ''invalid field value'' e)"

definition parsePbufEnvelope :: "protowire \<Rightarrow> byte list \<Rightarrow> (string + envelope) option" where
  "parsePbufEnvelope pw payload =
     (case wire_run pw ''invalid protobuf tag'' (envelope_step pw) payload
             \<lparr>ev_type = 0, ev_id = 0, ev_hasID = False, ev_sub = []\<rparr> of
        Some (Inr e) \<Rightarrow> Some (if ev_type e = 0 then Inl ''missing message type'' else Inr e)
      | r \<Rightarrow> r)"

section \<open>Requests\<close>

definition hello_step ::
  "protowire \<Rightarrow> int \<Rightarrow> int \<Rightarrow> byte list \<Rightarrow> string \<times> int \<Rightarrow> (string \<times> int) wire_step" where
  "hello_step pw num typ b a =
     (if num = 1 then string_field pw typ b ''invalid hello dSUID field'' ''invalid hello dSUID''
        (\<lambda>v. (v, snd a))
      else if num = 2 then
        varint_field pw typ b ''invalid hello api_version field'' ''invalid hello api_version''
          (\<lambda>v. (fst a, sint v))
      else skip_field pw num typ b ''invalid hello field value'' a)"

definition parsePbufHelloRequest :: "protowire \<Rightarrow> byte list \<Rightarrow> (string + string \<times> int) option" where
  "parsePbufHelloRequest pw body = wire_run pw ''invalid hello tag'' (hello_step pw) body ('''', 0)"

section \<open>Property elements\<close>

text \<open>The decoder of a value returns at the first field it knows.\<close>

definition return_field :: "'a wire_step \<Rightarrow> 'a wire_step" where
  "return_field s = (case s of StepNext v n \<Rightarrow> StepRet v | _ \<Rightarrow> s)"

lemma return_field_simps [simp]:
  "return_field (StepNext v n) = StepRet v" "return_field s = StepFuel \<longleftrightarrow> s = StepFuel"
  by (cases s; simp add: return_field_def)+

definition value_step ::
  "protowire \<Rightarrow> int \<Rightarrow> int \<Rightarrow> byte list \<Rightarrow> gany \<Rightarrow> gany wire_step" where
  "value_step pw num typ b a =
     (if num = 1 then return_field (varint_field pw typ b
           ''invalid bool property value'' ''invalid bool property value'' (\<lambda>v. GBool (v \<noteq> 0)))
      else if num = 2 then return_field (varint_field pw typ b
           ''invalid uint64 property value'' ''invalid uint64 property value'' GUint64)
      else if num = 3 then return_field (varint_field pw typ b
           ''invalid int64 property value'' ''invalid int64 property value'' GInt64)
      else if num = 4 then return_field (fixed64_field pw typ b
           ''invalid double property value'' ''invalid double property value'' GFloat)
      else if num = 5 then return_field (string_field pw typ b
           ''invalid string property value'' ''invalid string property value'' GStr)
      else if num = 6 then
        (if typ \<noteq> BytesType then StepErr ''invalid bytes property value''
         else case pw_consume_bytes pw b of
                None \<Rightarrow> StepErr ''invalid bytes property value''
              | Some (v, n) \<Rightarrow> StepRet (GBytes v))
      else skip_field pw num typ b ''invalid property value field'' a)"

definition parsePbufPropertyValue :: "protowire \<Rightarrow> byte list \<Rightarrow> (string + gany) option" where
  "parsePbufPropertyValue pw body =
     wire_run pw ''invalid property value tag'' (value_step pw) body GNil"

fun set_value :: "pelem \<Rightarrow> gany \<Rightarrow> pelem" where
  "set_value (PElem n v es) w = PElem n w es"

fun set_name :: "pelem \<Rightarrow> string \<Rightarrow> pelem" where
  "set_name (PElem n v es) m = PElem m v es"

fun add_element :: "pelem \<Rightarrow> pelem \<Rightarrow> pelem" where
  "add_element (PElem n v es) c = PElem n v (es @ [c])"

definition element_step ::
  "protowire \<Rightarrow> (byte list \<Rightarrow> (string + pelem) option) \<Rightarrow> int \<Rightarrow> int \<Rightarrow> byte list \<Rightarrow> pelem
   \<Rightarrow> pelem wire_step" where
  "element_step pw parse_child num typ b e =
     (if num = 1 then string_field pw typ b ''invalid property name field'' ''invalid property name''
        (set_name e)
      else if num = 2 then
        message_field pw typ b ''invalid property value field'' ''invalid property value''
          (parsePbufPropertyValue pw) (set_value e)
      else if num = 3 then
        message_field pw typ b ''invalid property child field'' ''invalid property child''
          parse_child (add_element e)
      else skip_field pw num typ b ''invalid property element value'' e)"

text \<open>Nested elements: the fuel is the depth, at most the number of bytes.\<close>

primrec parse_element_depth :: "nat \<Rightarrow> protowire \<Rightarrow> byte list \<Rightarrow> (string + pelem) option" where
  "parse_element_depth 0 pw body = None"
| "parse_element_depth (Suc d) pw body =
     wire_run pw ''invalid property element tag'' (element_step pw (parse_element_depth d pw)) body
       (PElem '''' GNil [])"

definition parsePbufPropertyElement :: "protowire \<Rightarrow> byte list \<Rightarrow> (string + pelem) option" where
  "parsePbufPropertyElement pw body = parse_element_depth (Suc (length body)) pw body"

definition get_property_step ::
  "protowire \<Rightarrow> int \<Rightarrow> int \<Rightarrow> byte list \<Rightarrow> string \<times> pelem list \<Rightarrow> (string \<times> pelem list) wire_step" where
  "get_property_step pw num typ b a =
     (if num = 1 then
        string_field pw typ b ''invalid getProperty dSUID field'' ''invalid getProperty dSUID''
          (\<lambda>v. (v, snd a))
      else if num = 2 then
        message_field pw typ b ''invalid getProperty query field'' ''invalid getProperty query''
          (parsePbufPropertyElement pw) (\<lambda>e. (fst a, snd a @ [e]))
      else skip_field pw num typ b ''invalid getProperty field value'' a)"

definition parsePbufGetPropertyRequest ::
  "protowire \<Rightarrow> byte list \<Rightarrow> (string + string \<times> pelem list) option" where
  "parsePbufGetPropertyRequest pw body =
     wire_run pw ''invalid getProperty tag'' (get_property_step pw) body ('''', [])"

definition set_property_step ::
  "protowire \<Rightarrow> int \<Rightarrow> int \<Rightarrow> byte list \<Rightarrow> string \<times> pelem list \<Rightarrow> (string \<times> pelem list) wire_step" where
  "set_property_step pw num typ b a =
     (if num = 1 then
        string_field pw typ b ''invalid setProperty dSUID field'' ''invalid setProperty dSUID''
          (\<lambda>v. (v, snd a))
      else if num = 2 then
        message_field pw typ b ''invalid setProperty properties field''
          ''invalid setProperty properties''
          (parsePbufPropertyElement pw) (\<lambda>e. (fst a, snd a @ [e]))
      else skip_field pw num typ b ''invalid setProperty field value'' a)"

definition parsePbufSetPropertyRequest ::
  "protowire \<Rightarrow> byte list \<Rightarrow> (string + string \<times> pelem list) option" where
  "parsePbufSetPropertyRequest pw body =
     wire_run pw ''invalid setProperty tag'' (set_property_step pw) body ('''', [])"

definition generic_request_step ::
  "protowire \<Rightarrow> int \<Rightarrow> int \<Rightarrow> byte list \<Rightarrow> string \<times> string \<times> pelem list
   \<Rightarrow> (string \<times> string \<times> pelem list) wire_step" where
  "generic_request_step pw num typ b a =
     (case a of (target, mname, params) \<Rightarrow>
      if num = 1 then
        string_field pw typ b ''invalid genericRequest dSUID field'' ''invalid genericRequest dSUID''
          (\<lambda>v. (v, mname, params))
      else if num = 2 then
        string_field pw typ b ''invalid genericRequest methodname field''
          ''invalid genericRequest methodname'' (\<lambda>v. (target, v, params))
      else if num = 3 then
        message_field pw typ b ''invalid genericRequest params field''
          ''invalid genericRequest params''
          (parsePbufPropertyElement pw) (\<lambda>e. (target, mname, params @ [e]))
      else skip_field pw num typ b ''invalid genericRequest field value'' a)"

definition parsePbufGenericRequest ::
  "protowire \<Rightarrow> byte list \<Rightarrow> (string + string \<times> string \<times> pelem list) option" where
  "parsePbufGenericRequest pw body =
     wire_run pw ''invalid genericRequest tag'' (generic_request_step pw) body ('''', '''', [])"

section \<open>Notifications\<close>

text \<open>A notification is read twice: once for its targets, once for the rest.\<close>

definition targets_step ::
  "protowire \<Rightarrow> int \<Rightarrow> int \<Rightarrow> byte list \<Rightarrow> string list \<Rightarrow> string list wire_step" where
  "targets_step pw num typ b a =
     (if num = 1 then
        string_field pw typ b ''invalid notification dSUID field'' ''invalid notification dSUID''
          (\<lambda>v. a @ [v])
      else skip_field pw num typ b ''invalid notification field value'' a)"

definition parsePbufNotificationTargets :: "protowire \<Rightarrow> byte list \<Rightarrow> (string + string list) option" where
  "parsePbufNotificationTargets pw body =
     wire_run pw ''invalid notification tag'' (targets_step pw) body []"

definition with_targets ::
  "protowire \<Rightarrow> byte list \<Rightarrow> (string + 'a) option \<Rightarrow> (string + string list \<times> 'a) option" where
  "with_targets pw body rest =
     (case parsePbufNotificationTargets pw body of
        None \<Rightarrow> None
      | Some (Inl e) \<Rightarrow> Some (Inl e)
      | Some (Inr ts) \<Rightarrow> map_option (map_sum id (Pair ts)) rest)"

definition scene_step :: "protowire \<Rightarrow> int \<Rightarrow> int \<Rightarrow> byte list \<Rightarrow> int \<Rightarrow> int wire_step" where
  "scene_step pw num typ b a =
     (if num = 2 then
        varint_field pw typ b ''invalid callScene scene field'' ''invalid callScene scene'' sint
      else skip_field pw num typ b ''invalid callScene field value'' a)"

definition parsePbufCallSceneNotification ::
  "protowire \<Rightarrow> byte list \<Rightarrow> (string + string list \<times> int) option" where
  "parsePbufCallSceneNotification pw body =
     with_targets pw body (wire_run pw ''invalid callScene tag'' (scene_step pw) body 0)"

definition control_value_step ::
  "protowire \<Rightarrow> int \<Rightarrow> int \<Rightarrow> byte list \<Rightarrow> string \<times> f64 \<times> bool \<Rightarrow> (string \<times> f64 \<times> bool) wire_step" where
  "control_value_step pw num typ b a =
     (if num = 2 then
        string_field pw typ b ''invalid setControlValue name field'' ''invalid setControlValue name''
          (\<lambda>v. (v, snd a))
      else if num = 3 then
        fixed64_field pw typ b ''invalid setControlValue value field''
          ''invalid setControlValue value'' (\<lambda>v. (fst a, v, True))
      else skip_field pw num typ b ''invalid setControlValue field value'' a)"

definition parsePbufSetControlValueNotification ::
  "protowire \<Rightarrow> byte list \<Rightarrow> (string + string list \<times> string \<times> f64 \<times> bool) option" where
  "parsePbufSetControlValueNotification pw body =
     with_targets pw body
       (wire_run pw ''invalid setControlValue tag'' (control_value_step pw) body ('''', 0, False))"

definition dim_step :: "protowire \<Rightarrow> int \<Rightarrow> int \<Rightarrow> byte list \<Rightarrow> int \<Rightarrow> int wire_step" where
  "dim_step pw num typ b a =
     (if num = 3 then
        varint_field pw typ b ''invalid dimChannel mode field'' ''invalid dimChannel mode'' sint
      else skip_field pw num typ b ''invalid dimChannel field value'' a)"

definition parsePbufDimChannelNotification ::
  "protowire \<Rightarrow> byte list \<Rightarrow> (string + string list \<times> int) option" where
  "parsePbufDimChannelNotification pw body =
     with_targets pw body (wire_run pw ''invalid dimChannel tag'' (dim_step pw) body 0)"

record output_channel_value =
  oc_value :: f64
  oc_channelIndex :: int
  oc_applyNow :: bool
  oc_hasValue :: bool

definition output_channel_step ::
  "protowire \<Rightarrow> int \<Rightarrow> int \<Rightarrow> byte list \<Rightarrow> output_channel_value \<Rightarrow> output_channel_value wire_step" where
  "output_channel_step pw num typ b a =
     (if num = 2 then
        varint_field pw typ b ''invalid setOutputChannelValue apply_now field''
          ''invalid setOutputChannelValue apply_now'' (\<lambda>v. a\<lparr>oc_applyNow := (v \<noteq> 0)\<rparr>)
      else if num = 3 then
        (if typ \<noteq> VarintType
         then skip_field pw num typ b ''invalid setOutputChannelValue channelIndex field'' a
         else varint_field pw typ b '''' ''invalid setOutputChannelValue channelIndex''
                (\<lambda>v. a\<lparr>oc_channelIndex := sint v\<rparr>))
      else if num = 4 then
        fixed64_field pw typ b ''invalid setOutputChannelValue value field''
          ''invalid setOutputChannelValue value'' (\<lambda>v. a\<lparr>oc_value := v, oc_hasValue := True\<rparr>)
      else skip_field pw num typ b ''invalid setOutputChannelValue field value'' a)"

definition parsePbufSetOutputChannelValueNotification ::
  "protowire \<Rightarrow> byte list \<Rightarrow> (string + string list \<times> output_channel_value) option" where
  "parsePbufSetOutputChannelValueNotification pw body =
     with_targets pw body
       (wire_run pw ''invalid setOutputChannelValue tag'' (output_channel_step pw) body
          \<lparr>oc_value = 0, oc_channelIndex = 0, oc_applyNow = True, oc_hasValue = False\<rparr>)"

section \<open>Single fields\<close>

definition dsuid_step :: "protowire \<Rightarrow> int \<Rightarrow> int \<Rightarrow> byte list \<Rightarrow> string \<Rightarrow> string wire_step" where
  "dsuid_step pw num typ b a =
     (if num = 1 \<and> typ = BytesType then
        (case pw_consume_string pw b of None \<Rightarrow> StepRet '''' | Some (v, n) \<Rightarrow> StepRet v)
      else case pw_consume_field_value pw num typ b of
             None \<Rightarrow> StepRet '''' | Some n \<Rightarrow> StepNext a n)"

definition parsePbufDSUIDField :: "protowire \<Rightarrow> byte list \<Rightarrow> string option" where
  "parsePbufDSUIDField pw body =
     map_option (case_sum (\<lambda>e. '''') id) (wire_run pw '''' (dsuid_step pw) body '''')"

definition parsePbufPingDSUID :: "protowire \<Rightarrow> byte list \<Rightarrow> string option" where
  "parsePbufPingDSUID pw body = parsePbufDSUIDField pw body"

text \<open>
  \<^verbatim>\<open>parsePbufGenericResponseCode\<close> slices \<^verbatim>\<open>body[max(n, 1):]\<close>: with a value that cannot be
  read, \<open>n\<close> is negative and one byte is skipped; with no byte left the slice is out of range and Go
  panics. A known field of another wire type is not skipped at all: its value is read as tags.
\<close>

datatype 'a outcome = Returned 'a | Panicked | OutOfFuel

primrec generic_response_loop ::
  "nat \<Rightarrow> protowire \<Rightarrow> byte list \<Rightarrow> u64 \<times> string \<times> u64 \<Rightarrow> (u64 \<times> string \<times> u64) outcome" where
  "generic_response_loop 0 pw body r = (if body = [] then Returned r else OutOfFuel)"
| "generic_response_loop (Suc fuel) pw body r =
     (if body = [] then Returned r
      else case pw_consume_tag pw body of
        None \<Rightarrow> Returned (0, '''', 0)
      | Some (num, typ, n) \<Rightarrow>
        (let b = drop n body;
             slice = (\<lambda>m r'. if m \<le> length b then generic_response_loop fuel pw (drop m b) r'
                             else Panicked)
         in case r of (code, desc, et) \<Rightarrow>
         if num = 1 then
           (if typ = VarintType then
              (case pw_consume_varint pw b of
                 None \<Rightarrow> slice 1 r | Some (v, k) \<Rightarrow> slice (max k 1) (v, desc, et))
            else generic_response_loop fuel pw b r)
         else if num = 2 then
           (if typ = BytesType then
              (case pw_consume_string pw b of
                 None \<Rightarrow> slice 1 r | Some (v, k) \<Rightarrow> slice (max k 1) (code, v, et))
            else generic_response_loop fuel pw b r)
         else if num = 3 then
           (if typ = VarintType then
              (case pw_consume_varint pw b of
                 None \<Rightarrow> slice 1 r | Some (v, k) \<Rightarrow> slice (max k 1) (code, desc, v))
            else generic_response_loop fuel pw b r)
         else case pw_consume_field_value pw num typ b of
                None \<Rightarrow> Returned r
              | Some k \<Rightarrow> generic_response_loop fuel pw (drop k b) r))"

definition parsePbufGenericResponseCode ::
  "protowire \<Rightarrow> byte list \<Rightarrow> (u64 \<times> string \<times> u64) outcome" where
  "parsePbufGenericResponseCode pw body = generic_response_loop (length body) pw body (0, '''', 0)"

end
