(* ===== verification/Pbuf_Codec.thy ===== *)
theory Pbuf_Codec
  imports Pbuf_Decode
begin

text \<open>
  Facts about encoders and decoders together: every decoder returns, an encoded property element is
  read back (integers in the normal form the encoder puts them in), a frame is read back when its
  payload fits, and what a response frame parses to.
\<close>

section \<open>Reading frames\<close>

text \<open>\<^verbatim>\<open>readPbufFrame\<close> on the bytes that arrive; a stream that ends early is a read error.\<close>

datatype frame_error = ReadError | InvalidSize nat

definition pbufMaxMessageSize :: nat where
  "pbufMaxMessageSize = 16384"

fun readPbufFrame :: "byte list \<Rightarrow> frame_error + byte list \<times> byte list" where
  "readPbufFrame (h # l # r) =
     (let n = unat ((push_bit 8 (ucast h) OR ucast l) :: u16)
      in if n = 0 \<or> pbufMaxMessageSize < n then Inl (InvalidSize n)
         else if length r < n then Inl ReadError
         else Inr (take n r, drop n r))"
| "readPbufFrame _ = Inl ReadError"

lemma header_word:
  "push_bit 8 (ucast (ucast (drop_bit 8 n) :: byte)) OR ucast (ucast n :: byte) = n" for n :: u16
proof (rule bit_word_eqI)
  fix i assume "i < LENGTH(16)"
  then show "bit (push_bit 8 (ucast (ucast (drop_bit 8 n) :: byte)) OR ucast (ucast n :: byte) :: u16) i =
        bit n i"
    by (auto simp: bit_simps)
qed

lemma readPbufFrame_buildPbufFrame:
  "readPbufFrame (buildPbufFrame p @ r) =
     (let n = length p mod 2 ^ 16
      in if n = 0 \<or> pbufMaxMessageSize < n then Inl (InvalidSize n)
         else Inr (take n (p @ r), drop n (p @ r)))"
  using mod_less_eq_dividend [of "length p" "2 ^ 16"]
  by (simp add: buildPbufFrame_def header_word unat_of_nat Let_def)

section \<open>Termination of the decoders\<close>

context wire
begin

lemma parse_value_terminates: "parsePbufPropertyValue pw b \<noteq> None"
  unfolding parsePbufPropertyValue_def
  by (rule wire_run_terminates)
    (simp add: value_step_def split: option.split)

lemma parse_depth_terminates: "length body < d \<Longrightarrow> parse_element_depth d pw body \<noteq> None"
proof (induction d arbitrary: body)
  case (Suc d)
  have "wire_run pw ''invalid property element tag'' (element_step pw (parse_element_depth d pw)) body
          (PElem '''' GNil []) \<noteq> None"
    using Suc parse_value_terminates
    by (intro wire_run_terminates) (auto simp: element_step_def intro!: message_field_fuel)
  then show ?case by simp
qed simp

lemma parse_element_terminates: "parsePbufPropertyElement pw b \<noteq> None"
  unfolding parsePbufPropertyElement_def by (rule parse_depth_terminates) simp

lemma run_terminates_step:
  assumes "\<And>num wt b a. step num wt b a \<noteq> StepFuel"
  shows "wire_run pw err step body acc \<noteq> None"
  using assms by (intro wire_run_terminates) auto

lemma parse_envelope_terminates: "parsePbufEnvelope pw b \<noteq> None"
proof -
  have "wire_run pw ''invalid protobuf tag'' (envelope_step pw) b a \<noteq> None" for a
    by (rule run_terminates_step) (auto simp: envelope_step_def split: option.splits)
  then show ?thesis
    by (auto simp: parsePbufEnvelope_def split: option.splits sum.splits)
qed

lemma with_targets_terminates: "rest \<noteq> None \<Longrightarrow> with_targets pw body rest \<noteq> None"
proof -
  have "parsePbufNotificationTargets pw body \<noteq> None"
    unfolding parsePbufNotificationTargets_def
      by (rule run_terminates_step) (simp add: targets_step_def)
  then show "rest \<noteq> None \<Longrightarrow> with_targets pw body rest \<noteq> None"
    by (auto simp: with_targets_def split: sum.splits)
qed

lemma steps_no_fuel [simp]:
  "hello_step pw num wt b a1 \<noteq> StepFuel"
  "targets_step pw num wt b a2 \<noteq> StepFuel"
  "scene_step pw num wt b a3 \<noteq> StepFuel"
  "control_value_step pw num wt b a4 \<noteq> StepFuel"
  "dim_step pw num wt b a5 \<noteq> StepFuel"
  "output_channel_step pw num wt b a6 \<noteq> StepFuel"
  "dsuid_step pw num wt b a7 \<noteq> StepFuel"
  by (simp_all add: hello_step_def targets_step_def scene_step_def control_value_step_def
      dim_step_def output_channel_step_def dsuid_step_def split: option.split)

lemma element_message_no_fuel [simp]:
  "message_field pw wt b e1 e2 (parsePbufPropertyElement pw) k \<noteq> StepFuel"
  by (rule message_field_fuel) (rule parse_element_terminates)

lemma request_steps_no_fuel [simp]:
  "get_property_step pw num wt b a \<noteq> StepFuel"
  "set_property_step pw num wt b a \<noteq> StepFuel"
  "generic_request_step pw num wt b a' \<noteq> StepFuel"
  by (simp_all add: get_property_step_def set_property_step_def generic_request_step_def
      split: prod.split)

lemma parse_requests_terminate:
  "parsePbufHelloRequest pw b \<noteq> None"
  "parsePbufGetPropertyRequest pw b \<noteq> None"
  "parsePbufSetPropertyRequest pw b \<noteq> None"
  "parsePbufGenericRequest pw b \<noteq> None"
  "parsePbufDSUIDField pw b \<noteq> None"
  unfolding parsePbufHelloRequest_def parsePbufGetPropertyRequest_def parsePbufSetPropertyRequest_def
    parsePbufGenericRequest_def parsePbufDSUIDField_def option.map_disc_iff
  by (rule run_terminates_step, simp)+

lemma parse_notifications_terminate:
  "parsePbufNotificationTargets pw b \<noteq> None"
  "parsePbufCallSceneNotification pw b \<noteq> None"
  "parsePbufSetControlValueNotification pw b \<noteq> None"
  "parsePbufDimChannelNotification pw b \<noteq> None"
  "parsePbufSetOutputChannelValueNotification pw b \<noteq> None"
  unfolding parsePbufNotificationTargets_def parsePbufCallSceneNotification_def
    parsePbufSetControlValueNotification_def parsePbufDimChannelNotification_def
    parsePbufSetOutputChannelValueNotification_def
  by (rule run_terminates_step, simp, (rule with_targets_terminates, rule run_terminates_step, simp)+)

end

section \<open>Round trip of property elements\<close>

text \<open>
  The encoder puts integers in one normal form (not negative as unsigned, negative as signed) and
  has no encoding for a container held as a value.
\<close>

fun norm_value :: "gany \<Rightarrow> gany" where
  "norm_value (GInt x) = (if 0 \<le> x then GUint64 (word_of_int x) else GInt64 (word_of_int x))"
| "norm_value (GInt64 x) = (if 0 \<le> sint x then GUint64 x else GInt64 x)"
| "norm_value (GObj m) = GNil"
| "norm_value (GArr xs) = GNil"
| "norm_value (GStrs xs) = GNil"
| "norm_value v = v"

fun norm_element :: "pelem \<Rightarrow> pelem" where
  "norm_element (PElem n v es) = PElem n (norm_value v) (map norm_element es)"

context wire
begin

lemma parse_encoded_value:
  "length (encodePropertyValue pw v) < 2 ^ 63 \<Longrightarrow> encodePropertyValue pw v \<noteq> [] \<Longrightarrow>
   parsePbufPropertyValue pw (encodePropertyValue pw v) = Some (Inr (norm_value v))"
proof (cases v)
  case (GStr s)
  assume len: "length (encodePropertyValue pw v) < 2 ^ 63"
  have "length s < 2 ^ 63" using len string_longer [of s] GStr by simp
  with GStr show ?thesis
    by (simp add: parsePbufPropertyValue_def value_step_def wire_run_field)
next
  case (GBytes bs)
  assume len: "length (encodePropertyValue pw v) < 2 ^ 63"
  have "length bs < 2 ^ 63" using len bytes_longer [of bs] GBytes by simp
  with GBytes show ?thesis
    by (simp add: parsePbufPropertyValue_def value_step_def wire_run_field)
qed (simp_all add: parsePbufPropertyValue_def value_step_def wire_run_field)

lemma encode_value_Nil_iff: "encodePropertyValue pw v = [] \<longleftrightarrow> norm_value v = GNil"
  by (cases v) (simp_all add: tag_nonempty)

lemma encode_value_element:
  "(case v of GNil \<Rightarrow> []
    | _ \<Rightarrow> let pv = encodePropertyValue pw v
           in if pv \<noteq> [] then pw_tag pw 2 BytesType @ pw_bytes pw pv else []) =
   (if norm_value v = GNil then []
    else pw_tag pw 2 BytesType @ pw_bytes pw (encodePropertyValue pw v))"
  using encode_value_Nil_iff [of v] by (cases v) (auto simp: Let_def)

lemma parse_children:
  assumes "\<And>c. c \<in> set cs \<Longrightarrow> length (encodePropertyElement pw c) < 2 ^ 63 \<and>
             parse_child (encodePropertyElement pw c) = Some (Inr (norm_element c))"
  shows "wire_run pw err (element_step pw parse_child)
           (concat (map (\<lambda>c. pw_tag pw 3 BytesType @ pw_bytes pw (encodePropertyElement pw c)) cs))
           (PElem n v es) =
         Some (Inr (PElem n v (es @ map norm_element cs)))"
  using assms
proof (induction cs arbitrary: es)
  case (Cons c cs)
  then show ?case
    by (simp add: wire_run_field element_step_def)
qed simp

lemma parse_encoded_element:
  "length (encodePropertyElement pw e) < 2 ^ 63 \<Longrightarrow> length (encodePropertyElement pw e) < d \<Longrightarrow>
   parse_element_depth d pw (encodePropertyElement pw e) = Some (Inr (norm_element e))"
proof (induction e arbitrary: d)
  case (PElem n v es)
  from PElem.prems obtain d' where d: "d = Suc d'" by (cases d) auto
  let ?kids = "concat (map (\<lambda>c. pw_tag pw 3 BytesType @ pw_bytes pw (encodePropertyElement pw c)) es)"
  let ?step = "element_step pw (parse_element_depth d' pw)"
  let ?err = "''invalid property element tag''"
  have kid: "length (encodePropertyElement pw c) < 2 ^ 63 \<and>
      parse_element_depth d' pw (encodePropertyElement pw c) = Some (Inr (norm_element c))"
    if c: "c \<in> set es" for c
  proof -
    from c have "length (pw_bytes pw (encodePropertyElement pw c)) \<le> length ?kids"
      by (auto simp: length_concat comp_def elim!: split_list sum_list.append [THEN subst]
          dest!: split_list)
    with bytes_longer [of "encodePropertyElement pw c"]
    have "length (encodePropertyElement pw c) < length (encodePropertyElement pw (PElem n v es))"
      by simp
    with PElem.IH [OF c] PElem.prems d show ?thesis by simp
  qed
  have kids: "wire_run pw ?err ?step ?kids (PElem n w []) =
      Some (Inr (PElem n w (map norm_element es)))" for w
    using parse_children [OF kid, of es ?err n w "[]"] by simp
  have rest: "wire_run pw ?err ?step
      ((if norm_value v = GNil then []
        else pw_tag pw 2 BytesType @ pw_bytes pw (encodePropertyValue pw v)) @ ?kids)
      (PElem n GNil []) = Some (Inr (PElem n (norm_value v) (map norm_element es)))"
  proof (cases "norm_value v = GNil")
    case False
    from False PElem.prems(1) have len: "length (encodePropertyValue pw v) < 2 ^ 63"
      using bytes_longer [of "encodePropertyValue pw v"] by (simp add: encode_value_element)
    with False have "parsePbufPropertyValue pw (encodePropertyValue pw v) = Some (Inr (norm_value v))"
      by (intro parse_encoded_value) (auto simp: encode_value_Nil_iff)
    with False len kids show ?thesis
      by (simp add: wire_run_field element_step_def)
  qed (simp add: kids)
  show ?case
  proof (cases "n = []")
    case True
    with rest show ?thesis by (simp add: d encode_value_element)
  next
    case False
    then have "length n < 2 ^ 63" using string_longer [of n] PElem.prems(1) by simp
    then have "?step 1 BytesType (pw_string pw n @ r) (PElem [] GNil []) =
        StepNext (PElem n GNil []) (length (pw_string pw n))" for r
      by (simp add: element_step_def)
    then have "wire_run pw ?err ?step (pw_tag pw 1 BytesType @ pw_string pw n @ r) (PElem [] GNil [])
        = wire_run pw ?err ?step r (PElem n GNil [])" for r
      by (simp add: wire_run_field)
    from this rest False show ?thesis
      by (simp only: d parse_element_depth.simps encodePropertyElement.simps
          encode_value_element if_True if_not_P append_assoc not_False_eq_True norm_element.simps simp_thms)
  qed
qed

lemma parse_encode_element:
  "length (encodePropertyElement pw e) < 2 ^ 63 \<Longrightarrow>
   parsePbufPropertyElement pw (encodePropertyElement pw e) = Some (Inr (norm_element e))"
  unfolding parsePbufPropertyElement_def by (rule parse_encoded_element) auto

section \<open>Generic responses\<close>

lemma generic_loop_fuel: "length body \<le> f \<Longrightarrow> generic_response_loop f pw body r \<noteq> OutOfFuel"
proof (induction f arbitrary: body r)
  case (Suc f)
  have shorter: "generic_response_loop f pw (drop k (drop n body)) r' \<noteq> OutOfFuel"
    if "pw_consume_tag pw body = Some (num, wt, n)" for num wt n k r'
    using tag_len [OF that] Suc.prems by (intro Suc.IH) auto
  from shorter [where k = 0] have now: "generic_response_loop f pw (drop n body) r' \<noteq> OutOfFuel"
    if "pw_consume_tag pw body = Some (num, wt, n)" for num wt n r'
    using that by simp
  show ?case
    using shorter now by (auto simp: Let_def split: option.split prod.split simp del: drop_drop)
qed simp

lemma generic_response_parse:
  assumes "length d < 2 ^ 63"
  shows "parsePbufGenericResponseCode pw
     (pw_tag pw 1 VarintType @ pw_varint pw code @ opt_string pw 2 d) = Returned (code, d, 0)"
proof -
  have pos: "0 < length (pw_tag pw 1 VarintType)" "0 < length (pw_varint pw code)"
     "0 < length (pw_tag pw 2 BytesType)" "0 < length (pw_string pw d)"
    using tag_nonempty [of 1 VarintType] tag_nonempty [of 2 BytesType] string_longer [of d]
      varint_len [OF varint_varint [of code "[]"]] by auto
  have one: "generic_response_loop (Suc f) pw (pw_tag pw 1 VarintType @ pw_varint pw code @ r) (0, s, t)
      = generic_response_loop f pw r (code, s, t)" for f r s t
    using pos by (simp add: tag_tag varint_varint Let_def max_def Suc_le_eq tag_nonempty)
  have two: "generic_response_loop (Suc f) pw (pw_tag pw 2 BytesType @ pw_string pw d) (code, [], t)
      = generic_response_loop f pw [] (code, d, t)" for f t
    using pos assms string_string [of d "[]"]
    by (simp add: tag_tag Let_def max_def Suc_le_eq tag_nonempty)
  have nil: "generic_response_loop f pw [] r = Returned r" for f r by (cases f) auto
  obtain f where f: "length (pw_tag pw 1 VarintType @ pw_varint pw code @ opt_string pw 2 d) = Suc (Suc f)"
  proof -
    have "2 \<le> length (pw_tag pw 1 VarintType @ pw_varint pw code @ opt_string pw 2 d)"
      using pos(1,2) by (simp only: length_append)
    with that show thesis by (metis le_Suc_ex add_2_eq_Suc)
  qed
  have "parsePbufGenericResponseCode pw
     (pw_tag pw 1 VarintType @ pw_varint pw code @ opt_string pw 2 d) =
     generic_response_loop (Suc f) pw (opt_string pw 2 d) (code, [], 0)"
    by (simp only: parsePbufGenericResponseCode_def f one)
  also have "\<dots> = Returned (code, d, 0)"
    by (cases "d = []")
      (simp_all only: opt_string_def two nil if_True if_False not_False_eq_True simp_thms)
  finally show ?thesis .
qed

lemma parse_generic_envelope:
  assumes len: "length sub < 2 ^ 63" and num: "2 < num" "num < 2 ^ 29"
  shows "parsePbufEnvelope pw (msg_head pw t @ msg_id pw i has @ sub_message pw num sub) =
     (if t = 0 then Some (Inl ''missing message type'')
      else Some (Inr \<lparr>ev_type = t, ev_id = (if has then i else 0), ev_hasID = has,
                      ev_sub = [(num, sub)]\<rparr>))"
proof -
  have "ucast (ucast i :: u64) = i" by (rule bit_word_eqI) (auto simp: bit_simps)
  with num len show ?thesis
    by (simp add: parsePbufEnvelope_def msg_head_def msg_id_def sub_message_def wire_run_field
        envelope_step_def)
qed

end

section \<open>Properties\<close>



text \<open>
  C12: a property element the server encodes is decoded again, names, values and nested elements,
  up to the integer normal form of the encoding (and containers held as values, which have none).
\<close>

theorem property_element_roundtrip:
  assumes "wire pw" and "length (encodePropertyElement pw e) < 2 ^ 63"
  shows "parsePbufPropertyElement pw (encodePropertyElement pw e) = Some (Inr (norm_element e))"
  using wire.parse_encode_element [OF assms] .

theorem property_element_roundtrip_witness:
  "parsePbufPropertyElement std_wire (encodePropertyElement std_wire (PElem ''a'' (GBool True) [])) =
     Some (Inr (PElem ''a'' (GBool True) []))"
proof -
  have "length (encodePropertyElement std_wire (PElem ''a'' (GBool True) [])) < 2 ^ 63"
    by (simp add: std_wire_eval)
  from property_element_roundtrip [OF std.wire_axioms this] show ?thesis by simp
qed

text \<open>
  C28: \<^verbatim>\<open>buildPbufFrame\<close> is undone by \<^verbatim>\<open>readPbufFrame\<close>, whatever follows on the stream, exactly when
  the payload has 1 to 16384 bytes; a longer one is refused or, from 65536 bytes, cut.
\<close>

theorem frame_roundtrip:
  "readPbufFrame (buildPbufFrame p @ r) = Inr (p, r) \<longleftrightarrow> 0 < length p \<and> length p \<le> 16384"
proof -
  have "length p \<noteq> length p mod 2 ^ 16" if "length p > 16384" "length p mod 2 ^ 16 \<le> 16384"
    using that by linarith
  moreover have "length p mod 2 ^ 16 = length p" if "length p \<le> 16384"
    using that by simp
  ultimately show ?thesis
    unfolding readPbufFrame_buildPbufFrame pbufMaxMessageSize_def Let_def
    by (cases "length p \<le> 16384") (auto dest: arg_cong [where f = length])
qed

lemma readPbufFrame_payload:
  assumes "readPbufFrame (buildPbufFrame x) = Inr (p, [])"
  shows "p = x \<and> length x \<le> 16384"
  using assms readPbufFrame_buildPbufFrame [of x "[]"]
  by (auto simp: pbufMaxMessageSize_def Let_def split: if_splits)

text \<open>
  A generic response the server sends is what the peer's reader gets back: once the frame is
  read, the envelope has type 1 and the message id, and its submessage 3 the code and description.
\<close>

theorem generic_response_roundtrip:
  assumes "wire pw" and "readPbufFrame (buildPbufGenericResponse pw i has code d) = Inr (p, [])"
  shows "\<exists>e sub. parsePbufEnvelope pw p = Some (Inr e) \<and> ev_type e = pbufTypeGenericResponse \<and>
     ev_hasID e = has \<and> ev_id e = (if has then i else 0) \<and> map_of (ev_sub e) 3 = Some sub \<and>
     parsePbufGenericResponseCode pw sub = Returned (code, d, 0)"
proof -
  let ?sub = "pw_tag pw 1 VarintType @ pw_varint pw code @ opt_string pw 2 d"
  from readPbufFrame_payload [OF assms(2) [unfolded buildPbufGenericResponse_def]]
  have p: "p = msg_head pw pbufTypeGenericResponse @ msg_id pw i has @ sub_message pw 3 ?sub"
    and len: "length p \<le> 16384" by auto
  have "length ?sub < length (pw_bytes pw ?sub)"
    by (rule wire.bytes_longer [OF assms(1)])
  with len p have sub: "length ?sub < 2 ^ 63" by (simp add: sub_message_def)
  moreover have "length d < 2 ^ 63"
    using sub wire.string_longer [OF assms(1), of d]
    by (cases "d = []") (auto simp: opt_string_def)
  ultimately show ?thesis
    by (simp add: p wire.parse_generic_envelope [OF assms(1)] wire.generic_response_parse [OF assms(1)])
qed

theorem generic_response_roundtrip_witness:
  "\<exists>p e sub. parsePbufEnvelope std_wire p = Some (Inr e) \<and> ev_id e = 7 \<and>
     map_of (ev_sub e) 3 = Some sub \<and>
     parsePbufGenericResponseCode std_wire sub = Returned (12, ''no'', 0)"
proof -
  have "readPbufFrame (buildPbufGenericResponse std_wire 7 True 12 ''no'') =
      Inr ([8, 1, 16, 7, 26, 6, 8, 12, 18, 2, 110, 111], [])" 
    by (simp add: std_wire_eval buildPbufGenericResponse_def msg_head_def msg_id_def sub_message_def
        opt_string_def buildPbufFrame_def pbufMaxMessageSize_def Let_def)
  from generic_response_roundtrip [OF std.wire_axioms this] show ?thesis by auto
qed

text \<open>
  C32: a generic response whose code is cut off right after its tag makes
  \<^verbatim>\<open>parsePbufGenericResponseCode\<close> slice out of range: the reader panics instead of skipping.
\<close>

theorem generic_response_cut_panics:
  assumes "wire pw" and "t = 1 \<or> t = 3"
  shows "parsePbufGenericResponseCode pw (pw_tag pw t VarintType) = Panicked"
proof -
  have tag: "pw_consume_tag pw (pw_tag pw t VarintType) = Some (t, 0, length (pw_tag pw t VarintType))"
    using wire.tag_tag [OF assms(1), of t VarintType "[]"] assms(2) by auto
  have "pw_consume_varint pw [] = None"
    using wire.varint_len [OF assms(1), of "[]"] by (cases "pw_consume_varint pw []") fastforce+
  with tag assms(2) show ?thesis
    using wire.tag_nonempty [OF assms(1), of t VarintType]
    by (cases "length (pw_tag pw t VarintType)") (auto simp: parsePbufGenericResponseCode_def)
qed

theorem generic_response_cut_panics_witness:
  "parsePbufGenericResponseCode std_wire (pw_tag std_wire 1 0) = Panicked"
  using generic_response_cut_panics [OF std.wire_axioms, of 1] by simp

end
