(* ===== verification/Go_Map.thy ===== *)
theory Go_Map
  imports Go_Base
begin

text \<open>
  Go maps and the interface of a keyed store. \<open>go_get\<close> is a map lookup that yields the zero value of
  the type for a missing key. The locale \<open>keyed_put\<close> is what a component relies on when it stores
  values under keys and looks them up again; \<open>keyed_store\<close> adds removal. Both are interpreted here on
  plain Go maps and in the theories of the stores on their own operations.
\<close>

definition go_get :: "'v \<Rightarrow> ('k, 'v) gomap \<Rightarrow> 'k \<Rightarrow> 'v" where
  "go_get z m k = (case map_of m k of Some v \<Rightarrow> v | None \<Rightarrow> z)"

definition go_has :: "('k, 'v) gomap \<Rightarrow> 'k \<Rightarrow> bool" where
  "go_has m k \<longleftrightarrow> map_of m k \<noteq> None"

text \<open>Two maps with the same entries; the order of the entries is not observable.\<close>

definition same_map :: "('k, 'v) gomap \<Rightarrow> ('k, 'v) gomap \<Rightarrow> bool" where
  "same_map m n \<longleftrightarrow> (\<forall>k. map_of m k = map_of n k)"

lemma map_of_update [simp]: "map_of (AList.update k v m) j = (if j = k then Some v else map_of m j)"
  by (simp add: AList.update_conv')

lemma map_of_delete [simp]: "map_of (AList.delete k m) j = (if j = k then None else map_of m j)"
  by (simp add: AList.delete_conv')

lemma go_get_update [simp]: "go_get z (AList.update k v m) j = (if j = k then v else go_get z m j)"
  by (simp add: go_get_def)

lemma go_get_Nil [simp]: "go_get z [] k = z"
  by (simp add: go_get_def)

lemma go_has_update [simp]: "go_has (AList.update k v m) j \<longleftrightarrow> j = k \<or> go_has m j"
  by (simp add: go_has_def)

lemma go_has_delete [simp]: "go_has (AList.delete k m) j \<longleftrightarrow> j \<noteq> k \<and> go_has m j"
  by (simp add: go_has_def)

lemma go_has_iff_keys: "go_has m k \<longleftrightarrow> k \<in> set (map fst m)"
  by (auto simp: go_has_def map_of_eq_None_iff)

lemma distinct_keys_update [simp]: "distinct (map fst m) \<Longrightarrow> distinct (map fst (AList.update k v m))"
  by (rule AList.distinct_update)

lemma distinct_keys_delete [simp]: "distinct (map fst m) \<Longrightarrow> distinct (map fst (AList.delete k m))"
  by (rule AList.distinct_delete)

lemma set_update_cases: "x \<in> set (AList.update k v m) \<Longrightarrow> x = (k, v) \<or> x \<in> set m"
  by (induction m) (auto split: if_splits)

lemma set_delete_subset: "x \<in> set (AList.delete k m) \<Longrightarrow> x \<in> set m"
  by (auto simp: AList.delete_eq)

lemma update_fresh: "k \<notin> set (map fst m) \<Longrightarrow> AList.update k v m = m @ [(k, v)]"
  by (induction m) auto

lemma foldl_update_fresh:
  assumes "distinct (map fst kvs)" "set (map fst kvs) \<inter> set (map fst m) = {}"
  shows "foldl (\<lambda>m (k, v). AList.update k v m) m kvs = m @ kvs"
  using assms
proof (induction kvs arbitrary: m)
  case (Cons p kvs)
  then show ?case by (cases p) (auto simp: update_fresh)
qed simp

text \<open>A loop that returns at the first element that yields a result.\<close>

fun first_some :: "('a \<Rightarrow> 'b option) \<Rightarrow> 'a list \<Rightarrow> 'b option" where
  "first_some f [] = None"
| "first_some f (x # xs) = (case f x of Some y \<Rightarrow> Some y | None \<Rightarrow> first_some f xs)"

lemma first_some_None_iff: "first_some f xs = None \<longleftrightarrow> (\<forall>x \<in> set xs. f x = None)"
  by (induction xs) (auto split: option.split)

lemma first_some_SomeD: "first_some f xs = Some y \<Longrightarrow> \<exists>x \<in> set xs. f x = Some y"
  by (induction xs) (auto split: option.splits)

lemma first_some_hd: "first_some f (x # xs) = None \<Longrightarrow> first_some f [x] = None"
  by (auto split: option.splits)

lemma first_some_append:
  "first_some f (xs @ ys) = (case first_some f xs of Some y \<Rightarrow> Some y | None \<Rightarrow> first_some f ys)"
  by (induction xs) (auto split: option.split)

locale keyed_put =
  fixes look :: "'s \<Rightarrow> 'k \<Rightarrow> 'v option"
    and store :: "'k \<Rightarrow> 'v \<Rightarrow> 's \<Rightarrow> 's"
  assumes look_store: "look (store k v s) j = (if j = k then Some v else look s j)"
begin

lemma look_store_same [simp]: "look (store k v s) k = Some v"
  by (simp add: look_store)

lemma look_store_other [simp]: "j \<noteq> k \<Longrightarrow> look (store k v s) j = look s j"
  by (simp add: look_store)

lemma store_twice: "look (store k w (store k v s)) j = look (store k w s) j"
  by (simp add: look_store)

lemma store_commute: "k \<noteq> l \<Longrightarrow> look (store k v (store l w s)) j = look (store l w (store k v s)) j"
  by (simp add: look_store)

lemma look_fold:
  "look (fold (\<lambda>(k, v). store k v) kvs s) j =
     (case map_of (rev kvs) j of Some v \<Rightarrow> Some v | None \<Rightarrow> look s j)"
  by (induction kvs arbitrary: s)
    (auto simp: look_store map_add_def split: option.splits)

end

locale keyed_store = keyed_put look store
  for look :: "'s \<Rightarrow> 'k \<Rightarrow> 'v option" and store +
  fixes discard :: "'k \<Rightarrow> 's \<Rightarrow> 's"
  assumes look_discard: "look (discard k s) j = (if j = k then None else look s j)"
begin

lemma discard_store: "look (discard k (store k v s)) j = look (discard k s) j"
  by (simp add: look_discard look_store)

lemma store_discard: "look (store k v (discard k s)) j = look (store k v s) j"
  by (simp add: look_discard look_store)

end

interpretation gm: keyed_store map_of AList.update AList.delete
  by unfold_locales simp_all

end
