(* ===== verification/State_Store.thy ===== *)
theory State_Store
  imports Pbuf_Codec Go_Map
begin

text \<open>
  The mirror of the external devices (\<^verbatim>\<open>pkg/vdcapi/state_store.go\<close>) and the events it consumes
  (\<^verbatim>\<open>pkg/runtime/events.go\<close>). A nil inner map of a device is the empty map, an event's type is
  \<open>event_type\<close>, \<^verbatim>\<open>time.Now()\<close> is the argument \<open>now\<close>, and a subscriber's channel is the queue of
  at most 16 updates not yet received. The struct copies that Go hands out share their inner maps
  with the store; here a copy is a value.
\<close>

section \<open>Events\<close>

datatype event_type =
    EventInit | EventRemove | EventChannel | EventButton | EventButtonAction | EventButtonDescriptor
  | EventInput | EventSensor | EventSensorDescriptor | EventBinaryInputDescriptor | EventActive
  | EventDeviceMeta | EventOther string

record sensor_descriptor =
  sd_Type :: int
  sd_Usage :: int
  sd_Name :: string
  sd_Min :: f64
  sd_Max :: f64
  sd_Resolution :: f64
  sd_SIUnit :: string
  sd_Symbol :: string

record button_descriptor =
  bd_Name :: string
  bd_ButtonID :: int
  bd_ButtonType :: int
  bd_Element :: int
  bd_Group :: int
  bd_LocalButton :: bool

record binary_input_descriptor =
  id_Name :: string
  id_Function :: int

record event =
  e_Type :: event_type
  e_Tag :: string
  e_UniqueID :: string
  e_Name :: string
  e_Output :: string
  e_Index :: int
  e_Value :: f64
  e_Action :: string
  e_Active :: bool
  e_Connection :: string
  e_Dimmable :: "bool option"
  e_SensorDescriptor :: "sensor_descriptor option"
  e_BinaryInputDescriptor :: "binary_input_descriptor option"
  e_ButtonDescriptor :: "button_descriptor option"
  e_VendorName :: string
  e_ModelName :: string
  e_ModelVersion :: string

text \<open>An event in which only the fields named are set.\<close>

definition event0 :: "event_type \<Rightarrow> event" where
  "event0 t = \<lparr>e_Type = t, e_Tag = [], e_UniqueID = [], e_Name = [], e_Output = [], e_Index = 0,
     e_Value = 0, e_Action = [], e_Active = False, e_Connection = [], e_Dimmable = None,
     e_SensorDescriptor = None, e_BinaryInputDescriptor = None, e_ButtonDescriptor = None,
     e_VendorName = [], e_ModelName = [], e_ModelVersion = []\<rparr>"

section \<open>Devices\<close>

record device =
  d_Key :: string
  d_UniqueID :: string
  d_Name :: string
  d_Output :: string
  d_Dimmable :: bool
  d_Channels :: "(int, f64) gomap"
  d_ChannelUpdatedAt :: "(int, nat) gomap"
  d_Buttons :: "(int, f64) gomap"
  d_ButtonUpdatedAt :: "(int, nat) gomap"
  d_ButtonActions :: "(int, string) gomap"
  d_Inputs :: "(int, f64) gomap"
  d_InputUpdatedAt :: "(int, nat) gomap"
  d_Sensors :: "(int, f64) gomap"
  d_SensorUpdatedAt :: "(int, nat) gomap"
  d_SensorDescriptors :: "(int, sensor_descriptor) gomap"
  d_BinaryInputDescriptors :: "(int, binary_input_descriptor) gomap"
  d_ButtonDescriptors :: "(int, button_descriptor) gomap"
  d_Active :: bool
  d_VendorName :: string
  d_ModelName :: string
  d_ModelVersion :: string

definition zero_device :: device where
  "zero_device = \<lparr>d_Key = [], d_UniqueID = [], d_Name = [], d_Output = [], d_Dimmable = False,
     d_Channels = [], d_ChannelUpdatedAt = [], d_Buttons = [], d_ButtonUpdatedAt = [],
     d_ButtonActions = [], d_Inputs = [], d_InputUpdatedAt = [], d_Sensors = [],
     d_SensorUpdatedAt = [], d_SensorDescriptors = [], d_BinaryInputDescriptors = [],
     d_ButtonDescriptors = [], d_Active = False, d_VendorName = [], d_ModelName = [],
     d_ModelVersion = []\<rparr>"

record state_update =
  u_Type :: event_type
  u_Device :: device

record state_store =
  st_devices :: "(string, device) gomap"
  st_tagIndex :: "(string, string) gomap"
  st_nextSubID :: int
  st_subscribers :: "(int, state_update list) gomap"

definition NewStateStore :: state_store where
  "NewStateStore = \<lparr>st_devices = [], st_tagIndex = [], st_nextSubID = 0, st_subscribers = []\<rparr>"

section \<open>Keys\<close>

definition connectionTag :: "string \<Rightarrow> string \<Rightarrow> string" where
  "connectionTag conn tag = trim_space conn @ ''|'' @ trim_space tag"

definition uid_key :: "string \<Rightarrow> string" where
  "uid_key uid = ''uid:'' @ uid"

definition eventKey :: "event \<Rightarrow> string" where
  "eventKey e =
     (let uid = trim_space (e_UniqueID e)
      in if uid \<noteq> [] then uid_key uid
         else if e_Connection e = [] \<and> e_Tag e = [] then ''anon:sample''
         else ''conn:'' @ connectionTag (e_Connection e) (e_Tag e))"

text \<open>\<^verbatim>\<open>resolveKey\<close> also answers a key with "not found": the flag is what its callers test.\<close>

definition resolveKey :: "state_store \<Rightarrow> event \<Rightarrow> string \<times> bool" where
  "resolveKey s e =
     (let uid = trim_space (e_UniqueID e)
      in if uid \<noteq> [] then (uid_key uid, go_has (st_devices s) (uid_key uid))
         else if e_Tag e = [] then ([], False)
         else case map_of (st_tagIndex s) (connectionTag (e_Connection e) (e_Tag e)) of
                None \<Rightarrow> ([], False)
              | Some key \<Rightarrow> (key, go_has (st_devices s) key))"

section \<open>Subscribers\<close>

definition channel_capacity :: nat where
  "channel_capacity = 16"

text \<open>A send that would block is dropped.\<close>

definition broadcast :: "state_update \<Rightarrow> state_store \<Rightarrow> state_store" where
  "broadcast u s = s\<lparr>st_subscribers :=
     map (\<lambda>(i, q). (i, if length q < channel_capacity then q @ [u] else q)) (st_subscribers s)\<rparr>"

definition Subscribe :: "state_store \<Rightarrow> int \<times> state_store" where
  "Subscribe s =
     (let i = st_nextSubID s
      in (i, s\<lparr>st_nextSubID := i + 1, st_subscribers := AList.update i [] (st_subscribers s)\<rparr>))"

definition Unsubscribe :: "int \<Rightarrow> state_store \<Rightarrow> state_store" where
  "Unsubscribe i s =
     (if go_has (st_subscribers s) i then s\<lparr>st_subscribers := AList.delete i (st_subscribers s)\<rparr> else s)"

text \<open>The receive of the subscriber: the oldest update, if one waits.\<close>

definition receive :: "int \<Rightarrow> state_store \<Rightarrow> state_update option \<times> state_store" where
  "receive i s =
     (case map_of (st_subscribers s) i of
        Some (u # q) \<Rightarrow> (Some u, s\<lparr>st_subscribers := AList.update i q (st_subscribers s)\<rparr>)
      | _ \<Rightarrow> (None, s))"

section \<open>Events\<close>

definition init_device :: "event \<Rightarrow> string \<Rightarrow> device \<Rightarrow> device" where
  "init_device e key d =
     (let uid = trim_space (e_UniqueID e);
          out = trim_space (e_Output e);
          name = (if trim_space (e_Name e) \<noteq> [] then trim_space (e_Name e) else d_Name d)
      in d\<lparr>d_Key := key, d_UniqueID := uid,
           d_Output := (if out = [] then ''light'' else out),
           d_Dimmable := (case e_Dimmable e of Some b \<Rightarrow> b | None \<Rightarrow> True),
           d_Name := (if name = [] then uid else name),
           d_Active := True\<rparr>)"

definition meta_device :: "event \<Rightarrow> device \<Rightarrow> device" where
  "meta_device e d =
     d\<lparr>d_VendorName := (if e_VendorName e \<noteq> [] then e_VendorName e else d_VendorName d),
       d_ModelName := (if e_ModelName e \<noteq> [] then e_ModelName e else d_ModelName d),
       d_ModelVersion := (if e_ModelVersion e \<noteq> [] then e_ModelVersion e else d_ModelVersion d)\<rparr>"

text \<open>
  What an event makes of the device it resolves to, and whether subscribers hear of it; \<open>None\<close> for
  an event without the descriptor it announces and for a type the store does not know.
\<close>

definition apply_event :: "nat \<Rightarrow> event \<Rightarrow> device \<Rightarrow> (device \<times> bool) option" where
  "apply_event now e d =
     (case e_Type e of
        EventChannel \<Rightarrow> Some (d\<lparr>d_Channels := AList.update (e_Index e) (e_Value e) (d_Channels d),
            d_ChannelUpdatedAt := AList.update (e_Index e) now (d_ChannelUpdatedAt d)\<rparr>, True)
      | EventButton \<Rightarrow> Some (d\<lparr>d_Buttons := AList.update (e_Index e) (e_Value e) (d_Buttons d),
            d_ButtonUpdatedAt := AList.update (e_Index e) now (d_ButtonUpdatedAt d)\<rparr>, True)
      | EventButtonAction \<Rightarrow> Some (d\<lparr>d_ButtonActions :=
            AList.update (e_Index e) (trim_space (e_Action e)) (d_ButtonActions d)\<rparr>, True)
      | EventInput \<Rightarrow> Some (d\<lparr>d_Inputs := AList.update (e_Index e) (e_Value e) (d_Inputs d),
            d_InputUpdatedAt := AList.update (e_Index e) now (d_InputUpdatedAt d)\<rparr>, True)
      | EventSensor \<Rightarrow> Some (d\<lparr>d_Sensors := AList.update (e_Index e) (e_Value e) (d_Sensors d),
            d_SensorUpdatedAt := AList.update (e_Index e) now (d_SensorUpdatedAt d)\<rparr>, True)
      | EventSensorDescriptor \<Rightarrow> map_option (\<lambda>x. (d\<lparr>d_SensorDescriptors :=
            AList.update (e_Index e) x (d_SensorDescriptors d)\<rparr>, False)) (e_SensorDescriptor e)
      | EventBinaryInputDescriptor \<Rightarrow> map_option (\<lambda>x. (d\<lparr>d_BinaryInputDescriptors :=
            AList.update (e_Index e) x (d_BinaryInputDescriptors d)\<rparr>, False))
            (e_BinaryInputDescriptor e)
      | EventButtonDescriptor \<Rightarrow> map_option (\<lambda>x. (d\<lparr>d_ButtonDescriptors :=
            AList.update (e_Index e) x (d_ButtonDescriptors d)\<rparr>, False)) (e_ButtonDescriptor e)
      | EventActive \<Rightarrow> Some (d\<lparr>d_Active := e_Active e\<rparr>, True)
      | EventDeviceMeta \<Rightarrow> Some (meta_device e d, False)
      | _ \<Rightarrow> None)"

definition handle_init :: "event \<Rightarrow> state_store \<Rightarrow> state_store \<times> state_update option" where
  "handle_init e s =
     (let key = eventKey e;
          d = init_device e key (go_get zero_device (st_devices s) key)
      in (s\<lparr>st_devices := AList.update key d (st_devices s),
            st_tagIndex := (if e_Tag e \<noteq> []
                            then AList.update (connectionTag (e_Connection e) (e_Tag e)) key (st_tagIndex s)
                            else st_tagIndex s)\<rparr>,
          Some \<lparr>u_Type = EventInit, u_Device = d\<rparr>))"

definition handle_remove :: "event \<Rightarrow> state_store \<Rightarrow> state_store \<times> state_update option" where
  "handle_remove e s =
     (case resolveKey s e of (key, ok) \<Rightarrow>
        if ok then
          (s\<lparr>st_devices := AList.delete key (st_devices s),
             st_tagIndex := (if e_Tag e \<noteq> []
                             then AList.delete (connectionTag (e_Connection e) (e_Tag e)) (st_tagIndex s)
                             else st_tagIndex s)\<rparr>,
           Some \<lparr>u_Type = EventRemove, u_Device = go_get zero_device (st_devices s) key\<rparr>)
        else (s, None))"

definition handle_update :: "nat \<Rightarrow> event \<Rightarrow> state_store \<Rightarrow> state_store \<times> state_update option" where
  "handle_update now e s =
     (case resolveKey s e of (key, ok) \<Rightarrow>
        if ok then
          (case apply_event now e (go_get zero_device (st_devices s) key) of
             None \<Rightarrow> (s, None)
           | Some (d, push) \<Rightarrow>
               (s\<lparr>st_devices := AList.update key d (st_devices s)\<rparr>,
                if push then Some \<lparr>u_Type = e_Type e, u_Device = d\<rparr> else None))
        else (s, None))"

definition handle_locked :: "nat \<Rightarrow> event \<Rightarrow> state_store \<Rightarrow> state_store \<times> state_update option" where
  "handle_locked now e s =
     (case e_Type e of
        EventInit \<Rightarrow> handle_init e s
      | EventRemove \<Rightarrow> handle_remove e s
      | _ \<Rightarrow> handle_update now e s)"

definition HandleEvent :: "nat \<Rightarrow> event \<Rightarrow> state_store \<Rightarrow> state_store" where
  "HandleEvent now e s =
     (case handle_locked now e s of
        (s', None) \<Rightarrow> s'
      | (s', Some u) \<Rightarrow> broadcast u s')"

definition Snapshot :: "state_store \<Rightarrow> (string, device) gomap" where
  "Snapshot s = st_devices s"

definition Has :: "state_store \<Rightarrow> string \<Rightarrow> bool" where
  "Has s uniqueID =
     (let uid = trim_space uniqueID in uid \<noteq> [] \<and> go_has (st_devices s) (uid_key uid))"

definition ReAnnounce :: "string \<Rightarrow> state_store \<Rightarrow> state_store" where
  "ReAnnounce uniqueID s =
     (let uid = trim_space uniqueID
      in if uid = [] then s
         else case map_of (st_devices s) (uid_key uid) of
                None \<Rightarrow> s
              | Some d \<Rightarrow> broadcast \<lparr>u_Type = EventInit, u_Device = d\<rparr> s)"

section \<open>Reachable stores and their invariant\<close>

datatype store_op =
  OpEvent nat event | OpSubscribe | OpUnsubscribe int | OpReceive int | OpReAnnounce string

fun store_step :: "store_op \<Rightarrow> state_store \<Rightarrow> state_store" where
  "store_step (OpEvent now e) s = HandleEvent now e s"
| "store_step OpSubscribe s = snd (Subscribe s)"
| "store_step (OpUnsubscribe i) s = Unsubscribe i s"
| "store_step (OpReceive i) s = snd (receive i s)"
| "store_step (OpReAnnounce u) s = ReAnnounce u s"

inductive store_reach :: "state_store \<Rightarrow> bool" where
  reach_new: "store_reach NewStateStore"
| reach_op: "store_reach s \<Longrightarrow> store_reach (store_step op s)"

text \<open>A device is stored under its key, and its key under its unique id, where it has one.\<close>

definition device_wf :: "string \<times> device \<Rightarrow> bool" where
  "device_wf = (\<lambda>(k, d). d_Key d = k \<and> trim_space (d_UniqueID d) = d_UniqueID d \<and>
     (if d_UniqueID d = [] then take 4 k \<noteq> ''uid:'' else k = uid_key (d_UniqueID d)))"

definition subs_wf :: "state_store \<Rightarrow> bool" where
  "subs_wf s \<longleftrightarrow> distinct (map fst (st_subscribers s)) \<and>
     (\<forall>(i, q) \<in> set (st_subscribers s). i < st_nextSubID s \<and> length q \<le> channel_capacity)"

definition devices_wf :: "state_store \<Rightarrow> bool" where
  "devices_wf s \<longleftrightarrow> distinct (map fst (st_devices s)) \<and> (\<forall>kd \<in> set (st_devices s). device_wf kd)"

lemma broadcast_simps [simp]:
  "st_devices (broadcast u s) = st_devices s" "st_tagIndex (broadcast u s) = st_tagIndex s"
  "st_nextSubID (broadcast u s) = st_nextSubID s"
  "map fst (st_subscribers (broadcast u s)) = map fst (st_subscribers s)"
  by (simp_all add: broadcast_def comp_def split_beta)

lemma resolveKey_broadcast [simp]: "resolveKey (broadcast u s) e = resolveKey s e"
  by (simp add: resolveKey_def Let_def split: option.split)

lemma HandleEvent_fields [simp]:
  "st_devices (HandleEvent now e s) = st_devices (fst (handle_locked now e s))"
  "st_tagIndex (HandleEvent now e s) = st_tagIndex (fst (handle_locked now e s))"
  "resolveKey (HandleEvent now e s) e' = resolveKey (fst (handle_locked now e s)) e'"
  by (simp_all add: HandleEvent_def split: prod.split option.split)

lemma handle_locked_subs [simp]:
  "st_subscribers (fst (handle_locked now e s)) = st_subscribers s"
  "st_nextSubID (fst (handle_locked now e s)) = st_nextSubID s"
  by (simp_all add: handle_locked_def handle_init_def handle_remove_def handle_update_def Let_def
      split: event_type.split prod.split option.split)

lemma broadcast_subs_wf: "subs_wf s \<Longrightarrow> subs_wf (broadcast u s)"
  by (fastforce simp: subs_wf_def broadcast_def channel_capacity_def comp_def split_beta
      split: if_splits)

lemma subs_wf_cong: "st_subscribers s = st_subscribers t \<Longrightarrow> st_nextSubID s = st_nextSubID t \<Longrightarrow>
    subs_wf s = subs_wf t"
  by (simp add: subs_wf_def)

lemma HandleEvent_subs_wf: "subs_wf s \<Longrightarrow> subs_wf (HandleEvent now e s)"
  using subs_wf_cong [of "fst (handle_locked now e s)" s] handle_locked_subs [of now e s]
  by (cases "handle_locked now e s") (auto simp: HandleEvent_def broadcast_subs_wf split: option.split)

lemma step_subs_wf: "subs_wf s \<Longrightarrow> subs_wf (store_step op s)"
proof (cases op)
  case (OpReceive i)
  assume *: "subs_wf s"
  have "length q \<le> channel_capacity \<and> i < st_nextSubID s"
    if "map_of (st_subscribers s) i = Some (u # q)" for u q
    using * map_of_SomeD [OF that] by (auto simp: subs_wf_def)
  with * OpReceive show ?thesis
    by (auto simp: receive_def subs_wf_def dest!: set_update_cases split: option.split list.split)
next
  case (OpReAnnounce u)
  assume "subs_wf s"
  with OpReAnnounce show ?thesis
    by (auto simp: ReAnnounce_def Let_def broadcast_subs_wf split: option.split)
next
  case (OpUnsubscribe i)
  assume "subs_wf s"
  with OpUnsubscribe show ?thesis
    by (auto simp: Unsubscribe_def subs_wf_def dest!: set_delete_subset)
next
  case OpSubscribe
  assume "subs_wf s"
  with OpSubscribe show ?thesis
    by (fastforce simp: Subscribe_def subs_wf_def Let_def channel_capacity_def dest!: set_update_cases)
qed (simp add: HandleEvent_subs_wf)

lemma apply_event_identity:
  "apply_event now e d = Some (d', push) \<Longrightarrow> d_Key d' = d_Key d \<and> d_UniqueID d' = d_UniqueID d"
  by (auto simp: apply_event_def meta_device_def split: event_type.splits)

lemma eventKey_wf:
  "device_wf (eventKey e, init_device e (eventKey e) d)"
  by (simp add: device_wf_def init_device_def eventKey_def Let_def)

lemma devices_wf_update:
  "devices_wf s \<Longrightarrow> device_wf (k, d) \<Longrightarrow> devices_wf (s\<lparr>st_devices := AList.update k d (st_devices s)\<rparr>)"
  by (auto simp: devices_wf_def dest!: set_update_cases)

lemma devices_wf_tag [simp]: "devices_wf (s\<lparr>st_tagIndex := t\<rparr>) = devices_wf s"
  "devices_wf (s\<lparr>st_devices := ds, st_tagIndex := t\<rparr>) = devices_wf (s\<lparr>st_devices := ds\<rparr>)"
  by (simp_all add: devices_wf_def)

lemma go_get_wf:
  "devices_wf s \<Longrightarrow> go_has (st_devices s) k \<Longrightarrow> device_wf (k, go_get z (st_devices s) k)"
  by (auto simp: devices_wf_def go_has_def go_get_def dest!: map_of_SomeD)

lemma handle_locked_devices_wf: "devices_wf s \<Longrightarrow> devices_wf (fst (handle_locked now e s))"
proof -
  assume wf: "devices_wf s"
  have "devices_wf (fst (handle_init e s))"
    using wf by (simp add: handle_init_def Let_def devices_wf_update eventKey_wf)
  moreover have "devices_wf (fst (handle_remove e s))"
    using wf by (auto simp: handle_remove_def devices_wf_def split: prod.split dest!: set_delete_subset)
  moreover have "devices_wf (fst (handle_update now e s))"
  proof -
    obtain k ok where r: "resolveKey s e = (k, ok)" by fastforce
    have "device_wf (k, d')" if ok: ok
      and d': "apply_event now e (go_get zero_device (st_devices s) k) = Some (d', b)" for d' b
    proof -
      from r ok have "go_has (st_devices s) k"
        by (auto simp: resolveKey_def Let_def split: if_splits option.splits)
      from go_get_wf [OF wf this] apply_event_identity [OF d'] show ?thesis
        by (simp add: device_wf_def)
    qed
    with wf r show ?thesis
      by (auto simp: handle_update_def devices_wf_update split: option.split)
  qed
  ultimately show ?thesis
    by (simp add: handle_locked_def split: event_type.split)
qed

lemma step_devices_wf: "devices_wf s \<Longrightarrow> devices_wf (store_step op s)"
proof (cases op)
  case (OpEvent now e)
  assume "devices_wf s"
  then have "devices_wf (fst (handle_locked now e s))" by (rule handle_locked_devices_wf)
  with OpEvent show ?thesis by (simp add: devices_wf_def)
qed (auto simp: devices_wf_def Subscribe_def Unsubscribe_def receive_def ReAnnounce_def Let_def
    split: option.split list.split)

lemma nameless_event_noop:
  assumes "trim_space (e_UniqueID e) = []" and "e_Tag e = []" and "e_Type e \<noteq> EventInit"
  shows "HandleEvent now e s = s"
  using assms
  by (auto simp: HandleEvent_def handle_locked_def handle_remove_def handle_update_def resolveKey_def
      Let_def split: event_type.split)

section \<open>Properties\<close>

definition lamp_init :: event where
  "lamp_init = event0 EventInit\<lparr>e_UniqueID := ''u1'', e_Tag := ''t'', e_Connection := ''c'',
     e_Name := ''Lamp''\<rparr>"

text \<open>
  C7: in every store that events and subscribers can produce, a device is stored once, under its
  own key, a device with a unique id exactly under the key of that id, and no subscriber has more
  than 16 updates waiting.
\<close>

theorem state_store_invariant:
  assumes "store_reach s"
  shows "devices_wf s \<and> subs_wf s"
  using assms
proof induction
  case reach_new
  then show ?case by (simp add: NewStateStore_def devices_wf_def subs_wf_def)
next
  case (reach_op s op)
  then show ?case by (simp add: step_devices_wf step_subs_wf)
qed

theorem state_store_invariant_witness:
  "devices_wf (store_step (OpEvent 0 lamp_init) (store_step OpSubscribe NewStateStore)) \<and>
   st_devices (store_step (OpEvent 0 lamp_init) (store_step OpSubscribe NewStateStore)) \<noteq> []"
proof
  have "store_reach (store_step (OpEvent 0 lamp_init) (store_step OpSubscribe NewStateStore))"
    by (intro reach_op reach_new)
  from state_store_invariant [OF this]
  show "devices_wf (store_step (OpEvent 0 lamp_init) (store_step OpSubscribe NewStateStore))" by simp
qed code_simp

text \<open>
  Once a device is announced with a unique id or a tag, an event that names it the same way
  resolves to it, and the device it resolves to carries that identity and is active.
\<close>

theorem init_then_resolves:
  assumes "e_Type e = EventInit" and "trim_space (e_UniqueID e) \<noteq> [] \<or> e_Tag e \<noteq> []"
    and "e_UniqueID e' = e_UniqueID e" "e_Connection e' = e_Connection e" "e_Tag e' = e_Tag e"
  shows "resolveKey (HandleEvent now e s) e' = (eventKey e, True) \<and>
     (\<exists>d. map_of (st_devices (HandleEvent now e s)) (eventKey e) = Some d \<and> d_Key d = eventKey e \<and>
          d_UniqueID d = trim_space (e_UniqueID e) \<and> d_Active d)"
  using assms
  by (auto simp: handle_locked_def handle_init_def resolveKey_def eventKey_def Let_def init_device_def)

theorem init_then_resolves_witness:
  "resolveKey (HandleEvent 5 lamp_init NewStateStore) (lamp_init\<lparr>e_Type := EventChannel\<rparr>) =
     (''uid:u1'', True)"
  using init_then_resolves [of lamp_init "lamp_init\<lparr>e_Type := EventChannel\<rparr>" 5 NewStateStore]
  by (simp add: lamp_init_def event0_def eventKey_def uid_key_def trim_space_def is_space_def)

text \<open>
  An event changes no device but the one it announces or resolves to.
\<close>

theorem event_frame:
  assumes "k \<noteq> (if e_Type e = EventInit then eventKey e else fst (resolveKey s e))"
  shows "map_of (st_devices (HandleEvent now e s)) k = map_of (st_devices s) k"
  using assms
  by (auto simp: handle_locked_def handle_init_def handle_remove_def handle_update_def Let_def
      split: event_type.split prod.split option.split if_splits)

theorem event_frame_witness:
  "map_of (st_devices (HandleEvent 6 (event0 EventRemove\<lparr>e_UniqueID := ''u2''\<rparr>)
     (HandleEvent 5 lamp_init NewStateStore))) ''uid:u1'' \<noteq> None"
proof -
  have "''uid:u1'' \<noteq> fst (resolveKey (HandleEvent 5 lamp_init NewStateStore)
      (event0 EventRemove\<lparr>e_UniqueID := ''u2''\<rparr>))"
    by code_simp
  moreover have "map_of (st_devices (HandleEvent 5 lamp_init NewStateStore)) ''uid:u1'' \<noteq> None"
    by (simp add: lamp_init_def event0_def handle_locked_def handle_init_def eventKey_def uid_key_def
        trim_space_def is_space_def Let_def)
  ultimately show ?thesis
    using event_frame [of "''uid:u1''" "event0 EventRemove\<lparr>e_UniqueID := ''u2''\<rparr>"
        "HandleEvent 5 lamp_init NewStateStore" 6]
    by (simp add: event0_def del: HandleEvent_fields)
qed

text \<open>
  After a remove event its device is gone: the same names resolve to nothing, and a device that
  was named by its unique id is no longer there.
\<close>

theorem remove_forgets:
  assumes "e_Type e = EventRemove" and "e_UniqueID e' = e_UniqueID e"
    and "e_Connection e' = e_Connection e" "e_Tag e' = e_Tag e"
  shows "\<not> snd (resolveKey (HandleEvent now e s) e') \<and> \<not> Has (HandleEvent now e s) (e_UniqueID e)"
  using assms
  by (auto simp: handle_locked_def handle_remove_def resolveKey_def Has_def Let_def
      split: option.split)

theorem remove_forgets_witness:
  "\<not> Has (HandleEvent 6 (lamp_init\<lparr>e_Type := EventRemove\<rparr>) (HandleEvent 5 lamp_init NewStateStore))
     ''u1''"
  using remove_forgets [of "lamp_init\<lparr>e_Type := EventRemove\<rparr>" "lamp_init\<lparr>e_Type := EventRemove\<rparr>" 6
      "HandleEvent 5 lamp_init NewStateStore"]
  by (simp add: lamp_init_def)

text \<open>
  A channel value is stored under its index in the device the event
  resolves to, with the time, and every subscriber with room in its queue gets one update with it.
\<close>

theorem value_event_recorded:
  assumes "resolveKey s e = (key, True)" and "e_Type e = EventChannel"
  shows "\<exists>d. map_of (st_devices (HandleEvent now e s)) key = Some d \<and>
       map_of (d_Channels d) (e_Index e) = Some (e_Value e) \<and>
       map_of (d_ChannelUpdatedAt d) (e_Index e) = Some now \<and>
       (\<forall>i q. map_of (st_subscribers s) i = Some q \<and> length q < channel_capacity \<longrightarrow>
          map_of (st_subscribers (HandleEvent now e s)) i =
            Some (q @ [\<lparr>u_Type = EventChannel, u_Device = d\<rparr>]))"
proof -
  have map_of_subs: "map_of (map (\<lambda>(i, q). (i, f q)) xs) i = map_option f (map_of xs i)"
    for f xs i by (induction xs) auto
  from assms show ?thesis
    by (auto simp: HandleEvent_def handle_locked_def handle_update_def apply_event_def broadcast_def
        map_of_subs)
qed

theorem value_event_recorded_witness:
  "\<exists>d. map_of (st_devices (HandleEvent 6 (event0 EventChannel\<lparr>e_UniqueID := ''u1'', e_Value := f64_one\<rparr>)
         (HandleEvent 5 lamp_init NewStateStore))) ''uid:u1'' = Some d \<and>
       map_of (d_Channels d) 0 = Some f64_one"
proof -
  have "resolveKey (HandleEvent 5 lamp_init NewStateStore)
      (event0 EventChannel\<lparr>e_UniqueID := ''u1'', e_Value := f64_one\<rparr>) = (''uid:u1'', True)"
    by code_simp
  from value_event_recorded [OF this, of 6] show ?thesis
    by (auto simp: event0_def simp del: HandleEvent_fields)
qed

text \<open>
  A device announced without unique id and tag is stored, but no later event without them ever
  resolves to it: it is neither updated nor removed.
\<close>

theorem anonymous_device_unreachable:
  assumes "trim_space (e_UniqueID e) = []" and "e_Tag e = []" and "e_Type e \<noteq> EventInit"
  shows "HandleEvent now e s = s"
  using assms by (rule nameless_event_noop)

theorem anonymous_device_unreachable_witness:
  "HandleEvent 6 (event0 EventRemove) (HandleEvent 5 (event0 EventInit) NewStateStore) =
     HandleEvent 5 (event0 EventInit) NewStateStore \<and>
   st_devices (HandleEvent 5 (event0 EventInit) NewStateStore) \<noteq> []"
  using anonymous_device_unreachable [of "event0 EventRemove" 6 "HandleEvent 5 (event0 EventInit) NewStateStore"]
  by (simp add: event0_def trim_space_def) (simp add: handle_locked_def handle_init_def Let_def)

end
