(* ===== verification/DSUID.thy ===== *)
theory DSUID
  imports State_Store
begin

text \<open>
  Device identifiers (\<^verbatim>\<open>pkg/vdcapi/property_tree.go\<close>, \<^verbatim>\<open>dsuidV5\<close> to \<^verbatim>\<open>deviceDSUID\<close>, and
  \<^verbatim>\<open>resolveDeviceByDSUID\<close> of \<^verbatim>\<open>control.go\<close>): 34 hexadecimal digits, either given by the
  device or derived from its unique id by a version-5 UUID. \<^verbatim>\<open>crypto/sha1\<close> of the standard library
  is written out on 32-bit words.
\<close>

section \<open>SHA-1\<close>

type_synonym sha1_state = "u32 \<times> u32 \<times> u32 \<times> u32 \<times> u32"

definition word_bytes :: "u32 \<Rightarrow> byte list" where
  "word_bytes w = [ucast (drop_bit 24 w), ucast (drop_bit 16 w), ucast (drop_bit 8 w), ucast w]"

fun bytes_words :: "byte list \<Rightarrow> u32 list" where
  "bytes_words (a # b # c # d # r) =
     (push_bit 24 (ucast a) OR push_bit 16 (ucast b) OR push_bit 8 (ucast c) OR ucast d) # bytes_words r"
| "bytes_words _ = []"

definition be_bytes64 :: "u64 \<Rightarrow> byte list" where
  "be_bytes64 n = map (\<lambda>k. ucast (drop_bit k n)) [56, 48, 40, 32, 24, 16, 8, 0]"

definition sha1_pad :: "byte list \<Rightarrow> byte list" where
  "sha1_pad m = m @ [0x80] @ replicate ((119 - length m mod 64) mod 64) 0 @
     be_bytes64 (word_of_nat (8 * length m))"

text \<open>The message schedule, kept in reverse: the word of round \<open>t - 3\<close> is the third from the front.\<close>

fun sha1_schedule :: "nat \<Rightarrow> u32 list \<Rightarrow> u32 list" where
  "sha1_schedule 0 ws = ws"
| "sha1_schedule (Suc n) ws =
     sha1_schedule n (word_rotl 1 (ws ! 2 XOR ws ! 7 XOR ws ! 13 XOR ws ! 15) # ws)"

definition sha1_f :: "nat \<Rightarrow> u32 \<Rightarrow> u32 \<Rightarrow> u32 \<Rightarrow> u32" where
  "sha1_f t b c d =
     (if t < 20 then (b AND c) OR (NOT b AND d)
      else if 40 \<le> t \<and> t < 60 then (b AND c) OR (b AND d) OR (c AND d)
      else b XOR c XOR d)"

definition sha1_k :: "nat \<Rightarrow> u32" where
  "sha1_k t = (if t < 20 then 0x5A827999 else if t < 40 then 0x6ED9EBA1
               else if t < 60 then 0x8F1BBCDC else 0xCA62C1D6)"

fun sha1_rounds :: "nat \<Rightarrow> u32 list \<Rightarrow> sha1_state \<Rightarrow> sha1_state" where
  "sha1_rounds t [] s = s"
| "sha1_rounds t (w # ws) (a, b, c, d, e) =
     sha1_rounds (Suc t) ws
       (word_rotl 5 a + sha1_f t b c d + e + sha1_k t + w, a, word_rotl 30 b, c, d)"

definition sha1_block :: "sha1_state \<Rightarrow> u32 list \<Rightarrow> sha1_state" where
  "sha1_block s blk =
     (case (s, sha1_rounds 0 (rev (sha1_schedule 64 (rev blk))) s) of
        ((a, b, c, d, e), (a', b', c', d', e')) \<Rightarrow> (a + a', b + b', c + c', d + d', e + e'))"

fun sha1_blocks :: "nat \<Rightarrow> u32 list \<Rightarrow> sha1_state \<Rightarrow> sha1_state" where
  "sha1_blocks 0 ws s = s"
| "sha1_blocks (Suc n) ws s = sha1_blocks n (drop 16 ws) (sha1_block s (take 16 ws))"

definition sha1_init :: sha1_state where
  "sha1_init = (0x67452301, 0xEFCDAB89, 0x98BADCFE, 0x10325476, 0xC3D2E1F0)"

definition sha1_sum :: "byte list \<Rightarrow> byte list" where
  "sha1_sum m =
     (let ws = bytes_words (sha1_pad m)
      in case sha1_blocks (length ws div 16) ws sha1_init of
           (a, b, c, d, e) \<Rightarrow> word_bytes a @ word_bytes b @ word_bytes c @ word_bytes d @ word_bytes e)"

lemma length_sha1_sum [simp]: "length (sha1_sum m) = 20"
  by (simp add: sha1_sum_def Let_def word_bytes_def split: prod.split)

section \<open>Hexadecimal\<close>

definition hex_char :: "nat \<Rightarrow> char" where
  "hex_char n = ''0123456789ABCDEF'' ! n"

definition hex_byte :: "byte \<Rightarrow> string" where
  "hex_byte b = [hex_char (unat b div 16), hex_char (unat b mod 16)]"

definition hex_upper :: "byte list \<Rightarrow> string" where
  \<comment> \<open>\<^verbatim>\<open>strings.ToUpper(hex.EncodeToString(...))\<close>\<close>
  "hex_upper bs = concat (map hex_byte bs)"

definition is_hex :: "char \<Rightarrow> bool" where
  "is_hex c \<longleftrightarrow> c \<in> set ''0123456789ABCDEFabcdef''"

definition hex_val :: "char \<Rightarrow> nat option" where
  "hex_val c = (let u = upper_char c; i = length (takeWhile (\<lambda>x. x \<noteq> u) ''0123456789ABCDEF'')
                in if i < 16 then Some i else None)"

text \<open>\<^verbatim>\<open>hex.DecodeString\<close>, whose error the caller drops: the bytes before it remain.\<close>

fun hex_decode :: "string \<Rightarrow> byte list" where
  "hex_decode (a # b # r) =
     (case (hex_val a, hex_val b) of
        (Some x, Some y) \<Rightarrow> word_of_nat (16 * x + y) # hex_decode r
      | _ \<Rightarrow> [])"
| "hex_decode _ = []"

section \<open>dSUIDs\<close>

definition validDSUID :: "string \<Rightarrow> bool" where
  "validDSUID s \<longleftrightarrow> length s = 34 \<and> list_all is_hex s"

definition dsuidP44VdcNamespaceUUID :: string where
  "dsuidP44VdcNamespaceUUID = ''441A1FED-F449-4058-BEBA-13B1C4AB6A93''"

definition externalVdcInstanceIDPrefix :: string where
  "externalVdcInstanceIDPrefix = ''External_Device_Container.1''"

definition bridgeNamespaceUUID :: string where
  "bridgeNamespaceUUID = ''A4A7A4B5-3C8E-4B2A-9D1F-7E3A5C2B1D4E''"

definition dsuidV5 :: "string \<Rightarrow> string \<Rightarrow> string" where
  "dsuidV5 namespaceHex name =
     (let nsBytes = hex_decode (filter (\<lambda>c. c \<noteq> CHR ''-'') namespaceHex);
          sum = sha1_sum (take 16 nsBytes @ str_bytes name);
          sum6 = sum[6 := (sum ! 6 AND 0x0F) OR 0x50];
          sum8 = sum6[8 := (sum6 ! 8 AND 0x3F) OR 0x80]
      in hex_upper (take 16 sum8) @ ''00'')"

definition BridgeDSUID :: "string \<Rightarrow> string \<Rightarrow> string" where
  "BridgeDSUID pluginID remoteEntityID =
     dsuidV5 bridgeNamespaceUUID (pluginID @ '':'' @ remoteEntityID)"

definition deviceDSUID :: "string \<Rightarrow> device \<Rightarrow> string \<Rightarrow> string" where
  "deviceDSUID vdcDSUID d fallbackKey =
     (let uid = trim_space (d_UniqueID d);
          uniqueID = (if uid = [] then fallbackKey else uid)
      in if validDSUID uniqueID then to_upper uniqueID
         else dsuidV5 dsuidP44VdcNamespaceUUID
                (externalVdcInstanceIDPrefix @ ''@'' @ vdcDSUID @ '':'' @ uniqueID))"

definition resolveDeviceByDSUID :: "string \<Rightarrow> string \<Rightarrow> (string, device) gomap \<Rightarrow> device option" where
  "resolveDeviceByDSUID vdcDSUID target devices =
     first_some (\<lambda>(key, d). if equal_fold (deviceDSUID vdcDSUID d key) target then Some d else None) devices"

section \<open>The form of a dSUID\<close>

lemma of_char_of_small: "n < 256 \<Longrightarrow> (of_char (char_of n) :: nat) = n"
  by simp

lemma hex_char_cases: "n < 16 \<Longrightarrow> hex_char n \<in> set ''0123456789ABCDEF''"
  unfolding hex_char_def by (rule nth_mem) simp

lemma upper_hex [simp]: "c \<in> set ''0123456789ABCDEF'' \<Longrightarrow> upper_char c = c"
  by (auto simp: upper_char_def)

lemma upper_upper [simp]: "upper_char (upper_char c) = upper_char c"
  by (auto simp: upper_char_def Let_def)

lemma lower_upper [simp]: "lower_char (upper_char c) = lower_char c"
  by (auto simp: upper_char_def lower_char_def Let_def)

lemma upper_lower [simp]: "upper_char (lower_char c) = upper_char c"
  by (auto simp: upper_char_def lower_char_def Let_def)

lemma to_upper_idem [simp]: "to_upper (to_upper s) = to_upper s"
  by (simp add: to_upper_def)

lemma length_to_upper [simp]: "length (to_upper s) = length s"
  by (simp add: to_upper_def)

lemma equal_fold_upper: "equal_fold a b \<longleftrightarrow> to_upper a = to_upper b"
proof
  assume "equal_fold a b"
  then have "map upper_char (map lower_char a) = map upper_char (map lower_char b)"
    by (simp add: equal_fold_def to_lower_def)
  then show "to_upper a = to_upper b" by (simp add: to_upper_def comp_def)
next
  assume "to_upper a = to_upper b"
  then have "map lower_char (map upper_char a) = map lower_char (map upper_char b)"
    by (simp add: to_upper_def)
  then show "equal_fold a b" by (simp add: equal_fold_def to_lower_def comp_def)
qed

lemma hex_of_is_hex: "c \<in> set ''0123456789ABCDEF'' \<Longrightarrow> is_hex c"
  by (auto simp: is_hex_def)

lemma upper_is_hex: "is_hex c \<Longrightarrow> is_hex (upper_char c)"
proof -
  have "list_all (\<lambda>c. is_hex (upper_char c)) ''0123456789ABCDEFabcdef''" by code_simp
  then show "is_hex c \<Longrightarrow> is_hex (upper_char c)"
    unfolding list_all_iff is_hex_def [of c] by blast
qed

lemma hex_upper_chars: "c \<in> set (hex_upper bs) \<Longrightarrow> c \<in> set ''0123456789ABCDEF''"
proof -
  assume "c \<in> set (hex_upper bs)"
  then obtain b where "c \<in> set (hex_byte b)" by (auto simp: hex_upper_def simp del: set_simps)
  then have "c = hex_char (unat b div 16) \<or> c = hex_char (unat b mod 16)"
    by (simp add: hex_byte_def)
  moreover have "unat b div 16 < 16" using unsigned_less [of b, where ?'a = nat] by simp
  moreover have "unat b mod 16 < 16" by simp
  ultimately show ?thesis using hex_char_cases by metis
qed

lemma length_hex_upper [simp]: "length (hex_upper bs) = 2 * length bs"
  by (induction bs) (simp_all add: hex_upper_def hex_byte_def)

lemma hex_upper_nth: "i < length bs \<Longrightarrow> hex_upper bs ! (2 * i) = hex_char (unat (bs ! i) div 16)"
proof (induction bs arbitrary: i)
  case (Cons b bs)
  then show ?case
    by (cases i) (simp_all add: hex_upper_def hex_byte_def)
qed simp

lemma nibble_version: "unat ((x AND 0x0F) OR 0x50 :: byte) div 16 = 5"
proof -
  have "drop_bit 4 ((x AND 0x0F) OR 0x50) = (5 :: byte)"
    by (simp add: drop_bit_or drop_bit_and)
  then have "unat (drop_bit 4 ((x AND 0x0F) OR 0x50)) = unat (5 :: byte)" by simp
  then show ?thesis by (simp add: drop_bit_eq_div unat_div)
qed

lemma nibble_variant: "unat ((x AND 0x3F) OR 0x80 :: byte) div 16 \<in> {8, 9, 10, 11}"
proof -
  have "unat ((x AND 0x3F) OR 0x80 :: byte) = unat (x AND 0x3F) + 128"
  proof -
    have "(x AND 0x3F) AND 0x80 = (0 :: byte)" by (simp add: and.assoc)
    then have "(x AND 0x3F) OR 0x80 = (x AND 0x3F) + (0x80 :: byte)"
      using word_plus_and_or [of "x AND 0x3F" "0x80 :: byte"] by simp
    moreover have "unat (x AND 0x3F) < 64"
      using word_and_le1 [of x "0x3F"] by (simp add: word_le_nat_alt)
    ultimately show ?thesis by (simp add: unat_word_ariths)
  qed
  moreover have "unat (x AND 0x3F) < 64"
    using word_and_le1 [of x "0x3F"] by (simp add: word_le_nat_alt)
  ultimately show ?thesis by auto
qed

lemma dsuidV5_shape:
  "length (dsuidV5 ns name) = 34 \<and> set (dsuidV5 ns name) \<subseteq> set ''0123456789ABCDEF''"
  using hex_upper_chars by (auto simp: dsuidV5_def Let_def simp del: set_simps) auto

lemma upper_hex_string: "set s \<subseteq> set ''0123456789ABCDEF'' \<Longrightarrow> to_upper s = s \<and> list_all is_hex s"
  using upper_hex hex_of_is_hex by (auto simp: to_upper_def list_all_iff intro!: map_idI simp del: set_simps)

lemma device_dsuid_form:
  "validDSUID (deviceDSUID vdc d key) \<and> to_upper (deviceDSUID vdc d key) = deviceDSUID vdc d key"
proof -
  have "validDSUID (to_upper s)" if "validDSUID s" for s
    using that upper_is_hex by (auto simp: validDSUID_def to_upper_def list_all_iff)
  moreover have "validDSUID (dsuidV5 ns name) \<and> to_upper (dsuidV5 ns name) = dsuidV5 ns name" for ns name
    using dsuidV5_shape [of ns name] upper_hex_string by (simp add: validDSUID_def)
  ultimately show ?thesis by (simp add: deviceDSUID_def Let_def)
qed

lemma device_dsuid_upper [simp]: "to_upper (deviceDSUID vdc d key) = deviceDSUID vdc d key"
  using device_dsuid_form by blast

section \<open>Properties\<close>

text \<open>
  C33: whatever a device calls itself, its dSUID is 34 hexadecimal digits in upper case, so that a
  target in any case finds it under the upper-case key.
\<close>

theorem device_dsuid_valid:
  "validDSUID (deviceDSUID vdc d key) \<and> to_upper (deviceDSUID vdc d key) = deviceDSUID vdc d key"
  by (rule device_dsuid_form)

text \<open>
  A derived dSUID is a version-5 UUID (RFC 4122: version digit 5, variant digit 8, 9, A or B)
  followed by subdevice 00, for every namespace and name.
\<close>

theorem derived_dsuid_is_uuid5:
  "dsuidV5 ns name ! 12 = CHR ''5'' \<and> dsuidV5 ns name ! 16 \<in> set ''89AB'' \<and>
   drop 32 (dsuidV5 ns name) = ''00''"
proof -
  define sm where "sm = sha1_sum (take 16 (hex_decode (filter (\<lambda>c. c \<noteq> CHR ''-'') ns)) @ str_bytes name)"
  define u where "u = take 16 (sm[6 := (sm ! 6 AND 0x0F) OR 0x50, 8 := (sm ! 8 AND 0x3F) OR 0x80])"
  have len: "length sm = 20" "length u = 16" by (simp_all add: sm_def u_def)
  have d: "dsuidV5 ns name = hex_upper u @ ''00''"
    by (simp add: dsuidV5_def Let_def u_def sm_def)
  have "u ! 6 = (sm ! 6 AND 0x0F) OR 0x50" "u ! 8 = (sm ! 8 AND 0x3F) OR 0x80"
    using len by (simp_all add: u_def)
  then have "hex_upper u ! 12 = hex_char 5" "hex_upper u ! 16 \<in> hex_char ` {8, 9, 10, 11}"
    using hex_upper_nth [of 6 u] hex_upper_nth [of 8 u] len nibble_version [of "sm ! 6"]
      nibble_variant [of "sm ! 8"] by auto
  with len d show ?thesis by (auto simp: nth_append hex_char_def)
qed

text \<open>
  A device whose unique id already is a dSUID keeps it, in upper case, whatever the vDC.
\<close>

theorem given_dsuid_kept:
  assumes "validDSUID (trim_space (d_UniqueID d))"
  shows "deviceDSUID vdc d key = to_upper (trim_space (d_UniqueID d))"
proof -
  from assms have "trim_space (d_UniqueID d) \<noteq> []" by (auto simp: validDSUID_def)
  with assms show ?thesis by (simp add: deviceDSUID_def)
qed

theorem given_dsuid_kept_witness:
  "deviceDSUID ''V'' (zero_device\<lparr>d_UniqueID := '' 00aa00000000000000000000000000000b ''\<rparr>) ''k'' =
     ''00AA00000000000000000000000000000B''"
proof -
  have "validDSUID (trim_space (d_UniqueID
      (zero_device\<lparr>d_UniqueID := '' 00aa00000000000000000000000000000b ''\<rparr>)))"
    by code_simp
  from given_dsuid_kept [OF this] have "deviceDSUID ''V''
      (zero_device\<lparr>d_UniqueID := '' 00aa00000000000000000000000000000b ''\<rparr>) ''k'' =
      to_upper (trim_space '' 00aa00000000000000000000000000000b '')" by simp
  also have "\<dots> = ''00AA00000000000000000000000000000B''" by code_simp
  finally show ?thesis .
qed

text \<open>
  A target is resolved without regard to case, to a device whose dSUID it is, and it is found
  whenever some device in the snapshot has that dSUID.
\<close>

theorem resolve_device_by_dsuid:
  "resolveDeviceByDSUID vdc t devs = resolveDeviceByDSUID vdc (to_upper t) devs \<and>
   (case resolveDeviceByDSUID vdc t devs of
      Some d \<Rightarrow> \<exists>key. (key, d) \<in> set devs \<and> deviceDSUID vdc d key = to_upper t
    | None \<Rightarrow> to_upper t \<notin> (\<lambda>(key, d). deviceDSUID vdc d key) ` set devs)"
proof -
  have eq: "equal_fold (deviceDSUID vdc d key) s \<longleftrightarrow> deviceDSUID vdc d key = to_upper s" for d key s
    using device_dsuid_upper by (simp add: equal_fold_upper)
  show ?thesis
    unfolding resolveDeviceByDSUID_def eq
    by (auto split: option.split if_splits simp: first_some_None_iff dest!: first_some_SomeD)
qed

end
