(* ===== verification/Scene_Store.thy ===== *)
theory Scene_Store
  imports Go_Map Go_Float
begin

text \<open>
  The store of saved scenes (\<^verbatim>\<open>pkg/vdcapi/scene_store.go\<close>) and the atomic JSON writer it shares
  with the configuration store. The files on disk are a map from paths to the JSON value written
  last; whether the operating system lets a write succeed is the argument \<open>io\<close>. The JSON library is
  taken to read back the value it wrote and, as documented, to refuse a NaN or an infinity. A nil
  map is the empty map.
\<close>

section \<open>Files\<close>

type_synonym 'j files = "(string, 'j) gomap"

definition f64_finite :: "f64 \<Rightarrow> bool" where
  "f64_finite x \<longleftrightarrow> f64_mag x < f64_inf_mag"

text \<open>The file is replaced as a whole or not at all; the flag is whether an error is returned.\<close>

definition atomicWriteJSON ::
  "bool \<Rightarrow> ('j \<Rightarrow> bool) \<Rightarrow> string \<Rightarrow> 'j \<Rightarrow> 'j files \<Rightarrow> 'j files \<times> bool" where
  "atomicWriteJSON io marshals path v fs =
     (if \<not> marshals v then (fs, True)
      else if io then (AList.update path v fs, False) else (fs, True))"

section \<open>State\<close>

record scene_channel_value =
  cv_Value :: f64
  cv_DontCare :: bool

record scene_entry =
  se_Channels :: "(int, scene_channel_value) gomap"
  se_Effect :: int
  se_DontCare :: bool
  se_IgnoreLocalPriority :: bool

type_synonym scenes = "(string, (int, scene_entry) gomap) gomap"
type_synonym scenes_json = "(string, (string, scene_entry) gomap) gomap"

record scene_store =
  ss_scenes :: scenes
  ss_autoSavePath :: string
  ss_disk :: "scenes_json files"

definition zero_channel_value :: scene_channel_value where
  "zero_channel_value = \<lparr>cv_Value = 0, cv_DontCare = False\<rparr>"

definition zero_entry :: scene_entry where
  "zero_entry = \<lparr>se_Channels = [], se_Effect = 0, se_DontCare = False, se_IgnoreLocalPriority = False\<rparr>"

definition NewSceneStore :: "scenes_json files \<Rightarrow> scene_store" where
  "NewSceneStore disk = \<lparr>ss_scenes = [], ss_autoSavePath = [], ss_disk = disk\<rparr>"

definition SetAutoSave :: "string \<Rightarrow> scene_store \<Rightarrow> scene_store" where
  "SetAutoSave path ss = ss\<lparr>ss_autoSavePath := path\<rparr>"

section \<open>Persistence\<close>

definition intKey :: "int \<Rightarrow> string" where
  "intKey v = itoa v"

definition scenes_to_json :: "scenes \<Rightarrow> scenes_json" where
  "scenes_to_json s = map (\<lambda>(d, m). (d, map (\<lambda>(n, e). (intKey n, e)) m)) s"

definition entry_marshals :: "scene_entry \<Rightarrow> bool" where
  "entry_marshals e \<longleftrightarrow> list_all (\<lambda>(i, cv). f64_finite (cv_Value cv)) (se_Channels e)"

definition scenes_marshal :: "scenes_json \<Rightarrow> bool" where
  "scenes_marshal j \<longleftrightarrow> list_all (\<lambda>(d, m). list_all (\<lambda>(k, e). entry_marshals e) m) j"

definition saveIfConfigured :: "bool \<Rightarrow> scene_store \<Rightarrow> scene_store" where
  "saveIfConfigured io ss =
     (if ss_autoSavePath ss = [] then ss
      else ss\<lparr>ss_disk := fst (atomicWriteJSON io scenes_marshal (ss_autoSavePath ss)
                               (scenes_to_json (ss_scenes ss)) (ss_disk ss))\<rparr>)"

definition SaveToFile :: "bool \<Rightarrow> string \<Rightarrow> scene_store \<Rightarrow> scene_store \<times> bool" where
  "SaveToFile io path ss =
     (case atomicWriteJSON io scenes_marshal path (scenes_to_json (ss_scenes ss)) (ss_disk ss) of
        (fs, err) \<Rightarrow> (ss\<lparr>ss_disk := fs\<rparr>, err))"

text \<open>A scene key that is not a number is left out.\<close>

definition load_scenes :: "(string, scene_entry) gomap \<Rightarrow> (int, scene_entry) gomap" where
  "load_scenes m = foldl (\<lambda>acc (k, e). case atoi k of
      None \<Rightarrow> acc | Some n \<Rightarrow> AList.update n e acc) [] m"

definition scenes_from_json :: "scenes_json \<Rightarrow> scenes" where
  "scenes_from_json j = foldl (\<lambda>acc (d, m). AList.update d (load_scenes m) acc) [] j"

definition LoadFromFile :: "string \<Rightarrow> scene_store \<Rightarrow> scene_store" where
  "LoadFromFile path ss =
     (case map_of (ss_disk ss) path of
        None \<Rightarrow> ss
      | Some j \<Rightarrow> ss\<lparr>ss_scenes := scenes_from_json j\<rparr>)"

section \<open>Operations\<close>

definition GetScene :: "scene_store \<Rightarrow> string \<Rightarrow> int \<Rightarrow> scene_entry option" where
  "GetScene ss d n =
     (case map_of (ss_scenes ss) d of None \<Rightarrow> None | Some m \<Rightarrow> map_of m n)"

definition GetDeviceScenes :: "scene_store \<Rightarrow> string \<Rightarrow> (int, scene_entry) gomap" where
  "GetDeviceScenes ss d = go_get [] (ss_scenes ss) d"

definition put_entry :: "string \<times> int \<Rightarrow> scene_entry \<Rightarrow> scene_store \<Rightarrow> scene_store" where
  "put_entry = (\<lambda>(d, n) e ss. ss\<lparr>ss_scenes :=
     AList.update d (AList.update n e (go_get [] (ss_scenes ss) d)) (ss_scenes ss)\<rparr>)"

definition get_entry :: "scene_store \<Rightarrow> string \<Rightarrow> int \<Rightarrow> scene_entry" where
  "get_entry ss d n = go_get zero_entry (go_get [] (ss_scenes ss) d) n"

definition SaveScene ::
  "bool \<Rightarrow> string \<Rightarrow> int \<Rightarrow> (int, f64) gomap \<Rightarrow> scene_store \<Rightarrow> scene_store" where
  "SaveScene io d n channels ss =
     (let entry = get_entry ss d n;
          chs = foldl (\<lambda>cs (idx, val). AList.update idx
                  ((go_get zero_channel_value cs idx)\<lparr>cv_Value := val\<rparr>) cs) (se_Channels entry) channels
      in saveIfConfigured io (put_entry (d, n) (entry\<lparr>se_Channels := chs\<rparr>) ss))"

definition ensureEntry :: "string \<Rightarrow> int \<Rightarrow> scene_store \<Rightarrow> scene_store" where
  "ensureEntry d n ss =
     (let ss' = (if go_has (ss_scenes ss) d then ss
                 else ss\<lparr>ss_scenes := AList.update d [] (ss_scenes ss)\<rparr>);
          entry = get_entry ss' d n
      in if se_Channels entry = [] then put_entry (d, n) entry ss' else ss')"

text \<open>The five setters: make sure the entry exists, change it, store it, save.\<close>

definition modify_entry ::
  "bool \<Rightarrow> string \<Rightarrow> int \<Rightarrow> (scene_entry \<Rightarrow> scene_entry) \<Rightarrow> scene_store \<Rightarrow> scene_store" where
  "modify_entry io d n f ss =
     (let ss' = ensureEntry d n ss
      in saveIfConfigured io (put_entry (d, n) (f (get_entry ss' d n)) ss'))"

definition SetSceneChannelValue ::
  "bool \<Rightarrow> string \<Rightarrow> int \<Rightarrow> int \<Rightarrow> f64 \<Rightarrow> scene_store \<Rightarrow> scene_store" where
  "SetSceneChannelValue io d n ch v = modify_entry io d n (\<lambda>e. e\<lparr>se_Channels := AList.update ch
     ((go_get zero_channel_value (se_Channels e) ch)\<lparr>cv_Value := v\<rparr>) (se_Channels e)\<rparr>)"

definition SetSceneChannelDontCare ::
  "bool \<Rightarrow> string \<Rightarrow> int \<Rightarrow> int \<Rightarrow> bool \<Rightarrow> scene_store \<Rightarrow> scene_store" where
  "SetSceneChannelDontCare io d n ch b = modify_entry io d n (\<lambda>e. e\<lparr>se_Channels := AList.update ch
     ((go_get zero_channel_value (se_Channels e) ch)\<lparr>cv_DontCare := b\<rparr>) (se_Channels e)\<rparr>)"

definition SetSceneEffect :: "bool \<Rightarrow> string \<Rightarrow> int \<Rightarrow> int \<Rightarrow> scene_store \<Rightarrow> scene_store" where
  "SetSceneEffect io d n effect = modify_entry io d n (\<lambda>e. e\<lparr>se_Effect := effect\<rparr>)"

definition SetSceneDontCare :: "bool \<Rightarrow> string \<Rightarrow> int \<Rightarrow> bool \<Rightarrow> scene_store \<Rightarrow> scene_store" where
  "SetSceneDontCare io d n b = modify_entry io d n (\<lambda>e. e\<lparr>se_DontCare := b\<rparr>)"

definition SetSceneIgnoreLocalPriority ::
  "bool \<Rightarrow> string \<Rightarrow> int \<Rightarrow> bool \<Rightarrow> scene_store \<Rightarrow> scene_store" where
  "SetSceneIgnoreLocalPriority io d n b = modify_entry io d n (\<lambda>e. e\<lparr>se_IgnoreLocalPriority := b\<rparr>)"

section \<open>The store as a keyed store\<close>

lemma GetScene_put: "GetScene (put_entry k e ss) d n =
    (if (d, n) = k then Some e else GetScene ss d n)"
  by (cases k) (auto simp: GetScene_def put_entry_def go_get_def split: option.splits)

interpretation scenes: keyed_put "\<lambda>ss (d, n). GetScene ss d n" put_entry
proof unfold_locales
  fix k :: "string \<times> int" and v s and j :: "string \<times> int"
  show "(case j of (d, n) \<Rightarrow> GetScene (put_entry k v s) d n) =
        (if j = k then Some v else (case j of (d, n) \<Rightarrow> GetScene s d n))"
    by (cases j) (simp add: GetScene_put)
qed

lemma GetScene_save [simp]: "GetScene (saveIfConfigured io ss) = GetScene ss"
  by (simp add: fun_eq_iff GetScene_def saveIfConfigured_def)

lemma get_entry_GetScene: "get_entry ss d n = (case GetScene ss d n of None \<Rightarrow> zero_entry | Some e \<Rightarrow> e)"
  by (auto simp: get_entry_def GetScene_def go_get_def split: option.splits)

lemma ensureEntry_other: "(d', n') \<noteq> (d, n) \<Longrightarrow> GetScene (ensureEntry d n ss) d' n' = GetScene ss d' n'"
  by (auto simp: ensureEntry_def Let_def GetScene_put)
    (auto simp: GetScene_def go_has_def)

lemma ensureEntry_entry: "get_entry (ensureEntry d n ss) d n = get_entry ss d n"
  by (auto simp: ensureEntry_def Let_def get_entry_def put_entry_def go_has_def go_get_def
      split: option.splits)

lemma GetScene_modify: "GetScene (modify_entry io d n f ss) d' n' =
    (if (d', n') = (d, n) then Some (f (get_entry ss d n)) else GetScene ss d' n')"
  by (auto simp: modify_entry_def Let_def GetScene_put ensureEntry_entry ensureEntry_other)

lemmas setter_defs = SetSceneChannelValue_def SetSceneChannelDontCare_def SetSceneEffect_def
  SetSceneDontCare_def SetSceneIgnoreLocalPriority_def

lemma save_channels:
  "distinct (map fst channels) \<Longrightarrow>
   map_of (foldl (\<lambda>cs (idx, val). AList.update idx
       ((go_get zero_channel_value cs idx)\<lparr>cv_Value := val\<rparr>) cs) chs channels) i =
   (case map_of channels i of
      Some v \<Rightarrow> Some ((go_get zero_channel_value chs i)\<lparr>cv_Value := v\<rparr>)
    | None \<Rightarrow> map_of chs i)"
proof (induction channels arbitrary: chs)
  case (Cons p channels)
  obtain k v where p: "p = (k, v)" by fastforce
  with Cons.prems have "k = i \<Longrightarrow> map_of channels i = None"
    by (simp add: map_of_eq_None_iff)
  with p Cons show ?case by (cases "k = i") (auto split: option.split)
qed simp

section \<open>Well-formed stores and the round trip through the file\<close>

definition scenes_wf :: "scenes \<Rightarrow> bool" where
  "scenes_wf s \<longleftrightarrow> distinct (map fst s) \<and>
     (\<forall>(d, m) \<in> set s. distinct (map fst m) \<and> (\<forall>n \<in> set (map fst m). in_int64 n))"

lemma load_scenes_keys:
  assumes "distinct (map fst m)" "\<forall>n \<in> set (map fst m). in_int64 n"
  shows "load_scenes (map (\<lambda>(n, e). (intKey n, e)) m) = m"
proof -
  have "foldl (\<lambda>acc (k, e). case atoi k of None \<Rightarrow> acc | Some n \<Rightarrow> AList.update n e acc) acc
          (map (\<lambda>(n, e). (intKey n, e)) m) = acc @ m"
    if "distinct (map fst m)" "\<forall>n \<in> set (map fst m). in_int64 n"
       "set (map fst m) \<inter> set (map fst acc) = {}" for acc
    using that
  proof (induction m arbitrary: acc)
    case (Cons p m)
    obtain n e where p: "p = (n, e)" by fastforce
    with Cons.prems have "AList.update n e acc = acc @ [(n, e)]" by (simp add: update_fresh)
    with Cons.IH [of "acc @ [(n, e)]"] Cons.prems p show ?case by (auto simp: intKey_def)
  qed simp
  from this [of "[]"] assms show ?thesis by (simp add: load_scenes_def)
qed

lemma scenes_json_roundtrip: "scenes_wf s \<Longrightarrow> scenes_from_json (scenes_to_json s) = s"
proof -
  have "foldl (\<lambda>acc (d, m). AList.update d (load_scenes m) acc) acc (scenes_to_json s) = acc @ s"
    if "scenes_wf s" "set (map fst s) \<inter> set (map fst acc) = {}" for acc
    using that
  proof (induction s arbitrary: acc)
    case (Cons p s)
    obtain d m where p: "p = (d, m)" by fastforce
    with Cons.prems have "load_scenes (map (\<lambda>(n, e). (intKey n, e)) m) = m"
      by (intro load_scenes_keys) (auto simp: scenes_wf_def)
    moreover from p Cons.prems have "AList.update d m acc = acc @ [(d, m)]"
      by (auto simp: update_fresh)
    ultimately show ?case
      using Cons.IH [of "acc @ [(d, m)]"] Cons.prems p
      by (auto simp: scenes_to_json_def scenes_wf_def)
  qed (simp add: scenes_to_json_def)
  from this [of "[]"] show "scenes_wf s \<Longrightarrow> scenes_from_json (scenes_to_json s) = s"
    by (simp add: scenes_from_json_def)
qed

lemma put_entry_wf: "scenes_wf (ss_scenes ss) \<Longrightarrow> in_int64 n \<Longrightarrow>
    scenes_wf (ss_scenes (put_entry (d, n) e ss))"
proof -
  assume wf: "scenes_wf (ss_scenes ss)" and n: "in_int64 n"
  have "distinct (map fst (go_get [] (ss_scenes ss) d)) \<and>
      (\<forall>k \<in> set (map fst (go_get [] (ss_scenes ss) d)). in_int64 k)"
    using wf by (fastforce simp: scenes_wf_def go_get_def split: option.split dest: map_of_SomeD)
  then have "distinct (map fst (AList.update n e (go_get [] (ss_scenes ss) d))) \<and>
      (\<forall>k \<in> set (map fst (AList.update n e (go_get [] (ss_scenes ss) d))). in_int64 k)"
    using n by (auto dest!: set_update_cases)
  with wf show ?thesis
    by (auto simp: scenes_wf_def put_entry_def dest!: set_update_cases)
qed

lemma save_scenes [simp]: "ss_scenes (saveIfConfigured io ss) = ss_scenes ss"
  by (simp add: saveIfConfigured_def)

lemma ensureEntry_wf: "scenes_wf (ss_scenes ss) \<Longrightarrow> in_int64 n \<Longrightarrow>
    scenes_wf (ss_scenes (ensureEntry d n ss))"
  by (auto simp: ensureEntry_def Let_def intro!: put_entry_wf)
    (auto simp: scenes_wf_def dest!: set_update_cases)

lemma modify_entry_wf: "scenes_wf (ss_scenes ss) \<Longrightarrow> in_int64 n \<Longrightarrow>
    scenes_wf (ss_scenes (modify_entry io d n f ss))"
  by (simp add: modify_entry_def Let_def put_entry_wf ensureEntry_wf)

lemma GetScene_SaveScene: "GetScene (SaveScene io d n channels ss) d' n' =
    (if (d', n') = (d, n)
     then Some ((get_entry ss d n)\<lparr>se_Channels := foldl (\<lambda>cs (idx, val). AList.update idx
            ((go_get zero_channel_value cs idx)\<lparr>cv_Value := val\<rparr>) cs)
            (se_Channels (get_entry ss d n)) channels\<rparr>)
     else GetScene ss d' n')"
  by (simp add: SaveScene_def Let_def GetScene_put)

lemma SaveScene_wf: "scenes_wf (ss_scenes ss) \<Longrightarrow> in_int64 n \<Longrightarrow>
    scenes_wf (ss_scenes (SaveScene io d n channels ss))"
  by (simp add: SaveScene_def Let_def put_entry_wf)

lemma stored_not_marshalled:
  assumes "GetScene ss d n = Some e" "\<not> entry_marshals e"
  shows "\<not> scenes_marshal (scenes_to_json (ss_scenes ss))"
  using assms
  by (fastforce simp: GetScene_def scenes_marshal_def scenes_to_json_def list_all_iff
      split: option.splits dest: map_of_SomeD)

lemma save_disk_blocked: "\<not> scenes_marshal (scenes_to_json (ss_scenes ss)) \<Longrightarrow>
    ss_disk (saveIfConfigured io ss) = ss_disk ss"
  by (simp add: saveIfConfigured_def atomicWriteJSON_def)

lemma disk_fields [simp]:
  "ss_disk (put_entry k e ss) = ss_disk ss" "ss_disk (ensureEntry d n ss) = ss_disk ss"
  "ss_autoSavePath (put_entry k e ss) = ss_autoSavePath ss"
  "ss_scenes (saveIfConfigured io ss) = ss_scenes ss"
  by (cases k; simp add: put_entry_def ensureEntry_def Let_def)+

lemma modify_disk_blocked:
  "GetScene ss d n = Some e \<Longrightarrow> \<not> entry_marshals e \<Longrightarrow> (d', n') \<noteq> (d, n) \<Longrightarrow>
   ss_disk (modify_entry io d' n' f ss) = ss_disk ss"
  unfolding modify_entry_def Let_def
  by (subst save_disk_blocked, rule stored_not_marshalled [of _ d n e])
    (auto simp: GetScene_put ensureEntry_other)

section \<open>Properties\<close>

text \<open>
  Saving a scene stores exactly the values given: each given channel gets its value and keeps
  its dontCare flag, the other channels and the other fields of the scene stay, and so does every
  other scene of every device.
\<close>

theorem save_scene_stores:
  assumes "distinct (map fst channels)"
  shows "\<exists>e. GetScene (SaveScene io d n channels ss) d n = Some e \<and>
     (\<forall>i. map_of (se_Channels e) i =
        (case map_of channels i of
           Some v \<Rightarrow> Some \<lparr>cv_Value = v,
              cv_DontCare = cv_DontCare (go_get zero_channel_value (se_Channels (get_entry ss d n)) i)\<rparr>
         | None \<Rightarrow> map_of (se_Channels (get_entry ss d n)) i)) \<and>
     se_Effect e = se_Effect (get_entry ss d n) \<and>
     (\<forall>d' n'. (d', n') \<noteq> (d, n) \<longrightarrow>
        GetScene (SaveScene io d n channels ss) d' n' = GetScene ss d' n')"
  using save_channels [OF assms]
  by (auto simp: GetScene_SaveScene split: option.split)

theorem save_scene_stores_witness:
  "GetScene (SaveScene True ''D'' 5 [(0, f64_hundred)] (NewSceneStore [])) ''D'' 5 \<noteq> None"
  using save_scene_stores [of "[(0, f64_hundred)]" True "''D''" 5 "NewSceneStore []"] by fastforce

text \<open>
  With auto-save on, a saved scene survives a restart: when the write succeeds and every stored
  value is finite, a fresh store that loads the file answers every scene of every device alike.
\<close>

theorem saved_scene_survives_restart:
  assumes "scenes_wf (ss_scenes ss)" and "in_int64 n" and "ss_autoSavePath ss \<noteq> []"
    and "scenes_marshal (scenes_to_json (ss_scenes (SaveScene True d n channels ss)))"
  shows "GetScene (LoadFromFile (ss_autoSavePath ss)
             (NewSceneStore (ss_disk (SaveScene True d n channels ss)))) d' n' =
         GetScene (SaveScene True d n channels ss) d' n'"
proof -
  let ?ss = "SaveScene True d n channels ss"
  have "scenes_from_json (scenes_to_json (ss_scenes ?ss)) = ss_scenes ?ss"
    by (intro scenes_json_roundtrip SaveScene_wf assms)
  moreover have "map_of (ss_disk ?ss) (ss_autoSavePath ss) = Some (scenes_to_json (ss_scenes ?ss))"
    using assms(3,4) by (simp add: SaveScene_def Let_def)
      (simp add: saveIfConfigured_def atomicWriteJSON_def)
  ultimately show ?thesis
    by (simp add: LoadFromFile_def NewSceneStore_def GetScene_def)
qed

theorem saved_scene_survives_restart_witness:
  "GetScene (LoadFromFile ''s.json'' (NewSceneStore (ss_disk
      (SaveScene True ''D'' 5 [(0, f64_one)] (SetAutoSave ''s.json'' (NewSceneStore [])))))) ''D'' 5 \<noteq> None"
proof -
  let ?ss = "SetAutoSave ''s.json'' (NewSceneStore [])"
  have "scenes_wf (ss_scenes ?ss)" "ss_autoSavePath ?ss = ''s.json''"
    by (simp_all add: scenes_wf_def SetAutoSave_def NewSceneStore_def)
  moreover have "scenes_marshal (scenes_to_json (ss_scenes (SaveScene True ''D'' 5 [(0, f64_one)] ?ss)))"
    by (simp add: SaveScene_def put_entry_def get_entry_def zero_entry_def SetAutoSave_def
        NewSceneStore_def Let_def scenes_to_json_def scenes_marshal_def entry_marshals_def
        f64_finite_def f64_one_def f64_pattern_defs)
  ultimately show ?thesis
    using saved_scene_survives_restart [of ?ss 5 "''D''" "[(0, f64_one)]" "''D''" 5]
    by (simp add: in_int64_def GetScene_SaveScene)
qed

text \<open>
  One value that is not finite ends persistence: after a scene is saved with a NaN or an
  infinity, neither that save nor a later change of any other scene reaches the file.
\<close>

theorem not_finite_blocks_persistence:
  assumes "distinct (map fst channels)" and "map_of channels i = Some v" and "\<not> f64_finite v"
    and "(d', n') \<noteq> (d, n)"
  shows "ss_disk (SetSceneEffect io' d' n' x (SaveScene io d n channels ss)) = ss_disk ss"
proof -
  obtain e where e: "GetScene (SaveScene io d n channels ss) d n = Some e"
    and chs: "map_of (se_Channels e) i = Some \<lparr>cv_Value = v,
        cv_DontCare = cv_DontCare (go_get zero_channel_value (se_Channels (get_entry ss d n)) i)\<rparr>"
    using assms(2) save_channels [OF assms(1)] by (auto simp: GetScene_SaveScene)
  from chs assms(3) have bad: "\<not> entry_marshals e"
    by (force simp: entry_marshals_def list_all_iff dest!: map_of_SomeD)
  have "ss_disk (SetSceneEffect io' d' n' x (SaveScene io d n channels ss)) =
        ss_disk (SaveScene io d n channels ss)"
    unfolding SetSceneEffect_def by (rule modify_disk_blocked [OF e bad assms(4)])
  also have "\<dots> = ss_disk ss"
    using stored_not_marshalled [OF e bad]
    by (simp add: SaveScene_def Let_def save_disk_blocked)
  finally show ?thesis .
qed

theorem not_finite_blocks_persistence_witness:
  "ss_disk (SetSceneEffect True ''E'' 0 1 (SaveScene True ''D'' 5 [(0, f64_nan)]
     (SetAutoSave ''s.json'' (NewSceneStore [])))) = []"
proof -
  have "\<not> f64_finite f64_nan" by (simp add: f64_finite_def f64_nan_def f64_pattern_defs)
  then show ?thesis
    using not_finite_blocks_persistence [of "[(0, f64_nan)]" 0 f64_nan "''E''" 0 "''D''" 5]
    by (simp add: SetAutoSave_def NewSceneStore_def)
qed

end
