(* ===== verification/Config_Store.thy ===== *)
theory Config_Store
  imports Scene_Store
begin

text \<open>
  The store of the writable device configuration (\<^verbatim>\<open>pkg/vdcapi/config_store.go\<close>). A pointer field
  is an option, a nil map the empty map, the set of announced dSUIDs a map to \<open>True\<close>, and the disk
  is as in \<open>Scene_Store\<close>. The names of its operations that the scene store also has are prefixed
  with \<open>cs_\<close>.
\<close>

section \<open>State\<close>

record output_settings =
  os_Mode :: "int option"
  os_PushChanges :: "bool option"
  os_Groups :: "(string, bool) gomap option"
  os_OnThreshold :: "f64 option"
  os_MinBrightness :: "f64 option"
  os_DimTimeUp :: "int option"
  os_DimTimeDown :: "int option"
  os_DimTimeUpAlt1 :: "int option"
  os_DimTimeDownAlt1 :: "int option"
  os_DimTimeUpAlt2 :: "int option"
  os_DimTimeDownAlt2 :: "int option"

record output_state =
  ot_LocalPriority :: bool
  ot_TransitionTime :: f64

record button_settings =
  bs_SetsLocalPriority :: bool
  bs_CallsPresent :: bool
  bs_Group :: "int option"
  bs_Mode :: "int option"
  bs_Function :: "int option"

record binary_input_settings =
  is_SensorFunction :: int
  is_Group :: "int option"

record sensor_settings =
  st_Group :: "int option"
  st_Function :: "int option"
  st_Channel :: "int option"
  st_MinPushInterval :: "f64 option"
  st_ChangesOnlyInterval :: "f64 option"

record config_json =
  j_DeviceNames :: "(string, string) gomap"
  j_DeviceZoneIDs :: "(string, int) gomap"
  j_DeviceOutputSettings :: "(string, output_settings) gomap"
  j_ButtonInputSettings :: "(string, button_settings) gomap"
  j_BinaryInputSettings :: "(string, binary_input_settings) gomap"
  j_SensorSettings :: "(string, sensor_settings) gomap"
  j_AnnouncedDSUIDs :: "string list"

record config_store =
  cs_deviceNames :: "(string, string) gomap"
  cs_deviceZoneIDs :: "(string, int) gomap"
  cs_deviceOutputSettings :: "(string, output_settings) gomap"
  cs_deviceOutputStates :: "(string, output_state) gomap"
  cs_buttonInputSettings :: "(string, button_settings) gomap"
  cs_binaryInputSettings :: "(string, binary_input_settings) gomap"
  cs_sensorSettings :: "(string, sensor_settings) gomap"
  cs_announcedDSUIDs :: "(string, bool) gomap"
  cs_autoSavePath :: string
  cs_disk :: "config_json files"

definition zero_output_settings :: output_settings where
  "zero_output_settings = \<lparr>os_Mode = None, os_PushChanges = None, os_Groups = None,
     os_OnThreshold = None, os_MinBrightness = None, os_DimTimeUp = None, os_DimTimeDown = None,
     os_DimTimeUpAlt1 = None, os_DimTimeDownAlt1 = None, os_DimTimeUpAlt2 = None,
     os_DimTimeDownAlt2 = None\<rparr>"

definition zero_output_state :: output_state where
  "zero_output_state = \<lparr>ot_LocalPriority = False, ot_TransitionTime = 0\<rparr>"

definition zero_button_settings :: button_settings where
  "zero_button_settings = \<lparr>bs_SetsLocalPriority = False, bs_CallsPresent = False, bs_Group = None,
     bs_Mode = None, bs_Function = None\<rparr>"

definition zero_binary_input_settings :: binary_input_settings where
  "zero_binary_input_settings = \<lparr>is_SensorFunction = 0, is_Group = None\<rparr>"

definition zero_sensor_settings :: sensor_settings where
  "zero_sensor_settings = \<lparr>st_Group = None, st_Function = None, st_Channel = None,
     st_MinPushInterval = None, st_ChangesOnlyInterval = None\<rparr>"

definition NewConfigStore :: "config_json files \<Rightarrow> config_store" where
  "NewConfigStore disk = \<lparr>cs_deviceNames = [], cs_deviceZoneIDs = [], cs_deviceOutputSettings = [],
     cs_deviceOutputStates = [], cs_buttonInputSettings = [], cs_binaryInputSettings = [],
     cs_sensorSettings = [], cs_announcedDSUIDs = [], cs_autoSavePath = [], cs_disk = disk\<rparr>"

definition cs_SetAutoSave :: "string \<Rightarrow> config_store \<Rightarrow> config_store" where
  "cs_SetAutoSave path cs = cs\<lparr>cs_autoSavePath := path\<rparr>"

definition inputSettingKey :: "string \<Rightarrow> int \<Rightarrow> string" where
  "inputSettingKey deviceDSUID idx = deviceDSUID @ '':'' @ itoa idx"

section \<open>Persistence\<close>

text \<open>An empty groups map is left out of the file (\<^verbatim>\<open>omitempty\<close>) and read back as nil.\<close>

definition json_output_settings :: "output_settings \<Rightarrow> output_settings" where
  "json_output_settings s = s\<lparr>os_Groups := (if os_Groups s = Some [] then None else os_Groups s)\<rparr>"

definition config_to_json :: "config_store \<Rightarrow> config_json" where
  "config_to_json cs = \<lparr>j_DeviceNames = cs_deviceNames cs, j_DeviceZoneIDs = cs_deviceZoneIDs cs,
     j_DeviceOutputSettings = map (\<lambda>(d, x). (d, json_output_settings x)) (cs_deviceOutputSettings cs),
     j_ButtonInputSettings = cs_buttonInputSettings cs,
     j_BinaryInputSettings = cs_binaryInputSettings cs, j_SensorSettings = cs_sensorSettings cs,
     j_AnnouncedDSUIDs = map fst (cs_announcedDSUIDs cs)\<rparr>"

definition opt_finite :: "f64 option \<Rightarrow> bool" where
  "opt_finite x = (case x of None \<Rightarrow> True | Some v \<Rightarrow> f64_finite v)"

definition config_marshals :: "config_json \<Rightarrow> bool" where
  "config_marshals j \<longleftrightarrow>
     list_all (\<lambda>(d, o'). opt_finite (os_OnThreshold o') \<and> opt_finite (os_MinBrightness o'))
       (j_DeviceOutputSettings j) \<and>
     list_all (\<lambda>(d, x). opt_finite (st_MinPushInterval x) \<and> opt_finite (st_ChangesOnlyInterval x))
       (j_SensorSettings j)"

definition cs_save :: "bool \<Rightarrow> config_store \<Rightarrow> config_store" where
  "cs_save io cs =
     (if cs_autoSavePath cs = [] then cs
      else cs\<lparr>cs_disk := fst (atomicWriteJSON io config_marshals (cs_autoSavePath cs)
                               (config_to_json cs) (cs_disk cs))\<rparr>)"

definition cs_SaveToFile :: "bool \<Rightarrow> string \<Rightarrow> config_store \<Rightarrow> config_store \<times> bool" where
  "cs_SaveToFile io path cs =
     (case atomicWriteJSON io config_marshals path (config_to_json cs) (cs_disk cs) of
        (fs, err) \<Rightarrow> (cs\<lparr>cs_disk := fs\<rparr>, err))"

definition copy_map :: "('k, 'v) gomap \<Rightarrow> ('k, 'v) gomap" where
  "copy_map m = foldl (\<lambda>acc (k, v). AList.update k v acc) [] m"

definition cs_LoadFromFile :: "string \<Rightarrow> config_store \<Rightarrow> config_store" where
  "cs_LoadFromFile path cs =
     (case map_of (cs_disk cs) path of
        None \<Rightarrow> cs
      | Some j \<Rightarrow> cs\<lparr>cs_deviceNames := copy_map (j_DeviceNames j),
          cs_buttonInputSettings := copy_map (j_ButtonInputSettings j),
          cs_binaryInputSettings := copy_map (j_BinaryInputSettings j),
          cs_sensorSettings := copy_map (j_SensorSettings j),
          cs_deviceZoneIDs := copy_map (j_DeviceZoneIDs j),
          cs_deviceOutputSettings := copy_map (j_DeviceOutputSettings j),
          cs_deviceOutputStates := [],
          cs_announcedDSUIDs := copy_map (map (\<lambda>d. (d, True)) (j_AnnouncedDSUIDs j))\<rparr>)"

section \<open>Announced devices\<close>

text \<open>\<open>go_get False\<close> is the lookup of a Go set.\<close>

definition StaleAnnouncedDSUIDs :: "bool \<Rightarrow> string list \<Rightarrow> config_store \<Rightarrow> string list \<times> config_store" where
  "StaleAnnouncedDSUIDs io current cs =
     (let currentSet = copy_map (map (\<lambda>d. (d, True)) current);
          stale = filter (\<lambda>d. \<not> go_get False currentSet d) (map fst (cs_announcedDSUIDs cs))
      in (stale, cs_save io (cs\<lparr>cs_announcedDSUIDs := currentSet\<rparr>)))"

definition MarkDSUIDAdded :: "bool \<Rightarrow> string \<Rightarrow> config_store \<Rightarrow> config_store" where
  "MarkDSUIDAdded io d cs =
     cs_save io (cs\<lparr>cs_announcedDSUIDs := AList.update d True (cs_announcedDSUIDs cs)\<rparr>)"

definition MarkDSUIDRemoved :: "bool \<Rightarrow> string \<Rightarrow> config_store \<Rightarrow> config_store" where
  "MarkDSUIDRemoved io d cs =
     cs_save io (cs\<lparr>cs_announcedDSUIDs := AList.delete d (cs_announcedDSUIDs cs)\<rparr>)"

definition ClearAnnouncedDSUIDs :: "bool \<Rightarrow> config_store \<Rightarrow> nat \<times> config_store" where
  "ClearAnnouncedDSUIDs io cs =
     (length (cs_announcedDSUIDs cs), cs_save io (cs\<lparr>cs_announcedDSUIDs := []\<rparr>))"

section \<open>Names, zones and outputs\<close>

definition SetDeviceName :: "bool \<Rightarrow> string \<Rightarrow> string \<Rightarrow> config_store \<Rightarrow> config_store" where
  "SetDeviceName io d name cs =
     cs_save io (cs\<lparr>cs_deviceNames := AList.update d name (cs_deviceNames cs)\<rparr>)"

definition GetDeviceName :: "config_store \<Rightarrow> string \<Rightarrow> string option" where
  "GetDeviceName cs d = map_of (cs_deviceNames cs) d"

definition SetDeviceZoneID :: "bool \<Rightarrow> string \<Rightarrow> int \<Rightarrow> config_store \<Rightarrow> config_store" where
  "SetDeviceZoneID io d z cs =
     cs_save io (cs\<lparr>cs_deviceZoneIDs := AList.update d z (cs_deviceZoneIDs cs)\<rparr>)"

definition GetDeviceZoneID :: "config_store \<Rightarrow> string \<Rightarrow> int" where
  "GetDeviceZoneID cs d = go_get 0 (cs_deviceZoneIDs cs) d"

definition merge_opt :: "'a option \<Rightarrow> 'a option \<Rightarrow> 'a option" where
  "merge_opt new old = (case new of None \<Rightarrow> old | Some v \<Rightarrow> Some v)"

definition merge_output_settings :: "output_settings \<Rightarrow> output_settings \<Rightarrow> output_settings" where
  "merge_output_settings ov e =
     \<lparr>os_Mode = merge_opt (os_Mode ov) (os_Mode e),
      os_PushChanges = merge_opt (os_PushChanges ov) (os_PushChanges e),
      os_Groups = (case os_Groups ov of
          None \<Rightarrow> os_Groups e
        | Some g \<Rightarrow> Some (foldl (\<lambda>g (k, v). AList.update k v g)
                        (case os_Groups e of None \<Rightarrow> [] | Some h \<Rightarrow> h) g)),
      os_OnThreshold = merge_opt (os_OnThreshold ov) (os_OnThreshold e),
      os_MinBrightness = merge_opt (os_MinBrightness ov) (os_MinBrightness e),
      os_DimTimeUp = merge_opt (os_DimTimeUp ov) (os_DimTimeUp e),
      os_DimTimeDown = merge_opt (os_DimTimeDown ov) (os_DimTimeDown e),
      os_DimTimeUpAlt1 = merge_opt (os_DimTimeUpAlt1 ov) (os_DimTimeUpAlt1 e),
      os_DimTimeDownAlt1 = merge_opt (os_DimTimeDownAlt1 ov) (os_DimTimeDownAlt1 e),
      os_DimTimeUpAlt2 = merge_opt (os_DimTimeUpAlt2 ov) (os_DimTimeUpAlt2 e),
      os_DimTimeDownAlt2 = merge_opt (os_DimTimeDownAlt2 ov) (os_DimTimeDownAlt2 e)\<rparr>"

definition GetDeviceOutputSettings :: "config_store \<Rightarrow> string \<Rightarrow> output_settings" where
  "GetDeviceOutputSettings cs d = go_get zero_output_settings (cs_deviceOutputSettings cs) d"

definition MergeDeviceOutputSettings ::
  "bool \<Rightarrow> string \<Rightarrow> output_settings \<Rightarrow> config_store \<Rightarrow> config_store" where
  "MergeDeviceOutputSettings io d ov cs =
     cs_save io (cs\<lparr>cs_deviceOutputSettings := AList.update d
       (merge_output_settings ov (GetDeviceOutputSettings cs d)) (cs_deviceOutputSettings cs)\<rparr>)"

definition GetDeviceOutputState :: "config_store \<Rightarrow> string \<Rightarrow> output_state" where
  "GetDeviceOutputState cs d = go_get zero_output_state (cs_deviceOutputStates cs) d"

text \<open>The runtime state is not written to disk; a transition time that is not positive is kept out.\<close>

definition SetDeviceOutputState :: "string \<Rightarrow> output_state \<Rightarrow> config_store \<Rightarrow> config_store" where
  "SetDeviceOutputState d ov cs =
     (let e = GetDeviceOutputState cs d;
          e' = e\<lparr>ot_LocalPriority := ot_LocalPriority ov,
                 ot_TransitionTime := (if f64_less 0 (ot_TransitionTime ov)
                                       then ot_TransitionTime ov else ot_TransitionTime e)\<rparr>
      in cs\<lparr>cs_deviceOutputStates := AList.update d e' (cs_deviceOutputStates cs)\<rparr>)"

definition AllDeviceNames :: "config_store \<Rightarrow> (string, string) gomap" where
  "AllDeviceNames cs = copy_map (cs_deviceNames cs)"

section \<open>Inputs\<close>

definition GetButtonInputSettings :: "config_store \<Rightarrow> string \<Rightarrow> int \<Rightarrow> button_settings" where
  "GetButtonInputSettings cs d i =
     go_get zero_button_settings (cs_buttonInputSettings cs) (inputSettingKey d i)"

definition modify_button ::
  "bool \<Rightarrow> string \<Rightarrow> int \<Rightarrow> (button_settings \<Rightarrow> button_settings) \<Rightarrow> config_store \<Rightarrow> config_store" where
  "modify_button io d i f cs =
     cs_save io (cs\<lparr>cs_buttonInputSettings := AList.update (inputSettingKey d i)
       (f (GetButtonInputSettings cs d i)) (cs_buttonInputSettings cs)\<rparr>)"

definition SetButtonSetsLocalPriority :: "bool \<Rightarrow> string \<Rightarrow> int \<Rightarrow> bool \<Rightarrow> config_store \<Rightarrow> config_store" where
  "SetButtonSetsLocalPriority io d i v = modify_button io d i (\<lambda>e. e\<lparr>bs_SetsLocalPriority := v\<rparr>)"

definition SetButtonCallsPresent :: "bool \<Rightarrow> string \<Rightarrow> int \<Rightarrow> bool \<Rightarrow> config_store \<Rightarrow> config_store" where
  "SetButtonCallsPresent io d i v = modify_button io d i (\<lambda>e. e\<lparr>bs_CallsPresent := v\<rparr>)"

definition SetButtonGroup :: "bool \<Rightarrow> string \<Rightarrow> int \<Rightarrow> int \<Rightarrow> config_store \<Rightarrow> config_store" where
  "SetButtonGroup io d i v = modify_button io d i (\<lambda>e. e\<lparr>bs_Group := Some v\<rparr>)"

definition SetButtonMode :: "bool \<Rightarrow> string \<Rightarrow> int \<Rightarrow> int \<Rightarrow> config_store \<Rightarrow> config_store" where
  "SetButtonMode io d i v = modify_button io d i (\<lambda>e. e\<lparr>bs_Mode := Some v\<rparr>)"

definition SetButtonFunction :: "bool \<Rightarrow> string \<Rightarrow> int \<Rightarrow> int \<Rightarrow> config_store \<Rightarrow> config_store" where
  "SetButtonFunction io d i v = modify_button io d i (\<lambda>e. e\<lparr>bs_Function := Some v\<rparr>)"

definition GetBinaryInputSettings :: "config_store \<Rightarrow> string \<Rightarrow> int \<Rightarrow> binary_input_settings" where
  "GetBinaryInputSettings cs d i =
     go_get zero_binary_input_settings (cs_binaryInputSettings cs) (inputSettingKey d i)"

definition modify_binary_input :: "bool \<Rightarrow> string \<Rightarrow> int
   \<Rightarrow> (binary_input_settings \<Rightarrow> binary_input_settings) \<Rightarrow> config_store \<Rightarrow> config_store" where
  "modify_binary_input io d i f cs =
     cs_save io (cs\<lparr>cs_binaryInputSettings := AList.update (inputSettingKey d i)
       (f (GetBinaryInputSettings cs d i)) (cs_binaryInputSettings cs)\<rparr>)"

definition SetBinaryInputSensorFunction ::
  "bool \<Rightarrow> string \<Rightarrow> int \<Rightarrow> int \<Rightarrow> config_store \<Rightarrow> config_store" where
  "SetBinaryInputSensorFunction io d i v = modify_binary_input io d i (\<lambda>e. e\<lparr>is_SensorFunction := v\<rparr>)"

definition SetBinaryInputGroup :: "bool \<Rightarrow> string \<Rightarrow> int \<Rightarrow> int \<Rightarrow> config_store \<Rightarrow> config_store" where
  "SetBinaryInputGroup io d i v = modify_binary_input io d i (\<lambda>e. e\<lparr>is_Group := Some v\<rparr>)"

definition GetSensorSettings :: "config_store \<Rightarrow> string \<Rightarrow> int \<Rightarrow> sensor_settings" where
  "GetSensorSettings cs d i =
     go_get zero_sensor_settings (cs_sensorSettings cs) (inputSettingKey d i)"

definition merge_sensor_settings :: "sensor_settings \<Rightarrow> sensor_settings \<Rightarrow> sensor_settings" where
  "merge_sensor_settings ov e =
     \<lparr>st_Group = merge_opt (st_Group ov) (st_Group e),
      st_Function = merge_opt (st_Function ov) (st_Function e),
      st_Channel = merge_opt (st_Channel ov) (st_Channel e),
      st_MinPushInterval = merge_opt (st_MinPushInterval ov) (st_MinPushInterval e),
      st_ChangesOnlyInterval = merge_opt (st_ChangesOnlyInterval ov) (st_ChangesOnlyInterval e)\<rparr>"

definition MergeSensorSettings ::
  "bool \<Rightarrow> string \<Rightarrow> int \<Rightarrow> sensor_settings \<Rightarrow> config_store \<Rightarrow> config_store" where
  "MergeSensorSettings io d i ov cs =
     cs_save io (cs\<lparr>cs_sensorSettings := AList.update (inputSettingKey d i)
       (merge_sensor_settings ov (GetSensorSettings cs d i)) (cs_sensorSettings cs)\<rparr>)"

section \<open>Keys and copies\<close>

lemma itoa_no_colon: "CHR '':'' \<notin> set (itoa i)"
proof -
  have digit: "CHR '':'' \<noteq> digit_char d" if "d < 10" for d
  proof
    assume "CHR '':'' = digit_char d"
    then have "(of_char (digit_char d) :: nat) = of_char CHR '':''" by metis
    with that show False by (simp add: digit_char_def)
  qed
  have "CHR '':'' \<notin> set (nat_digits n)" for n
  proof (induction n rule: nat_digits.induct)
    case (1 n)
    then show ?case
      using digit [of n] digit [of "n mod 10"]
      by (subst nat_digits.simps) auto
  qed
  then show ?thesis by (auto simp: itoa_def)
qed

lemma inputSettingKey_inj [simp]:
  "inputSettingKey d i = inputSettingKey d' i' \<longleftrightarrow> d = d' \<and> i = i'"
proof
  assume eq: "inputSettingKey d i = inputSettingKey d' i'"
  have tail: "takeWhile (\<lambda>c. c \<noteq> CHR '':'') (rev (inputSettingKey e j)) = rev (itoa j)" for e j
  proof -
    have "takeWhile (\<lambda>c. c \<noteq> CHR '':'') (rev (itoa j) @ CHR '':'' # rev e) = rev (itoa j)"
      using itoa_no_colon [of j] by (subst takeWhile_append2) auto
    then show ?thesis by (simp add: inputSettingKey_def)
  qed
  from eq tail [of d i] tail [of d' i'] have "itoa i = itoa i'" by simp
  with eq show "d = d' \<and> i = i'"
    by (auto simp: inputSettingKey_def dest: itoa_inj)
qed simp

lemma copy_map_id: "distinct (map fst m) \<Longrightarrow> copy_map m = m"
  using foldl_update_fresh [of m "[]"] by (simp add: copy_map_def)

lemma copy_set_lookup:
  "map_of (copy_map (map (\<lambda>d. (d, True)) ds)) d = (if d \<in> set ds then Some True else None)"
proof -
  have "map_of (foldl (\<lambda>acc (k, v). AList.update k v acc) m (map (\<lambda>d. (d, True)) ds)) d =
      (if d \<in> set ds then Some True else map_of m d)" for m
    by (induction ds arbitrary: m) auto
  then show ?thesis by (simp add: copy_map_def)
qed

interpretation buttons: keyed_put
  "\<lambda>cs (d, i). map_of (cs_buttonInputSettings cs) (inputSettingKey d i)"
  "\<lambda>(d, i) e cs. cs\<lparr>cs_buttonInputSettings :=
     AList.update (inputSettingKey d i) e (cs_buttonInputSettings cs)\<rparr>"
  by unfold_locales (auto split: prod.split)

interpretation sensors: keyed_put
  "\<lambda>cs (d, i). map_of (cs_sensorSettings cs) (inputSettingKey d i)"
  "\<lambda>(d, i) e cs. cs\<lparr>cs_sensorSettings :=
     AList.update (inputSettingKey d i) e (cs_sensorSettings cs)\<rparr>"
  by unfold_locales (auto split: prod.split)

lemma cs_save_fields [simp]:
  "cs_deviceNames (cs_save io cs) = cs_deviceNames cs"
  "cs_deviceZoneIDs (cs_save io cs) = cs_deviceZoneIDs cs"
  "cs_deviceOutputSettings (cs_save io cs) = cs_deviceOutputSettings cs"
  "cs_deviceOutputStates (cs_save io cs) = cs_deviceOutputStates cs"
  "cs_buttonInputSettings (cs_save io cs) = cs_buttonInputSettings cs"
  "cs_binaryInputSettings (cs_save io cs) = cs_binaryInputSettings cs"
  "cs_sensorSettings (cs_save io cs) = cs_sensorSettings cs"
  "cs_announcedDSUIDs (cs_save io cs) = cs_announcedDSUIDs cs"
  "cs_autoSavePath (cs_save io cs) = cs_autoSavePath cs"
  by (simp_all add: cs_save_def)

lemmas button_setters =
  SetButtonSetsLocalPriority_def SetButtonCallsPresent_def SetButtonGroup_def SetButtonMode_def
  SetButtonFunction_def modify_button_def GetButtonInputSettings_def

section \<open>Well-formed stores and the round trip through the file\<close>

definition config_wf :: "config_store \<Rightarrow> bool" where
  "config_wf cs \<longleftrightarrow> distinct (map fst (cs_deviceNames cs)) \<and> distinct (map fst (cs_deviceZoneIDs cs)) \<and>
     distinct (map fst (cs_deviceOutputSettings cs)) \<and>
     distinct (map fst (cs_buttonInputSettings cs)) \<and>
     distinct (map fst (cs_binaryInputSettings cs)) \<and> distinct (map fst (cs_sensorSettings cs)) \<and>
     distinct (map fst (cs_announcedDSUIDs cs)) \<and> (\<forall>(d, b) \<in> set (cs_announcedDSUIDs cs). b)"

lemma distinct_copy_map: "distinct (map fst (copy_map m))"
proof -
  have "distinct (map fst acc) \<Longrightarrow>
      distinct (map fst (foldl (\<lambda>acc (k, v). AList.update k v acc) acc m))" for acc
    by (induction m arbitrary: acc) auto
  then show ?thesis by (simp add: copy_map_def)
qed

lemma set_copy_map: "x \<in> set (copy_map m) \<Longrightarrow> x \<in> set m"
proof -
  have "x \<in> set (foldl (\<lambda>acc (k, v). AList.update k v acc) acc m) \<Longrightarrow> x \<in> set acc \<or> x \<in> set m" for acc
  proof (induction m arbitrary: acc)
    case (Cons p m)
    then show ?case by (cases p) (fastforce dest: set_update_cases)
  qed simp
  then show "x \<in> set (copy_map m) \<Longrightarrow> x \<in> set m" by (fastforce simp: copy_map_def)
qed

lemma all_true_map: "\<forall>(d, b) \<in> set m. b \<Longrightarrow> map (\<lambda>d. (d, True)) (map fst m) = m"
  by (induction m) auto

lemma config_wf_ops:
  assumes "config_wf cs"
  shows "config_wf (cs_save io cs)" "config_wf (SetDeviceName io d name cs)"
    "config_wf (SetDeviceZoneID io d z cs)" "config_wf (MergeDeviceOutputSettings io d ov cs)"
    "config_wf (SetDeviceOutputState d st cs)" "config_wf (modify_button io d i f cs)"
    "config_wf (modify_binary_input io d i g cs)" "config_wf (MergeSensorSettings io d i sv cs)"
    "config_wf (MarkDSUIDAdded io d cs)" "config_wf (MarkDSUIDRemoved io d cs)"
    "config_wf (snd (ClearAnnouncedDSUIDs io cs))" "config_wf (snd (StaleAnnouncedDSUIDs io ds cs))"
    "config_wf (cs_SetAutoSave path cs)"
  using assms
  by (auto simp: config_wf_def SetDeviceName_def SetDeviceZoneID_def MergeDeviceOutputSettings_def
      SetDeviceOutputState_def modify_button_def modify_binary_input_def MergeSensorSettings_def
      MarkDSUIDAdded_def MarkDSUIDRemoved_def ClearAnnouncedDSUIDs_def StaleAnnouncedDSUIDs_def
      cs_SetAutoSave_def Let_def distinct_copy_map
      dest!: set_update_cases set_delete_subset set_copy_map)

lemma reload:
  assumes "config_wf cs" "map_of disk path = Some (config_to_json cs)"
  shows "cs_LoadFromFile path (NewConfigStore disk) =
     cs\<lparr>cs_deviceOutputSettings := map (\<lambda>(d, x). (d, json_output_settings x)) (cs_deviceOutputSettings cs),
        cs_deviceOutputStates := [], cs_autoSavePath := [], cs_disk := disk\<rparr>"
  using assms all_true_map [of "cs_announcedDSUIDs cs"]
  by (simp add: cs_LoadFromFile_def NewConfigStore_def config_wf_def config_to_json_def copy_map_id
      comp_def split_beta)

lemma json_output_settings_idem [simp]:
  "json_output_settings (json_output_settings s) = json_output_settings s"
  by (simp add: json_output_settings_def)

lemma map_of_json_output:
  "go_get zero_output_settings (map (\<lambda>(d, x). (d, json_output_settings x)) m) d =
   json_output_settings (go_get zero_output_settings m d)"
proof -
  have "map_of (map (\<lambda>(d, x). (d, json_output_settings x)) m) d =
      map_option json_output_settings (map_of m d)"
    by (induction m) auto
  moreover have "json_output_settings zero_output_settings = zero_output_settings"
    by (simp add: json_output_settings_def zero_output_settings_def)
  ultimately show ?thesis by (simp add: go_get_def split: option.split)
qed

section \<open>Properties\<close>

text \<open>
  The settings of one button of one device are kept apart from those of every other button and
  device although they share a string-keyed map: setting the group changes exactly that field.
\<close>

theorem button_settings_independent:
  "GetButtonInputSettings (SetButtonGroup io d i v cs) d' i' =
     (if d' = d \<and> i' = i then (GetButtonInputSettings cs d i)\<lparr>bs_Group := Some v\<rparr>
      else GetButtonInputSettings cs d' i')"
  by (simp add: button_setters)

lemma stale_sets:
  "set (fst (StaleAnnouncedDSUIDs io cur cs)) = set (map fst (cs_announcedDSUIDs cs)) - set cur"
  "go_has (cs_announcedDSUIDs (snd (StaleAnnouncedDSUIDs io cur cs))) d \<longleftrightarrow> d \<in> set cur"
  by (auto simp: StaleAnnouncedDSUIDs_def Let_def go_get_def go_has_def copy_set_lookup)

text \<open>
  At a hello the announced set is reconciled: exactly the announced dSUIDs that are not current
  are reported stale, the current ones are what is announced afterwards, and a second
  reconciliation with the same devices reports nothing.
\<close>

theorem stale_reconciliation:
  "set (fst (StaleAnnouncedDSUIDs io cur cs)) = set (map fst (cs_announcedDSUIDs cs)) - set cur \<and>
   (\<forall>d. go_has (cs_announcedDSUIDs (snd (StaleAnnouncedDSUIDs io cur cs))) d = (d \<in> set cur)) \<and>
   fst (StaleAnnouncedDSUIDs io' cur (snd (StaleAnnouncedDSUIDs io cur cs))) = []"
  by (auto simp: StaleAnnouncedDSUIDs_def Let_def go_get_def go_has_def copy_set_lookup filter_empty_conv
      dest: set_copy_map)

text \<open>
  The configuration survives a restart: once a save went through, a fresh store that loads the
  file has every name, zone, output setting, input setting and announced dSUID, and only the
  runtime output state is back to its defaults (an empty groups overlay reads back as none).
\<close>

theorem config_survives_restart:
  assumes "config_wf cs" and "cs_autoSavePath cs \<noteq> []" and "config_marshals (config_to_json cs)"
  shows "\<exists>cs'. cs' = cs_LoadFromFile (cs_autoSavePath cs) (NewConfigStore (cs_disk (cs_save True cs))) \<and>
     config_to_json cs' = config_to_json cs \<and> cs_deviceOutputStates cs' = [] \<and>
     (\<forall>d i. GetDeviceName cs' d = GetDeviceName cs d \<and>
        GetDeviceOutputSettings cs' d = json_output_settings (GetDeviceOutputSettings cs d) \<and>
        GetButtonInputSettings cs' d i = GetButtonInputSettings cs d i \<and>
        GetSensorSettings cs' d i = GetSensorSettings cs d i)"
proof -
  have "map_of (cs_disk (cs_save True cs)) (cs_autoSavePath cs) = Some (config_to_json cs)"
    using assms(2,3) by (simp add: cs_save_def atomicWriteJSON_def)
  from reload [OF assms(1) this] show ?thesis
    by (simp add: config_to_json_def GetDeviceName_def GetDeviceOutputSettings_def
        GetButtonInputSettings_def GetSensorSettings_def map_of_json_output comp_def split_beta)
qed

theorem config_survives_restart_witness:
  "GetDeviceName (cs_LoadFromFile ''c.json'' (NewConfigStore (cs_disk
      (SetDeviceName True ''D'' ''Lamp'' (cs_SetAutoSave ''c.json'' (NewConfigStore [])))))) ''D'' =
   Some ''Lamp''"
proof -
  let ?cs = "SetDeviceName True ''D'' ''Lamp'' (cs_SetAutoSave ''c.json'' (NewConfigStore []))"
  have "config_wf ?cs" by (intro config_wf_ops) (simp add: config_wf_def NewConfigStore_def)
  moreover have "cs_autoSavePath ?cs = ''c.json''" "cs_save True ?cs = ?cs"
    by (simp_all add: SetDeviceName_def cs_SetAutoSave_def cs_save_def NewConfigStore_def
        atomicWriteJSON_def config_to_json_def config_marshals_def)
  moreover have "config_marshals (config_to_json ?cs)" "GetDeviceName ?cs ''D'' = Some ''Lamp''"
    by (simp_all add: SetDeviceName_def cs_SetAutoSave_def NewConfigStore_def config_to_json_def
        config_marshals_def GetDeviceName_def)
  ultimately show ?thesis using config_survives_restart [of ?cs] by auto
qed

text \<open>
  An overlay changes exactly the output settings it names: a field it sets has its value, a
  field it leaves nil keeps the stored one, groups are merged by name, and other devices stay.
\<close>

theorem output_settings_merge:
  assumes "os_Groups ov = Some gs" and "distinct (map fst gs)"
  shows "(let s = GetDeviceOutputSettings (MergeDeviceOutputSettings io d ov cs) d;
              old = GetDeviceOutputSettings cs d
          in os_Mode s = merge_opt (os_Mode ov) (os_Mode old) \<and>
             os_OnThreshold s = merge_opt (os_OnThreshold ov) (os_OnThreshold old) \<and>
             (\<exists>hs. os_Groups s = Some hs \<and>
                (\<forall>g. map_of hs g = (case map_of gs g of
                   Some b \<Rightarrow> Some b
                 | None \<Rightarrow> map_of (case os_Groups old of None \<Rightarrow> [] | Some h \<Rightarrow> h) g)))) \<and>
         (\<forall>d'. d' \<noteq> d \<longrightarrow> GetDeviceOutputSettings (MergeDeviceOutputSettings io d ov cs) d' =
            GetDeviceOutputSettings cs d')"
proof -
  have "map_of (foldl (\<lambda>g (k, v). AList.update k v g) m ps) g =
      (case map_of ps g of Some b \<Rightarrow> Some b | None \<Rightarrow> map_of m g)"
    if "distinct (map fst ps)" for ps :: "(string, bool) gomap" and m g
    using that
  proof (induction ps arbitrary: m)
    case (Cons p ps)
    obtain k v where p: "p = (k, v)" by fastforce
    with Cons.prems have "k = g \<Longrightarrow> map_of ps g = None" by (simp add: map_of_eq_None_iff)
    with Cons p show ?case by (cases "k = g") (auto split: option.split)
  qed simp
  with assms show ?thesis
    by (simp add: GetDeviceOutputSettings_def MergeDeviceOutputSettings_def merge_output_settings_def)
qed

theorem output_settings_merge_witness:
  "os_Mode (GetDeviceOutputSettings (MergeDeviceOutputSettings True ''D''
     (zero_output_settings\<lparr>os_Mode := Some 2, os_Groups := Some [(''1'', True)]\<rparr>)
     (NewConfigStore [])) ''D'') = Some 2"
  using output_settings_merge [of "zero_output_settings\<lparr>os_Mode := Some 2, os_Groups := Some [(''1'', True)]\<rparr>"
      "[(''1'', True)]" True "''D''" "NewConfigStore []"]
  by (simp add: zero_output_settings_def merge_opt_def Let_def)

end
