(* ===== verification/Control.thy ===== *)
theory Control
  imports Pbuf_Codec Go_Map
begin

text \<open>
  The readers of values and of property writes (\<^verbatim>\<open>pkg/vdcapi/control.go\<close> and the extracting
  functions of \<^verbatim>\<open>pbuf_decode.go\<close>). A JSON object is an association list from names to
  \<open>gany\<close>; a missing name reads as \<open>GNil\<close>. Loops that return at the first hit are \<open>first_some\<close>;
  over a JSON object they visit the entries in the order of the list.
\<close>

section \<open>Errors\<close>

datatype vdc_error =
    ErrControlPathUnavailable | ErrAddressableNotFound | ErrSetPropertyLightOnly
  | ErrSetPropertyRequiresChannel | ErrSetPropertyTargetRequired | ErrPairingAborted
  | ErrOther string

fun error_text :: "vdc_error \<Rightarrow> string" where
  "error_text ErrControlPathUnavailable = ''control path unavailable''"
| "error_text ErrAddressableNotFound = ''addressable not found''"
| "error_text ErrSetPropertyLightOnly = ''setProperty is only supported for light outputs''"
| "error_text ErrSetPropertyRequiresChannel = ''setProperty requires channelStates.0.value''"
| "error_text ErrSetPropertyTargetRequired = ''setProperty target must be a device dSUID''"
| "error_text ErrPairingAborted = ''pairing/unpairing aborted''"
| "error_text (ErrOther s) = s"

section \<open>Values\<close>

fun asFloat :: "gany \<Rightarrow> f64 option" where
  "asFloat (GFloat x) = Some x"
| "asFloat (GInt n) = Some (f64_of_int n)"
| "asFloat (GInt64 w) = Some (f64_of_int (sint w))"
| "asFloat (GUint64 w) = Some (f64_of_int (uint w))"
| "asFloat (GStr s) = parse_float (trim_space s)"
| "asFloat _ = None"

fun asBool :: "gany \<Rightarrow> bool" where
  "asBool (GBool b) = b"
| "asBool (GFloat x) = (\<not> f64_eq x 0)"
| "asBool (GInt n) = (n \<noteq> 0)"
| "asBool (GStr s) = (equal_fold (trim_space s) ''true'' \<or> s = ''1'')"
| "asBool _ = False"

definition asInt :: "gany \<Rightarrow> int option" where
  "asInt v = map_option f64_to_int (asFloat v)"

definition j_get :: "(string \<times> gany) list \<Rightarrow> string \<Rightarrow> gany" where
  "j_get m k = go_get GNil m k"

definition j_str :: "(string \<times> gany) list \<Rightarrow> string \<Rightarrow> string option" where
  "j_str m k = (case j_get m k of GStr s \<Rightarrow> Some s | _ \<Rightarrow> None)"

definition j_obj :: "gany \<Rightarrow> (string \<times> gany) list option" where
  "j_obj v = (case v of GObj m \<Rightarrow> Some m | _ \<Rightarrow> None)"

text \<open>The two objects a nested write is looked for in: \<^verbatim>\<open>properties\<close> and the parameters themselves.\<close>

definition j_tops :: "(string \<times> gany) list \<Rightarrow> (string \<times> gany) list list" where
  "j_tops params = (case j_obj (j_get params ''properties'') of None \<Rightarrow> [] | Some m \<Rightarrow> [m]) @ [params]"

section \<open>Targets and outputs\<close>

definition validateLightControlTarget :: "string \<Rightarrow> string \<Rightarrow> vdc_error option" where
  "validateLightControlTarget target vdcDSUID =
     (if target = [] \<or> equal_fold target ''root'' \<or> equal_fold target vdcDSUID
      then Some ErrSetPropertyTargetRequired else None)"

definition isLightOutput :: "string \<Rightarrow> bool" where
  "isLightOutput out =
     (let o' = trim_space out
      in o' = [] \<or> equal_fold o' ''light'' \<or> equal_fold o' ''colorlight'' \<or> equal_fold o' ''movinglight'')"

section \<open>Writes of input settings\<close>

record input_setting_write =
  isw_Family :: string
  isw_Index :: int
  isw_Field :: string
  isw_BoolVal :: bool
  isw_IntVal :: int
  isw_FloatVal :: f64

definition isw0 :: "string \<Rightarrow> int \<Rightarrow> string \<Rightarrow> input_setting_write" where
  "isw0 fam idx fld = \<lparr>isw_Family = fam, isw_Index = idx, isw_Field = fld, isw_BoolVal = False,
     isw_IntVal = 0, isw_FloatVal = 0\<rparr>"

definition normal_family :: "string \<Rightarrow> string" where
  "normal_family family =
     (let f = to_lower family
      in if f = ''buttoninputsettings'' then ''button''
         else if f = ''binaryinputsettings'' then ''binaryinput''
         else if f = ''sensorsettings'' then ''sensor'' else f)"

definition makeInputSettingWrite ::
  "string \<Rightarrow> int \<Rightarrow> string \<Rightarrow> gany \<Rightarrow> input_setting_write option" where
  "makeInputSettingWrite family idx field rawVal =
     (let fam = normal_family family; fld = to_lower (trim_space field);
          n = (case asInt rawVal of Some i \<Rightarrow> i | None \<Rightarrow> 0)
      in if fam = ''button'' \<and> fld = ''setslocalpriority''
           then Some (isw0 ''button'' idx ''setsLocalPriority''\<lparr>isw_BoolVal := asBool rawVal\<rparr>)
         else if fam = ''button'' \<and> fld = ''callspresent''
           then Some (isw0 ''button'' idx ''callsPresent''\<lparr>isw_BoolVal := asBool rawVal\<rparr>)
         else if fam = ''button'' \<and> (fld = ''group'' \<or> fld = ''mode'' \<or> fld = ''function'')
           then Some (isw0 ''button'' idx
             (if fld = ''group'' then ''buttonGroup'' else if fld = ''mode'' then ''buttonMode''
              else ''buttonFunction'')\<lparr>isw_IntVal := n\<rparr>)
         else if fam = ''binaryinput'' \<and> fld = ''sensorfunction''
           then Some (isw0 ''binaryinput'' idx ''sensorFunction''\<lparr>isw_IntVal := n\<rparr>)
         else if fam = ''binaryinput'' \<and> fld = ''group''
           then Some (isw0 ''binaryinput'' idx ''binaryInputGroup''\<lparr>isw_IntVal := n\<rparr>)
         else if fam = ''sensor'' then
           (if fld = ''group'' \<or> fld = ''function'' \<or> fld = ''channel''
              then Some (isw0 ''sensor'' idx fld\<lparr>isw_IntVal := n\<rparr>)
            else case asFloat rawVal of
              Some x \<Rightarrow>
                if fld = ''minpushinterval''
                  then Some (isw0 ''sensor'' idx ''minPushInterval''\<lparr>isw_FloatVal := x\<rparr>)
                else if fld = ''changesonlyinterval''
                  then Some (isw0 ''sensor'' idx ''changesOnlyInterval''\<lparr>isw_FloatVal := x\<rparr>)
                else Some (isw0 ''sensor'' idx [])
            | None \<Rightarrow> Some (isw0 ''sensor'' idx []))
         else if fam = ''button'' \<or> fam = ''binaryinput'' then Some (isw0 fam idx [])
         else None)"

definition parseInputSettingPath :: "string \<Rightarrow> gany \<Rightarrow> input_setting_write option" where
  "parseInputSettingPath path rawVal =
     (case split_at_char CHR ''/'' path of
        [p0, p1, p2] \<Rightarrow>
          (let family = to_lower p0
           in if family \<notin> {''buttoninputsettings'', ''binaryinputsettings'', ''sensorsettings''} then None
              else case atoi (trim_space p1) of
                     None \<Rightarrow> None
                   | Some idx \<Rightarrow> makeInputSettingWrite (normal_family family) idx p2 rawVal)
      | _ \<Rightarrow> None)"

definition parseInputSettingPathJSON :: "(string \<times> gany) list \<Rightarrow> input_setting_write option" where
  "parseInputSettingPathJSON params =
     (case (case j_str params ''name'' of
              Some name \<Rightarrow> parseInputSettingPath (trim_space name) (j_get params ''value'')
            | None \<Rightarrow> None) of
        Some w \<Rightarrow> Some w
      | None \<Rightarrow>
          first_some (\<lambda>m.
            first_some (\<lambda>family.
              case j_obj (j_get m family) of
                None \<Rightarrow> None
              | Some raw \<Rightarrow>
                  first_some (\<lambda>(idxStr, entryRaw).
                    case (atoi idxStr, j_obj entryRaw) of
                      (Some idx, Some entry) \<Rightarrow>
                        first_some (\<lambda>(field, val). makeInputSettingWrite family idx field val) entry
                    | _ \<Rightarrow> None) raw)
              [''buttonInputSettings'', ''binaryInputSettings'', ''sensorSettings''])
            (j_tops params))"

definition extractInputSettingFromPbuf :: "pelem list \<Rightarrow> input_setting_write option" where
  "extractInputSettingFromPbuf props =
     first_some (\<lambda>p.
       let low = to_lower (trim_space (pe_name p))
       in if low \<in> {''buttoninputsettings'', ''binaryinputsettings'', ''sensorsettings''} then
            first_some (\<lambda>e.
              case atoi (trim_space (pe_name e)) of
                None \<Rightarrow> None
              | Some idx \<Rightarrow>
                  first_some (\<lambda>f. makeInputSettingWrite (normal_family low) idx (pe_name f) (pe_value f))
                    (pe_elements e)) (pe_elements p)
          else None) props"

section \<open>Writes of scenes and channels\<close>

record scene_write =
  sw_SceneNum :: int
  sw_ChannelIdx :: int
  sw_Field :: string
  sw_FloatVal :: f64
  sw_BoolVal :: bool
  sw_IntVal :: int

definition sw0 :: "int \<Rightarrow> int \<Rightarrow> string \<Rightarrow> scene_write" where
  "sw0 n ch fld = \<lparr>sw_SceneNum = n, sw_ChannelIdx = ch, sw_Field = fld, sw_FloatVal = 0,
     sw_BoolVal = False, sw_IntVal = 0\<rparr>"

definition scene_effect :: "int \<Rightarrow> gany \<Rightarrow> scene_write option" where
  "scene_effect n v = map_option (\<lambda>i. sw0 n (-1) ''effect''\<lparr>sw_IntVal := i\<rparr>) (asInt v)"

definition scene_flag :: "int \<Rightarrow> string \<Rightarrow> gany \<Rightarrow> scene_write option" where
  "scene_flag n fld v = Some (sw0 n (-1) fld\<lparr>sw_BoolVal := asBool v\<rparr>)"

definition scene_channel_value :: "int \<Rightarrow> int \<Rightarrow> gany \<Rightarrow> scene_write option" where
  "scene_channel_value n ch v =
     map_option (\<lambda>x. sw0 n ch ''channelValue''\<lparr>sw_FloatVal := x\<rparr>) (asFloat v)"

definition scene_channel_dontCare :: "int \<Rightarrow> int \<Rightarrow> gany \<Rightarrow> scene_write option" where
  "scene_channel_dontCare n ch v = Some (sw0 n ch ''channelDontCare''\<lparr>sw_BoolVal := asBool v\<rparr>)"

definition parseScenePath :: "string \<Rightarrow> gany \<Rightarrow> scene_write option" where
  "parseScenePath path v =
     (case split_at_char CHR ''/'' path of
        p0 # p1 # p2 # rest \<Rightarrow>
          (if \<not> equal_fold p0 ''scenes'' then None
           else case atoi p1 of
             None \<Rightarrow> None
           | Some n \<Rightarrow>
               if equal_fold p2 ''channels'' \<and> 2 \<le> length rest then
                 (case atoi (rest ! 0) of
                    None \<Rightarrow> None
                  | Some ch \<Rightarrow>
                      if to_lower (rest ! 1) = ''value'' then scene_channel_value n ch v
                      else if to_lower (rest ! 1) = ''dontcare'' then scene_channel_dontCare n ch v
                      else None)
               else if equal_fold p2 ''effect'' then scene_effect n v
               else if equal_fold p2 ''dontCare'' then scene_flag n ''dontCare'' v
               else if equal_fold p2 ''ignoreLocalPriority'' then scene_flag n ''ignoreLocalPriority'' v
               else None)
      | _ \<Rightarrow> None)"

text \<open>What \<^verbatim>\<open>if v, ok := m[k]; ok\<close> followed by a conversion yields.\<close>

definition j_with :: "(string \<times> gany) list \<Rightarrow> string \<Rightarrow> (gany \<Rightarrow> 'a option) \<Rightarrow> 'a option" where
  "j_with m k f = (case map_of m k of None \<Rightarrow> None | Some v \<Rightarrow> f v)"

definition extractSceneWriteFromNestedMap :: "(string \<times> gany) list \<Rightarrow> scene_write option" where
  "extractSceneWriteFromNestedMap scenes =
     first_some (\<lambda>(numStr, sceneRaw).
       case (atoi numStr, j_obj sceneRaw) of
         (Some n, Some sceneMap) \<Rightarrow>
           first_some (\<lambda>f. f ())
             [\<lambda>_. case j_obj (j_get sceneMap ''channels'') of
                None \<Rightarrow> None
              | Some chs \<Rightarrow>
                  first_some (\<lambda>(chStr, chRaw).
                    case (atoi chStr, j_obj chRaw) of
                      (Some ch, Some chMap) \<Rightarrow>
                        first_some (\<lambda>f. f ())
                          [\<lambda>_. j_with chMap ''value'' (scene_channel_value n ch),
                           \<lambda>_. j_with chMap ''dontCare'' (scene_channel_dontCare n ch)]
                    | _ \<Rightarrow> None) chs,
              \<lambda>_. j_with sceneMap ''effect'' (scene_effect n),
              \<lambda>_. j_with sceneMap ''dontCare'' (scene_flag n ''dontCare''),
              \<lambda>_. j_with sceneMap ''ignoreLocalPriority'' (scene_flag n ''ignoreLocalPriority'')]
       | _ \<Rightarrow> None) scenes"

definition parseScenePathJSON :: "(string \<times> gany) list \<Rightarrow> scene_write option" where
  "parseScenePathJSON params =
     (case (case j_str params ''name'' of
              Some name \<Rightarrow> parseScenePath (trim_space name) (j_get params ''value'')
            | None \<Rightarrow> None) of
        Some w \<Rightarrow> Some w
      | None \<Rightarrow> first_some (\<lambda>m. case j_obj (j_get m ''scenes'') of
                   None \<Rightarrow> None | Some sc \<Rightarrow> extractSceneWriteFromNestedMap sc) (j_tops params))"

definition scene_field_write :: "int \<Rightarrow> pelem \<Rightarrow> scene_write option" where
  "scene_field_write n field =
     (let low = to_lower (trim_space (pe_name field))
      in if low = ''channels'' then
           first_some (\<lambda>che. case atoi (trim_space (pe_name che)) of
               None \<Rightarrow> None
             | Some ch \<Rightarrow>
                 first_some (\<lambda>ve.
                   let vlow = to_lower (trim_space (pe_name ve))
                   in if vlow = ''value'' then scene_channel_value n ch (pe_value ve)
                      else if vlow = ''dontcare'' then scene_channel_dontCare n ch (pe_value ve)
                      else None) (pe_elements che)) (pe_elements field)
         else if low = ''effect'' then scene_effect n (pe_value field)
         else if low = ''dontcare'' then scene_flag n ''dontCare'' (pe_value field)
         else if low = ''ignorelocalpriority'' then scene_flag n ''ignoreLocalPriority'' (pe_value field)
         else None)"

definition extractSceneWriteFromPbuf :: "pelem list \<Rightarrow> scene_write option" where
  "extractSceneWriteFromPbuf props =
     first_some (\<lambda>p. if \<not> equal_fold (pe_name p) ''scenes'' then None else
       first_some (\<lambda>se. case atoi (trim_space (pe_name se)) of
           None \<Rightarrow> None
         | Some n \<Rightarrow> first_some (scene_field_write n) (pe_elements se)) (pe_elements p)) props"

text \<open>A channel write is the channel index and the value.\<close>

definition parseChannelStatesPathJSON :: "(string \<times> gany) list \<Rightarrow> (int \<times> f64) option" where
  "parseChannelStatesPathJSON params =
     (case (case map_option (split_at_char CHR ''/'' \<circ> trim_space) (j_str params ''name'') of
              Some (p0 # p1 # p2 # rest) \<Rightarrow>
                (case (atoi p1, asFloat (j_get params ''value'')) of
                   (Some idx, Some x) \<Rightarrow>
                     if equal_fold p0 ''channelStates'' \<and> equal_fold p2 ''value'' then Some (idx, x) else None
                 | _ \<Rightarrow> None)
            | _ \<Rightarrow> None) of
        Some w \<Rightarrow> Some w
      | None \<Rightarrow>
          first_some (\<lambda>m. case j_obj (j_get m ''channelStates'') of
              None \<Rightarrow> None
            | Some cs \<Rightarrow>
                first_some (\<lambda>(idxStr, child).
                  case (atoi idxStr, j_obj child) of
                    (Some idx, Some cm) \<Rightarrow> map_option (Pair idx) (asFloat (j_get cm ''value''))
                  | _ \<Rightarrow> None) cs) (j_tops params))"

definition extractBrightnessFromMap :: "(string \<times> gany) list \<Rightarrow> f64 option" where
  "extractBrightnessFromMap m =
     (case j_obj (j_get m ''channelStates'') of
        None \<Rightarrow> None
      | Some cs \<Rightarrow> (case j_obj (j_get cs ''0'') of
                      None \<Rightarrow> None | Some c0 \<Rightarrow> asFloat (j_get c0 ''value'')))"

definition extractBrightnessValueFromJSON :: "(string \<times> gany) list \<Rightarrow> f64 option" where
  "extractBrightnessValueFromJSON params =
     (case first_some extractBrightnessFromMap (j_tops params) of
        Some x \<Rightarrow> Some x
      | None \<Rightarrow>
          (case map_option trim_space (j_str params ''name'') of
             Some name \<Rightarrow>
               if name \<noteq> [] \<and> (equal_fold name ''channelStates/0/value'' \<or> equal_fold name ''brightness'')
               then asFloat (j_get params ''value'') else None
           | None \<Rightarrow> None))"

definition extractBrightnessFromPbufProperties :: "pelem list \<Rightarrow> f64 option" where
  "extractBrightnessFromPbufProperties props =
     first_some (\<lambda>p. if \<not> equal_fold (pe_name p) ''channelStates'' then None else
       first_some (\<lambda>child. if trim_space (pe_name child) \<noteq> ''0'' then None else
         first_some (\<lambda>g. if equal_fold (pe_name g) ''value'' then asFloat (pe_value g) else None)
           (pe_elements child)) (pe_elements p)) props"

end
