(* ===== verification/Property_Tree.thy ===== *)
theory Property_Tree
  imports DSUID Config_Store Control
begin

text \<open>
  The property tree a vDC answers from (\<^verbatim>\<open>pkg/vdcapi/property_tree.go\<close>): one object per device,
  built from its mirrored state, the saved scenes and the stored configuration, and the objects of
  the vDC itself. A \<^verbatim>\<open>map[string]any\<close> is an association list; the nil stores of the source are
  \<open>None\<close>. Times are nanoseconds, \<open>0\<close> the zero time, and \<open>now\<close> the time of the call.
\<close>

section \<open>Values\<close>

type_synonym obj = "(string \<times> gany) list"

definition f64_0_001 :: f64 where "f64_0_001 = 0x3F50624DD2F1A9FC"
definition f64_0_1 :: f64 where "f64_0_1 = 0x3FB999999999999A"
definition f64_0_4 :: f64 where "f64_0_4 = 0x3FD999999999999A"
definition f64_33 :: f64 where "f64_33 = 0x4040800000000000"
definition f64_50 :: f64 where "f64_50 = 0x4049000000000000"
definition f64_75 :: f64 where "f64_75 = 0x4052C00000000000"
definition f64_153 :: f64 where "f64_153 = 0x4063200000000000"
definition f64_360 :: f64 where "f64_360 = 0x4076800000000000"
definition f64_370 :: f64 where "f64_370 = 0x4077200000000000"

definition degree_sign :: string where
  "degree_sign = [CHR 0xC2, CHR 0xB0]"

text \<open>\<^verbatim>\<open>Duration.Seconds\<close>: whole seconds plus the rest, each rounded.\<close>

definition seconds :: "nat \<Rightarrow> f64" where
  "seconds d = f64_add (f64_of_int (int (d div 10 ^ 9)))
                 (f64_make False (f64_mag_of_ratio (int (d mod 10 ^ 9)) (10 ^ 9)))"

definition age_of :: "nat \<Rightarrow> (int, nat) gomap \<Rightarrow> int \<Rightarrow> f64" where
  "age_of now updated i =
     (case map_of updated i of
        Some t \<Rightarrow> if t \<noteq> 0 then seconds (now - t) else 0
      | None \<Rightarrow> 0)"

definition channelAge :: "nat \<Rightarrow> device \<Rightarrow> int \<Rightarrow> f64" where
  "channelAge now d = age_of now (d_ChannelUpdatedAt d)"

definition sensorAge :: "nat \<Rightarrow> device \<Rightarrow> int \<Rightarrow> f64" where
  "sensorAge now d = age_of now (d_SensorUpdatedAt d)"

definition inputAge :: "nat \<Rightarrow> device \<Rightarrow> int \<Rightarrow> f64" where
  "inputAge now d = age_of now (d_InputUpdatedAt d)"

definition buttonAge :: "nat \<Rightarrow> device \<Rightarrow> int \<Rightarrow> f64" where
  "buttonAge now d = age_of now (d_ButtonUpdatedAt d)"

definition channelValue :: "device \<Rightarrow> int \<Rightarrow> f64" where
  "channelValue d i = go_get 0 (d_Channels d) i"

section \<open>Parts by kind of output\<close>

record type_props =
  tp_kind :: string
  tp_model :: string
  tp_outputDescription :: gany
  tp_outputSettings :: gany
  tp_outputState :: gany
  tp_channelStates :: obj
  tp_channelDescriptions :: obj
  tp_sensorDescriptions :: obj
  tp_sensorSettings :: obj
  tp_sensorStates :: obj
  tp_binaryInputDescriptions :: obj
  tp_binaryInputSettings :: obj
  tp_binaryInputStates :: obj
  tp_buttonInputDescriptions :: obj
  tp_buttonInputSettings :: obj
  tp_buttonInputStates :: obj

definition newOutputTypeResult :: "string \<Rightarrow> string \<Rightarrow> type_props" where
  "newOutputTypeResult kind model = \<lparr>tp_kind = kind, tp_model = model, tp_outputDescription = GNil,
     tp_outputSettings = GNil, tp_outputState = GNil, tp_channelStates = [],
     tp_channelDescriptions = [], tp_sensorDescriptions = [], tp_sensorSettings = [],
     tp_sensorStates = [], tp_binaryInputDescriptions = [], tp_binaryInputSettings = [],
     tp_binaryInputStates = [], tp_buttonInputDescriptions = [], tp_buttonInputSettings = [],
     tp_buttonInputStates = []\<rparr>"

definition buildOutputState :: gany where
  "buildOutputState = GObj [(''localPriority'', GBool False), (''error'', GInt 0)]"

definition buildLightOutputSettings :: "int \<Rightarrow> int \<Rightarrow> gany" where
  "buildLightOutputSettings grp mode = GObj
     [(''groups'', GObj [(itoa grp, GBool True)]), (''mode'', GInt mode),
      (''pushChanges'', GBool False), (''onThreshold'', GFloat f64_50),
      (''minBrightness'', GFloat 0), (''dimTimeUp'', GInt 300), (''dimTimeDown'', GInt 300),
      (''dimTimeUpAlt1'', GInt 4000), (''dimTimeDownAlt1'', GInt 4000),
      (''dimTimeUpAlt2'', GInt 8000), (''dimTimeDownAlt2'', GInt 8000)]"

definition buildPositionalOutputSettings :: "int \<Rightarrow> gany" where
  "buildPositionalOutputSettings grp = GObj
     [(''groups'', GObj [(itoa grp, GBool True)]), (''mode'', GInt 2), (''pushChanges'', GBool False)]"

definition output_description :: "int \<Rightarrow> int \<Rightarrow> bool \<Rightarrow> gany" where
  "output_description fn usage ramp = GObj [(''function'', GInt fn), (''outputUsage'', GInt usage),
     (''variableRamp'', GBool ramp), (''maxPower'', GInt 0)]"

definition channel_description ::
  "string \<Rightarrow> int \<Rightarrow> int \<Rightarrow> f64 \<Rightarrow> f64 \<Rightarrow> f64 \<Rightarrow> string \<Rightarrow> gany" where
  "channel_description name ctype idx lo hi res unit = GObj
     [(''name'', GStr name), (''channelType'', GInt ctype), (''channelIndex'', GInt idx),
      (''dsIndex'', GInt idx), (''min'', GFloat lo), (''max'', GFloat hi), (''resolution'', GFloat res),
      (''siunit'', GStr unit), (''symbol'', GStr unit)]"

definition channel_state :: "nat \<Rightarrow> device \<Rightarrow> int \<Rightarrow> gany" where
  "channel_state now d i =
     GObj [(''value'', GFloat (channelValue d i)), (''age'', GFloat (channelAge now d i))]"

definition buildLightTypeProps :: "nat \<Rightarrow> device \<Rightarrow> bool \<Rightarrow> type_props" where
  "buildLightTypeProps now d dimmable =
     (newOutputTypeResult (if dimmable then ''dimmer'' else ''light'') ''external-light'')
     \<lparr>tp_outputDescription := output_description (if dimmable then 1 else 0) 1 dimmable,
      tp_outputSettings := buildLightOutputSettings 1 (if dimmable then 2 else 1),
      tp_outputState := buildOutputState,
      tp_channelStates := [(''0'', channel_state now d 0)],
      tp_channelDescriptions :=
        [(''0'', channel_description ''brightness'' 1 0 0 f64_hundred f64_0_4 ''%'')]\<rparr>"

definition colorlightChannelDescriptions :: "(int, gany) gomap" where
  "colorlightChannelDescriptions =
     [(0, channel_description ''brightness'' 1 0 0 f64_hundred f64_0_4 ''%''),
      (1, channel_description ''hue'' 2 1 0 f64_360 f64_0_1 degree_sign),
      (2, channel_description ''saturation'' 3 2 0 f64_hundred f64_0_4 ''%''),
      (3, channel_description ''colortemperature'' 4 3 f64_153 f64_370 f64_one ''mired''),
      (4, channel_description ''cieX'' 5 4 0 f64_one f64_0_001 []),
      (5, channel_description ''cieY'' 6 5 0 f64_one f64_0_001 [])]"

definition buildColorlightTypeProps :: "nat \<Rightarrow> device \<Rightarrow> type_props" where
  "buildColorlightTypeProps now d =
     (newOutputTypeResult ''colorlight'' ''external-colorlight'')
     \<lparr>tp_outputDescription := output_description 4 1 True,
      tp_outputSettings := buildLightOutputSettings 1 2,
      tp_outputState := buildOutputState,
      tp_channelStates := map (\<lambda>(i, c). (intKey i, channel_state now d i)) colorlightChannelDescriptions,
      tp_channelDescriptions := map (\<lambda>(i, c). (intKey i, c)) colorlightChannelDescriptions\<rparr>"

definition buildMovinglightTypeProps :: "nat \<Rightarrow> device \<Rightarrow> type_props" where
  "buildMovinglightTypeProps now d =
     (newOutputTypeResult ''movinglight'' ''external-movinglight'')
     \<lparr>tp_outputDescription := output_description 2 1 False,
      tp_outputSettings := buildPositionalOutputSettings 1,
      tp_outputState := buildOutputState,
      tp_channelStates := [(''0'', channel_state now d 0), (''1'', channel_state now d 1)],
      tp_channelDescriptions :=
        [(''0'', channel_description ''position'' 7 0 0 f64_hundred f64_0_4 ''%''),
         (''1'', channel_description ''tilt'' 9 1 0 f64_hundred f64_0_4 degree_sign)]\<rparr>"

subsection \<open>Sensors\<close>

definition sensor_description ::
  "string \<Rightarrow> int \<Rightarrow> int \<Rightarrow> f64 \<Rightarrow> f64 \<Rightarrow> f64 \<Rightarrow> obj" where
  "sensor_description name typ usage lo hi res =
     [(''name'', GStr name), (''sensorType'', GInt typ), (''sensorUsage'', GInt usage),
      (''min'', GFloat lo), (''max'', GFloat hi), (''resolution'', GFloat res),
      (''updateInterval'', GFloat 0), (''aliveSignInterval'', GFloat 0),
      (''minPushInterval'', GFloat 0), (''changesOnlyInterval'', GFloat 0)]"

definition sensorDescriptionMap :: "device \<Rightarrow> int \<Rightarrow> gany" where
  "sensorDescriptionMap d idx =
     (case map_of (d_SensorDescriptors d) idx of
        None \<Rightarrow> GObj (sensor_description ''sensor'' 0 0 0 f64_hundred f64_0_1)
      | Some s \<Rightarrow> GObj (
          sensor_description (if sd_Name s = [] then ''sensor'' else sd_Name s) (sd_Type s) (sd_Usage s)
            (sd_Min s) (sd_Max s) (sd_Resolution s) @
          (if sd_SIUnit s \<noteq> [] then [(''siunit'', GStr (sd_SIUnit s))] else []) @
          (if sd_Symbol s \<noteq> [] then [(''symbol'', GStr (sd_Symbol s))] else [])))"

definition opt_default :: "'a \<Rightarrow> 'a option \<Rightarrow> 'a" where
  "opt_default z x = (case x of None \<Rightarrow> z | Some v \<Rightarrow> v)"

definition sensorSettingsMap :: "string \<Rightarrow> int \<Rightarrow> config_store option \<Rightarrow> gany" where
  "sensorSettingsMap dsuid idx config =
     (let s = (case config of None \<Rightarrow> zero_sensor_settings | Some cs \<Rightarrow> GetSensorSettings cs dsuid idx)
      in GObj [(''group'', GInt (opt_default 0 (st_Group s))),
               (''function'', GInt (opt_default 0 (st_Function s))),
               (''channel'', GInt (opt_default 0 (st_Channel s))),
               (''minPushInterval'', GFloat (opt_default 0 (st_MinPushInterval s))),
               (''changesOnlyInterval'', GFloat (opt_default 0 (st_ChangesOnlyInterval s)))])"

definition sensor_state :: "nat \<Rightarrow> device \<Rightarrow> int \<Rightarrow> gany" where
  "sensor_state now d idx = GObj [(''value'', GFloat (go_get 0 (d_Sensors d) idx)),
     (''age'', GFloat (sensorAge now d idx)), (''error'', GInt 0)]"

text \<open>The union of the indices of two maps, each once.\<close>

definition index_union :: "(int, 'a) gomap \<Rightarrow> (int, 'b) gomap \<Rightarrow> int list" where
  "index_union a b = remdups (map fst a @ map fst b)"

subsection \<open>Binary inputs\<close>

definition binaryInputIdxSet :: "device \<Rightarrow> int list" where
  "binaryInputIdxSet d = index_union (d_BinaryInputDescriptors d) (d_Inputs d)"

definition binary_settings :: "config_store option \<Rightarrow> string \<Rightarrow> int \<Rightarrow> binary_input_settings" where
  "binary_settings config dsuid idx =
     (case config of None \<Rightarrow> zero_binary_input_settings | Some cs \<Rightarrow> GetBinaryInputSettings cs dsuid idx)"

text \<open>The stored function of an input, when it is not 0, wins over the announced one.\<close>

definition sensor_function :: "device \<Rightarrow> string \<Rightarrow> int \<Rightarrow> config_store option \<Rightarrow> int" where
  "sensor_function d dsuid idx config =
     (let stored = is_SensorFunction (binary_settings config dsuid idx)
      in if stored \<noteq> 0 then stored
         else case map_of (d_BinaryInputDescriptors d) idx of Some x \<Rightarrow> id_Function x | None \<Rightarrow> 0)"

definition binaryInputDescriptionMap ::
  "device \<Rightarrow> string \<Rightarrow> int \<Rightarrow> config_store option \<Rightarrow> gany" where
  "binaryInputDescriptionMap d dsuid idx config =
     (let name = (case map_of (d_BinaryInputDescriptors d) idx of
                    Some x \<Rightarrow> if id_Name x \<noteq> [] then id_Name x else ''input''
                  | None \<Rightarrow> ''input'')
      in GObj [(''name'', GStr name), (''inputType'', GInt 1), (''inputUsage'', GInt 0),
               (''sensorFunction'', GInt (sensor_function d dsuid idx config)),
               (''updateInterval'', GFloat 0)])"

definition binaryInputSettingsMap :: "string \<Rightarrow> int \<Rightarrow> int \<Rightarrow> config_store option \<Rightarrow> gany" where
  "binaryInputSettingsMap dsuid idx sf config =
     GObj [(''group'', GInt (opt_default 0 (is_Group (binary_settings config dsuid idx)))),
           (''sensorFunction'', GInt sf)]"

definition populateBinaryInput ::
  "nat \<Rightarrow> device \<Rightarrow> string \<Rightarrow> config_store option \<Rightarrow> type_props \<Rightarrow> int \<Rightarrow> type_props" where
  "populateBinaryInput now d dsuid config tp idx =
     (let key = intKey idx
      in tp\<lparr>tp_binaryInputStates := AList.update key
              (GObj [(''value'', GBool (f64_less 0 (go_get 0 (d_Inputs d) idx))),
                     (''age'', GFloat (inputAge now d idx)), (''error'', GInt 0)])
              (tp_binaryInputStates tp),
            tp_binaryInputDescriptions := AList.update key
              (binaryInputDescriptionMap d dsuid idx config) (tp_binaryInputDescriptions tp),
            tp_binaryInputSettings := AList.update key
              (binaryInputSettingsMap dsuid idx (sensor_function d dsuid idx config) config)
              (tp_binaryInputSettings tp)\<rparr>)"

definition populateBinaryInputs ::
  "nat \<Rightarrow> device \<Rightarrow> string \<Rightarrow> config_store option \<Rightarrow> type_props \<Rightarrow> type_props" where
  "populateBinaryInputs now d dsuid config tp =
     foldl (populateBinaryInput now d dsuid config) tp (binaryInputIdxSet d)"

definition buildSensorTypeProps ::
  "nat \<Rightarrow> string \<Rightarrow> device \<Rightarrow> config_store option \<Rightarrow> type_props" where
  "buildSensorTypeProps now dsuid d config =
     (let idxs = index_union (d_SensorDescriptors d) (d_Sensors d);
          tp = newOutputTypeResult ''sensor'' ''external-sensor'';
          tp' = (if idxs = [] then
              tp\<lparr>tp_sensorDescriptions := [(''0'', sensorDescriptionMap d 0)],
                 tp_sensorStates := [(''0'', GObj [(''value'', GFloat 0), (''age'', GFloat 0),
                                                 (''error'', GInt 0)])],
                 tp_sensorSettings := [(''0'', sensorSettingsMap dsuid 0 config)]\<rparr>
            else
              tp\<lparr>tp_sensorStates := map (\<lambda>i. (intKey i, sensor_state now d i)) idxs,
                 tp_sensorDescriptions := map (\<lambda>i. (intKey i, sensorDescriptionMap d i)) idxs,
                 tp_sensorSettings := map (\<lambda>i. (intKey i, sensorSettingsMap dsuid i config)) idxs\<rparr>)
      in populateBinaryInputs now d dsuid config tp')"

definition buildBinaryInputTypeProps ::
  "nat \<Rightarrow> string \<Rightarrow> device \<Rightarrow> config_store option \<Rightarrow> type_props" where
  "buildBinaryInputTypeProps now dsuid d config =
     (let tp = populateBinaryInputs now d dsuid config
                 (newOutputTypeResult ''binaryinput'' ''external-binaryinput'')
      in if tp_binaryInputDescriptions tp \<noteq> [] then tp
         else tp\<lparr>tp_binaryInputDescriptions := [(''0'', binaryInputDescriptionMap d dsuid 0 config)],
                 tp_binaryInputSettings := [(''0'', binaryInputSettingsMap dsuid 0
                     (is_SensorFunction (binary_settings config dsuid 0)) config)],
                 tp_binaryInputStates := [(''0'', GObj [(''value'', GBool False), (''age'', GFloat 0),
                                                      (''error'', GInt 0)])]\<rparr>)"

subsection \<open>Buttons\<close>

definition button_settings_of :: "config_store option \<Rightarrow> string \<Rightarrow> int \<Rightarrow> button_settings" where
  "button_settings_of config dsuid idx =
     (case config of None \<Rightarrow> zero_button_settings | Some cs \<Rightarrow> GetButtonInputSettings cs dsuid idx)"

definition buttonSettingsMap :: "string \<Rightarrow> int \<Rightarrow> bool \<Rightarrow> bool \<Rightarrow> config_store option \<Rightarrow> gany" where
  "buttonSettingsMap dsuid idx slp cp config =
     (let s = button_settings_of config dsuid idx
      in GObj [(''group'', GInt (opt_default 1 (bs_Group s))),
               (''mode'', GInt (opt_default 0 (bs_Mode s))),
               (''function'', GInt (opt_default 0 (bs_Function s))),
               (''setsLocalPriority'', GBool slp), (''callsPresent'', GBool cp)])"

definition button_settings_entry :: "string \<Rightarrow> config_store option \<Rightarrow> int \<Rightarrow> gany" where
  "button_settings_entry dsuid config idx =
     (let s = button_settings_of config dsuid idx
      in buttonSettingsMap dsuid idx (bs_SetsLocalPriority s) (bs_CallsPresent s) config)"

definition button_state :: "nat \<Rightarrow> device \<Rightarrow> int \<Rightarrow> f64 \<Rightarrow> gany" where
  "button_state now d idx value =
     (let action = trim_space (go_get [] (d_ButtonActions d) idx)
      in GObj ([(''value'', GFloat value), (''age'', GFloat (buttonAge now d idx))] @
               (if action \<noteq> [] then [(''action'', GStr action)] else [])))"

definition plain_button_description :: "int \<Rightarrow> gany" where
  "plain_button_description idx = GObj [(''name'', GStr ''button''), (''buttonID'', GInt idx),
     (''supportsLocalKeyMode'', GBool False), (''supportsActions'', GBool True)]"

definition button_description :: "device \<Rightarrow> int \<Rightarrow> gany" where
  "button_description d idx =
     (case map_of (d_ButtonDescriptors d) idx of
        None \<Rightarrow> plain_button_description idx
      | Some bd \<Rightarrow>
          (let name = trim_space (bd_Name bd)
           in GObj ([(''buttonID'', GInt (if bd_ButtonID bd \<noteq> 0 then bd_ButtonID bd else idx)),
                     (''supportsLocalKeyMode'', GBool False), (''supportsActions'', GBool True),
                     (''name'', GStr (if name = [] then ''button'' else name))] @
                    (if bd_ButtonType bd \<noteq> 0 then [(''buttonType'', GInt (bd_ButtonType bd))] else []) @
                    (if bd_Element bd \<noteq> 0 then [(''element'', GInt (bd_Element bd))] else []))))"

definition buildButtonTypeProps ::
  "nat \<Rightarrow> string \<Rightarrow> device \<Rightarrow> config_store option \<Rightarrow> type_props" where
  "buildButtonTypeProps now dsuid d config =
     (let tp = newOutputTypeResult ''button'' ''external-button''
      in if d_Buttons d = [] then
           tp\<lparr>tp_buttonInputDescriptions := [(''0'', plain_button_description 0)],
              tp_buttonInputSettings := [(''0'', button_settings_entry dsuid config 0)],
              tp_buttonInputStates := [(''0'', GObj [(''value'', GFloat 0), (''age'', GFloat 0)])]\<rparr>
         else
           tp\<lparr>tp_buttonInputStates := map (\<lambda>(i, v). (intKey i, button_state now d i v)) (d_Buttons d),
              tp_buttonInputDescriptions := map (\<lambda>(i, v). (intKey i, button_description d i)) (d_Buttons d),
              tp_buttonInputSettings :=
                map (\<lambda>(i, v). (intKey i, button_settings_entry dsuid config i)) (d_Buttons d)\<rparr>)"

definition buildGenericTypeProps ::
  "nat \<Rightarrow> string \<Rightarrow> device \<Rightarrow> config_store option \<Rightarrow> type_props" where
  "buildGenericTypeProps now dsuid d config =
     (let tp = (newOutputTypeResult ''generic'' ''external-device'')
            \<lparr>tp_outputDescription := output_description 0 0 False,
             tp_outputSettings := GObj [(''mode'', GInt 1), (''pushChanges'', GBool False)],
             tp_outputState := buildOutputState,
             tp_sensorStates := map (\<lambda>(i, v). (intKey i, sensor_state now d i)) (d_Sensors d),
             tp_sensorDescriptions := map (\<lambda>(i, v). (intKey i,
                 GObj (sensor_description ''sensor'' 0 0 0 f64_hundred f64_0_1))) (d_Sensors d),
             tp_sensorSettings := map (\<lambda>(i, v). (intKey i, sensorSettingsMap dsuid i config)) (d_Sensors d)\<rparr>
      in (populateBinaryInputs now d dsuid config tp)
         \<lparr>tp_buttonInputStates := map (\<lambda>(i, v). (intKey i, button_state now d i v)) (d_Buttons d),
          tp_buttonInputDescriptions := map (\<lambda>(i, v). (intKey i, plain_button_description i)) (d_Buttons d),
          tp_buttonInputSettings :=
            map (\<lambda>(i, v). (intKey i, button_settings_entry dsuid config i)) (d_Buttons d)\<rparr>)"

section \<open>Features, groups, events\<close>

definition buildModelFeatures :: "string \<Rightarrow> bool \<Rightarrow> gany" where
  "buildModelFeatures kind hasButtons =
     (let dimmable = kind = ''dimmer'' \<or> kind = ''colorlight'' \<or> kind = ''movinglight'';
          isShadow = kind = ''shadow'' \<or> kind = ''movinglight'';
          hasOutput = kind \<noteq> ''sensor'' \<and> kind \<noteq> ''binaryinput'' \<and> kind \<noteq> ''button'';
          dev = [(''identification'', GBool True), (''dontcare'', GBool hasOutput),
            (''ledauto'', GBool False), (''leddark'', GBool False), (''pushbutton'', GBool hasButtons),
            (''pushbarea'', GBool hasButtons), (''pushbadvanced'', GBool hasButtons),
            (''pushbsensor'', GBool False), (''pushbdevice'', GBool False),
            (''pushbcombined'', GBool False), (''twowayconfig'', GBool False),
            (''highlevel'', GBool False), (''jokerconfig'', GBool False), (''akmsensor'', GBool False),
            (''akminput'', GBool False), (''akmdelay'', GBool False)];
          outp = (if hasOutput then [(''outmodegeneric'', GBool False),
                    (''outvalue8'', GBool (\<not> isShadow)), (''blink'', GBool True)] else []);
          light = (if dimmable \<or> kind = ''light'' then [(''outmode'', GBool True),
                    (''outmodeswitch'', GBool (\<not> dimmable)), (''transt'', GBool dimmable)] else []);
          color = (if kind = ''colorlight'' then [(''outputchannels'', GBool True)] else []);
          shadow = (if isShadow then [(''shadeprops'', GBool True), (''shadeposition'', GBool True),
                    (''motiontimefins'', GBool (kind = ''movinglight'')), (''optypeconfig'', GBool True),
                    (''shadebladeang'', GBool (kind = ''movinglight''))] else [])
      in GObj (dev @ outp @ light @ color @ shadow))"

definition primaryGroupForKind :: "string \<Rightarrow> int" where
  "primaryGroupForKind kind =
     (if kind \<in> {''light'', ''dimmer'', ''colorlight'', ''movinglight''} then 1
      else if kind = ''button'' then 1 else if kind = ''shadow'' then 2
      else if kind = ''climate'' then 3 else 8)"

definition shortDisplayID :: "string \<Rightarrow> string" where
  "shortDisplayID dsuid = (if 8 \<le> length dsuid then take 8 dsuid else dsuid)"

definition buildDeviceEvents :: "device \<Rightarrow> gany" where
  "buildDeviceEvents d = GArr (concat (map (\<lambda>idx.
       let action = trim_space (go_get [] (d_ButtonActions d) idx)
       in if action = [] then []
          else [GObj [(''index'', GInt idx), (''type'', GStr ''buttonAction''), (''action'', GStr action)]])
     (sort (map fst (d_ButtonActions d)))))"

section \<open>Scenes\<close>

definition default_scene_level :: "int \<Rightarrow> f64 option" where
  "default_scene_level n =
     (if n = 0 then Some 0 else if 1 \<le> n \<and> n \<le> 4 then Some f64_75
      else if n = 5 then Some f64_hundred else if 6 \<le> n \<and> n \<le> 9 then Some f64_33 else None)"

definition scene_channel_entry :: "int \<Rightarrow> scene_entry option \<Rightarrow> int \<Rightarrow> gany" where
  "scene_channel_entry n stored idx =
     (let (val, dontCare) = (case (idx = 0, default_scene_level n) of
            (True, Some v) \<Rightarrow> (v, False) | _ \<Rightarrow> (0, True));
          (val', dontCare') = (case stored of
            None \<Rightarrow> (val, dontCare)
          | Some e \<Rightarrow> (case map_of (se_Channels e) idx of
                         None \<Rightarrow> (val, dontCare) | Some cv \<Rightarrow> (cv_Value cv, cv_DontCare cv)))
      in GObj [(''value'', GFloat val'), (''dontCare'', GBool dontCare')])"

definition buildSceneEntry :: "int list \<Rightarrow> int \<Rightarrow> scene_entry option \<Rightarrow> gany" where
  "buildSceneEntry chKeys n stored = GObj
     [(''channels'', GObj (map (\<lambda>i. (intKey i, scene_channel_entry n stored i)) chKeys)),
      (''effect'', GInt (case stored of None \<Rightarrow> 1 | Some e \<Rightarrow> se_Effect e)),
      (''dontCare'', GBool (case stored of None \<Rightarrow> False | Some e \<Rightarrow> se_DontCare e)),
      (''ignoreLocalPriority'', GBool (case stored of None \<Rightarrow> False | Some e \<Rightarrow> se_IgnoreLocalPriority e))]"

definition scene_numbers :: "string \<Rightarrow> scene_store option \<Rightarrow> int list" where
  "scene_numbers dsuid ss =
     (let stored = (case ss of None \<Rightarrow> [] | Some s \<Rightarrow> map fst (GetDeviceScenes s dsuid))
      in stored @ filter (\<lambda>n. n \<notin> set stored) [0, 5])"

definition buildScenesProperty :: "string \<Rightarrow> obj \<Rightarrow> scene_store option \<Rightarrow> gany" where
  "buildScenesProperty dsuid channelDescriptions ss =
     (let chKeys = sort (List.map_filter (\<lambda>(k, v). atoi k) channelDescriptions)
      in if chKeys = [] then GObj [(''0'', GObj []), (''5'', GObj [])]
         else GObj (map (\<lambda>n. (intKey n, buildSceneEntry chKeys n
                (case ss of None \<Rightarrow> None | Some s \<Rightarrow> GetScene s dsuid n))) (scene_numbers dsuid ss)))"

section \<open>Devices\<close>

text \<open>Storing into an object: \<^verbatim>\<open>m[k] = v\<close> when there is a value.\<close>

definition put_opt :: "string \<Rightarrow> ('a \<Rightarrow> gany) \<Rightarrow> 'a option \<Rightarrow> obj \<Rightarrow> obj" where
  "put_opt k f x m = (case x of None \<Rightarrow> m | Some v \<Rightarrow> AList.update k (f v) m)"

definition overlay_groups :: "(string, bool) gomap option \<Rightarrow> obj \<Rightarrow> obj" where
  "overlay_groups gs m =
     (case gs of
        None \<Rightarrow> m
      | Some g \<Rightarrow>
          let old = (case j_obj (j_get m ''groups'') of None \<Rightarrow> [] | Some h \<Rightarrow> h)
          in AList.update ''groups'' (GObj (foldl (\<lambda>h (k, v). AList.update k (GBool v) h) old g)) m)"

definition applyOutputSettingsOverlay :: "output_settings \<Rightarrow> obj \<Rightarrow> obj" where
  "applyOutputSettingsOverlay ov m =
     put_opt ''dimTimeDownAlt2'' GInt (os_DimTimeDownAlt2 ov)
    (put_opt ''dimTimeUpAlt2'' GInt (os_DimTimeUpAlt2 ov)
    (put_opt ''dimTimeDownAlt1'' GInt (os_DimTimeDownAlt1 ov)
    (put_opt ''dimTimeUpAlt1'' GInt (os_DimTimeUpAlt1 ov)
    (put_opt ''dimTimeDown'' GInt (os_DimTimeDown ov)
    (put_opt ''dimTimeUp'' GInt (os_DimTimeUp ov)
    (put_opt ''minBrightness'' GFloat (os_MinBrightness ov)
    (put_opt ''onThreshold'' GFloat (os_OnThreshold ov)
    (overlay_groups (os_Groups ov)
    (put_opt ''pushChanges'' GBool (os_PushChanges ov)
    (put_opt ''mode'' GInt (os_Mode ov) m))))))))))"

definition overlay_config :: "string \<Rightarrow> config_store option \<Rightarrow> type_props \<Rightarrow> type_props" where
  "overlay_config dsuid config tp =
     (case config of
        None \<Rightarrow> tp
      | Some cs \<Rightarrow>
          tp\<lparr>tp_outputSettings := (case tp_outputSettings tp of
               GObj m \<Rightarrow> GObj (applyOutputSettingsOverlay (GetDeviceOutputSettings cs dsuid) m)
             | v \<Rightarrow> v),
             tp_outputState := (case tp_outputState tp of
               GObj m \<Rightarrow> GObj (AList.update ''localPriority''
                          (GBool (ot_LocalPriority (GetDeviceOutputState cs dsuid))) m)
             | v \<Rightarrow> v)\<rparr>)"

definition device_name :: "string \<Rightarrow> device \<Rightarrow> config_store option \<Rightarrow> string" where
  "device_name dsuid d config =
     (let name = (if trim_space (d_Name d) = [] then d_UniqueID d else trim_space (d_Name d))
      in case config of
           None \<Rightarrow> name
         | Some cs \<Rightarrow> (case GetDeviceName cs dsuid of
                         Some n \<Rightarrow> if n \<noteq> [] then n else name | None \<Rightarrow> name))"

definition build_type_props ::
  "nat \<Rightarrow> string \<Rightarrow> device \<Rightarrow> config_store option \<Rightarrow> type_props" where
  "build_type_props now dsuid d config =
     (let out = (if trim_space (d_Output d) = [] then ''light'' else trim_space (d_Output d))
      in if equal_fold out ''light'' then buildLightTypeProps now d (d_Dimmable d)
         else if equal_fold out ''colorlight'' then buildColorlightTypeProps now d
         else if equal_fold out ''movinglight'' then buildMovinglightTypeProps now d
         else if equal_fold out ''sensor'' then buildSensorTypeProps now dsuid d config
         else if equal_fold out ''button'' then buildButtonTypeProps now dsuid d config
         else if equal_fold out ''binaryinput'' \<or> equal_fold out ''input''
           then buildBinaryInputTypeProps now dsuid d config
         else buildGenericTypeProps now dsuid d config)"

definition non_empty :: "string \<Rightarrow> string \<Rightarrow> gany" where
  "non_empty s dflt = GStr (if s = [] then dflt else s)"

definition buildDeviceProperties ::
  "nat \<Rightarrow> string \<Rightarrow> device \<Rightarrow> scene_store option \<Rightarrow> config_store option \<Rightarrow> obj" where
  "buildDeviceProperties now dsuid d scenes config =
     (let tp = overlay_config dsuid config (build_type_props now dsuid d config)
      in [(''dSUID'', GStr dsuid), (''type'', GStr ''vdSD''), (''name'', GStr (device_name dsuid d config)),
          (''model'', non_empty (d_ModelName d) (tp_model tp)),
          (''modelUID'', GStr (''vdcgo-'' @ tp_kind tp)),
          (''modelVersion'', non_empty (d_ModelVersion d) ''1.0''), (''hardwareVersion'', GStr []),
          (''hardwareGuid'', GStr []), (''hardwareModelGuid'', GStr []), (''oemGuid'', GStr []),
          (''oemModelGuid'', GStr []), (''vendorId'', GStr []), (''subdevIdx'', GStr []),
          (''vendorName'', non_empty (d_VendorName d) ''vdcgo''), (''configURL'', GStr []),
          (''primaryGroup'', GInt (primaryGroupForKind (tp_kind tp))),
          (''deviceClass'', GStr (''vdcgo-'' @ tp_kind tp)), (''deviceClassVersion'', GInt 1),
          (''displayId'', GStr (shortDisplayID dsuid)),
          (''zoneID'', GInt (case config of None \<Rightarrow> 0 | Some cs \<Rightarrow> GetDeviceZoneID cs dsuid)),
          (''modelFeatures'', buildModelFeatures (tp_kind tp) (tp_buttonInputDescriptions tp \<noteq> [])),
          (''deviceevents'', buildDeviceEvents d), (''active'', GBool (d_Active d)),
          (''outputType'', GStr (tp_kind tp)),
          (''sensorDescriptions'', GObj (tp_sensorDescriptions tp)),
          (''sensorSettings'', GObj (tp_sensorSettings tp)), (''sensorStates'', GObj (tp_sensorStates tp)),
          (''binaryInputDescriptions'', GObj (tp_binaryInputDescriptions tp)),
          (''binaryInputSettings'', GObj (tp_binaryInputSettings tp)),
          (''binaryInputStates'', GObj (tp_binaryInputStates tp)),
          (''buttonInputDescriptions'', GObj (tp_buttonInputDescriptions tp)),
          (''buttonInputSettings'', GObj (tp_buttonInputSettings tp)),
          (''buttonInputStates'', GObj (tp_buttonInputStates tp)),
          (''channelDescriptions'', GObj (tp_channelDescriptions tp)),
          (''channelStates'', GObj (tp_channelStates tp)),
          (''outputDescription'', tp_outputDescription tp),
          (''outputSettings'', tp_outputSettings tp), (''outputState'', tp_outputState tp),
          (''scenes'', buildScenesProperty dsuid (tp_channelDescriptions tp) scenes)])"

section \<open>The vDC\<close>

definition vdc_properties :: "string \<Rightarrow> string \<Rightarrow> obj" where
  "vdc_properties vdcDSUID description =
     [(''dSUID'', GStr vdcDSUID), (''name'', GStr description), (''modelName'', GStr ''vdcgo external''),
      (''modelVersion'', GStr ''1.0''), (''hardwareVersion'', GStr []), (''hardwareGuid'', GStr []),
      (''hardwareModelGuid'', GStr []), (''oemGuid'', GStr []), (''oemModelGuid'', GStr []),
      (''vendorId'', GStr []), (''subdevIdx'', GStr []), (''displayId'', GStr description),
      (''configURL'', GStr [])]"

text \<open>Root object, vDC object and the objects of the devices by dSUID.\<close>

definition buildPropertyTree ::
  "nat \<Rightarrow> string \<Rightarrow> string \<Rightarrow> (string, device) gomap \<Rightarrow> scene_store option \<Rightarrow> config_store option
   \<Rightarrow> obj \<times> obj \<times> (string, obj) gomap" where
  "buildPropertyTree now vdcDSUID description snapshot scenes config =
     (let devices = foldl (\<lambda>acc (k, d).
            let dsuid = deviceDSUID vdcDSUID d k
            in AList.update dsuid (buildDeviceProperties now dsuid d scenes config) acc) [] snapshot;
          deviceObjects = GObj (map (\<lambda>(k, o'). (k, GObj o')) devices);
          vdc = vdc_properties vdcDSUID description @ [(''devices'', deviceObjects)];
          root = vdc_properties vdcDSUID description @
            [(''vdcs'', GObj [(vdcDSUID, GObj vdc)]), (''devices'', deviceObjects)]
      in (root, vdc, devices))"

section \<open>JSON queries\<close>

fun sub_query :: "gany \<Rightarrow> obj" where
  "sub_query (GObj m) = m"
| "sub_query _ = []"

text \<open>The fuel is the depth of the value, which every step into an object lowers.\<close>

fun any_depth :: "gany \<Rightarrow> nat" where
  "any_depth (GObj m) = Suc (fold max (map (any_depth \<circ> snd) m) 0)"
| "any_depth _ = 0"

primrec query_object :: "nat \<Rightarrow> obj \<Rightarrow> obj \<Rightarrow> obj" where
  "query_object 0 full query = full"
| "query_object (Suc n) full query =
     (if query = [] then full
      else
        let apply_value = (\<lambda>v q. if q = [] then v
                                 else case v of GObj m \<Rightarrow> GObj (query_object n m q) | _ \<Rightarrow> v)
        in foldl (\<lambda>res (key, qv).
             if key = ''*'' then
               foldl (\<lambda>r (fk, fv). AList.update fk (apply_value fv (sub_query qv)) r) res full
             else case map_of full key of
                    None \<Rightarrow> res
                  | Some fv \<Rightarrow> AList.update key (apply_value fv (sub_query qv)) res) [] query)"

definition applyObjectQuery :: "obj \<Rightarrow> obj \<Rightarrow> obj" where
  "applyObjectQuery full query = query_object (any_depth (GObj full)) full query"

section \<open>Queries\<close>

text \<open>A query that names properties, without wildcards and naming none twice on a level.\<close>

fun plain_query :: "pelem \<Rightarrow> bool" where
  "plain_query (PElem n v es) \<longleftrightarrow> \<not> is_wildcard n \<and> distinct (map pe_name es) \<and> list_all plain_query es"

text \<open>The same query as a JSON object.\<close>

fun json_query :: "pelem \<Rightarrow> string \<times> gany" where
  "json_query (PElem n v es) = (n, GObj (map json_query es))"

lemma fst_json_query [simp]: "fst (json_query q) = pe_name q"
  by (cases q) simp

lemma fold_max_ge: "(x :: nat) \<in> set xs \<or> x \<le> m \<Longrightarrow> x \<le> fold max xs m"
proof (induction xs arbitrary: m)
  case (Cons y ys)
  then show ?case by (auto simp: max.coboundedI1 max.coboundedI2)
qed simp

lemma any_depth_member: "(k, v) \<in> set m \<Longrightarrow> any_depth v < any_depth (GObj m)"
  using fold_max_ge [of "any_depth v" "map (any_depth \<circ> snd) m" 0] by (force simp: less_Suc_eq_le)

text \<open>What a named query selects, level by level, written without the accumulating loops.\<close>

lemma convert_all_map: "convert_all m = map (\<lambda>(k, v). convert_leaf k v) m"
  by (induction m) auto

lemma query_fold:
  assumes "distinct (map pe_name qs)" "\<forall>q \<in> set qs. pe_name q \<noteq> ''*''"
    and "set (map pe_name qs) \<inter> set (map fst res) = {}"
  shows "foldl (\<lambda>res (key, qv).
             if key = ''*'' then foldl (\<lambda>r (fk, fv). AList.update fk (ap fv (sub_query qv)) r) res full
             else case map_of full key of
                    None \<Rightarrow> res
                  | Some fv \<Rightarrow> AList.update key (ap fv (sub_query qv)) res) res (map json_query qs) =
         res @ concat (map (\<lambda>q. case map_of full (pe_name q) of
             None \<Rightarrow> [] | Some fv \<Rightarrow> [(pe_name q, ap fv (map json_query (pe_elements q)))]) qs)"
  using assms
proof (induction qs arbitrary: res)
  case (Cons q qs)
  obtain n v es where q: "q = PElem n v es" by (cases q)
  show ?case
  proof (cases "map_of full n")
    case None
    with Cons q show ?thesis by simp
  next
    case (Some fv)
    from Cons.prems q have "AList.update n (ap fv (map json_query es)) res =
        res @ [(n, ap fv (map json_query es))]"
      by (simp add: update_fresh)
    with Cons.IH [of "res @ [(n, ap fv (map json_query es))]"] Cons.prems q Some show ?thesis by auto
  qed
qed simp

definition query_value :: "nat \<Rightarrow> gany \<Rightarrow> obj \<Rightarrow> gany" where
  "query_value n v q = (if q = [] then v else case v of GObj m \<Rightarrow> GObj (query_object n m q) | _ \<Rightarrow> v)"

lemma query_object_plain:
  assumes "distinct (map pe_name qs)" "\<forall>q \<in> set qs. plain_query q" "qs \<noteq> []"
  shows "query_object (Suc n) full (map json_query qs) =
     concat (map (\<lambda>q. case map_of full (pe_name q) of
         None \<Rightarrow> [] | Some fv \<Rightarrow> [(pe_name q, query_value n fv (map json_query (pe_elements q)))]) qs)"
proof -
  have "\<forall>q \<in> set qs. pe_name q \<noteq> ''*''"
  proof
    fix q assume "q \<in> set qs"
    with assms(2) have "plain_query q" by blast
    then show "pe_name q \<noteq> ''*''" by (cases q) (auto simp: is_wildcard_def)
  qed
  from query_fold [OF assms(1) this, of "[]" "query_value n" full] assms(3) show ?thesis
    unfolding query_object.simps Let_def query_value_def by simp
qed

lemma query_agree:
  "any_depth (GObj full) \<le> n \<Longrightarrow> distinct (map pe_name qs) \<Longrightarrow> \<forall>q \<in> set qs. plain_query q \<Longrightarrow> qs \<noteq> [] \<Longrightarrow>
   convert_query full qs = convert_all (query_object n full (map json_query qs))"
proof (induction n arbitrary: full qs)
  case (Suc n)
  have one: "convertValueToProperty (pe_name q) v (pe_elements q) =
      convert_leaf (pe_name q) (query_value n v (map json_query (pe_elements q)))"
    if q: "q \<in> set qs" and v: "map_of full (pe_name q) = Some v" for q v
  proof (cases "\<exists>m. v = GObj m \<and> pe_elements q \<noteq> []")
    case True
    then obtain m where m: "v = GObj m" "pe_elements q \<noteq> []" by blast
    from Suc.prems(3) q have "plain_query q" by blast
    then have "distinct (map pe_name (pe_elements q))" "\<forall>q' \<in> set (pe_elements q). plain_query q'"
      by (cases q; simp add: list_all_iff)+
    moreover have "any_depth (GObj m) \<le> n"
      using any_depth_member [OF map_of_SomeD [OF v]] Suc.prems(1) m(1) by simp
    ultimately have "convert_query m (pe_elements q) =
        convert_all (query_object n m (map json_query (pe_elements q)))"
      using m(2) by (intro Suc.IH)
    with m show ?thesis by (simp add: query_value_def convertValueToProperty.simps)
  next
    case False
    then show ?thesis
      by (cases v) (auto simp: query_value_def convertValueToProperty.simps)
  qed
  have "convert_query full qs' = concat (map (\<lambda>q. case map_of full (pe_name q) of
       None \<Rightarrow> [] | Some v \<Rightarrow> [convertValueToProperty (pe_name q) v (pe_elements q)]) qs')"
    if "\<forall>q \<in> set qs'. plain_query q" for qs'
    using that
  proof (induction qs')
    case (Cons q qs')
    then have "\<not> is_wildcard (pe_name q)" by (cases q) simp
    with Cons show ?case by (simp add: convertValueToProperty.simps split: option.split)
  qed (simp add: convertValueToProperty.simps)
  with Suc.prems(3) have "convert_query full qs = concat (map (\<lambda>q. case map_of full (pe_name q) of
       None \<Rightarrow> [] | Some v \<Rightarrow> [convertValueToProperty (pe_name q) v (pe_elements q)]) qs)" by blast
  also have "\<dots> = convert_all (query_object (Suc n) full (map json_query qs))"
    unfolding query_object_plain [OF Suc.prems(2,3,4)] convert_all_map map_concat
    by (rule arg_cong [where f = concat]) (auto simp: one split: option.split)
  finally show ?case .
qed simp

section \<open>The tree\<close>

lemma tree_devices:
  "map_of (foldl (\<lambda>acc (k, d). AList.update (deviceDSUID vdc d k)
        (buildDeviceProperties now (deviceDSUID vdc d k) d scenes config) acc) acc snap) x =
   (case find (\<lambda>(k, d). deviceDSUID vdc d k = x) (rev snap) of
      Some (k, d) \<Rightarrow> Some (buildDeviceProperties now x d scenes config)
    | None \<Rightarrow> map_of acc x)"
proof (induction snap arbitrary: acc)
  case (Cons p snap)
  have find_append: "find P (xs @ ys) = (case find P xs of Some y \<Rightarrow> Some y | None \<Rightarrow> find P ys)" for P xs ys
    by (induction xs) auto
  obtain k d where "p = (k, d)" by fastforce
  then show ?case by (auto simp: Cons.IH find_append split: option.split)
qed simp

lemma device_name_override:
  "n \<noteq> [] \<Longrightarrow> GetDeviceName cs dsuid = Some n \<Longrightarrow> device_name dsuid d (Some cs) = n"
  by (simp add: device_name_def Let_def)

lemma properties_name: "map_of (buildDeviceProperties now dsuid d scenes config) ''name'' =
    Some (GStr (device_name dsuid d config))"
  by (simp add: buildDeviceProperties_def Let_def)

lemma scene_entry_effect: "map_of (case buildSceneEntry ks n stored of GObj m \<Rightarrow> m | _ \<Rightarrow> []) ''effect'' =
    Some (GInt (case stored of None \<Rightarrow> 1 | Some e \<Rightarrow> se_Effect e))"
  by (simp add: buildSceneEntry_def)

section \<open>Properties\<close>

text \<open>
  The device part of the tree has an object for exactly the dSUIDs of the devices in the
  snapshot, and each carries its own dSUID, name and active flag as read from such a device.
\<close>

theorem tree_has_the_devices:
  "(case map_of (snd (snd (buildPropertyTree now vdc desc snap scenes config))) x of
      None \<Rightarrow> x \<notin> (\<lambda>(k, d). deviceDSUID vdc d k) ` set snap
    | Some props \<Rightarrow> \<exists>(k, d) \<in> set snap. deviceDSUID vdc d k = x \<and>
        map_of props ''dSUID'' = Some (GStr x) \<and>
        map_of props ''name'' = Some (GStr (device_name x d config)) \<and>
        map_of props ''active'' = Some (GBool (d_Active d)))"
proof -
  have lookup: "map_of (snd (snd (buildPropertyTree now vdc desc snap scenes config))) x =
      (case find (\<lambda>(k, d). deviceDSUID vdc d k = x) (rev snap) of
         Some (k, d) \<Rightarrow> Some (buildDeviceProperties now x d scenes config) | None \<Rightarrow> None)"
    using tree_devices [of vdc now scenes config "[]" snap x]
    by (simp add: buildPropertyTree_def Let_def split: option.split)
  show ?thesis
  proof (cases "find (\<lambda>(k, d). deviceDSUID vdc d k = x) (rev snap)")
    case None
    with lookup show ?thesis by (auto simp: find_None_iff)
  next
    case (Some kd)
    then have "kd \<in> set (rev snap)" "(\<lambda>(k, d). deviceDSUID vdc d k = x) kd"
      by (auto simp del: set_rev simp: find_Some_iff in_set_conv_nth)
    with Some lookup show ?thesis
      by (cases kd) (auto simp: buildDeviceProperties_def Let_def)
  qed
qed

text \<open>
  A scene never written reports effect 1, the smooth transition that is the default; saving it
  with no more than channel values makes it report effect 0.
\<close>

theorem saving_scene_clears_effect:
  assumes "GetScene ss dsuid n = None"
  shows "map_of (sub_query (buildSceneEntry ks n (GetScene ss dsuid n))) ''effect'' = Some (GInt 1) \<and>
     map_of (sub_query (buildSceneEntry ks n (GetScene (SaveScene io dsuid n channels ss) dsuid n)))
       ''effect'' = Some (GInt 0)"
  using assms
  by (simp add: buildSceneEntry_def GetScene_SaveScene get_entry_GetScene zero_entry_def)

theorem saving_scene_clears_effect_witness:
  "map_of (sub_query (buildSceneEntry [0] 5 (GetScene
     (SaveScene True ''D'' 5 [(0, f64_one)] (NewSceneStore [])) ''D'' 5))) ''effect'' = Some (GInt 0)"
  using saving_scene_clears_effect [of "NewSceneStore []" "''D''" 5 "[0]" True "[(0, f64_one)]"]
  by (simp add: GetScene_def NewSceneStore_def)

text \<open>
  The two protocols answer a property query alike: for a query that names properties, the
  protobuf answer is the conversion of the object that the JSON query selects.
\<close>

theorem pbuf_json_query_agree:
  assumes "distinct (map pe_name qs)" and "list_all plain_query qs"
  shows "buildPbufPropertyResult qs full = convert_all (applyObjectQuery full (map json_query qs))"
  using assms query_agree [of full "any_depth (GObj full)" qs]
  by (cases "qs = []") (auto simp: buildPbufPropertyResult_def applyObjectQuery_def list_all_iff)

theorem pbuf_json_query_agree_witness:
  "buildPbufPropertyResult [PElem ''a'' GNil [PElem ''b'' GNil []]]
     [(''a'', GObj [(''b'', GInt 1), (''c'', GInt 2)])] =
   [PElem ''a'' GNil [PElem ''b'' (GInt 1) []]]"
  using pbuf_json_query_agree [of "[PElem ''a'' GNil [PElem ''b'' GNil []]]"
      "[(''a'', GObj [(''b'', GInt 1), (''c'', GInt 2)])]"]
  by (simp add: is_wildcard_def applyObjectQuery_def)

end
