(* ===== verification/Dim_Ramp.thy ===== *)
theory Dim_Ramp
  imports Go_Map Go_Float
begin

text \<open>
  The smooth ramps of dimChannel (\<^verbatim>\<open>pkg/vdcapi/dim_ramp.go\<close>). A ramp is a goroutine with its own
  context: \<open>rm_ramps\<close> holds the goroutines that run, by the identity of their context, and
  \<open>rm_active\<close> is the manager's map from a device to the context of its current ramp. A cancelled
  goroutine may still take one ticker event before it sees the cancellation, so that ticking and
  exiting are separate steps of \<open>ramp_step\<close>, whose label lists the values applied.
\<close>

record ramp =
  rp_uid :: string
  rp_value :: f64
  rp_target :: f64
  rp_step :: f64
  rp_cancelled :: bool

record ramp_manager =
  rm_active :: "(string, nat) gomap"
  rm_ramps :: "(nat, ramp) gomap"
  rm_next :: nat

definition NewDimRampManager :: ramp_manager where
  "NewDimRampManager = \<lparr>rm_active = [], rm_ramps = [], rm_next = 0\<rparr>"

text \<open>100 times the tick interval of 0.1 s over the sweep duration of 3 s.\<close>

definition dim_step_size :: f64 where
  "dim_step_size = 0x400AAAAAAAAAAAAB"

definition f64_negate :: "f64 \<Rightarrow> f64" where
  "f64_negate x = x XOR 0x8000000000000000"

definition cancel_ramp :: "nat \<Rightarrow> ramp_manager \<Rightarrow> ramp_manager" where
  "cancel_ramp i rm = rm\<lparr>rm_ramps :=
     map (\<lambda>(j, r). (j, if j = i then r\<lparr>rp_cancelled := True\<rparr> else r)) (rm_ramps rm)\<rparr>"

definition ramp_target :: "int \<Rightarrow> f64" where
  "ramp_target direction = (if 0 < direction then f64_hundred else f64_zero)"

definition new_ramp :: "string \<Rightarrow> int \<Rightarrow> f64 \<Rightarrow> ramp" where
  "new_ramp uid direction startValue =
     \<lparr>rp_uid = uid, rp_value = startValue, rp_target = ramp_target direction,
      rp_step = (if f64_less (ramp_target direction) startValue then f64_negate dim_step_size
                 else dim_step_size), rp_cancelled = False\<rparr>"

definition ramp_start :: "string \<Rightarrow> int \<Rightarrow> f64 \<Rightarrow> ramp_manager \<Rightarrow> ramp_manager" where
  "ramp_start uid direction startValue rm =
     (if direction = 0 \<or> f64_eq startValue (ramp_target direction) then rm
      else
        let i = rm_next rm;
            rm1 = (case map_of (rm_active rm) uid of None \<Rightarrow> rm | Some j \<Rightarrow> cancel_ramp j rm)
        in rm1\<lparr>rm_active := AList.update uid i (rm_active rm1),
               rm_ramps := AList.update i (new_ramp uid direction startValue) (rm_ramps rm1),
               rm_next := i + 1\<rparr>)"

definition ramp_finish :: "string \<Rightarrow> nat \<Rightarrow> ramp_manager \<Rightarrow> ramp_manager" where
  "ramp_finish uid i rm =
     (if map_of (rm_active rm) uid = Some i
      then rm\<lparr>rm_active := AList.delete uid (rm_active rm)\<rparr> else rm)"

definition ramp_end :: "nat \<Rightarrow> ramp_manager \<Rightarrow> ramp_manager" where
  "ramp_end i rm = rm\<lparr>rm_ramps := AList.delete i (rm_ramps rm)\<rparr>"

text \<open>One ticker event: the next value, and whether the bound is reached.\<close>

definition ramp_next :: "ramp \<Rightarrow> f64 \<times> bool" where
  "ramp_next r =
     (let value = f64_add (rp_value r) (rp_step r);
          fin = (f64_less f64_zero (rp_step r) \<and> f64_le (rp_target r) value) \<or>
                (f64_less (rp_step r) f64_zero \<and> f64_le value (rp_target r))
      in (if fin then rp_target r else value, fin))"

definition ramp_tick :: "nat \<Rightarrow> ramp_manager \<Rightarrow> (string \<times> f64) list \<times> ramp_manager" where
  "ramp_tick i rm =
     (case map_of (rm_ramps rm) i of
        None \<Rightarrow> ([], rm)
      | Some r \<Rightarrow>
          (case ramp_next r of (v, fin) \<Rightarrow>
             ([(rp_uid r, v)],
              if fin then ramp_end i (ramp_finish (rp_uid r) i rm)
              else rm\<lparr>rm_ramps := AList.update i (r\<lparr>rp_value := v\<rparr>) (rm_ramps rm)\<rparr>)))"

definition ramp_exit :: "nat \<Rightarrow> ramp_manager \<Rightarrow> ramp_manager" where
  "ramp_exit i rm =
     (case map_of (rm_ramps rm) i of
        Some r \<Rightarrow> if rp_cancelled r then ramp_end i rm else rm
      | None \<Rightarrow> rm)"

definition ramp_stop :: "string \<Rightarrow> ramp_manager \<Rightarrow> ramp_manager" where
  "ramp_stop uid rm =
     (case map_of (rm_active rm) uid of
        None \<Rightarrow> rm
      | Some i \<Rightarrow> cancel_ramp i (rm\<lparr>rm_active := AList.delete uid (rm_active rm)\<rparr>))"

definition ramp_stopAll :: "ramp_manager \<Rightarrow> ramp_manager" where
  "ramp_stopAll rm = foldr cancel_ramp (map snd (rm_active rm)) (rm\<lparr>rm_active := []\<rparr>)"

inductive ramp_step :: "ramp_manager \<Rightarrow> (string \<times> f64) list \<Rightarrow> ramp_manager \<Rightarrow> bool" where
  start: "ramp_step rm [] (ramp_start uid direction v rm)"
| stop: "ramp_step rm [] (ramp_stop uid rm)"
| stopAll: "ramp_step rm [] (ramp_stopAll rm)"
| tick: "ramp_step rm (fst (ramp_tick i rm)) (snd (ramp_tick i rm))"
| exit: "ramp_step rm [] (ramp_exit i rm)"

inductive_cases ramp_stepE: "ramp_step rm out rm'"

inductive ramp_reach :: "ramp_manager \<Rightarrow> bool" where
  init: "ramp_reach NewDimRampManager"
| step: "ramp_reach rm \<Longrightarrow> ramp_step rm out rm' \<Longrightarrow> ramp_reach rm'"

section \<open>Invariant\<close>

text \<open>The current ramp of a device runs and is not cancelled, and every ramp that is not cancelled
  is the current one of its device.\<close>

definition ramps_ok :: "(string \<rightharpoonup> nat) \<Rightarrow> (nat \<rightharpoonup> ramp) \<Rightarrow> nat \<Rightarrow> bool" where
  "ramps_ok A R n \<longleftrightarrow>
     (\<forall>uid i. A uid = Some i \<longrightarrow> (\<exists>r. R i = Some r \<and> rp_uid r = uid \<and> \<not> rp_cancelled r)) \<and>
     (\<forall>i r. R i = Some r \<longrightarrow> i < n \<and> (\<not> rp_cancelled r \<longrightarrow> A (rp_uid r) = Some i))"

definition ramps_wf :: "ramp_manager \<Rightarrow> bool" where
  "ramps_wf rm \<longleftrightarrow> ramps_ok (map_of (rm_active rm)) (map_of (rm_ramps rm)) (rm_next rm)"

lemma ramps_okI:
  assumes "\<And>uid i. A uid = Some i \<Longrightarrow> \<exists>r. R i = Some r \<and> rp_uid r = uid \<and> \<not> rp_cancelled r"
    and "\<And>i r. R i = Some r \<Longrightarrow> i < n"
    and "\<And>i r. R i = Some r \<Longrightarrow> \<not> rp_cancelled r \<Longrightarrow> A (rp_uid r) = Some i"
  shows "ramps_ok A R n"
  using assms by (simp add: ramps_ok_def)

lemma ramps_okD:
  assumes "ramps_ok A R n"
  shows "A uid = Some i \<Longrightarrow> \<exists>r. R i = Some r \<and> rp_uid r = uid \<and> \<not> rp_cancelled r"
    and "R i = Some r \<Longrightarrow> i < n" and "R i = Some r \<Longrightarrow> \<not> rp_cancelled r \<Longrightarrow> A (rp_uid r) = Some i"
  using assms by (auto simp: ramps_ok_def)

abbreviation (input) cancelled :: "ramp option \<Rightarrow> ramp option" where
  "cancelled \<equiv> map_option (rp_cancelled_update (\<lambda>_. True))"

text \<open>Two current ramps of different devices are different.\<close>

lemma ok_current_inj: "ramps_ok A R n \<Longrightarrow> A u = Some i \<Longrightarrow> A w = Some i \<Longrightarrow> u = w"
  using ramps_okD(1) [of A R n u i] ramps_okD(1) [of A R n w i] by auto

lemma ok_cancel:
  assumes ok: "ramps_ok A R n" and A: "A uid = Some i"
  shows "ramps_ok (A(uid := None)) (R(i := cancelled (R i))) n"
proof (rule ramps_okI)
  fix u j assume "(A(uid := None)) u = Some j"
  then have "u \<noteq> uid" "A u = Some j" by (auto split: if_splits)
  with ok_current_inj [OF ok A, of u] ramps_okD(1) [OF ok, of u j]
  show "\<exists>r. (R(i := cancelled (R i))) j = Some r \<and> rp_uid r = u \<and> \<not> rp_cancelled r" by auto
next
  fix j r assume *: "(R(i := cancelled (R i))) j = Some r"
  then show "j < n" using ramps_okD(2) [OF ok, of j] by (auto split: if_splits)
  assume "\<not> rp_cancelled r"
  with * have "j \<noteq> i" "R j = Some r" by (auto split: if_splits)
  with ramps_okD(3) [OF ok this(2) \<open>\<not> rp_cancelled r\<close>] A
  show "(A(uid := None)) (rp_uid r) = Some j" by auto
qed

lemma ok_add:
  assumes ok: "ramps_ok A R n" and "A (rp_uid r) = None" "\<not> rp_cancelled r"
  shows "ramps_ok (A(rp_uid r \<mapsto> n)) (R(n \<mapsto> r)) (Suc n)"
proof (rule ramps_okI)
  fix u j assume "(A(rp_uid r \<mapsto> n)) u = Some j"
  with assms(3) ramps_okD(1) [OF ok, of u j] ramps_okD(2) [OF ok, of j]
  show "\<exists>r'. (R(n \<mapsto> r)) j = Some r' \<and> rp_uid r' = u \<and> \<not> rp_cancelled r'"
    by (auto split: if_splits)
next
  fix j r' assume *: "(R(n \<mapsto> r)) j = Some r'"
  then show "j < Suc n" using ramps_okD(2) [OF ok, of j r'] by (auto split: if_splits)
  assume "\<not> rp_cancelled r'"
  with * assms(2) ramps_okD(3) [OF ok, of j r'] show "(A(rp_uid r \<mapsto> n)) (rp_uid r') = Some j"
    by (auto split: if_splits)
qed

lemma ok_end_cancelled:
  assumes ok: "ramps_ok A R n" and r: "R i = Some r" "rp_cancelled r"
  shows "ramps_ok A (R(i := None)) n"
proof (rule ramps_okI)
  fix u j assume "A u = Some j"
  with ramps_okD(1) [OF ok this] r
  show "\<exists>r'. (R(i := None)) j = Some r' \<and> rp_uid r' = u \<and> \<not> rp_cancelled r'" by auto
qed (auto split: if_splits dest: ramps_okD(2,3) [OF ok])

lemma ok_end_current:
  assumes ok: "ramps_ok A R n" and r: "A (rp_uid r) = Some i"
  shows "ramps_ok (A(rp_uid r := None)) (R(i := None)) n"
proof (rule ramps_okI)
  fix u j assume "(A(rp_uid r := None)) u = Some j"
  then have "u \<noteq> rp_uid r" "A u = Some j" by (auto split: if_splits)
  with ok_current_inj [OF ok r, of u] ramps_okD(1) [OF ok, of u j]
  show "\<exists>r'. (R(i := None)) j = Some r' \<and> rp_uid r' = u \<and> \<not> rp_cancelled r'" by auto
next
  fix j r' assume *: "(R(i := None)) j = Some r'"
  then show "j < n" using ramps_okD(2) [OF ok, of j] by (auto split: if_splits)
  assume "\<not> rp_cancelled r'"
  with * ramps_okD(3) [OF ok, of j r'] r show "(A(rp_uid r := None)) (rp_uid r') = Some j"
    by (auto split: if_splits)
qed

lemma ok_value:
  assumes ok: "ramps_ok A R n" and r: "R i = Some r"
  shows "ramps_ok A (R(i \<mapsto> r\<lparr>rp_value := v\<rparr>)) n"
proof (rule ramps_okI)
  fix u j assume "A u = Some j"
  with ramps_okD(1) [OF ok this] r
  show "\<exists>r'. (R(i \<mapsto> r\<lparr>rp_value := v\<rparr>)) j = Some r' \<and> rp_uid r' = u \<and> \<not> rp_cancelled r'" by auto
next
  fix j r' assume *: "(R(i \<mapsto> r\<lparr>rp_value := v\<rparr>)) j = Some r'"
  then show "j < n" using ramps_okD(2) [OF ok, of j] r by (auto split: if_splits)
  assume "\<not> rp_cancelled r'"
  with * r ramps_okD(3) [OF ok, of j] show "A (rp_uid r') = Some j" by (auto split: if_splits)
qed

lemma ok_live_current: "ramps_ok A R n \<Longrightarrow> R i = Some r \<Longrightarrow> A (rp_uid r) \<noteq> Some i \<Longrightarrow> rp_cancelled r"
  unfolding ramps_ok_def by auto

lemma map_of_cancel:
  "map_of (rm_ramps (cancel_ramp i rm)) = (map_of (rm_ramps rm))(i := cancelled (map_of (rm_ramps rm) i))"
proof
  fix j
  have "map_of (map (\<lambda>(j, r). (j, if j = i then r\<lparr>rp_cancelled := True\<rparr> else r)) xs) j =
     (if j = i then cancelled (map_of xs j) else map_of xs j)" for xs
    by (induction xs) auto
  from this [of "rm_ramps rm"]
  show "map_of (rm_ramps (cancel_ramp i rm)) j =
      ((map_of (rm_ramps rm))(i := cancelled (map_of (rm_ramps rm) i))) j"
    by (simp add: cancel_ramp_def)
qed

lemma cancel_fields [simp]:
  "rm_active (cancel_ramp i rm) = rm_active rm" "rm_next (cancel_ramp i rm) = rm_next rm"
  by (simp_all add: cancel_ramp_def)

lemma stop_wf: "ramps_wf rm \<Longrightarrow> ramps_wf (ramp_stop uid rm)"
  using ok_cancel [of "map_of (rm_active rm)" "map_of (rm_ramps rm)" "rm_next rm" uid]
  by (auto simp: ramp_stop_def ramps_wf_def map_of_cancel AList.delete_conv' split: option.split
      simp del: map_of_delete)

lemma start_wf: "ramps_wf rm \<Longrightarrow> ramps_wf (ramp_start uid dir v rm)"
proof (cases "dir = 0 \<or> f64_eq v (ramp_target dir)")
  case False
  assume wf: "ramps_wf rm"
  let ?A = "map_of (rm_active rm)" and ?R = "map_of (rm_ramps rm)"
  have r: "rp_uid (new_ramp uid dir v) = uid" "\<not> rp_cancelled (new_ramp uid dir v)"
    by (simp_all add: new_ramp_def)
  show ?thesis
  proof (cases "?A uid")
    case None
    with ok_add [of ?A ?R "rm_next rm" "new_ramp uid dir v"] wf r False show ?thesis
      by (simp add: ramps_wf_def ramp_start_def Let_def AList.update_conv' del: map_of_update)
  next
    case (Some j)
    have "ramps_ok (?A(uid := None)) (?R(j := cancelled (?R j))) (rm_next rm)"
      using ok_cancel [OF wf [unfolded ramps_wf_def] Some] .
    from ok_add [OF this, of "new_ramp uid dir v"] r False Some show ?thesis
      by (simp add: ramps_wf_def ramp_start_def Let_def AList.update_conv' map_of_cancel del: map_of_update)
  qed
qed (simp add: ramp_start_def Let_def)

lemma exit_wf: "ramps_wf rm \<Longrightarrow> ramps_wf (ramp_exit i rm)"
  by (auto simp: ramps_wf_def ramp_exit_def ramp_end_def AList.delete_conv' simp del: map_of_delete
      intro: ok_end_cancelled split: option.split)

lemma tick_wf: "ramps_wf rm \<Longrightarrow> ramps_wf (snd (ramp_tick i rm))"
proof (cases "map_of (rm_ramps rm) i")
  case (Some r)
  assume wf: "ramps_wf rm"
  then have ok: "ramps_ok (map_of (rm_active rm)) (map_of (rm_ramps rm)) (rm_next rm)"
    by (simp add: ramps_wf_def)
  obtain v fin where n: "ramp_next r = (v, fin)" by fastforce
  show ?thesis
  proof (cases fin)
    case False
    with ok_value [OF ok Some] Some n show ?thesis
      by (simp add: ramp_tick_def ramps_wf_def AList.update_conv' del: map_of_update)
  next
    case True
    show ?thesis
    proof (cases "map_of (rm_active rm) (rp_uid r) = Some i")
      assume "map_of (rm_active rm) (rp_uid r) = Some i"
      with ok_end_current [OF ok, of r i] True Some n show ?thesis
        by (simp add: ramp_tick_def ramps_wf_def ramp_end_def ramp_finish_def AList.delete_conv'
            del: map_of_delete)
    next
      assume a: "map_of (rm_active rm) (rp_uid r) \<noteq> Some i"
      with ok_end_cancelled [OF ok Some ok_live_current [OF ok Some a]] True Some n show ?thesis
        by (simp add: ramp_tick_def ramps_wf_def ramp_end_def ramp_finish_def AList.delete_conv'
            del: map_of_delete)
    qed
  qed
qed (simp add: ramp_tick_def)

lemma foldr_cancel:
  "map_of (rm_ramps (foldr cancel_ramp is rm)) j =
     (if j \<in> set is then cancelled (map_of (rm_ramps rm) j) else map_of (rm_ramps rm) j)"
  "rm_active (foldr cancel_ramp is rm) = rm_active rm" "rm_next (foldr cancel_ramp is rm) = rm_next rm"
  by (induction "is") (auto simp: map_of_cancel option.map_comp comp_def)

lemma stopAll_wf: "ramps_wf rm \<Longrightarrow> ramps_wf (ramp_stopAll rm)"
proof -
  assume wf: "ramps_wf rm"
  have "i \<in> snd ` set (rm_active rm)" if "map_of (rm_ramps rm) i = Some r" "\<not> rp_cancelled r" for i r
    using wf that by (force simp: ramps_wf_def ramps_ok_def dest: map_of_SomeD)
  with wf show ?thesis
    unfolding ramps_wf_def ramps_ok_def ramp_stopAll_def foldr_cancel by (auto split: if_splits)
qed

lemma ramp_step_wf: "ramp_step rm out rm' \<Longrightarrow> ramps_wf rm \<Longrightarrow> ramps_wf rm'"
  by (elim ramp_stepE) (auto intro: start_wf stop_wf stopAll_wf tick_wf exit_wf)

lemma reach_wf: "ramp_reach rm \<Longrightarrow> ramps_wf rm"
proof (induction rule: ramp_reach.induct)
  case init
  show ?case by (simp add: ramps_wf_def ramps_ok_def NewDimRampManager_def)
next
  case (step rm out rm')
  then show ?case by (blast intro: ramp_step_wf)
qed

lemma f64_nan_is_nan: "f64_is_nan f64_nan"
  by (simp add: f64_nan_def f64_pattern_defs)

section \<open>Properties\<close>



text \<open>
  Stopping the ramp of a device leaves it no live ramp, and touches no ramp of another device.
\<close>

theorem stop_ends_the_ramp:
  assumes "ramp_reach rm"
  shows "(\<forall>i r. map_of (rm_ramps (ramp_stop uid rm)) i = Some r \<and> rp_uid r = uid \<longrightarrow> rp_cancelled r) \<and>
     (\<forall>i r. rp_uid r \<noteq> uid \<longrightarrow>
        (map_of (rm_ramps (ramp_stop uid rm)) i = Some r) = (map_of (rm_ramps rm) i = Some r))"
proof -
  from reach_wf [OF assms] have ok: "ramps_ok (map_of (rm_active rm)) (map_of (rm_ramps rm)) (rm_next rm)"
    by (simp add: ramps_wf_def)
  show ?thesis
  proof (cases "map_of (rm_active rm) uid")
    case None
    with ramps_okD(3) [OF ok] show ?thesis by (fastforce simp: ramp_stop_def)
  next
    case (Some j)
    with ramps_okD(3) [OF ok] ramps_okD(1) [OF ok Some] show ?thesis
      by (fastforce simp: ramp_stop_def map_of_cancel split: if_splits)
  qed
qed

theorem stop_ends_the_ramp_witness:
  "map_option rp_cancelled (map_of (rm_ramps (ramp_stop ''u'' (ramp_start ''u'' 1 f64_zero NewDimRampManager))) 0)
     = Some True"
proof -
  let ?rm = "ramp_start ''u'' 1 f64_zero NewDimRampManager"
  have "\<not> f64_eq f64_zero (ramp_target 1)"
    by (simp add: ramp_target_def f64_eq_def f64_hundred_def f64_zero_def f64_pattern_defs)
  then have "\<exists>r. map_of (rm_ramps (ramp_stop ''u'' ?rm)) 0 = Some r \<and> rp_uid r = ''u''"
    by (simp add: ramp_start_def ramp_stop_def NewDimRampManager_def new_ramp_def cancel_ramp_def Let_def)
  with stop_ends_the_ramp [of ?rm "''u''"] ramp_reach.step [OF ramp_reach.init ramp_step.start]
  show ?thesis by fastforce
qed

text \<open>
  A ramp that starts from a level that is not a number never ends by itself: after any number
  of ticks it still runs, and every value it applies is not a number either.
\<close>

theorem nan_ramp_never_ends:
  assumes "map_of (rm_ramps rm) i = Some r" and "f64_is_nan (rp_value r)"
  shows "\<exists>r' v. map_of (rm_ramps (((\<lambda>m. snd (ramp_tick i m)) ^^ n) rm)) i = Some r' \<and>
     f64_is_nan (rp_value r') \<and> f64_is_nan v \<and>
     fst (ramp_tick i (((\<lambda>m. snd (ramp_tick i m)) ^^ n) rm)) = [(rp_uid r, v)]"
proof -
  have tick: "ramp_tick i m = ([(rp_uid s, f64_nan)],
      m\<lparr>rm_ramps := AList.update i (s\<lparr>rp_value := f64_nan\<rparr>) (rm_ramps m)\<rparr>)"
    if "map_of (rm_ramps m) i = Some s" "f64_is_nan (rp_value s)" for m s
    using that f64_nan_is_nan by (simp add: ramp_tick_def ramp_next_def f64_add_def Let_def f64_le_def)
  have "\<exists>s. map_of (rm_ramps (((\<lambda>m. snd (ramp_tick i m)) ^^ n) rm)) i = Some s \<and>
      rp_uid s = rp_uid r \<and> f64_is_nan (rp_value s)"
    by (induction n) (use assms tick f64_nan_is_nan in auto)
  then show ?thesis using tick f64_nan_is_nan by fastforce
qed

theorem nan_ramp_never_ends_witness:
  "map_of (rm_ramps (((\<lambda>m. snd (ramp_tick 0 m)) ^^ 1000)
     (ramp_start ''u'' 1 f64_nan NewDimRampManager))) 0 \<noteq> None"
proof -
  have "map_of (rm_ramps (ramp_start ''u'' 1 f64_nan NewDimRampManager)) 0 = Some (new_ramp ''u'' 1 f64_nan)"
    using f64_nan_is_nan
    by (simp add: ramp_start_def NewDimRampManager_def ramp_target_def f64_eq_def Let_def)
  from nan_ramp_never_ends [OF this, of 1000] f64_nan_is_nan show ?thesis by (auto simp: new_ramp_def)
qed

end
