(* ===== verification/Method_Service.thy ===== *)
theory Method_Service
  imports Property_Tree Dim_Ramp
begin

text \<open>
  The operations both protocol servers share (\<^verbatim>\<open>pkg/vdcapi/method_service.go\<close>, the scene table
  of \<^verbatim>\<open>pbuf_scene_actions.go\<close>). \<open>vdc\<close> gathers what a \<^verbatim>\<open>methodService\<close> points to: the stores, the
  ramps and the commander, an interface whose calls act on a world \<open>'w\<close> of their own and may return
  an error text. \<open>v_io\<close> is whether the disk takes the writes of the operation. An operation returns
  the new state and its error, if any.
\<close>

section \<open>State\<close>

record 'w commander =
  cm_SetLightLevel :: "string \<Rightarrow> f64 \<Rightarrow> 'w \<Rightarrow> 'w \<times> string option"
  cm_SetChannelValue :: "string \<Rightarrow> int \<Rightarrow> f64 \<Rightarrow> 'w \<Rightarrow> 'w \<times> string option"
  cm_CallScene :: "(string \<Rightarrow> int \<Rightarrow> 'w \<Rightarrow> 'w \<times> string option) option"

record 'w vdc =
  v_dsuid :: string
  v_description :: string
  v_state :: "state_store option"
  v_commander :: "'w commander option"
  v_scenes :: "scene_store option"
  v_config :: "config_store option"
  v_ramps :: "ramp_manager option"
  v_io :: bool
  v_world :: 'w

definition snapshot :: "'w vdc \<Rightarrow> (string, device) gomap" where
  "snapshot v = (case v_state v of None \<Rightarrow> [] | Some s \<Rightarrow> Snapshot s)"

text \<open>The empty target, root and the dSUID of the vDC name the vDC, in any case.\<close>

definition is_vdc_target :: "'w vdc \<Rightarrow> string \<Rightarrow> bool" where
  "is_vdc_target v t \<longleftrightarrow> t = [] \<or> equal_fold t ''root'' \<or> equal_fold t (v_dsuid v)"

definition resolve :: "'w vdc \<Rightarrow> string \<Rightarrow> device option" where
  "resolve v t = resolveDeviceByDSUID (v_dsuid v) t (snapshot v)"

definition with_world :: "'w vdc \<Rightarrow> 'w \<times> string option \<Rightarrow> 'w vdc \<times> vdc_error option" where
  "with_world v = (\<lambda>(w, e). (v\<lparr>v_world := w\<rparr>, map_option ErrOther e))"

definition upd_scenes :: "(scene_store \<Rightarrow> scene_store) \<Rightarrow> 'w vdc \<Rightarrow> 'w vdc" where
  "upd_scenes f v = v\<lparr>v_scenes := map_option f (v_scenes v)\<rparr>"

definition upd_config :: "(config_store \<Rightarrow> config_store) \<Rightarrow> 'w vdc \<Rightarrow> 'w vdc" where
  "upd_config f v = v\<lparr>v_config := map_option f (v_config v)\<rparr>"

section \<open>Reading properties\<close>

definition resolveGetPropertyTarget :: "nat \<Rightarrow> 'w vdc \<Rightarrow> string \<Rightarrow> vdc_error + obj" where
  "resolveGetPropertyTarget now v target =
     (case buildPropertyTree now (v_dsuid v) (v_description v) (snapshot v) (v_scenes v) (v_config v) of
        (root, vdc, devices) \<Rightarrow>
          if is_vdc_target v target then Inr root
          else case map_of devices (to_upper target) of
                 Some d \<Rightarrow> Inr d
               | None \<Rightarrow>
                   (case j_get vdc ''dSUID'' of
                      GStr s \<Rightarrow> if equal_fold target s then Inr vdc else Inl ErrAddressableNotFound
                    | _ \<Rightarrow> Inl ErrAddressableNotFound))"

section \<open>Writing properties\<close>

definition setLightLevel :: "string \<Rightarrow> f64 \<Rightarrow> 'w vdc \<Rightarrow> 'w vdc \<times> vdc_error option" where
  "setLightLevel target value v =
     (case v_commander v of
        None \<Rightarrow> (v, Some ErrControlPathUnavailable)
      | Some c \<Rightarrow>
          (case validateLightControlTarget target (v_dsuid v) of
             Some e \<Rightarrow> (v, Some e)
           | None \<Rightarrow>
               (case resolve v target of
                  None \<Rightarrow> (v, Some ErrAddressableNotFound)
                | Some d \<Rightarrow>
                    if \<not> isLightOutput (d_Output d) then (v, Some ErrSetPropertyLightOnly)
                    else with_world v (cm_SetLightLevel c (d_UniqueID d) value (v_world v)))))"

definition setChannelValue :: "string \<Rightarrow> int \<Rightarrow> f64 \<Rightarrow> 'w vdc \<Rightarrow> 'w vdc \<times> vdc_error option" where
  "setChannelValue target idx value v =
     (case v_commander v of
        None \<Rightarrow> (v, Some ErrControlPathUnavailable)
      | Some c \<Rightarrow>
          (case validateLightControlTarget target (v_dsuid v) of
             Some e \<Rightarrow> (v, Some e)
           | None \<Rightarrow>
               (case resolve v target of
                  None \<Rightarrow> (v, Some ErrAddressableNotFound)
                | Some d \<Rightarrow>
                    if \<not> isLightOutput (d_Output d) then (v, Some ErrSetPropertyLightOnly)
                    else with_world v (cm_SetChannelValue c (d_UniqueID d) idx value (v_world v)))))"

text \<open>A loop that stops at the first error.\<close>

fun each_until_error :: "('a \<Rightarrow> 's \<Rightarrow> 's \<times> 'e option) \<Rightarrow> 'a list \<Rightarrow> 's \<Rightarrow> 's \<times> 'e option" where
  "each_until_error f [] s = (s, None)"
| "each_until_error f (x # xs) s =
     (case f x s of (s', None) \<Rightarrow> each_until_error f xs s' | r \<Rightarrow> r)"

definition applyChannelStatesWrite :: "string \<Rightarrow> pelem list \<Rightarrow> 'w vdc \<Rightarrow> 'w vdc \<times> vdc_error option" where
  "applyChannelStatesWrite target elements =
     each_until_error (\<lambda>child v.
       case atoi (trim_space (pe_name child)) of
         None \<Rightarrow> (v, None)
       | Some idx \<Rightarrow>
           each_until_error (\<lambda>g v.
             if \<not> equal_fold (trim_space (pe_name g)) ''value'' then (v, None)
             else case asFloat (pe_value g) of
                    None \<Rightarrow> (v, None) | Some x \<Rightarrow> setChannelValue target idx x v)
             (pe_elements child) v) elements"

definition input_setting_update ::
  "bool \<Rightarrow> string \<Rightarrow> input_setting_write \<Rightarrow> config_store \<Rightarrow> config_store" where
  "input_setting_update io target w cs =
     (let i = isw_Index w; fld = isw_Field w
      in if fld = ''setsLocalPriority'' then SetButtonSetsLocalPriority io target i (isw_BoolVal w) cs
         else if fld = ''callsPresent'' then SetButtonCallsPresent io target i (isw_BoolVal w) cs
         else if fld = ''buttonGroup'' then SetButtonGroup io target i (isw_IntVal w) cs
         else if fld = ''buttonMode'' then SetButtonMode io target i (isw_IntVal w) cs
         else if fld = ''buttonFunction'' then SetButtonFunction io target i (isw_IntVal w) cs
         else if fld = ''sensorFunction'' then SetBinaryInputSensorFunction io target i (isw_IntVal w) cs
         else if fld = ''binaryInputGroup'' then SetBinaryInputGroup io target i (isw_IntVal w) cs
         else if fld = ''group'' then
           MergeSensorSettings io target i (zero_sensor_settings\<lparr>st_Group := Some (isw_IntVal w)\<rparr>) cs
         else if fld = ''function'' then
           MergeSensorSettings io target i (zero_sensor_settings\<lparr>st_Function := Some (isw_IntVal w)\<rparr>) cs
         else if fld = ''channel'' then
           MergeSensorSettings io target i (zero_sensor_settings\<lparr>st_Channel := Some (isw_IntVal w)\<rparr>) cs
         else if fld = ''minPushInterval'' then MergeSensorSettings io target i
           (zero_sensor_settings\<lparr>st_MinPushInterval := Some (isw_FloatVal w)\<rparr>) cs
         else if fld = ''changesOnlyInterval'' then MergeSensorSettings io target i
           (zero_sensor_settings\<lparr>st_ChangesOnlyInterval := Some (isw_FloatVal w)\<rparr>) cs
         else cs)"

definition applyInputSettingWrite ::
  "string \<Rightarrow> input_setting_write \<Rightarrow> 'w vdc \<Rightarrow> 'w vdc \<times> vdc_error option" where
  "applyInputSettingWrite target w v =
     (if is_vdc_target v target \<or> isw_Field w = [] then (v, None)
      else (upd_config (input_setting_update (v_io v) target w) v, None))"

definition applyNameWrite :: "string \<Rightarrow> string \<Rightarrow> 'w vdc \<Rightarrow> 'w vdc \<times> vdc_error option" where
  "applyNameWrite target name v =
     (if is_vdc_target v target then (v, None)
      else (upd_config (SetDeviceName (v_io v) target (trim_space name)) v, None))"

definition zone_id :: "gany \<Rightarrow> int option" where
  "zone_id value = (case value of
     GInt64 w \<Rightarrow> Some (sint w) | GUint64 w \<Rightarrow> Some (sint w) | GInt n \<Rightarrow> Some n
   | GFloat x \<Rightarrow> Some (f64_to_int x) | _ \<Rightarrow> None)"

definition applyZoneIDWrite :: "string \<Rightarrow> gany \<Rightarrow> 'w vdc \<Rightarrow> 'w vdc \<times> vdc_error option" where
  "applyZoneIDWrite target value v =
     (if is_vdc_target v target then (v, None)
      else case zone_id value of
             None \<Rightarrow> (v, None)
           | Some z \<Rightarrow> (upd_config (SetDeviceZoneID (v_io v) target z) v, None))"

definition output_setting_element :: "output_settings \<Rightarrow> pelem \<Rightarrow> output_settings" where
  "output_setting_element ov e =
     (let low = to_lower (trim_space (pe_name e)); i = asInt (pe_value e); x = asFloat (pe_value e)
      in if low = ''mode'' then ov\<lparr>os_Mode := merge_opt i (os_Mode ov)\<rparr>
         else if low = ''pushchanges'' then ov\<lparr>os_PushChanges := Some (asBool (pe_value e))\<rparr>
         else if low = ''groups'' then ov\<lparr>os_Groups := Some (foldl (\<lambda>g c.
             AList.update (trim_space (pe_name c)) (asBool (pe_value c)) g) [] (pe_elements e))\<rparr>
         else if low = ''onthreshold'' then ov\<lparr>os_OnThreshold := merge_opt x (os_OnThreshold ov)\<rparr>
         else if low = ''minbrightness'' then ov\<lparr>os_MinBrightness := merge_opt x (os_MinBrightness ov)\<rparr>
         else if low = ''dimtimeup'' then ov\<lparr>os_DimTimeUp := merge_opt i (os_DimTimeUp ov)\<rparr>
         else if low = ''dimtimedown'' then ov\<lparr>os_DimTimeDown := merge_opt i (os_DimTimeDown ov)\<rparr>
         else if low = ''dimtimeupalt1'' then ov\<lparr>os_DimTimeUpAlt1 := merge_opt i (os_DimTimeUpAlt1 ov)\<rparr>
         else if low = ''dimtimedownalt1''
           then ov\<lparr>os_DimTimeDownAlt1 := merge_opt i (os_DimTimeDownAlt1 ov)\<rparr>
         else if low = ''dimtimeupalt2'' then ov\<lparr>os_DimTimeUpAlt2 := merge_opt i (os_DimTimeUpAlt2 ov)\<rparr>
         else if low = ''dimtimedownalt2''
           then ov\<lparr>os_DimTimeDownAlt2 := merge_opt i (os_DimTimeDownAlt2 ov)\<rparr>
         else ov)"

definition applyOutputSettingsWrite :: "string \<Rightarrow> pelem list \<Rightarrow> 'w vdc \<Rightarrow> 'w vdc \<times> vdc_error option" where
  "applyOutputSettingsWrite target elems v =
     (if is_vdc_target v target then (v, None)
      else (upd_config (MergeDeviceOutputSettings (v_io v) target
              (foldl output_setting_element zero_output_settings elems)) v, None))"

definition output_state_element :: "output_state \<Rightarrow> pelem \<Rightarrow> output_state" where
  "output_state_element s e =
     (let low = to_lower (trim_space (pe_name e))
      in if low = ''localpriority'' then s\<lparr>ot_LocalPriority := asBool (pe_value e)\<rparr>
         else if low = ''transitiontime''
           then (case asFloat (pe_value e) of None \<Rightarrow> s | Some x \<Rightarrow> s\<lparr>ot_TransitionTime := x\<rparr>)
         else s)"

definition applyOutputStateWrite :: "string \<Rightarrow> pelem list \<Rightarrow> 'w vdc \<Rightarrow> 'w vdc \<times> vdc_error option" where
  "applyOutputStateWrite target elems v =
     (if is_vdc_target v target then (v, None)
      else (upd_config (\<lambda>cs. SetDeviceOutputState target
              (foldl output_state_element (GetDeviceOutputState cs target) elems) cs) v, None))"

definition applySceneWrite :: "string \<Rightarrow> scene_write \<Rightarrow> 'w vdc \<Rightarrow> 'w vdc \<times> vdc_error option" where
  "applySceneWrite target w v =
     (if is_vdc_target v target then (v, None)
      else
        let n = sw_SceneNum w; ch = sw_ChannelIdx w; fld = sw_Field w; io = v_io v
        in (upd_scenes (\<lambda>ss.
              if fld = ''channelValue'' then SetSceneChannelValue io target n ch (sw_FloatVal w) ss
              else if fld = ''channelDontCare'' then SetSceneChannelDontCare io target n ch (sw_BoolVal w) ss
              else if fld = ''effect'' then SetSceneEffect io target n (sw_IntVal w) ss
              else if fld = ''dontCare'' then SetSceneDontCare io target n (sw_BoolVal w) ss
              else if fld = ''ignoreLocalPriority''
                then SetSceneIgnoreLocalPriority io target n (sw_BoolVal w) ss
              else ss) v, None))"

text \<open>
  The properties of a protobuf write: a scene or input setting anywhere in it is all that is
  written; otherwise the first property the switch knows, and the loop returns with it.
\<close>

definition known_property :: "string \<Rightarrow> pelem \<Rightarrow> ('w vdc \<Rightarrow> 'w vdc \<times> vdc_error option) option" where
  "known_property target p =
     (let low = to_lower (trim_space (pe_name p))
      in if low = ''name'' then
           (case pe_value p of GStr s \<Rightarrow> Some (applyNameWrite target s) | _ \<Rightarrow> None)
         else if low = ''zoneid'' then Some (applyZoneIDWrite target (pe_value p))
         else if low = ''outputsettings'' then Some (applyOutputSettingsWrite target (pe_elements p))
         else if low = ''outputstate'' then Some (applyOutputStateWrite target (pe_elements p))
         else if low = ''channelstates'' then Some (applyChannelStatesWrite target (pe_elements p))
         else None)"

definition setPropertyFromPbuf :: "string \<Rightarrow> pelem list \<Rightarrow> 'w vdc \<Rightarrow> 'w vdc \<times> vdc_error option" where
  "setPropertyFromPbuf target props v =
     (case extractSceneWriteFromPbuf props of
        Some w \<Rightarrow> applySceneWrite target w v
      | None \<Rightarrow>
          (case extractInputSettingFromPbuf props of
             Some w \<Rightarrow> applyInputSettingWrite target w v
           | None \<Rightarrow>
               (case first_some (known_property target) props of
                  Some act \<Rightarrow> act v
                | None \<Rightarrow>
                    (case extractBrightnessFromPbufProperties props of
                       Some x \<Rightarrow> setLightLevel target x v
                     | None \<Rightarrow> (v, None)))))"

text \<open>
  The JSON write; the argument \<open>fmtv\<close> is \<^verbatim>\<open>fmt.Sprintf("%v")\<close> on values that are not strings.
\<close>

definition stringFromAny :: "(gany \<Rightarrow> string) \<Rightarrow> gany \<Rightarrow> string" where
  "stringFromAny fmtv x = (case x of GNil \<Rightarrow> [] | GStr s \<Rightarrow> s | _ \<Rightarrow> fmtv x)"

definition setPropertyFromJSON ::
  "(gany \<Rightarrow> string) \<Rightarrow> obj \<Rightarrow> 'w vdc \<Rightarrow> 'w vdc \<times> vdc_error option" where
  "setPropertyFromJSON fmtv params v =
     (let target = stringFromAny fmtv (j_get params ''dSUID'')
      in case parseScenePathJSON params of
           Some w \<Rightarrow> applySceneWrite target w v
         | None \<Rightarrow>
             (case parseInputSettingPathJSON params of
                Some w \<Rightarrow> applyInputSettingWrite target w v
              | None \<Rightarrow>
                  (case (j_str params ''value'',
                         equal_fold (trim_space (stringFromAny fmtv (j_get params ''name''))) ''name'') of
                     (Some name, True) \<Rightarrow> applyNameWrite target name v
                   | _ \<Rightarrow>
                       (case parseChannelStatesPathJSON params of
                          Some (idx, x) \<Rightarrow> setChannelValue target idx x v
                        | None \<Rightarrow>
                            (case extractBrightnessValueFromJSON params of
                               None \<Rightarrow> (v, Some ErrSetPropertyRequiresChannel)
                             | Some x \<Rightarrow> setLightLevel target x v)))))"

section \<open>Targets\<close>

definition ensurePairTimeout :: "int \<Rightarrow> vdc_error option" where
  "ensurePairTimeout timeout = (if timeout \<le> 0 then Some ErrPairingAborted else None)"

definition resolvePongTarget :: "'w vdc \<Rightarrow> string \<Rightarrow> string option" where
  "resolvePongTarget v target =
     (let t = trim_space target
      in if is_vdc_target v t then Some (v_dsuid v)
         else case resolve v t of Some d \<Rightarrow> Some t | None \<Rightarrow> None)"

definition ensureAddressableTarget :: "'w vdc \<Rightarrow> string \<Rightarrow> vdc_error option" where
  "ensureAddressableTarget v target =
     (let t = trim_space target
      in if is_vdc_target v t then None
         else case resolve v t of Some d \<Rightarrow> None | None \<Rightarrow> Some ErrAddressableNotFound)"

definition ensureRemovableTarget :: "'w vdc \<Rightarrow> string \<Rightarrow> vdc_error option" where
  "ensureRemovableTarget v target =
     (let t = trim_space target
      in if is_vdc_target v t then Some ErrAddressableNotFound
         else case resolve v t of Some d \<Rightarrow> None | None \<Rightarrow> Some ErrAddressableNotFound)"

definition removeDeviceByDSUID :: "nat \<Rightarrow> string \<Rightarrow> 'w vdc \<Rightarrow> 'w vdc \<times> vdc_error option" where
  "removeDeviceByDSUID now target v =
     (let t = trim_space target
      in if is_vdc_target v t then (v, Some ErrAddressableNotFound)
         else case v_state v of
                None \<Rightarrow> (v, Some ErrAddressableNotFound)
              | Some s \<Rightarrow>
                  (case resolve v t of
                     None \<Rightarrow> (v, Some ErrAddressableNotFound)
                   | Some d \<Rightarrow> (v\<lparr>v_state := Some (HandleEvent now
                         (event0 EventRemove\<lparr>e_UniqueID := d_UniqueID d\<rparr>) s)\<rparr>, None)))"

fun setPropertyJSONStatusCode :: "vdc_error \<Rightarrow> int" where
  "setPropertyJSONStatusCode ErrControlPathUnavailable = 503"
| "setPropertyJSONStatusCode ErrAddressableNotFound = 404"
| "setPropertyJSONStatusCode ErrSetPropertyLightOnly = 405"
| "setPropertyJSONStatusCode ErrSetPropertyRequiresChannel = 400"
| "setPropertyJSONStatusCode ErrSetPropertyTargetRequired = 400"
| "setPropertyJSONStatusCode _ = 503"

fun setPropertyPbufStatusCode :: "vdc_error \<Rightarrow> u64" where
  "setPropertyPbufStatusCode ErrControlPathUnavailable = 3"
| "setPropertyPbufStatusCode ErrAddressableNotFound = 11"
| "setPropertyPbufStatusCode ErrSetPropertyLightOnly = 5"
| "setPropertyPbufStatusCode ErrSetPropertyRequiresChannel = 10"
| "setPropertyPbufStatusCode ErrSetPropertyTargetRequired = 10"
| "setPropertyPbufStatusCode _ = 3"

section \<open>Notifications\<close>

definition clampLevel :: "f64 \<Rightarrow> f64" where
  "clampLevel x = (if f64_less x f64_zero then f64_zero
                   else if f64_less f64_hundred x then f64_hundred else x)"

text \<open>Devices with one unique id are addressed once; the output of all must be light-like.\<close>

fun dedup_uid :: "string list \<Rightarrow> device list \<Rightarrow> device list" where
  "dedup_uid seen [] = []"
| "dedup_uid seen (d # ds) =
     (if d_UniqueID d \<in> set seen then dedup_uid seen ds
      else d # dedup_uid (d_UniqueID d # seen) ds)"

definition resolveNotificationTargets :: "'w vdc \<Rightarrow> string list \<Rightarrow> bool \<Rightarrow> device list" where
  "resolveNotificationTargets v targets all =
     (let lights = filter (\<lambda>(k, d). d_Output d = [] \<or> isLightOutput (d_Output d)) (snapshot v)
      in if all \<or> list_ex (\<lambda>t. trim_space t = [] \<or> equal_fold t ''root'' \<or> equal_fold t (v_dsuid v)) targets
         then map snd lights
         else
           let targetSet = map (to_upper \<circ> trim_space) targets
           in dedup_uid [] (map snd (filter (\<lambda>(k, d).
                to_upper (deviceDSUID (v_dsuid v) d k) \<in> set targetSet) lights)))"

text \<open>A call of the commander whose error is only logged.\<close>

definition set_level_logged :: "'w commander \<Rightarrow> f64 \<Rightarrow> device \<Rightarrow> 'w vdc \<Rightarrow> 'w vdc" where
  "set_level_logged c value d v = v\<lparr>v_world := fst (cm_SetLightLevel c (d_UniqueID d) value (v_world v))\<rparr>"

definition set_channel_logged :: "'w commander \<Rightarrow> int \<Rightarrow> f64 \<Rightarrow> device \<Rightarrow> 'w vdc \<Rightarrow> 'w vdc" where
  "set_channel_logged c ch value d v =
     v\<lparr>v_world := fst (cm_SetChannelValue c (d_UniqueID d) ch value (v_world v))\<rparr>"

definition applyLevelToNotificationTargets :: "string list \<Rightarrow> bool \<Rightarrow> f64 \<Rightarrow> 'w vdc \<Rightarrow> 'w vdc" where
  "applyLevelToNotificationTargets targets all value v =
     (case v_commander v of
        None \<Rightarrow> v
      | Some c \<Rightarrow> fold (set_level_logged c (clampLevel value)) (resolveNotificationTargets v targets all) v)"

definition applyColorChannelToNotificationTargets ::
  "string list \<Rightarrow> bool \<Rightarrow> int \<Rightarrow> f64 \<Rightarrow> 'w vdc \<Rightarrow> 'w vdc" where
  "applyColorChannelToNotificationTargets targets all ch value v =
     (case v_commander v of
        None \<Rightarrow> v
      | Some c \<Rightarrow> fold (set_channel_logged c ch value) (resolveNotificationTargets v targets all) v)"

definition native_scene_or_level ::
  "'w commander \<Rightarrow> int \<Rightarrow> f64 \<Rightarrow> device \<Rightarrow> 'w vdc \<Rightarrow> 'w vdc" where
  "native_scene_or_level c scene level d v =
     (case cm_CallScene c of
        None \<Rightarrow> set_level_logged c level d v
      | Some call \<Rightarrow>
          (case call (d_UniqueID d) scene (v_world v) of
             (w, None) \<Rightarrow> v\<lparr>v_world := w\<rparr>
           | (w, Some e) \<Rightarrow> set_level_logged c level d (v\<lparr>v_world := w\<rparr>)))"

definition applySceneToTargets :: "string list \<Rightarrow> bool \<Rightarrow> int \<Rightarrow> f64 \<Rightarrow> 'w vdc \<Rightarrow> 'w vdc" where
  "applySceneToTargets targets all scene fallback v =
     (case v_commander v of
        None \<Rightarrow> v
      | Some c \<Rightarrow> fold (native_scene_or_level c scene (clampLevel fallback))
                    (resolveNotificationTargets v targets all) v)"

subsection \<open>Scenes\<close>

definition f64_25 :: f64 where "f64_25 = 0x4039000000000000"
definition f64_64 :: f64 where "f64_64 = 0x4050000000000000"
definition f64_65 :: f64 where "f64_65 = 0x4050400000000000"

definition sceneBrightnessLevels :: "(int, f64) gomap" where
  "sceneBrightnessLevels =
     [(0, f64_zero), (1, f64_zero), (2, f64_zero), (3, f64_zero), (4, f64_zero),
      (5, f64_hundred), (6, f64_hundred), (7, f64_hundred), (8, f64_hundred), (9, f64_hundred),
      (13, f64_one), (14, f64_hundred),
      (17, f64_75), (18, f64_50), (19, f64_25), (20, f64_75), (21, f64_50), (22, f64_25),
      (23, f64_75), (24, f64_65), (25, f64_64), (26, f64_75), (27, f64_65), (28, f64_25),
      (29, f64_75), (30, f64_65), (31, f64_25),
      (32, f64_zero), (33, f64_hundred), (34, f64_zero), (35, f64_hundred), (36, f64_zero),
      (37, f64_hundred), (38, f64_zero), (39, f64_hundred), (40, f64_zero),
      (50, f64_zero), (51, f64_hundred), (64, f64_zero), (65, f64_hundred), (67, f64_zero),
      (68, f64_zero), (69, f64_zero), (70, f64_hundred), (71, f64_hundred), (72, f64_zero),
      (74, f64_hundred), (75, f64_hundred), (76, f64_hundred)]"

datatype scene_action =
  SceneActionIgnore | SceneActionSetLevel f64 | SceneActionDimUp | SceneActionDimDown | SceneActionStop

definition mapSceneAction :: "int \<Rightarrow> scene_action" where
  "mapSceneAction scene =
     (case map_of sceneBrightnessLevels scene of
        Some level \<Rightarrow> SceneActionSetLevel level
      | None \<Rightarrow>
          if scene \<in> {11, 42, 44, 46, 48} then SceneActionDimDown
          else if scene \<in> {12, 43, 45, 47, 49} then SceneActionDimUp
          else if scene \<in> {15, 52, 53, 54, 55} then SceneActionStop
          else SceneActionIgnore)"

definition applyStaticSceneAction :: "string list \<Rightarrow> bool \<Rightarrow> int \<Rightarrow> 'w vdc \<Rightarrow> 'w vdc" where
  "applyStaticSceneAction targets all scene v =
     (case mapSceneAction scene of
        SceneActionSetLevel level \<Rightarrow> applySceneToTargets targets all scene level v
      | SceneActionDimUp \<Rightarrow> applySceneToTargets targets all scene f64_hundred v
      | SceneActionDimDown \<Rightarrow> applySceneToTargets targets all scene f64_zero v
      | SceneActionStop \<Rightarrow> v
      | SceneActionIgnore \<Rightarrow> v)"

text \<open>The stored channels of a scene that are not marked dontCare.\<close>

definition active_channels :: "scene_entry \<Rightarrow> (int \<times> scene_channel_value) list" where
  "active_channels e = filter (\<lambda>(i, cv). \<not> cv_DontCare cv) (se_Channels e)"

definition apply_scene_channel :: "string \<Rightarrow> int \<times> scene_channel_value \<Rightarrow> 'w vdc \<Rightarrow> 'w vdc" where
  "apply_scene_channel target = (\<lambda>(ch, cv) v.
     if ch = 0 then applyLevelToNotificationTargets [target] False (cv_Value cv) v
     else case v_commander v of
            None \<Rightarrow> v
          | Some c \<Rightarrow> (case resolve v target of
                         None \<Rightarrow> v | Some d \<Rightarrow> set_channel_logged c ch (cv_Value cv) d v))"

definition call_scene_on :: "scene_store \<Rightarrow> int \<Rightarrow> string \<Rightarrow> 'w vdc \<Rightarrow> 'w vdc" where
  "call_scene_on ss scene target v =
     (case GetScene ss target scene of
        Some e \<Rightarrow>
          if \<not> se_DontCare e \<and> active_channels e \<noteq> []
          then fold (apply_scene_channel target) (active_channels e) v
          else applyStaticSceneAction [target] False scene v
      | None \<Rightarrow> applyStaticSceneAction [target] False scene v)"

definition handleCallSceneNotification :: "string list \<Rightarrow> bool \<Rightarrow> int \<Rightarrow> 'w vdc \<Rightarrow> 'w vdc" where
  "handleCallSceneNotification targets all scene v =
     (case v_scenes v of
        Some ss \<Rightarrow>
          if \<not> all \<and> targets \<noteq> [] then fold (call_scene_on ss scene) targets v
          else applyStaticSceneAction targets all scene v
      | None \<Rightarrow> applyStaticSceneAction targets all scene v)"

definition save_scene_of :: "int \<Rightarrow> string \<Rightarrow> device \<Rightarrow> 'w vdc \<Rightarrow> 'w vdc" where
  "save_scene_of n dsuid d v = upd_scenes (SaveScene (v_io v) dsuid n (d_Channels d)) v"

text \<open>A target is saved under the text it was given as.\<close>

definition handleSaveSceneNotification :: "string list \<Rightarrow> bool \<Rightarrow> int \<Rightarrow> 'w vdc \<Rightarrow> 'w vdc" where
  "handleSaveSceneNotification targets all n v =
     (if v_scenes v = None \<or> v_state v = None then v
      else if all then
        fold (\<lambda>(k, d). save_scene_of n (deviceDSUID (v_dsuid v) d k) d) (snapshot v) v
      else
        fold (\<lambda>t w. case resolveDeviceByDSUID (v_dsuid v) t (snapshot v) of
                       None \<Rightarrow> w | Some d \<Rightarrow> save_scene_of n t d w) targets v)"

subsection \<open>Values, dimming, channels\<close>

definition handleSetControlValueNotification ::
  "string list \<Rightarrow> bool \<Rightarrow> string \<Rightarrow> f64 \<Rightarrow> bool \<Rightarrow> 'w vdc \<Rightarrow> 'w vdc" where
  "handleSetControlValueNotification targets all name value hasValue v =
     (if \<not> hasValue then v
      else if name \<noteq> [] \<and> \<not> equal_fold name ''brightness'' \<and> \<not> equal_fold name ''output'' \<and>
              \<not> equal_fold name ''value'' then v
      else applyLevelToNotificationTargets targets all value v)"

definition dim_device :: "int \<Rightarrow> device \<Rightarrow> ramp_manager \<Rightarrow> ramp_manager" where
  "dim_device mode d rm =
     (if mode = 0 then ramp_stop (d_UniqueID d) rm
      else ramp_start (d_UniqueID d) mode (clampLevel (go_get 0 (d_Channels d) 0)) rm)"

definition handleDimChannelNotification :: "string list \<Rightarrow> bool \<Rightarrow> int \<Rightarrow> 'w vdc \<Rightarrow> 'w vdc" where
  "handleDimChannelNotification targets all mode v =
     (case (v_ramps v, v_commander v) of
        (Some rm, Some c) \<Rightarrow>
          v\<lparr>v_ramps := Some (fold (dim_device mode) (resolveNotificationTargets v targets all) rm)\<rparr>
      | _ \<Rightarrow> v)"

definition handleSetOutputChannelValueNotification ::
  "string list \<Rightarrow> bool \<Rightarrow> int \<Rightarrow> f64 \<Rightarrow> bool \<Rightarrow> bool \<Rightarrow> 'w vdc \<Rightarrow> 'w vdc" where
  "handleSetOutputChannelValueNotification targets all ch value applyNow hasValue v =
     (if \<not> applyNow \<or> \<not> hasValue then v
      else if ch = 0 then applyLevelToNotificationTargets targets all value v
      else applyColorChannelToNotificationTargets targets all ch value v)"

text \<open>A ticker event of a ramp hands its value to the commander.\<close>

definition ramp_tick_vdc :: "nat \<Rightarrow> 'w vdc \<Rightarrow> 'w vdc" where
  "ramp_tick_vdc i v =
     (case (v_ramps v, v_commander v) of
        (Some rm, Some c) \<Rightarrow>
          (case ramp_tick i rm of (outs, rm') \<Rightarrow>
             v\<lparr>v_ramps := Some rm',
               v_world := fold (\<lambda>(uid, x) w. fst (cm_SetLightLevel c uid x w)) outs (v_world v)\<rparr>)
      | _ \<Rightarrow> v)"

section \<open>What reads of the configuration depend on\<close>

lemma renamed_getters [simp]:
  "GetSensorSettings (SetDeviceName io t n cs) = GetSensorSettings cs"
  "GetButtonInputSettings (SetDeviceName io t n cs) = GetButtonInputSettings cs"
  "GetBinaryInputSettings (SetDeviceName io t n cs) = GetBinaryInputSettings cs"
  "GetDeviceOutputSettings (SetDeviceName io t n cs) = GetDeviceOutputSettings cs"
  "GetDeviceOutputState (SetDeviceName io t n cs) = GetDeviceOutputState cs"
  "GetDeviceZoneID (SetDeviceName io t n cs) = GetDeviceZoneID cs"
  "GetDeviceName (SetDeviceName io t n cs) x = (if x = t then Some n else GetDeviceName cs x)"
  by (simp_all add: fun_eq_iff SetDeviceName_def GetSensorSettings_def GetButtonInputSettings_def
      GetBinaryInputSettings_def GetDeviceOutputSettings_def GetDeviceOutputState_def
      GetDeviceZoneID_def GetDeviceName_def)

lemma renamed_parts [simp]:
  "sensorSettingsMap x i (Some (SetDeviceName io t n cs)) = sensorSettingsMap x i (Some cs)"
  "binary_settings (Some (SetDeviceName io t n cs)) = binary_settings (Some cs)"
  "button_settings_of (Some (SetDeviceName io t n cs)) = button_settings_of (Some cs)"
  by (simp_all add: fun_eq_iff sensorSettingsMap_def binary_settings_def button_settings_of_def)

lemma renamed_inputs [simp]:
  "sensor_function d x i (Some (SetDeviceName io t n cs)) = sensor_function d x i (Some cs)"
  "binaryInputSettingsMap x i sf (Some (SetDeviceName io t n cs)) = binaryInputSettingsMap x i sf (Some cs)"
  "button_settings_entry x (Some (SetDeviceName io t n cs)) i = button_settings_entry x (Some cs) i"
  by (simp_all add: sensor_function_def binaryInputSettingsMap_def button_settings_entry_def
      buttonSettingsMap_def Let_def)

lemma renamed_populate [simp]:
  "populateBinaryInputs now d x (Some (SetDeviceName io t n cs)) = populateBinaryInputs now d x (Some cs)"
proof -
  have "populateBinaryInput now d x (Some (SetDeviceName io t n cs)) = populateBinaryInput now d x (Some cs)"
    by (simp add: fun_eq_iff populateBinaryInput_def binaryInputDescriptionMap_def Let_def)
  then show ?thesis by (intro ext) (simp only: populateBinaryInputs_def)
qed

lemma renamed_type_props [simp]:
  "build_type_props now x d (Some (SetDeviceName io t n cs)) = build_type_props now x d (Some cs)"
  by (simp add: build_type_props_def buildSensorTypeProps_def buildButtonTypeProps_def
      buildBinaryInputTypeProps_def buildGenericTypeProps_def binaryInputDescriptionMap_def Let_def)

lemma renamed_properties:
  "x \<noteq> t \<Longrightarrow> buildDeviceProperties now x d sc (Some (SetDeviceName io t n cs)) =
     buildDeviceProperties now x d sc (Some cs)"
  by (simp add: buildDeviceProperties_def overlay_config_def device_name_def Let_def split: gany.split)

lemma name_property_pbuf:
  "setPropertyFromPbuf t [PElem ''name'' (GStr s) []] v = applyNameWrite t s v"
proof -
  have "\<not> equal_fold ''name'' ''scenes''" "to_lower (trim_space ''name'') = ''name''"
    by (simp_all add: equal_fold_def to_lower_def lower_char_def trim_space_def is_space_def)
  then show ?thesis
    by (simp add: setPropertyFromPbuf_def extractSceneWriteFromPbuf_def extractInputSettingFromPbuf_def
        known_property_def)
qed

lemma tree_cong:
  assumes "\<And>k d. (k, d) \<in> set snap \<Longrightarrow>
      buildDeviceProperties now (deviceDSUID vdc d k) d sc cfg =
      buildDeviceProperties now (deviceDSUID vdc d k) d sc cfg'"
  shows "buildPropertyTree now vdc desc snap sc cfg = buildPropertyTree now vdc desc snap sc cfg'"
proof -
  have "foldl (\<lambda>acc (k, d). AList.update (deviceDSUID vdc d k)
          (buildDeviceProperties now (deviceDSUID vdc d k) d sc cfg) acc) acc snap =
        foldl (\<lambda>acc (k, d). AList.update (deviceDSUID vdc d k)
          (buildDeviceProperties now (deviceDSUID vdc d k) d sc cfg') acc) acc snap" for acc
    using assms by (intro foldl_cong) auto
  then show ?thesis by (simp add: buildPropertyTree_def Let_def)
qed

section \<open>Properties\<close>

text \<open>
  A name written to a device under its dSUID is what is read back: the write succeeds, and a
  getProperty of the device in any case answers an object with that name, trimmed.
\<close>

theorem name_write_read_back:
  assumes "v_config v = Some cs" and "(k, d) \<in> set (snapshot v)" and "t = deviceDSUID (v_dsuid v) d k"
    and "\<not> is_vdc_target v t" and "trim_space s \<noteq> []"
    and "setPropertyFromPbuf t [PElem ''name'' (GStr s) []] v = (v', err)" and "equal_fold t' t"
  shows "err = None \<and> (\<exists>props. resolveGetPropertyTarget now v' t' = Inr props \<and>
     map_of props ''name'' = Some (GStr (trim_space s)))"
proof -
  from assms(6,4,1) have err: "err = None"
    and v': "v' = v\<lparr>v_config := Some (SetDeviceName (v_io v) t (trim_space s) cs)\<rparr>"
    by (auto simp: name_property_pbuf applyNameWrite_def upd_config_def)
  have up: "to_upper t' = t"
    using assms(3,7) by (simp add: equal_fold_upper)
  have vdc: "\<not> is_vdc_target v' t'"
    using assms(4,7) v' equal_fold_trans equal_fold_sym
    by (auto simp: is_vdc_target_def equal_fold_def to_lower_def)
  have snap: "snapshot v' = snapshot v" "v_dsuid v' = v_dsuid v" by (simp_all add: v' snapshot_def)
  have "find (\<lambda>(k, d). deviceDSUID (v_dsuid v) d k = t) (rev (snapshot v)) \<noteq> None"
    using assms(2,3) by (auto simp: find_None_iff)
  then obtain k2 d2 where f: "find (\<lambda>(k, d). deviceDSUID (v_dsuid v) d k = t) (rev (snapshot v)) = Some (k2, d2)"
    by auto
  have "map_of (snd (snd (buildPropertyTree now (v_dsuid v) (v_description v') (snapshot v)
        (v_scenes v') (v_config v')))) t = Some (buildDeviceProperties now t d2 (v_scenes v') (v_config v'))"
    using tree_devices [of "v_dsuid v" now "v_scenes v'" "v_config v'" "[]" "snapshot v" t] f
    by (simp add: buildPropertyTree_def Let_def)
  then have "resolveGetPropertyTarget now v' t' =
      Inr (buildDeviceProperties now t d2 (v_scenes v') (v_config v'))"
    using vdc snap up by (auto simp: resolveGetPropertyTarget_def split: prod.split)
  moreover have "device_name t d2 (v_config v') = trim_space s"
    using assms(5) by (simp add: v' device_name_def Let_def)
  ultimately show ?thesis using err properties_name by fastforce
qed

text \<open>
  A name written under a dSUID that is not in upper case is accepted and lost: the write
  reports success, and every read answers as before it.
\<close>

theorem name_write_case_lost:
  assumes "t \<noteq> to_upper t" and "setPropertyFromPbuf t [PElem ''name'' (GStr s) []] v = (v', err)"
  shows "err = None \<and> resolveGetPropertyTarget now v' x = resolveGetPropertyTarget now v x"
proof -
  have err: "err = None" and same: "v_dsuid v' = v_dsuid v" "v_description v' = v_description v"
      "snapshot v' = snapshot v" "v_scenes v' = v_scenes v"
    and cfg: "v_config v' = v_config v \<or> v_config v' = map_option (SetDeviceName (v_io v) t (trim_space s)) (v_config v)"
    using assms(2) by (auto simp: name_property_pbuf applyNameWrite_def upd_config_def snapshot_def
        split: if_splits)
  have ne: "deviceDSUID (v_dsuid v) d k \<noteq> t" for d k
    using assms(1) device_dsuid_upper by metis
  have "buildPropertyTree now (v_dsuid v) (v_description v) (snapshot v) (v_scenes v) (v_config v') =
        buildPropertyTree now (v_dsuid v) (v_description v) (snapshot v) (v_scenes v) (v_config v)"
    using cfg ne by (intro tree_cong) (cases "v_config v", auto simp: renamed_properties)
  with err same show ?thesis
    by (simp add: resolveGetPropertyTarget_def is_vdc_target_def)
qed

text \<open>What targets resolve to depends on the devices alone.\<close>

lemma targets_cong [simp]:
  "resolveNotificationTargets (v\<lparr>v_world := w\<rparr>) = resolveNotificationTargets v"
  "resolveNotificationTargets (v\<lparr>v_scenes := ss\<rparr>) = resolveNotificationTargets v"
  "resolve (v\<lparr>v_world := w\<rparr>) = resolve v"
  "resolve (v\<lparr>v_scenes := ss\<rparr>) = resolve v"
  by (simp_all add: fun_eq_iff resolveNotificationTargets_def resolve_def snapshot_def Let_def)

text \<open>A vDC with one lamp whose unique id is a dSUID, and a commander that logs its calls.\<close>

definition log_commander :: "(string \<times> int \<times> f64) list commander" where
  "log_commander = \<lparr>cm_SetLightLevel = (\<lambda>u x w. (w @ [(u, 0, x)], None)),
     cm_SetChannelValue = (\<lambda>u i x w. (w @ [(u, i, x)], None)), cm_CallScene = None\<rparr>"

definition lamp_id :: string where
  "lamp_id = ''00AA00000000000000000000000000000B''"

definition lamp :: device where
  "lamp = zero_device\<lparr>d_Key := uid_key lamp_id, d_UniqueID := lamp_id, d_Name := ''Lamp'',
     d_Output := ''light'', d_Dimmable := True, d_Channels := [(0, f64_75)], d_Active := True\<rparr>"

definition lamp_vdc :: "(string \<times> int \<times> f64) list vdc" where
  "lamp_vdc = \<lparr>v_dsuid = ''VDC'', v_description = ''d'',
     v_state = Some (NewStateStore\<lparr>st_devices := [(uid_key lamp_id, lamp)]\<rparr>),
     v_commander = Some log_commander, v_scenes = Some (NewSceneStore []),
     v_config = Some (NewConfigStore []), v_ramps = Some NewDimRampManager, v_io = True, v_world = []\<rparr>"

lemma lamp_vdc_fields [simp]:
  "v_dsuid lamp_vdc = ''VDC''" "v_config lamp_vdc = Some (NewConfigStore [])"
  "v_scenes lamp_vdc = Some (NewSceneStore [])" "v_commander lamp_vdc = Some log_commander"
  "v_state lamp_vdc = Some (NewStateStore\<lparr>st_devices := [(uid_key lamp_id, lamp)]\<rparr>)"
  "v_world lamp_vdc = []" "snapshot lamp_vdc = [(uid_key lamp_id, lamp)]"
  by (simp_all add: lamp_vdc_def snapshot_def Snapshot_def)

lemma lamp_dsuid [simp]: "deviceDSUID vdc lamp k = lamp_id"
proof -
  have "trim_space (d_UniqueID lamp) = lamp_id" "validDSUID lamp_id" "to_upper lamp_id = lamp_id"
    by code_simp+
  then show ?thesis by (simp add: deviceDSUID_def) (simp add: lamp_id_def)
qed

lemma lamp_target [simp]: "\<not> is_vdc_target lamp_vdc lamp_id"
proof -
  have "\<not> equal_fold lamp_id ''root''" "\<not> equal_fold lamp_id ''VDC''" "lamp_id \<noteq> []" by code_simp+
  then show ?thesis by (simp add: is_vdc_target_def)
qed

lemma lamp_resolves [simp]: "resolve lamp_vdc lamp_id = Some lamp"
  by (simp add: resolve_def resolveDeviceByDSUID_def)

lemma lamp_notified: "resolveNotificationTargets lamp_vdc [lamp_id] False = [lamp]"
proof -
  have "isLightOutput (d_Output lamp)" "trim_space lamp_id = lamp_id" "to_upper lamp_id = lamp_id"
    "\<not> equal_fold lamp_id ''root''" "\<not> equal_fold lamp_id ''VDC''" "lamp_id \<noteq> []" by code_simp+
  then show ?thesis by (simp add: resolveNotificationTargets_def)
qed

lemma dsuid_no_space [simp]: "trim_space (deviceDSUID vdc d key) = deviceDSUID vdc d key"
proof -
  have hex: "list_all is_hex (deviceDSUID vdc d key)" using device_dsuid_form by (auto simp: validDSUID_def)
  have "\<not> (is_space c \<and> is_hex c)" for c by (auto simp: is_hex_def is_space_def)
  with hex have no: "\<not> is_space c" if "c \<in> set (deviceDSUID vdc d key)" for c
    using that by (auto simp: list_all_iff)
  then have "dropWhile is_space s = s" if "set s \<subseteq> set (deviceDSUID vdc d key)" for s
    using that by (cases s) auto
  then show ?thesis by (simp add: trim_space_def)
qed

lemma dsuid_not_word: "length w \<noteq> 34 \<Longrightarrow> \<not> equal_fold (deviceDSUID vdc d key) w \<and> deviceDSUID vdc d key \<noteq> w"
  using device_dsuid_form [of vdc d key]
  by (auto simp: validDSUID_def equal_fold_def to_lower_def dest: arg_cong [of _ _ length])

theorem name_write_read_back_witness:
  "\<exists>v' props. setPropertyFromPbuf lamp_id [PElem ''name'' (GStr ''Desk'') []] lamp_vdc = (v', None) \<and>
     resolveGetPropertyTarget 0 v' lamp_id = Inr props \<and> map_of props ''name'' = Some (GStr ''Desk'')"
proof -
  obtain v' err where w: "setPropertyFromPbuf lamp_id [PElem ''name'' (GStr ''Desk'') []] lamp_vdc = (v', err)"
    by fastforce
  have "trim_space ''Desk'' = ''Desk''" by code_simp
  with name_write_read_back [of lamp_vdc "NewConfigStore []" "uid_key lamp_id" lamp lamp_id "''Desk''"
      v' err lamp_id 0] w
  show ?thesis by auto
qed

theorem name_write_case_lost_witness:
  "\<exists>v'. setPropertyFromPbuf ''00aa00000000000000000000000000000b'' [PElem ''name'' (GStr ''Desk'') []]
       lamp_vdc = (v', None) \<and>
     resolveGetPropertyTarget 0 v' lamp_id = resolveGetPropertyTarget 0 lamp_vdc lamp_id"
proof -
  obtain v' err where w: "setPropertyFromPbuf ''00aa00000000000000000000000000000b''
      [PElem ''name'' (GStr ''Desk'') []] lamp_vdc = (v', err)"
    by fastforce
  have "''00aa00000000000000000000000000000b'' \<noteq> to_upper ''00aa00000000000000000000000000000b''"
    by code_simp
  from name_write_case_lost [OF this w, of 0 lamp_id] w show ?thesis by auto
qed

lemma fold_apply_channels:
  assumes "v_commander v = Some c" "resolveNotificationTargets v [t] False = [d]" "resolve v t = Some d"
  shows "fold (apply_scene_channel t) (map (\<lambda>(i, x). (i, \<lparr>cv_Value = x, cv_DontCare = False\<rparr>)) chs) v =
     v\<lparr>v_world := fold (\<lambda>(i, x) w. if i = 0 then fst (cm_SetLightLevel c (d_UniqueID d) (clampLevel x) w)
          else fst (cm_SetChannelValue c (d_UniqueID d) i x w)) chs (v_world v)\<rparr>"
  using assms
proof (induction chs arbitrary: v)
  case (Cons p chs)
  obtain i x where p: "p = (i, x)" by fastforce
  from Cons.prems p have "apply_scene_channel t (i, \<lparr>cv_Value = x, cv_DontCare = False\<rparr>) v =
      v\<lparr>v_world := (if i = 0 then fst (cm_SetLightLevel c (d_UniqueID d) (clampLevel x) (v_world v))
          else fst (cm_SetChannelValue c (d_UniqueID d) i x (v_world v)))\<rparr>"
    by (simp add: apply_scene_channel_def applyLevelToNotificationTargets_def set_level_logged_def
        set_channel_logged_def)
  with Cons.IH [of "v\<lparr>v_world := w\<rparr>" for w] Cons.prems p show ?case by simp
qed simp



text \<open>
  A device that wants to be left alone in a scene is not: with the dontCare flag of its stored
  scene set, calling the scene still applies the static action of the scene number to the device.
\<close>

theorem dont_care_scene_still_acts:
  assumes "v_scenes v = Some ss" and "GetScene ss t n = Some e" and "se_DontCare e"
    and "v_commander v = Some c" and "cm_CallScene c = None"
    and "resolveNotificationTargets v [t] False = [d]" and "mapSceneAction n = SceneActionSetLevel l"
  shows "v_world (handleCallSceneNotification [t] False n v) =
     fst (cm_SetLightLevel c (d_UniqueID d) (clampLevel l) (v_world v))"
  using assms
  by (simp add: handleCallSceneNotification_def call_scene_on_def applyStaticSceneAction_def
      applySceneToTargets_def native_scene_or_level_def set_level_logged_def)

theorem dont_care_scene_still_acts_witness:
  "v_world (handleCallSceneNotification [lamp_id] False 5 (lamp_vdc\<lparr>v_scenes :=
      Some (SetSceneDontCare True lamp_id 5 True (NewSceneStore []))\<rparr>)) = [(lamp_id, 0, f64_hundred)]"
proof -
  let ?ss = "SetSceneDontCare True lamp_id 5 True (NewSceneStore [])"
  have e: "GetScene ?ss lamp_id 5 = Some (zero_entry\<lparr>se_DontCare := True\<rparr>)"
    by (simp add: SetSceneDontCare_def GetScene_modify get_entry_GetScene)
      (simp add: GetScene_def NewSceneStore_def)
  have "clampLevel f64_hundred = f64_hundred"
    by (simp add: clampLevel_def f64_less_def f64_zero_def f64_hundred_def f64_pattern_defs)
  moreover have "mapSceneAction 5 = SceneActionSetLevel f64_hundred"
    by (simp add: mapSceneAction_def sceneBrightnessLevels_def)
  moreover have "d_UniqueID lamp = lamp_id" by (simp add: lamp_def)
  ultimately show ?thesis
    using dont_care_scene_still_acts [of "lamp_vdc\<lparr>v_scenes := Some ?ss\<rparr>" ?ss lamp_id 5 _ log_commander lamp
        f64_hundred] e lamp_notified
    by (simp add: log_commander_def zero_entry_def)
qed

text \<open>
  Removing a device by its dSUID takes exactly that device out of the mirror, when it has a
  unique id.
\<close>

theorem remove_by_dsuid:
  assumes "v_state v = Some s" and "devices_wf s" and "\<not> is_vdc_target v (trim_space t)"
    and "resolve v (trim_space t) = Some d" and "d_UniqueID d \<noteq> []"
  shows "\<exists>s'. removeDeviceByDSUID now t v = (v\<lparr>v_state := Some s'\<rparr>, None) \<and>
     (\<forall>k. map_of (st_devices s') k = (if k = d_Key d then None else map_of (st_devices s) k))"
proof -
  obtain key where "(key, d) \<in> set (st_devices s)"
    using assms(1,4) unfolding resolve_def resolveDeviceByDSUID_def snapshot_def Snapshot_def
    by (auto dest!: first_some_SomeD split: if_splits)
  with assms(2,5) have d: "d_Key d = key" "key = uid_key (d_UniqueID d)" "trim_space (d_UniqueID d) = d_UniqueID d"
    and has: "go_has (st_devices s) key"
    by (auto simp: devices_wf_def device_wf_def go_has_iff_keys) (force simp: device_wf_def)+
  have "map_of (st_devices (HandleEvent now (event0 EventRemove\<lparr>e_UniqueID := d_UniqueID d\<rparr>) s)) k =
      (if k = d_Key d then None else map_of (st_devices s) k)" for k
    using d has assms(5)
    by (auto simp: handle_locked_def handle_remove_def resolveKey_def event0_def Let_def)
  with assms(1,3,4) show ?thesis
    by (intro exI [of _ "HandleEvent now (event0 EventRemove\<lparr>e_UniqueID := d_UniqueID d\<rparr>) s"])
      (simp add: removeDeviceByDSUID_def Let_def)
qed

theorem remove_by_dsuid_witness:
  "\<exists>s'. removeDeviceByDSUID 9 lamp_id lamp_vdc = (lamp_vdc\<lparr>v_state := Some s'\<rparr>, None) \<and>
     map_of (st_devices s') (uid_key lamp_id) = None"
proof -
  have t: "trim_space lamp_id = lamp_id" "lamp_id \<noteq> []" "take 4 (uid_key lamp_id) = ''uid:''" by code_simp+
  then have "devices_wf (NewStateStore\<lparr>st_devices := [(uid_key lamp_id, lamp)]\<rparr>)"
    by (simp add: devices_wf_def device_wf_def) (simp add: lamp_def)
  with remove_by_dsuid [of lamp_vdc _ lamp_id lamp 9] t show ?thesis
    by (fastforce simp: lamp_def)
qed

text \<open>
  Removing a device that has no unique id reports success and removes nothing.
\<close>

theorem remove_anonymous_ignored:
  assumes "v_state v = Some s" and "\<not> is_vdc_target v (trim_space t)"
    and "resolve v (trim_space t) = Some d" and "trim_space (d_UniqueID d) = []"
  shows "removeDeviceByDSUID now t v = (v, None)"
proof -
  have "HandleEvent now (event0 EventRemove\<lparr>e_UniqueID := d_UniqueID d\<rparr>) s = s"
    using assms(4) by (intro nameless_event_noop) (simp_all add: event0_def)
  with assms show ?thesis by (simp add: removeDeviceByDSUID_def Let_def)
qed

theorem remove_anonymous_ignored_witness:
  "removeDeviceByDSUID 9 (deviceDSUID ''VDC'' zero_device ''conn'') (lamp_vdc\<lparr>v_state :=
       Some (NewStateStore\<lparr>st_devices := [(''conn'', zero_device)]\<rparr>)\<rparr>) =
     (lamp_vdc\<lparr>v_state := Some (NewStateStore\<lparr>st_devices := [(''conn'', zero_device)]\<rparr>)\<rparr>, None)"
proof -
  let ?t = "deviceDSUID ''VDC'' zero_device ''conn''"
  let ?v = "lamp_vdc\<lparr>v_state := Some (NewStateStore\<lparr>st_devices := [(''conn'', zero_device)]\<rparr>)\<rparr>"
  have uid: "d_UniqueID zero_device = []" "trim_space [] = []" by code_simp+
  have r: "resolve ?v ?t = Some zero_device"
    by (simp add: resolve_def snapshot_def Snapshot_def resolveDeviceByDSUID_def equal_fold_upper)
  have "\<not> is_vdc_target ?v ?t"
    using dsuid_not_word [of "''root''" "''VDC''" zero_device "''conn''"]
      dsuid_not_word [of "''VDC''" "''VDC''" zero_device "''conn''"]
      dsuid_not_word [of "[]" "''VDC''" zero_device "''conn''"]
    by (simp add: is_vdc_target_def)
  with remove_anonymous_ignored [of ?v _ ?t zero_device 9] r uid show ?thesis by simp
qed

text \<open>
  One protobuf write stores one property: once the switch knows a property, everything after it
  in the same request is dropped, and the answer is still success or failure of that one alone.
\<close>

theorem set_property_first_only:
  fixes v :: "'w vdc" and act :: "'w vdc \<Rightarrow> 'w vdc \<times> vdc_error option"
  assumes "known_property t p = Some act"
    and "extractSceneWriteFromPbuf (p # ps) = None" and "extractInputSettingFromPbuf (p # ps) = None"
  shows "setPropertyFromPbuf t (p # ps) v = setPropertyFromPbuf t [p] v"
proof -
  have "extractSceneWriteFromPbuf [p] = None"
    using assms(2) unfolding extractSceneWriteFromPbuf_def by (rule first_some_hd)
  moreover have "extractInputSettingFromPbuf [p] = None"
    using assms(3) unfolding extractInputSettingFromPbuf_def by (rule first_some_hd)
  ultimately show ?thesis using assms by (simp add: setPropertyFromPbuf_def)
qed

theorem set_property_first_only_witness:
  "setPropertyFromPbuf lamp_id [PElem ''name'' (GStr ''Desk'') [], PElem ''zoneID'' (GUint64 7) []] lamp_vdc =
     setPropertyFromPbuf lamp_id [PElem ''name'' (GStr ''Desk'') []] lamp_vdc"
proof -
  have low: "to_lower (trim_space ''name'') = ''name''" by code_simp
  have "extractSceneWriteFromPbuf [PElem ''name'' (GStr ''Desk'') [], PElem ''zoneID'' (GUint64 7) []] = None"
    "extractInputSettingFromPbuf [PElem ''name'' (GStr ''Desk'') [], PElem ''zoneID'' (GUint64 7) []] = None"
    by code_simp+
  with set_property_first_only [of lamp_id "PElem ''name'' (GStr ''Desk'') []"
      "applyNameWrite lamp_id ''Desk''" "[PElem ''zoneID'' (GUint64 7) []]" lamp_vdc]
  show ?thesis by (simp add: known_property_def low)
qed

text \<open>
  A level is clamped into 0 to 100 before it reaches a device, whatever number it was; only
  a value that is not a number goes through.
\<close>

theorem clamp_level_range:
  "(if f64_is_nan x then clampLevel x = x
    else f64_le f64_zero (clampLevel x) \<and> f64_le (clampLevel x) f64_hundred) \<and>
   clampLevel (clampLevel x) = clampLevel x"
proof (cases "f64_is_nan x")
  case True
  then show ?thesis by (simp add: clampLevel_def f64_less_def)
next
  case False
  have c: "f64_key f64_zero = 0" "f64_key f64_hundred = 0x4059000000000000" by simp_all
  from False show ?thesis by (auto simp: clampLevel_def f64_less_def f64_le_def)
qed

end
