(* ===== verification/Pbuf_Params.thy ===== *)
theory Pbuf_Params
  imports Method_Service
begin

text \<open>
  The parameters of generic requests (\<^verbatim>\<open>pkg/vdcapi/pbuf_params.go\<close>, the reading half of
  \<^verbatim>\<open>pbuf_notification_params.go\<close>, the checks of \<^verbatim>\<open>generic_request_params.go\<close>, the helpers of
  \<^verbatim>\<open>params_helpers.go\<close>) and the payload of a push notification (\<^verbatim>\<open>pbuf_state_payload.go\<close>). An
  error is the left side of a sum and carries its text. \<open>fmtv\<close> is \<^verbatim>\<open>fmt.Sprintf("%v")\<close> on the
  values that are not strings.
\<close>

section \<open>Looking parameters up\<close>

definition is_param :: "string \<Rightarrow> pelem \<Rightarrow> bool" where
  "is_param name p \<longleftrightarrow> equal_fold (trim_space (pe_name p)) name"

definition findPbufParam :: "pelem list \<Rightarrow> string \<Rightarrow> pelem option" where
  "findPbufParam params name = find (is_param name) params"

definition findPbufParams :: "pelem list \<Rightarrow> string \<Rightarrow> pelem list" where
  "findPbufParams params name = filter (is_param name) params"

fun str_value :: "gany \<Rightarrow> string option" where
  "str_value (GStr s) = Some s"
| "str_value _ = None"

definition collectPbufParamStrings :: "pelem list \<Rightarrow> string \<Rightarrow> string list" where
  "collectPbufParamStrings params name =
     filter (\<lambda>s. trim_space s \<noteq> []) (List.map_filter (\<lambda>p. str_value (pe_value p)) (findPbufParams params name))"

definition firstPbufParamFloat :: "pelem list \<Rightarrow> string \<Rightarrow> f64 option" where
  "firstPbufParamFloat params name =
     (case findPbufParam params name of None \<Rightarrow> None | Some p \<Rightarrow> asFloat (pe_value p))"

definition firstPbufParamInt :: "pelem list \<Rightarrow> string \<Rightarrow> int option" where
  "firstPbufParamInt params name =
     (case findPbufParam params name of None \<Rightarrow> None | Some p \<Rightarrow> asInt (pe_value p))"

text \<open>A boolean-like value, \<open>None\<close> for nil. A signed 64-bit integer is not one, an unsigned is.\<close>

fun pbufBoolLike :: "gany \<Rightarrow> string + bool option" where
  "pbufBoolLike (GBool b) = Inr (Some b)"
| "pbufBoolLike (GFloat x) = Inr (Some (\<not> f64_eq x 0))"
| "pbufBoolLike (GInt n) = Inr (Some (n \<noteq> 0))"
| "pbufBoolLike (GUint64 w) = Inr (Some (w \<noteq> 0))"
| "pbufBoolLike GNil = Inr None"
| "pbufBoolLike _ = Inl ''must be boolean-like''"

definition pbufBoolParam :: "pelem list \<Rightarrow> string \<Rightarrow> bool \<Rightarrow> string + bool" where
  "pbufBoolParam params name dflt =
     (case findPbufParam params name of
        None \<Rightarrow> Inr dflt
      | Some p \<Rightarrow> (case pbufBoolLike (pe_value p) of
                     Inl e \<Rightarrow> Inl e
                   | Inr None \<Rightarrow> Inr dflt
                   | Inr (Some b) \<Rightarrow> Inr b))"

text \<open>Sequencing of fallible steps, with the prefix that wraps an error.\<close>

definition sum_bind :: "'e + 'a \<Rightarrow> ('a \<Rightarrow> 'e + 'b) \<Rightarrow> 'e + 'b" where
  "sum_bind r k = (case r of Inl e \<Rightarrow> Inl e | Inr x \<Rightarrow> k x)"

lemma sum_bind_simps [simp]: "sum_bind (Inl e) k = Inl e" "sum_bind (Inr x) k = k x"
  by (simp_all add: sum_bind_def)

definition invalid :: "string \<Rightarrow> string + 'a \<Rightarrow> string + 'a" where
  "invalid name r = map_sum (\<lambda>e. ''invalid '' @ name @ '': '' @ e) id r"

lemma invalid_simps [simp]:
  "invalid name (Inr x) = Inr x" "invalid name (Inl e) = Inl (''invalid '' @ name @ '': '' @ e)"
  by (simp_all add: invalid_def)

section \<open>Parameters of the methods\<close>

record scan_params =
  sc_Incremental :: bool
  sc_Exhaustive :: bool
  sc_Reenumerate :: bool
  sc_ClearConfig :: bool

record pair_params =
  pp_Timeout :: int
  pp_DisableProximityCheck :: bool
  pp_EstablishDefined :: bool
  pp_Establish :: bool

definition parsePbufScanDevicesParams :: "pelem list \<Rightarrow> string + scan_params" where
  "parsePbufScanDevicesParams params =
     sum_bind (invalid ''incremental'' (pbufBoolParam params ''incremental'' True)) (\<lambda>inc.
     sum_bind (invalid ''exhaustive'' (pbufBoolParam params ''exhaustive'' False)) (\<lambda>exh.
     sum_bind (invalid ''reenumerate'' (pbufBoolParam params ''reenumerate'' False)) (\<lambda>ree.
     sum_bind (invalid ''clearconfig'' (pbufBoolParam params ''clearconfig'' False)) (\<lambda>clr.
       Inr \<lparr>sc_Incremental = inc, sc_Exhaustive = exh, sc_Reenumerate = ree, sc_ClearConfig = clr\<rparr>))))"

definition establish_param :: "pelem list \<Rightarrow> string + bool option" where
  "establish_param params =
     (case findPbufParam params ''establish'' of
        None \<Rightarrow> Inr None | Some p \<Rightarrow> invalid ''establish'' (pbufBoolLike (pe_value p)))"

definition parsePbufPairParams :: "pelem list \<Rightarrow> string + pair_params" where
  "parsePbufPairParams params =
     (let timeout = (case firstPbufParamInt params ''timeout'' of Some n \<Rightarrow> n | None \<Rightarrow> 30)
      in sum_bind (invalid ''disableProximityCheck''
           (pbufBoolParam params ''disableProximityCheck'' False)) (\<lambda>prox.
         sum_bind (establish_param params) (\<lambda>est.
           Inr \<lparr>pp_Timeout = timeout, pp_DisableProximityCheck = prox,
                pp_EstablishDefined = (est \<noteq> None), pp_Establish = (est = Some True)\<rparr>)))"

definition valid_level :: "int \<Rightarrow> string + int" where
  "valid_level n = (if n < 0 \<or> 8 < n then Inl (''invalid log level '' @ itoa n) else Inr n)"

definition validatePbufLogLevelParams :: "pelem list \<Rightarrow> string + int" where
  "validatePbufLogLevelParams params =
     (case firstPbufParamInt params ''value'' of None \<Rightarrow> Inl ''missing value'' | Some n \<Rightarrow> valid_level n)"

definition unknown_topic :: "string \<Rightarrow> string" where
  "unknown_topic t = ''unknown logging topic '' @ [CHR 0x27] @ t @ [CHR 0x27]"

definition validatePbufLogLevelOffsetParams :: "pelem list \<Rightarrow> string + unit" where
  "validatePbufLogLevelOffsetParams params =
     sum_bind (validatePbufLogLevelParams params) (\<lambda>_.
       case findPbufParam params ''topic'' of
         None \<Rightarrow> Inr ()
       | Some p \<Rightarrow> (case str_value (pe_value p) of
                      Some t \<Rightarrow> if trim_space t \<noteq> [] then Inl (unknown_topic t) else Inr ()
                    | None \<Rightarrow> Inr ()))"

fun check_all :: "('a \<Rightarrow> 'e + 'b) \<Rightarrow> 'a list \<Rightarrow> 'e + unit" where
  "check_all f [] = Inr ()"
| "check_all f (x # xs) = sum_bind (f x) (\<lambda>_. check_all f xs)"

definition validatePbufLogOptionsParams :: "pelem list \<Rightarrow> string + unit" where
  "validatePbufLogOptionsParams params =
     check_all (\<lambda>key. case findPbufParam params key of
                        None \<Rightarrow> Inr None | Some p \<Rightarrow> invalid key (pbufBoolLike (pe_value p)))
       [''deltas'', ''symbols'', ''colors'']"

definition validatePbufIdentifyParams :: "pelem list \<Rightarrow> string + f64" where
  "validatePbufIdentifyParams params =
     (case findPbufParam params ''duration'' of
        None \<Rightarrow> Inr 0
      | Some p \<Rightarrow> (case asFloat (pe_value p) of
                     None \<Rightarrow> Inl ''invalid duration: must be numeric'' | Some x \<Rightarrow> Inr x))"

section \<open>The same checks on JSON parameters\<close>

text \<open>\<^verbatim>\<open>%T\<close> of a value is the argument \<open>typv\<close>, \<^verbatim>\<open>%q\<close> of a string is \<open>quotev\<close>.\<close>

definition boolFromAny :: "(gany \<Rightarrow> string) \<Rightarrow> (string \<Rightarrow> string) \<Rightarrow> gany \<Rightarrow> string + bool option" where
  "boolFromAny typv quotev v =
     (case v of
        GNil \<Rightarrow> Inr None
      | GBool b \<Rightarrow> Inr (Some b)
      | GStr s \<Rightarrow>
          if s \<in> {''true'', ''1'', ''yes''} then Inr (Some True)
          else if s \<in> {''false'', ''0'', ''no'', []} then Inr (Some False)
          else Inl (''cannot convert '' @ quotev s @ '' to bool'')
      | GFloat x \<Rightarrow> Inr (Some (\<not> f64_eq x 0))
      | _ \<Rightarrow> Inl (''cannot convert '' @ typv v @ '' to bool''))"

definition validateJSONLogLevelParams :: "obj \<Rightarrow> string + int" where
  "validateJSONLogLevelParams params =
     (case map_of params ''value'' of
        None \<Rightarrow> Inl ''missing value''
      | Some v \<Rightarrow> (case asInt v of None \<Rightarrow> Inl ''value must be numeric'' | Some n \<Rightarrow> valid_level n))"

definition validateJSONLogLevelOffsetParams :: "(gany \<Rightarrow> string) \<Rightarrow> obj \<Rightarrow> string + unit" where
  "validateJSONLogLevelOffsetParams fmtv params =
     sum_bind (validateJSONLogLevelParams params) (\<lambda>_.
       let topic = trim_space (stringFromAny fmtv (j_get params ''topic''))
       in if topic \<noteq> [] then Inl (unknown_topic topic) else Inr ())"

definition validateJSONLogOptionsParams ::
  "(gany \<Rightarrow> string) \<Rightarrow> (string \<Rightarrow> string) \<Rightarrow> obj \<Rightarrow> string + unit" where
  "validateJSONLogOptionsParams typv quotev params =
     check_all (\<lambda>key. invalid key (boolFromAny typv quotev (j_get params key)))
       [''deltas'', ''symbols'', ''colors'']"

definition validateJSONIdentifyParams :: "obj \<Rightarrow> string + f64" where
  "validateJSONIdentifyParams params =
     (case j_get params ''duration'' of
        GNil \<Rightarrow> Inr 0
      | v \<Rightarrow> (case asFloat v of None \<Rightarrow> Inl ''invalid duration: must be numeric'' | Some x \<Rightarrow> Inr x))"

section \<open>Parameters of the notifications\<close>

definition parsePbufNotificationParamsCallScene :: "pelem list \<Rightarrow> string list \<times> int" where
  "parsePbufNotificationParamsCallScene params =
     (collectPbufParamStrings params ''dSUID'',
      case firstPbufParamInt params ''scene'' of Some n \<Rightarrow> n | None \<Rightarrow> 0)"

definition parsePbufNotificationParamsDimChannel :: "pelem list \<Rightarrow> string list \<times> int" where
  "parsePbufNotificationParamsDimChannel params =
     (collectPbufParamStrings params ''dSUID'',
      case firstPbufParamInt params ''mode'' of Some n \<Rightarrow> n | None \<Rightarrow> 0)"

text \<open>A value that is missing is \<open>0\<close> with the flag \<open>False\<close>.\<close>

definition parsePbufNotificationParamsSetControlValue ::
  "pelem list \<Rightarrow> string list \<times> string \<times> f64 \<times> bool" where
  "parsePbufNotificationParamsSetControlValue params =
     (let value = firstPbufParamFloat params ''value''
      in (collectPbufParamStrings params ''dSUID'',
          (case findPbufParam params ''name'' of
             Some p \<Rightarrow> (case str_value (pe_value p) of Some s \<Rightarrow> s | None \<Rightarrow> [])
           | None \<Rightarrow> []),
          (case value of Some x \<Rightarrow> x | None \<Rightarrow> 0), value \<noteq> None))"

definition parsePbufNotificationParamsSetOutputChannelValue ::
  "pelem list \<Rightarrow> string list \<times> f64 \<times> int \<times> bool \<times> bool" where
  "parsePbufNotificationParamsSetOutputChannelValue params =
     (let value = firstPbufParamFloat params ''value''
      in (collectPbufParamStrings params ''dSUID'',
          (case value of Some x \<Rightarrow> x | None \<Rightarrow> 0),
          (case firstPbufParamInt params ''channelIndex'' of Some n \<Rightarrow> n | None \<Rightarrow> 0),
          (case findPbufParam params ''apply_now'' of
             Some p \<Rightarrow> (case pe_value p of GBool b \<Rightarrow> b | _ \<Rightarrow> True)
           | None \<Rightarrow> True),
          value \<noteq> None))"

section \<open>The payload of a push notification\<close>

definition dsClickType :: "string \<Rightarrow> int option" where
  "dsClickType action =
     (if action = ''tip'' \<or> action = ''tip_1x'' then Some 0
      else if action = ''tip2'' \<or> action = ''tip_2x'' then Some 1
      else if action = ''tip3'' \<or> action = ''tip_3x'' then Some 2
      else if action = ''tip4'' \<or> action = ''tip_4x'' then Some 3
      else if action = ''hold'' then Some 4
      else if action = ''release'' then Some 6
      else None)"

definition value_obj :: "f64 \<Rightarrow> gany" where
  "value_obj x = GObj [(''value'', GFloat x)]"

definition indexedFloatState :: "(int, f64) gomap \<Rightarrow> obj" where
  "indexedFloatState values = map (\<lambda>(i, x). (itoa i, value_obj x)) values"

definition add_click :: "obj \<Rightarrow> int \<times> string \<Rightarrow> obj" where
  "add_click bs = (\<lambda>(i, action).
     case (map_of bs (itoa i), dsClickType (trim_space action)) of
       (Some (GObj st), Some ct) \<Rightarrow> AList.update (itoa i) (GObj (AList.update ''clickType'' (GInt ct) st)) bs
     | _ \<Rightarrow> bs)"

definition opt_entry :: "string \<Rightarrow> obj \<Rightarrow> obj" where
  "opt_entry k m = (if m = [] then [] else [(k, GObj m)])"

definition changedStatePayload :: "device \<Rightarrow> obj" where
  "changedStatePayload d =
     [(''active'', GBool (d_Active d)),
      (''channelStates'', GObj (foldl (\<lambda>m (i, x). AList.update (itoa i) (value_obj x) m)
          [(''0'', value_obj (channelValue d 0))] (d_Channels d))),
      (''deviceevents'', buildDeviceEvents d)] @
     opt_entry ''buttonInputStates'' (foldl add_click (indexedFloatState (d_Buttons d)) (d_ButtonActions d)) @
     opt_entry ''binaryInputStates'' (indexedFloatState (d_Inputs d)) @
     opt_entry ''sensorStates'' (indexedFloatState (d_Sensors d))"

end
