(* ===== verification/Pbuf_Handlers.thy ===== *)
theory Pbuf_Handlers
  imports Pbuf_Params
begin

text \<open>
  The request handlers of the protobuf server (\<^verbatim>\<open>pkg/vdcapi/pbuf_handlers.go\<close> and the audience of
  a notification, \<^verbatim>\<open>pbuf_notification_params.go\<close>). A handler takes the vDC and returns the frames
  it answers with and the vDC after it.
\<close>

section \<open>Result codes\<close>

abbreviation "pbufResultOK \<equiv> (0 :: u64)"
abbreviation "pbufResultMessageUnknown \<equiv> (1 :: u64)"
abbreviation "pbufResultIncompatibleAPI \<equiv> (2 :: u64)"
abbreviation "pbufResultServiceUnavailable \<equiv> (3 :: u64)"
abbreviation "pbufResultNotImplemented \<equiv> (6 :: u64)"
abbreviation "pbufResultInvalidValueType \<equiv> (8 :: u64)"
abbreviation "pbufResultNotFound \<equiv> (11 :: u64)"
abbreviation "pbufResultNotAuthorized \<equiv> (12 :: u64)"

section \<open>Whom a notification addresses\<close>

text \<open>Either an error code with its text, or the targets and whether it is for all devices.\<close>

type_synonym audience = "(u64 \<times> string) + string list \<times> bool"

definition is_root :: "'w vdc \<Rightarrow> string \<Rightarrow> bool" where
  "is_root v t \<longleftrightarrow> equal_fold t ''root'' \<or> equal_fold t (v_dsuid v)"

definition many_targets :: "'w vdc \<Rightarrow> string list \<Rightarrow> string list \<times> bool" where
  "many_targets v ts =
     (let us = filter (\<lambda>t. t \<noteq> []) (map trim_space ts)
      in if \<exists>t \<in> set us. is_root v t then ([], True)
         else (filter (\<lambda>t. ensureAddressableTarget v t = None) us, False))"

definition item_audience :: "'w vdc \<Rightarrow> gany \<Rightarrow> audience" where
  "item_audience v x =
     (let item = trim_space (case str_value x of Some s \<Rightarrow> s | None \<Rightarrow> [])
      in if item = [] then Inl (pbufResultNotFound, ''missing/invalid itemSpec'')
         else if is_root v item then Inr ([], True)
         else if ensureAddressableTarget v item = None then Inr ([item], False)
         else Inl (pbufResultNotFound, ''missing/invalid itemSpec''))"

definition notification_targets :: "string \<Rightarrow> pelem list \<Rightarrow> string list" where
  "notification_targets target params =
     (let ts = collectPbufParamStrings params ''dSUID''; t = trim_space target
      in if ts \<noteq> [] then ts else if t \<noteq> [] then [t] else [])"

definition resolvePbufNotificationAudience :: "'w vdc \<Rightarrow> string \<Rightarrow> pelem list \<Rightarrow> audience" where
  "resolvePbufNotificationAudience v target params =
     (case notification_targets target params of
        [raw] \<Rightarrow>
          (let t = trim_space raw
           in if t = [] then Inl (pbufResultNotFound, ''addressable not found'')
              else if is_root v t then Inr ([], True)
              else case ensureAddressableTarget v t of
                     Some e \<Rightarrow> Inl (pbufResultNotFound, error_text e)
                   | None \<Rightarrow> Inr ([t], False))
      | [] \<Rightarrow>
          (case findPbufParam params ''itemSpec'' of
             Some p \<Rightarrow> item_audience v (pe_value p)
           | None \<Rightarrow>
               if findPbufParam params ''zone_id'' \<noteq> None \<and> findPbufParam params ''group'' \<noteq> None
               then Inr ([], True)
               else Inl (pbufResultMessageUnknown,
                      ''notification needs dSUID, itemSpec or zone_id/group parameters''))
      | ts \<Rightarrow> Inr (many_targets v ts))"

section \<open>Reading and writing properties\<close>

type_synonym 'w handler = "'w vdc \<Rightarrow> byte list list \<times> 'w vdc"

definition handlePbufGetProperty ::
  "protowire \<Rightarrow> nat \<Rightarrow> u32 \<Rightarrow> bool \<Rightarrow> string \<Rightarrow> pelem list \<Rightarrow> 'w handler" where
  "handlePbufGetProperty pw now msgID hasID target query v =
     (case resolveGetPropertyTarget now v target of
        Inl e \<Rightarrow> ([buildPbufGenericResponse pw msgID hasID
                    (if e = ErrAddressableNotFound then pbufResultNotFound else pbufResultServiceUnavailable)
                    (error_text e)], v)
      | Inr full \<Rightarrow>
          ([buildPbufGetPropertyResponse pw msgID hasID (buildPbufPropertyResult query full)], v))"

definition answer ::
  "protowire \<Rightarrow> u32 \<Rightarrow> bool \<Rightarrow> (vdc_error \<Rightarrow> u64) \<Rightarrow> 'w vdc \<times> vdc_error option \<Rightarrow> byte list list \<times> 'w vdc" where
  "answer pw msgID hasID code = (\<lambda>(v, err).
     ([case err of None \<Rightarrow> buildPbufGenericResponse pw msgID hasID pbufResultOK []
       | Some e \<Rightarrow> buildPbufGenericResponse pw msgID hasID (code e) (error_text e)], v))"

definition handlePbufSetProperty ::
  "protowire \<Rightarrow> u32 \<Rightarrow> bool \<Rightarrow> string \<Rightarrow> pelem list \<Rightarrow> 'w handler" where
  "handlePbufSetProperty pw msgID hasID target props v =
     answer pw msgID hasID setPropertyPbufStatusCode (setPropertyFromPbuf target props v)"

section \<open>Generic requests\<close>

text \<open>The target of a method: its dSUID parameter when that is a string that is not blank.\<close>

definition param_target :: "string \<Rightarrow> pelem list \<Rightarrow> string" where
  "param_target target params =
     (case findPbufParam params ''dSUID'' of
        None \<Rightarrow> target
      | Some p \<Rightarrow> (case str_value (pe_value p) of
                     Some s \<Rightarrow> if trim_space s \<noteq> [] then s else target | None \<Rightarrow> target))"

definition set_property_list :: "pelem list \<Rightarrow> pelem list" where
  "set_property_list params =
     (let found = (case findPbufParam params ''properties'' of
                     None \<Rightarrow> [] | Some p \<Rightarrow> if pe_elements p \<noteq> [] then pe_elements p else [p])
      in if found \<noteq> [] then found
         else filter (\<lambda>p. \<not> equal_fold (pe_name p) ''dSUID'' \<and> \<not> equal_fold (pe_name p) ''preload'') params)"

definition ok_or :: "protowire \<Rightarrow> u32 \<Rightarrow> bool \<Rightarrow> u64 \<Rightarrow> string + 'a \<Rightarrow> 'w handler" where
  "ok_or pw msgID hasID code r v =
     ([case r of Inr x \<Rightarrow> buildPbufGenericResponse pw msgID hasID pbufResultOK []
       | Inl e \<Rightarrow> buildPbufGenericResponse pw msgID hasID code e], v)"

definition target_result :: "vdc_error option \<Rightarrow> string + unit" where
  "target_result r = (case r of None \<Rightarrow> Inr () | Some e \<Rightarrow> Inl (error_text e))"

text \<open>A notification sent as a method: resolve the audience, act, answer OK.\<close>

definition on_audience ::
  "protowire \<Rightarrow> u32 \<Rightarrow> bool \<Rightarrow> audience \<Rightarrow> (string list \<Rightarrow> bool \<Rightarrow> 'w handler) \<Rightarrow> 'w handler" where
  "on_audience pw msgID hasID aud act v =
     (case aud of
        Inl (code, desc) \<Rightarrow> ([buildPbufGenericResponse pw msgID hasID code desc], v)
      | Inr (targets, all) \<Rightarrow> act targets all v)"

definition then_ok :: "protowire \<Rightarrow> u32 \<Rightarrow> bool \<Rightarrow> ('w vdc \<Rightarrow> 'w vdc) \<Rightarrow> 'w handler" where
  "then_ok pw msgID hasID act v = ([buildPbufGenericResponse pw msgID hasID pbufResultOK []], act v)"

definition handle_identify ::
  "protowire \<Rightarrow> u32 \<Rightarrow> bool \<Rightarrow> pelem list \<Rightarrow> string list \<Rightarrow> bool \<Rightarrow> 'w handler" where
  "handle_identify pw msgID hasID params targets all v =
     (case first_some (ensureAddressableTarget v) (if all then [''root''] else targets) of
        Some e \<Rightarrow> ([buildPbufGenericResponse pw msgID hasID pbufResultNotFound (error_text e)], v)
      | None \<Rightarrow>
          (case validatePbufIdentifyParams params of
             Inl e \<Rightarrow> ([buildPbufGenericResponse pw msgID hasID pbufResultInvalidValueType e], v)
           | Inr x \<Rightarrow> (buildPbufGenericResponse pw msgID hasID pbufResultOK [] #
                         map (buildPbufIdentify pw) (if all then [v_dsuid v] else targets), v)))"

definition handle_ping ::
  "protowire \<Rightarrow> u32 \<Rightarrow> bool \<Rightarrow> string list \<Rightarrow> bool \<Rightarrow> 'w handler" where
  "handle_ping pw msgID hasID targets all v =
     (let ok = buildPbufGenericResponse pw msgID hasID pbufResultOK []
      in if \<not> all \<and> targets = [] then ([ok], v)
         else case resolvePongTarget v (if all then v_dsuid v else hd targets) of
                Some p \<Rightarrow> ([ok, buildPbufPong pw p], v)
              | None \<Rightarrow> ([ok], v))"

definition handlePbufGenericRequest ::
  "protowire \<Rightarrow> nat \<Rightarrow> u32 \<Rightarrow> bool \<Rightarrow> string \<Rightarrow> string \<Rightarrow> pelem list \<Rightarrow> 'w handler" where
  "handlePbufGenericRequest pw now msgID hasID target mname params v =
     (let m = trim_space mname;
          respond = (\<lambda>code desc. ([buildPbufGenericResponse pw msgID hasID code desc], v));
          notify = (\<lambda>act. on_audience pw msgID hasID (resolvePbufNotificationAudience v target params) act v)
      in
      if equal_fold m ''genericRequest'' then
        respond pbufResultInvalidValueType ''recursive call of genericRequest''
      else if equal_fold m ''getProperty'' then
        handlePbufGetProperty pw now msgID hasID (param_target target params)
          (case findPbufParam params ''query'' of None \<Rightarrow> [] | Some p \<Rightarrow> pe_elements p) v
      else if equal_fold m ''setProperty'' then
        handlePbufSetProperty pw msgID hasID (param_target target params) (set_property_list params) v
      else if equal_fold m ''scanDevices'' then
        ok_or pw msgID hasID pbufResultInvalidValueType (parsePbufScanDevicesParams params) v
      else if equal_fold m ''pair'' then
        (case parsePbufPairParams params of
           Inl e \<Rightarrow> respond pbufResultInvalidValueType e
         | Inr pp \<Rightarrow> ok_or pw msgID hasID pbufResultNotFound
                       (target_result (ensurePairTimeout (pp_Timeout pp))) v)
      else if equal_fold m ''remove'' then
        ok_or pw msgID hasID pbufResultNotFound
          (target_result (ensureRemovableTarget v (trim_space (param_target target params)))) v
      else if equal_fold m ''loglevel'' then
        ok_or pw msgID hasID pbufResultMessageUnknown (validatePbufLogLevelParams params) v
      else if equal_fold m ''logleveloffset'' then
        ok_or pw msgID hasID pbufResultMessageUnknown (validatePbufLogLevelOffsetParams params) v
      else if equal_fold m ''logoptions'' then
        ok_or pw msgID hasID pbufResultMessageUnknown (validatePbufLogOptionsParams params) v
      else if equal_fold m ''callScene'' then
        notify (\<lambda>ts all. then_ok pw msgID hasID
          (handleCallSceneNotification ts all (snd (parsePbufNotificationParamsCallScene params))))
      else if equal_fold m ''dimChannel'' then
        notify (\<lambda>ts all. then_ok pw msgID hasID
          (handleDimChannelNotification ts all (snd (parsePbufNotificationParamsDimChannel params))))
      else if equal_fold m ''setControlValue'' then
        (case parsePbufNotificationParamsSetControlValue params of (_, name, value, hasValue) \<Rightarrow>
           notify (\<lambda>ts all. then_ok pw msgID hasID
             (handleSetControlValueNotification ts all name value hasValue)))
      else if equal_fold m ''setOutputChannelValue'' then
        (case parsePbufNotificationParamsSetOutputChannelValue params of
           (_, value, channelIndex, applyNow, hasValue) \<Rightarrow>
             notify (\<lambda>ts all. then_ok pw msgID hasID
               (handleSetOutputChannelValueNotification ts all channelIndex value applyNow hasValue)))
      else if equal_fold m ''identify'' then notify (handle_identify pw msgID hasID params)
      else if equal_fold m ''saveScene'' then
        notify (\<lambda>ts all. then_ok pw msgID hasID
          (handleSaveSceneNotification ts all (snd (parsePbufNotificationParamsCallScene params))))
      else if equal_fold m ''undoScene'' then notify (\<lambda>ts all. then_ok pw msgID hasID id)
      else if equal_fold m ''setLocalPriority'' then notify (\<lambda>ts all. then_ok pw msgID hasID id)
      else if equal_fold m ''callSceneMin'' then notify (\<lambda>ts all. then_ok pw msgID hasID id)
      else if equal_fold m ''ping'' then notify (handle_ping pw msgID hasID)
      else respond pbufResultNotImplemented (''unknown notification '' @ [CHR 0x27] @ m @ [CHR 0x27]))"

end
