(* ===== verification/Pbuf_Server.thy ===== *)
theory Pbuf_Server
  imports Pbuf_Handlers
begin

text \<open>
  Sessions and dispatch of the protobuf server (\<^verbatim>\<open>pkg/vdcapi/pbuf_dispatch.go\<close>, the session and
  push parts of \<^verbatim>\<open>pbuf_server.go\<close>, \<^verbatim>\<open>api_protocol.go\<close>, \<^verbatim>\<open>status_file.go\<close>). A connection is a number,
  \<open>None\<close> the nil connection that tests pass. One connection at a time owns the session of the vDC:
  a hello claims it, the end of the connection releases it, and a request without it is refused.
\<close>

section \<open>State\<close>

record session =
  ss_active :: bool
  ss_vdsmDSUID :: string
  ss_apiVersion :: int

definition zero_session :: session where
  "zero_session = \<lparr>ss_active = False, ss_vdsmDSUID = [], ss_apiVersion = 0\<rparr>"

record status_session =
  sa_connected :: bool
  sa_remote :: "nat option"
  sa_vdsmDSUID :: string
  sa_apiVersion :: int

record 'w server =
  sv_vdc :: "'w vdc"
  sv_conn :: "nat option"
  sv_dsuid :: string
  sv_status :: status_session

definition APIVersionMin :: int where "APIVersionMin = 2"
definition APIVersionMax :: int where "APIVersionMax = 3"

section \<open>Ownership\<close>

text \<open>The result is the dSUID of the other owner, or the connection that was replaced, if any.\<close>

definition claimSessionOwner ::
  "nat option \<Rightarrow> string \<Rightarrow> 'w server \<Rightarrow> (string + nat option) \<times> 'w server" where
  "claimSessionOwner conn vdsm s =
     (let claimed = s\<lparr>sv_conn := conn, sv_dsuid := vdsm\<rparr>
      in if conn = None then (Inr None, s)
         else case sv_conn s of
                None \<Rightarrow> (Inr None, claimed)
              | Some c \<Rightarrow>
                  if conn = Some c then (Inr None, s\<lparr>sv_dsuid := vdsm\<rparr>)
                  else if equal_fold (sv_dsuid s) vdsm then (Inr (Some c), claimed)
                  else (Inl (sv_dsuid s), s))"

definition isSessionOwner :: "nat option \<Rightarrow> 'w server \<Rightarrow> bool" where
  "isSessionOwner conn s \<longleftrightarrow> conn = None \<or> sv_conn s = conn"

definition releaseSessionOwner :: "nat option \<Rightarrow> 'w server \<Rightarrow> 'w server" where
  "releaseSessionOwner conn s = (if sv_conn s = conn then s\<lparr>sv_conn := None, sv_dsuid := []\<rparr> else s)"

definition setConnected :: "nat option \<Rightarrow> string \<Rightarrow> int \<Rightarrow> 'w server \<Rightarrow> 'w server" where
  "setConnected conn vdsm version s = s\<lparr>sv_status := (sv_status s)
     \<lparr>sa_connected := True, sa_remote := (if conn = None then sa_remote (sv_status s) else conn),
      sa_vdsmDSUID := vdsm, sa_apiVersion := version\<rparr>\<rparr>"

definition setDisconnected :: "'w server \<Rightarrow> 'w server" where
  "setDisconnected s = s\<lparr>sv_status := (sv_status s)\<lparr>sa_connected := False\<rparr>\<rparr>"

section \<open>Hello\<close>

definition hello_device_frames :: "protowire \<Rightarrow> string \<Rightarrow> string \<times> obj \<Rightarrow> byte list list" where
  "hello_device_frames pw vdc = (\<lambda>(dsuid, d).
     [buildPbufVanish pw dsuid, buildPbufAnnounceDevice pw dsuid vdc,
      buildPbufPushNotification pw dsuid
        ((''channelStates'', j_get d ''channelStates'') #
         (case j_get d ''active'' of GBool b \<Rightarrow> [(''active'', GBool b)] | _ \<Rightarrow> []))])"

definition reconcile :: "string list \<Rightarrow> 'w vdc \<Rightarrow> string list \<times> 'w vdc" where
  "reconcile cur v =
     (case v_config v of
        None \<Rightarrow> ([], v)
      | Some cs \<Rightarrow> (case StaleAnnouncedDSUIDs (v_io v) cur cs of
                      (stale, cs') \<Rightarrow> (stale, v\<lparr>v_config := Some cs'\<rparr>)))"

definition vdc_devices :: "nat \<Rightarrow> 'w vdc \<Rightarrow> (string, obj) gomap" where
  "vdc_devices now v = snd (snd (buildPropertyTree now (v_dsuid v) (v_description v) (snapshot v)
     (v_scenes v) (v_config v)))"

definition hello_frames ::
  "protowire \<Rightarrow> nat \<Rightarrow> u32 \<Rightarrow> bool \<Rightarrow> 'w vdc \<Rightarrow> byte list list \<times> 'w vdc" where
  "hello_frames pw now msgID hasID v =
     (let devices = vdc_devices now v; (stale, v') = reconcile (map fst devices) v
      in ([buildPbufHelloResponse pw msgID hasID (v_dsuid v), buildPbufAnnounceVdc pw (v_dsuid v)] @
          map (buildPbufVanish pw) stale @ concat (map (hello_device_frames pw (v_dsuid v)) devices), v'))"

text \<open>
  What a message does: its frames, whether the connection is closed after them, a connection that
  is closed at once because it was replaced, the session of the connection and the server.
\<close>

record 'w reaction =
  re_frames :: "byte list list"
  re_close :: bool
  re_replaced :: "nat option"
  re_session :: session
  re_server :: "'w server"

definition stay :: "session \<Rightarrow> 'w server \<Rightarrow> byte list list \<Rightarrow> 'w reaction" where
  "stay sess s frames = \<lparr>re_frames = frames, re_close = False, re_replaced = None, re_session = sess,
     re_server = s\<rparr>"

definition other_session :: "string \<Rightarrow> string" where
  "other_session d = ''this vDC already has an active session with '' @ d"

definition accept_hello ::
  "protowire \<Rightarrow> nat \<Rightarrow> nat option \<Rightarrow> u32 \<Rightarrow> bool \<Rightarrow> string \<Rightarrow> int \<Rightarrow> nat option \<Rightarrow> 'w server \<Rightarrow> 'w reaction"
where
  "accept_hello pw now conn msgID hasID vdsm version replaced s =
     (let s1 = setConnected conn vdsm version s; (frames, v') = hello_frames pw now msgID hasID (sv_vdc s1)
      in \<lparr>re_frames = frames, re_close = False, re_replaced = replaced,
          re_session = \<lparr>ss_active = True, ss_vdsmDSUID = vdsm, ss_apiVersion = version\<rparr>,
          re_server = s1\<lparr>sv_vdc := v'\<rparr>\<rparr>)"

definition handle_hello ::
  "protowire \<Rightarrow> nat \<Rightarrow> nat option \<Rightarrow> u32 \<Rightarrow> bool \<Rightarrow> string \<Rightarrow> int \<Rightarrow> session \<Rightarrow> 'w server \<Rightarrow> 'w reaction"
where
  "handle_hello pw now conn msgID hasID vdsm version sess s =
     (let refuse = (\<lambda>code desc. stay sess s [buildPbufGenericResponse pw msgID hasID code desc])
      in if version < APIVersionMin \<or> APIVersionMax < version then
           refuse pbufResultIncompatibleAPI
             (''Incompatible vDC API version - found '' @ itoa version @ '', expected '' @
              itoa APIVersionMin @ ''..'' @ itoa APIVersionMax)
         else if vdsm = [] then refuse pbufResultMessageUnknown ''missing dSUID''
         else if ss_active sess \<and> \<not> equal_fold (ss_vdsmDSUID sess) vdsm then
           refuse pbufResultServiceUnavailable (other_session (ss_vdsmDSUID sess))
         else case claimSessionOwner conn vdsm s of
                (Inl owner, s') \<Rightarrow> refuse pbufResultServiceUnavailable (other_session owner)
              | (Inr replaced, s') \<Rightarrow> accept_hello pw now conn msgID hasID vdsm version replaced s')"

section \<open>Dispatch\<close>

definition mustPbufSubMessage :: "(int, byte list) gomap \<Rightarrow> int \<Rightarrow> string \<Rightarrow> string + byte list" where
  "mustPbufSubMessage sub fld label =
     (case map_of sub fld of
        Some b \<Rightarrow> Inr b
      | None \<Rightarrow> Inl (''message type and contents do not match: missing '' @ label))"

text \<open>Decode the submessage of a request or notification and go on with what it holds.\<close>

definition decoded :: "(string + 'a) option \<Rightarrow> (string \<Rightarrow> 'b) \<Rightarrow> ('a \<Rightarrow> 'b) \<Rightarrow> 'b outcome" where
  "decoded r err ok = (case r of None \<Rightarrow> OutOfFuel | Some (Inl e) \<Rightarrow> Returned (err e)
                                | Some (Inr x) \<Rightarrow> Returned (ok x))"

definition with_sub ::
  "(int, byte list) gomap \<Rightarrow> int \<Rightarrow> string \<Rightarrow> (byte list \<Rightarrow> (string + 'a) option) \<Rightarrow> (string \<Rightarrow> 'b)
   \<Rightarrow> ('a \<Rightarrow> 'b) \<Rightarrow> 'b outcome" where
  "with_sub sub fld label parse err ok =
     (case mustPbufSubMessage sub fld label of
        Inl e \<Rightarrow> Returned (err e) | Inr body \<Rightarrow> decoded (parse body) err ok)"

definition authorised :: "nat option \<Rightarrow> session \<Rightarrow> 'w server \<Rightarrow> bool" where
  "authorised conn sess s \<longleftrightarrow> ss_active sess \<and> isSessionOwner conn s"

text \<open>A request is refused without a session, a notification is dropped.\<close>

definition on_vdc ::
  "session \<Rightarrow> 'w server \<Rightarrow> byte list list \<times> 'w vdc \<Rightarrow> 'w reaction" where
  "on_vdc sess s = (\<lambda>(frames, v). stay sess (s\<lparr>sv_vdc := v\<rparr>) frames)"

definition pbuf_request ::
  "protowire \<Rightarrow> nat option \<Rightarrow> envelope \<Rightarrow> int \<Rightarrow> string \<Rightarrow> (byte list \<Rightarrow> (string + 'a) option)
   \<Rightarrow> ('a \<Rightarrow> 'w handler) \<Rightarrow> session \<Rightarrow> 'w server \<Rightarrow> 'w reaction outcome" where
  "pbuf_request pw conn env fld label parse act sess s =
     (let respond = (\<lambda>code desc. stay sess s
            [buildPbufGenericResponse pw (ev_id env) (ev_hasID env) code desc])
      in if \<not> authorised conn sess s then
           Returned (respond pbufResultNotAuthorized ''no vDC session - cannot call method'')
         else with_sub (ev_sub env) fld label parse (respond pbufResultMessageUnknown)
                (\<lambda>x. on_vdc sess s (act x (sv_vdc s))))"

definition pbuf_notification ::
  "nat option \<Rightarrow> envelope \<Rightarrow> int \<Rightarrow> string \<Rightarrow> (byte list \<Rightarrow> (string + 'a) option)
   \<Rightarrow> ('a \<Rightarrow> 'w handler) \<Rightarrow> session \<Rightarrow> 'w server \<Rightarrow> 'w reaction outcome" where
  "pbuf_notification conn env fld label parse act sess s =
     (if \<not> authorised conn sess s then Returned (stay sess s [])
      else with_sub (ev_sub env) fld label parse (\<lambda>e. stay sess s [])
             (\<lambda>x. on_vdc sess s (act x (sv_vdc s))))"

definition silent :: "('w vdc \<Rightarrow> 'w vdc) \<Rightarrow> 'w handler" where
  "silent f v = ([], f v)"

definition handle_remove_request ::
  "protowire \<Rightarrow> nat \<Rightarrow> u32 \<Rightarrow> bool \<Rightarrow> string \<Rightarrow> 'w handler" where
  "handle_remove_request pw now msgID hasID target v =
     (if target = [] then ([buildPbufGenericResponse pw msgID hasID pbufResultMessageUnknown ''missing dSUID''], v)
      else answer pw msgID hasID (\<lambda>_. pbufResultNotFound) (removeDeviceByDSUID now target v))"

definition handle_ping_message ::
  "protowire \<Rightarrow> u32 \<Rightarrow> bool \<Rightarrow> (int, byte list) gomap \<Rightarrow> session \<Rightarrow> 'w server \<Rightarrow> 'w reaction outcome" where
  "handle_ping_message pw msgID hasID sub sess s =
     with_sub sub 105 ''vdsm_send_ping'' (\<lambda>body. map_option Inr (parsePbufPingDSUID pw body))
       (\<lambda>e. stay sess s (if hasID
              then [buildPbufGenericResponse pw msgID hasID pbufResultMessageUnknown e] else []))
       (\<lambda>dsuid. stay sess s (case resolvePongTarget (sv_vdc s) dsuid of
                                Some p \<Rightarrow> [buildPbufPong pw p] | None \<Rightarrow> []))"

text \<open>An answer of the vdSM is only logged, but its code is read, which may panic.\<close>

definition absorb_response ::
  "protowire \<Rightarrow> (int, byte list) gomap \<Rightarrow> session \<Rightarrow> 'w server \<Rightarrow> 'w reaction outcome" where
  "absorb_response pw sub sess s =
     (case map_of sub 3 of
        None \<Rightarrow> Returned (stay sess s [])
      | Some gen \<Rightarrow> (case parsePbufGenericResponseCode pw gen of
                       Returned r \<Rightarrow> Returned (stay sess s [])
                     | Panicked \<Rightarrow> Panicked
                     | OutOfFuel \<Rightarrow> OutOfFuel))"

text \<open>The notifications, the answers of the vdSM and what is unknown.\<close>

definition dispatch_notification ::
  "protowire \<Rightarrow> nat option \<Rightarrow> envelope \<Rightarrow> session \<Rightarrow> 'w server \<Rightarrow> 'w reaction outcome" where
  "dispatch_notification pw conn env sess s =
     (let t = ev_type env; msgID = ev_id env; hasID = ev_hasID env;
          respond = (\<lambda>code desc. stay sess s [buildPbufGenericResponse pw msgID hasID code desc])
      in
      if t = 15 then
        pbuf_notification conn env 112 ''vdsm_send_call_scene'' (parsePbufCallSceneNotification pw)
          (\<lambda>(targets, scene). silent (handleCallSceneNotification targets False scene)) sess s
      else if t = 16 then
        pbuf_notification conn env 113 ''vdsm_send_save_scene'' (parsePbufCallSceneNotification pw)
          (\<lambda>(targets, scene). silent (handleSaveSceneNotification targets False scene)) sess s
      else if t = 17 then
        pbuf_notification conn env 114 ''vdsm_send_undo_scene'' (parsePbufCallSceneNotification pw)
          (\<lambda>_. silent id) sess s
      else if t = 18 then
        pbuf_notification conn env 115 ''vdsm_send_set_local_prio'' (parsePbufCallSceneNotification pw)
          (\<lambda>_. silent id) sess s
      else if t = 19 then
        pbuf_notification conn env 116 ''vdsm_send_call_min_scene'' (parsePbufCallSceneNotification pw)
          (\<lambda>(targets, scene). silent (handleCallSceneNotification targets False scene)) sess s
      else if t = 20 then
        pbuf_notification conn env 117 ''vdsm_send_identify'' (parsePbufNotificationTargets pw)
          (\<lambda>targets v. (map (buildPbufIdentify pw) targets, v)) sess s
      else if t = 21 then
        pbuf_notification conn env 118 ''vdsm_send_set_control_value''
          (parsePbufSetControlValueNotification pw)
          (\<lambda>(targets, name, value, hasValue).
             silent (handleSetControlValueNotification targets False name value hasValue)) sess s
      else if t = 24 then
        pbuf_notification conn env 121 ''vdsm_send_dim_channel'' (parsePbufDimChannelNotification pw)
          (\<lambda>(targets, mode). silent (handleDimChannelNotification targets False mode)) sess s
      else if t = 25 then
        pbuf_notification conn env 122 ''vdsm_send_output_channel_value''
          (parsePbufSetOutputChannelValueNotification pw)
          (\<lambda>(targets, oc). silent (handleSetOutputChannelValueNotification targets False
             (oc_channelIndex oc) (oc_value oc) (oc_applyNow oc) (oc_hasValue oc))) sess s
      else if t = 1 then absorb_response pw (ev_sub env) sess s
      else Returned (if hasID then respond pbufResultMessageUnknown ''message unknown'' else stay sess s []))"

definition dispatch ::
  "protowire \<Rightarrow> nat \<Rightarrow> nat option \<Rightarrow> envelope \<Rightarrow> session \<Rightarrow> 'w server \<Rightarrow> 'w reaction outcome" where
  "dispatch pw now conn env sess s =
     (let t = ev_type env; msgID = ev_id env; hasID = ev_hasID env;
          respond = (\<lambda>code desc. stay sess s [buildPbufGenericResponse pw msgID hasID code desc])
      in
      if t = 2 then
        with_sub (ev_sub env) 100 ''vdsm_request_hello'' (parsePbufHelloRequest pw)
          (respond pbufResultMessageUnknown)
          (\<lambda>(vdsm, version). handle_hello pw now conn msgID hasID vdsm version sess s)
      else if t = 4 then
        pbuf_request pw conn env 102 ''vdsm_request_get_property'' (parsePbufGetPropertyRequest pw)
          (\<lambda>(target, query). handlePbufGetProperty pw now msgID hasID target query) sess s
      else if t = 6 then
        pbuf_request pw conn env 104 ''vdsm_request_set_property'' (parsePbufSetPropertyRequest pw)
          (\<lambda>(target, props). handlePbufSetProperty pw msgID hasID target props) sess s
      else if t = 13 then
        pbuf_request pw conn env 110 ''vdsm_send_remove'' (\<lambda>body. map_option Inr (parsePbufDSUIDField pw body))
          (handle_remove_request pw now msgID hasID) sess s
      else if t = 26 then
        pbuf_request pw conn env 123 ''vdsm_request_generic_request'' (parsePbufGenericRequest pw)
          (\<lambda>(target, mname, params). handlePbufGenericRequest pw now msgID hasID target mname params) sess s
      else if t = 14 then
        Returned \<lparr>re_frames = [buildPbufGenericResponse pw msgID hasID pbufResultOK []], re_close = True,
          re_replaced = None, re_session = zero_session, re_server = s\<rparr>
      else if t = 8 then handle_ping_message pw msgID hasID (ev_sub env) sess s
      else dispatch_notification pw conn env sess s)"

definition processPbufMessageForConn ::
  "protowire \<Rightarrow> nat \<Rightarrow> nat option \<Rightarrow> byte list \<Rightarrow> session \<Rightarrow> 'w server \<Rightarrow> 'w reaction outcome" where
  "processPbufMessageForConn pw now conn payload sess s =
     (case parsePbufEnvelope pw payload of
        None \<Rightarrow> OutOfFuel
      | Some (Inl e) \<Rightarrow>
          Returned (stay sess s [buildPbufGenericResponse pw 0 False pbufResultMessageUnknown e])
      | Some (Inr env) \<Rightarrow> dispatch pw now conn env sess s)"

section \<open>Pushing changes\<close>

definition upd_vdc :: "('w vdc \<Rightarrow> 'w vdc) \<Rightarrow> 'w server \<Rightarrow> 'w server" where
  "upd_vdc f s = s\<lparr>sv_vdc := f (sv_vdc s)\<rparr>"

text \<open>
  What the goroutine of an active session does with an update of a device, when the connection
  takes the frames.
\<close>

definition push_update ::
  "protowire \<Rightarrow> state_update \<Rightarrow> 'w server \<Rightarrow> byte list list \<times> 'w server" where
  "push_update pw up s =
     (let v = sv_vdc s; d = u_Device up; dsuid = deviceDSUID (v_dsuid v) d (d_Key d);
          push = buildPbufPushNotification pw dsuid (changedStatePayload d)
      in case u_Type up of
           EventInit \<Rightarrow> ([buildPbufVanish pw dsuid, buildPbufAnnounceDevice pw dsuid (v_dsuid v), push],
                         upd_vdc (upd_config (MarkDSUIDAdded (v_io v) dsuid)) s)
         | EventRemove \<Rightarrow> ([buildPbufVanish pw dsuid], upd_vdc (upd_config (MarkDSUIDRemoved (v_io v) dsuid)) s)
         | EventActive \<Rightarrow> ([push], s)
         | EventChannel \<Rightarrow> ([push], s)
         | EventButton \<Rightarrow> ([push], s)
         | EventButtonAction \<Rightarrow> ([push], s)
         | EventInput \<Rightarrow> ([push], s)
         | EventSensor \<Rightarrow> ([push], s)
         | _ \<Rightarrow> ([], s))"

section \<open>Connections\<close>

text \<open>
  The server with its connections: a connection has its session, its subscription to the device
  mirror and whether it still reads. What happens is a list of operations: a connection opens, a
  message arrives on it, it ends (a read or write error, a goodbye, or the server closed it), an
  event reaches the mirror, the goroutine of a connection takes an update. A message may still be
  processed on a connection that was replaced, if it was read before.
\<close>

record connection =
  cn_session :: session
  cn_sub :: "int option"
  cn_reading :: bool

record 'w net =
  nt_server :: "'w server"
  nt_conns :: "(nat, connection) gomap"

datatype net_op = Connect nat | Message nat nat "byte list" | Finish nat | Event nat event | Push nat

definition upd_state :: "(state_store \<Rightarrow> state_store) \<Rightarrow> 'w server \<Rightarrow> 'w server" where
  "upd_state f s = upd_vdc (\<lambda>v. v\<lparr>v_state := map_option f (v_state v)\<rparr>) s"

definition net_connect :: "nat \<Rightarrow> 'w net \<Rightarrow> 'w net" where
  "net_connect c n =
     (if go_has (nt_conns n) c then n
      else \<lparr>nt_server = upd_state (\<lambda>st. snd (Subscribe st)) (nt_server n),
            nt_conns = AList.update c \<lparr>cn_session = zero_session,
              cn_sub = map_option (\<lambda>st. fst (Subscribe st)) (v_state (sv_vdc (nt_server n))),
              cn_reading = True\<rparr> (nt_conns n)\<rparr>)"

definition net_message ::
  "protowire \<Rightarrow> nat \<Rightarrow> nat \<Rightarrow> byte list \<Rightarrow> 'w net \<Rightarrow> (byte list list \<times> 'w net) outcome" where
  "net_message pw now c payload n =
     (case map_of (nt_conns n) c of
        None \<Rightarrow> Returned ([], n)
      | Some cn \<Rightarrow>
          if \<not> cn_reading cn then Returned ([], n)
          else case processPbufMessageForConn pw now (Some c) payload (cn_session cn) (nt_server n) of
                 Returned re \<Rightarrow> Returned (re_frames re,
                   \<lparr>nt_server = re_server re, nt_conns = AList.update c
                      (cn\<lparr>cn_session := re_session re, cn_reading := \<not> re_close re\<rparr>) (nt_conns n)\<rparr>)
               | Panicked \<Rightarrow> Panicked
               | OutOfFuel \<Rightarrow> OutOfFuel)"

definition net_finish :: "nat \<Rightarrow> 'w net \<Rightarrow> 'w net" where
  "net_finish c n =
     (case map_of (nt_conns n) c of
        None \<Rightarrow> n
      | Some cn \<Rightarrow>
          let s1 = (case cn_sub cn of None \<Rightarrow> nt_server n
                    | Some i \<Rightarrow> upd_state (Unsubscribe i) (nt_server n))
          in \<lparr>nt_server = releaseSessionOwner (Some c) (setDisconnected s1),
              nt_conns = AList.delete c (nt_conns n)\<rparr>)"

definition net_push :: "protowire \<Rightarrow> nat \<Rightarrow> 'w net \<Rightarrow> byte list list \<times> 'w net" where
  "net_push pw c n =
     (case (map_of (nt_conns n) c, v_state (sv_vdc (nt_server n))) of
        (Some cn, Some st) \<Rightarrow>
          (case cn_sub cn of
             None \<Rightarrow> ([], n)
           | Some i \<Rightarrow>
               (case receive i st of
                  (None, _) \<Rightarrow> ([], n)
                | (Some up, st') \<Rightarrow>
                    let s' = upd_state (\<lambda>_. st') (nt_server n)
                    in if \<not> ss_active (cn_session cn) then ([], n\<lparr>nt_server := s'\<rparr>)
                       else (case push_update pw up s' of (frames, s'') \<Rightarrow> (frames, n\<lparr>nt_server := s''\<rparr>))))
      | _ \<Rightarrow> ([], n))"

fun net_do :: "protowire \<Rightarrow> net_op \<Rightarrow> 'w net \<Rightarrow> (byte list list \<times> 'w net) outcome" where
  "net_do pw (Connect c) n = Returned ([], net_connect c n)"
| "net_do pw (Message now c payload) n = net_message pw now c payload n"
| "net_do pw (Finish c) n = Returned ([], net_finish c n)"
| "net_do pw (Event now e) n =
     Returned ([], n\<lparr>nt_server := upd_state (HandleEvent now e) (nt_server n)\<rparr>)"
| "net_do pw (Push c) n = Returned (net_push pw c n)"

definition net0 :: "'w vdc \<Rightarrow> 'w net" where
  "net0 v = \<lparr>nt_server = \<lparr>sv_vdc = v, sv_conn = None, sv_dsuid = [],
     sv_status = \<lparr>sa_connected = False, sa_remote = None, sa_vdsmDSUID = [], sa_apiVersion = 0\<rparr>\<rparr>,
     nt_conns = []\<rparr>"

inductive net_reach :: "protowire \<Rightarrow> 'w vdc \<Rightarrow> 'w net \<Rightarrow> bool" for pw v where
  reach_net0: "net_reach pw v (net0 v)"
| reach_do: "net_reach pw v n \<Longrightarrow> net_do pw op n = Returned (frames, n') \<Longrightarrow> net_reach pw v n'"

end
