(* ===== verification/Pbuf_Sessions.thy ===== *)
theory Pbuf_Sessions
  imports Pbuf_Server
begin

text \<open>
  What the sessions of the protobuf server guarantee: which effects a message can have, the refusal
  of everything that has no session, the one owner of the session in every reachable state, and
  what a hello announces.
\<close>

section \<open>Messages return\<close>

definition returns :: "'a outcome \<Rightarrow> bool" where
  "returns r \<longleftrightarrow> (\<exists>x. r = Returned x)"

lemma returns_simps [simp]: "returns (Returned x)" "\<not> returns Panicked" "\<not> returns OutOfFuel"
  by (simp_all add: returns_def)

lemma decoded_returns [simp]: "returns (decoded r err ok) \<longleftrightarrow> r \<noteq> None"
  by (auto simp: decoded_def split: option.split sum.split)

lemma with_sub_returns: "(\<And>b. parse b \<noteq> None) \<Longrightarrow> returns (with_sub sub fld label parse err ok)"
  by (simp add: with_sub_def split: sum.split)

lemma request_returns: "(\<And>b. parse b \<noteq> None) \<Longrightarrow> returns (pbuf_request pw conn env fld label parse act sess s)"
  by (simp add: pbuf_request_def with_sub_returns)

lemma notification_returns:
  "(\<And>b. parse b \<noteq> None) \<Longrightarrow> returns (pbuf_notification conn env fld label parse act sess s)"
  by (simp add: pbuf_notification_def with_sub_returns)

lemma returns_if [simp]: "returns (if b then x else y) \<longleftrightarrow> (if b then returns x else returns y)"
  by simp

lemma absorb_outcome:
  "absorb_response pw sub sess s =
     (case map_of sub 3 of
        None \<Rightarrow> Returned (stay sess s [])
      | Some gen \<Rightarrow> map_outcome (\<lambda>_. stay sess s []) (parsePbufGenericResponseCode pw gen))"
  by (simp add: absorb_response_def split: option.split outcome.split)

context wire
begin

lemma dispatch_returns: "ev_type env \<noteq> 1 \<Longrightarrow> returns (dispatch pw now conn env sess s)"
  unfolding dispatch_def dispatch_notification_def Let_def handle_ping_message_def parsePbufPingDSUID_def
  by (simp add: with_sub_returns request_returns notification_returns parse_requests_terminate
      parse_notifications_terminate option.map_disc_iff del: not_None_eq)

lemma generic_code_returns: "parsePbufGenericResponseCode pw gen \<noteq> OutOfFuel"
  unfolding parsePbufGenericResponseCode_def by (rule generic_loop_fuel) simp

lemma dispatch_response: "ev_type env = 1 \<Longrightarrow> dispatch pw now conn env sess s = absorb_response pw (ev_sub env) sess s"
  by (simp add: dispatch_def dispatch_notification_def Let_def)

end

section \<open>Effects of a message\<close>

text \<open>
  The four kinds of reaction: nothing changes, the vDC changes under an authorised request, a hello
  takes the session, a goodbye ends it.
\<close>

inductive reacts ::
  "protowire \<Rightarrow> nat \<Rightarrow> nat option \<Rightarrow> session \<Rightarrow> 'w server \<Rightarrow> 'w reaction \<Rightarrow> bool"
  for pw now conn sess s where
  kept: "reacts pw now conn sess s (stay sess s frames)"
| acted: "authorised conn sess s \<Longrightarrow> reacts pw now conn sess s (stay sess (s\<lparr>sv_vdc := v\<rparr>) frames)"
| hello: "vdsm \<noteq> [] \<Longrightarrow> APIVersionMin \<le> version \<Longrightarrow> version \<le> APIVersionMax \<Longrightarrow>
    (ss_active sess \<longrightarrow> equal_fold (ss_vdsmDSUID sess) vdsm) \<Longrightarrow>
    claimSessionOwner conn vdsm s = (Inr replaced, s') \<Longrightarrow>
    reacts pw now conn sess s (accept_hello pw now conn msgID hasID vdsm version replaced s')"
| bye: "reacts pw now conn sess s \<lparr>re_frames = frames, re_close = True, re_replaced = None,
    re_session = zero_session, re_server = s\<rparr>"

lemma handle_hello_reacts:
  "reacts pw now conn sess s (handle_hello pw now conn msgID hasID vdsm version sess s)"
  by (auto simp: handle_hello_def Let_def split: prod.split sum.split intro: reacts.intros)

lemma with_sub_reacts:
  assumes "with_sub sub fld label parse err ok = Returned re"
    and "\<And>e. reacts pw now conn sess s (err e)" and "\<And>x. reacts pw now conn sess s (ok x)"
  shows "reacts pw now conn sess s re"
  using assms by (auto simp: with_sub_def decoded_def split: sum.splits option.splits)

lemma on_vdc_reacts: "authorised conn sess s \<Longrightarrow> reacts pw now conn sess s (on_vdc sess s r)"
  by (cases r) (simp add: on_vdc_def acted)

lemma request_reacts:
  "pbuf_request pw conn env fld label parse act sess s = Returned re \<Longrightarrow> reacts pw now conn sess s re"
  unfolding pbuf_request_def Let_def
  by (auto split: if_splits intro: kept elim!: with_sub_reacts intro!: on_vdc_reacts)

lemma notification_reacts:
  "pbuf_notification conn env fld label parse act sess s = Returned re \<Longrightarrow> reacts pw now conn sess s re"
  unfolding pbuf_notification_def
  by (auto split: if_splits intro: kept elim!: with_sub_reacts intro!: on_vdc_reacts)

lemma dispatch_reacts:
  assumes "dispatch pw now conn env sess s = Returned re"
  shows "reacts pw now conn sess s re"
proof -
  have ping: "reacts pw now conn sess s re" if "handle_ping_message pw i h sub sess s = Returned re" for i h sub
    using that unfolding handle_ping_message_def by (rule with_sub_reacts) (auto intro: kept)
  have hello: "reacts pw now conn sess s re"
    if "with_sub sub f l p (\<lambda>e. stay sess s (g e))
      (\<lambda>(vdsm, version). handle_hello pw now conn i h vdsm version sess s) = Returned re" for sub f l p g i h
    using that by (rule with_sub_reacts) (auto intro: kept handle_hello_reacts)
  have gone: "reacts pw now conn sess s re" if "absorb_response pw sub sess s = Returned re" for sub
    using that by (auto simp: absorb_response_def split: option.splits outcome.splits intro: kept)
  show ?thesis
    using assms unfolding dispatch_def dispatch_notification_def Let_def
    by (auto split: if_splits
        intro: kept bye request_reacts notification_reacts ping hello gone)
qed

lemma message_reacts:
  assumes "processPbufMessageForConn pw now conn payload sess s = Returned re"
  shows "reacts pw now conn sess s re"
  using assms dispatch_reacts
  by (auto simp: processPbufMessageForConn_def split: option.splits sum.splits intro: kept)

section \<open>The session of the vDC as a lease\<close>

text \<open>
  What the server promises of its session: a lease that one connection of one vdSM holds. It is
  claimed by a hello, kept from other vdSMs while it is held, and released when its holder's
  connection ends.
\<close>

type_synonym lease = "(nat \<times> string) option"

definition lease_claim :: "nat \<Rightarrow> string \<Rightarrow> lease \<Rightarrow> lease" where
  "lease_claim c d l =
     (case l of None \<Rightarrow> Some (c, d)
      | Some (o', e) \<Rightarrow> if o' = c \<or> equal_fold e d then Some (c, d) else l)"

definition lease_release :: "nat \<Rightarrow> lease \<Rightarrow> lease" where
  "lease_release c l = (case l of None \<Rightarrow> None | Some (o', e) \<Rightarrow> if o' = c then None else l)"

definition lease_of :: "'w server \<Rightarrow> lease" where
  "lease_of s = map_option (\<lambda>c. (c, sv_dsuid s)) (sv_conn s)"

lemma upd_lease [simp]:
  "lease_of (upd_vdc f s) = lease_of s" "lease_of (upd_state g s) = lease_of s"
  "lease_of (s\<lparr>sv_vdc := v\<rparr>) = lease_of s" "lease_of (setConnected conn d ver s) = lease_of s"
  "lease_of (setDisconnected s) = lease_of s"
  by (simp_all add: lease_of_def upd_vdc_def upd_state_def setConnected_def setDisconnected_def)

lemma claim_lease:
  "claimSessionOwner (Some c) d s = (Inr replaced, s') \<Longrightarrow> lease_of s' = lease_claim c d (lease_of s)"
  "claimSessionOwner (Some c) d s = (Inr replaced, s') \<Longrightarrow> lease_of s' = Some (c, d)"
  by (auto simp: claimSessionOwner_def lease_claim_def lease_of_def Let_def split: option.splits if_splits)

lemma release_lease: "lease_of (releaseSessionOwner (Some c) s) = lease_release c (lease_of s)"
  by (simp add: releaseSessionOwner_def lease_release_def lease_of_def split: option.split)

lemma accept_hello_fields [simp]:
  "lease_of (re_server (accept_hello pw now conn i h d ver r s)) = lease_of s"
  "re_session (accept_hello pw now conn i h d ver r s) = \<lparr>ss_active = True, ss_vdsmDSUID = d, ss_apiVersion = ver\<rparr>"
  "re_close (accept_hello pw now conn i h d ver r s) = False"
  "re_replaced (accept_hello pw now conn i h d ver r s) = r"
  "re_frames (accept_hello pw now conn i h d ver r s) = fst (hello_frames pw now i h (sv_vdc s))"
  "sv_vdc (re_server (accept_hello pw now conn i h d ver r s)) = snd (hello_frames pw now i h (sv_vdc s))"
  by (simp_all add: accept_hello_def Let_def split_beta) (simp_all add: setConnected_def)

lemma stay_fields [simp]:
  "re_server (stay sess s frames) = s" "re_session (stay sess s frames) = sess"
  "re_close (stay sess s frames) = False" "re_replaced (stay sess s frames) = None"
  "re_frames (stay sess s frames) = frames"
  by (simp_all add: stay_def)

lemma push_lease [simp]: "lease_of (nt_server (snd (net_push pw c n))) = lease_of (nt_server n)"
  by (simp add: net_push_def push_update_def Let_def split: option.split prod.split event_type.split)

text \<open>A message either finds no reading connection or reacts in one of the four ways.\<close>

lemma net_message_cases:
  assumes "net_message pw now c payload n = Returned (frames, n')"
  obtains (ignored) "n' = n"
  | (reacted) cn re where "map_of (nt_conns n) c = Some cn" "cn_reading cn"
      "reacts pw now (Some c) (cn_session cn) (nt_server n) re" "frames = re_frames re"
      "n' = \<lparr>nt_server = re_server re, nt_conns = AList.update c
              (cn\<lparr>cn_session := re_session re, cn_reading := \<not> re_close re\<rparr>) (nt_conns n)\<rparr>"
proof (cases "\<exists>cn. map_of (nt_conns n) c = Some cn \<and> cn_reading cn")
  case True
  then obtain cn where cn: "map_of (nt_conns n) c = Some cn" "cn_reading cn" by blast
  with assms obtain re where
    re: "processPbufMessageForConn pw now (Some c) payload (cn_session cn) (nt_server n) = Returned re"
    and "frames = re_frames re"
    "n' = \<lparr>nt_server = re_server re, nt_conns = AList.update c
            (cn\<lparr>cn_session := re_session re, cn_reading := \<not> re_close re\<rparr>) (nt_conns n)\<rparr>"
    by (simp add: net_message_def split: outcome.splits)
  with cn message_reacts [OF re] reacted show ?thesis by blast
next
  case False
  with assms have "n' = n" by (auto simp: net_message_def split: option.splits)
  with ignored show ?thesis .
qed

lemma message_lease:
  assumes "net_message pw now c payload n = Returned (frames, n')"
  shows "lease_of (nt_server n') = lease_of (nt_server n) \<or>
     (\<exists>d. lease_of (nt_server n') = lease_claim c d (lease_of (nt_server n)))"
  using assms
proof (cases rule: net_message_cases)
  case (reacted cn re)
  from reacted(3) show ?thesis
    by cases (auto simp: reacted(5) dest: claim_lease(1))
qed simp

section \<open>Invariant\<close>

text \<open>The holder of the lease is a connection, and while it reads its session is the one of the lease.\<close>

definition owner_ok :: "'w net \<Rightarrow> bool" where
  "owner_ok n \<longleftrightarrow> (\<forall>c d. lease_of (nt_server n) = Some (c, d) \<longrightarrow>
     (\<exists>cn. map_of (nt_conns n) c = Some cn \<and> (cn_reading cn \<longrightarrow>
        ss_active (cn_session cn) \<and> ss_vdsmDSUID (cn_session cn) = d \<and> d \<noteq> [] \<and>
        ss_apiVersion (cn_session cn) \<in> {APIVersionMin..APIVersionMax})))"

lemma owner_ok_message:
  assumes "owner_ok n" and "net_message pw now c payload n = Returned (frames, n')"
  shows "owner_ok n'"
  using assms(2)
proof (cases rule: net_message_cases)
  case (reacted cn re)
  from reacted(3) show ?thesis
    by cases (use assms(1) reacted(1,2) in \<open>auto simp: reacted(5) owner_ok_def dest!: claim_lease(2)\<close>)
qed (use assms(1) in simp)

lemma owner_ok_do:
  assumes "owner_ok n" and "net_do pw op n = Returned (frames, n')"
  shows "owner_ok n'"
proof (cases op)
  case (Connect c)
  with assms show ?thesis
    by (auto simp: owner_ok_def net_connect_def go_has_def split: if_splits)
next
  case (Message now c payload)
  with assms owner_ok_message show ?thesis by fastforce
next
  case (Finish c)
  with assms show ?thesis
    by (auto simp: owner_ok_def net_finish_def release_lease lease_release_def Let_def
        split: option.splits if_splits prod.splits)
next
  case (Event now e)
  with assms show ?thesis by (auto simp: owner_ok_def)
next
  case (Push c)
  have "nt_conns (snd (net_push pw c n)) = nt_conns n"
    by (simp add: net_push_def Let_def split: option.split prod.split)
  with Push assms show ?thesis by (auto simp: owner_ok_def) (metis push_lease snd_conv)+
qed

lemma reach_owner_ok: "net_reach pw v n \<Longrightarrow> owner_ok n"
proof (induction rule: net_reach.induct)
  case reach_net0
  then show ?case by (simp add: owner_ok_def lease_of_def net0_def)
next
  case reach_do
  then show ?case using owner_ok_do by blast
qed

section \<open>Greetings\<close>

text \<open>The hello a vdSM sends: its dSUID and the API version it speaks.\<close>

definition hello_body :: "protowire \<Rightarrow> string \<Rightarrow> u64 \<Rightarrow> byte list" where
  "hello_body pw d ver = pw_tag pw 1 BytesType @ pw_string pw d @ pw_tag pw 2 VarintType @ pw_varint pw ver"

definition hello_request :: "protowire \<Rightarrow> u32 \<Rightarrow> string \<Rightarrow> u64 \<Rightarrow> byte list" where
  "hello_request pw i d ver = msg_head pw 2 @ msg_id pw i True @ sub_message pw 100 (hello_body pw d ver)"

context wire
begin

lemma parse_hello_body:
  "length d < 2 ^ 63 \<Longrightarrow> parsePbufHelloRequest pw (hello_body pw d ver) = Some (Inr (d, sint ver))"
  using field_rt(1) [of ver "[]"]
  by (simp add: parsePbufHelloRequest_def hello_body_def wire_run_field hello_step_def)

lemma process_hello:
  assumes "length (hello_body pw d ver) < 2 ^ 63"
  shows "processPbufMessageForConn pw now conn (hello_request pw i d ver) sess s =
     Returned (handle_hello pw now conn i True d (sint ver) sess s)"
proof -
  have "length d \<le> length (pw_string pw d)"
    using bytes_longer [of "str_bytes d"] by (simp add: pw_string_def)
  then have "length d < 2 ^ 63" using assms by (simp add: hello_body_def)
  then show ?thesis
    using assms parse_generic_envelope [of "hello_body pw d ver" 100 2 i True]
    by (simp add: processPbufMessageForConn_def hello_request_def dispatch_def Let_def with_sub_def
        mustPbufSubMessage_def decoded_def parse_hello_body)
qed

end

section \<open>Properties\<close>

text \<open>
  C1: no message ends the server but one: whatever bytes arrive, processing them returns, unless they are
  a generic response whose body makes \<^verbatim>\<open>parsePbufGenericResponseCode\<close> slice out of range.
\<close>

theorem server_survives:
  assumes "wire pw"
  shows "case processPbufMessageForConn pw now conn payload sess s of
      Returned re \<Rightarrow> True
    | OutOfFuel \<Rightarrow> False
    | Panicked \<Rightarrow> \<exists>env gen. parsePbufEnvelope pw payload = Some (Inr env) \<and> ev_type env = 1 \<and>
        map_of (ev_sub env) 3 = Some gen \<and> parsePbufGenericResponseCode pw gen = Panicked"
proof -
  obtain r where r: "parsePbufEnvelope pw payload = Some r"
    using wire.parse_envelope_terminates [OF assms] by auto
  show ?thesis
  proof (cases r)
    case (Inr env)
    show ?thesis
    proof (cases "ev_type env = 1")
      case True
      with r Inr wire.generic_code_returns [OF assms]
        wire.dispatch_response [OF assms True, of now conn sess s] show ?thesis
        by (auto simp: processPbufMessageForConn_def absorb_response_def split: option.split outcome.split)
    next
      case False
      then obtain re where "dispatch pw now conn env sess s = Returned re"
        using wire.dispatch_returns [OF assms False, of now conn sess s] by (auto simp: returns_def)
      with r Inr show ?thesis by (simp add: processPbufMessageForConn_def)
    qed
  qed (simp add: processPbufMessageForConn_def r)
qed

definition lamp_server :: "(string \<times> int \<times> f64) list server" where
  "lamp_server = \<lparr>sv_vdc = lamp_vdc, sv_conn = None, sv_dsuid = [],
     sv_status = \<lparr>sa_connected = False, sa_remote = None, sa_vdsmDSUID = [], sa_apiVersion = 0\<rparr>\<rparr>"

definition sess0 :: session where
  "sess0 = zero_session\<lparr>ss_active := True\<rparr>"

text \<open>The server after connection 1 greeted as the vdSM A.\<close>

definition greeting :: "(string \<times> int \<times> f64) list reaction" where
  "greeting = handle_hello std_wire 5 (Some 1) 1 True ''A'' (sint (3 :: u64)) zero_session
     (nt_server (net_connect 1 (net0 lamp_vdc)))"

definition greeted :: "(string \<times> int \<times> f64) list net" where
  "greeted = \<lparr>nt_server = re_server greeting, nt_conns =
     [(1, \<lparr>cn_session = re_session greeting, cn_sub = Some 0, cn_reading = True\<rparr>)]\<rparr>"

lemma short_hello: "length (hello_body std_wire [c] 3) < 2 ^ 63"
  by (simp add: hello_body_def std_wire_eval)

lemma greeting_accepted:
  "greeting = accept_hello std_wire 5 (Some 1) 1 True ''A'' 3 None
     ((nt_server (net_connect 1 (net0 lamp_vdc)))\<lparr>sv_conn := Some 1, sv_dsuid := ''A''\<rparr>)"
proof -
  have "sv_conn (nt_server (net_connect 1 (net0 lamp_vdc))) = None"
    by (simp add: net_connect_def net0_def upd_state_def upd_vdc_def)
  then show ?thesis
    by (simp add: greeting_def handle_hello_def claimSessionOwner_def APIVersionMin_def APIVersionMax_def Let_def)
      (simp add: zero_session_def)
qed

lemma greeted_holder: "sv_conn (nt_server greeted) = Some 1" "sv_dsuid (nt_server greeted) = ''A''"
    "sa_connected (sv_status (nt_server greeted))"
  by (simp_all add: greeted_def greeting_accepted accept_hello_def setConnected_def Let_def split_beta)

lemma greeted_conns: "nt_conns greeted = [(1, \<lparr>cn_session = re_session greeting, cn_sub = Some 0, cn_reading = True\<rparr>)]"
  by (simp add: greeted_def)

lemma greeted_reach: "net_reach std_wire lamp_vdc greeted"
proof -
  have c: "net_reach std_wire lamp_vdc (net_connect 1 (net0 lamp_vdc))"
    by (rule reach_do [OF reach_net0, where op = "Connect 1" and frames = "[]"]) simp
  have p: "processPbufMessageForConn std_wire 5 (Some 1) (hello_request std_wire 1 ''A'' 3) zero_session
      (nt_server (net_connect 1 (net0 lamp_vdc))) = Returned greeting"
    unfolding greeting_def by (rule std.process_hello) (rule short_hello)
  have "re_close greeting = False" by (simp add: greeting_accepted)
  moreover have "nt_conns (net_connect 1 (net0 lamp_vdc)) = [(1, \<lparr>cn_session = zero_session,
      cn_sub = Some 0, cn_reading = True\<rparr>)]"
    by (simp add: net_connect_def net0_def Subscribe_def NewStateStore_def go_has_def)
  ultimately have "net_do std_wire (Message 5 1 (hello_request std_wire 1 ''A'' 3)) (net_connect 1 (net0 lamp_vdc))
      = Returned (re_frames greeting, greeted)"
    using p by (simp add: net_message_def greeted_def)
  with c show ?thesis by (rule reach_do)
qed

theorem server_survives_witness:
  "processPbufMessageForConn std_wire 5 (Some 1) [8, 6] zero_session lamp_server \<noteq> OutOfFuel"
  using server_survives [OF std.wire_axioms, where now = 5 and conn = "Some 1" and payload = "[8, 6]"
      and sess = zero_session and s = lamp_server]
  by (auto split: outcome.splits)

text \<open>
  C2: without a session there is no effect: a message on a connection that is not authorised leaves
  devices, scenes, settings, ramps and commander as they are; a hello that it completes may only
  reconcile the announced devices.
\<close>

theorem no_session_no_effect:
  assumes "processPbufMessageForConn pw now conn payload sess s = Returned re"
    and "\<not> authorised conn sess s"
  shows "sv_vdc (re_server re) = sv_vdc s \<or>
     (ss_active (re_session re) \<and>
      sv_vdc (re_server re) = snd (reconcile (map fst (vdc_devices now (sv_vdc s))) (sv_vdc s)))"
  using message_reacts [OF assms(1)]
proof cases
  case (hello vdsm version replaced s' msgID hasID)
  then have "sv_vdc s' = sv_vdc s"
    by (auto simp: claimSessionOwner_def Let_def split: option.splits if_splits)
  with hello show ?thesis by (simp add: hello_frames_def Let_def split_beta)
qed (use assms(2) in auto)

theorem no_session_no_effect_witness:
  "\<exists>re. processPbufMessageForConn std_wire 5 (Some 1) (hello_request std_wire 1 ''A'' 3) zero_session lamp_server
       = Returned re \<and>
     (sv_vdc (re_server re) = lamp_vdc \<or> (ss_active (re_session re) \<and>
        sv_vdc (re_server re) = snd (reconcile (map fst (vdc_devices 5 lamp_vdc)) lamp_vdc)))"
proof -
  let ?re = "handle_hello std_wire 5 (Some 1) 1 True ''A'' (sint (3 :: u64)) zero_session lamp_server"
  have p: "processPbufMessageForConn std_wire 5 (Some 1) (hello_request std_wire 1 ''A'' 3) zero_session lamp_server
      = Returned ?re"
    by (rule std.process_hello) (rule short_hello)
  have "\<not> authorised (Some 1) zero_session lamp_server" by (simp add: authorised_def zero_session_def)
  from no_session_no_effect [OF p this] p show ?thesis by (auto simp: lamp_server_def)
qed

text \<open>
  C3: the sessions of the server refine the lease: whatever happens on whatever connections, the
  holder of the session changes only as the lease does, by a claim of the connection a message came
  from or by the release when a connection ends.
\<close>

theorem sessions_refine_lease:
  assumes "net_do pw op n = Returned (frames, n')"
  shows "(case op of
      Message now c payload \<Rightarrow> lease_of (nt_server n') \<in>
        insert (lease_of (nt_server n)) (range (\<lambda>d. lease_claim c d (lease_of (nt_server n))))
    | Finish c \<Rightarrow> lease_of (nt_server n') =
        (if go_has (nt_conns n) c then lease_release c (lease_of (nt_server n)) else lease_of (nt_server n))
    | _ \<Rightarrow> lease_of (nt_server n') = lease_of (nt_server n))"
proof (cases op)
  case (Message now c payload)
  with assms message_lease show ?thesis by fastforce
next
  case (Push c)
  with assms push_lease [of pw c n] show ?thesis by simp
qed (use assms in \<open>auto simp: net_connect_def net_finish_def go_has_def release_lease Let_def
    split: option.splits\<close>)

theorem sessions_refine_lease_witness:
  "lease_of (nt_server (net_finish 1 greeted)) = lease_release 1 (lease_of (nt_server greeted))"
proof -
  have "net_do std_wire (Finish 1) greeted = Returned ([], net_finish 1 greeted)" by simp
  from sessions_refine_lease [OF this] show ?thesis by (simp add: greeted_conns go_has_def)
qed

text \<open>
  C4: in every reachable state the session has at most one holder: an open connection that, as long
  as it reads, greeted with the dSUID of the lease and an API version that is served, and no other
  connection is authorised.
\<close>

theorem one_session:
  assumes "net_reach pw v n"
  shows "case sv_conn (nt_server n) of
      None \<Rightarrow> \<not> authorised (Some c) sess (nt_server n)
    | Some h \<Rightarrow> (\<exists>cn. map_of (nt_conns n) h = Some cn \<and>
          (if cn_reading cn then authorised (Some h) (cn_session cn) (nt_server n) \<and>
             ss_vdsmDSUID (cn_session cn) = sv_dsuid (nt_server n) \<and>
             ss_apiVersion (cn_session cn) \<in> {2..3} else True)) \<and>
        authorised (Some c) sess (nt_server n) = (c = h \<and> ss_active sess)"
proof (cases "sv_conn (nt_server n)")
  case (Some h)
  then have "lease_of (nt_server n) = Some (h, sv_dsuid (nt_server n))" by (simp add: lease_of_def)
  with reach_owner_ok [OF assms] Some show ?thesis
    by (fastforce simp: owner_ok_def authorised_def isSessionOwner_def APIVersionMin_def APIVersionMax_def)
qed (simp add: authorised_def isSessionOwner_def)

theorem one_session_witness:
  "sv_conn (nt_server greeted) = Some 1 \<and> authorised (Some 2) sess0 (nt_server greeted) = False"
  using one_session [OF greeted_reach, of 2 sess0] greeted_holder by simp

text \<open>
  C5: the session cannot be stolen: as long as the connection that holds it has not ended, whatever
  message arrives on whatever connection, the session stays with the same vdSM, up to case.
\<close>

theorem session_not_stolen:
  assumes "net_reach pw v n" and "net_do pw op n = Returned (frames, n')"
    and "sv_conn (nt_server n) = Some h" and "op \<noteq> Finish h"
  shows "\<exists>h'. sv_conn (nt_server n') = Some h' \<and> equal_fold (sv_dsuid (nt_server n')) (sv_dsuid (nt_server n))"
proof -
  let ?l = "lease_of (nt_server n)"
  have l: "?l = Some (h, sv_dsuid (nt_server n))" using assms(3) by (simp add: lease_of_def)
  have goal: ?thesis if "lease_of (nt_server n') = Some (h', d)" "equal_fold d (sv_dsuid (nt_server n))" for h' d
    using that by (auto simp: lease_of_def)
  have same: ?thesis if "lease_of (nt_server n') = ?l"
    using that l goal by simp
  show ?thesis
  proof (cases op)
    case (Message now c payload)
    with assms(2) have "net_message pw now c payload n = Returned (frames, n')" by simp
    then show ?thesis
    proof (cases rule: net_message_cases)
      case (reacted cn re)
      from reacted(3) show ?thesis
      proof cases
        case (hello d version replaced s' msgID hasID)
        have cl: "lease_of (nt_server n') = lease_claim c d ?l" "lease_of (nt_server n') = Some (c, d)"
          using claim_lease [OF hello(6)] hello(1) reacted(5) by simp_all
        have "equal_fold (sv_dsuid (nt_server n)) d"
        proof (cases "c = h")
          case True
          with l reach_owner_ok [OF assms(1)] reacted(1,2) hello(5) show ?thesis
            by (auto simp: owner_ok_def)
        next
          case False
          with cl l show ?thesis by (auto simp: lease_claim_def split: if_splits)
        qed
        with cl(2) goal show ?thesis by (simp add: equal_fold_sym)
      qed (use same reacted(5) in auto)
    qed (use same in simp)
  next
    case (Finish c)
    with assms(2,4) l have "lease_of (nt_server n') = ?l"
      using sessions_refine_lease [OF assms(2)] by (auto simp: lease_release_def split: if_splits)
    with same show ?thesis .
  next
    case (Push c)
    with assms(2) push_lease [of pw c n] same show ?thesis by simp
  qed (use assms(2) same in \<open>auto simp: net_connect_def split: if_splits\<close>)
qed

theorem session_not_stolen_witness:
  "\<exists>frames n'. net_do std_wire (Message 6 2 (hello_request std_wire 1 ''B'' 3)) (net_connect 2 greeted) =
       Returned (frames, n') \<and> equal_fold (sv_dsuid (nt_server n')) ''A''"
proof -
  let ?n = "net_connect 2 greeted"
  have reach: "net_reach std_wire lamp_vdc ?n"
    by (rule reach_do [OF greeted_reach, where op = "Connect 2" and frames = "[]"]) simp
  have "map_of (nt_conns ?n) 2 \<noteq> None" "\<And>cn. map_of (nt_conns ?n) 2 = Some cn \<Longrightarrow> cn_reading cn"
    by (auto simp: net_connect_def greeted_conns go_has_def)
  then obtain frames n' where
    d: "net_do std_wire (Message 6 2 (hello_request std_wire 1 ''B'' 3)) ?n = Returned (frames, n')"
    using std.process_hello [OF short_hello [of "CHR ''B''"], of 6 "Some 2" 1 _ "nt_server ?n"]
    by (fastforce simp: net_message_def)
  have "sv_conn (nt_server ?n) = Some 1" "sv_dsuid (nt_server ?n) = ''A''"
    using greeted_holder by (auto simp: net_connect_def upd_state_def upd_vdc_def)
  with session_not_stolen [OF reach d] d show ?thesis by fastforce
qed

text \<open>
  A greeting on a second connection takes the session over when it comes from the same vdSM, and
  then the first connection is closed and authorised no longer; a greeting of another vdSM is refused
  and changes nothing.
\<close>

theorem hello_takes_over_or_refused:
  assumes "wire pw" and "length (hello_body pw d ver) < 2 ^ 63" and "d \<noteq> []" and "sint ver \<in> {2..3}"
    and "sv_conn s = Some h" and "h \<noteq> c"
  shows "\<exists>re. processPbufMessageForConn pw now (Some c) (hello_request pw i d ver) zero_session s = Returned re \<and>
     (if equal_fold (sv_dsuid s) d
      then re_replaced re = Some h \<and> authorised (Some c) (re_session re) (re_server re) \<and>
           \<not> isSessionOwner (Some h) (re_server re)
      else re_server re = s \<and> \<not> ss_active (re_session re) \<and> re_frames re =
        [buildPbufGenericResponse pw i True pbufResultServiceUnavailable (other_session (sv_dsuid s))])"
proof -
  let ?re = "handle_hello pw now (Some c) i True d (sint ver) zero_session s"
  have v: "\<not> sint ver < APIVersionMin" "\<not> APIVersionMax < sint ver"
    using assms(4) by (auto simp: APIVersionMin_def APIVersionMax_def)
  show ?thesis
  proof (cases "equal_fold (sv_dsuid s) d")
    case True
    then have "claimSessionOwner (Some c) d s = (Inr (Some h), s\<lparr>sv_conn := Some c, sv_dsuid := d\<rparr>)"
      using assms(5,6) by (simp add: claimSessionOwner_def Let_def)
    then have re: "?re = accept_hello pw now (Some c) i True d (sint ver) (Some h) (s\<lparr>sv_conn := Some c, sv_dsuid := d\<rparr>)"
      using v assms(3) by (simp add: handle_hello_def zero_session_def)
    have "lease_of (re_server ?re) = Some (c, d)" unfolding re by simp (simp add: lease_of_def)
    then have "sv_conn (re_server ?re) = Some c" by (auto simp: lease_of_def)
    moreover have "re_replaced ?re = Some h" "ss_active (re_session ?re)" unfolding re by simp_all
    ultimately have "re_replaced ?re = Some h \<and> authorised (Some c) (re_session ?re) (re_server ?re) \<and>
        \<not> isSessionOwner (Some h) (re_server ?re)"
      using assms(6) by (simp add: authorised_def isSessionOwner_def)
    with True show ?thesis unfolding wire.process_hello [OF assms(1,2)] by (intro exI [of _ ?re]) simp
  next
    case False
    then have "claimSessionOwner (Some c) d s = (Inl (sv_dsuid s), s)"
      using assms(5,6) by (simp add: claimSessionOwner_def Let_def)
    with v assms(3) have re: "?re = stay zero_session s
        [buildPbufGenericResponse pw i True pbufResultServiceUnavailable (other_session (sv_dsuid s))]"
      by (simp add: handle_hello_def Let_def) (simp add: zero_session_def)
    with False show ?thesis unfolding wire.process_hello [OF assms(1,2)]
      by (intro exI [of _ ?re]) (simp add: zero_session_def)
  qed
qed

theorem hello_takes_over_or_refused_witness:
  "\<exists>re. processPbufMessageForConn std_wire 6 (Some 2) (hello_request std_wire 1 ''B'' 3) zero_session
       (nt_server greeted) = Returned re \<and> re_server re = nt_server greeted"
proof -
  have "\<not> equal_fold ''A'' ''B''" by code_simp
  then show ?thesis
    using hello_takes_over_or_refused [OF std.wire_axioms short_hello [of "CHR ''B''"],
        where c = 2 and s = "nt_server greeted" and i = 1 and now = 6]
      greeted_holder by fastforce
qed

text \<open>
  C6: a greeting sets the record straight: every device that was announced is told to vanish, every
  device there is now is announced again, and from then on exactly these are the announced ones,
  whatever was removed or added while no vdSM was connected.
\<close>

theorem hello_reconciles:
  assumes "v_config v = Some cs"
  shows "buildPbufVanish pw ` (set (map fst (cs_announcedDSUIDs cs)) \<union> set (map fst (vdc_devices now v)))
       \<subseteq> set (fst (hello_frames pw now i has v)) \<and>
     (\<lambda>d. buildPbufAnnounceDevice pw d (v_dsuid v)) ` set (map fst (vdc_devices now v))
       \<subseteq> set (fst (hello_frames pw now i has v)) \<and>
     (\<exists>cs'. v_config (snd (hello_frames pw now i has v)) = Some cs' \<and>
        (\<forall>d. go_has (cs_announcedDSUIDs cs') d = (d \<in> set (map fst (vdc_devices now v)))))"
proof -
  let ?cur = "map fst (vdc_devices now v)"
  obtain stale cs' where st: "StaleAnnouncedDSUIDs (v_io v) ?cur cs = (stale, cs')" by fastforce
  with stale_sets [of "v_io v" ?cur cs] have
    sets: "set stale = set (map fst (cs_announcedDSUIDs cs)) - set ?cur"
      "\<And>d. go_has (cs_announcedDSUIDs cs') d \<longleftrightarrow> d \<in> set ?cur" by simp_all
  let ?fr = "set (fst (hello_frames pw now i has v))"
  have h: "hello_frames pw now i has v = ([buildPbufHelloResponse pw i has (v_dsuid v),
      buildPbufAnnounceVdc pw (v_dsuid v)] @ map (buildPbufVanish pw) stale @
      concat (map (hello_device_frames pw (v_dsuid v)) (vdc_devices now v)), v\<lparr>v_config := Some cs'\<rparr>)"
    using assms st by (simp add: hello_frames_def reconcile_def Let_def)
  have fr: "buildPbufVanish pw ` set stale \<subseteq> ?fr"
    "\<And>p. p \<in> set (vdc_devices now v) \<Longrightarrow> set (hello_device_frames pw (v_dsuid v) p) \<subseteq> ?fr"
    unfolding h by auto
  have dev: "buildPbufVanish pw d \<in> ?fr" "buildPbufAnnounceDevice pw d (v_dsuid v) \<in> ?fr"
    if "d \<in> set ?cur" for d
  proof -
    from that obtain props where "(d, props) \<in> set (vdc_devices now v)" by auto
    from fr(2) [OF this] show "buildPbufVanish pw d \<in> ?fr" "buildPbufAnnounceDevice pw d (v_dsuid v) \<in> ?fr"
      by (simp_all add: hello_device_frames_def)
  qed
  moreover have "buildPbufVanish pw d \<in> ?fr" if "d \<in> set (map fst (cs_announcedDSUIDs cs))" for d
    using that fr(1) sets(1) dev(1) by (cases "d \<in> set ?cur") blast+
  moreover have "v_config (snd (hello_frames pw now i has v)) = Some cs'" unfolding h by simp
  ultimately show ?thesis using sets(2) by blast
qed

theorem hello_reconciles_witness:
  "buildPbufVanish std_wire ''GONE'' \<in> set (fst (hello_frames std_wire 5 1 True
     (lamp_vdc\<lparr>v_config := Some (MarkDSUIDAdded True ''GONE'' (NewConfigStore []))\<rparr>)))"
proof -
  have "''GONE'' \<in> set (map fst (cs_announcedDSUIDs (MarkDSUIDAdded True ''GONE'' (NewConfigStore []))))"
    by (simp add: MarkDSUIDAdded_def NewConfigStore_def)
  then show ?thesis
    using hello_reconciles [of "lamp_vdc\<lparr>v_config := Some (MarkDSUIDAdded True ''GONE'' (NewConfigStore []))\<rparr>"
        _ std_wire 5 1 True] by auto
qed

text \<open>
  The end of any connection, be it one that never greeted, makes the status report no session,
  while the session of another connection goes on.
\<close>

theorem stray_disconnect_clears_status:
  assumes "map_of (nt_conns n) c = Some cn" and "sv_conn (nt_server n) = Some h" and "h \<noteq> c"
  shows "sv_conn (nt_server (net_finish c n)) = Some h \<and>
     sv_dsuid (nt_server (net_finish c n)) = sv_dsuid (nt_server n) \<and>
     \<not> sa_connected (sv_status (nt_server (net_finish c n)))"
  using assms by (cases "cn_sub cn")
    (simp_all add: net_finish_def releaseSessionOwner_def setDisconnected_def upd_state_def upd_vdc_def Let_def)

theorem stray_disconnect_clears_status_witness:
  "sa_connected (sv_status (nt_server (net_connect 2 greeted))) \<and>
   sv_conn (nt_server (net_finish 2 (net_connect 2 greeted))) = Some 1 \<and>
   \<not> sa_connected (sv_status (nt_server (net_finish 2 (net_connect 2 greeted))))"
proof -
  obtain cn where "map_of (nt_conns (net_connect 2 greeted)) 2 = Some cn"
    by (auto simp: net_connect_def greeted_conns go_has_def)
  with stray_disconnect_clears_status [of "net_connect 2 greeted" 2 cn 1] greeted_holder
  show ?thesis by (auto simp: net_connect_def upd_state_def upd_vdc_def)
qed

end
