(* ===== verification/Device_Registry.thy ===== *)
theory Device_Registry
  imports Pbuf_Params "HOL-Library.Sublist" "HOL-Library.List_Lexorder" "HOL-Library.Char_ord"
begin

text \<open>
  What a connection of external devices keeps and speaks: the registry of its devices
  (\<^verbatim>\<open>pkg/runtime/registry.go\<close>), the lines of the simple protocol (\<^verbatim>\<open>pkg/protocol/simple.go\<close>) and
  the checks of the JSON messages (\<^verbatim>\<open>pkg/protocol/messages.go\<close>, \<^verbatim>\<open>runtime.go\<close>). An error is its
  text, kept apart from an argument that is printed with \<^verbatim>\<open>%q\<close>.
\<close>

section \<open>Errors\<close>

datatype conn_error = Fixed string | Quoted string string string

text \<open>\<open>q\<close> is \<^verbatim>\<open>strconv.Quote\<close>.\<close>

fun conn_error_text :: "(string \<Rightarrow> string) \<Rightarrow> conn_error \<Rightarrow> string" where
  "conn_error_text q (Fixed s) = s"
| "conn_error_text q (Quoted a s b) = a @ q s @ b"

section \<open>The registry of a connection\<close>

record ext_device =
  dv_Tag :: string
  dv_UniqueID :: string
  dv_Output :: string
  dv_Name :: string

record dev_state =
  ds_Channels :: "(int, f64) gomap"
  ds_Buttons :: "(int, f64) gomap"
  ds_Inputs :: "(int, f64) gomap"
  ds_Sensors :: "(int, f64) gomap"
  ds_SyncInProgress :: bool
  ds_Active :: bool
  ds_OpStateLevel :: int
  ds_OpStateText :: string

definition new_dev_state :: dev_state where
  "new_dev_state = \<lparr>ds_Channels = [], ds_Buttons = [], ds_Inputs = [], ds_Sensors = [],
     ds_SyncInProgress = False, ds_Active = False, ds_OpStateLevel = 0, ds_OpStateText = []\<rparr>"

record dev_registry =
  rg_devices :: "(string, ext_device) gomap"
  rg_states :: "(string, dev_state) gomap"

definition rg_New :: dev_registry where
  "rg_New = \<lparr>rg_devices = [], rg_states = []\<rparr>"

definition rg_Add :: "ext_device \<Rightarrow> dev_registry \<Rightarrow> conn_error option \<times> dev_registry" where
  "rg_Add d r =
     (if go_has (rg_devices r) (dv_Tag d)
      then (Some (Quoted ''device with tag '' (dv_Tag d) '' already exists''), r)
      else (None, r\<lparr>rg_devices := AList.update (dv_Tag d) d (rg_devices r),
                    rg_states := AList.update (dv_Tag d) new_dev_state (rg_states r)\<rparr>))"

definition rg_Remove :: "string \<Rightarrow> dev_registry \<Rightarrow> dev_registry" where
  "rg_Remove tag r = r\<lparr>rg_devices := AList.delete tag (rg_devices r), rg_states := AList.delete tag (rg_states r)\<rparr>"

definition rg_Count :: "dev_registry \<Rightarrow> nat" where
  "rg_Count r = length (rg_devices r)"

definition ResolveTag :: "string \<Rightarrow> dev_registry \<Rightarrow> conn_error + ext_device" where
  "ResolveTag tag r =
     (if tag \<noteq> [] then
        (case map_of (rg_devices r) tag of
           None \<Rightarrow> Inl (Quoted ''no device tagged '' tag '' found'') | Some d \<Rightarrow> Inr d)
      else case rg_devices r of
             [] \<Rightarrow> Inl (Fixed ''no registered device'')
           | [(k, d)] \<Rightarrow> Inr d
           | _ \<Rightarrow> Inl (Fixed ''missing tag''))"

definition FindByUniqueID :: "string \<Rightarrow> dev_registry \<Rightarrow> ext_device option" where
  "FindByUniqueID uid r = find (\<lambda>d. dv_UniqueID d = uid) (map snd (rg_devices r))"

definition upd_dev :: "string \<Rightarrow> (dev_state \<Rightarrow> dev_state) \<Rightarrow> dev_registry \<Rightarrow> dev_registry" where
  "upd_dev tag f r =
     (case map_of (rg_states r) tag of
        None \<Rightarrow> r | Some st \<Rightarrow> r\<lparr>rg_states := AList.update tag (f st) (rg_states r)\<rparr>)"

definition SetSync :: "string \<Rightarrow> bool \<Rightarrow> dev_registry \<Rightarrow> dev_registry" where
  "SetSync tag b = upd_dev tag (\<lambda>st. st\<lparr>ds_SyncInProgress := b\<rparr>)"

definition SetActive :: "string \<Rightarrow> bool \<Rightarrow> dev_registry \<Rightarrow> dev_registry" where
  "SetActive tag b = upd_dev tag (\<lambda>st. st\<lparr>ds_Active := b\<rparr>)"

definition SetOpState :: "string \<Rightarrow> int option \<Rightarrow> string option \<Rightarrow> dev_registry \<Rightarrow> dev_registry" where
  "SetOpState tag level txt = upd_dev tag (\<lambda>st.
     st\<lparr>ds_OpStateLevel := (case level of Some n \<Rightarrow> n | None \<Rightarrow> ds_OpStateLevel st),
        ds_OpStateText := (case txt of Some t \<Rightarrow> t | None \<Rightarrow> ds_OpStateText st)\<rparr>)"

definition SetChannel :: "string \<Rightarrow> int \<Rightarrow> f64 \<Rightarrow> dev_registry \<Rightarrow> dev_registry" where
  "SetChannel tag i x = upd_dev tag (\<lambda>st. st\<lparr>ds_Channels := AList.update i x (ds_Channels st)\<rparr>)"

definition SetButton :: "string \<Rightarrow> int \<Rightarrow> f64 \<Rightarrow> dev_registry \<Rightarrow> dev_registry" where
  "SetButton tag i x = upd_dev tag (\<lambda>st. st\<lparr>ds_Buttons := AList.update i x (ds_Buttons st)\<rparr>)"

definition SetInput :: "string \<Rightarrow> int \<Rightarrow> f64 \<Rightarrow> dev_registry \<Rightarrow> dev_registry" where
  "SetInput tag i x = upd_dev tag (\<lambda>st. st\<lparr>ds_Inputs := AList.update i x (ds_Inputs st)\<rparr>)"

definition SetSensor :: "string \<Rightarrow> int \<Rightarrow> f64 \<Rightarrow> dev_registry \<Rightarrow> dev_registry" where
  "SetSensor tag i x = upd_dev tag (\<lambda>st. st\<lparr>ds_Sensors := AList.update i x (ds_Sensors st)\<rparr>)"

definition AllDevices :: "dev_registry \<Rightarrow> ext_device list" where
  "AllDevices r = map snd (rg_devices r)"

definition rg_Snapshot :: "string \<Rightarrow> dev_registry \<Rightarrow> dev_state option" where
  "rg_Snapshot tag r = map_of (rg_states r) tag"

text \<open>Devices are stored under their tags, and each has a state.\<close>

definition registry_wf :: "dev_registry \<Rightarrow> bool" where
  "registry_wf r \<longleftrightarrow> distinct (map fst (rg_devices r)) \<and> (\<forall>(k, d) \<in> set (rg_devices r). dv_Tag d = k) \<and>
     (\<forall>k. go_has (rg_states r) k = go_has (rg_devices r) k)"

lemma registry_wf_New [simp]: "registry_wf rg_New"
  by (simp add: registry_wf_def rg_New_def go_has_def)

lemma registry_wf_Add: "registry_wf r \<Longrightarrow> registry_wf (snd (rg_Add d r))"
  by (auto simp: registry_wf_def rg_Add_def dest!: set_update_cases)

lemma registry_wf_Remove: "registry_wf r \<Longrightarrow> registry_wf (rg_Remove tag r)"
  by (auto simp: registry_wf_def rg_Remove_def dest!: set_delete_subset)

lemma registry_wf_upd: "registry_wf r \<Longrightarrow> registry_wf (upd_dev tag f r)"
  by (auto simp: registry_wf_def upd_dev_def go_has_def split: option.split)

lemma upd_dev_devices [simp]: "rg_devices (upd_dev tag f r) = rg_devices r"
  by (simp add: upd_dev_def split: option.split)

lemmas registry_setters = SetSync_def SetActive_def SetOpState_def SetChannel_def SetButton_def
  SetInput_def SetSensor_def

lemma ResolveTag_registered: "ResolveTag tag r = Inr d \<Longrightarrow> d \<in> set (AllDevices r)"
  by (force simp: ResolveTag_def AllDevices_def dest: map_of_SomeD split: if_splits option.splits list.splits)

lemma registry_wf_lookup: "registry_wf r \<Longrightarrow> d \<in> set (AllDevices r) \<Longrightarrow> map_of (rg_devices r) (dv_Tag d) = Some d"
  by (auto simp: registry_wf_def AllDevices_def)

lemma FindByUniqueID_Some: "FindByUniqueID uid r = Some d \<Longrightarrow> d \<in> set (AllDevices r) \<and> dv_UniqueID d = uid"
  by (auto simp: FindByUniqueID_def AllDevices_def find_Some_iff)

section \<open>Messages\<close>

record init_message =
  im_Message :: string
  im_Protocol :: string
  im_Tag :: string
  im_UniqueID :: string
  im_Output :: string
  im_Name :: string

record initvdc_message =
  iv_Message :: string
  iv_ModelName :: string
  iv_ModelVersion :: string
  iv_IconName :: string
  iv_ConfigURL :: string
  iv_AlwaysVisible :: "bool option"
  iv_Name :: string

definition zero_init :: init_message where
  "zero_init = \<lparr>im_Message = [], im_Protocol = [], im_Tag = [], im_UniqueID = [], im_Output = [], im_Name = []\<rparr>"

definition zero_initvdc :: initvdc_message where
  "zero_initvdc = \<lparr>iv_Message = [], iv_ModelName = [], iv_ModelVersion = [], iv_IconName = [], iv_ConfigURL = [],
     iv_AlwaysVisible = None, iv_Name = []\<rparr>"

text \<open>
  \<^verbatim>\<open>json.Unmarshal\<close> of a marshalled object into a struct: the keys come in ascending order, a key
  is matched to a field in any case, null leaves the field alone, and a value of a wrong type is
  an error that does not keep the other fields from being set. The first error is reported.
\<close>

fun json_kind :: "gany \<Rightarrow> string" where
  "json_kind (GStr s) = ''string''"
| "json_kind (GBool b) = ''bool''"
| "json_kind (GArr vs) = ''array''"
| "json_kind (GStrs vs) = ''array''"
| "json_kind (GObj m) = ''object''"
| "json_kind _ = ''number''"

definition json_type_error :: "string \<Rightarrow> string \<Rightarrow> gany \<Rightarrow> string" where
  "json_type_error fld ty v =
     ''json: cannot unmarshal '' @ json_kind v @ '' into Go struct field '' @ fld @ '' of type '' @ ty"

type_synonym 'r json_setter = "gany \<Rightarrow> 'r \<Rightarrow> string + 'r"

definition into_string :: "string \<Rightarrow> (string \<Rightarrow> 'r \<Rightarrow> 'r) \<Rightarrow> 'r json_setter" where
  "into_string fld upd v r =
     (case v of GStr s \<Rightarrow> Inr (upd s r) | GNil \<Rightarrow> Inr r | _ \<Rightarrow> Inl (json_type_error fld ''string'' v))"

definition into_bool_ptr :: "string \<Rightarrow> (bool option \<Rightarrow> 'r \<Rightarrow> 'r) \<Rightarrow> 'r json_setter" where
  "into_bool_ptr fld upd v r =
     (case v of GBool b \<Rightarrow> Inr (upd (Some b) r) | GNil \<Rightarrow> Inr (upd None r)
      | _ \<Rightarrow> Inl (json_type_error fld ''bool'' v))"

definition json_step ::
  "(string \<times> 'r json_setter) list \<Rightarrow> string \<times> gany \<Rightarrow> string option \<times> 'r \<Rightarrow> string option \<times> 'r" where
  "json_step flds = (\<lambda>(k, v) (err, r).
     case find (\<lambda>(name, put). equal_fold k name) flds of
       None \<Rightarrow> (err, r)
     | Some (name, put) \<Rightarrow>
         (case put v r of Inr r' \<Rightarrow> (err, r')
          | Inl e \<Rightarrow> (if err = None then Some e else err, r)))"

definition json_into :: "(string \<times> 'r json_setter) list \<Rightarrow> obj \<Rightarrow> 'r \<Rightarrow> string option \<times> 'r" where
  "json_into flds obj r = fold (json_step flds) (sort_key fst obj) (None, r)"

definition init_fields :: "(string \<times> init_message json_setter) list" where
  "init_fields =
     [(''message'', into_string ''InitMessage.message'' (\<lambda>s r. r\<lparr>im_Message := s\<rparr>)),
      (''protocol'', into_string ''InitMessage.protocol'' (\<lambda>s r. r\<lparr>im_Protocol := s\<rparr>)),
      (''tag'', into_string ''InitMessage.tag'' (\<lambda>s r. r\<lparr>im_Tag := s\<rparr>)),
      (''uniqueid'', into_string ''InitMessage.uniqueid'' (\<lambda>s r. r\<lparr>im_UniqueID := s\<rparr>)),
      (''output'', into_string ''InitMessage.output'' (\<lambda>s r. r\<lparr>im_Output := s\<rparr>)),
      (''name'', into_string ''InitMessage.name'' (\<lambda>s r. r\<lparr>im_Name := s\<rparr>))]"

definition initvdc_fields :: "(string \<times> initvdc_message json_setter) list" where
  "initvdc_fields =
     [(''message'', into_string ''InitVDCMessage.message'' (\<lambda>s r. r\<lparr>iv_Message := s\<rparr>)),
      (''modelname'', into_string ''InitVDCMessage.modelname'' (\<lambda>s r. r\<lparr>iv_ModelName := s\<rparr>)),
      (''modelVersion'', into_string ''InitVDCMessage.modelVersion'' (\<lambda>s r. r\<lparr>iv_ModelVersion := s\<rparr>)),
      (''iconname'', into_string ''InitVDCMessage.iconname'' (\<lambda>s r. r\<lparr>iv_IconName := s\<rparr>)),
      (''configurl'', into_string ''InitVDCMessage.configurl'' (\<lambda>s r. r\<lparr>iv_ConfigURL := s\<rparr>)),
      (''alwaysVisible'', into_bool_ptr ''InitVDCMessage.alwaysVisible'' (\<lambda>b r. r\<lparr>iv_AlwaysVisible := b\<rparr>)),
      (''name'', into_string ''InitVDCMessage.name'' (\<lambda>s r. r\<lparr>iv_Name := s\<rparr>))]"

definition ValidateInit :: "init_message \<Rightarrow> conn_error option" where
  "ValidateInit m =
     (if im_Message m \<noteq> ''init'' then Some (Quoted ''invalid init message type '' (im_Message m) [])
      else if im_UniqueID m = [] then Some (Fixed ''missing uniqueid'')
      else if im_Protocol m \<noteq> [] \<and> im_Protocol m \<noteq> ''json'' \<and> im_Protocol m \<noteq> ''simple''
        then Some (Quoted ''unknown protocol '' (im_Protocol m) [])
      else None)"

definition hasKey :: "obj \<Rightarrow> string \<Rightarrow> bool" where "hasKey obj k = go_has obj k"

definition hasAny :: "obj \<Rightarrow> string list \<Rightarrow> bool" where "hasAny obj ks = list_ex (hasKey obj) ks"

definition hasString :: "obj \<Rightarrow> string \<Rightarrow> bool" where
  "hasString obj k = (case map_of obj k of Some (GStr s) \<Rightarrow> s \<noteq> [] | _ \<Rightarrow> False)"

fun isNumber :: "gany \<Rightarrow> bool" where
  "isNumber (GFloat x) = True"
| "isNumber _ = False"

fun isBoolLike :: "gany \<Rightarrow> bool" where
  "isBoolLike (GBool b) = True"
| "isBoolLike v = isNumber v"

fun is_str :: "gany \<Rightarrow> bool" where "is_str (GStr s) = True" | "is_str _ = False"
fun is_obj :: "gany \<Rightarrow> bool" where "is_obj (GObj m) = True" | "is_obj _ = False"
fun is_arr :: "gany \<Rightarrow> bool" where "is_arr (GArr vs) = True" | "is_arr _ = False"

text \<open>The first check that fails gives the error.\<close>

definition checks :: "(bool \<times> string) list \<Rightarrow> conn_error option" where
  "checks cs = map_option (\<lambda>(_, txt). Fixed txt) (find (\<lambda>(bad, _). bad) cs)"

definition absent_or :: "(gany \<Rightarrow> bool) \<Rightarrow> obj \<Rightarrow> string \<Rightarrow> bool" where
  "absent_or p obj k = (case map_of obj k of None \<Rightarrow> True | Some v \<Rightarrow> p v)"

definition apos :: "string \<Rightarrow> string" where
  "apos s = CHR 0x27 # s @ [CHR 0x27]"

definition ValidateDeviceMessageJSON :: "string \<Rightarrow> obj \<Rightarrow> conn_error option" where
  "ValidateDeviceMessageJSON msg obj =
     (if msg = ''channel'' then checks
        [(\<not> hasAny obj [''index'', ''id'', ''type''], ''missing '' @ apos ''id'' @ '', '' @ apos ''index'' @ '' or '' @ apos ''type''),
         (\<not> hasKey obj ''value'', ''missing '' @ apos ''value'')]
      else if msg = ''channel_progress'' \<or> msg = ''channel_config'' then checks
        [(\<not> hasAny obj [''index'', ''id'', ''type''], ''missing '' @ apos ''id'' @ '', '' @ apos ''index'' @ '' or '' @ apos ''type''),
         (\<not> hasKey obj ''value'' \<and> msg \<noteq> ''channel_config'', ''missing '' @ apos ''value'')]
      else if msg = ''button'' \<or> msg = ''input'' \<or> msg = ''sensor'' then checks
        [(\<not> hasAny obj [''index'', ''id''], ''missing '' @ apos ''id'' @ '' or '' @ apos ''index''),
         (\<not> hasKey obj ''value'', ''missing '' @ apos ''value'')]
      else if msg = ''sync'' \<or> msg = ''synced'' \<or> msg = ''bye'' then None
      else if msg = ''active'' then checks
        [(\<not> absent_or isBoolLike obj ''value'', apos ''value'' @ '' must be boolean-like'')]
      else if msg = ''opstate'' then checks
        [(\<not> absent_or isNumber obj ''level'', apos ''level'' @ '' must be numeric''),
         (\<not> absent_or is_str obj ''text'', apos ''text'' @ '' must be string'')]
      else if msg = ''confirmAction'' then checks
        [(\<not> hasString obj ''action'', ''confirmAction must identify '' @ apos ''action'')]
      else if msg = ''updateProperty'' then checks
        [(\<not> hasString obj ''property'', ''updateProperty must identify '' @ apos ''property''),
         (\<not> hasKey obj ''value'' \<and> \<not> hasKey obj ''push'', ''updateProperty needs '' @ apos ''value'' @ '' and/or '' @ apos ''push'')]
      else if msg = ''pushNotification'' then checks
        [(\<not> hasKey obj ''statechange'' \<and> \<not> hasKey obj ''events'',
          ''pushNotification needs '' @ apos ''statechange'' @ '' and/or '' @ apos ''events''),
         (\<not> absent_or is_obj obj ''statechange'', apos ''statechange'' @ '' must be an object''),
         (\<not> absent_or is_arr obj ''events'', apos ''events'' @ '' must be an array'')]
      else if msg = ''dynamicAction'' then checks
        [(\<not> hasKey obj ''changes'', ''dynamicAction needs '' @ apos ''changes''),
         (\<not> absent_or is_obj obj ''changes'', apos ''changes'' @ '' must be an object'')]
      else Some (Quoted ''unknown message '' msg []))"

section \<open>The simple protocol\<close>

record simple_message =
  sm_Tag :: string
  sm_Cmd :: string
  sm_Value :: string

text \<open>What is before and after the first occurrence of a character.\<close>

definition cut_at :: "char \<Rightarrow> string \<Rightarrow> (string \<times> string) option" where
  "cut_at c s = (if c \<in> set s then Some (takeWhile (\<lambda>x. x \<noteq> c) s, tl (dropWhile (\<lambda>x. x \<noteq> c) s)) else None)"

definition ParseSimpleLine :: "string \<Rightarrow> conn_error + simple_message" where
  "ParseSimpleLine line0 =
     (let line = trim_space line0
      in if line = [] then Inl (Fixed ''empty message'')
         else let (tag, body) = (case cut_at (CHR '':'') line of
                    None \<Rightarrow> ([], line) | Some (a, b) \<Rightarrow> (trim_space a, trim_space b));
                  (cmd, value) = (case cut_at (CHR ''='') body of
                    None \<Rightarrow> (trim_space body, []) | Some (a, b) \<Rightarrow> (trim_space a, trim_space b))
              in if cmd = [] then Inl (Fixed ''missing command'')
                 else Inr \<lparr>sm_Tag = tag, sm_Cmd = cmd, sm_Value = value\<rparr>)"

definition FormatSimpleStatus :: "bool \<Rightarrow> string \<Rightarrow> string \<Rightarrow> string" where
  "FormatSimpleStatus ok errMsg tag =
     (let body = (if ok then ''OK'' else ''ERROR='' @ errMsg)
      in if tag \<noteq> [] then tag @ '':'' @ body else body)"

end
