(* ===== verification/Connector.thy ===== *)
theory Connector
  imports Device_Registry
begin

text \<open>
  The connections of external devices (\<^verbatim>\<open>pkg/server/connector*.go\<close>) and the server that holds them
  (\<^verbatim>\<open>server.go\<close>). What a connection does to the outside is the list \<open>ct_effects\<close>, oldest first: the
  events it emits and the lines it writes; a JSON line is the value that is marshalled. \<open>ct_up\<close> is
  whether the peer takes what is written. Times are nanoseconds and an argument \<open>now\<close> stands for
  \<^verbatim>\<open>time.Now()\<close>; \<open>unmarshal\<close> is \<^verbatim>\<open>json.Unmarshal\<close> of a text into a value of type \<^verbatim>\<open>any\<close>, or its
  error, and \<open>q\<close> is \<^verbatim>\<open>strconv.Quote\<close>. An error carries the tag it is reported under.
\<close>

section \<open>State\<close>

record button_seq =
  bs_pressedAt :: "int option"
  bs_lastRelease :: "int option"
  bs_clickCount :: int
  bs_mode :: string

definition zero_button :: button_seq where
  "zero_button = \<lparr>bs_pressedAt = None, bs_lastRelease = None, bs_clickCount = 0, bs_mode = []\<rparr>"

datatype out_line = Plain string | Json obj
datatype effect = Emit event | Write out_line

record connector =
  ct_addr :: string
  ct_registry :: dev_registry
  ct_vdcInfo :: initvdc_message
  ct_simple :: bool
  ct_onEvent :: bool
  ct_up :: bool
  ct_buttons :: "(string, button_seq) gomap"
  ct_effects :: "effect list"

type_synonym tagged_error = "string \<times> conn_error"

definition NewConnector :: "string \<Rightarrow> bool \<Rightarrow> connector" where
  "NewConnector addr hooked = \<lparr>ct_addr = addr, ct_registry = rg_New, ct_vdcInfo = zero_initvdc, ct_simple = False,
     ct_onEvent = hooked, ct_up = True, ct_buttons = [], ct_effects = []\<rparr>"

definition emitEvent :: "event \<Rightarrow> connector \<Rightarrow> connector" where
  "emitEvent e c =
     (if ct_onEvent c then c\<lparr>ct_effects := ct_effects c @ [Emit (e\<lparr>e_Connection := ct_addr c\<rparr>)]\<rparr> else c)"

definition writeLine :: "out_line \<Rightarrow> connector \<Rightarrow> conn_error option \<times> connector" where
  "writeLine l c =
     (if ct_up c then (None, c\<lparr>ct_effects := ct_effects c @ [Write l]\<rparr>)
      else (Some (Fixed ''write failed''), c))"

definition upd_reg :: "(dev_registry \<Rightarrow> dev_registry) \<Rightarrow> connector \<Rightarrow> connector" where
  "upd_reg f c = c\<lparr>ct_registry := f (ct_registry c)\<rparr>"

text \<open>An event of a device: its type, tag and unique id, and a value at an index.\<close>

definition dev_event :: "event_type \<Rightarrow> string \<Rightarrow> string \<Rightarrow> int \<Rightarrow> f64 \<Rightarrow> event" where
  "dev_event t tag uid i x = event0 t\<lparr>e_Tag := tag, e_UniqueID := uid, e_Index := i, e_Value := x\<rparr>"

definition action_event :: "string \<Rightarrow> string \<Rightarrow> int \<Rightarrow> string \<Rightarrow> event" where
  "action_event tag uid i a = event0 EventButtonAction\<lparr>e_Tag := tag, e_UniqueID := uid, e_Index := i, e_Action := a\<rparr>"

definition active_event :: "string \<Rightarrow> string \<Rightarrow> bool \<Rightarrow> event" where
  "active_event tag uid b = event0 EventActive\<lparr>e_Tag := tag, e_UniqueID := uid, e_Active := b\<rparr>"

definition remove_event :: "ext_device \<Rightarrow> event" where
  "remove_event d = event0 EventRemove\<lparr>e_Tag := dv_Tag d, e_UniqueID := dv_UniqueID d\<rparr>"

definition init_event :: "init_message \<Rightarrow> event" where
  "init_event m = event0 EventInit\<lparr>e_Tag := im_Tag m, e_UniqueID := im_UniqueID m, e_Name := im_Name m,
     e_Output := im_Output m\<rparr>"

section \<open>Status lines\<close>

definition withStatusTag :: "string \<Rightarrow> tagged_error option \<Rightarrow> tagged_error option" where
  "withStatusTag tag err = map_option (\<lambda>(_, e). (tag, e)) err"

definition untagged :: "conn_error \<Rightarrow> tagged_error option" where
  "untagged e = Some ([], e)"

definition status_json :: "(string \<Rightarrow> string) \<Rightarrow> conn_error option \<Rightarrow> string \<Rightarrow> obj" where
  "status_json q err tag =
     [(''message'', GStr ''status''), (''status'', GStr (if err = None then ''ok'' else ''error''))] @
     (case err of
        None \<Rightarrow> []
      | Some e \<Rightarrow> [(''errorcode'', GInt 1)] @
          (let t = conn_error_text q e in if t = [] then [] else [(''errormessage'', GStr t)]) @
          [(''errordomain'', GStr ''vdcgo'')]) @
     (if tag = [] then [] else [(''tag'', GStr tag)])"

definition sendStatus ::
  "(string \<Rightarrow> string) \<Rightarrow> conn_error option \<Rightarrow> string \<Rightarrow> connector \<Rightarrow> conn_error option \<times> connector" where
  "sendStatus q err tag c =
     writeLine (if ct_simple c
       then Plain (FormatSimpleStatus (err = None) (case err of None \<Rightarrow> [] | Some e \<Rightarrow> conn_error_text q e) tag)
       else Json (status_json q err tag)) c"

section \<open>Buttons\<close>

definition buttonHoldThreshold :: int where "buttonHoldThreshold = 700000000"
definition buttonMultiClickWindow :: int where "buttonMultiClickWindow = 450000000"
definition buttonDimRepeatInterval :: int where "buttonDimRepeatInterval = 350000000"
definition buttonDebounceWindow :: int where "buttonDebounceWindow = 0"

definition normalizeButtonMode :: "string \<Rightarrow> string" where
  "normalizeButtonMode mode =
     (if mode \<in> {''single'', ''dimmer'', ''scene'', ''default''} then mode else [])"

definition mapButtonActionByMode :: "string \<Rightarrow> int \<Rightarrow> string \<Rightarrow> string" where
  "mapButtonActionByMode mode i action =
     (if mode \<noteq> ''scene'' then action
      else if action = ''tip'' then ''scene5''
      else if action = ''tip2'' then ''scene0''
      else if action = ''tip3'' then ''scene18''
      else if action = ''tip4'' then ''scene17''
      else if action \<in> {''hold'', ''dimup'', ''dimdown''} then (if i mod 2 = 0 then ''scene43'' else ''scene42'')
      else action)"

definition buttonClickAction :: "int \<Rightarrow> string" where
  "buttonClickAction n =
     (if n \<le> 1 then ''tip'' else if n = 2 then ''tip2'' else if n = 3 then ''tip3'' else ''tip4'')"

definition buttonRepeatCount :: "int \<Rightarrow> int" where
  "buttonRepeatCount d =
     (let extra = d - buttonHoldThreshold in if extra \<le> 0 then 1 else 1 + extra div buttonDimRepeatInterval)"

definition buttonDimRepeatAction :: "int \<Rightarrow> string" where
  "buttonDimRepeatAction i = (if i mod 2 = 0 then ''dimup'' else ''dimdown'')"

definition button_key :: "string \<Rightarrow> int \<Rightarrow> string" where
  "button_key tag i = tag @ ''#'' @ itoa i"

text \<open>The click count and the time of a release that is not a hold.\<close>

definition click_count :: "int \<Rightarrow> button_seq \<Rightarrow> int" where
  "click_count now st =
     (if bs_mode st = ''single'' \<or> bs_mode st = ''dimmer'' then 1
      else case bs_lastRelease st of
             None \<Rightarrow> 1
           | Some t \<Rightarrow> if buttonMultiClickWindow < now - t then 1 else min 4 (bs_clickCount st + 1))"

text \<open>The actions of a release: what a button does, and its state afterwards.\<close>

definition release_actions :: "int \<Rightarrow> int \<Rightarrow> int \<Rightarrow> button_seq \<Rightarrow> string list \<times> button_seq" where
  "release_actions now pressedAt i st0 =
     (let st = st0\<lparr>bs_pressedAt := None\<rparr>; d = now - pressedAt
      in if d < buttonDebounceWindow then ([], st)
         else if buttonHoldThreshold \<le> d then
           ((if bs_mode st \<noteq> ''dimmer'' then [mapButtonActionByMode (bs_mode st) i ''hold''] else []) @
            (if bs_mode st \<in> {''dimmer'', ''default'', []}
             then replicate (nat (buttonRepeatCount d)) (mapButtonActionByMode (bs_mode st) i (buttonDimRepeatAction i))
             else []),
            st\<lparr>bs_clickCount := 0\<rparr>)
         else let n = click_count now st
              in ([mapButtonActionByMode (bs_mode st) i (buttonClickAction n)],
                  st\<lparr>bs_clickCount := n, bs_lastRelease := Some now\<rparr>))"

text \<open>A new mode is kept only when the button state is stored.\<close>

definition emitButtonAction ::
  "int \<Rightarrow> string \<Rightarrow> string \<Rightarrow> int \<Rightarrow> f64 \<Rightarrow> string \<Rightarrow> connector \<Rightarrow> connector" where
  "emitButtonAction now tag uid i value mode c =
     (let key = button_key tag i;
          st0 = go_get zero_button (ct_buttons c) key;
          m = normalizeButtonMode mode;
          st = (if m \<noteq> [] then st0\<lparr>bs_mode := m\<rparr> else st0)
      in if f64_less 0 value then
           (if bs_pressedAt st = None
            then c\<lparr>ct_buttons := AList.update key (st\<lparr>bs_pressedAt := Some now\<rparr>) (ct_buttons c)\<rparr> else c)
         else case bs_pressedAt st of
                None \<Rightarrow> c
              | Some t \<Rightarrow> (case release_actions now t i st of (actions, st') \<Rightarrow>
                  fold (\<lambda>a. emitEvent (action_event tag uid i a)) actions
                    (c\<lparr>ct_buttons := AList.update key st' (ct_buttons c)\<rparr>)))"

section \<open>The simple protocol\<close>

definition parseSimpleIndexedCommand :: "string \<Rightarrow> char \<Rightarrow> conn_error + int" where
  "parseSimpleIndexedCommand cmd p =
     (if length cmd < 2 \<or> hd cmd \<noteq> p then Inl (Quoted ''invalid command '' cmd [])
      else case atoi (tl cmd) of None \<Rightarrow> Inl (Quoted ''invalid index in command '' cmd []) | Some i \<Rightarrow> Inr i)"

definition parseSimpleValue :: "string \<Rightarrow> conn_error + f64" where
  "parseSimpleValue raw =
     (case parse_float (trim_space raw) of None \<Rightarrow> Inl (Quoted ''invalid numeric value '' raw []) | Some x \<Rightarrow> Inr x)"

text \<open>A command with an index and a value.\<close>

definition indexed_command ::
  "simple_message \<Rightarrow> char \<Rightarrow> (int \<Rightarrow> f64 \<Rightarrow> connector \<Rightarrow> connector) \<Rightarrow> connector \<Rightarrow> tagged_error option \<times> connector" where
  "indexed_command m p act c =
     (case parseSimpleIndexedCommand (to_upper (sm_Cmd m)) p of
        Inl e \<Rightarrow> (untagged e, c)
      | Inr i \<Rightarrow> (case parseSimpleValue (sm_Value m) of
                    Inl e \<Rightarrow> (untagged e, c) | Inr x \<Rightarrow> (None, act i x c)))"

definition handleDeviceSimple :: "int \<Rightarrow> simple_message \<Rightarrow> connector \<Rightarrow> tagged_error option \<times> connector" where
  "handleDeviceSimple now m c =
     (let cmd = to_upper (sm_Cmd m)
      in case ResolveTag (sm_Tag m) (ct_registry c) of
           Inl e \<Rightarrow> (untagged e, c)
         | Inr d \<Rightarrow>
             let tag = dv_Tag d; uid = dv_UniqueID d
             in if prefix ''C'' cmd then indexed_command m (CHR ''C'') (\<lambda>i x c.
                     emitEvent (dev_event EventChannel tag uid i x) (upd_reg (SetChannel tag i x) c)) c
                else if prefix ''B'' cmd then indexed_command m (CHR ''B'') (\<lambda>i x c.
                     emitButtonAction now tag uid i x [] (emitEvent (dev_event EventButton tag uid i x)
                       (upd_reg (SetButton tag i x) c))) c
                else if prefix ''I'' cmd then indexed_command m (CHR ''I'') (\<lambda>i x c.
                     emitEvent (dev_event EventInput tag uid i x) (upd_reg (SetInput tag i x) c)) c
                else if prefix ''S'' cmd then indexed_command m (CHR ''S'') (\<lambda>i x c.
                     emitEvent (dev_event EventSensor tag uid i x) (upd_reg (SetSensor tag i x) c)) c
                else if cmd = ''SYNC'' then (None, upd_reg (SetSync tag True) c)
                else if cmd = ''SYNCED'' then (None, upd_reg (SetSync tag False) c)
                else if cmd = ''ACTIVE'' then
                  (case parseSimpleValue (sm_Value m) of
                     Inl e \<Rightarrow> (untagged e, c)
                   | Inr x \<Rightarrow> let b = (\<not> f64_eq x 0)
                              in (None, emitEvent (active_event tag uid b) (upd_reg (SetActive tag b) c)))
                else if prefix ''P'' cmd then (None, c)
                else (untagged (Quoted ''unknown message '' (sm_Cmd m) []), c))"

definition handleSimpleLine :: "int \<Rightarrow> string \<Rightarrow> connector \<Rightarrow> tagged_error option \<times> connector" where
  "handleSimpleLine now line c =
     (case ParseSimpleLine line of
        Inl e \<Rightarrow> (untagged e, c)
      | Inr m \<Rightarrow>
          if prefix ''L'' (sm_Cmd m) then (None, c)
          else (case ResolveTag (sm_Tag m) (ct_registry c) of
                  Inl e \<Rightarrow> (Some (sm_Tag m, e), c)
                | Inr d \<Rightarrow>
                    if equal_fold (sm_Cmd m) ''BYE'' then (None, upd_reg (rg_Remove (dv_Tag d)) c)
                    else (case handleDeviceSimple now m c of (err, c') \<Rightarrow> (withStatusTag (sm_Tag m) err, c'))))"

section \<open>The JSON protocol\<close>

definition indexAndValue :: "obj \<Rightarrow> (int \<times> f64) option" where
  "indexAndValue obj =
     (case (j_get obj ''index'', j_get obj ''value'') of
        (GFloat i, GFloat x) \<Rightarrow> Some (f64_to_int i, x) | _ \<Rightarrow> None)"

fun boolValue :: "gany \<Rightarrow> bool option" where
  "boolValue (GBool b) = Some b"
| "boolValue (GFloat x) = Some (\<not> f64_eq x 0)"
| "boolValue _ = None"

definition obj_str :: "obj \<Rightarrow> string \<Rightarrow> string" where
  "obj_str obj k = (case j_get obj k of GStr s \<Rightarrow> s | _ \<Rightarrow> [])"

text \<open>The registry is updated under the tag of the message, the event carries the tag of the device.\<close>

definition device_message :: "int \<Rightarrow> string \<Rightarrow> obj \<Rightarrow> ext_device \<Rightarrow> connector \<Rightarrow> connector" where
  "device_message now msg obj d c =
     (let tag = obj_str obj ''tag''; dt = dv_Tag d; uid = dv_UniqueID d;
          indexed = (\<lambda>act. case indexAndValue obj of None \<Rightarrow> c | Some (i, x) \<Rightarrow> act i x)
      in if msg = ''channel'' then indexed (\<lambda>i x.
             emitEvent (dev_event EventChannel dt uid i x) (upd_reg (SetChannel tag i x) c))
         else if msg = ''button'' then indexed (\<lambda>i x.
             emitButtonAction now dt uid i x (obj_str obj ''mode'')
               (emitEvent (dev_event EventButton dt uid i x) (upd_reg (SetButton tag i x) c)))
         else if msg = ''input'' then indexed (\<lambda>i x.
             emitEvent (dev_event EventInput dt uid i x) (upd_reg (SetInput tag i x) c))
         else if msg = ''sensor'' then indexed (\<lambda>i x.
             emitEvent (dev_event EventSensor dt uid i x) (upd_reg (SetSensor tag i x) c))
         else if msg = ''sync'' then upd_reg (SetSync tag True) c
         else if msg = ''synced'' then upd_reg (SetSync tag False) c
         else if msg = ''active'' then
           (case boolValue (j_get obj ''value'') of
              None \<Rightarrow> c | Some b \<Rightarrow> emitEvent (active_event dt uid b) (upd_reg (SetActive tag b) c))
         else if msg = ''opstate'' then
           upd_reg (SetOpState tag
             (case j_get obj ''level'' of GFloat x \<Rightarrow> Some (f64_to_int x) | _ \<Rightarrow> None)
             (case j_get obj ''text'' of GStr s \<Rightarrow> Some s | _ \<Rightarrow> None)) c
         else c)"

definition handleDeviceJSON :: "int \<Rightarrow> obj \<Rightarrow> connector \<Rightarrow> tagged_error option \<times> connector" where
  "handleDeviceJSON now obj c =
     (let msg = obj_str obj ''message''; tag = obj_str obj ''tag''
      in case ResolveTag tag (ct_registry c) of
           Inl e \<Rightarrow> (Some (tag, e), c)
         | Inr d \<Rightarrow> (case ValidateDeviceMessageJSON msg obj of
                      Some e \<Rightarrow> (Some (tag, e), c)
                    | None \<Rightarrow> (None, device_message now msg obj d c)))"

definition device_of :: "init_message \<Rightarrow> ext_device" where
  "device_of m = \<lparr>dv_Tag = im_Tag m, dv_UniqueID = im_UniqueID m, dv_Output = im_Output m, dv_Name = im_Name m\<rparr>"

definition handle_init_message :: "(string \<Rightarrow> string) \<Rightarrow> obj \<Rightarrow> connector \<Rightarrow> tagged_error option \<times> connector" where
  "handle_init_message q obj c =
     (case json_into init_fields obj zero_init of
        (Some e, m) \<Rightarrow> (Some (im_Tag m, Fixed (''invalid init message: '' @ e)), c)
      | (None, m) \<Rightarrow>
          (case ValidateInit m of
             Some e \<Rightarrow> (Some (im_Tag m, e), c)
           | None \<Rightarrow>
               if 0 < rg_Count (ct_registry c) \<and> im_Tag m = []
               then (Some ([], Fixed ''missing tag (needed for multiple devices on this connection)''), c)
               else (case rg_Add (device_of m) (ct_registry c) of
                       (Some e, _) \<Rightarrow> (Some (im_Tag m, e), c)
                     | (None, r) \<Rightarrow>
                         let c1 = emitEvent (init_event m) (c\<lparr>ct_registry := r\<rparr>);
                             c2 = (if rg_Count r = 1 \<and> im_Protocol m = ''simple''
                                   then c1\<lparr>ct_simple := True\<rparr> else c1)
                         in (case sendStatus q None (im_Tag m) c2 of
                               (None, c3) \<Rightarrow> (None, c3) | (Some e, c3) \<Rightarrow> (untagged e, c3)))))"

definition handle_bye :: "obj \<Rightarrow> connector \<Rightarrow> tagged_error option \<times> connector" where
  "handle_bye obj c =
     (let tag = obj_str obj ''tag''
      in case ResolveTag tag (ct_registry c) of
           Inl e \<Rightarrow> (Some (tag, e), c)
         | Inr d \<Rightarrow> (None, emitEvent (remove_event d) (upd_reg (rg_Remove (dv_Tag d)) c)))"

definition handle_object ::
  "(string \<Rightarrow> string) \<Rightarrow> int \<Rightarrow> obj \<Rightarrow> connector \<Rightarrow> tagged_error option \<times> connector" where
  "handle_object q now obj c =
     (let msg = obj_str obj ''message''
      in if msg = [] then (untagged (Fixed ''missing message field''), c)
         else if msg = ''init'' then handle_init_message q obj c
         else if msg = ''initvdc'' then
           (case json_into initvdc_fields obj zero_initvdc of
              (Some e, _) \<Rightarrow> (untagged (Fixed (''invalid initvdc message: '' @ e)), c)
            | (None, iv) \<Rightarrow> (None, c\<lparr>ct_vdcInfo := iv\<rparr>))
         else if msg = ''log'' then (None, c)
         else if msg = ''bye'' then handle_bye obj c
         else handleDeviceJSON now obj c)"

text \<open>The objects of a line: the line is refused as a whole when an element is not one.\<close>

fun all_objects :: "nat \<Rightarrow> gany list \<Rightarrow> conn_error + obj list" where
  "all_objects n [] = Inr []"
| "all_objects n (v # vs) =
     (case v of
        GObj m \<Rightarrow> (case all_objects (Suc n) vs of Inl e \<Rightarrow> Inl e | Inr ms \<Rightarrow> Inr (m # ms))
      | _ \<Rightarrow> Inl (Fixed (''JSON array element '' @ itoa (int n) @ '' is not an object'')))"

definition line_objects :: "gany \<Rightarrow> conn_error + obj list" where
  "line_objects v =
     (case v of GObj m \<Rightarrow> Inr [m] | GArr vs \<Rightarrow> all_objects 0 vs
      | _ \<Rightarrow> Inl (Fixed ''message must be JSON object or array''))"

text \<open>The messages of a line are handled up to the first that fails.\<close>

fun each_object ::
  "(obj \<Rightarrow> connector \<Rightarrow> tagged_error option \<times> connector) \<Rightarrow> obj list \<Rightarrow> connector \<Rightarrow> tagged_error option \<times> connector"
where
  "each_object f [] c = (None, c)"
| "each_object f (m # ms) c = (case f m c of (None, c') \<Rightarrow> each_object f ms c' | (Some e, c') \<Rightarrow> (Some e, c'))"

definition handleJSONLine ::
  "(string \<Rightarrow> string) \<Rightarrow> (string \<Rightarrow> string + gany) \<Rightarrow> int \<Rightarrow> string \<Rightarrow> connector \<Rightarrow> tagged_error option \<times> connector"
where
  "handleJSONLine q unmarshal now line c =
     (case unmarshal line of
        Inl e \<Rightarrow> (untagged (Fixed (''invalid JSON: '' @ e)), c)
      | Inr raw \<Rightarrow> (case line_objects raw of
                      Inl e \<Rightarrow> (untagged e, c)
                    | Inr ms \<Rightarrow> each_object (handle_object q now) ms c))"

section \<open>A connection\<close>

definition handleLine ::
  "(string \<Rightarrow> string) \<Rightarrow> (string \<Rightarrow> string + gany) \<Rightarrow> int \<Rightarrow> string \<Rightarrow> connector \<Rightarrow> tagged_error option \<times> connector"
where
  "handleLine q unmarshal now line c =
     (if ct_simple c then handleSimpleLine now line c else handleJSONLine q unmarshal now line c)"

definition run_line ::
  "(string \<Rightarrow> string) \<Rightarrow> (string \<Rightarrow> string + gany) \<Rightarrow> int \<Rightarrow> string \<Rightarrow> connector \<Rightarrow> connector" where
  "run_line q unmarshal now raw c =
     (let line = trim_space raw
      in if line = [] then c
         else case handleLine q unmarshal now line c of
                (None, c') \<Rightarrow> c'
              | (Some (tag, e), c') \<Rightarrow> snd (sendStatus q (Some e) tag c'))"

definition run_end :: "connector \<Rightarrow> connector" where
  "run_end c = fold (\<lambda>d. emitEvent (remove_event d)) (AllDevices (ct_registry c)) c"

text \<open>\<^verbatim>\<open>fmt.Sprintf("%f", x)\<close>: six decimals, ties to even.\<close>

definition pad6 :: "nat \<Rightarrow> string" where
  "pad6 n = (let s = nat_digits n in replicate (6 - length s) (CHR ''0'') @ s)"

definition format_f :: "f64 \<Rightarrow> string" where
  "format_f x =
     (if f64_is_nan x then ''NaN''
      else if f64_mag x = f64_inf_mag then (if f64_neg x then ''-Inf'' else ''+Inf'')
      else let n = nat (round_half_even (\<bar>f64_scaled x\<bar> * 1000000) (2 ^ 1074))
           in (if f64_neg x then ''-'' else []) @ nat_digits (n div 1000000) @ ''.'' @ pad6 (n mod 1000000))"

definition command_line :: "string \<Rightarrow> int \<Rightarrow> f64 \<Rightarrow> string" where
  "command_line tag i x = tag @ '':C'' @ itoa i @ ''='' @ format_f x"

definition command_json :: "string \<Rightarrow> int \<Rightarrow> f64 \<Rightarrow> obj" where
  "command_json tag i x =
     [(''message'', GStr ''channel''), (''index'', GInt i), (''value'', GFloat x)] @
     (if tag = [] then [] else [(''tag'', GStr tag)])"

text \<open>Whether the device is here, and the error of the write, which ends a search as well.\<close>

definition SendChannelValue ::
  "string \<Rightarrow> int \<Rightarrow> f64 \<Rightarrow> connector \<Rightarrow> (bool \<times> conn_error option) \<times> connector" where
  "SendChannelValue uid i x c =
     (case FindByUniqueID uid (ct_registry c) of
        None \<Rightarrow> ((False, None), c)
      | Some d \<Rightarrow>
          if \<not> ct_simple c \<and> \<not> f64_finite x then ((False, Some (Fixed ''json: unsupported value'')), c)
          else (case writeLine (if ct_simple c then Plain (command_line (dv_Tag d) i x)
                                else Json (command_json (dv_Tag d) i x)) c of
                  (Some e, c') \<Rightarrow> ((False, Some e), c')
                | (None, c') \<Rightarrow> ((True, None), emitEvent (dev_event EventChannel [] uid i x) c')))"

datatype conn_op = Line int string | Send string int f64 | Broken

fun conn_do :: "(string \<Rightarrow> string) \<Rightarrow> (string \<Rightarrow> string + gany) \<Rightarrow> conn_op \<Rightarrow> connector \<Rightarrow> connector" where
  "conn_do q unmarshal (Line now line) c = run_line q unmarshal now line c"
| "conn_do q unmarshal (Send uid i x) c = snd (SendChannelValue uid i x c)"
| "conn_do q unmarshal Broken c = c\<lparr>ct_up := False\<rparr>"

text \<open>\<^verbatim>\<open>bufio.Scanner\<close>: the lines of a stream, up to one that is longer than its buffer.\<close>

definition drop_cr :: "string \<Rightarrow> string" where
  "drop_cr s = (if s \<noteq> [] \<and> last s = CHR 0x0D then butlast s else s)"

definition scan_lines :: "string \<Rightarrow> string list" where
  "scan_lines s =
     (let parts = split_at_char (CHR 0x0A) s;
          whole = (if last parts = [] then butlast parts else parts)
      in map drop_cr (takeWhile (\<lambda>l. length l < 65536) whole))"

section \<open>The server\<close>

record ext_server = es_connectors :: "(nat, connector) gomap"

fun send_first ::
  "string \<Rightarrow> int \<Rightarrow> f64 \<Rightarrow> (nat \<times> connector) list \<Rightarrow> ext_server \<Rightarrow> (bool \<times> conn_error option) \<times> ext_server" where
  "send_first uid i x [] s = ((False, None), s)"
| "send_first uid i x ((n, c) # cs) s =
     (case SendChannelValue uid i x c of
        ((ok, err), c') \<Rightarrow>
          let s' = s\<lparr>es_connectors := AList.update n c' (es_connectors s)\<rparr>
          in if err \<noteq> None \<or> ok then ((ok, err), s') else send_first uid i x cs s')"

definition server_SetChannelValue ::
  "string \<Rightarrow> int \<Rightarrow> f64 \<Rightarrow> ext_server \<Rightarrow> conn_error option \<times> ext_server" where
  "server_SetChannelValue uid i x s =
     (case send_first uid i x (es_connectors s) s of
        ((_, Some e), s') \<Rightarrow> (Some e, s')
      | ((True, None), s') \<Rightarrow> (None, s')
      | ((False, None), s') \<Rightarrow> (Some (Quoted ''device with uniqueid '' uid '' not connected''), s'))"

text \<open>The server as the commander of the vDC: it has no scenes of its own.\<close>

definition server_commander :: "(string \<Rightarrow> string) \<Rightarrow> ext_server commander" where
  "server_commander q =
     (let set = (\<lambda>uid i x s. case server_SetChannelValue uid i x s of
                   (err, s') \<Rightarrow> (s', map_option (conn_error_text q) err))
      in \<lparr>cm_SetLightLevel = (\<lambda>uid x. set uid 0 x), cm_SetChannelValue = set, cm_CallScene = None\<rparr>)"

text \<open>Where the server listens: the network and the address.\<close>

definition listenSpec :: "string \<Rightarrow> string \<times> string" where
  "listenSpec cfg =
     (let listen = trim_space (if trim_space cfg = [] then ''8999'' else cfg)
      in if prefix ''/'' listen then (''unix'', listen)
         else if CHR '':'' \<in> set listen then (''tcp'', listen)
         else (''tcp'', '':'' @ listen))"

end
