(* ===== verification/Connector_Steps.thy ===== *)
theory Connector_Steps
  imports Connector
begin

text \<open>
  What a connection of external devices guarantees: every line makes a sequence of elementary steps
  (values, a device that joins, one that leaves), from which follow the invariant of its registry,
  what it has announced, and what is left in the mirror when it ends.
\<close>

section \<open>Elementary steps\<close>

definition effect_events :: "effect \<Rightarrow> event list" where
  "effect_events x = (case x of Emit e \<Rightarrow> [e] | Write l \<Rightarrow> [])"

definition evs :: "connector \<Rightarrow> event list" where
  "evs c = concat (map effect_events (ct_effects c))"

definition value_event :: "event \<Rightarrow> bool" where
  "value_event e \<longleftrightarrow> e_Type e \<noteq> EventInit \<and> e_Type e \<noteq> EventRemove"

definition same_conn :: "connector \<Rightarrow> connector \<Rightarrow> bool" where
  "same_conn c c' \<longleftrightarrow> ct_addr c' = ct_addr c \<and> ct_onEvent c' = ct_onEvent c"

inductive conn_step :: "connector \<Rightarrow> connector \<Rightarrow> bool" for c where
  valued: "same_conn c c' \<Longrightarrow> ct_simple c' = ct_simple c \<Longrightarrow>
    rg_devices (ct_registry c') = rg_devices (ct_registry c) \<Longrightarrow>
    (registry_wf (ct_registry c) \<Longrightarrow> registry_wf (ct_registry c')) \<Longrightarrow>
    evs c' = evs c @ es \<Longrightarrow> list_all value_event es \<Longrightarrow> conn_step c c'"
| joins: "same_conn c c' \<Longrightarrow> (ct_simple c \<Longrightarrow> ct_simple c') \<Longrightarrow> im_UniqueID m \<noteq> [] \<Longrightarrow>
    rg_Add (device_of m) (ct_registry c) = (None, ct_registry c') \<Longrightarrow>
    evs c' = evs (emitEvent (init_event m) c) \<Longrightarrow> conn_step c c'"
| leaves: "same_conn c c' \<Longrightarrow> ct_simple c' = ct_simple c \<Longrightarrow>
    d \<in> set (AllDevices (ct_registry c)) \<Longrightarrow> ct_registry c' = rg_Remove (dv_Tag d) (ct_registry c) \<Longrightarrow>
    evs c' = evs (emitEvent (remove_event d) c) \<Longrightarrow> conn_step c c'"
| leaves_silently: "same_conn c c' \<Longrightarrow> ct_simple c' = ct_simple c \<Longrightarrow> ct_simple c \<Longrightarrow>
    ct_registry c' = rg_Remove t (ct_registry c) \<Longrightarrow> evs c' = evs c \<Longrightarrow> conn_step c c'"

abbreviation conn_steps :: "connector \<Rightarrow> connector \<Rightarrow> bool" where
  "conn_steps \<equiv> conn_step\<^sup>*\<^sup>*"

subsection \<open>Steps of the operations\<close>

lemma emitEvent_fields [simp]:
  "ct_registry (emitEvent e c) = ct_registry c" "ct_simple (emitEvent e c) = ct_simple c"
  "ct_addr (emitEvent e c) = ct_addr c" "ct_onEvent (emitEvent e c) = ct_onEvent c"
  "ct_buttons (emitEvent e c) = ct_buttons c"
  by (simp_all add: emitEvent_def)

lemma evs_emit: "evs (emitEvent e c) = evs c @ (if ct_onEvent c then [e\<lparr>e_Connection := ct_addr c\<rparr>] else [])"
  by (simp add: emitEvent_def evs_def effect_events_def)

lemma evs_upd [simp]: "evs (upd_reg f c) = evs c" "evs (c\<lparr>ct_buttons := b\<rparr>) = evs c"
  "evs (c\<lparr>ct_registry := r\<rparr>) = evs c" "evs (c\<lparr>ct_simple := s\<rparr>) = evs c" "evs (c\<lparr>ct_vdcInfo := i\<rparr>) = evs c"
  "evs (c\<lparr>ct_up := u\<rparr>) = evs c"
  by (simp_all add: upd_reg_def evs_def)

lemma upd_reg_fields [simp]:
  "ct_simple (upd_reg f c) = ct_simple c" "ct_addr (upd_reg f c) = ct_addr c"
  "ct_onEvent (upd_reg f c) = ct_onEvent c" "ct_registry (upd_reg f c) = f (ct_registry c)"
  "ct_buttons (upd_reg f c) = ct_buttons c"
  by (simp_all add: upd_reg_def)

lemma same_conn_refl [simp]: "same_conn c c"
  by (simp add: same_conn_def)

lemma step_emit: "value_event e \<Longrightarrow> conn_step c (emitEvent e c)"
  by (rule valued [where es = "if ct_onEvent c then [e\<lparr>e_Connection := ct_addr c\<rparr>] else []"])
    (simp_all add: same_conn_def evs_emit value_event_def)

lemma step_setter:
  "conn_step c (upd_reg (upd_dev tag f) c)"
  by (rule valued [where es = "[]"]) (simp_all add: same_conn_def registry_wf_upd)

lemma step_buttons: "conn_step c (c\<lparr>ct_buttons := b\<rparr>)" "conn_step c (c\<lparr>ct_vdcInfo := i\<rparr>)" "conn_step c (c\<lparr>ct_up := u\<rparr>)"
  by (rule valued [where es = "[]"]; simp add: same_conn_def)+

lemma step_write: "conn_step c (snd (writeLine l c))"
  by (rule valued [where es = "[]"]) (simp_all add: writeLine_def same_conn_def evs_def effect_events_def)

lemma step_status: "conn_step c (snd (sendStatus q err tag c))"
  by (simp add: sendStatus_def step_write)

lemma value_events [simp]:
  "value_event (dev_event EventChannel tag uid i x)" "value_event (dev_event EventButton tag uid i x)"
  "value_event (dev_event EventInput tag uid i x)" "value_event (dev_event EventSensor tag uid i x)"
  "value_event (action_event tag uid i a)" "value_event (active_event tag uid b)"
  by (simp_all add: value_event_def dev_event_def action_event_def active_event_def event0_def)

lemma steps_emit_fold: "list_all (\<lambda>a. value_event (f a)) xs \<Longrightarrow> conn_steps c (fold (\<lambda>a. emitEvent (f a)) xs c)"
  by (induction xs arbitrary: c) (auto intro: converse_rtranclp_into_rtranclp step_emit)

lemma steps_button: "conn_steps c (emitButtonAction now tag uid i x mode c)"
proof -
  have "conn_steps (c\<lparr>ct_buttons := b\<rparr>) (fold (\<lambda>a. emitEvent (action_event tag uid i a)) as (c\<lparr>ct_buttons := b\<rparr>))" for as b
    by (rule steps_emit_fold) (simp add: list_all_iff)
  moreover have stored: "conn_steps c (c\<lparr>ct_buttons := b\<rparr>)" for b
    by (rule r_into_rtranclp, rule step_buttons)
  ultimately have "conn_steps c (fold (\<lambda>a. emitEvent (action_event tag uid i a)) as (c\<lparr>ct_buttons := b\<rparr>))" for as b
    by (blast intro: rtranclp_trans)
  with stored show ?thesis
    by (simp add: emitButtonAction_def Let_def split_beta split: option.split)
qed

lemma steps_set_emit:
  "value_event e \<Longrightarrow> conn_steps c (emitEvent e (upd_reg (upd_dev tag f) c))"
  by (blast intro: rtranclp.intros step_setter step_emit)

lemma steps_button_set:
  "conn_steps c (emitButtonAction now tag uid i x mode (emitEvent (dev_event EventButton tag uid i x) (upd_reg (upd_dev t f) c)))"
  by (rule rtranclp_trans [OF steps_set_emit steps_button]) simp

lemma steps_indexed:
  assumes "\<And>i x. conn_steps c (act i x c)"
  shows "conn_steps c (snd (indexed_command m p act c))"
  using assms by (simp add: indexed_command_def split: sum.split)

lemma steps_device_simple: "conn_steps c (snd (handleDeviceSimple now m c))"
  unfolding handleDeviceSimple_def Let_def registry_setters
  by (auto split: sum.split intro!: steps_indexed steps_set_emit steps_button_set intro: step_setter)

lemma snd_case_prod: "snd (case r of (e, c) \<Rightarrow> (f e, c)) = snd r"
  by (simp add: split_beta)

lemma steps_simple:
  assumes "ct_simple c"
  shows "conn_steps c (snd (handleSimpleLine now line c))"
proof -
  have gone: "conn_steps c (upd_reg (rg_Remove t) c)" for t
    using assms by (intro r_into_rtranclp leaves_silently [where t = t]) (simp_all add: same_conn_def)
  show ?thesis
  proof (cases "ParseSimpleLine line")
    case (Inr m)
    show ?thesis
      by (cases "ResolveTag (sm_Tag m) (ct_registry c)")
        (simp_all add: handleSimpleLine_def Inr snd_case_prod steps_device_simple gone)
  qed (simp add: handleSimpleLine_def)
qed

lemma steps_cases:
  "conn_steps c x \<Longrightarrow> conn_steps c y \<Longrightarrow> conn_steps c (if b then x else y)"
  "conn_steps c x \<Longrightarrow> (\<And>a. conn_steps c (f a)) \<Longrightarrow> conn_steps c (case v of None \<Rightarrow> x | Some a \<Rightarrow> f a)"
  "(\<And>a b. conn_steps c (g a b)) \<Longrightarrow> conn_steps c (case p of (a, b) \<Rightarrow> g a b)"
  by (simp_all split: option.split prod.split)

lemma steps_setter: "conn_steps c (upd_reg (upd_dev tag f) c)"
  by (rule r_into_rtranclp, rule step_setter)

lemma steps_device_message: "conn_steps c (device_message now msg obj d c)"
  unfolding device_message_def Let_def registry_setters
  by (intro steps_cases steps_set_emit steps_button_set steps_setter value_events rtranclp.rtrancl_refl)

lemma joins_status:
  assumes "ValidateInit m = None" "rg_Add (device_of m) (ct_registry c) = (None, ct_registry c')"
    "same_conn c c'" "evs c' = evs (emitEvent (init_event m) c)" "ct_simple c \<Longrightarrow> ct_simple c'"
  shows "conn_steps c (snd (sendStatus q None t c'))"
proof -
  have "im_UniqueID m \<noteq> []" using assms(1) by (auto simp: ValidateInit_def split: if_splits)
  with assms have "conn_step c c'" by (intro joins [where m = m]) simp_all
  then show ?thesis by (blast intro: rtranclp.intros step_status)
qed

lemma snd_case_status: "snd (case r of (None, c3) \<Rightarrow> (None, c3) | (Some e, c3) \<Rightarrow> (untagged e, c3)) = snd r"
  by (cases r) (simp split: option.split)

lemma steps_init: "conn_steps c (snd (handle_init_message q obj c))"
proof -
  have "conn_steps c (snd (sendStatus q None t (if b then emitEvent (init_event m) (c\<lparr>ct_registry := r\<rparr>)\<lparr>ct_simple := True\<rparr>
        else emitEvent (init_event m) (c\<lparr>ct_registry := r\<rparr>))))"
    if "ValidateInit m = None" "rg_Add (device_of m) (ct_registry c) = (None, r)" for m r t b
    using that by (intro joins_status [where m = m]) (simp_all add: same_conn_def evs_emit)
  then show ?thesis
    by (simp add: handle_init_message_def Let_def snd_case_status split: prod.split option.split)
qed

lemma steps_bye: "conn_steps c (snd (handle_bye obj c))"
proof -
  have "conn_step c (emitEvent (remove_event d) (upd_reg (rg_Remove (dv_Tag d)) c))"
    if "ResolveTag tag (ct_registry c) = Inr d" for tag d
    using ResolveTag_registered [OF that]
    by (intro leaves [where d = d]) (simp_all add: same_conn_def evs_emit)
  then show ?thesis by (auto simp: handle_bye_def Let_def split: sum.split)
qed

lemma steps_object: "conn_steps c (snd (handle_object q now obj c))"
  by (auto simp: handle_object_def Let_def handleDeviceJSON_def steps_init steps_bye steps_device_message
      split: prod.split option.split sum.split intro: step_buttons)

lemma steps_each: "(\<And>m c. conn_steps c (snd (f m c))) \<Longrightarrow> conn_steps c (snd (each_object f ms c))"
proof (induction ms arbitrary: c)
  case (Cons m ms)
  obtain err c' where r: "f m c = (err, c')" by fastforce
  with Cons.prems [of c m] have "conn_steps c c'" by simp
  with r Cons.IH [OF Cons.prems, of c'] show ?case
    by (cases err) (auto intro: rtranclp_trans)
qed simp

lemma steps_line: "conn_steps c (run_line q unmarshal now raw c)"
proof -
  have h: "conn_steps c (snd (handleLine q unmarshal now line c))" for line
    unfolding handleLine_def handleJSONLine_def
    by (auto simp: steps_simple split: sum.split intro!: steps_each steps_object)
  have "conn_steps c (snd (sendStatus q e tag (snd (handleLine q unmarshal now line c))))" for e tag line
    by (rule rtranclp.rtrancl_into_rtrancl [OF h step_status])
  with h show ?thesis
    by (auto simp: run_line_def Let_def split: prod.split option.split) (metis snd_conv)+
qed

lemma steps_send: "conn_steps c (snd (SendChannelValue uid i x c))"
proof -
  have "conn_steps c (emitEvent (dev_event EventChannel [] uid i x) (snd (writeLine l c)))" for l
    by (blast intro: rtranclp.intros step_write step_emit value_events)
  moreover have "conn_steps c (snd (writeLine l c))" for l by (blast intro: step_write)
  ultimately show ?thesis
    by (auto simp: SendChannelValue_def split: option.split prod.split) (metis snd_conv)+
qed

lemma steps_do: "conn_steps c (conn_do q unmarshal op c)"
  by (cases op) (auto simp: steps_line steps_send intro: step_buttons)

section \<open>What a connection has announced\<close>

text \<open>The abstract view of a connection: which tags stand for which device, as its events tell it.\<close>

definition announce :: "event \<Rightarrow> (string \<Rightarrow> string option) \<Rightarrow> string \<Rightarrow> string option" where
  "announce e A =
     (if e_Type e = EventInit then A(e_Tag e \<mapsto> e_UniqueID e)
      else if e_Type e = EventRemove then A(e_Tag e := None) else A)"

definition ledger :: "event list \<Rightarrow> string \<Rightarrow> string option" where
  "ledger es = fold announce es Map.empty"

definition uid_of :: "connector \<Rightarrow> string \<Rightarrow> string option" where
  "uid_of c tag = map_option dv_UniqueID (map_of (rg_devices (ct_registry c)) tag)"

definition conn_ok :: "connector \<Rightarrow> bool" where
  "conn_ok c \<longleftrightarrow> ct_onEvent c \<and> registry_wf (ct_registry c) \<and>
     (\<forall>tag. ledger (evs c) tag = uid_of c tag \<or> (ct_simple c \<and> uid_of c tag = None))"

lemma ledger_append: "ledger (es @ fs) = fold announce fs (ledger es)"
  by (simp add: ledger_def)

lemma announce_values: "list_all value_event es \<Longrightarrow> fold announce es A = A"
  by (induction es arbitrary: A) (simp_all add: announce_def value_event_def)

lemma event_fields [simp]:
  "e_Type (init_event m) = EventInit" "e_Tag (init_event m) = im_Tag m" "e_UniqueID (init_event m) = im_UniqueID m"
  "e_Type (remove_event d) = EventRemove" "e_Tag (remove_event d) = dv_Tag d"
  "e_UniqueID (remove_event d) = dv_UniqueID d"
  by (simp_all add: init_event_def remove_event_def event0_def)

lemma rg_Add_None:
  "rg_Add d r = (None, r') \<longleftrightarrow> \<not> go_has (rg_devices r) (dv_Tag d) \<and>
     r' = r\<lparr>rg_devices := AList.update (dv_Tag d) d (rg_devices r),
           rg_states := AList.update (dv_Tag d) new_dev_state (rg_states r)\<rparr>"
  by (auto simp: rg_Add_def)

lemma uid_of_join:
  "rg_Add (device_of m) (ct_registry c) = (None, ct_registry c') \<Longrightarrow> uid_of c' = (uid_of c)(im_Tag m \<mapsto> im_UniqueID m)"
  by (rule ext) (simp add: rg_Add_None uid_of_def device_of_def)

lemma uid_of_leave: "ct_registry c' = rg_Remove t (ct_registry c) \<Longrightarrow> uid_of c' = (uid_of c)(t := None)"
  by (rule ext) (simp add: uid_of_def rg_Remove_def)

lemma conn_ok_step: "conn_step c c' \<Longrightarrow> conn_ok c \<Longrightarrow> conn_ok c'"
proof (induction rule: conn_step.induct)
  case (valued c' es)
  then show ?case
    by (simp add: conn_ok_def same_conn_def ledger_append announce_values uid_of_def)
next
  case (joins c' m)
  have "ledger (evs c') = (ledger (evs c))(im_Tag m \<mapsto> im_UniqueID m)"
    using joins by (simp add: conn_ok_def evs_emit ledger_append announce_def)
  moreover have "registry_wf (ct_registry c')"
    using joins registry_wf_Add [of "ct_registry c" "device_of m"] by (simp add: conn_ok_def)
  ultimately show ?case
    using joins uid_of_join [OF joins.hyps(4)] by (auto simp: conn_ok_def same_conn_def)
next
  case (leaves c' d)
  have "ledger (evs c') = (ledger (evs c))(dv_Tag d := None)"
    using leaves by (simp add: conn_ok_def evs_emit ledger_append announce_def)
  then show ?case
    using leaves uid_of_leave [OF leaves.hyps(4)] registry_wf_Remove [of "ct_registry c" "dv_Tag d"]
    by (auto simp: conn_ok_def same_conn_def)
next
  case (leaves_silently c' t)
  then show ?case
    using uid_of_leave [OF leaves_silently.hyps(4)] registry_wf_Remove [of "ct_registry c" t]
    by (auto simp: conn_ok_def same_conn_def)
qed

inductive conn_reach :: "(string \<Rightarrow> string) \<Rightarrow> (string \<Rightarrow> string + gany) \<Rightarrow> connector \<Rightarrow> bool" for q unmarshal where
  reach_connect: "conn_reach q unmarshal (NewConnector addr True)"
| reach_conn_op: "conn_reach q unmarshal c \<Longrightarrow> conn_reach q unmarshal (conn_do q unmarshal op c)"

lemma conn_inv_steps: "conn_steps c c' \<Longrightarrow> P c \<Longrightarrow> (\<And>c c'. conn_step c c' \<Longrightarrow> P c \<Longrightarrow> P c') \<Longrightarrow> P c'"
  by (induction rule: rtranclp.induct) blast+

lemma conn_inv_reach:
  assumes "conn_reach q unmarshal c" and "\<And>addr. P (NewConnector addr True)"
    and "\<And>c c'. conn_step c c' \<Longrightarrow> P c \<Longrightarrow> P c'"
  shows "P c"
  using assms(1)
proof (induction rule: conn_reach.induct)
  case (reach_conn_op c op)
  with conn_inv_steps [OF steps_do] assms(3) show ?case by blast
qed (rule assms(2))

lemma conn_ok_New: "conn_ok (NewConnector addr True)"
  by (simp add: conn_ok_def NewConnector_def evs_def ledger_def uid_of_def rg_New_def registry_wf_def go_has_def)

lemma reach_conn_ok: "conn_reach q unmarshal c \<Longrightarrow> conn_ok c"
  by (rule conn_inv_reach [where P = conn_ok]) (use conn_ok_New conn_ok_step in blast)+

section \<open>What a connection leaves in the mirror\<close>

definition store_keys :: "state_store \<Rightarrow> string set" where
  "store_keys s = {k. go_has (st_devices s) k}"

definition dev_keys :: "connector \<Rightarrow> string set" where
  "dev_keys c = (\<lambda>d. uid_key (trim_space (dv_UniqueID d))) ` set (AllDevices (ct_registry c))"

definition named_init :: "event \<Rightarrow> bool" where
  "named_init e \<longleftrightarrow> e_Type e \<noteq> EventInit \<or> trim_space (e_UniqueID e) \<noteq> []"

definition reported :: "nat \<Rightarrow> event list \<Rightarrow> state_store \<Rightarrow> state_store" where
  "reported now es s = fold (HandleEvent now) es s"

lemma value_event_keys: "value_event e \<Longrightarrow> store_keys (HandleEvent now e s) = store_keys s"
proof -
  assume "value_event e"
  then have "handle_locked now e s = handle_update now e s"
    by (simp add: value_event_def handle_locked_def split: event_type.split)
  moreover have "resolveKey s e = (k, True) \<Longrightarrow> go_has (st_devices s) k" for k
    by (auto simp: resolveKey_def Let_def split: if_splits option.splits)
  ultimately show ?thesis
    by (auto simp: store_keys_def handle_update_def split: prod.split option.split)
qed

lemma init_event_keys:
  "e_Type e = EventInit \<Longrightarrow> trim_space (e_UniqueID e) \<noteq> [] \<Longrightarrow>
   store_keys (HandleEvent now e s) = insert (uid_key (trim_space (e_UniqueID e))) (store_keys s)"
  by (auto simp: store_keys_def handle_locked_def handle_init_def Let_def eventKey_def)

lemma remove_event_keys:
  "e_Type e = EventRemove \<Longrightarrow> trim_space (e_UniqueID e) \<noteq> [] \<Longrightarrow>
   store_keys (HandleEvent now e s) = store_keys s - {uid_key (trim_space (e_UniqueID e))}"
  by (auto simp: store_keys_def handle_locked_def handle_remove_def Let_def resolveKey_def)

lemma values_keys: "list_all value_event es \<Longrightarrow> store_keys (reported now es s) = store_keys s"
  by (induction es arbitrary: s) (simp_all add: reported_def value_event_keys)

text \<open>Beyond what was there, the mirror has only devices that the connection still holds.\<close>

definition mirror_ok :: "nat \<Rightarrow> state_store \<Rightarrow> connector \<Rightarrow> bool" where
  "mirror_ok now s c \<longleftrightarrow> ct_onEvent c \<and> registry_wf (ct_registry c) \<and> (ct_simple c \<or> \<not> list_all named_init (evs c) \<or>
     (store_keys (reported now (evs c) s) \<subseteq> store_keys s \<union> dev_keys c \<and>
      (\<forall>d \<in> set (AllDevices (ct_registry c)). trim_space (dv_UniqueID d) \<noteq> [])))"

lemma AllDevices_Add: "rg_Add d r = (None, r') \<Longrightarrow> set (AllDevices r') = insert d (set (AllDevices r))"
  by (auto simp: rg_Add_None AllDevices_def go_has_iff_keys update_fresh)

lemma AllDevices_Remove:
  assumes "registry_wf r" and "d \<in> set (AllDevices r)"
  shows "set (AllDevices (rg_Remove (dv_Tag d) r)) = set (AllDevices r) - {d}"
proof -
  have keyed: "(k, e) \<in> set (rg_devices r) \<Longrightarrow> dv_Tag e = k" for k e
    using assms(1) by (auto simp: registry_wf_def)
  have "set (AllDevices (rg_Remove t r)) = {e \<in> set (AllDevices r). dv_Tag e \<noteq> t}" for t
    by (auto simp: AllDevices_def rg_Remove_def AList.delete_eq image_iff dest: keyed) (use keyed in blast)
  moreover have "dv_Tag e = dv_Tag d \<Longrightarrow> e = d" if "e \<in> set (AllDevices r)" for e
    using registry_wf_lookup [OF assms(1) assms(2)] registry_wf_lookup [OF assms(1) that] by auto
  ultimately show ?thesis by auto
qed

lemma mirror_ok_step: "conn_step c c' \<Longrightarrow> mirror_ok now s c \<Longrightarrow> mirror_ok now s c'"
proof (induction rule: conn_step.induct)
  case (valued c' es)
  have "store_keys (reported now (evs c') s) = store_keys (reported now (evs c) s)"
    using valued values_keys [of es now "reported now (evs c) s"] by (simp add: reported_def)
  moreover have "list_all named_init (evs c') = list_all named_init (evs c)"
    using valued by (auto simp: named_init_def value_event_def list_all_iff)
  ultimately show ?case using valued by (simp add: mirror_ok_def same_conn_def dev_keys_def AllDevices_def)
next
  case (joins c' m)
  let ?e = "init_event m\<lparr>e_Connection := ct_addr c\<rparr>"
  have ev: "evs c' = evs c @ [?e]" using joins by (simp add: mirror_ok_def evs_emit)
  have k: "trim_space (im_UniqueID m) \<noteq> [] \<Longrightarrow> store_keys (reported now (evs c') s) =
      insert (uid_key (trim_space (im_UniqueID m))) (store_keys (reported now (evs c) s))"
    using init_event_keys [of ?e now "reported now (evs c) s"] by (simp add: ev reported_def)
  have d: "set (AllDevices (ct_registry c')) = insert (device_of m) (set (AllDevices (ct_registry c)))"
    by (rule AllDevices_Add [OF joins.hyps(4)])
  have n: "list_all named_init (evs c') \<longleftrightarrow> list_all named_init (evs c) \<and> trim_space (im_UniqueID m) \<noteq> []"
    by (simp add: ev named_init_def)
  have u: "dv_UniqueID (device_of m) = im_UniqueID m" by (simp add: device_of_def)
  have "registry_wf (ct_registry c')" "ct_onEvent c'"
    using joins registry_wf_Add [of "ct_registry c" "device_of m"] by (simp_all add: mirror_ok_def same_conn_def)
  with joins.prems joins.hyps(2) k n u show ?case
    unfolding mirror_ok_def dev_keys_def d by auto
next
  case (leaves c' d)
  let ?e = "remove_event d\<lparr>e_Connection := ct_addr c\<rparr>"
  have ev: "evs c' = evs c @ [?e]" using leaves by (simp add: mirror_ok_def evs_emit)
  have k: "trim_space (dv_UniqueID d) \<noteq> [] \<Longrightarrow> store_keys (reported now (evs c') s) =
      store_keys (reported now (evs c) s) - {uid_key (trim_space (dv_UniqueID d))}"
    using remove_event_keys [of ?e now "reported now (evs c) s"] by (simp add: ev reported_def)
  have wf: "registry_wf (ct_registry c)" using leaves.prems by (simp add: mirror_ok_def)
  have ds: "set (AllDevices (ct_registry c')) = set (AllDevices (ct_registry c)) - {d}"
    using AllDevices_Remove [OF wf leaves.hyps(3)] leaves.hyps(4) by simp
  have n: "list_all named_init (evs c') = list_all named_init (evs c)" by (simp add: ev named_init_def)
  have "registry_wf (ct_registry c')" "ct_onEvent c'"
    using leaves registry_wf_Remove [OF wf] by (simp_all add: mirror_ok_def same_conn_def)
  with leaves.prems leaves.hyps(2,3) k n show ?case
    unfolding mirror_ok_def dev_keys_def ds by auto
next
  case (leaves_silently c' t)
  then show ?case
    using registry_wf_Remove [of "ct_registry c" t] by (simp add: mirror_ok_def same_conn_def)
qed

lemma reach_mirror_ok: "conn_reach q unmarshal c \<Longrightarrow> mirror_ok now s c"
proof (rule conn_inv_reach [where P = "mirror_ok now s"])
  show "mirror_ok now s (NewConnector addr True)" for addr
    by (simp add: mirror_ok_def NewConnector_def evs_def reported_def AllDevices_def rg_New_def registry_wf_def go_has_def)
qed (use mirror_ok_step in blast)+

lemma evs_run_end:
  "ct_onEvent c \<Longrightarrow> evs (run_end c) =
     evs c @ map (\<lambda>d. remove_event d\<lparr>e_Connection := ct_addr c\<rparr>) (AllDevices (ct_registry c))"
proof -
  have "ct_onEvent c \<Longrightarrow> evs (fold (\<lambda>d. emitEvent (remove_event d)) ds c) =
      evs c @ map (\<lambda>d. remove_event d\<lparr>e_Connection := ct_addr c\<rparr>) ds" for ds
    by (induction ds arbitrary: c) (simp_all add: evs_emit)
  then show "ct_onEvent c \<Longrightarrow> ?thesis" by (simp add: run_end_def)
qed

lemma removes_keys:
  assumes "list_all (\<lambda>d. trim_space (dv_UniqueID d) \<noteq> []) ds"
  shows "store_keys (fold (HandleEvent now) (map (\<lambda>d. remove_event d\<lparr>e_Connection := a\<rparr>) ds) s) =
     store_keys s - (\<lambda>d. uid_key (trim_space (dv_UniqueID d))) ` set ds"
  using assms
proof (induction ds arbitrary: s)
  case (Cons d ds)
  then show ?case
    using remove_event_keys [of "remove_event d\<lparr>e_Connection := a\<rparr>" now s]
    by (auto simp: remove_event_def event0_def)
qed simp

end
