(* ===== verification/Float_Exact.thy ===== *)
theory Float_Exact
  imports Go_Float
begin

text \<open>
  The integers that a \<^verbatim>\<open>float64\<close> holds exactly: conversion to and from \<^verbatim>\<open>int\<close> is the identity
  on them, and a ratio is rounded alike in every representation.
\<close>

section \<open>Bit lengths\<close>

lemma bit_length_nonpos: "n \<le> 0 \<Longrightarrow> bit_length n = 0"
  by (subst bit_length.simps) simp

lemma two_pow_add: "0 \<le> a \<Longrightarrow> (2::int) ^ nat (64 + a) = 18446744073709551616 * 2 ^ nat a"
  by (simp add: nat_add_distrib power_add)

lemma bit_length_bounds: "0 < n \<Longrightarrow> 0 < bit_length n \<and> 2 ^ nat (bit_length n - 1) \<le> n \<and> n < 2 ^ nat (bit_length n)"
proof (induction n rule: bit_length.induct)
  case (1 n)
  consider (big) "18446744073709551616 \<le> n" | (one) "n = 1" | (small) "2 \<le> n" "n < 18446744073709551616"
    using 1(3) by linarith
  then show ?case
  proof cases
    case big
    let ?m = "n div 18446744073709551616"
    have "0 < ?m" using big by (simp add: pos_imp_zdiv_pos_iff)
    with 1 big have ih: "0 < bit_length ?m" "2 ^ nat (bit_length ?m - 1) \<le> ?m" "?m < 2 ^ nat (bit_length ?m)"
      by simp_all
    have b: "bit_length n = 64 + bit_length ?m" using big by (subst bit_length.simps) simp
    have p: "(2::int) ^ nat (bit_length n) = 18446744073709551616 * 2 ^ nat (bit_length ?m)"
      "(2::int) ^ nat (bit_length n - 1) = 18446744073709551616 * 2 ^ nat (bit_length ?m - 1)"
      using ih(1) two_pow_add [of "bit_length ?m"] two_pow_add [of "bit_length ?m - 1"] by (simp_all add: b)
    have "n = 18446744073709551616 * ?m + n mod 18446744073709551616" by simp
    moreover have "0 \<le> n mod 18446744073709551616" "n mod 18446744073709551616 < 18446744073709551616" by simp_all
    ultimately show ?thesis unfolding p using ih b by linarith
  next
    case one
    then show ?thesis by (simp add: bit_length.simps)
  next
    case small
    let ?m = "n div 2"
    have "0 < ?m" using small by simp
    with 1 small have ih: "0 < bit_length ?m" "2 ^ nat (bit_length ?m - 1) \<le> ?m" "?m < 2 ^ nat (bit_length ?m)"
      by simp_all
    have b: "bit_length n = 1 + bit_length ?m" using small by (subst bit_length.simps) simp
    have p: "(2::int) ^ nat (bit_length n) = 2 * 2 ^ nat (bit_length ?m)"
      "(2::int) ^ nat (bit_length n - 1) = 2 * 2 ^ nat (bit_length ?m - 1)"
    proof -
      show "(2::int) ^ nat (bit_length n) = 2 * 2 ^ nat (bit_length ?m)"
        using ih(1) by (simp add: b nat_add_distrib)
      have "nat (bit_length ?m) = Suc (nat (bit_length ?m - 1))" using ih(1) by simp
      then show "(2::int) ^ nat (bit_length n - 1) = 2 * 2 ^ nat (bit_length ?m - 1)" by (simp add: b)
    qed
    show ?thesis unfolding p using ih b by linarith
  qed
qed

lemma bit_length_unique:
  assumes "0 < b" and "2 ^ nat (b - 1) \<le> n" and "n < 2 ^ nat b"
  shows "bit_length n = b"
proof -
  have "0 < n" using assms(2) by (smt (verit) zero_less_power)
  from bit_length_bounds [OF this] have
    l: "0 < bit_length n" "2 ^ nat (bit_length n - 1) \<le> n" "n < 2 ^ nat (bit_length n)" by simp_all
  have "nat (b - 1) < nat (bit_length n)" "nat (bit_length n - 1) < nat b"
    using assms l by (meson le_less_trans one_less_numeral_iff power_less_imp_less_exp semiring_norm(76))+
  with l(1) assms(1) show ?thesis by linarith
qed

lemma bit_length_shift: "0 < n \<Longrightarrow> bit_length (n * 2 ^ k) = bit_length n + int k"
proof -
  assume "0 < n"
  note b = bit_length_bounds [OF this]
  have "nat (bit_length n + int k - 1) = nat (bit_length n - 1) + k" using b by arith
  moreover have "nat (bit_length n + int k) = nat (bit_length n) + k" using b by arith
  moreover note b
  ultimately show ?thesis by (intro bit_length_unique) (simp_all add: power_add)
qed

lemma bit_length_le: "0 < n \<Longrightarrow> n < 2 ^ k \<Longrightarrow> bit_length n \<le> int k"
proof -
  assume "0 < n" "n < 2 ^ k"
  with bit_length_bounds [OF \<open>0 < n\<close>] have "2 ^ nat (bit_length n - 1) < (2::int) ^ k" by linarith
  then have "nat (bit_length n - 1) < k" by (simp add: power_less_imp_less_exp)
  then show ?thesis by simp
qed

section \<open>Rounding of ratios\<close>

lemma round_half_even_exact: "0 < d \<Longrightarrow> round_half_even (m * d) d = m"
  by (simp add: round_half_even_def Let_def)

lemma round_half_even_scale: "0 < c \<Longrightarrow> 0 < d \<Longrightarrow> round_half_even (c * n) (c * d) = round_half_even n d"
proof -
  assume "0 < c" "0 < d"
  have "2 * (c * (n mod d)) < c * d \<longleftrightarrow> 2 * (n mod d) < d" "2 * (c * (n mod d)) = c * d \<longleftrightarrow> 2 * (n mod d) = d"
    using \<open>0 < c\<close> by (simp_all add: mult.left_commute [of 2 c])
  with \<open>0 < c\<close> show ?thesis by (simp add: round_half_even_def Let_def)
qed

lemma mag_of_ratio_scale:
  assumes "0 < c" and "0 < q"
  shows "f64_mag_of_ratio (c * p) (c * q) = f64_mag_of_ratio p q"
proof -
  have "c * p * 2 ^ 1074 div (c * q) = p * 2 ^ 1074 div q"
    using assms(1) by (simp only: mult.assoc) simp
  then show ?thesis
    using assms round_half_even_scale [of c "q * 2 ^ k" "p * 2 ^ 1074" for k]
    by (simp add: f64_mag_of_ratio_def Let_def mult.assoc del: mult_cancel_left)
qed

section \<open>Exact integers\<close>

text \<open>The pattern of a positive integer below \<open>2 ^ 53\<close>: its exponent and its significand.\<close>

lemma mag_of_int:
  assumes "0 < n" and "n < 2 ^ 53"
  shows "f64_mag_of_ratio n 1 = (bit_length n + 1021) * 2 ^ 52 + n * 2 ^ nat (53 - bit_length n)"
    and "2 ^ 52 \<le> n * 2 ^ nat (53 - bit_length n)" and "n * 2 ^ nat (53 - bit_length n) < 2 ^ 53"
proof -
  let ?b = "bit_length n"
  note b = bit_length_bounds [OF assms(1)]
  have le: "?b \<le> 53" using bit_length_le [OF assms(1), of 53] assms(2) by simp
  have e: "nat (?b - 1) + nat (53 - ?b) = 52" "nat ?b + nat (53 - ?b) = 53" using b le by auto
  show lo: "2 ^ 52 \<le> n * 2 ^ nat (53 - ?b)"
    using mult_right_mono [of "2 ^ nat (?b - 1)" n "2 ^ nat (53 - ?b)"] b e(1) by (simp flip: power_add)
  show hi: "n * 2 ^ nat (53 - ?b) < 2 ^ 53"
    using mult_strict_right_mono [of n "2 ^ nat ?b" "2 ^ nat (53 - ?b)"] b e(2) by (simp flip: power_add)
  have s: "max 0 (bit_length (n * 2 ^ 1074) - 53) = ?b + 1021"
    using bit_length_shift [OF assms(1), of 1074] b by simp
  have "(53 - ?b) + (?b + 1021) = 1074" by simp
  then have "nat (53 - ?b) + nat (?b + 1021) = 1074" using b le by linarith
  then have N: "n * 2 ^ 1074 = n * 2 ^ nat (53 - ?b) * 2 ^ nat (?b + 1021)" by (simp only: mult.assoc flip: power_add)
  have r: "round_half_even (n * 2 ^ 1074) (2 ^ nat (?b + 1021)) = n * 2 ^ nat (53 - ?b)"
    unfolding N by (rule round_half_even_exact) simp
  have "(?b + 1021) * 2 ^ 52 + n * 2 ^ nat (53 - ?b) \<le> f64_inf_mag"
    using hi le by (simp add: f64_inf_mag_def)
  then show "f64_mag_of_ratio n 1 = (?b + 1021) * 2 ^ 52 + n * 2 ^ nat (53 - ?b)"
    by (simp only: f64_mag_of_ratio_def Let_def div_by_1 mult_1_left s r min_absorb1)
qed

lemma f64_make_fields:
  assumes "0 \<le> m" and "m < 2 ^ 63"
  shows "f64_mag (f64_make s m) = m" and "f64_neg (f64_make s m) = s"
proof -
  have "uint (f64_make s m) = ((if s then 2 ^ 63 else 0) + m) mod 2 ^ 64"
    by (simp only: f64_make_def uint_word_of_int) simp
  also have "\<dots> = (if s then 2 ^ 63 else 0) + m" using assms by (auto intro: mod_pos_pos_trivial)
  finally have u: "uint (f64_make s m) = (if s then 2 ^ 63 else 0) + m" .
  show "f64_mag (f64_make s m) = m" "f64_neg (f64_make s m) = s"
    using assms by (auto simp: f64_mag_def f64_neg_def u)
qed

lemma split_52:
  fixes a r :: int
  assumes "0 \<le> r" and "r < 2 ^ 52"
  shows "(a * 2 ^ 52 + r) div 2 ^ 52 = a" and "(a * 2 ^ 52 + r) mod 2 ^ 52 = r"
  using assms by (simp_all add: int_div_pos_eq [of _ _ a r] int_mod_pos_eq [of _ _ a r] mult.commute)

lemma two_1074: "a + b = 1074 \<Longrightarrow> (x::int) * 2 ^ a * 2 ^ b = x * 2 ^ 1074"
  by (simp only: mult.assoc flip: power_add)

lemma f64_of_int_fields:
  assumes "n \<noteq> 0" and "\<bar>n\<bar> < 2 ^ 53"
  shows "f64_expo (f64_of_int n) = bit_length \<bar>n\<bar> + 1022"
    and "2 ^ 52 + f64_frac (f64_of_int n) = \<bar>n\<bar> * 2 ^ nat (53 - bit_length \<bar>n\<bar>)"
    and "f64_neg (f64_of_int n) = (n < 0)" and "f64_mag (f64_of_int n) < f64_inf_mag"
    and "1 \<le> bit_length \<bar>n\<bar>" and "bit_length \<bar>n\<bar> \<le> 53"
proof -
  let ?b = "bit_length \<bar>n\<bar>" and ?q = "\<bar>n\<bar> * 2 ^ nat (53 - bit_length \<bar>n\<bar>)"
  have pos: "0 < \<bar>n\<bar>" using assms(1) by simp
  show b: "1 \<le> ?b" "?b \<le> 53"
    using bit_length_bounds [OF pos] bit_length_le [OF pos, of 53] assms(2) by simp_all
  note m = mag_of_int [OF pos assms(2)]
  have u: "(?b + 1021) * 2 ^ 52 + ?q = (?b + 1022) * 2 ^ 52 + (?q - 2 ^ 52)" by (simp add: algebra_simps)
  have lt: "(?b + 1021) * 2 ^ 52 + ?q < f64_inf_mag" using m(3) b(2) by (simp add: f64_inf_mag_def)
  have "0 \<le> (?b + 1021) * 2 ^ 52 + ?q" using b m(2) by simp
  moreover have "(?b + 1021) * 2 ^ 52 + ?q < 2 ^ 63" using lt by (simp add: f64_inf_mag_def)
  ultimately have f: "f64_mag (f64_of_int n) = (?b + 1021) * 2 ^ 52 + ?q" "f64_neg (f64_of_int n) = (n < 0)"
    unfolding f64_of_int_def m(1) by (rule f64_make_fields)+
  then show "f64_neg (f64_of_int n) = (n < 0)" "f64_mag (f64_of_int n) < f64_inf_mag" using lt by simp_all
  have "0 \<le> ?q - 2 ^ 52" "?q - 2 ^ 52 < 2 ^ 52" using m(2,3) by simp_all
  note d = split_52 [OF this, of "?b + 1022"]
  show "f64_expo (f64_of_int n) = ?b + 1022" unfolding f64_expo_def f(1) u by (rule d)
  have "f64_frac (f64_of_int n) = ?q - 2 ^ 52" unfolding f64_frac_def f(1) u by (rule d)
  then show "2 ^ 52 + f64_frac (f64_of_int n) = ?q" by simp
qed

lemma f64_of_int_0: "f64_of_int 0 = 0"
  by code_simp

lemma signed_abs: "(if n < 0 then - (\<bar>n\<bar> * c) else \<bar>n\<bar> * c) = n * (c :: int)"
  by (simp add: abs_if)

lemma f64_scaled_of_int: "\<bar>n\<bar> < 2 ^ 53 \<Longrightarrow> f64_scaled (f64_of_int n) = n * 2 ^ 1074"
proof (cases "n = 0")
  case False
  assume lt: "\<bar>n\<bar> < 2 ^ 53"
  let ?b = "bit_length \<bar>n\<bar>"
  note f = f64_of_int_fields [OF False lt]
  have "nat (53 - ?b) + nat (?b + 1022 - 1) = 1074" using f(5,6) by linarith
  from two_1074 [OF this, of "\<bar>n\<bar>"]
  have p: "(2 ^ 52 + f64_frac (f64_of_int n)) * 2 ^ nat (f64_expo (f64_of_int n) - 1) = \<bar>n\<bar> * 2 ^ 1074"
    by (simp only: f(1,2))
  have e: "f64_expo (f64_of_int n) \<noteq> 0" using f(1,5) by simp
  show ?thesis
    unfolding f64_scaled_def Let_def if_not_P [OF e] p f(3) by (rule signed_abs)
next
  case True
  then show ?thesis by (simp add: f64_of_int_0 f64_scaled_def f64_expo_def f64_frac_def f64_mag_def)
qed

lemma f64_to_int_of_int: "\<bar>n\<bar> < 2 ^ 53 \<Longrightarrow> f64_to_int (f64_of_int n) = n"
proof (cases "n = 0")
  case False
  assume lt: "\<bar>n\<bar> < 2 ^ 53"
  let ?b = "bit_length \<bar>n\<bar>"
  note f = f64_of_int_fields [OF False lt]
  let ?s = "\<bar>n\<bar> * 2 ^ nat (53 - ?b)"
  have m: "(if 1075 \<le> ?b + 1022 then ?s * 2 ^ nat (?b + 1022 - 1075)
      else ?s div 2 ^ nat (1075 - max (?b + 1022) 1)) = \<bar>n\<bar>"
  proof (cases "?b = 53")
    case False
    then have "1075 - max (?b + 1022) 1 = 53 - ?b" using f(5,6) by linarith
    with False f(6) show ?thesis by simp
  qed simp
  have i: "in_int64 n" using lt by (auto simp: in_int64_def abs_less_iff)
  have e: "f64_expo (f64_of_int n) \<noteq> 0" using f(1,5) by simp
  have "(if n < 0 then - \<bar>n\<bar> else \<bar>n\<bar>) = n" by simp
  with f(4) i show ?thesis
    unfolding f64_to_int_def Let_def if_not_P [OF e] f(2,3) unfolding f(1) m by simp
next
  case True
  then show ?thesis by (simp only: f64_of_int_0) code_simp
qed

end
