(* ===== verification/Connector_Text.thy ===== *)
theory Connector_Text
  imports Connector_Steps Float_Exact
begin

text \<open>
  The text of a command: that the line the server writes for a channel value is the line a device
  of the simple protocol reads.
\<close>

section \<open>Digits\<close>

lemma digit_char_props:
  assumes "d < 10"
  shows "is_digit (digit_char d)" "\<not> is_space (digit_char d)" "lower_char (digit_char d) = digit_char d"
    "upper_char (digit_char d) = digit_char d" "digit_char d \<noteq> CHR ''=''" "digit_char d \<noteq> CHR ''.''"
    "digit_char d \<noteq> CHR '':''" "digit_char d \<noteq> CHR ''n''" "digit_char d \<noteq> CHR ''i''"
proof -
  have "list_all (\<lambda>d. is_digit (digit_char d) \<and> \<not> is_space (digit_char d) \<and> lower_char (digit_char d) = digit_char d \<and>
      upper_char (digit_char d) = digit_char d \<and> digit_char d \<noteq> CHR ''='' \<and> digit_char d \<noteq> CHR ''.'' \<and>
      digit_char d \<noteq> CHR '':'' \<and> digit_char d \<noteq> CHR ''n'' \<and> digit_char d \<noteq> CHR ''i'')
      [0, 1, 2, 3, 4, 5, 6, 7, 8, 9]"
    by code_simp
  moreover have "d \<in> set [0, 1, 2, 3, 4, 5, 6, 7, 8, 9]" using assms by auto
  ultimately show "is_digit (digit_char d)" "\<not> is_space (digit_char d)" "lower_char (digit_char d) = digit_char d"
    "upper_char (digit_char d) = digit_char d" "digit_char d \<noteq> CHR ''=''" "digit_char d \<noteq> CHR ''.''"
    "digit_char d \<noteq> CHR '':''" "digit_char d \<noteq> CHR ''n''" "digit_char d \<noteq> CHR ''i''"
    unfolding list_all_iff by blast+
qed

lemma nat_digits_digits: "c \<in> set (nat_digits n) \<Longrightarrow> \<exists>d < 10. c = digit_char d"
proof (induction n rule: nat_digits.induct)
  case (1 n)
  show ?case
  proof (cases "n < 10")
    case True
    with 1(2) show ?thesis by (subst (asm) nat_digits.simps) auto
  next
    case False
    with 1(2) have "c \<in> set (nat_digits (n div 10)) \<or> c = digit_char (n mod 10)"
      by (subst (asm) nat_digits.simps) auto
    with 1(1) False show ?thesis by (auto intro: exI [of _ "n mod 10"])
  qed
qed

text \<open>A string of digits, signs and points is not changed by trimming or by a change of case.\<close>

definition numeric_char :: "char \<Rightarrow> bool" where
  "numeric_char c \<longleftrightarrow> is_digit c \<or> c = CHR ''-'' \<or> c = CHR ''.''"

lemma is_digit_iff: "is_digit c \<longleftrightarrow> (\<exists>d < 10. c = digit_char d)"
proof -
  have "c = digit_char (of_char c - 48)" "(of_char c :: nat) - 48 < 10" if "is_digit c"
  proof -
    have "48 \<le> (of_char c :: nat)" "(of_char c :: nat) \<le> 57"
      using that by (auto simp: is_digit_def digit_val_def Let_def split: if_splits)
    then show "c = digit_char (of_char c - 48)" "(of_char c :: nat) - 48 < 10"
      by (simp_all add: digit_char_def)
  qed
  with digit_char_props(1) show ?thesis by blast
qed

lemma numeric_char_props:
  assumes "numeric_char c"
  shows "\<not> is_space c" "lower_char c = c" "upper_char c = c" "c \<noteq> CHR ''=''" "c \<noteq> CHR '':''"
    "c \<noteq> CHR ''n''" "c \<noteq> CHR ''i''"
proof -
  have m: "\<not> is_space CHR ''-''" "\<not> is_space CHR ''.''" "lower_char CHR ''-'' = CHR ''-''" "lower_char CHR ''.'' = CHR ''.''"
    "upper_char CHR ''-'' = CHR ''-''" "upper_char CHR ''.'' = CHR ''.''" by code_simp+
  consider d where "d < 10" "c = digit_char d" | "c = CHR ''-''" | "c = CHR ''.''"
    using assms by (auto simp: numeric_char_def is_digit_iff)
  then show "\<not> is_space c" "lower_char c = c" "upper_char c = c" "c \<noteq> CHR ''=''" "c \<noteq> CHR '':''"
    "c \<noteq> CHR ''n''" "c \<noteq> CHR ''i''"
    by (cases; simp add: digit_char_props m)+
qed

lemma nat_digits_numeric: "list_all is_digit (nat_digits n)" "list_all numeric_char (nat_digits n)"
  using nat_digits_digits [of _ n] digit_char_props(1) unfolding list_all_iff numeric_char_def by blast+

lemma itoa_numeric: "list_all numeric_char (itoa n)"
  using nat_digits_numeric(2) by (simp add: itoa_def numeric_char_def)

lemma itoa_nonempty [simp]: "itoa n \<noteq> []"
  by (simp add: itoa_def)

lemma trim_space_id: "\<not> is_space (hd s) \<Longrightarrow> \<not> is_space (last s) \<Longrightarrow> trim_space s = s"
proof -
  assume h: "\<not> is_space (hd s)" and l: "\<not> is_space (last s)"
  have "dropWhile is_space s = s" using h by (cases s) auto
  moreover have "dropWhile is_space (rev s) = rev s"
    using l by (cases s rule: rev_cases) auto
  ultimately show ?thesis by (simp add: trim_space_def)
qed

lemma trimmed_hd: "trim_space s = s \<Longrightarrow> s \<noteq> [] \<Longrightarrow> \<not> is_space (hd s)"
proof -
  assume t: "trim_space s = s" and "s \<noteq> []"
  have "length (dropWhile is_space s) = length s"
  proof -
    have "length (trim_space s) \<le> length (dropWhile is_space s)"
      unfolding trim_space_def by (simp add: le_trans [OF length_dropWhile_le])
    with t length_dropWhile_le [of is_space s] show ?thesis by simp
  qed
  then have "dropWhile is_space s = s" by (metis append_Nil length_0_conv length_append takeWhile_dropWhile_id add_cancel_left_left)
  with \<open>s \<noteq> []\<close> show ?thesis by (metis hd_dropWhile)
qed

lemma numeric_trim: "list_all numeric_char s \<Longrightarrow> trim_space s = s"
proof (cases "s = []")
  case False
  assume "list_all numeric_char s"
  with False have "numeric_char (hd s)" "numeric_char (last s)" by (auto simp: list_all_iff)
  with numeric_char_props(1) show ?thesis by (blast intro: trim_space_id)
qed (simp add: trim_space_def)

lemma numeric_upper: "list_all numeric_char s \<Longrightarrow> to_upper s = s"
  by (induction s) (simp_all add: to_upper_def numeric_char_props)

lemma cut_at_first: "c \<notin> set a \<Longrightarrow> cut_at c (a @ c # b) = Some (a, b)"
proof -
  assume "c \<notin> set a"
  then have "takeWhile (\<lambda>x. x \<noteq> c) (a @ c # b) = a" "dropWhile (\<lambda>x. x \<noteq> c) (a @ c # b) = c # b"
    by (simp_all add: takeWhile_tail takeWhile_eq_all_conv dropWhile_append) (use \<open>c \<notin> set a\<close> in auto)
  then show ?thesis by (simp add: cut_at_def)
qed

section \<open>Numbers with six decimals\<close>

lemma digits_of_append:
  "takeWhile is_digit (nat_digits n @ CHR ''.'' # r) = nat_digits n"
  "dropWhile is_digit (nat_digits n @ CHR ''.'' # r) = CHR ''.'' # r"
proof -
  have "\<not> is_digit CHR ''.''" by code_simp
  with nat_digits_numeric(1) [of n] show
    "takeWhile is_digit (nat_digits n @ CHR ''.'' # r) = nat_digits n"
    "dropWhile is_digit (nat_digits n @ CHR ''.'' # r) = CHR ''.'' # r"
    by (simp_all add: list_all_iff takeWhile_append dropWhile_append)
qed

lemma format_of_nat:
  assumes "n < 2 ^ 53"
  shows "format_f (f64_of_int (int n)) = nat_digits n @ ''.000000''"
proof -
  have lt: "\<bar>int n\<bar> < 2 ^ 53" using assms by simp
  have mag: "f64_mag (f64_of_int (int n)) < f64_inf_mag"
  proof (cases "n = 0")
    case False
    with f64_of_int_fields(4) [OF _ lt] show ?thesis by simp
  qed (simp add: f64_of_int_0 f64_mag_def f64_inf_mag_def)
  have neg: "\<not> f64_neg (f64_of_int (int n))"
  proof (cases "n = 0")
    case False
    with f64_of_int_fields(3) [OF _ lt] show ?thesis by simp
  qed (simp add: f64_of_int_0 f64_neg_def)
  have "\<bar>f64_scaled (f64_of_int (int n))\<bar> * 1000000 = (int n * 1000000) * 2 ^ 1074"
  proof -
    have "0 \<le> int n * 2 ^ 1074" by (intro mult_nonneg_nonneg zero_le_power) simp_all
    then show ?thesis unfolding f64_scaled_of_int [OF lt] by (simp only: abs_of_nonneg ac_simps)
  qed
  then have r: "round_half_even (\<bar>f64_scaled (f64_of_int (int n))\<bar> * 1000000) (2 ^ 1074) = int n * 1000000"
    by (simp only: round_half_even_exact zero_less_power zero_less_numeral)
  have "nat (int n * 1000000) = n * 1000000" by simp
  moreover have "pad6 0 = ''000000''" by code_simp
  ultimately show ?thesis
    using mag neg unfolding format_f_def Let_def r by (simp add: f64_is_nan_def)
qed

lemma digits_val_zeros: "digits_val (nat_digits n @ ''000000'') = Some (n * 1000000)"
proof -
  have "digit_val CHR ''0'' = Some 0" by code_simp
  then show ?thesis by (simp add: digits_val_def digits_acc_append digits_acc_nat_digits)
qed

lemma nat_digits_hd: "\<exists>d < 10. \<exists>r. nat_digits n = digit_char d # r"
  using hd_nat_digits [of n] by (cases "nat_digits n") auto

lemma parse_six_decimals:
  assumes "n < 2 ^ 53"
  shows "parse_float (nat_digits n @ ''.000000'') = Some (f64_of_int (int n))"
proof -
  let ?s = "nat_digits n @ ''.000000''"
  obtain d r where d: "d < 10" "nat_digits n = digit_char d # r" using nat_digits_hd by blast
  have names: "to_lower ?s \<noteq> ''nan''" "to_lower ?s \<noteq> ''inf''" "to_lower ?s \<noteq> ''infinity''"
    "hd ?s \<noteq> CHR ''-''" "hd ?s \<noteq> CHR ''+''"
    using digit_char_props [OF d(1)] d(1) by (simp_all add: to_lower_def d(2))
  have z: "is_digit CHR ''0''" by code_simp
  have e: "parse_exponent [] = Some 0" by (simp add: parse_exponent_def)
  have k: "f64_mag_of_ratio (int (n * 1000000)) (10 ^ nat (- (0 - int (length ''000000'')))) =
      f64_mag_of_ratio (int n) 1"
    using mag_of_ratio_scale [of 1000000 1 "int n"] by (simp add: mult.commute)
  have mag: "n \<noteq> 0 \<Longrightarrow> f64_mag_of_ratio (int n) 1 \<noteq> f64_inf_mag"
  proof -
    assume "n \<noteq> 0"
    then have b: "0 < int n" "int n < 2 ^ 53" using assms by simp_all
    note m = mag_of_int [OF b]
    have "bit_length (int n) \<le> 53" using bit_length_le [OF b(1), of 53] b(2) by simp
    with m(3) show ?thesis unfolding m(1) by (simp add: f64_inf_mag_def)
  qed
  have u: "parse_unsigned_float False ?s = Some (f64_of_int (int n))"
  proof (cases "n = 0")
    case True
    then show ?thesis by (simp only:) code_simp
  next
    case False
    have "parse_unsigned_float False ?s =
      (let mag = f64_mag_of_ratio (int (n * 1000000)) (10 ^ nat (- (0 - int (length ''000000''))))
       in if mag = f64_inf_mag then None else Some (f64_make False mag))"
      using names False z
      by (simp add: parse_unsigned_float_def digits_of_append digits_val_zeros e Let_def del: of_nat_mult)
    with mag [OF False] show ?thesis unfolding k Let_def by (simp add: f64_of_int_def)
  qed
  with names show ?thesis by (simp add: parse_float_def)
qed

section \<open>The command line\<close>

lemma parse_command_line:
  assumes "tag \<noteq> []" and "trim_space tag = tag" and "CHR '':'' \<notin> set tag" and "n < 2 ^ 53"
  shows "ParseSimpleLine (command_line tag i (f64_of_int (int n))) =
    Inr \<lparr>sm_Tag = tag, sm_Cmd = CHR ''C'' # itoa i, sm_Value = nat_digits n @ ''.000000''\<rparr>"
proof -
  let ?v = "nat_digits n @ ''.000000''" and ?c = "CHR ''C'' # itoa i"
  have cmd: "command_line tag i (f64_of_int (int n)) = tag @ CHR '':'' # (?c @ CHR ''='' # ?v)"
    by (simp add: command_line_def format_of_nat [OF assms(4)])
  have sp: "\<not> is_space CHR ''C''" "\<not> is_space CHR ''0''" by code_simp+
  have line: "trim_space (tag @ CHR '':'' # (?c @ CHR ''='' # ?v)) = tag @ CHR '':'' # (?c @ CHR ''='' # ?v)"
    using trimmed_hd [OF assms(2,1)] assms(1) sp by (intro trim_space_id) simp_all
  have body: "trim_space (?c @ CHR ''='' # ?v) = ?c @ CHR ''='' # ?v" using sp by (intro trim_space_id) simp_all
  have num: "numeric_char CHR ''0''" "numeric_char CHR ''.''" by code_simp+
  have val: "trim_space ?v = ?v" using nat_digits_numeric(2) num by (intro numeric_trim) simp
  have "last ?c = last (itoa i)" by simp
  moreover have "numeric_char (last (itoa i))" using itoa_numeric [of i] by (simp add: list_all_iff)
  ultimately have tc: "trim_space ?c = ?c" using sp numeric_char_props(1) by (intro trim_space_id) simp_all
  have eq: "CHR ''='' \<notin> set ?c" using itoa_numeric [of i] numeric_char_props(4) by (auto simp: list_all_iff)
  show ?thesis
    unfolding cmd ParseSimpleLine_def line Let_def
    using cut_at_first [OF assms(3), of "?c @ CHR ''='' # ?v"] cut_at_first [OF eq, of ?v] assms(2) body val tc
    by simp
qed

end
