(* ===== verification/Connector_Properties.thy ===== *)
theory Connector_Properties
  imports Connector_Text
begin

text \<open>
  The guarantees of the connections of external devices, and where they break: what is announced and
  left behind, the click types of a button, and the way of a level from the vdSM to the line that a
  device reads.
\<close>

section \<open>Announcements\<close>


definition desk_init :: obj where
  "desk_init = [(''message'', GStr ''init''), (''tag'', GStr ''A''), (''uniqueid'', GStr ''lamp'')]"

definition desk :: ext_device where
  "desk = \<lparr>dv_Tag = ''A'', dv_UniqueID = ''lamp'', dv_Output = [], dv_Name = []\<rparr>"

text \<open>A connection that announced one device.\<close>

definition desk_conn :: connector where
  "desk_conn = conn_do id (\<lambda>_. Inr (GObj desk_init)) (Line 0 ''x'') (NewConnector ''peer'' True)"

definition desk_msg :: init_message where
  "desk_msg = \<lparr>im_Message = ''init'', im_Protocol = [], im_Tag = ''A'', im_UniqueID = ''lamp'', im_Output = [], im_Name = []\<rparr>"

lemma desk_decoded: "json_into init_fields desk_init zero_init = (None, desk_msg)"
  by code_simp

lemma desk_msg_fields [simp]:
  "im_Message desk_msg = ''init''" "im_Protocol desk_msg = []" "im_Tag desk_msg = ''A''"
  "im_UniqueID desk_msg = ''lamp''" "device_of desk_msg = desk" "ValidateInit desk_msg = None"
  by (simp_all add: desk_msg_def device_of_def desk_def ValidateInit_def)

lemma desk_fields [simp]: "dv_Tag desk = ''A''" "dv_UniqueID desk = ''lamp''"
  by (simp_all add: desk_def)

lemma desk_conn_fields [simp]:
  "rg_devices (ct_registry desk_conn) = [(''A'', desk)]" "ct_simple desk_conn = False"
  "ct_addr desk_conn = ''peer''" "ct_up desk_conn" "ct_onEvent desk_conn" "ct_buttons desk_conn = []"
  "evs desk_conn = [init_event desk_msg\<lparr>e_Connection := ''peer''\<rparr>]"
  "rg_states (ct_registry desk_conn) = [(''A'', new_dev_state)]"
proof -
  have t: "trim_space ''x'' = ''x''" by code_simp
  have m: "obj_str desk_init ''message'' = ''init''" by code_simp
  show "rg_devices (ct_registry desk_conn) = [(''A'', desk)]" "ct_simple desk_conn = False"
  "ct_addr desk_conn = ''peer''" "ct_up desk_conn" "ct_onEvent desk_conn" "ct_buttons desk_conn = []"
  "evs desk_conn = [init_event desk_msg\<lparr>e_Connection := ''peer''\<rparr>]"
  "rg_states (ct_registry desk_conn) = [(''A'', new_dev_state)]"
    by (simp_all add: desk_conn_def run_line_def Let_def t handleLine_def handleJSONLine_def line_objects_def
        handle_object_def m handle_init_message_def desk_decoded NewConnector_def
        rg_New_def rg_Count_def rg_Add_def go_has_def emitEvent_def sendStatus_def writeLine_def
        evs_def effect_events_def)
qed

lemma desk_reach: "conn_reach id (\<lambda>_. Inr (GObj desk_init)) desk_conn"
  unfolding desk_conn_def by (intro conn_reach.intros)


text \<open>
  C9: a connection that speaks JSON and gives its devices unique ids leaves nothing behind: when it
  ends, whatever happened on it, the mirror has no device that it did not have before.
\<close>

theorem connection_leaves_nothing:
  assumes "conn_reach q unmarshal c" and "\<not> ct_simple c" and "list_all named_init (evs c)"
  shows "store_keys (reported now (evs (run_end c)) s) \<subseteq> store_keys s"
proof -
  note m = reach_mirror_ok [OF assms(1), of now s]
  then have k: "store_keys (reported now (evs c) s) \<subseteq> store_keys s \<union> dev_keys c"
    and u: "list_all (\<lambda>d. trim_space (dv_UniqueID d) \<noteq> []) (AllDevices (ct_registry c))" and h: "ct_onEvent c"
    using assms(2,3) by (auto simp: mirror_ok_def list_all_iff)
  have "store_keys (reported now (evs (run_end c)) s) = store_keys (reported now (evs c) s) - dev_keys c"
    using removes_keys [OF u] by (simp add: evs_run_end [OF h] reported_def dev_keys_def)
  with k show ?thesis by blast
qed

theorem connection_leaves_nothing_witness:
  "go_has (st_devices (reported 0 (evs desk_conn) NewStateStore)) (uid_key ''lamp'') \<and>
   store_keys (reported 0 (evs (run_end desk_conn)) NewStateStore) = {}"
proof -
  have t: "trim_space ''lamp'' = ''lamp''" by code_simp
  have n: "list_all named_init (evs desk_conn)" by (simp add: named_init_def t)
  have "store_keys NewStateStore = {}" by (simp add: store_keys_def NewStateStore_def go_has_def)
  with connection_leaves_nothing [OF desk_reach _ n, of 0 NewStateStore]
  have "store_keys (reported 0 (evs (run_end desk_conn)) NewStateStore) = {}" by simp
  moreover have "go_has (st_devices (reported 0 (evs desk_conn) NewStateStore)) (uid_key ''lamp'')"
    using init_event_keys [of "hd (evs desk_conn)" 0 NewStateStore] by (auto simp: store_keys_def reported_def t)
  ultimately show ?thesis by blast
qed

text \<open>
  A BYE of the simple protocol forgets the device without an event: the device stays in the
  mirror, also after the connection has ended, unless another device of the connection has its id.
\<close>

theorem simple_bye_stays:
  assumes "ct_simple c" and "ct_onEvent c" and "ParseSimpleLine line = Inr m" and "equal_fold (sm_Cmd m) ''BYE''"
    and "ResolveTag (sm_Tag m) (ct_registry c) = Inr d"
    and "list_all (\<lambda>(k, e). k = dv_Tag d \<or> (trim_space (dv_UniqueID e) \<noteq> [] \<and>
        trim_space (dv_UniqueID e) \<noteq> trim_space (dv_UniqueID d))) (rg_devices (ct_registry c))"
    and "uid_key (trim_space (dv_UniqueID d)) \<in> store_keys (reported now (evs c) s)"
  shows "uid_key (trim_space (dv_UniqueID d)) \<in> store_keys (reported now (evs (run_end (run_line q unmarshal t line c))) s)"
proof -
  have l: "\<not> prefix ''L'' (sm_Cmd m)" using assms(4) by (cases "sm_Cmd m") (auto simp: equal_fold_def to_lower_def lower_char_def)
  have line: "trim_space line \<noteq> []" using assms(3) by (auto simp: ParseSimpleLine_def)
  have p: "ParseSimpleLine (trim_space line) = Inr m" using assms(3) by (simp add: ParseSimpleLine_def)
  have r: "run_line q unmarshal t line c = upd_reg (rg_Remove (dv_Tag d)) c"
    using assms(1,4,5) l line by (simp add: run_line_def Let_def handleLine_def handleSimpleLine_def p)
  let ?ds = "AllDevices (rg_Remove (dv_Tag d) (ct_registry c))"
  have ds: "list_all (\<lambda>e. trim_space (dv_UniqueID e) \<noteq> [] \<and> trim_space (dv_UniqueID e) \<noteq> trim_space (dv_UniqueID d)) ?ds"
    using assms(6) by (auto simp: AllDevices_def rg_Remove_def AList.delete_eq list_all_iff)
  then have u: "list_all (\<lambda>e. trim_space (dv_UniqueID e) \<noteq> []) ?ds" by (auto simp: list_all_iff)
  have "evs (run_end (run_line q unmarshal t line c)) =
      evs c @ map (\<lambda>d. remove_event d\<lparr>e_Connection := ct_addr c\<rparr>) ?ds"
    using evs_run_end [of "upd_reg (rg_Remove (dv_Tag d)) c"] assms(2) by (simp add: r)
  with removes_keys [OF u, of now "ct_addr c" "reported now (evs c) s"] assms(7) ds show ?thesis
    by (auto simp: reported_def list_all_iff uid_key_def)
qed

theorem simple_bye_stays_witness:
  "uid_key ''lamp'' \<in> store_keys (reported 0 (evs (run_end (run_line id (\<lambda>_. Inl []) 1 ''A:bye''
     (desk_conn\<lparr>ct_simple := True\<rparr>)))) NewStateStore)"
proof -
  let ?c = "desk_conn\<lparr>ct_simple := True\<rparr>"
  have t: "trim_space ''lamp'' = ''lamp''" by code_simp
  have p: "ParseSimpleLine ''A:bye'' = Inr \<lparr>sm_Tag = ''A'', sm_Cmd = ''bye'', sm_Value = []\<rparr>" by code_simp
  have b: "equal_fold ''bye'' ''BYE''" by code_simp
  have "uid_key (trim_space (dv_UniqueID desk)) \<in> store_keys (reported 0 (evs ?c) NewStateStore)"
    using init_event_keys [of "hd (evs desk_conn)" 0 NewStateStore] by (auto simp: reported_def t desk_def)
  from simple_bye_stays [OF _ _ p _ _ _ this, of id "\<lambda>_. Inl []" 1] show ?thesis
    by (simp add: b ResolveTag_def desk_def t)
qed

section \<open>Clicks\<close>

definition click :: "string \<Rightarrow> string \<Rightarrow> int \<Rightarrow> int \<times> int \<Rightarrow> connector \<Rightarrow> connector" where
  "click tag uid i = (\<lambda>(p, r) c. emitButtonAction r tag uid i f64_zero [] (emitButtonAction p tag uid i f64_one [] c))"

text \<open>Short presses, each released soon enough after the one before.\<close>

fun quick :: "int option \<Rightarrow> (int \<times> int) list \<Rightarrow> bool" where
  "quick t [] = True"
| "quick t ((p, r) # cs) = (p \<le> r \<and> r - p < buttonHoldThreshold \<and>
     (case t of None \<Rightarrow> True | Some t \<Rightarrow> r - t \<le> buttonMultiClickWindow) \<and> quick (Some r) cs)"

lemma click_once:
  assumes "ct_onEvent c" and "go_get zero_button (ct_buttons c) (button_key tag i) = st"
    and "bs_pressedAt st = None" and "bs_mode st = []" and "p \<le> r" and "r - p < buttonHoldThreshold"
  shows "click tag uid i (p, r) c = emitEvent (action_event tag uid i (buttonClickAction (click_count r st)))
     (c\<lparr>ct_buttons := AList.update (button_key tag i)
          (st\<lparr>bs_clickCount := click_count r st, bs_lastRelease := Some r\<rparr>)
          (AList.update (button_key tag i) (st\<lparr>bs_pressedAt := Some p\<rparr>) (ct_buttons c))\<rparr>)"
proof -
  have m: "normalizeButtonMode [] = []" by (simp add: normalizeButtonMode_def)
  have f: "f64_less 0 f64_one" "\<not> f64_less 0 f64_zero" by code_simp+
  have cc: "click_count r (st\<lparr>bs_pressedAt := x\<rparr>) = click_count r st" for x
    by (simp add: click_count_def split: option.split)
  have st: "st\<lparr>bs_pressedAt := None\<rparr> = st" using assms(3) by simp
  show ?thesis
    using assms by (simp add: click_def emitButtonAction_def Let_def m f release_actions_def buttonDebounceWindow_def
        mapButtonActionByMode_def cc st)
qed

lemma clicks_events:
  assumes "ct_onEvent c" and "go_get zero_button (ct_buttons c) (button_key tag i) = st"
    and "bs_pressedAt st = None" and "bs_mode st = []" and "0 \<le> bs_clickCount st"
    and "bs_lastRelease st = None \<Longrightarrow> bs_clickCount st = 0" and "quick (bs_lastRelease st) cs"
  shows "evs (fold (click tag uid i) cs c) = evs c @ map (\<lambda>j.
     (action_event tag uid i (buttonClickAction (min 4 (bs_clickCount st + 1 + int j))))\<lparr>e_Connection := ct_addr c\<rparr>)
     [0..<length cs]"
  using assms
proof (induction cs arbitrary: c st)
  case (Cons pr cs)
  obtain p r where pr: "pr = (p, r)" by fastforce
  let ?n = "min 4 (bs_clickCount st + 1)"
  let ?st = "st\<lparr>bs_clickCount := ?n, bs_lastRelease := Some r\<rparr>"
  from Cons.prems(7) pr have q: "p \<le> r" "r - p < buttonHoldThreshold" "quick (Some r) cs"
    and w: "case bs_lastRelease st of None \<Rightarrow> True | Some t \<Rightarrow> r - t \<le> buttonMultiClickWindow" by simp_all
  have n: "click_count r st = ?n"
    using w Cons.prems(4,6) by (auto simp: click_count_def split: option.split)
  let ?c = "click tag uid i (p, r) c"
  note one = click_once [OF Cons.prems(1,2,3,4) q(1,2), of uid]
  have c: "ct_onEvent ?c" "go_get zero_button (ct_buttons ?c) (button_key tag i) = ?st" "ct_addr ?c = ct_addr c"
    using Cons.prems(1) unfolding one n by simp_all
  have "evs (fold (click tag uid i) cs ?c) = evs ?c @ map (\<lambda>j. (action_event tag uid i
      (buttonClickAction (min 4 (bs_clickCount ?st + 1 + int j))))\<lparr>e_Connection := ct_addr ?c\<rparr>) [0..<length cs]"
    by (rule Cons.IH [OF c(1,2)]) (use Cons.prems q(3) in auto)
  moreover have "evs ?c = evs c @ [(action_event tag uid i (buttonClickAction ?n))\<lparr>e_Connection := ct_addr c\<rparr>]"
    using Cons.prems(1) unfolding one n by (simp add: evs_emit)
  moreover have "min 4 (?n + 1 + int j) = min 4 (bs_clickCount st + 1 + int (Suc j))" for j by simp
  ultimately show ?case
    by (simp add: pr c(3) upt_conv_Cons map_Suc_upt [symmetric] del: upt_Suc)
qed simp

text \<open>
  C11: quick clicks on a button are told apart: the first, second, third and fourth in a row are
  reported as the click types 0, 1, 2 and 3 of the vdSM, and every further one as the fourth.
\<close>

theorem clicks_reported:
  assumes "ct_onEvent c" and "go_get zero_button (ct_buttons c) (button_key tag i) = zero_button" and "quick None cs"
  shows "map (\<lambda>e. (e_Type e, e_UniqueID e, e_Index e, dsClickType (e_Action e)))
       (drop (length (evs c)) (evs (fold (click tag uid i) cs c))) =
     map (\<lambda>j. (EventButtonAction, uid, i, Some (min 3 (int j)))) [0..<length cs]"
proof -
  have "dsClickType (buttonClickAction (min 4 (1 + int j))) = Some (min 3 (int j))" for j
    by (auto simp: dsClickType_def buttonClickAction_def min_def)
  then show ?thesis
    using clicks_events [OF assms(1,2), of cs uid] assms(3)
    by (simp add: zero_button_def action_event_def event0_def comp_def)
qed

theorem clicks_reported_witness:
  "map (\<lambda>e. (e_Type e, e_UniqueID e, e_Index e, dsClickType (e_Action e)))
     (drop 1 (evs (fold (click ''A'' ''lamp'' 0) [(0, 100000000), (200000000, 300000000)] desk_conn))) =
   [(EventButtonAction, ''lamp'', 0, Some 0), (EventButtonAction, ''lamp'', 0, Some 1)]"
proof -
  have "quick None [(0, 100000000), (200000000, 300000000)]" by code_simp
  from clicks_reported [OF _ _ this, of desk_conn "''A''" 0 "''lamp''"] show ?thesis
    by (simp add: upt_rec)
qed

section \<open>From the vdSM to the device\<close>

lemma update_present: "distinct (map fst m) \<Longrightarrow> (k, v) \<in> set m \<Longrightarrow> AList.update k v m = m"
  by (induction m) force+

lemma send_first_skip:
  assumes "distinct (map fst (es_connectors s))" and "set pre \<subseteq> set (es_connectors s)"
    and "list_all (\<lambda>(n, c). FindByUniqueID uid (ct_registry c) = None) pre"
  shows "send_first uid i x (pre @ rest) s = send_first uid i x rest s"
  using assms(2,3)
proof (induction pre)
  case (Cons p pre)
  then show ?case
    by (cases p) (auto simp: SendChannelValue_def Let_def update_present [OF assms(1)])
qed simp


definition lamp_device :: ext_device where
  "lamp_device = \<lparr>dv_Tag = ''A'', dv_UniqueID = lamp_id, dv_Output = ''light'', dv_Name = ''Lamp''\<rparr>"

definition lamp_conn :: connector where
  "lamp_conn = (NewConnector ''peer'' True)\<lparr>ct_simple := True, ct_registry := snd (rg_Add lamp_device rg_New)\<rparr>"

definition lamp_house :: "ext_server vdc" where
  "lamp_house = \<lparr>v_dsuid = ''VDC'', v_description = ''d'',
     v_state = Some (NewStateStore\<lparr>st_devices := [(uid_key lamp_id, lamp)]\<rparr>),
     v_commander = Some (server_commander id), v_scenes = None, v_config = None, v_ramps = None, v_io = True,
     v_world = \<lparr>es_connectors = [(1, lamp_conn)]\<rparr>\<rparr>"


section \<open>What the protocols lose\<close>

text \<open>
  The SYNC and SYNCED commands of the simple protocol never take effect: they are taken for a
  sensor command, whose index is not a number, and are answered with an error.
\<close>

theorem simple_sync_refused:
  assumes "to_upper (sm_Cmd m) \<in> {''SYNC'', ''SYNCED''}" and "ResolveTag (sm_Tag m) (ct_registry c) = Inr d"
  shows "\<exists>e. handleDeviceSimple now m c = (Some e, c)"
proof -
  have "atoi ''YNC'' = None" "atoi ''YNCED'' = None" by code_simp+
  with assms show ?thesis
    by (auto simp: handleDeviceSimple_def Let_def indexed_command_def parseSimpleIndexedCommand_def untagged_def)
qed

theorem simple_sync_refused_witness:
  "\<exists>e. handleDeviceSimple 0 \<lparr>sm_Tag = ''A'', sm_Cmd = ''sync'', sm_Value = []\<rparr> desk_conn = (Some e, desk_conn)"
proof -
  have "to_upper ''sync'' = ''SYNC''" by code_simp
  then show ?thesis
    using simple_sync_refused [of "\<lparr>sm_Tag = ''A'', sm_Cmd = ''sync'', sm_Value = []\<rparr>" desk_conn desk 0]
    by (simp add: ResolveTag_def)
qed

text \<open>
  A value that a JSON message reports without a tag, as the only device of a connection may, is
  passed on as an event but not kept in the registry when the device was announced with a tag.
\<close>

theorem untagged_value_not_kept:
  assumes "registry_wf (ct_registry c)" and "rg_devices (ct_registry c) = [(t, d)]" and "t \<noteq> []" and "ct_onEvent c"
    and "obj_str obj ''message'' = ''channel''" and "obj_str obj ''tag'' = []" and "indexAndValue obj = Some (i, x)"
  shows "\<exists>c'. handleDeviceJSON now obj c = (None, c') \<and> ct_registry c' = ct_registry c \<and>
     evs c' = evs c @ [(dev_event EventChannel t (dv_UniqueID d) i x)\<lparr>e_Connection := ct_addr c\<rparr>]"
proof -
  have "go_has (rg_states (ct_registry c)) [] = go_has (rg_devices (ct_registry c)) []" "dv_Tag d = t"
    using assms(1,2) by (auto simp: registry_wf_def)
  then have "map_of (rg_states (ct_registry c)) [] = None" "dv_Tag d = t" using assms(2,3) by (simp_all add: go_has_def)
  moreover have "hasKey obj ''index''" "hasKey obj ''value''"
    using assms(7) by (auto simp: indexAndValue_def hasKey_def go_has_def j_get_def go_get_def split: gany.splits option.splits)
  then have "ValidateDeviceMessageJSON ''channel'' obj = None"
    by (simp add: ValidateDeviceMessageJSON_def checks_def hasAny_def)
  ultimately show ?thesis
    using assms(2-7) by (simp add: handleDeviceJSON_def Let_def ResolveTag_def device_message_def SetChannel_def
        upd_dev_def evs_emit)
qed

theorem untagged_value_not_kept_witness:
  "\<exists>c'. handleDeviceJSON 0 [(''message'', GStr ''channel''), (''index'', GFloat 0), (''value'', GFloat f64_hundred)] desk_conn =
     (None, c') \<and> ct_registry c' = ct_registry desk_conn"
proof -
  let ?o = "[(''message'', GStr ''channel''), (''index'', GFloat 0), (''value'', GFloat f64_hundred)]"
  have o: "obj_str ?o ''message'' = ''channel''" "obj_str ?o ''tag'' = []" by code_simp+
  have i: "indexAndValue ?o = Some (0, f64_hundred)" by code_simp
  have wf: "registry_wf (ct_registry desk_conn)" using reach_conn_ok [OF desk_reach] by (simp add: conn_ok_def)
  from untagged_value_not_kept [OF wf _ _ _ o i, of "''A''" desk 0] show ?thesis by auto
qed

end
