(* ===== verification/Event_Buffers.thy ===== *)
theory Event_Buffers
  imports Pbuf_Params
begin

text \<open>
  The ring buffers of the plugin bridge: plugin events (\<^verbatim>\<open>pkg/bridge/event_buffer.go\<close>,
  \<^verbatim>\<open>plugin_event.go\<close>) and device activity (\<^verbatim>\<open>device_activity.go\<close>). Both keep the newest entries per
  key and over all, number what is published and pass it on to subscribers without waiting. Publishing is
  one step here; \<open>eb_draw\<close> and \<open>eb_append\<close> are the two steps it takes, between which another
  goroutine may run, because the number is drawn before the lock is taken.
\<close>

section \<open>Rings\<close>

definition last_n :: "nat \<Rightarrow> 'a list \<Rightarrow> 'a list" where
  "last_n n xs = drop (length xs - n) xs"

definition ring_append :: "nat \<Rightarrow> 'a list \<Rightarrow> 'a \<Rightarrow> 'a list" where
  "ring_append cap xs x =
     (let s = xs @ [x] in if cap < length s then drop (length s - cap) s else s)"

lemma ring_append_last_n: "ring_append cap xs x = last_n cap (xs @ [x])"
  by (simp add: ring_append_def last_n_def Let_def)

lemma length_last_n [simp]: "length (last_n n xs) = min n (length xs)"
  by (simp add: last_n_def)

lemma last_n_all: "length xs \<le> n \<Longrightarrow> last_n n xs = xs"
  by (simp add: last_n_def)

lemma last_n_append: "last_n n (last_n n xs @ ys) = last_n n (xs @ ys)"
proof (cases "length xs \<le> n")
  case False
  then have "length (last_n n xs @ ys) - n = length ys" "length (xs @ ys) - n = length ys + (length xs - n)" by simp_all
  then show ?thesis using False by (cases "length ys \<le> n") (simp_all add: last_n_def add.commute)
qed (simp add: last_n_all)

text \<open>At most the newest \<open>limit\<close> entries; no limit when it is not positive.\<close>

definition newest :: "int \<Rightarrow> 'a list \<Rightarrow> 'a list" where
  "newest limit xs = (if 0 < limit \<and> limit < int (length xs) then drop (length xs - nat limit) xs else xs)"

definition buffered :: nat where "buffered = 64"

definition fan_out :: "'a \<Rightarrow> (nat \<times> 'a list) list \<Rightarrow> (nat \<times> 'a list) list" where
  "fan_out e subs = map (\<lambda>(i, q). (i, if length q < buffered then q @ [e] else q)) subs"

text \<open>
  The interface both buffers implement: pushing an entry keeps the newest entries of its key and the
  newest of all. What a sequence of pushes leaves is then the tail of the history.
\<close>

locale ring_log =
  fixes push :: "'e \<Rightarrow> 's \<Rightarrow> 's" and of_key :: "'s \<Rightarrow> string \<Rightarrow> 'e list" and all_of :: "'s \<Rightarrow> 'e list"
    and key :: "'e \<Rightarrow> string" and per :: "'s \<Rightarrow> nat" and glob :: "'s \<Rightarrow> nat"
  assumes push_key: "of_key (push e s) k = (if key e = k then last_n (per s) (of_key s k @ [e]) else of_key s k)"
    and push_all: "all_of (push e s) = last_n (glob s) (all_of s @ [e])"
    and push_caps: "per (push e s) = per s" "glob (push e s) = glob s"
begin

lemma all_of_pushes: "length (all_of s) \<le> glob s \<Longrightarrow> all_of (fold push es s) = last_n (glob s) (all_of s @ es)"
proof (induction es arbitrary: s)
  case (Cons e es)
  then have "all_of (fold push es (push e s)) = last_n (glob s) (last_n (glob s) (all_of s @ [e]) @ es)"
    by (simp add: push_all push_caps)
  then show ?case by (simp add: last_n_append)
qed (simp add: last_n_all)

lemma of_key_pushes:
  "length (of_key s k) \<le> per s \<Longrightarrow> of_key (fold push es s) k = last_n (per s) (of_key s k @ filter (\<lambda>e. key e = k) es)"
proof (induction es arbitrary: s)
  case (Cons e es)
  show ?case
  proof (cases "key e = k")
    case True
    with Cons have "of_key (fold push es (push e s)) k =
        last_n (per s) (last_n (per s) (of_key s k @ [e]) @ filter (\<lambda>e. key e = k) es)"
      by (simp add: push_key push_caps)
    with True show ?thesis by (simp add: last_n_append)
  next
    case False
    with Cons show ?thesis by (simp add: push_key push_caps)
  qed
qed (simp add: last_n_all)

lemma of_key_bounded: "of_key s k = [] \<Longrightarrow> length (of_key (fold push es s) k) \<le> per s"
  by (subst of_key_pushes) simp_all

lemma all_of_bounded: "all_of s = [] \<Longrightarrow> length (all_of (fold push es s)) \<le> glob s"
  by (subst all_of_pushes) simp_all

end

section \<open>Plugin events\<close>

record plugin_event =
  pl_Seq :: u64
  pl_Time :: "nat option"
  pl_PluginID :: string
  pl_Level :: string
  pl_Code :: string
  pl_Message :: string
  pl_Fields :: obj

record event_buffer =
  eb_byPlugin :: "(string, plugin_event list) gomap"
  eb_global :: "plugin_event list"
  eb_perCap :: nat
  eb_globalCap :: nat
  eb_counter :: u64
  eb_subs :: "(nat, plugin_event list) gomap"
  eb_nextSub :: nat

definition NewEventBuffer :: "nat \<Rightarrow> nat \<Rightarrow> event_buffer" where
  "NewEventBuffer perCap globalCap = \<lparr>eb_byPlugin = [], eb_global = [], eb_perCap = perCap,
     eb_globalCap = globalCap, eb_counter = 0, eb_subs = [], eb_nextSub = 0\<rparr>"

definition eb_draw :: "nat \<Rightarrow> plugin_event \<Rightarrow> event_buffer \<Rightarrow> plugin_event \<times> event_buffer" where
  "eb_draw now ev b =
     (let n = eb_counter b + 1
      in (ev\<lparr>pl_Seq := n, pl_Time := (case pl_Time ev of None \<Rightarrow> Some now | t \<Rightarrow> t)\<rparr>, b\<lparr>eb_counter := n\<rparr>))"

definition eb_append :: "plugin_event \<Rightarrow> event_buffer \<Rightarrow> event_buffer" where
  "eb_append ev b = b\<lparr>
     eb_byPlugin := AList.update (pl_PluginID ev)
       (ring_append (eb_perCap b) (go_get [] (eb_byPlugin b) (pl_PluginID ev)) ev) (eb_byPlugin b),
     eb_global := ring_append (eb_globalCap b) (eb_global b) ev,
     eb_subs := fan_out ev (eb_subs b)\<rparr>"

definition eb_Publish :: "nat \<Rightarrow> plugin_event \<Rightarrow> event_buffer \<Rightarrow> event_buffer" where
  "eb_Publish now ev b = (case eb_draw now ev b of (ev', b') \<Rightarrow> eb_append ev' b')"

definition eb_Snapshot :: "string \<Rightarrow> u64 \<Rightarrow> string \<Rightarrow> int \<Rightarrow> event_buffer \<Rightarrow> plugin_event list" where
  "eb_Snapshot pluginID sinceSeq level limit b =
     newest limit (filter (\<lambda>ev. \<not> pl_Seq ev \<le> sinceSeq \<and> \<not> (level \<noteq> [] \<and> pl_Level ev \<noteq> level))
       (if pluginID = [] then eb_global b else go_get [] (eb_byPlugin b) pluginID))"

definition PluginIDs :: "event_buffer \<Rightarrow> string list" where
  "PluginIDs b = map fst (eb_byPlugin b)"

definition ClearPlugin :: "string \<Rightarrow> event_buffer \<Rightarrow> event_buffer" where
  "ClearPlugin pluginID b = b\<lparr>eb_byPlugin := AList.delete pluginID (eb_byPlugin b)\<rparr>"

definition eb_Subscribe :: "event_buffer \<Rightarrow> nat \<times> event_buffer" where
  "eb_Subscribe b = (eb_nextSub b, b\<lparr>eb_subs := AList.update (eb_nextSub b) [] (eb_subs b), eb_nextSub := Suc (eb_nextSub b)\<rparr>)"

definition eb_cancel :: "nat \<Rightarrow> event_buffer \<Rightarrow> event_buffer" where
  "eb_cancel i b = b\<lparr>eb_subs := AList.delete i (eb_subs b)\<rparr>"

interpretation eb: ring_log eb_append "\<lambda>b. go_get [] (eb_byPlugin b)" eb_global pl_PluginID eb_perCap eb_globalCap
  by unfold_locales (auto simp: eb_append_def ring_append_last_n)

section \<open>Device activity\<close>

record device_activity =
  da_Seq :: u64
  da_Time :: "nat option"
  da_DSUID :: string
  da_Source :: string
  da_PluginID :: string
  da_Type :: string
  da_Index :: int
  da_Value :: "f64 option"
  da_Scene :: int
  da_Active :: "bool option"

record activity_buffer =
  ab_byDSUID :: "(string, device_activity list) gomap"
  ab_global :: "device_activity list"
  ab_perCap :: nat
  ab_globalCap :: nat
  ab_counter :: u64
  ab_subs :: "(nat, device_activity list) gomap"
  ab_nextSub :: nat

definition NewActivityBuffer :: "nat \<Rightarrow> nat \<Rightarrow> activity_buffer" where
  "NewActivityBuffer perCap globalCap = \<lparr>ab_byDSUID = [], ab_global = [], ab_perCap = perCap,
     ab_globalCap = globalCap, ab_counter = 0, ab_subs = [], ab_nextSub = 0\<rparr>"

definition ab_draw :: "nat \<Rightarrow> device_activity \<Rightarrow> activity_buffer \<Rightarrow> device_activity \<times> activity_buffer" where
  "ab_draw now ev b =
     (let n = ab_counter b + 1
      in (ev\<lparr>da_Seq := n, da_Time := (case da_Time ev of None \<Rightarrow> Some now | t \<Rightarrow> t)\<rparr>, b\<lparr>ab_counter := n\<rparr>))"

definition ab_append :: "device_activity \<Rightarrow> activity_buffer \<Rightarrow> activity_buffer" where
  "ab_append ev b = b\<lparr>
     ab_byDSUID := AList.update (da_DSUID ev)
       (ring_append (ab_perCap b) (go_get [] (ab_byDSUID b) (da_DSUID ev)) ev) (ab_byDSUID b),
     ab_global := ring_append (ab_globalCap b) (ab_global b) ev,
     ab_subs := fan_out ev (ab_subs b)\<rparr>"

definition ab_Publish :: "nat \<Rightarrow> device_activity \<Rightarrow> activity_buffer \<Rightarrow> activity_buffer" where
  "ab_Publish now ev b = (case ab_draw now ev b of (ev', b') \<Rightarrow> ab_append ev' b')"

definition ab_Snapshot :: "string \<Rightarrow> u64 \<Rightarrow> int \<Rightarrow> activity_buffer \<Rightarrow> device_activity list" where
  "ab_Snapshot dsuid sinceSeq limit b =
     newest limit (filter (\<lambda>ev. \<not> da_Seq ev \<le> sinceSeq)
       (if dsuid = [] then ab_global b else go_get [] (ab_byDSUID b) dsuid))"

definition ab_Subscribe :: "activity_buffer \<Rightarrow> nat \<times> activity_buffer" where
  "ab_Subscribe b = (ab_nextSub b, b\<lparr>ab_subs := AList.update (ab_nextSub b) [] (ab_subs b), ab_nextSub := Suc (ab_nextSub b)\<rparr>)"

definition ab_cancel :: "nat \<Rightarrow> activity_buffer \<Rightarrow> activity_buffer" where
  "ab_cancel i b = b\<lparr>ab_subs := AList.delete i (ab_subs b)\<rparr>"

interpretation ab: ring_log ab_append "\<lambda>b. go_get [] (ab_byDSUID b)" ab_global da_DSUID ab_perCap ab_globalCap
  by unfold_locales (auto simp: ab_append_def ring_append_last_n)

section \<open>The history of a buffer\<close>

text \<open>The abstract view: the list of everything that was published, numbered from one.\<close>

definition stamp :: "nat \<Rightarrow> u64 \<Rightarrow> plugin_event \<Rightarrow> plugin_event" where
  "stamp now n ev = ev\<lparr>pl_Seq := n, pl_Time := (case pl_Time ev of None \<Rightarrow> Some now | t \<Rightarrow> t)\<rparr>"

definition stamped :: "nat \<Rightarrow> u64 \<Rightarrow> plugin_event list \<Rightarrow> plugin_event list" where
  "stamped now n evs = map (\<lambda>(i, ev). stamp now (n + of_nat (Suc i)) ev) (enumerate 0 evs)"

lemma stamped_Cons: "stamped now n (ev # evs) = stamp now (n + 1) ev # stamped now (n + 1) evs"
  by (simp add: stamped_def enumerate_Suc_eq comp_def split_beta add.assoc)

lemma append_counter: "eb_append ev (b\<lparr>eb_counter := n\<rparr>) = (eb_append ev b)\<lparr>eb_counter := n\<rparr>"
  by (simp add: eb_append_def)

lemma publish_append: "eb_Publish now ev b = (eb_append (stamp now (eb_counter b + 1) ev) b)\<lparr>eb_counter := eb_counter b + 1\<rparr>"
  by (simp add: eb_Publish_def eb_draw_def Let_def stamp_def append_counter)

lemma fold_append_counter: "fold eb_append es (b\<lparr>eb_counter := n\<rparr>) = (fold eb_append es b)\<lparr>eb_counter := n\<rparr>"
  by (induction es arbitrary: b) (simp_all add: append_counter)

lemma publish_all:
  "\<exists>n. fold (eb_Publish now) evs b = (fold eb_append (stamped now (eb_counter b) evs) b)\<lparr>eb_counter := n\<rparr>"
proof (induction evs arbitrary: b)
  case (Cons ev evs)
  let ?b = "eb_Publish now ev b"
  obtain n where "fold (eb_Publish now) evs ?b = (fold eb_append (stamped now (eb_counter ?b) evs) ?b)\<lparr>eb_counter := n\<rparr>"
    using Cons by blast
  moreover have "fold eb_append es ?b = (fold eb_append es (eb_append (stamp now (eb_counter b + 1) ev) b))\<lparr>eb_counter := eb_counter b + 1\<rparr>" for es
    by (simp only: publish_append fold_append_counter)
  moreover have "eb_counter ?b = eb_counter b + 1" by (simp add: publish_append)
  ultimately have "fold (eb_Publish now) (ev # evs) b =
      (fold eb_append (stamped now (eb_counter b) (ev # evs)) b)\<lparr>eb_counter := n\<rparr>" by (simp add: stamped_Cons)
  then show ?case ..
next
  case Nil
  show ?case by (rule exI [of _ "eb_counter b"]) (simp add: stamped_def)
qed

section \<open>Properties\<close>

text \<open>
  C28: the event buffer is the tail of a log: after any events were published, a snapshot of a plugin (or,
  with no id, of all plugins) is what the criteria leave of the newest entries of the numbered
  history, as many as the capacity allows.
\<close>

theorem event_buffer_refines_log:
  "eb_Snapshot p since level limit (fold (eb_Publish now) evs (NewEventBuffer per glob)) =
     newest limit (filter (\<lambda>ev. since < pl_Seq ev \<and> (level = [] \<or> pl_Level ev = level))
       (if p = [] then last_n glob (stamped now 0 evs)
        else last_n per (filter (\<lambda>ev. pl_PluginID ev = p) (stamped now 0 evs))))"
proof -
  let ?b = "NewEventBuffer per glob"
  have new: "eb_counter ?b = 0" "eb_global ?b = []" "go_get [] (eb_byPlugin ?b) p = []"
    "eb_perCap ?b = per" "eb_globalCap ?b = glob" by (simp_all add: NewEventBuffer_def)
  obtain n where f: "fold (eb_Publish now) evs ?b = (fold eb_append (stamped now 0 evs) ?b)\<lparr>eb_counter := n\<rparr>"
    using publish_all [of now evs ?b] new(1) by auto
  have "eb_global (fold eb_append es ?b) = last_n glob es"
    "go_get [] (eb_byPlugin (fold eb_append es ?b)) p = last_n per (filter (\<lambda>ev. pl_PluginID ev = p) es)" for es
    using eb.all_of_pushes [of ?b es] eb.of_key_pushes [of ?b p es] new by simp_all
  then show ?thesis unfolding eb_Snapshot_def f by (cases "p = []") (simp_all add: not_le)
qed

text \<open>
  A reader that polls with the last number it has seen can miss an event for good: when two goroutines
  publish at the same time, the later number may be stored first; once it has been read the
  earlier one is never returned, whatever is published afterwards, although it is in the buffer.
\<close>

theorem concurrent_publish_missed:
  assumes "eb_draw now e1 b = (f1, b1)" "eb_draw now e2 b1 = (f2, b2)"
    and "unat (eb_counter b) + 2 < 2 ^ 64" "2 \<le> eb_globalCap b"
  shows "f2 \<in> set (eb_Snapshot [] (eb_counter b) [] 0 (eb_append f2 b2)) \<and>
    f1 \<in> set (eb_global (eb_append f1 (eb_append f2 b2))) \<and>
    f1 \<notin> set (eb_Snapshot p (pl_Seq f2) level limit (fold eb_append es (eb_append f1 (eb_append f2 b2))))"
proof -
  have s: "pl_Seq f1 = eb_counter b + 1" "pl_Seq f2 = eb_counter b + 2" "eb_globalCap b2 = eb_globalCap b"
    using assms(1,2) by (auto simp: eb_draw_def Let_def)
  have "eb_counter b < eb_counter b + 2" "eb_counter b + 1 \<le> eb_counter b + 2"
    using assms(3) by (simp_all add: word_less_nat_alt word_le_nat_alt unat_word_ariths)
  moreover have "x \<in> set (last_n n (xs @ [x]))" if "0 < n" for x :: plugin_event and n xs
    using that by (auto simp: last_n_def Suc_diff_le)
  moreover have "set (newest limit xs) \<subseteq> set xs" for xs :: "plugin_event list"
    by (auto simp: newest_def dest: in_set_dropD)
  ultimately show ?thesis using assms(4) s
    by (auto simp: eb_Snapshot_def newest_def eb_append_def ring_append_last_n not_le dest!: in_set_dropD)
qed

definition two_events :: "plugin_event \<times> plugin_event" where
  "two_events = (\<lparr>pl_Seq = 0, pl_Time = None, pl_PluginID = ''shelly'', pl_Level = ''error'', pl_Code = ''offline'',
      pl_Message = ''device offline'', pl_Fields = []\<rparr>,
    \<lparr>pl_Seq = 0, pl_Time = None, pl_PluginID = ''wled'', pl_Level = ''info'', pl_Code = ''connected'',
      pl_Message = ''connected'', pl_Fields = []\<rparr>)"

lemma concurrent_publish_missed_witness:
  "let b = NewEventBuffer 8 16; (f1, b1) = eb_draw 7 (fst two_events) b; (f2, b2) = eb_draw 7 (snd two_events) b1 in
    f1 \<in> set (eb_global (eb_append f1 (eb_append f2 b2))) \<and>
    eb_Snapshot [] 0 [] 0 (eb_append f2 b2) = [f2] \<and> eb_Snapshot [] 2 [] 0 (eb_append f1 (eb_append f2 b2)) = []"
  using concurrent_publish_missed [of 7 "fst two_events" "NewEventBuffer 8 16" _ _ "snd two_events" _ _ "[]" "[]" 0 "[]"]
  by (simp add: eb_draw_def Let_def two_events_def NewEventBuffer_def eb_append_def ring_append_def eb_Snapshot_def newest_def)

end
