(* ===== verification/Mapping_Store.thy ===== *)
theory Mapping_Store
  imports Pbuf_Params
begin

text \<open>
  The store of bridge mappings (\<^verbatim>\<open>pkg/bridge/mapping_store.go\<close>, \<^verbatim>\<open>plugin.go\<close>) and the file of the
  plugin configurations (\<^verbatim>\<open>pkg/vdcgo/plugins_config.go\<close>). A mapping ties an entity of a plugin to the
  dSUID of a device. The mapping store writes its file in place: a write may not open the file, leave it
  torn, or succeed (\<open>write_outcome\<close>); a file holds the value last written, or no JSON text at all.
\<close>

section \<open>Stores of entries that carry their key\<close>

locale entry_store =
  fixes look :: "'s \<Rightarrow> string \<Rightarrow> 'v option" and put :: "'v \<Rightarrow> 's \<Rightarrow> 's" and discard :: "string \<Rightarrow> 's \<Rightarrow> 's"
    and key :: "'v \<Rightarrow> string"
  assumes look_put: "look (put v s) j = (if j = key v then Some v else look s j)"
    and look_discard: "look (discard k s) j = (if j = k then None else look s j)"
begin

lemma put_twice: "key v = key w \<Longrightarrow> look (put w (put v s)) j = look (put w s) j"
  by (simp add: look_put)

lemma discard_put: "look (discard (key v) (put v s)) j = look (discard (key v) s) j"
  by (simp add: look_put look_discard)

lemma look_puts_other: "j \<notin> key ` set vs \<Longrightarrow> look (fold put vs s) j = look s j"
  by (induction vs arbitrary: s) (auto simp: look_put)

lemma look_puts: "distinct (map key vs) \<Longrightarrow> v \<in> set vs \<Longrightarrow> look (fold put vs s) (key v) = Some v"
  by (induction vs arbitrary: s) (auto simp: look_put look_puts_other)

text \<open>Entering all entries of a store into an empty one restores it.\<close>

lemma look_restored:
  assumes "distinct (map key vs)" "\<And>j v. look s j = Some v \<longleftrightarrow> v \<in> set vs \<and> key v = j" "\<And>j. look e j = None"
  shows "look (fold put vs e) j = look s j"
proof (cases "j \<in> key ` set vs")
  case True
  then obtain v where "v \<in> set vs" "j = key v" by blast
  with assms(1,2) show ?thesis using look_puts by metis
next
  case False
  with assms(2) have "look s j = None" by (cases "look s j") auto
  with False assms(3) show ?thesis by (simp add: look_puts_other)
qed

lemma look_discards: "look (fold discard ks s) j = (if j \<in> set ks then None else look s j)"
  by (induction ks arbitrary: s) (auto simp: look_discard)

end

section \<open>Mappings\<close>

record mapping =
  m_PluginID :: string
  m_RemoteEntityID :: string
  m_DSUID :: string
  m_Kind :: string
  m_Name :: string

datatype write_outcome = Written | NotOpened | Torn

datatype 'j json_file = Holds 'j | Broken | Unreadable

text \<open>\<^verbatim>\<open>os.WriteFile\<close>: the file is truncated before the text is written.\<close>

definition WriteFile :: "write_outcome \<Rightarrow> string \<Rightarrow> 'j \<Rightarrow> 'j json_file files \<Rightarrow> 'j json_file files" where
  "WriteFile out path v fs =
     (case out of Written \<Rightarrow> AList.update path (Holds v) fs | NotOpened \<Rightarrow> fs | Torn \<Rightarrow> AList.update path Broken fs)"

record mapping_store =
  ms_mappings :: "(string, mapping) gomap"
  ms_path :: string
  ms_disk :: "mapping list json_file files"

definition NewMappingStore :: "mapping list json_file files \<Rightarrow> mapping_store" where
  "NewMappingStore disk = \<lparr>ms_mappings = [], ms_path = [], ms_disk = disk\<rparr>"

definition ms_SetAutoSave :: "string \<Rightarrow> mapping_store \<Rightarrow> mapping_store" where
  "ms_SetAutoSave path ms = ms\<lparr>ms_path := path\<rparr>"

definition ms_enter :: "mapping \<Rightarrow> mapping_store \<Rightarrow> mapping_store" where
  "ms_enter m ms = ms\<lparr>ms_mappings := AList.update (m_DSUID m) m (ms_mappings ms)\<rparr>"

text \<open>The flag is whether an error is returned.\<close>

definition ms_LoadFromFile :: "string \<Rightarrow> mapping_store \<Rightarrow> mapping_store \<times> bool" where
  "ms_LoadFromFile path ms =
     (case map_of (ms_disk ms) path of
        None \<Rightarrow> (ms, False)
      | Some (Holds ls) \<Rightarrow> (fold ms_enter ls ms, False)
      | Some _ \<Rightarrow> (ms, True))"

definition ms_list :: "mapping_store \<Rightarrow> mapping list" where
  "ms_list ms = map snd (ms_mappings ms)"

definition ms_Save :: "write_outcome \<Rightarrow> mapping_store \<Rightarrow> mapping_store \<times> bool" where
  "ms_Save out ms =
     (if ms_path ms = [] then (ms, False)
      else (ms\<lparr>ms_disk := WriteFile out (ms_path ms) (ms_list ms) (ms_disk ms)\<rparr>, out \<noteq> Written))"

definition ms_write_through :: "write_outcome \<Rightarrow> mapping_store \<Rightarrow> mapping_store" where
  "ms_write_through out ms =
     (if ms_path ms \<noteq> [] then ms\<lparr>ms_disk := WriteFile out (ms_path ms) (ms_list ms) (ms_disk ms)\<rparr> else ms)"

definition ms_Add :: "write_outcome \<Rightarrow> mapping \<Rightarrow> mapping_store \<Rightarrow> mapping_store \<times> bool" where
  "ms_Add out m ms = (ms_write_through out (ms_enter m ms), \<not> go_has (ms_mappings ms) (m_DSUID m))"

definition ms_Remove :: "write_outcome \<Rightarrow> string \<Rightarrow> mapping_store \<Rightarrow> mapping_store \<times> bool" where
  "ms_Remove out dsuid ms =
     (ms_write_through out (ms\<lparr>ms_mappings := AList.delete dsuid (ms_mappings ms)\<rparr>), go_has (ms_mappings ms) dsuid)"

definition ms_Get :: "mapping_store \<Rightarrow> string \<Rightarrow> mapping option" where
  "ms_Get ms dsuid = map_of (ms_mappings ms) dsuid"

definition GetByRemote :: "string \<Rightarrow> string \<Rightarrow> mapping_store \<Rightarrow> mapping option" where
  "GetByRemote pluginID remoteEntityID ms =
     first_some (\<lambda>(_, m). if m_PluginID m = pluginID \<and> m_RemoteEntityID m = remoteEntityID then Some m else None)
       (ms_mappings ms)"

definition ListForPlugin :: "string \<Rightarrow> mapping_store \<Rightarrow> mapping list" where
  "ListForPlugin pluginID ms = filter (\<lambda>m. m_PluginID m = pluginID) (ms_list ms)"

definition mappings_wf :: "mapping_store \<Rightarrow> bool" where
  "mappings_wf ms \<longleftrightarrow> distinct (map fst (ms_mappings ms)) \<and> (\<forall>(k, m) \<in> set (ms_mappings ms). m_DSUID m = k)"

lemma write_through_fields [simp]:
  "ms_mappings (ms_write_through out ms) = ms_mappings ms" "ms_path (ms_write_through out ms) = ms_path ms"
  "ms_Get (ms_write_through out ms) = ms_Get ms" "ms_list (ms_write_through out ms) = ms_list ms"
  "ListForPlugin p (ms_write_through out ms) = ListForPlugin p ms"
  by (simp_all add: ms_write_through_def ms_Get_def fun_eq_iff ms_list_def ListForPlugin_def)

interpretation ms: entry_store ms_Get ms_enter "\<lambda>k ms. ms\<lparr>ms_mappings := AList.delete k (ms_mappings ms)\<rparr>" m_DSUID
  by unfold_locales (simp_all add: ms_Get_def ms_enter_def)

interpretation msw: entry_store ms_Get "\<lambda>m ms. fst (ms_Add out m ms)" "\<lambda>k ms. fst (ms_Remove out k ms)" m_DSUID for out
  by unfold_locales (simp_all add: ms_Add_def ms_Remove_def ms.look_put ms.look_discard)

lemma wf_write [simp]: "mappings_wf (ms_write_through out ms) = mappings_wf ms"
  by (simp add: mappings_wf_def)

lemma wf_enter [simp]: "mappings_wf ms \<Longrightarrow> mappings_wf (ms_enter m ms)"
  by (auto simp: mappings_wf_def ms_enter_def dest!: set_update_cases)

lemma wf_delete [simp]: "mappings_wf ms \<Longrightarrow> mappings_wf (ms\<lparr>ms_mappings := AList.delete k (ms_mappings ms)\<rparr>)"
  by (auto simp: mappings_wf_def dest!: set_delete_subset)

lemma wf_Add [simp]: "mappings_wf ms \<Longrightarrow> mappings_wf (fst (ms_Add out m ms))"
  by (simp add: ms_Add_def)

lemma wf_Remove [simp]: "mappings_wf ms \<Longrightarrow> mappings_wf (fst (ms_Remove out k ms))"
  by (simp add: ms_Remove_def)

lemma wf_enters: "mappings_wf ms \<Longrightarrow> mappings_wf (fold ms_enter ls ms)"
  by (induction ls arbitrary: ms) simp_all

lemma wf_New [simp]: "mappings_wf (NewMappingStore disk)"
  by (simp add: mappings_wf_def NewMappingStore_def)

lemma wf_Load: "mappings_wf ms \<Longrightarrow> mappings_wf (fst (ms_LoadFromFile path ms))"
  by (auto simp: ms_LoadFromFile_def wf_enters split: option.split json_file.split)

lemma ms_Get_iff: "mappings_wf ms \<Longrightarrow> ms_Get ms k = Some m \<longleftrightarrow> m \<in> set (ms_list ms) \<and> m_DSUID m = k"
  by (force simp: ms_Get_def ms_list_def mappings_wf_def image_iff)

lemma distinct_dsuids: "mappings_wf ms \<Longrightarrow> distinct (map m_DSUID (ms_list ms))"
proof -
  assume "mappings_wf ms"
  then have "map m_DSUID (ms_list ms) = map fst (ms_mappings ms)"
    by (auto simp: ms_list_def mappings_wf_def)
  with \<open>mappings_wf ms\<close> show ?thesis by (simp add: mappings_wf_def)
qed

lemma set_ListForPlugin: "mappings_wf ms \<Longrightarrow>
    m \<in> set (ListForPlugin p ms) \<longleftrightarrow> ms_Get ms (m_DSUID m) = Some m \<and> m_PluginID m = p"
  by (auto simp: ListForPlugin_def ms_Get_iff)

lemma GetByRemote_None_iff: "GetByRemote p e ms = None \<longleftrightarrow>
    (\<forall>m \<in> set (ms_list ms). \<not> (m_PluginID m = p \<and> m_RemoteEntityID m = e))"
  by (auto simp: GetByRemote_def first_some_None_iff ms_list_def)

section \<open>Configurations of plugins\<close>

record plugin_config =
  pc_ID :: string
  pc_Type :: string
  pc_Config :: obj
  pc_Disabled :: bool

text \<open>A missing file is an empty list; otherwise \<open>Inl\<close> an error.\<close>

definition loadPluginConfigs :: "string \<Rightarrow> plugin_config list json_file files \<Rightarrow> string + plugin_config list" where
  "loadPluginConfigs path fs =
     (case map_of fs path of
        None \<Rightarrow> Inr []
      | Some (Holds cs) \<Rightarrow> Inr cs
      | Some Broken \<Rightarrow> Inl ''decode''
      | Some Unreadable \<Rightarrow> Inl ''read'')"

definition tmp_path :: "string \<Rightarrow> string" where "tmp_path path = path @ ''.tmp''"

text \<open>The temporary file is written, then renamed; \<open>renames\<close> is whether the rename succeeds.\<close>

definition savePluginConfigs ::
  "write_outcome \<Rightarrow> bool \<Rightarrow> string \<Rightarrow> plugin_config list \<Rightarrow> plugin_config list json_file files \<Rightarrow>
   plugin_config list json_file files \<times> string option" where
  "savePluginConfigs out renames path cs fs =
     (let fs1 = WriteFile out (tmp_path path) cs fs
      in if out \<noteq> Written then (fs1, Some ''write'')
         else if renames then (AList.update path (Holds cs) (AList.delete (tmp_path path) fs1), None)
         else (AList.delete (tmp_path path) fs1, Some ''rename''))"

lemma tmp_other [simp]: "path \<noteq> tmp_path path" "tmp_path path \<noteq> path"
  by (simp_all add: tmp_path_def)

section \<open>Properties\<close>

text \<open>
  Mappings survive a restart: whatever was added and removed before, once the last write went
  through, a new store that loads the file answers every lookup as the old one did.
\<close>

theorem mappings_survive_restart:
  assumes "mappings_wf ms" "ms_path ms \<noteq> []" "ms' = fst (ms_Add Written m ms) \<or> ms' = fst (ms_Remove Written d ms)"
  shows "\<exists>loaded. ms_LoadFromFile (ms_path ms) (NewMappingStore (ms_disk ms')) = (loaded, False) \<and>
    (\<forall>k. ms_Get loaded k = ms_Get ms' k) \<and> mappings_wf loaded"
proof -
  have wf: "mappings_wf ms'" using assms by auto
  have "map_of (ms_disk ms') (ms_path ms) = Some (Holds (ms_list ms'))"
    using assms(2,3) by (auto simp: ms_Add_def ms_Remove_def ms_write_through_def WriteFile_def ms_enter_def ms_list_def)
  then have "ms_LoadFromFile (ms_path ms) (NewMappingStore (ms_disk ms')) =
      (fold ms_enter (ms_list ms') (NewMappingStore (ms_disk ms')), False)"
    by (simp add: ms_LoadFromFile_def NewMappingStore_def)
  moreover have "ms_Get (fold ms_enter (ms_list ms') (NewMappingStore (ms_disk ms'))) k = ms_Get ms' k" for k
    by (rule ms.look_restored [OF distinct_dsuids [OF wf] ms_Get_iff [OF wf]]) (simp add: ms_Get_def NewMappingStore_def)
  ultimately show ?thesis by (simp add: wf_enters)
qed

definition desk_mapping :: mapping where
  "desk_mapping = \<lparr>m_PluginID = ''z2m'', m_RemoteEntityID = ''0x17'', m_DSUID = ''D1'', m_Kind = ''light'', m_Name = ''Desk''\<rparr>"

definition desk_store :: mapping_store where
  "desk_store = ms_SetAutoSave ''bridges.json'' (NewMappingStore [])"

lemma desk_store_simps [simp]: "mappings_wf desk_store" "ms_path desk_store = ''bridges.json''"
  by (simp_all add: desk_store_def ms_SetAutoSave_def NewMappingStore_def mappings_wf_def)

lemma mappings_survive_restart_witness:
  "\<exists>loaded. ms_LoadFromFile ''bridges.json'' (NewMappingStore (ms_disk (fst (ms_Add Written desk_mapping desk_store)))) =
     (loaded, False) \<and> ms_Get loaded ''D1'' = Some desk_mapping"
  using mappings_survive_restart [of desk_store "fst (ms_Add Written desk_mapping desk_store)" desk_mapping "[]"]
  by (auto simp: msw.look_put) (simp add: desk_mapping_def)

text \<open>
  A write of the mappings that is cut short, by a full disk or a crash, is not reported: the change
  is answered as made, but the file no longer loads, and with it no mapping is restored.
\<close>

theorem torn_mappings_lost:
  assumes "ms_path ms \<noteq> []"
  shows "ms_Get (fst (ms_Add Torn m ms)) (m_DSUID m) = Some m \<and>
    snd (ms_LoadFromFile (ms_path ms) (NewMappingStore (ms_disk (fst (ms_Add Torn m ms))))) \<and>
    ms_list (fst (ms_LoadFromFile (ms_path ms) (NewMappingStore (ms_disk (fst (ms_Add Torn m ms)))))) = []"
  using assms
  by (simp add: msw.look_put ms_LoadFromFile_def NewMappingStore_def ms_list_def)
    (simp add: ms_Add_def ms_write_through_def WriteFile_def ms_enter_def)

lemma torn_mappings_lost_witness:
  "snd (ms_LoadFromFile ''bridges.json'' (NewMappingStore (ms_disk (fst (ms_Add Torn desk_mapping desk_store)))))"
  using torn_mappings_lost [of desk_store desk_mapping] by simp

text \<open>
  The configurations of the plugins are saved as a whole or not at all: after a save, successful or
  not, the file loads and holds the new list or is what it was.
\<close>

theorem plugin_configs_atomic:
  "case savePluginConfigs out renames path cs fs of
     (fs', None) \<Rightarrow> loadPluginConfigs path fs' = Inr cs
   | (fs', Some _) \<Rightarrow> loadPluginConfigs path fs' = loadPluginConfigs path fs"
  by (cases out; cases renames) (simp_all add: savePluginConfigs_def loadPluginConfigs_def WriteFile_def Let_def)

end
