(* ===== verification/Bridge_Host.thy ===== *)
theory Bridge_Host
  imports Event_Buffers Mapping_Store
begin

text \<open>
  The facade through which plugins act on the devices (\<^verbatim>\<open>pkg/bridge/host.go\<close>, \<^verbatim>\<open>descriptor.go\<close>) and
  the wrapper each plugin gets of it (\<^verbatim>\<open>plugin_host.go\<close>), which logs under the name of the plugin and
  records the activity of devices. \<open>host_call\<close> is a call a plugin makes; none of them can fail.
\<close>

section \<open>The facade\<close>

definition kindToOutput :: "string \<Rightarrow> string" where
  "kindToOutput kind =
     (if kind \<in> {''light'', ''dimmer''} then ''light''
      else if kind = ''colorlight'' then ''colorlight''
      else if kind = ''movinglight'' then ''movinglight''
      else if kind = ''sensor'' then ''sensor''
      else if kind = ''binary'' then ''binaryInput''
      else if kind = ''button'' then ''button''
      else if kind = [] then ''light'' else kind)"

definition AnnounceDevice :: "nat \<Rightarrow> mapping \<Rightarrow> state_store \<Rightarrow> state_store" where
  "AnnounceDevice now m = HandleEvent now (event0 EventInit\<lparr>e_UniqueID := m_DSUID m, e_Name := m_Name m,
     e_Output := kindToOutput (m_Kind m), e_Dimmable := Some (m_Kind m \<noteq> ''light'')\<rparr>)"

definition RemoveDevice :: "nat \<Rightarrow> string \<Rightarrow> state_store \<Rightarrow> state_store" where
  "RemoveDevice now dsuid = HandleEvent now (event0 EventRemove\<lparr>e_UniqueID := dsuid\<rparr>)"

definition HasDevice :: "state_store \<Rightarrow> string \<Rightarrow> bool" where
  "HasDevice s dsuid = Has s dsuid"

definition UpdateChannel :: "nat \<Rightarrow> string \<Rightarrow> int \<Rightarrow> f64 \<Rightarrow> state_store \<Rightarrow> state_store" where
  "UpdateChannel now dsuid i v = HandleEvent now (event0 EventChannel\<lparr>e_UniqueID := dsuid, e_Index := i, e_Value := v\<rparr>)"

definition UpdateButton :: "nat \<Rightarrow> string \<Rightarrow> int \<Rightarrow> f64 \<Rightarrow> state_store \<Rightarrow> state_store" where
  "UpdateButton now dsuid i v = HandleEvent now (event0 EventButton\<lparr>e_UniqueID := dsuid, e_Index := i, e_Value := v\<rparr>)"

definition SetButtonAction :: "nat \<Rightarrow> string \<Rightarrow> int \<Rightarrow> string \<Rightarrow> state_store \<Rightarrow> state_store" where
  "SetButtonAction now dsuid i a =
     HandleEvent now (event0 EventButtonAction\<lparr>e_UniqueID := dsuid, e_Index := i, e_Action := a\<rparr>)"

definition UpdateSensor :: "nat \<Rightarrow> string \<Rightarrow> int \<Rightarrow> f64 \<Rightarrow> state_store \<Rightarrow> state_store" where
  "UpdateSensor now dsuid i v = HandleEvent now (event0 EventSensor\<lparr>e_UniqueID := dsuid, e_Index := i, e_Value := v\<rparr>)"

definition UpdateInput :: "nat \<Rightarrow> string \<Rightarrow> int \<Rightarrow> f64 \<Rightarrow> state_store \<Rightarrow> state_store" where
  "UpdateInput now dsuid i v = HandleEvent now (event0 EventInput\<lparr>e_UniqueID := dsuid, e_Index := i, e_Value := v\<rparr>)"

definition SetSensorDescriptor :: "nat \<Rightarrow> string \<Rightarrow> int \<Rightarrow> sensor_descriptor \<Rightarrow> state_store \<Rightarrow> state_store" where
  "SetSensorDescriptor now dsuid i x =
     HandleEvent now (event0 EventSensorDescriptor\<lparr>e_UniqueID := dsuid, e_Index := i, e_SensorDescriptor := Some x\<rparr>)"

definition SetBinaryInputDescriptor ::
  "nat \<Rightarrow> string \<Rightarrow> int \<Rightarrow> binary_input_descriptor \<Rightarrow> state_store \<Rightarrow> state_store" where
  "SetBinaryInputDescriptor now dsuid i x = HandleEvent now
     (event0 EventBinaryInputDescriptor\<lparr>e_UniqueID := dsuid, e_Index := i, e_BinaryInputDescriptor := Some x\<rparr>)"

definition SetButtonDescriptor :: "nat \<Rightarrow> string \<Rightarrow> int \<Rightarrow> button_descriptor \<Rightarrow> state_store \<Rightarrow> state_store" where
  "SetButtonDescriptor now dsuid i x =
     HandleEvent now (event0 EventButtonDescriptor\<lparr>e_UniqueID := dsuid, e_Index := i, e_ButtonDescriptor := Some x\<rparr>)"

definition UpdateActive :: "nat \<Rightarrow> string \<Rightarrow> bool \<Rightarrow> state_store \<Rightarrow> state_store" where
  "UpdateActive now dsuid a = HandleEvent now (event0 EventActive\<lparr>e_UniqueID := dsuid, e_Active := a\<rparr>)"

definition UpdateDeviceMeta :: "nat \<Rightarrow> string \<Rightarrow> string \<Rightarrow> string \<Rightarrow> string \<Rightarrow> state_store \<Rightarrow> state_store" where
  "UpdateDeviceMeta now dsuid vendor model version = HandleEvent now (event0 EventDeviceMeta\<lparr>e_UniqueID := dsuid,
     e_VendorName := vendor, e_ModelName := model, e_ModelVersion := version\<rparr>)"

record device_descriptor =
  dd_Buttons :: "button_descriptor list"
  dd_Sensors :: "sensor_descriptor list"
  dd_Inputs :: "binary_input_descriptor list"

definition each_index :: "(int \<Rightarrow> 'a \<Rightarrow> 's \<Rightarrow> 's) \<Rightarrow> 'a list \<Rightarrow> 's \<Rightarrow> 's" where
  "each_index f xs s = fold (\<lambda>(i, x). f (int i) x) (enumerate 0 xs) s"

definition set_descriptors :: "nat \<Rightarrow> string \<Rightarrow> device_descriptor \<Rightarrow> state_store \<Rightarrow> state_store" where
  "set_descriptors now dsuid desc s =
     each_index (SetButtonDescriptor now dsuid) (dd_Buttons desc)
       (each_index (SetBinaryInputDescriptor now dsuid) (dd_Inputs desc)
         (each_index (SetSensorDescriptor now dsuid) (dd_Sensors desc) s))"

definition AnnounceRichDevice :: "nat \<Rightarrow> mapping \<Rightarrow> device_descriptor \<Rightarrow> state_store \<Rightarrow> state_store" where
  "AnnounceRichDevice now m desc s =
     (let s' = set_descriptors now (m_DSUID m) desc (AnnounceDevice now m s)
      in if dd_Sensors desc \<noteq> [] \<or> dd_Inputs desc \<noteq> [] \<or> dd_Buttons desc \<noteq> []
         then ReAnnounce (m_DSUID m) s' else s')"

section \<open>The host of a plugin\<close>

record host =
  ho_state :: state_store
  ho_sink :: "event_buffer option"
  ho_activity :: "activity_buffer option"
  ho_notified :: "(string \<times> obj) list option"

definition on_state :: "(state_store \<Rightarrow> state_store) \<Rightarrow> host \<Rightarrow> host" where
  "on_state f h = h\<lparr>ho_state := f (ho_state h)\<rparr>"

definition notify_event :: "string \<Rightarrow> obj \<Rightarrow> host \<Rightarrow> host" where
  "notify_event t data h = h\<lparr>ho_notified := map_option (\<lambda>xs. xs @ [(t, data)]) (ho_notified h)\<rparr>"

definition publish_event :: "nat \<Rightarrow> plugin_event \<Rightarrow> host \<Rightarrow> host" where
  "publish_event now ev h = h\<lparr>ho_sink := map_option (eb_Publish now ev) (ho_sink h)\<rparr>"

definition publish_activity :: "nat \<Rightarrow> device_activity \<Rightarrow> host \<Rightarrow> host" where
  "publish_activity now a h = h\<lparr>ho_activity := map_option (ab_Publish now a) (ho_activity h)\<rparr>"

definition activity0 :: "string \<Rightarrow> string \<Rightarrow> string \<Rightarrow> string \<Rightarrow> device_activity" where
  "activity0 dsuid source plugin t = \<lparr>da_Seq = 0, da_Time = None, da_DSUID = dsuid, da_Source = source,
     da_PluginID = plugin, da_Type = t, da_Index = 0, da_Value = None, da_Scene = 0, da_Active = None\<rparr>"

definition plugin_log :: "nat \<Rightarrow> string \<Rightarrow> string \<Rightarrow> string \<Rightarrow> string \<Rightarrow> obj \<Rightarrow> host \<Rightarrow> host" where
  "plugin_log now plugin level code message fs = publish_event now
     \<lparr>pl_Seq = 0, pl_Time = Some now, pl_PluginID = plugin, pl_Level = level, pl_Code = code,
      pl_Message = message, pl_Fields = fs\<rparr>"

definition plugin_UpdateChannel :: "nat \<Rightarrow> string \<Rightarrow> string \<Rightarrow> int \<Rightarrow> f64 \<Rightarrow> host \<Rightarrow> host" where
  "plugin_UpdateChannel now plugin dsuid i v h =
     publish_activity now (activity0 dsuid ''plugin'' plugin ''channel''\<lparr>da_Index := i, da_Value := Some v\<rparr>)
       (on_state (UpdateChannel now dsuid i v) h)"

definition plugin_UpdateActive :: "nat \<Rightarrow> string \<Rightarrow> string \<Rightarrow> bool \<Rightarrow> host \<Rightarrow> host" where
  "plugin_UpdateActive now plugin dsuid a h =
     publish_activity now (activity0 dsuid ''plugin'' plugin ''active''\<lparr>da_Active := Some a\<rparr>)
       (on_state (UpdateActive now dsuid a) h)"

datatype host_call =
    HAnnounce mapping | HAnnounceRich mapping device_descriptor | HRemove string
  | HChannel string int f64 | HButton string int f64 | HButtonAction string int string
  | HSensor string int f64 | HInput string int f64
  | HSensorDescriptor string int sensor_descriptor | HInputDescriptor string int binary_input_descriptor
  | HButtonDescriptor string int button_descriptor | HActive string bool
  | HMeta string string string string | HReAnnounce string | HLog string string string obj | HDiscovery

fun host_do :: "nat \<Rightarrow> string \<Rightarrow> host_call \<Rightarrow> host \<Rightarrow> host" where
  "host_do now p (HAnnounce m) h = on_state (AnnounceDevice now m) h"
| "host_do now p (HAnnounceRich m d) h = on_state (AnnounceRichDevice now m d) h"
| "host_do now p (HRemove u) h = on_state (RemoveDevice now u) h"
| "host_do now p (HChannel u i v) h = plugin_UpdateChannel now p u i v h"
| "host_do now p (HButton u i v) h = on_state (UpdateButton now u i v) h"
| "host_do now p (HButtonAction u i a) h = on_state (SetButtonAction now u i a) h"
| "host_do now p (HSensor u i v) h = on_state (UpdateSensor now u i v) h"
| "host_do now p (HInput u i v) h = on_state (UpdateInput now u i v) h"
| "host_do now p (HSensorDescriptor u i x) h = on_state (SetSensorDescriptor now u i x) h"
| "host_do now p (HInputDescriptor u i x) h = on_state (SetBinaryInputDescriptor now u i x) h"
| "host_do now p (HButtonDescriptor u i x) h = on_state (SetButtonDescriptor now u i x) h"
| "host_do now p (HActive u a) h = plugin_UpdateActive now p u a h"
| "host_do now p (HMeta u v m r) h = on_state (UpdateDeviceMeta now u v m r) h"
| "host_do now p (HReAnnounce u) h = on_state (ReAnnounce u) h"
| "host_do now p (HLog l c m fs) h = plugin_log now p l c m fs h"
| "host_do now p HDiscovery h = notify_event ''discoveryChanged'' [(''pluginId'', GStr p)] h"

section \<open>What the calls do to the devices\<close>

definition bridged :: "state_store \<Rightarrow> string \<Rightarrow> device option" where
  "bridged s dsuid = map_of (st_devices s) (uid_key (trim_space dsuid))"

definition same_dev :: "string \<Rightarrow> string \<Rightarrow> bool" where
  "same_dev u v \<longleftrightarrow> trim_space u = trim_space v"

lemma Has_bridged: "trim_space u \<noteq> [] \<Longrightarrow> Has s u \<longleftrightarrow> bridged s u \<noteq> None"
  by (simp add: Has_def bridged_def go_has_def)

lemma uid_key_inj [simp]: "uid_key u = uid_key v \<longleftrightarrow> u = v"
  by (simp add: uid_key_def)

lemma bridged_update:
  assumes "trim_space (e_UniqueID e) \<noteq> []" "e_Type e \<noteq> EventInit" "e_Type e \<noteq> EventRemove"
  shows "bridged (HandleEvent now e s) u =
    (if same_dev u (e_UniqueID e) then map_option (\<lambda>d. case apply_event now e d of None \<Rightarrow> d | Some (d', _) \<Rightarrow> d') (bridged s u)
     else bridged s u)"
  using assms
  by (auto simp: bridged_def same_dev_def handle_locked_def handle_update_def resolveKey_def Let_def go_has_def go_get_def
      split: event_type.split option.split prod.split)

lemma bridged_blank:
  assumes "trim_space (e_UniqueID e) = []" "e_Tag e = []" "e_Type e \<noteq> EventInit"
  shows "HandleEvent now e s = s"
  using assms by (rule nameless_event_noop)

lemma bridged_remove:
  "trim_space v \<noteq> [] \<Longrightarrow> bridged (RemoveDevice now v s) u = (if same_dev u v then None else bridged s u)"
  by (auto simp: RemoveDevice_def event0_def bridged_def same_dev_def handle_locked_def handle_remove_def resolveKey_def Let_def
      go_has_def split: option.split)

lemma bridged_announce:
  "trim_space (m_DSUID m) \<noteq> [] \<Longrightarrow> bridged (AnnounceDevice now m s) u =
    (if same_dev u (m_DSUID m)
     then Some (init_device (event0 EventInit\<lparr>e_UniqueID := m_DSUID m, e_Name := m_Name m,
        e_Output := kindToOutput (m_Kind m), e_Dimmable := Some (m_Kind m \<noteq> ''light'')\<rparr>) (uid_key (trim_space (m_DSUID m)))
        (case bridged s u of Some d \<Rightarrow> d | None \<Rightarrow> zero_device))
     else bridged s u)"
  by (auto simp: AnnounceDevice_def event0_def bridged_def same_dev_def handle_locked_def handle_init_def eventKey_def Let_def
      go_get_def)

lemma bridged_reannounce [simp]: "bridged (ReAnnounce u s) v = bridged s v"
  by (simp add: ReAnnounce_def bridged_def Let_def split: option.split)

lemma event_keeps: "e_Type e \<noteq> EventRemove \<Longrightarrow> go_has (st_devices s) k \<Longrightarrow> go_has (st_devices (HandleEvent now e s)) k"
  by (auto simp: handle_locked_def handle_init_def handle_update_def Let_def go_has_def
      split: event_type.split prod.split option.split)

lemma each_index_inv: "P s \<Longrightarrow> (\<And>i x s. P s \<Longrightarrow> P (f i x s)) \<Longrightarrow> P (each_index f xs s)"
  unfolding each_index_def by (rule fold_invariant [where Q = "\<lambda>_. True"]) auto

lemmas each_index_keeps = each_index_inv [of "\<lambda>s. go_has (st_devices s) k" for k]

lemma bridged_go_has: "bridged s u \<noteq> None \<longleftrightarrow> go_has (st_devices s) (uid_key (trim_space u))"
  by (simp add: bridged_def go_has_def)

lemma host_fields [simp]:
  "ho_state (on_state f h) = f (ho_state h)" "ho_state (publish_event now ev h) = ho_state h"
  "ho_state (publish_activity now a h) = ho_state h" "ho_state (notify_event t dat h) = ho_state h"
  by (simp_all add: on_state_def publish_event_def publish_activity_def notify_event_def)

lemmas host_events = AnnounceDevice_def UpdateChannel_def UpdateButton_def SetButtonAction_def UpdateSensor_def
  UpdateInput_def SetSensorDescriptor_def SetBinaryInputDescriptor_def SetButtonDescriptor_def UpdateActive_def
  UpdateDeviceMeta_def

lemma set_descriptors_keeps:
  "go_has (st_devices s) k \<Longrightarrow> go_has (st_devices (set_descriptors now u desc s)) k"
  unfolding set_descriptors_def
  by (intro each_index_keeps) (simp_all add: host_events event0_def event_keeps del: HandleEvent_fields)

text \<open>Only a removal makes a device disappear.\<close>

lemma remove_keeps: "go_has (st_devices s) k \<Longrightarrow> k \<noteq> uid_key (trim_space v) \<Longrightarrow> go_has (st_devices (RemoveDevice now v s)) k"
  by (auto simp: RemoveDevice_def event0_def handle_locked_def handle_remove_def resolveKey_def Let_def)

lemma host_do_has:
  "go_has (st_devices (ho_state h)) k \<Longrightarrow> (\<And>v. c = HRemove v \<Longrightarrow> k \<noteq> uid_key (trim_space v)) \<Longrightarrow>
   go_has (st_devices (ho_state (host_do now p c h))) k"
  by (cases c) (simp_all add: host_events event0_def event_keeps plugin_UpdateChannel_def
    plugin_UpdateActive_def plugin_log_def AnnounceRichDevice_def Let_def set_descriptors_keeps remove_keeps
    ReAnnounce_def del: HandleEvent_fields split: option.split)

lemma host_do_keeps:
  "bridged (ho_state h) u \<noteq> None \<Longrightarrow> (\<And>v. c = HRemove v \<Longrightarrow> \<not> same_dev u v) \<Longrightarrow>
   bridged (ho_state (host_do now p c h)) u \<noteq> None"
  unfolding bridged_go_has by (rule host_do_has) (auto simp: same_dev_def)

section \<open>Properties\<close>

lemma map_of_set_all:
  "map_of (fold (\<lambda>(i, x). AList.update (int i) x) (enumerate 0 xs) m) (int j) =
     (if j < length xs then Some (xs ! j) else map_of m (int j))"
  by (induction xs rule: rev_induct) (auto simp: enumerate_append_eq nth_append)

text \<open>What setting one descriptor after the other leaves of the device.\<close>

lemma each_index_bridged:
  assumes "\<And>i x s. bridged (f i x s) u = map_option (g i x) (bridged s u)"
  shows "bridged (each_index f xs s) u = map_option (fold (\<lambda>(i, x). g (int i) x) (enumerate 0 xs)) (bridged s u)"
proof -
  have "bridged (fold (\<lambda>(i, x). f (int i) x) ps s) u = map_option (fold (\<lambda>(i, x). g (int i) x) ps) (bridged s u)"
    for ps :: "(nat \<times> 'a) list"
    by (induction ps arbitrary: s) (auto simp: assms option.map_comp comp_def option.map_id split: prod.split)
  then show ?thesis by (simp add: each_index_def)
qed

lemma bridged_descriptor [simp]:
  assumes "trim_space u \<noteq> []"
  shows "bridged (SetSensorDescriptor now u i x s) u =
      map_option (\<lambda>d. d\<lparr>d_SensorDescriptors := AList.update i x (d_SensorDescriptors d)\<rparr>) (bridged s u)"
    "bridged (SetBinaryInputDescriptor now u i y s) u =
      map_option (\<lambda>d. d\<lparr>d_BinaryInputDescriptors := AList.update i y (d_BinaryInputDescriptors d)\<rparr>) (bridged s u)"
    "bridged (SetButtonDescriptor now u i z s) u =
      map_option (\<lambda>d. d\<lparr>d_ButtonDescriptors := AList.update i z (d_ButtonDescriptors d)\<rparr>) (bridged s u)"
  using assms
  by (simp_all add: SetSensorDescriptor_def SetBinaryInputDescriptor_def SetButtonDescriptor_def bridged_update
      event0_def same_dev_def apply_event_def)

lemma fold_descriptors:
  "fold (\<lambda>(i, x) d. d\<lparr>d_SensorDescriptors := AList.update (int i) x (d_SensorDescriptors d)\<rparr>) ps d =
     d\<lparr>d_SensorDescriptors := fold (\<lambda>(i, x). AList.update (int i) x) ps (d_SensorDescriptors d)\<rparr>"
  by (induction ps arbitrary: d) auto

lemma fold_descriptors':
  "fold (\<lambda>(i, y) d. d\<lparr>d_BinaryInputDescriptors := AList.update (int i) y (d_BinaryInputDescriptors d)\<rparr>) qs d =
     d\<lparr>d_BinaryInputDescriptors := fold (\<lambda>(i, y). AList.update (int i) y) qs (d_BinaryInputDescriptors d)\<rparr>"
  by (induction qs arbitrary: d) auto

lemma fold_descriptors'':
  "fold (\<lambda>(i, z) d. d\<lparr>d_ButtonDescriptors := AList.update (int i) z (d_ButtonDescriptors d)\<rparr>) rs d =
     d\<lparr>d_ButtonDescriptors := fold (\<lambda>(i, z). AList.update (int i) z) rs (d_ButtonDescriptors d)\<rparr>"
  by (induction rs arbitrary: d) auto

lemma descriptors_quiet [simp]:
  "st_subscribers (set_descriptors now u desc s) = st_subscribers s"
proof -
  have "st_subscribers (SetSensorDescriptor now u i x t) = st_subscribers t"
    "st_subscribers (SetBinaryInputDescriptor now u i y t) = st_subscribers t"
    "st_subscribers (SetButtonDescriptor now u i z t) = st_subscribers t" for i x y z t
    by (simp_all add: SetSensorDescriptor_def SetBinaryInputDescriptor_def SetButtonDescriptor_def event0_def
        HandleEvent_def handle_locked_def handle_update_def apply_event_def Let_def split: prod.split option.split)
  note q = this
  show ?thesis unfolding set_descriptors_def
    by (rule each_index_inv, rule each_index_inv, rule each_index_inv) (simp_all add: q)
qed

lemma map_of_broadcast: "map_of (st_subscribers (broadcast u s)) i =
    map_option (\<lambda>q. if length q < channel_capacity then q @ [u] else q) (map_of (st_subscribers s) i)"
proof -
  have "map_of (map (\<lambda>(i, q). (i, f q)) xs) i = map_option f (map_of xs i)" for f xs i
    by (induction xs) auto
  then show ?thesis by (simp add: broadcast_def)
qed

lemma announce_subscribers:
  assumes "trim_space (m_DSUID m) \<noteq> []" "map_of (st_subscribers s) i = Some q" "length q < channel_capacity"
  shows "\<exists>d. map_of (st_subscribers (AnnounceDevice now m s)) i = Some (q @ [\<lparr>u_Type = EventInit, u_Device = d\<rparr>])"
  using assms
  by (auto simp: AnnounceDevice_def event0_def HandleEvent_def handle_locked_def handle_init_def Let_def map_of_broadcast)

text \<open>
  A device announced with its descriptors is there, active, under its name and the output of its
  kind, with every descriptor under its position; a subscriber with room for two updates is told
  of it last in that complete form, after a first announcement that has not the descriptors yet.
\<close>

theorem rich_announce_complete:
  assumes "trim_space (m_DSUID m) \<noteq> []" "trim_space (m_Name m) \<noteq> []"
  shows "\<exists>d. bridged (AnnounceRichDevice now m desc s) (m_DSUID m) = Some d \<and> d_Active d \<and>
     d_Name d = trim_space (m_Name m) \<and> d_Dimmable d = (m_Kind m \<noteq> ''light'') \<and>
     (\<forall>i < length (dd_Sensors desc). map_of (d_SensorDescriptors d) (int i) = Some (dd_Sensors desc ! i)) \<and>
     (\<forall>i < length (dd_Inputs desc). map_of (d_BinaryInputDescriptors d) (int i) = Some (dd_Inputs desc ! i)) \<and>
     (\<forall>i < length (dd_Buttons desc). map_of (d_ButtonDescriptors d) (int i) = Some (dd_Buttons desc ! i)) \<and>
     (dd_Sensors desc \<noteq> [] \<longrightarrow> map_of (st_subscribers s) j = Some q \<longrightarrow> length q + 2 \<le> channel_capacity \<longrightarrow>
       (\<exists>d0. map_of (st_subscribers (AnnounceRichDevice now m desc s)) j =
          Some (q @ [\<lparr>u_Type = EventInit, u_Device = d0\<rparr>, \<lparr>u_Type = EventInit, u_Device = d\<rparr>])))"
proof -
  let ?t = "AnnounceDevice now m s" and ?u = "m_DSUID m"
  let ?s' = "set_descriptors now ?u desc ?t"
  obtain d0 where d0: "bridged ?t ?u = Some d0" and f: "d_Active d0" "d_Name d0 = trim_space (m_Name m)"
      "d_Dimmable d0 = (m_Kind m \<noteq> ''light'')"
    using assms by (simp add: bridged_announce same_dev_def init_device_def event0_def Let_def)
  let ?d = "d0\<lparr>d_SensorDescriptors := fold (\<lambda>(i, x). AList.update (int i) x) (enumerate 0 (dd_Sensors desc)) (d_SensorDescriptors d0),
    d_BinaryInputDescriptors := fold (\<lambda>(i, x). AList.update (int i) x) (enumerate 0 (dd_Inputs desc)) (d_BinaryInputDescriptors d0),
    d_ButtonDescriptors := fold (\<lambda>(i, x). AList.update (int i) x) (enumerate 0 (dd_Buttons desc)) (d_ButtonDescriptors d0)\<rparr>"
  note each = each_index_bridged [OF bridged_descriptor(1) [OF assms(1)]]
    each_index_bridged [OF bridged_descriptor(2) [OF assms(1)]] each_index_bridged [OF bridged_descriptor(3) [OF assms(1)]]
  have d: "bridged ?s' ?u = Some ?d"
    unfolding set_descriptors_def by (simp add: each d0 fold_descriptors fold_descriptors' fold_descriptors'')
  have r: "AnnounceRichDevice now m desc s = (if dd_Sensors desc \<noteq> [] \<or> dd_Inputs desc \<noteq> [] \<or> dd_Buttons desc \<noteq> []
      then broadcast \<lparr>u_Type = EventInit, u_Device = ?d\<rparr> ?s' else ?s')"
    using d assms(1) by (simp add: AnnounceRichDevice_def Let_def ReAnnounce_def bridged_def)
  have b: "bridged (broadcast x s) u = bridged s u" for x s u by (simp add: bridged_def)
  have "bridged (AnnounceRichDevice now m desc s) ?u = Some ?d" by (simp add: r b d)
  moreover have "\<exists>d0. map_of (st_subscribers (AnnounceRichDevice now m desc s)) j =
          Some (q @ [\<lparr>u_Type = EventInit, u_Device = d0\<rparr>, \<lparr>u_Type = EventInit, u_Device = ?d\<rparr>])"
    if h: "dd_Sensors desc \<noteq> []" "map_of (st_subscribers s) j = Some q" "length q + 2 \<le> channel_capacity"
  proof -
    obtain d1 where "map_of (st_subscribers ?t) j = Some (q @ [\<lparr>u_Type = EventInit, u_Device = d1\<rparr>])"
      using announce_subscribers [OF assms(1) h(2), of now] h(3) by auto
    with h show ?thesis by (simp add: r map_of_broadcast)
  qed
  ultimately show ?thesis using f by (intro exI [of _ ?d]) (simp add: map_of_set_all)
qed

definition motion :: device_descriptor where
  "motion = \<lparr>dd_Buttons = [], dd_Sensors = [\<lparr>sd_Type = 1, sd_Usage = 0, sd_Name = ''Temperature'', sd_Min = 0,
     sd_Max = f64_hundred, sd_Resolution = f64_one, sd_SIUnit = ''celsius'', sd_Symbol = []\<rparr>],
     dd_Inputs = [\<lparr>id_Name = ''Motion'', id_Function = 5\<rparr>]\<rparr>"

lemma rich_announce_complete_witness:
  "\<exists>d q. bridged (AnnounceRichDevice 3 desk_mapping motion (snd (Subscribe NewStateStore))) ''D1'' = Some d \<and>
     map_of (d_BinaryInputDescriptors d) 0 = Some \<lparr>id_Name = ''Motion'', id_Function = 5\<rparr> \<and>
     map_of (st_subscribers (AnnounceRichDevice 3 desk_mapping motion (snd (Subscribe NewStateStore)))) 0 =
       Some q \<and> length q = 2 \<and> u_Device (last q) = d"
proof -
  have "map_of (st_subscribers (snd (Subscribe NewStateStore))) 0 = Some []"
    by (simp add: Subscribe_def NewStateStore_def Let_def)
  then show ?thesis
    using rich_announce_complete [of desk_mapping 3 motion "snd (Subscribe NewStateStore)" 0 "[]"]
    by (auto simp: desk_mapping_def motion_def trim_space_def is_space_def channel_capacity_def)
qed

end
