(* ===== verification/Plugin_Registry.thy ===== *)
theory Plugin_Registry
  imports Bridge_Host "HOL-Library.List_Lexorder" "HOL-Library.Char_ord"
begin

text \<open>
  The registry of plugins (\<^verbatim>\<open>pkg/bridge/registry.go\<close>): it starts, restarts, enables and removes the
  plugins, keeps their configurations on disk, retries what failed to start, and ties entities of
  plugins to devices. A plugin is a record of functions on a world of its own: each may fail, and may
  call back into its host; the calls are returned as a list. \<open>os\<close> holds what an operation sees
  of the operating system: the time in nanoseconds, the environment, and the outcome of each write.
\<close>

section \<open>Plugins\<close>

record command =
  c_Type :: string
  c_Channel :: int
  c_Value :: f64
  c_Scene :: int
  c_Active :: bool

type_synonym 'w effect = "'w \<Rightarrow> 'w \<times> string option \<times> host_call list"

record 'w plugin =
  pg_Init :: "obj \<Rightarrow> 'w effect"
  pg_Subscribe :: "mapping \<Rightarrow> 'w effect"
  pg_Unsubscribe :: "string \<Rightarrow> 'w effect"
  pg_Apply :: "mapping \<Rightarrow> command \<Rightarrow> 'w effect"
  pg_CallScene :: "(mapping \<Rightarrow> int \<Rightarrow> 'w effect) option"
  pg_Close :: "'w effect"

record 'w factory_entry =
  fe_DisplayName :: string
  fe_Description :: string
  fe_Factory :: "string \<Rightarrow> 'w plugin"

record retry_state =
  rs_nextAt :: nat
  rs_delay :: nat

record 'w registry =
  r_factories :: "(string, 'w factory_entry) gomap"
  r_instances :: "(string, 'w plugin) gomap"
  r_configs :: "(string, plugin_config) gomap"
  r_mappings :: mapping_store
  r_host :: host
  r_persist :: "string option"
  r_files :: "plugin_config list json_file files"
  r_retryBackoff :: "(string, retry_state) gomap"
  r_world :: 'w

record os =
  os_now :: nat
  os_environ :: "string list"
  os_write :: "mapping_store \<Rightarrow> write_outcome"
  os_save :: "plugin_config list \<Rightarrow> write_outcome \<times> bool"

datatype reg_error =
    UnknownType string | IdRequired | AlreadyExists string | NotFound string | IsDisabled string
  | AlreadyBridged string string | PluginError string

definition NewRegistry :: "host \<Rightarrow> mapping_store \<Rightarrow> plugin_config list json_file files \<Rightarrow> 'w \<Rightarrow> 'w registry" where
  "NewRegistry h ms fs w = \<lparr>r_factories = [], r_instances = [], r_configs = [], r_mappings = ms, r_host = h,
     r_persist = None, r_files = fs, r_retryBackoff = [], r_world = w\<rparr>"

definition Register :: "string \<Rightarrow> 'w factory_entry \<Rightarrow> 'w registry \<Rightarrow> 'w registry" where
  "Register typeName entry r = r\<lparr>r_factories := AList.update typeName
     (if fe_DisplayName entry = [] then entry\<lparr>fe_DisplayName := typeName\<rparr> else entry) (r_factories r)\<rparr>"

definition RegisterFactory :: "string \<Rightarrow> (string \<Rightarrow> 'w plugin) \<Rightarrow> 'w registry \<Rightarrow> 'w registry" where
  "RegisterFactory typeName f = Register typeName \<lparr>fe_DisplayName = typeName, fe_Description = [], fe_Factory = f\<rparr>"

definition SetPersister :: "string \<Rightarrow> 'w registry \<Rightarrow> 'w registry" where
  "SetPersister path r = r\<lparr>r_persist := Some path\<rparr>"

definition FactoryTypes :: "'w registry \<Rightarrow> string list" where "FactoryTypes r = map fst (r_factories r)"
definition FactoryEntry :: "'w registry \<Rightarrow> string \<Rightarrow> 'w factory_entry option" where "FactoryEntry r t = map_of (r_factories r) t"
definition Configs :: "'w registry \<Rightarrow> plugin_config list" where "Configs r = map snd (r_configs r)"
definition Config :: "'w registry \<Rightarrow> string \<Rightarrow> plugin_config option" where "Config r i = map_of (r_configs r) i"
definition Instances :: "'w registry \<Rightarrow> 'w plugin list" where "Instances r = map snd (r_instances r)"
definition Plugin :: "'w registry \<Rightarrow> string \<Rightarrow> 'w plugin option" where "Plugin r i = map_of (r_instances r) i"

section \<open>Events and calls\<close>

definition upd_host :: "(host \<Rightarrow> host) \<Rightarrow> 'w registry \<Rightarrow> 'w registry" where
  "upd_host f r = r\<lparr>r_host := f (r_host r)\<rparr>"

definition SetNotifier :: "'w registry \<Rightarrow> 'w registry" where
  "SetNotifier = upd_host (\<lambda>h. h\<lparr>ho_notified := Some (case ho_notified h of None \<Rightarrow> [] | Some xs \<Rightarrow> xs)\<rparr>)"

definition SetEventSink :: "event_buffer \<Rightarrow> 'w registry \<Rightarrow> 'w registry" where
  "SetEventSink s = upd_host (\<lambda>h. h\<lparr>ho_sink := Some s\<rparr>)"

definition SetActivityBuffer :: "activity_buffer \<Rightarrow> 'w registry \<Rightarrow> 'w registry" where
  "SetActivityBuffer ab = upd_host (\<lambda>h. h\<lparr>ho_activity := Some ab\<rparr>)"

definition sinkEmit :: "os \<Rightarrow> string \<Rightarrow> string \<Rightarrow> string \<Rightarrow> string \<Rightarrow> obj \<Rightarrow> 'w registry \<Rightarrow> 'w registry" where
  "sinkEmit os plugin level code message fs = upd_host (publish_event (os_now os)
     \<lparr>pl_Seq = 0, pl_Time = None, pl_PluginID = plugin, pl_Level = level, pl_Code = code,
      pl_Message = message, pl_Fields = fs\<rparr>)"

definition emit :: "string \<Rightarrow> obj \<Rightarrow> 'w registry \<Rightarrow> 'w registry" where
  "emit t dat = upd_host (notify_event t dat)"

text \<open>A call into the plugin with the id given, and what it asks of its host meanwhile.\<close>

definition plugin_call :: "os \<Rightarrow> string \<Rightarrow> 'w effect \<Rightarrow> 'w registry \<Rightarrow> 'w registry \<times> string option" where
  "plugin_call os plugin f r =
     (case f (r_world r) of (w, err, calls) \<Rightarrow>
        (upd_host (fold (host_do (os_now os) plugin) calls) (r\<lparr>r_world := w\<rparr>), err))"

definition on_mappings :: "(mapping_store \<Rightarrow> mapping_store) \<Rightarrow> 'w registry \<Rightarrow> 'w registry" where
  "on_mappings f r = r\<lparr>r_mappings := f (r_mappings r)\<rparr>"

definition add_mapping :: "os \<Rightarrow> mapping \<Rightarrow> 'w registry \<Rightarrow> 'w registry" where
  "add_mapping os m = on_mappings (\<lambda>ms. fst (ms_Add (os_write os (ms_enter m ms)) m ms))"

definition remove_mapping :: "os \<Rightarrow> string \<Rightarrow> 'w registry \<Rightarrow> 'w registry" where
  "remove_mapping os d = on_mappings (\<lambda>ms. fst (ms_Remove (os_write os ms) d ms))"

section \<open>Starting a plugin\<close>

definition second :: nat where "second = 1000000000"
definition supervisorInterval :: nat where "supervisorInterval = 30 * second"
definition supervisorBackoffMax :: nat where "supervisorBackoffMax = 300 * second"

definition next_delay :: "nat \<Rightarrow> nat" where
  "next_delay delay =
     (let d = delay * 2;
          d' = (if d < supervisorInterval then supervisorInterval else d)
      in if supervisorBackoffMax < d' then supervisorBackoffMax else d')"

definition retry_delay :: "'w registry \<Rightarrow> string \<Rightarrow> nat" where
  "retry_delay r i = (case map_of (r_retryBackoff r) i of None \<Rightarrow> 0 | Some st \<Rightarrow> rs_delay st)"

definition recordStartFailure :: "os \<Rightarrow> string \<Rightarrow> 'w registry \<Rightarrow> 'w registry" where
  "recordStartFailure os i r =
     (let delay = next_delay (retry_delay r i)
      in r\<lparr>r_retryBackoff := AList.update i \<lparr>rs_nextAt = os_now os + delay, rs_delay = delay\<rparr> (r_retryBackoff r)\<rparr>)"

definition env_prefix :: "string \<Rightarrow> string" where
  "env_prefix plugin = ''VDCGO_'' @ to_upper (map (\<lambda>c. if c = CHR ''-'' then CHR ''_'' else c) plugin) @ ''_''"

definition env_override :: "string \<Rightarrow> string \<Rightarrow> (string \<times> gany) option" where
  "env_override prefix env =
     (let k = takeWhile (\<lambda>c. c \<noteq> CHR ''='') env
      in if k = [] \<or> CHR ''='' \<notin> set env then None
         else if take (length prefix) k \<noteq> prefix then None
         else Some (to_lower (drop (length prefix) k), GStr (drop (Suc (length k)) env)))"

definition applyEnvOverlay :: "string list \<Rightarrow> string \<Rightarrow> obj \<Rightarrow> obj" where
  "applyEnvOverlay environ plugin cfg =
     fold (\<lambda>env res. case env_override (env_prefix plugin) env of None \<Rightarrow> res | Some (k, v) \<Rightarrow> AList.update k v res) environ cfg"

definition startPlugin :: "os \<Rightarrow> plugin_config \<Rightarrow> 'w registry \<Rightarrow> 'w registry \<times> reg_error option" where
  "startPlugin os pc r =
     (let i = pc_ID pc; r = r\<lparr>r_configs := AList.update i pc (r_configs r)\<rparr>
      in case map_of (r_factories r) (pc_Type pc) of
           None \<Rightarrow> (recordStartFailure os i r, Some (UnknownType (pc_Type pc)))
         | Some entry \<Rightarrow>
             (let p = fe_Factory entry i
              in case plugin_call os i (pg_Init p (applyEnvOverlay (os_environ os) i (pc_Config pc))) r of
                   (r, Some e) \<Rightarrow>
                     (recordStartFailure os i (sinkEmit os i ''error'' ''connect_failed'' ''plugin init failed''
                        [(''error'', GStr e), (''type'', GStr (pc_Type pc))] r), Some (PluginError e))
                 | (r, None) \<Rightarrow>
                     (sinkEmit os i ''info'' ''plugin_started'' ''plugin started'' [(''type'', GStr (pc_Type pc))]
                        (r\<lparr>r_instances := AList.update i p (r_instances r),
                           r_retryBackoff := AList.delete i (r_retryBackoff r)\<rparr>), None)))"

section \<open>Restoring mappings\<close>

definition has_device :: "'w registry \<Rightarrow> string \<Rightarrow> bool" where
  "has_device r dsuid = HasDevice (ho_state (r_host r)) dsuid"

definition ensureAnnounced :: "os \<Rightarrow> mapping \<Rightarrow> 'w registry \<Rightarrow> 'w registry" where
  "ensureAnnounced os m r =
     (if has_device r (m_DSUID m) then r else upd_host (on_state (AnnounceDevice (os_now os) m)) r)"

definition markInactive :: "os \<Rightarrow> mapping \<Rightarrow> 'w registry \<Rightarrow> 'w registry" where
  "markInactive os m = upd_host (on_state (UpdateActive (os_now os) (m_DSUID m) False))"

definition restore_mapping :: "os \<Rightarrow> string \<Rightarrow> 'w plugin \<Rightarrow> mapping \<Rightarrow> 'w registry \<Rightarrow> 'w registry" where
  "restore_mapping os i p m r = fst (plugin_call os i (pg_Subscribe p m) (ensureAnnounced os m r))"

definition restoreMappings :: "os \<Rightarrow> string \<Rightarrow> 'w plugin \<Rightarrow> 'w registry \<Rightarrow> 'w registry" where
  "restoreMappings os i p r = fold (restore_mapping os i p) (ListForPlugin i (r_mappings r)) r"

text \<open>After a successful start: the instance is looked up again before its mappings are restored.\<close>

definition restore_fresh :: "os \<Rightarrow> string \<Rightarrow> 'w registry \<Rightarrow> 'w registry" where
  "restore_fresh os i r =
     (case map_of (r_instances r) i of None \<Rightarrow> r | Some p \<Rightarrow> restoreMappings os i p r)"

definition start_config :: "os \<Rightarrow> plugin_config \<Rightarrow> 'w registry \<Rightarrow> 'w registry" where
  "start_config os pc r =
     (if pc_Disabled pc then
        sinkEmit os (pc_ID pc) ''info'' ''plugin_stopped'' ''plugin disabled, not started'' [(''type'', GStr (pc_Type pc))]
          (r\<lparr>r_configs := AList.update (pc_ID pc) pc (r_configs r)\<rparr>)
      else fst (startPlugin os pc r))"

definition start_mapping :: "os \<Rightarrow> mapping \<Rightarrow> 'w registry \<Rightarrow> 'w registry" where
  "start_mapping os m r =
     (case map_of (r_instances r) (m_PluginID m) of
        None \<Rightarrow>
          if \<not> go_has (r_configs r) (m_PluginID m) then r
          else markInactive os m (ensureAnnounced os m r)
      | Some p \<Rightarrow> restore_mapping os (m_PluginID m) p m r)"

definition Start :: "os \<Rightarrow> plugin_config list \<Rightarrow> 'w registry \<Rightarrow> 'w registry" where
  "Start os configs r =
     (let r = fold (start_config os) configs r
      in fold (start_mapping os) (ms_list (r_mappings r)) r)"

text \<open>
  The supervisor collects under its lock what is due, and starts it after; another operation may come
  in between.
\<close>

definition supervise_due :: "os \<Rightarrow> 'w registry \<Rightarrow> plugin_config list" where
  "supervise_due os r = map snd (filter (\<lambda>(i, pc). \<not> pc_Disabled pc \<and> \<not> go_has (r_instances r) i \<and>
     \<not> (case map_of (r_retryBackoff r) i of None \<Rightarrow> False | Some st \<Rightarrow> os_now os < rs_nextAt st)) (r_configs r))"

definition supervise_one :: "os \<Rightarrow> plugin_config \<Rightarrow> 'w registry \<Rightarrow> 'w registry" where
  "supervise_one os pc r =
     (case startPlugin os pc r of
        (r, Some _) \<Rightarrow> r
      | (r, None) \<Rightarrow> restore_fresh os (pc_ID pc) (sinkEmit os (pc_ID pc) ''info'' ''plugin_started''
          ''automatically restarted after a previous failure'' [(''type'', GStr (pc_Type pc))] r))"

definition superviseOnce :: "os \<Rightarrow> 'w registry \<Rightarrow> 'w registry" where
  "superviseOnce os r = fold (supervise_one os) (supervise_due os r) r"

section \<open>Changing the set of plugins\<close>

definition sorted_configs :: "'w registry \<Rightarrow> plugin_config list" where
  "sorted_configs r = sort_key pc_ID (map snd (r_configs r))"

definition persistConfigs :: "os \<Rightarrow> 'w registry \<Rightarrow> 'w registry" where
  "persistConfigs os r =
     (case r_persist r of
        None \<Rightarrow> r
      | Some path \<Rightarrow> r\<lparr>r_files := (case os_save os (sorted_configs r) of (out, renames) \<Rightarrow>
          fst (savePluginConfigs out renames path (sorted_configs r) (r_files r)))\<rparr>)"

definition plugin_data :: "string \<Rightarrow> string \<Rightarrow> obj" where
  "plugin_data i t = [(''id'', GStr i), (''type'', GStr t)]"

definition AddPlugin :: "os \<Rightarrow> plugin_config \<Rightarrow> 'w registry \<Rightarrow> 'w registry \<times> reg_error option" where
  "AddPlugin os pc r =
     (if pc_ID pc = [] then (r, Some IdRequired)
      else if go_has (r_instances r) (pc_ID pc) then (r, Some (AlreadyExists (pc_ID pc)))
      else case startPlugin os pc r of
             (r, Some e) \<Rightarrow> (r, Some e)
           | (r, None) \<Rightarrow> (sinkEmit os (pc_ID pc) ''info'' ''plugin_started'' ''plugin added'' [(''type'', GStr (pc_Type pc))]
               (emit ''pluginAdded'' (plugin_data (pc_ID pc) (pc_Type pc)) (persistConfigs os r)), None))"

definition remove_owned :: "os \<Rightarrow> string \<Rightarrow> 'w plugin option \<Rightarrow> mapping \<Rightarrow> 'w registry \<Rightarrow> 'w registry" where
  "remove_owned os i p m r =
     (let r = (case p of None \<Rightarrow> r | Some p \<Rightarrow> fst (plugin_call os i (pg_Unsubscribe p (m_DSUID m)) r));
          r = upd_host (on_state (RemoveDevice (os_now os) (m_DSUID m))) r
      in remove_mapping os (m_DSUID m) r)"

definition close_plugin :: "os \<Rightarrow> string \<Rightarrow> 'w plugin option \<Rightarrow> 'w registry \<Rightarrow> 'w registry" where
  "close_plugin os i p r = (case p of None \<Rightarrow> r | Some p \<Rightarrow> fst (plugin_call os i (pg_Close p) r))"

definition RemovePlugin :: "os \<Rightarrow> string \<Rightarrow> 'w registry \<Rightarrow> 'w registry \<times> reg_error option" where
  "RemovePlugin os i r =
     (let p = map_of (r_instances r) i; hasConfig = go_has (r_configs r) i;
          r = r\<lparr>r_instances := AList.delete i (r_instances r), r_configs := AList.delete i (r_configs r),
                r_retryBackoff := AList.delete i (r_retryBackoff r)\<rparr>
      in if p = None \<and> \<not> hasConfig then (r, Some (NotFound i))
         else (sinkEmit os i ''info'' ''plugin_stopped'' ''plugin removed'' []
                (emit ''pluginRemoved'' [(''id'', GStr i)] (persistConfigs os (close_plugin os i p
                  (fold (remove_owned os i p) (ListForPlugin i (r_mappings r)) r)))), None))"

definition UpdatePlugin :: "os \<Rightarrow> plugin_config \<Rightarrow> 'w registry \<Rightarrow> 'w registry \<times> reg_error option" where
  "UpdatePlugin os pc r =
     (let i = pc_ID pc; old = map_of (r_instances r) i; hasConfig = go_has (r_configs r) i;
          r = r\<lparr>r_instances := AList.delete i (r_instances r)\<rparr>
      in if old = None \<and> \<not> hasConfig then (r, Some (NotFound i))
         else case startPlugin os pc (close_plugin os i old r) of
                (r, Some e) \<Rightarrow> (r, Some e)
              | (r, None) \<Rightarrow> (sinkEmit os i ''info'' ''plugin_restarted'' ''plugin config updated and restarted''
                  [(''type'', GStr (pc_Type pc))] (emit ''pluginUpdated'' (plugin_data i (pc_Type pc))
                    (persistConfigs os (restore_fresh os i r))), None))"

definition RestartPlugin :: "os \<Rightarrow> string \<Rightarrow> 'w registry \<Rightarrow> 'w registry \<times> reg_error option" where
  "RestartPlugin os i r =
     (case map_of (r_configs r) i of
        None \<Rightarrow> (r, Some (NotFound i))
      | Some pc \<Rightarrow>
          if pc_Disabled pc then (r, Some (IsDisabled i))
          else case startPlugin os pc (close_plugin os i (map_of (r_instances r) i)
                      (r\<lparr>r_instances := AList.delete i (r_instances r)\<rparr>)) of
                 (r, Some e) \<Rightarrow> (r, Some e)
               | (r, None) \<Rightarrow> (sinkEmit os i ''info'' ''plugin_restarted'' ''plugin restarted'' [(''type'', GStr (pc_Type pc))]
                   (emit ''pluginUpdated'' (plugin_data i (pc_Type pc)) (restore_fresh os i r)), None))"

definition unsubscribe_all :: "os \<Rightarrow> string \<Rightarrow> 'w plugin option \<Rightarrow> 'w registry \<Rightarrow> 'w registry" where
  "unsubscribe_all os i p r =
     (case p of None \<Rightarrow> r
      | Some p \<Rightarrow> fold (\<lambda>m r. fst (plugin_call os i (pg_Unsubscribe p (m_DSUID m)) r)) (ListForPlugin i (r_mappings r)) r)"

definition set_config :: "plugin_config \<Rightarrow> 'w registry \<Rightarrow> 'w registry" where
  "set_config pc r = r\<lparr>r_configs := AList.update (pc_ID pc) pc (r_configs r)\<rparr>"

definition enable_plugin :: "os \<Rightarrow> plugin_config \<Rightarrow> 'w registry \<Rightarrow> 'w registry \<times> reg_error option" where
  "enable_plugin os pc r =
     (case startPlugin os pc r of
        (r, Some e) \<Rightarrow> (r, Some e)
      | (r, None) \<Rightarrow> (sinkEmit os (pc_ID pc) ''info'' ''plugin_started'' ''plugin enabled'' [(''type'', GStr (pc_Type pc))]
          (emit ''pluginUpdated'' (plugin_data (pc_ID pc) (pc_Type pc)) (restore_fresh os (pc_ID pc) r)), None))"

definition disable_plugin :: "os \<Rightarrow> plugin_config \<Rightarrow> 'w registry \<Rightarrow> 'w registry" where
  "disable_plugin os pc r =
     (let i = pc_ID pc; old = map_of (r_instances r) i;
          r = set_config pc (r\<lparr>r_instances := AList.delete i (r_instances r)\<rparr>)
      in sinkEmit os i ''info'' ''plugin_stopped'' ''plugin disabled'' [(''type'', GStr (pc_Type pc))]
           (emit ''pluginUpdated'' (plugin_data i (pc_Type pc)) (close_plugin os i old (unsubscribe_all os i old r))))"

definition SetEnabled :: "os \<Rightarrow> string \<Rightarrow> bool \<Rightarrow> 'w registry \<Rightarrow> 'w registry \<times> reg_error option" where
  "SetEnabled os i enabled r =
     (case map_of (r_configs r) i of
        None \<Rightarrow> (r, Some (NotFound i))
      | Some pc \<Rightarrow>
          if pc_Disabled pc = (\<not> enabled) then (r, None)
          else let pc = pc\<lparr>pc_Disabled := \<not> enabled\<rparr>
               in case (if enabled then enable_plugin os pc r else (disable_plugin os pc r, None)) of
                    (r, Some e) \<Rightarrow> (r, Some e)
                  | (r, None) \<Rightarrow> (persistConfigs os (r\<lparr>r_configs := AList.update i pc (r_configs r)\<rparr>), None))"

definition IsEnabled :: "'w registry \<Rightarrow> string \<Rightarrow> bool" where
  "IsEnabled r i = (case map_of (r_configs r) i of None \<Rightarrow> True | Some pc \<Rightarrow> \<not> pc_Disabled pc)"

definition Stop :: "os \<Rightarrow> 'w registry \<Rightarrow> 'w registry" where
  "Stop os r = fold (\<lambda>(i, p) r. fst (plugin_call os i (pg_Close p) r)) (r_instances r) r"

section \<open>Bridges\<close>

definition CreateBridge ::
  "os \<Rightarrow> string \<Rightarrow> string \<Rightarrow> string \<Rightarrow> string \<Rightarrow> 'w registry \<Rightarrow> 'w registry \<times> (reg_error + mapping)" where
  "CreateBridge os plugin remote name kind r =
     (case map_of (r_instances r) plugin of
        None \<Rightarrow> (r, Inl (NotFound plugin))
      | Some p \<Rightarrow>
          if GetByRemote plugin remote (r_mappings r) \<noteq> None then (r, Inl (AlreadyBridged remote plugin))
          else let dsuid = BridgeDSUID plugin remote;
                   m = \<lparr>m_PluginID = plugin, m_RemoteEntityID = remote, m_DSUID = dsuid, m_Kind = kind, m_Name = name\<rparr>;
                   r = upd_host (on_state (AnnounceDevice (os_now os) m)) (add_mapping os m r);
                   r = fst (plugin_call os plugin (pg_Subscribe p m) r);
                   r = emit ''bridgeAdded'' [(''pluginId'', GStr plugin), (''remoteEntityId'', GStr remote),
                         (''dsuid'', GStr dsuid), (''name'', GStr name), (''kind'', GStr kind)] r
               in (sinkEmit os plugin ''info'' ''entity_added'' ''bridge mapping created'' [(''dsuid'', GStr dsuid),
                     (''remoteId'', GStr remote), (''name'', GStr name), (''kind'', GStr kind)] r, Inr m))"

definition RemoveBridge :: "os \<Rightarrow> string \<Rightarrow> 'w registry \<Rightarrow> 'w registry \<times> reg_error option" where
  "RemoveBridge os dsuid r =
     (case ms_Get (r_mappings r) dsuid of
        None \<Rightarrow> (r, Some (NotFound dsuid))
      | Some m \<Rightarrow>
          let r = (case map_of (r_instances r) (m_PluginID m) of None \<Rightarrow> r
                   | Some p \<Rightarrow> fst (plugin_call os (m_PluginID m) (pg_Unsubscribe p dsuid) r));
              r = upd_host (on_state (RemoveDevice (os_now os) dsuid)) r;
              r = remove_mapping os dsuid r;
              r = emit ''bridgeRemoved'' [(''pluginId'', GStr (m_PluginID m)), (''dsuid'', GStr dsuid),
                    (''name'', GStr (m_Name m))] r
          in (sinkEmit os (m_PluginID m) ''info'' ''entity_removed'' ''bridge mapping removed''
                [(''dsuid'', GStr dsuid), (''name'', GStr (m_Name m))] r, None))"

end
