(* ===== verification/Registry_Facts.thy ===== *)
theory Registry_Facts
  imports Plugin_Registry
begin

text \<open>
  The library for the registry of plugins: what each operation leaves alone, what the calls of a
  plugin may touch, and the invariant of the registry under every operation, the retries of the
  supervisor interleaved.
\<close>

section \<open>Frames\<close>

definition core :: "'w registry \<Rightarrow> _" where
  "core r = (r_factories r, r_instances r, r_configs r, r_mappings r, r_persist r, r_files r, r_retryBackoff r)"

lemma core_D:
  assumes "core r' = core r"
  shows "r_factories r' = r_factories r" "r_instances r' = r_instances r" "r_configs r' = r_configs r"
    "r_mappings r' = r_mappings r" "r_persist r' = r_persist r" "r_files r' = r_files r"
    "r_retryBackoff r' = r_retryBackoff r"
  using assms by (simp_all add: core_def)

lemma core_fold: "(\<And>x r. core (f x r) = core r) \<Longrightarrow> core (fold f xs r) = core r"
  by (induction xs arbitrary: r) simp_all

lemma core_upd_host: "core (upd_host f r) = core r"
  by (simp add: core_def upd_host_def)

lemma core_sinkEmit: "core (sinkEmit os i l c m fs r) = core r"
  by (simp add: sinkEmit_def core_upd_host)

lemma core_emit: "core (emit t d r) = core r"
  by (simp add: emit_def core_upd_host)

lemma core_plugin_call: "core (fst (plugin_call os i f r)) = core r"
  by (simp add: plugin_call_def core_def upd_host_def split: prod.split)

lemma core_ensureAnnounced: "core (ensureAnnounced os m r) = core r"
  by (simp add: ensureAnnounced_def core_upd_host)

lemma core_markInactive: "core (markInactive os m r) = core r"
  by (simp add: markInactive_def core_upd_host)

lemma core_restore_mapping: "core (restore_mapping os i p m r) = core r"
  by (simp add: restore_mapping_def core_plugin_call core_ensureAnnounced)

lemma core_restoreMappings: "core (restoreMappings os i p r) = core r"
  by (simp add: restoreMappings_def core_fold core_restore_mapping)

lemma core_restore_fresh: "core (restore_fresh os i r) = core r"
  by (simp add: restore_fresh_def core_restoreMappings split: option.split)

lemma core_close_plugin: "core (close_plugin os i p r) = core r"
  by (simp add: close_plugin_def core_plugin_call split: option.split)

lemma core_unsubscribe_all: "core (unsubscribe_all os i p r) = core r"
  by (simp add: unsubscribe_all_def core_fold core_plugin_call split: option.split)

lemma core_start_mapping: "core (start_mapping os m r) = core r"
  by (simp add: start_mapping_def core_markInactive core_ensureAnnounced core_restore_mapping split: option.split)

lemmas frames [simp] = core_D [OF core_upd_host] core_D [OF core_sinkEmit] core_D [OF core_emit]
  core_D [OF core_plugin_call] core_D [OF core_ensureAnnounced] core_D [OF core_markInactive]
  core_D [OF core_restore_mapping] core_D [OF core_restoreMappings] core_D [OF core_restore_fresh]
  core_D [OF core_close_plugin] core_D [OF core_unsubscribe_all] core_D [OF core_start_mapping]

lemma plugin_call_frame [simp]:
  assumes "plugin_call os i f r = (r', e)"
  shows "r_factories r' = r_factories r" "r_instances r' = r_instances r" "r_configs r' = r_configs r"
    "r_mappings r' = r_mappings r" "r_persist r' = r_persist r" "r_files r' = r_files r"
    "r_retryBackoff r' = r_retryBackoff r"
  using core_D [OF core_plugin_call, of os i f r] assms by simp_all

lemma failure_fields [simp]:
  "r_factories (recordStartFailure os i r) = r_factories r" "r_instances (recordStartFailure os i r) = r_instances r"
  "r_configs (recordStartFailure os i r) = r_configs r" "r_mappings (recordStartFailure os i r) = r_mappings r"
  "r_persist (recordStartFailure os i r) = r_persist r" "r_files (recordStartFailure os i r) = r_files r"
  "r_host (recordStartFailure os i r) = r_host r"
  by (simp_all add: recordStartFailure_def Let_def)

lemma persist_fields [simp]:
  "r_factories (persistConfigs os r) = r_factories r" "r_instances (persistConfigs os r) = r_instances r"
  "r_configs (persistConfigs os r) = r_configs r" "r_mappings (persistConfigs os r) = r_mappings r"
  "r_persist (persistConfigs os r) = r_persist r" "r_retryBackoff (persistConfigs os r) = r_retryBackoff r"
  "r_host (persistConfigs os r) = r_host r"
  by (simp_all add: persistConfigs_def split: option.split)

lemma mapping_fields [simp]:
  "r_factories (on_mappings f r) = r_factories r" "r_instances (on_mappings f r) = r_instances r"
  "r_configs (on_mappings f r) = r_configs r" "r_mappings (on_mappings f r) = f (r_mappings r)"
  "r_persist (on_mappings f r) = r_persist r" "r_files (on_mappings f r) = r_files r"
  "r_retryBackoff (on_mappings f r) = r_retryBackoff r" "r_host (on_mappings f r) = r_host r"
  by (simp_all add: on_mappings_def)

text \<open>What a start of a plugin leaves, whether it succeeds or not.\<close>

lemma startPlugin_fields [simp]:
  "r_factories (fst (startPlugin os pc r)) = r_factories r" "r_mappings (fst (startPlugin os pc r)) = r_mappings r"
  "r_configs (fst (startPlugin os pc r)) = AList.update (pc_ID pc) pc (r_configs r)"
  "r_persist (fst (startPlugin os pc r)) = r_persist r" "r_files (fst (startPlugin os pc r)) = r_files r"
  by (simp_all add: startPlugin_def Let_def split: option.split prod.split)

lemma startPlugin_cases:
  obtains (unknown) "map_of (r_factories r) (pc_Type pc) = None" "snd (startPlugin os pc r) = Some (UnknownType (pc_Type pc))"
      "fst (startPlugin os pc r) = recordStartFailure os (pc_ID pc) (set_config pc r)"
  | (failed) entry e r' where "map_of (r_factories r) (pc_Type pc) = Some entry"
      "snd (startPlugin os pc r) = Some (PluginError e)" "core r' = core (set_config pc r)"
      "fst (startPlugin os pc r) = recordStartFailure os (pc_ID pc) r'"
  | (started) entry where "map_of (r_factories r) (pc_Type pc) = Some entry" "snd (startPlugin os pc r) = None"
      "r_instances (fst (startPlugin os pc r)) = AList.update (pc_ID pc) (fe_Factory entry (pc_ID pc)) (r_instances r)"
      "r_retryBackoff (fst (startPlugin os pc r)) = AList.delete (pc_ID pc) (r_retryBackoff r)"
proof (cases "map_of (r_factories r) (pc_Type pc)")
  case None
  then show ?thesis by (intro unknown) (simp_all add: startPlugin_def Let_def set_config_def)
next
  case (Some entry)
  let ?i = "pc_ID pc"
  obtain r1 e where c: "plugin_call os ?i (pg_Init (fe_Factory entry ?i) (applyEnvOverlay (os_environ os) ?i (pc_Config pc)))
      (set_config pc r) = (r1, e)" by (cases "plugin_call os ?i (pg_Init (fe_Factory entry ?i)
        (applyEnvOverlay (os_environ os) ?i (pc_Config pc))) (set_config pc r)")
  have k: "core r1 = core (set_config pc r)"
    using core_plugin_call [of os ?i "pg_Init (fe_Factory entry ?i) (applyEnvOverlay (os_environ os) ?i (pc_Config pc))" "set_config pc r"] c
    by simp
  show ?thesis
  proof (cases e)
    case None
    then show ?thesis using Some c k
      by (intro started [of entry]) (simp_all add: startPlugin_def Let_def set_config_def core_def)
  next
    case (Some e')
    then show ?thesis using \<open>map_of (r_factories r) (pc_Type pc) = Some entry\<close> c k
      by (intro failed [of entry e']) (simp_all add: startPlugin_def Let_def set_config_def core_sinkEmit)
  qed
qed

section \<open>The devices\<close>

definition dev :: "'w registry \<Rightarrow> string \<Rightarrow> device option" where
  "dev r u = bridged (ho_state (r_host r)) u"

fun call_device :: "host_call \<Rightarrow> string option" where
  "call_device (HAnnounce m) = Some (m_DSUID m)"
| "call_device (HAnnounceRich m d) = Some (m_DSUID m)"
| "call_device (HRemove u) = Some u"
| "call_device (HChannel u i v) = Some u"
| "call_device (HButton u i v) = Some u"
| "call_device (HButtonAction u i a) = Some u"
| "call_device (HSensor u i v) = Some u"
| "call_device (HInput u i v) = Some u"
| "call_device (HSensorDescriptor u i x) = Some u"
| "call_device (HInputDescriptor u i x) = Some u"
| "call_device (HButtonDescriptor u i x) = Some u"
| "call_device (HActive u a) = Some u"
| "call_device (HMeta u v m r) = Some u"
| "call_device (HReAnnounce u) = None"
| "call_device (HLog l c m fs) = None"
| "call_device HDiscovery = None"

definition about :: "string \<Rightarrow> event \<Rightarrow> bool" where
  "about u e \<longleftrightarrow> same_dev u (e_UniqueID e) \<or> e_Tag e \<noteq> []"

text \<open>A call changes the device it names only.\<close>

lemma uid_key_other [simp]: "uid_key u \<noteq> ''anon:sample''" "uid_key u \<noteq> CHR ''c'' # s"
  by (simp_all add: uid_key_def)

lemma event_frame_bridged:
  "\<not> same_dev u (e_UniqueID e) \<Longrightarrow> e_Tag e = [] \<Longrightarrow> bridged (HandleEvent now e s) u = bridged s u"
  by (cases "e_Type e")
    (auto simp: bridged_def same_dev_def handle_locked_def handle_init_def handle_remove_def handle_update_def
      resolveKey_def eventKey_def Let_def split: prod.split option.split)

lemma set_descriptors_frame: "\<not> same_dev u v \<Longrightarrow> bridged (set_descriptors now v desc s) u = bridged s u"
  unfolding set_descriptors_def
  by (intro each_index_inv [where P = "\<lambda>t. bridged t u = bridged s u"])
    (simp_all add: host_events event_frame_bridged event0_def)

lemma host_do_frame:
  "(\<And>v. call_device c = Some v \<Longrightarrow> \<not> same_dev u v) \<Longrightarrow> bridged (ho_state (host_do now p c h)) u = bridged (ho_state h) u"
  by (cases c) (simp_all add: host_events event_frame_bridged event0_def plugin_UpdateChannel_def
    plugin_UpdateActive_def plugin_log_def AnnounceRichDevice_def RemoveDevice_def Let_def set_descriptors_frame
    del: HandleEvent_fields)

lemma host_fold_frame:
  "\<forall>c \<in> set cs. \<forall>v. call_device c = Some v \<longrightarrow> \<not> same_dev u v \<Longrightarrow>
   bridged (ho_state (fold (host_do now p) cs h)) u = bridged (ho_state h) u"
  by (induction cs arbitrary: h) (simp_all add: host_do_frame)

lemma host_fold_keeps:
  "bridged (ho_state h) u \<noteq> None \<Longrightarrow> (\<And>v. HRemove v \<in> set cs \<Longrightarrow> \<not> same_dev u v) \<Longrightarrow>
   bridged (ho_state (fold (host_do now p) cs h)) u \<noteq> None"
proof (induction cs arbitrary: h)
  case (Cons c cs)
  then show ?case using host_do_keeps [of h u c now p] by simp
qed simp

definition calls_of :: "'w effect \<Rightarrow> 'w \<Rightarrow> host_call list" where
  "calls_of f w = snd (snd (f w))"

text \<open>
  What the code of the plugins keeps to: subscribing to a mapping concerns the device of the mapping and
  does not remove it.
\<close>

definition subscribes_own :: "'w plugin \<Rightarrow> bool" where
  "subscribes_own p \<longleftrightarrow> (\<forall>m w. \<forall>c \<in> set (calls_of (pg_Subscribe p m) w).
     (\<forall>v. c \<noteq> HRemove v) \<and> (\<forall>v. call_device c = Some v \<longrightarrow> same_dev v (m_DSUID m)))"

lemma dev_plugin_call: "dev (fst (plugin_call os i f r)) u = bridged (ho_state (fold (host_do (os_now os) i) (calls_of f (r_world r)) (r_host r))) u"
  by (simp add: plugin_call_def dev_def upd_host_def calls_of_def split: prod.split)

lemma dev_fields [simp]:
  "dev (sinkEmit os i l c m fs r) = dev r" "dev (emit t d r) = dev r" "dev (persistConfigs os r) = dev r"
  "dev (on_mappings f r) = dev r" "dev (recordStartFailure os i r) = dev r"
  "dev (r\<lparr>r_instances := x\<rparr>) = dev r" "dev (r\<lparr>r_configs := y\<rparr>) = dev r" "dev (r\<lparr>r_retryBackoff := z\<rparr>) = dev r"
  by (simp_all add: dev_def fun_eq_iff sinkEmit_def emit_def upd_host_def)

lemma dev_on_state: "dev (upd_host (on_state f) r) u = bridged (f (ho_state (r_host r))) u"
  by (simp add: dev_def upd_host_def)

lemma same_dev_refl [simp]: "same_dev u u" by (simp add: same_dev_def)

lemma same_dev_sym: "same_dev u v \<longleftrightarrow> same_dev v u" by (auto simp: same_dev_def)

lemma ensure_there: "trim_space (m_DSUID m) \<noteq> [] \<Longrightarrow> dev (ensureAnnounced os m r) (m_DSUID m) \<noteq> None"
  by (simp add: ensureAnnounced_def has_device_def HasDevice_def Has_bridged dev_on_state bridged_announce)
    (simp add: dev_def)

lemma ensure_frame: "\<not> same_dev u (m_DSUID m) \<Longrightarrow> dev (ensureAnnounced os m r) u = dev r u"
  by (simp add: ensureAnnounced_def dev_on_state AnnounceDevice_def event_frame_bridged event0_def del: HandleEvent_fields)
    (simp add: dev_def)

lemma ensure_idle: "has_device r (m_DSUID m) \<Longrightarrow> ensureAnnounced os m r = r"
  by (simp add: ensureAnnounced_def)

lemma restore_there: "subscribes_own p \<Longrightarrow> trim_space (m_DSUID m) \<noteq> [] \<Longrightarrow> dev (restore_mapping os i p m r) (m_DSUID m) \<noteq> None"
  unfolding restore_mapping_def dev_plugin_call
  by (rule host_fold_keeps) (use ensure_there [of m os r] in \<open>auto simp: subscribes_own_def dev_def\<close>)

lemma restore_frame: "subscribes_own p \<Longrightarrow> \<not> same_dev u (m_DSUID m) \<Longrightarrow> dev (restore_mapping os i p m r) u = dev r u"
  unfolding restore_mapping_def dev_plugin_call
  by (subst host_fold_frame) (auto simp: subscribes_own_def same_dev_def ensure_frame simp flip: dev_def)

lemma inactive_there: "trim_space (m_DSUID m) \<noteq> [] \<Longrightarrow>
    dev (markInactive os m r) (m_DSUID m) = map_option (\<lambda>d. d\<lparr>d_Active := False\<rparr>) (dev r (m_DSUID m))"
  by (simp add: markInactive_def dev_on_state UpdateActive_def bridged_update event0_def apply_event_def)
    (simp add: dev_def)

lemma inactive_frame: "\<not> same_dev u (m_DSUID m) \<Longrightarrow> dev (markInactive os m r) u = dev r u"
  by (simp add: markInactive_def dev_on_state UpdateActive_def event_frame_bridged event0_def del: HandleEvent_fields)
    (simp add: dev_def)

section \<open>The invariant\<close>

definition configs_ok :: "(string, plugin_config) gomap \<Rightarrow> bool" where
  "configs_ok cs \<longleftrightarrow> distinct (map fst cs) \<and> (\<forall>(k, pc) \<in> set cs. pc_ID pc = k)"

definition registry_ok :: "'w registry \<Rightarrow> bool" where
  "registry_ok r \<longleftrightarrow> configs_ok (r_configs r) \<and> mappings_wf (r_mappings r) \<and>
     (\<forall>i. go_has (r_instances r) i \<longrightarrow> go_has (r_configs r) i) \<and>
     (\<forall>i st. map_of (r_retryBackoff r) i = Some st \<longrightarrow> go_has (r_configs r) i \<and>
        supervisorInterval \<le> rs_delay st \<and> rs_delay st \<le> supervisorBackoffMax)"

lemma configs_ok_update [simp]: "configs_ok cs \<Longrightarrow> pc_ID pc = i \<Longrightarrow> configs_ok (AList.update i pc cs)"
  by (auto simp: configs_ok_def dest!: set_update_cases)

lemma configs_ok_delete [simp]: "configs_ok cs \<Longrightarrow> configs_ok (AList.delete k cs)"
  by (auto simp: configs_ok_def dest!: set_delete_subset)

lemma configs_ok_lookup: "configs_ok cs \<Longrightarrow> map_of cs i = Some pc \<Longrightarrow> pc_ID pc = i"
  by (auto simp: configs_ok_def dest!: map_of_SomeD)

lemma ok_core: "core r' = core r \<Longrightarrow> registry_ok r' = registry_ok r"
  by (simp add: registry_ok_def core_def)

lemmas ok_frames [simp] = ok_core [OF core_upd_host] ok_core [OF core_sinkEmit] ok_core [OF core_emit]
  ok_core [OF core_plugin_call] ok_core [OF core_restore_fresh] ok_core [OF core_close_plugin]
  ok_core [OF core_unsubscribe_all] ok_core [OF core_start_mapping]

lemma ok_persist [simp]: "registry_ok (persistConfigs os r) = registry_ok r"
  by (simp add: registry_ok_def)

lemma ok_set_config [simp]: "registry_ok r \<Longrightarrow> registry_ok (set_config pc r)"
  by (simp add: registry_ok_def set_config_def)

lemma next_delay_bounds: "supervisorInterval \<le> next_delay d" "next_delay d \<le> supervisorBackoffMax"
  by (simp_all add: next_delay_def Let_def supervisorInterval_def supervisorBackoffMax_def second_def)

lemma ok_failure: "registry_ok r \<Longrightarrow> go_has (r_configs r) i \<Longrightarrow> registry_ok (recordStartFailure os i r)"
  by (auto simp: registry_ok_def recordStartFailure_def Let_def next_delay_bounds split: if_splits)

lemma ok_start: "registry_ok r \<Longrightarrow> registry_ok (fst (startPlugin os pc r))"
proof (cases rule: startPlugin_cases [of r pc os])
  case unknown
  moreover assume "registry_ok r"
  ultimately show ?thesis using ok_failure [OF ok_set_config, of r pc "pc_ID pc" os] by (simp add: set_config_def)
next
  case (failed entry e r')
  moreover assume "registry_ok r"
  moreover have "go_has (r_configs r') (pc_ID pc)" using core_D [OF failed(3)] by (simp add: set_config_def)
  ultimately show ?thesis by (simp add: ok_failure ok_core [OF failed(3)])
next
  case (started entry)
  moreover assume "registry_ok r"
  ultimately show ?thesis by (auto simp: registry_ok_def split: if_splits)
qed

lemma ok_drop_instance [simp]: "registry_ok r \<Longrightarrow> registry_ok (r\<lparr>r_instances := AList.delete i (r_instances r)\<rparr>)"
  by (simp add: registry_ok_def)

lemma ok_mappings: "registry_ok r \<Longrightarrow> (\<And>ms. mappings_wf ms \<Longrightarrow> mappings_wf (f ms)) \<Longrightarrow> registry_ok (on_mappings f r)"
  by (simp add: registry_ok_def)

lemma ok_add_mapping [simp]: "registry_ok r \<Longrightarrow> registry_ok (add_mapping os m r)"
  unfolding add_mapping_def by (rule ok_mappings) simp_all

lemma ok_remove_mapping [simp]: "registry_ok r \<Longrightarrow> registry_ok (remove_mapping os d r)"
  unfolding remove_mapping_def by (rule ok_mappings) simp_all

lemma ok_remove_owned: "registry_ok r \<Longrightarrow> registry_ok (remove_owned os i p m r)"
  by (simp add: remove_owned_def Let_def split: option.split)

lemma ok_fold: "registry_ok r \<Longrightarrow> (\<And>x r. registry_ok r \<Longrightarrow> registry_ok (f x r)) \<Longrightarrow> registry_ok (fold f xs r)"
  by (rule fold_invariant [where Q = "\<lambda>_. True"]) auto

lemma ok_start_config: "registry_ok r \<Longrightarrow> registry_ok (start_config os pc r)"
  using ok_set_config [of r pc] by (simp add: start_config_def ok_start set_config_def)

lemma ok_Start: "registry_ok r \<Longrightarrow> registry_ok (Start os configs r)"
  unfolding Start_def Let_def by (intro ok_fold ok_start_config) simp_all

lemma ok_supervise_one: "registry_ok r \<Longrightarrow> registry_ok (supervise_one os pc r)"
  using ok_start [of r os pc] by (auto simp: supervise_one_def split: prod.split option.split)

lemma ok_AddPlugin: "registry_ok r \<Longrightarrow> registry_ok (fst (AddPlugin os pc r))"
  using ok_start [of r os pc] by (auto simp: AddPlugin_def split: prod.split option.split)

lemma ok_RemovePlugin: "registry_ok r \<Longrightarrow> registry_ok (fst (RemovePlugin os i r))"
proof -
  let ?r = "r\<lparr>r_instances := AList.delete i (r_instances r), r_configs := AList.delete i (r_configs r),
    r_retryBackoff := AList.delete i (r_retryBackoff r)\<rparr>"
  assume "registry_ok r"
  then have "registry_ok ?r" by (auto simp: registry_ok_def split: if_splits)
  then show ?thesis by (simp add: RemovePlugin_def Let_def ok_fold ok_remove_owned)
qed

lemma ok_UpdatePlugin: "registry_ok r \<Longrightarrow> registry_ok (fst (UpdatePlugin os pc r))"
proof -
  let ?r = "close_plugin os (pc_ID pc) (map_of (r_instances r) (pc_ID pc))
    (r\<lparr>r_instances := AList.delete (pc_ID pc) (r_instances r)\<rparr>)"
  assume "registry_ok r"
  then show ?thesis using ok_start [of ?r os pc]
    by (auto simp: UpdatePlugin_def Let_def split: prod.split option.split)
qed

lemma ok_RestartPlugin: "registry_ok r \<Longrightarrow> registry_ok (fst (RestartPlugin os i r))"
proof -
  let ?r = "close_plugin os i (map_of (r_instances r) i) (r\<lparr>r_instances := AList.delete i (r_instances r)\<rparr>)"
  assume "registry_ok r"
  then have "registry_ok r'" if "startPlugin os pc ?r = (r', e)" for pc r' e
    using ok_start [of ?r os pc] that by simp
  with \<open>registry_ok r\<close> show ?thesis
    by (auto simp: RestartPlugin_def split: prod.split option.split)
qed

lemma enable_fields [simp]: "registry_ok r \<Longrightarrow> registry_ok (fst (enable_plugin os pc r))"
  using ok_start [of r os pc] by (auto simp: enable_plugin_def split: prod.split option.split)

lemma disable_ok [simp]: "registry_ok r \<Longrightarrow> registry_ok (disable_plugin os pc r)"
  by (simp add: disable_plugin_def Let_def)

lemma ok_SetEnabled: "registry_ok r \<Longrightarrow> registry_ok (fst (SetEnabled os i b r))"
proof -
  assume ok: "registry_ok r"
  show ?thesis
  proof (cases "map_of (r_configs r) i")
    case (Some pc)
    let ?pc = "pc\<lparr>pc_Disabled := \<not> b\<rparr>"
    obtain r' e where s: "(if b then enable_plugin os ?pc r else (disable_plugin os ?pc r, None)) = (r', e)" by fastforce
    have "r' = (if b then fst (enable_plugin os ?pc r) else disable_plugin os ?pc r)"
      using s by (cases b) (simp_all del: enable_fields)
    then have "registry_ok r'" using ok by simp
    moreover have "pc_ID ?pc = i" using configs_ok_lookup [OF _ Some] ok by (simp add: registry_ok_def)
    ultimately have "registry_ok (r'\<lparr>r_configs := AList.update i ?pc (r_configs r')\<rparr>)"
      using ok_set_config [of r' ?pc] by (simp add: set_config_def)
    with \<open>registry_ok r'\<close> s Some ok show ?thesis by (simp add: SetEnabled_def Let_def split: option.split)
  qed (simp add: SetEnabled_def ok)
qed

lemma ok_CreateBridge: "registry_ok r \<Longrightarrow> registry_ok (fst (CreateBridge os p e n k r))"
  by (simp add: CreateBridge_def Let_def split: option.split)

lemma ok_RemoveBridge: "registry_ok r \<Longrightarrow> registry_ok (fst (RemoveBridge os d r))"
  by (simp add: RemoveBridge_def Let_def split: option.split)

section \<open>Operations in any order\<close>

datatype 'w reg_op =
    OpStart os "plugin_config list" | OpAdd os plugin_config | OpRemove os string | OpUpdate os plugin_config
  | OpRestart os string | OpSetEnabled os string bool | OpCreate os string string string string
  | OpRemoveBridge os string | OpCollect os | OpRetry os | OpCall os string "'w effect"

text \<open>The second component is what the supervisor collected and has not started yet.\<close>

fun reg_step :: "'w reg_op \<Rightarrow> 'w registry \<times> plugin_config list \<Rightarrow> 'w registry \<times> plugin_config list" where
  "reg_step (OpStart os cs) (r, due) = (Start os cs r, due)"
| "reg_step (OpAdd os pc) (r, due) = (fst (AddPlugin os pc r), due)"
| "reg_step (OpRemove os i) (r, due) = (fst (RemovePlugin os i r), due)"
| "reg_step (OpUpdate os pc) (r, due) = (fst (UpdatePlugin os pc r), due)"
| "reg_step (OpRestart os i) (r, due) = (fst (RestartPlugin os i r), due)"
| "reg_step (OpSetEnabled os i b) (r, due) = (fst (SetEnabled os i b r), due)"
| "reg_step (OpCreate os p e n k) (r, due) = (fst (CreateBridge os p e n k r), due)"
| "reg_step (OpRemoveBridge os d) (r, due) = (fst (RemoveBridge os d r), due)"
| "reg_step (OpCollect os) (r, due) = (r, if due = [] then supervise_due os r else due)"
| "reg_step (OpRetry os) (r, []) = (r, [])"
| "reg_step (OpRetry os) (r, pc # due) = (supervise_one os pc r, due)"
| "reg_step (OpCall os i f) (r, due) = (fst (plugin_call os i f r), due)"

inductive reg_reach :: "'w registry \<Rightarrow> 'w registry \<times> plugin_config list \<Rightarrow> bool" for r0 where
  reg_new: "reg_reach r0 (r0, [])"
| reg_op: "reg_reach r0 s \<Longrightarrow> reg_reach r0 (reg_step x s)"

lemma ok_step: "registry_ok (fst s) \<Longrightarrow> registry_ok (fst (reg_step x s))"
  by (cases "(x, s)" rule: reg_step.cases)
    (auto simp: ok_Start ok_AddPlugin ok_RemovePlugin ok_UpdatePlugin ok_RestartPlugin ok_SetEnabled ok_CreateBridge
      ok_RemoveBridge ok_supervise_one)

lemma ok_reach: "reg_reach r0 s \<Longrightarrow> registry_ok r0 \<Longrightarrow> registry_ok (fst s)"
  by (induction rule: reg_reach.induct) (simp_all add: ok_step)

lemma ok_New: "mappings_wf ms \<Longrightarrow> registry_ok (NewRegistry h ms fs w)"
  by (simp add: NewRegistry_def registry_ok_def configs_ok_def go_has_def)

end
