(* ===== verification/Registry_Properties.thy ===== *)
theory Registry_Properties
  imports Registry_Facts
begin

text \<open>
  What the registry of plugins guarantees, and where it breaks: the invariant, the backoff of retries, the
  restoration of mappings at a start, removal, persistence of the configurations, and the races and half-done
  changes that the code allows.
\<close>

section \<open>Example plugins\<close>

text \<open>A world that says whether the plugin can connect; the plugin reports nothing by itself.\<close>

definition no_effect :: "bool effect" where
  "no_effect w = (w, None, [])"

definition test_plugin :: "string \<Rightarrow> bool plugin" where
  "test_plugin i = \<lparr>pg_Init = \<lambda>_ w. (w, if w then None else Some ''connection refused'', []),
     pg_Subscribe = \<lambda>_. no_effect, pg_Unsubscribe = \<lambda>_. no_effect, pg_Apply = \<lambda>_ _. no_effect,
     pg_CallScene = None, pg_Close = no_effect\<rparr>"

definition test_config :: plugin_config where
  "test_config = \<lparr>pc_ID = ''z2m'', pc_Type = ''zigbee2mqtt'', pc_Config = [], pc_Disabled = False\<rparr>"

definition test_host :: host where
  "test_host = \<lparr>ho_state = NewStateStore, ho_sink = None, ho_activity = None, ho_notified = None\<rparr>"

definition test_os :: "nat \<Rightarrow> os" where
  "test_os t = \<lparr>os_now = t, os_environ = [], os_write = \<lambda>_. Written, os_save = \<lambda>_. (Written, True)\<rparr>"

text \<open>A registry with the plugin type registered, persistence on and one mapping stored; \<open>b\<close> is the world.\<close>

definition test_registry :: "bool \<Rightarrow> bool registry" where
  "test_registry b = SetPersister ''plugins.json'' (RegisterFactory ''zigbee2mqtt'' test_plugin
     (NewRegistry test_host (fst (ms_Add Written desk_mapping desk_store)) [] b))"

lemma test_fields [simp]:
  "r_factories (test_registry b) = [(''zigbee2mqtt'', \<lparr>fe_DisplayName = ''zigbee2mqtt'', fe_Description = [], fe_Factory = test_plugin\<rparr>)]"
  "r_instances (test_registry b) = []" "r_configs (test_registry b) = []" "r_retryBackoff (test_registry b) = []"
  "r_persist (test_registry b) = Some ''plugins.json''" "r_files (test_registry b) = []" "r_world (test_registry b) = b"
  "r_host (test_registry b) = test_host" "r_mappings (test_registry b) = fst (ms_Add Written desk_mapping desk_store)"
  by (simp_all add: test_registry_def SetPersister_def RegisterFactory_def Register_def NewRegistry_def)

lemma test_config_fields [simp]:
  "pc_ID test_config = ''z2m''" "pc_Type test_config = ''zigbee2mqtt''" "\<not> pc_Disabled test_config" "pc_Config test_config = []"
  by (simp_all add: test_config_def)

lemma desk_mapping_fields [simp]: "m_PluginID desk_mapping = ''z2m''" "m_DSUID desk_mapping = ''D1''"
  by (simp_all add: desk_mapping_def)

lemma test_mappings [simp]: "ms_list (fst (ms_Add Written desk_mapping desk_store)) = [desk_mapping]"
  by (simp add: ms_Add_def ms_enter_def desk_store_def NewMappingStore_def ms_SetAutoSave_def ms_list_def)

lemma test_ok: "registry_ok (test_registry b)"
  by (simp add: registry_ok_def configs_ok_def go_has_def)

lemma test_subscribes [simp]: "subscribes_own (test_plugin i)"
  by (simp add: subscribes_own_def calls_of_def test_plugin_def no_effect_def)

section \<open>The invariant\<close>



section \<open>Retries\<close>

definition init_fails :: "'w registry \<Rightarrow> plugin_config \<Rightarrow> bool" where
  "init_fails r pc \<longleftrightarrow> (\<forall>entry cfg w. map_of (r_factories r) (pc_Type pc) = Some entry \<longrightarrow>
     fst (snd (pg_Init (fe_Factory entry (pc_ID pc)) cfg w)) \<noteq> None)"

lemma failed_start:
  assumes "init_fails r pc"
  shows "snd (startPlugin os pc r) \<noteq> None" "r_instances (fst (startPlugin os pc r)) = r_instances r"
    "map_of (r_retryBackoff (fst (startPlugin os pc r))) (pc_ID pc) =
       Some \<lparr>rs_nextAt = os_now os + next_delay (retry_delay r (pc_ID pc)), rs_delay = next_delay (retry_delay r (pc_ID pc))\<rparr>"
proof -
  have d: "retry_delay r' i = retry_delay r i" if "core r' = core (set_config pc r)" for r' i
    using core_D(7) [OF that] by (simp add: retry_delay_def set_config_def)
  have p: "snd (plugin_call os (pc_ID pc) (pg_Init (fe_Factory entry (pc_ID pc)) cfg) t) \<noteq> None"
    if "map_of (r_factories r) (pc_Type pc) = Some entry" for entry cfg t
    using assms that unfolding init_fails_def plugin_call_def by (simp split: prod.split) (metis fst_conv snd_conv)
  have "snd (startPlugin os pc r) \<noteq> None \<and> r_instances (fst (startPlugin os pc r)) = r_instances r \<and>
    map_of (r_retryBackoff (fst (startPlugin os pc r))) (pc_ID pc) =
       Some \<lparr>rs_nextAt = os_now os + next_delay (retry_delay r (pc_ID pc)), rs_delay = next_delay (retry_delay r (pc_ID pc))\<rparr>"
  proof (cases rule: startPlugin_cases [of r pc os])
    case unknown
    then show ?thesis using d [of "set_config pc r"] by (simp add: recordStartFailure_def Let_def set_config_def)
  next
    case (failed entry e r')
    then show ?thesis using d [OF failed(3)] core_D(2) [OF failed(3)]
      by (simp add: recordStartFailure_def Let_def set_config_def)
  next
    case (started entry)
    then have False using p [OF started(1)]
      by (auto simp: startPlugin_def Let_def split: prod.splits option.splits) (metis option.distinct(1) snd_conv)
    then show ?thesis ..
  qed
  then show "snd (startPlugin os pc r) \<noteq> None" "r_instances (fst (startPlugin os pc r)) = r_instances r"
    "map_of (r_retryBackoff (fst (startPlugin os pc r))) (pc_ID pc) =
       Some \<lparr>rs_nextAt = os_now os + next_delay (retry_delay r (pc_ID pc)), rs_delay = next_delay (retry_delay r (pc_ID pc))\<rparr>"
    by blast+
qed

lemma next_delay_doubles: "next_delay (min (30 * second * 2 ^ n) (300 * second)) = min (30 * second * 2 ^ Suc n) (300 * second)"
  by (auto simp: next_delay_def Let_def supervisorInterval_def supervisorBackoffMax_def second_def min_def)

definition starts :: "os list \<Rightarrow> plugin_config \<Rightarrow> 'w registry \<Rightarrow> 'w registry" where
  "starts oss pc r = fold (\<lambda>os r. fst (startPlugin os pc r)) oss r"

lemma starts_snoc [simp]: "starts (oss @ [os]) pc r = fst (startPlugin os pc (starts oss pc r))"
  by (simp add: starts_def)

lemma init_fails_start [simp]: "init_fails (fst (startPlugin os pc r)) pc' = init_fails r pc'"
  by (simp add: init_fails_def)

lemma starts_frame: "init_fails r pc \<Longrightarrow> registry_ok r \<Longrightarrow>
    init_fails (starts oss pc r) pc \<and> r_instances (starts oss pc r) = r_instances r \<and> registry_ok (starts oss pc r)"
proof (induction oss rule: rev_induct)
  case (snoc os oss)
  then show ?case by (simp add: failed_start(2) ok_start)
qed (simp add: starts_def)

lemma starts_delay:
  assumes "init_fails r pc" "registry_ok r" "map_of (r_retryBackoff r) (pc_ID pc) = None"
  shows "retry_delay (starts (oss @ [os]) pc r) (pc_ID pc) = min (30 * second * 2 ^ length oss) (300 * second)"
proof (induction oss arbitrary: os rule: rev_induct)
  case Nil
  then show ?case using assms failed_start(3) [OF assms(1), of os]
    by (simp add: starts_def retry_delay_def next_delay_def Let_def supervisorInterval_def supervisorBackoffMax_def second_def)
next
  case (snoc os' oss)
  have "init_fails (starts (oss @ [os']) pc r) pc" using starts_frame assms(1,2) by blast
  from failed_start(3) [OF this, of os] snoc [of os']
  have "map_of (r_retryBackoff (starts ((oss @ [os']) @ [os]) pc r)) (pc_ID pc) =
      Some \<lparr>rs_nextAt = os_now os + min (30 * second * 2 ^ Suc (length oss)) (300 * second),
        rs_delay = min (30 * second * 2 ^ Suc (length oss)) (300 * second)\<rparr>"
    unfolding starts_snoc [of "oss @ [os']"] by (simp only: next_delay_doubles)
  then show ?case by (simp only: retry_delay_def length_append) simp
qed

text \<open>
  C26: a plugin that fails to start keeps its configuration and is retried with growing patience: after the
  n-th failure in a row the delay is 30 seconds doubled n - 1 times, five minutes at most, and
  the supervisor has it due from the end of that delay on and not before.
\<close>

theorem failing_plugin_backs_off:
  assumes "init_fails r pc" "registry_ok r" "\<not> pc_Disabled pc"
    and "map_of (r_retryBackoff r) (pc_ID pc) = None" "\<not> go_has (r_instances r) (pc_ID pc)"
    and "d = min (30 * second * 2 ^ length oss) (300 * second)"
  shows "map_of (r_retryBackoff (starts (oss @ [os]) pc r)) (pc_ID pc) = Some \<lparr>rs_nextAt = os_now os + d, rs_delay = d\<rparr> \<and>
    map_of (r_configs (starts (oss @ [os]) pc r)) (pc_ID pc) = Some pc \<and>
    (pc \<in> set (supervise_due os' (starts (oss @ [os]) pc r)) \<longleftrightarrow> os_now os + d \<le> os_now os')"
proof -
  let ?r = "starts (oss @ [os]) pc r"
  have f: "init_fails (starts oss pc r) pc" "r_instances ?r = r_instances r" "registry_ok ?r"
    using starts_frame assms(1,2) by blast+
  have "retry_delay ?r (pc_ID pc) = d" using starts_delay [OF assms(1,2,4)] assms(6) by simp
  with failed_start(3) [OF f(1), of os]
  have b: "map_of (r_retryBackoff ?r) (pc_ID pc) = Some \<lparr>rs_nextAt = os_now os + d, rs_delay = d\<rparr>"
    by (simp add: retry_delay_def)
  have c: "map_of (r_configs ?r) (pc_ID pc) = Some pc" by simp
  have k: "(k, pc) \<in> set (r_configs ?r) \<longleftrightarrow> k = pc_ID pc" for k
    using f(3) map_of_SomeD [OF c] by (auto simp: registry_ok_def configs_ok_def)
  have "pc \<in> set (supervise_due os' ?r) \<longleftrightarrow> os_now os + d \<le> os_now os'"
    using assms(3,5) b f(2) k by (auto simp: supervise_due_def image_iff not_less)
  with b c show ?thesis by blast
qed

definition broken_registry :: "bool registry" where
  "broken_registry = RegisterFactory ''broken'' (\<lambda>i. test_plugin i\<lparr>pg_Init := \<lambda>_ w. (w, Some ''no broker'', [])\<rparr>) (test_registry True)"

lemma failing_plugin_backs_off_witness:
  "let r = starts [test_os 0, test_os 40, test_os 120] (test_config\<lparr>pc_Type := ''broken''\<rparr>) broken_registry in
    test_config\<lparr>pc_Type := ''broken''\<rparr> \<in> set (supervise_due (test_os (120 + 120 * second)) r) \<and>
    test_config\<lparr>pc_Type := ''broken''\<rparr> \<notin> set (supervise_due (test_os (119 + 120 * second)) r)"
proof -
  let ?pc = "test_config\<lparr>pc_Type := ''broken''\<rparr>"
  have "init_fails broken_registry ?pc"
    by (simp add: init_fails_def broken_registry_def RegisterFactory_def Register_def)
  moreover have "registry_ok broken_registry" "map_of (r_retryBackoff broken_registry) (pc_ID ?pc) = None"
    "\<not> go_has (r_instances broken_registry) (pc_ID ?pc)"
    using test_ok [of True]
    by (simp_all add: broken_registry_def RegisterFactory_def Register_def registry_ok_def go_has_def)
  ultimately show ?thesis
    using failing_plugin_backs_off [of broken_registry ?pc "120 * second" "[test_os 0, test_os 40]" "test_os 120" "test_os (120 + 120 * second)"]
      failing_plugin_backs_off [of broken_registry ?pc "120 * second" "[test_os 0, test_os 40]" "test_os 120" "test_os (119 + 120 * second)"]
    by (simp add: test_os_def)
qed

section \<open>Starting and removing\<close>

definition plugins_ok :: "'w registry \<Rightarrow> bool" where
  "plugins_ok r \<longleftrightarrow> (\<forall>i p. map_of (r_instances r) i = Some p \<longrightarrow> subscribes_own p)"

definition factories_ok :: "'w registry \<Rightarrow> bool" where
  "factories_ok r \<longleftrightarrow> (\<forall>t e i. map_of (r_factories r) t = Some e \<longrightarrow> subscribes_own (fe_Factory e i))"

lemma plugins_ok_start: "factories_ok r \<Longrightarrow> plugins_ok r \<Longrightarrow> plugins_ok (fst (startPlugin os pc r))"
proof (cases rule: startPlugin_cases [of r pc os])
  case (failed entry e r')
  then show "plugins_ok r \<Longrightarrow> ?thesis" using core_D(2) [OF failed(3)] by (simp add: plugins_ok_def set_config_def)
qed (auto simp: plugins_ok_def factories_ok_def set_config_def)

lemma start_config_ok: "factories_ok r \<and> plugins_ok r \<Longrightarrow> factories_ok (start_config os pc r) \<and> plugins_ok (start_config os pc r)"
  using plugins_ok_start [of r os pc] by (simp add: start_config_def factories_ok_def) (simp add: plugins_ok_def)

lemma start_config_mappings [simp]: "r_mappings (start_config os pc r) = r_mappings r"
  by (simp add: start_config_def)

lemma start_mapping_frame:
  "plugins_ok r \<Longrightarrow> \<not> same_dev u (m_DSUID m) \<Longrightarrow> dev (start_mapping os m r) u = dev r u"
  by (simp add: start_mapping_def plugins_ok_def restore_frame inactive_frame ensure_frame split: option.split)

lemma plugins_ok_core: "core r' = core r \<Longrightarrow> plugins_ok r' = plugins_ok r"
  by (simp add: plugins_ok_def core_def)

lemma start_mappings_frame:
  "plugins_ok r \<Longrightarrow> \<forall>m \<in> set ms. \<not> same_dev u (m_DSUID m) \<Longrightarrow> dev (fold (start_mapping os) ms r) u = dev r u"
  by (induction ms arbitrary: r) (simp_all add: start_mapping_frame plugins_ok_core [OF core_start_mapping])

definition restored :: "'w registry \<Rightarrow> mapping \<Rightarrow> device option \<Rightarrow> bool" where
  "restored r m before =
     (if go_has (r_instances r) (m_PluginID m) then dev r (m_DSUID m) \<noteq> None
      else if go_has (r_configs r) (m_PluginID m) then map_option d_Active (dev r (m_DSUID m)) = Some False
      else dev r (m_DSUID m) = before)"

lemma start_mapping_restores:
  assumes "plugins_ok r" "trim_space (m_DSUID m) \<noteq> []"
  shows "restored (start_mapping os m r) m (dev r (m_DSUID m))"
proof (cases "map_of (r_instances r) (m_PluginID m)")
  case (Some p)
  then have "subscribes_own p" using assms(1) by (auto simp: plugins_ok_def)
  from restore_there [OF this assms(2)] Some show ?thesis
    by (simp add: restored_def go_has_def start_mapping_def)
next
  case None
  obtain x where "dev (ensureAnnounced os m r) (m_DSUID m) = Some x"
    using ensure_there [OF assms(2), of os r] by blast
  with None show ?thesis
    by (cases "map_of (r_configs r) (m_PluginID m)")
      (simp_all add: restored_def go_has_def start_mapping_def inactive_there [OF assms(2)])
qed



lemma start_inactive_example:
  "map_option d_Active (dev (Start (test_os 5) [test_config] (test_registry False)) ''D1'') = Some False"
proof -
  let ?a = "fold (start_config (test_os 5)) [test_config] (test_registry False)"
  have i: "\<not> go_has (r_instances ?a) ''z2m''" "go_has (r_configs ?a) ''z2m''"
    by (simp_all add: start_config_def)
      (simp_all add: startPlugin_def Let_def plugin_call_def test_plugin_def go_has_def)
  then have "plugins_ok ?a" by (simp add: start_config_def plugins_ok_def)
      (simp add: startPlugin_def Let_def plugin_call_def test_plugin_def)
  moreover have "trim_space (m_DSUID desk_mapping) \<noteq> []" by (simp add: trim_space_def is_space_def)
  ultimately have "restored (start_mapping (test_os 5) desk_mapping ?a) desk_mapping (dev ?a ''D1'')"
    using start_mapping_restores [of ?a desk_mapping "test_os 5"] by simp
  moreover have "Start (test_os 5) [test_config] (test_registry False) = start_mapping (test_os 5) desk_mapping ?a"
    by (simp add: Start_def Let_def)
  ultimately show ?thesis using i by (simp add: restored_def)
qed

lemma event_absent: "e_Type e \<noteq> EventInit \<Longrightarrow> \<not> go_has (st_devices s) k \<Longrightarrow> \<not> go_has (st_devices (HandleEvent now e s)) k"
proof (cases "e_Type e = EventRemove")
  case False
  moreover assume "e_Type e \<noteq> EventInit" "\<not> go_has (st_devices s) k"
  moreover from this False have "handle_locked now e s = handle_update now e s"
    by (cases "e_Type e") (simp_all add: handle_locked_def)
  ultimately show ?thesis
    by (cases "resolveKey s e") (auto simp: handle_update_def resolveKey_def Let_def split: if_splits option.splits)
next
  case True
  moreover assume "\<not> go_has (st_devices s) k"
  ultimately show ?thesis by (cases "resolveKey s e") (simp add: handle_locked_def handle_remove_def)
qed

fun announces :: "host_call \<Rightarrow> bool" where
  "announces (HAnnounce m) \<longleftrightarrow> True"
| "announces (HAnnounceRich m d) \<longleftrightarrow> True"
| "announces _ \<longleftrightarrow> False"

lemma host_do_absent:
  "\<not> announces c \<Longrightarrow> bridged (ho_state h) u = None \<Longrightarrow> bridged (ho_state (host_do now p c h)) u = None"
proof -
  have b: "bridged s u = None \<longleftrightarrow> \<not> go_has (st_devices s) (uid_key (trim_space u))" for s
    by (simp add: bridged_def go_has_def)
  show "\<not> announces c \<Longrightarrow> bridged (ho_state h) u = None \<Longrightarrow> bridged (ho_state (host_do now p c h)) u = None"
    unfolding b
    by (cases c) (simp_all add: host_events RemoveDevice_def event0_def event_absent plugin_UpdateChannel_def
        plugin_UpdateActive_def plugin_log_def ReAnnounce_def Let_def del: HandleEvent_fields split: option.split)
qed

lemma host_fold_absent:
  "\<forall>c \<in> set cs. \<not> announces c \<Longrightarrow> bridged (ho_state h) u = None \<Longrightarrow> bridged (ho_state (fold (host_do now p) cs h)) u = None"
  by (induction cs arbitrary: h) (simp_all add: host_do_absent)

text \<open>Leaving, a plugin announces no device.\<close>

definition leaves :: "'w plugin \<Rightarrow> bool" where
  "leaves p \<longleftrightarrow> (\<forall>w. (\<forall>c \<in> set (calls_of (pg_Close p) w). \<not> announces c) \<and>
     (\<forall>d. \<forall>c \<in> set (calls_of (pg_Unsubscribe p d) w). \<not> announces c))"

lemma unsubscribe_absent: "leaves p \<Longrightarrow> dev r u = None \<Longrightarrow> dev (fst (plugin_call os i (pg_Unsubscribe p d) r)) u = None"
  unfolding dev_plugin_call by (rule host_fold_absent) (auto simp: leaves_def dev_def)

lemma close_absent: "\<forall>q. p = Some q \<longrightarrow> leaves q \<Longrightarrow> dev r u = None \<Longrightarrow> dev (close_plugin os i p r) u = None"
proof (cases p)
  case (Some q)
  assume "\<forall>q. p = Some q \<longrightarrow> leaves q" "dev r u = None"
  with Some show ?thesis unfolding close_plugin_def Some option.case dev_plugin_call
    by (intro host_fold_absent) (simp_all add: leaves_def dev_def)
qed (simp add: close_plugin_def)

lemma remove_device_absent: "dev r u = None \<Longrightarrow> dev (upd_host (on_state (RemoveDevice now v)) r) u = None"
  using event_absent [of "event0 EventRemove\<lparr>e_UniqueID := v\<rparr>" "ho_state (r_host r)" "uid_key (trim_space u)" now]
  unfolding dev_on_state unfolding dev_def by (simp add: RemoveDevice_def bridged_def go_has_def event0_def del: HandleEvent_fields)

lemma remove_owned_absent: "\<forall>q. p = Some q \<longrightarrow> leaves q \<Longrightarrow> dev r u = None \<Longrightarrow> dev (remove_owned os i p m r) u = None"
  by (cases p) (simp_all add: remove_owned_def Let_def remove_mapping_def remove_device_absent unsubscribe_absent)

lemma remove_owned_gone: "trim_space (m_DSUID m) \<noteq> [] \<Longrightarrow> dev (remove_owned os i p m r) (m_DSUID m) = None"
  by (simp add: remove_owned_def Let_def remove_mapping_def dev_on_state bridged_remove)

lemma remove_owned_mappings: "ms_Get (r_mappings (remove_owned os i p m r)) d =
    (if d = m_DSUID m then None else ms_Get (r_mappings r) d)"
  by (simp add: remove_owned_def Let_def remove_mapping_def msw.look_discard split: option.split)

lemma remove_all_mappings: "ms_Get (r_mappings (fold (remove_owned os i p) ms r)) d =
    (if d \<in> m_DSUID ` set ms then None else ms_Get (r_mappings r) d)"
  by (induction ms arbitrary: r) (auto simp: remove_owned_mappings)

lemma remove_all_absent:
  "\<forall>q. p = Some q \<longrightarrow> leaves q \<Longrightarrow> dev r u = None \<Longrightarrow> dev (fold (remove_owned os i p) ms r) u = None"
  by (induction ms arbitrary: r) (simp_all add: remove_owned_absent)

lemma remove_all_gone:
  "\<forall>q. p = Some q \<longrightarrow> leaves q \<Longrightarrow> m \<in> set ms \<Longrightarrow> trim_space (m_DSUID m) \<noteq> [] \<Longrightarrow>
   dev (fold (remove_owned os i p) ms r) (m_DSUID m) = None"
  by (induction ms arbitrary: r) (auto simp: remove_owned_gone remove_all_absent)

lemma remove_owned_core [simp]:
  "r_instances (remove_owned os i p m r) = r_instances r" "r_configs (remove_owned os i p m r) = r_configs r"
  "r_persist (remove_owned os i p m r) = r_persist r" "r_files (remove_owned os i p m r) = r_files r"
  by (simp_all add: remove_owned_def Let_def remove_mapping_def split: option.split)

lemma fold_remove_core [simp]:
  "r_instances (fold (remove_owned os i p) ms r) = r_instances r" "r_configs (fold (remove_owned os i p) ms r) = r_configs r"
  "r_persist (fold (remove_owned os i p) ms r) = r_persist r" "r_files (fold (remove_owned os i p) ms r) = r_files r"
  by (induction ms arbitrary: r) simp_all



section \<open>The configurations on disk\<close>

lemma start_config_configs [simp]: "r_configs (start_config os pc r) = AList.update (pc_ID pc) pc (r_configs r)"
  by (simp add: start_config_def)

interpretation pcs: entry_store "\<lambda>r. map_of (r_configs r)" "start_config os"
  "\<lambda>k r. r\<lparr>r_configs := AList.delete k (r_configs r)\<rparr>" pc_ID for os
  by unfold_locales simp_all

text \<open>The change of a plugin's configuration is answered without an error and was one.\<close>

definition config_changed :: "os \<Rightarrow> 'w registry \<Rightarrow> 'w registry \<Rightarrow> bool" where
  "config_changed os r r' \<longleftrightarrow> (\<exists>pc. AddPlugin os pc r = (r', None)) \<or> (\<exists>i. RemovePlugin os i r = (r', None)) \<or>
     (\<exists>pc. UpdatePlugin os pc r = (r', None)) \<or>
     (\<exists>i b. SetEnabled os i b r = (r', None) \<and> (\<exists>pc. map_of (r_configs r) i = Some pc \<and> pc_Disabled pc = b))"

lemma saved_configs:
  assumes "r_persist r = Some path" "os_save os = (\<lambda>_. (Written, True))"
  shows "loadPluginConfigs path (r_files (persistConfigs os r)) = Inr (sorted_configs r)"
  using assms by (simp add: persistConfigs_def savePluginConfigs_def loadPluginConfigs_def WriteFile_def)

lemma sorted_frames [simp]: "sorted_configs (sinkEmit os i l c m fs r) = sorted_configs r" "sorted_configs (emit t d r) = sorted_configs r"
  "sorted_configs (persistConfigs os r) = sorted_configs r"
  by (simp_all add: sorted_configs_def)

lemma disable_persist [simp]: "r_persist (disable_plugin os pc r) = r_persist r"
  by (simp add: disable_plugin_def Let_def) (simp add: set_config_def)

lemma enable_persist [simp]: "r_persist (fst (enable_plugin os pc r)) = r_persist r"
  using startPlugin_fields(4) [of os pc r] by (cases "startPlugin os pc r") (simp add: enable_plugin_def split: option.split)

text \<open>After a change that is answered without error, the last thing written is the list of all configurations.\<close>

lemma changed_saved:
  fixes r :: "'w registry"
  assumes "config_changed os r r'"
  shows "\<exists>t :: 'w registry. r_persist t = r_persist r \<and> r_files r' = r_files (persistConfigs os t) \<and> r_configs r' = r_configs t"
  using assms unfolding config_changed_def
proof (elim disjE exE conjE)
  fix pc assume a: "AddPlugin os pc r = (r', None)"
  then obtain t where t: "startPlugin os pc r = (t, None)"
    "r' = sinkEmit os (pc_ID pc) ''info'' ''plugin_started'' ''plugin added'' [(''type'', GStr (pc_Type pc))]
      (emit ''pluginAdded'' (plugin_data (pc_ID pc) (pc_Type pc)) (persistConfigs os t))"
    by (auto simp: AddPlugin_def split: if_splits prod.splits option.splits)
  then show ?thesis using startPlugin_fields(4) [of os pc r] by (intro exI [of _ t]) simp
next
  fix i assume a: "RemovePlugin os i r = (r', None)"
  let ?p = "map_of (r_instances r) i"
  let ?t = "close_plugin os i ?p (fold (remove_owned os i ?p) (ListForPlugin i (r_mappings r))
    (r\<lparr>r_instances := AList.delete i (r_instances r), r_configs := AList.delete i (r_configs r),
       r_retryBackoff := AList.delete i (r_retryBackoff r)\<rparr>))"
  from a have "r' = sinkEmit os i ''info'' ''plugin_stopped'' ''plugin removed'' []
      (emit ''pluginRemoved'' [(''id'', GStr i)] (persistConfigs os ?t))"
    by (auto simp: RemovePlugin_def Let_def split: if_splits)
  then show ?thesis by (intro exI [of _ ?t]) simp
next
  fix pc assume a: "UpdatePlugin os pc r = (r', None)"
  let ?r = "close_plugin os (pc_ID pc) (map_of (r_instances r) (pc_ID pc)) (r\<lparr>r_instances := AList.delete (pc_ID pc) (r_instances r)\<rparr>)"
  from a obtain t where t: "startPlugin os pc ?r = (t, None)"
    "r' = sinkEmit os (pc_ID pc) ''info'' ''plugin_restarted'' ''plugin config updated and restarted'' [(''type'', GStr (pc_Type pc))]
      (emit ''pluginUpdated'' (plugin_data (pc_ID pc) (pc_Type pc)) (persistConfigs os (restore_fresh os (pc_ID pc) t)))"
    by (auto simp: UpdatePlugin_def Let_def split: if_splits prod.splits option.splits)
  then show ?thesis using startPlugin_fields(4) [of os pc ?r] by (intro exI [of _ "restore_fresh os (pc_ID pc) t"]) simp
next
  fix i b pc assume a: "SetEnabled os i b r = (r', None)" "map_of (r_configs r) i = Some pc" "pc_Disabled pc = b"
  let ?pc = "pc\<lparr>pc_Disabled := \<not> b\<rparr>"
  obtain t e where t: "(if b then enable_plugin os ?pc r else (disable_plugin os ?pc r, None)) = (t, e)" by fastforce
  have p: "r_persist t = r_persist r" using t enable_persist [of os ?pc r] by (cases b) (auto simp del: enable_persist)
  have "r' = persistConfigs os (t\<lparr>r_configs := AList.update i ?pc (r_configs t)\<rparr>)"
    using a t by (simp add: SetEnabled_def Let_def split: option.splits)
  with p show ?thesis by (intro exI [of _ "t\<lparr>r_configs := AList.update i ?pc (r_configs t)\<rparr>"]) simp
qed



end
