(* ===== verification/Registry_Limits.thy ===== *)
theory Registry_Limits
  imports Registry_Properties
begin

text \<open>
  Where the registry of plugins does not do what its callers expect: a race of the supervisor with a removal,
  changes that fail half way, devices whose reachability is not kept up, identifiers that collide, and
  settings that the environment cannot override.
\<close>

section \<open>A removal and the supervisor\<close>

text \<open>The next attempt to initialise the plugin succeeds.\<close>

definition init_works :: "'w registry \<Rightarrow> plugin_config \<Rightarrow> bool" where
  "init_works r pc \<longleftrightarrow> (case map_of (r_factories r) (pc_Type pc) of None \<Rightarrow> False
     | Some entry \<Rightarrow> (\<forall>cfg. fst (snd (pg_Init (fe_Factory entry (pc_ID pc)) cfg (r_world r))) = None))"

lemma call_no_error: "fst (snd (f (r_world r))) = None \<Longrightarrow> \<exists>r'. plugin_call os i f r = (r', None)"
  by (cases "f (r_world r)") (simp add: plugin_call_def)

lemma started:
  assumes "init_works r pc"
  shows "snd (startPlugin os pc r) = None \<and> go_has (r_instances (fst (startPlugin os pc r))) (pc_ID pc)"
proof -
  obtain entry where e: "map_of (r_factories r) (pc_Type pc) = Some entry"
    "\<And>cfg. fst (snd (pg_Init (fe_Factory entry (pc_ID pc)) cfg (r_world r))) = None"
    using assms by (auto simp: init_works_def split: option.splits)
  obtain r' where "plugin_call os (pc_ID pc) (pg_Init (fe_Factory entry (pc_ID pc)) (applyEnvOverlay (os_environ os) (pc_ID pc) (pc_Config pc)))
      (r\<lparr>r_configs := AList.update (pc_ID pc) pc (r_configs r)\<rparr>) = (r', None)"
    using call_no_error [of "pg_Init (fe_Factory entry (pc_ID pc)) (applyEnvOverlay (os_environ os) (pc_ID pc) (pc_Config pc))"
      "r\<lparr>r_configs := AList.update (pc_ID pc) pc (r_configs r)\<rparr>" os "pc_ID pc"] e(2) by auto
  then have "snd (startPlugin os pc r) = None" using e(1) by (simp add: startPlugin_def Let_def)
  then show ?thesis by (cases rule: startPlugin_cases [of r pc os]) simp_all
qed

lemma remove_factories [simp]: "r_factories (fst (RemovePlugin os i r)) = r_factories r"
proof -
  have "r_factories (fold (remove_owned os i p) ms t) = r_factories t" for p ms and t :: "'a registry"
    by (induction ms arbitrary: t)
      (simp_all add: remove_owned_def Let_def remove_mapping_def split: option.split)
  then show ?thesis by (simp add: RemovePlugin_def Let_def)
qed

text \<open>
  C34: a plugin that is removed while the supervisor has it due comes back: the removal is answered without
  error, the retry that was collected before starts it all the same and enters its configuration again, in
  memory only, so that it runs until the next restart although it was removed.
\<close>

theorem removed_plugin_comes_back:
  assumes "registry_ok r" "pc \<in> set (supervise_due os r)"
    and "init_works (fst (RemovePlugin os1 (pc_ID pc) r)) pc"
  shows "case RemovePlugin os1 (pc_ID pc) r of (r1, e) \<Rightarrow> e = None \<and> \<not> go_has (r_configs r1) (pc_ID pc) \<and>
    (case supervise_one os2 pc r1 of r2 \<Rightarrow> go_has (r_instances r2) (pc_ID pc) \<and>
       map_of (r_configs r2) (pc_ID pc) = Some pc \<and> r_files r2 = r_files r1)"
proof -
  let ?r1 = "fst (RemovePlugin os1 (pc_ID pc) r)"
  obtain k where "(k, pc) \<in> set (r_configs r)" using assms(2) by (auto simp: supervise_due_def)
  moreover from this have "k = pc_ID pc" using assms(1) by (auto simp: registry_ok_def configs_ok_def)
  ultimately have "go_has (r_configs r) (pc_ID pc)" unfolding go_has_iff_keys by force
  then have r: "snd (RemovePlugin os1 (pc_ID pc) r) = None" by (simp add: RemovePlugin_def Let_def)
  moreover from this have "\<not> go_has (r_configs ?r1) (pc_ID pc)" by (simp add: RemovePlugin_def Let_def)
  moreover obtain r2 where "startPlugin os2 pc ?r1 = (r2, None)" "go_has (r_instances r2) (pc_ID pc)"
    using started [OF assms(3), of os2] by (cases "startPlugin os2 pc ?r1") auto
  then have "go_has (r_instances (supervise_one os2 pc ?r1)) (pc_ID pc) \<and>
      map_of (r_configs (supervise_one os2 pc ?r1)) (pc_ID pc) = Some pc \<and> r_files (supervise_one os2 pc ?r1) = r_files ?r1"
    using startPlugin_fields [of os2 pc ?r1] by (simp add: supervise_one_def)
  ultimately show ?thesis by (simp add: split_beta)
qed

definition waiting :: "bool registry" where
  "waiting = fst (startPlugin (test_os 0) test_config (test_registry False))\<lparr>r_world := True\<rparr>"

lemma removed_plugin_comes_back_witness:
  "go_has (r_instances (supervise_one (test_os (31 * second)) test_config (fst (RemovePlugin (test_os (31 * second)) ''z2m'' waiting)))) ''z2m''"
proof -
  have "registry_ok (fst (startPlugin (test_os 0) test_config (test_registry False)))" by (rule ok_start [OF test_ok])
  then have ok: "registry_ok waiting" unfolding waiting_def by (simp add: registry_ok_def)
  have st: "fst (startPlugin (test_os 0) test_config (test_registry False)) =
      recordStartFailure (test_os 0) ''z2m'' (set_config test_config (test_registry False))"
    by (simp add: startPlugin_def Let_def plugin_call_def sinkEmit_def upd_host_def publish_event_def set_config_def)
      (simp add: test_plugin_def test_host_def test_registry_def SetPersister_def RegisterFactory_def Register_def NewRegistry_def)
  have "test_config \<in> set (supervise_due (test_os (31 * second)) waiting)"
    unfolding waiting_def st
    by (simp add: recordStartFailure_def set_config_def retry_delay_def Let_def supervise_due_def go_has_def next_delay_def
        supervisorInterval_def supervisorBackoffMax_def second_def test_os_def)
  moreover have "r_world (fst (RemovePlugin (test_os (31 * second)) ''z2m'' waiting)) = True"
    unfolding waiting_def st
    by (simp add: RemovePlugin_def Let_def set_config_def sinkEmit_def emit_def upd_host_def persistConfigs_def
        close_plugin_def ListForPlugin_def remove_owned_def remove_mapping_def on_mappings_def)
  then have "init_works (fst (RemovePlugin (test_os (31 * second)) ''z2m'' waiting)) test_config"
    by (simp add: init_works_def waiting_def) (simp add: test_plugin_def)
  ultimately show ?thesis
    using removed_plugin_comes_back [OF ok, of test_config "test_os (31 * second)" "test_os (31 * second)" "test_os (31 * second)"]
    by (simp add: split_beta)
qed

section \<open>Changes that fail half way\<close>

text \<open>
  Enabling a plugin that cannot start is answered with an error and yet takes effect in memory: the
  plugin counts as enabled and will be retried, while the file of configurations still has it
  disabled.
\<close>

theorem failed_enable_half_done:
  assumes "registry_ok r" "map_of (r_configs r) i = Some pc" "pc_Disabled pc" "init_fails r pc"
  shows "case SetEnabled os i True r of (r', e) \<Rightarrow>
    e \<noteq> None \<and> IsEnabled r' i \<and> \<not> IsEnabled r i \<and> r_files r' = r_files r"
proof -
  let ?pc = "pc\<lparr>pc_Disabled := False\<rparr>"
  have id: "pc_ID pc = i" using configs_ok_lookup [OF _ assms(2)] assms(1) by (simp add: registry_ok_def)
  have "init_fails r ?pc" using assms(4) by (simp add: init_fails_def)
  then obtain t e where "startPlugin os ?pc r = (t, Some e)"
    using failed_start(1) [of r ?pc os] by (cases "startPlugin os ?pc r") auto
  then show ?thesis using assms(2,3) id startPlugin_fields [of os ?pc r]
    by (simp add: SetEnabled_def enable_plugin_def IsEnabled_def)
qed

lemma failed_enable_half_done_witness:
  "IsEnabled (fst (SetEnabled (test_os 5) ''z2m'' True (set_config (test_config\<lparr>pc_Type := ''broken'', pc_Disabled := True\<rparr>)
     broken_registry))) ''z2m''"
proof -
  let ?pc = "test_config\<lparr>pc_Type := ''broken'', pc_Disabled := True\<rparr>"
  have "registry_ok broken_registry"
    using test_ok [of True] by (simp add: broken_registry_def RegisterFactory_def Register_def registry_ok_def)
  then have "registry_ok (set_config ?pc broken_registry)" by simp
  moreover have "init_fails (set_config ?pc broken_registry) ?pc"
    by (simp add: init_fails_def set_config_def broken_registry_def RegisterFactory_def Register_def)
  ultimately show ?thesis
    using failed_enable_half_done [of "set_config ?pc broken_registry" "''z2m''" ?pc "test_os 5"]
    by (simp add: set_config_def split_beta)
qed

section \<open>Reachability\<close>

definition silent :: "'w effect \<Rightarrow> bool" where
  "silent f \<longleftrightarrow> (\<forall>w. calls_of f w = [])"

lemma silent_call: "silent f \<Longrightarrow> dev (fst (plugin_call os i f r)) u = dev r u"
  by (simp add: dev_plugin_call silent_def) (simp add: dev_def)

lemma ensure_known: "trim_space u \<noteq> [] \<Longrightarrow> dev r u \<noteq> None \<Longrightarrow> dev (ensureAnnounced os m r) u = dev r u"
proof (cases "same_dev u (m_DSUID m)")
  case True
  moreover assume "trim_space u \<noteq> []" "dev r u \<noteq> None"
  ultimately have "has_device r (m_DSUID m)"
    by (simp add: has_device_def HasDevice_def Has_bridged same_dev_def dev_def bridged_def)
  then show ?thesis by (simp add: ensure_idle)
qed (simp add: ensure_frame)

lemma silent_restore:
  "\<forall>m. silent (pg_Subscribe p m) \<Longrightarrow> trim_space u \<noteq> [] \<Longrightarrow> dev r u \<noteq> None \<Longrightarrow>
   dev (fold (restore_mapping os i p) ms r) u = dev r u"
proof (induction ms arbitrary: r)
  case (Cons m ms)
  then have "dev (restore_mapping os i p m r) u = dev r u"
    by (simp add: restore_mapping_def silent_call ensure_known)
  with Cons show ?case by simp
qed simp

text \<open>
  Recovering does not make a device reachable again: a device that a start marked unreachable because its
  plugin failed is left so when the supervisor starts the plugin, unless the plugin itself reports
  the device as active.
\<close>

theorem recovered_device_stays_inactive:
  assumes "map_of (r_factories r) (pc_Type pc) = Some entry" "init_works r pc" "p = fe_Factory entry (pc_ID pc)"
    and "\<forall>cfg. silent (pg_Init p cfg)" "\<forall>m. silent (pg_Subscribe p m)"
    and "trim_space u \<noteq> []" "map_option d_Active (dev r u) = Some False"
  shows "go_has (r_instances (supervise_one os pc r)) (pc_ID pc) \<and>
    map_option d_Active (dev (supervise_one os pc r) u) = Some False"
proof -
  obtain t where t: "startPlugin os pc r = (t, None)" using started [OF assms(2), of os]
    by (cases "startPlugin os pc r") auto
  have c: "dev (fst (plugin_call os i (pg_Init p cfg) s)) v = dev s v" for i cfg s v
    using assms(4) by (simp add: silent_call)
  have i: "r_instances t = AList.update (pc_ID pc) p (r_instances r)"
    using startPlugin_cases [of r pc os] t assms(1,3) by (metis fst_conv option.distinct(1) option.inject snd_conv)
  obtain t0 where t0: "plugin_call os (pc_ID pc) (pg_Init p (applyEnvOverlay (os_environ os) (pc_ID pc) (pc_Config pc)))
      (r\<lparr>r_configs := AList.update (pc_ID pc) pc (r_configs r)\<rparr>) = (t0, None)"
    "t = sinkEmit os (pc_ID pc) ''info'' ''plugin_started'' ''plugin started'' [(''type'', GStr (pc_Type pc))]
       (t0\<lparr>r_instances := AList.update (pc_ID pc) p (r_instances t0), r_retryBackoff := AList.delete (pc_ID pc) (r_retryBackoff t0)\<rparr>)"
    using t assms(1,3) by (auto simp: startPlugin_def Let_def split: prod.splits option.splits)
  have "dev t u = dev r u"
    using c [of "pc_ID pc" "applyEnvOverlay (os_environ os) (pc_ID pc) (pc_Config pc)" "r\<lparr>r_configs := AList.update (pc_ID pc) pc (r_configs r)\<rparr>" u]
    by (simp add: t0)
  then have "dev t u \<noteq> None" "map_option d_Active (dev t u) = Some False" using assms(7) by auto
  then show ?thesis using t i assms(5,6)
    by (simp add: supervise_one_def restore_fresh_def restoreMappings_def silent_restore
        core_D [OF core_fold [OF core_restore_mapping]])
qed

text \<open>The registry in which the start of the plugin failed, and it may connect now.\<close>

definition recovering :: "bool registry" where
  "recovering = Start (test_os 5) [test_config] (test_registry False)\<lparr>r_world := True\<rparr>"

lemma test_silent [simp]: "silent (pg_Init (test_plugin i) cfg)" "silent (pg_Subscribe (test_plugin i) m)"
  "silent (pg_Unsubscribe (test_plugin i) d)" "silent (pg_Close (test_plugin i))"
  by (simp_all add: silent_def calls_of_def test_plugin_def no_effect_def)

lemma recovered_device_stays_inactive_witness:
  "go_has (r_instances (supervise_one (test_os (40 * second)) test_config recovering)) ''z2m'' \<and>
   map_option d_Active (dev (supervise_one (test_os (40 * second)) test_config recovering) ''D1'') = Some False"
proof -
  have f: "map_of (r_factories recovering) ''zigbee2mqtt'' =
      Some \<lparr>fe_DisplayName = ''zigbee2mqtt'', fe_Description = [], fe_Factory = test_plugin\<rparr>"
    unfolding recovering_def Start_def Let_def by (simp add: core_D [OF core_fold [OF core_start_mapping]] start_config_def)
  moreover have "init_works recovering test_config"
    using f by (simp add: init_works_def) (simp add: recovering_def test_plugin_def)
  moreover have "dev recovering ''D1'' = dev (Start (test_os 5) [test_config] (test_registry False)) ''D1''"
    by (simp add: recovering_def dev_def)
  then have "map_option d_Active (dev recovering ''D1'') = Some False"
    by (simp only: start_inactive_example)
  ultimately show ?thesis
    using recovered_device_stays_inactive [of recovering test_config _ "test_plugin ''z2m''" "''D1''" "test_os (40 * second)"]
    by (simp add: trim_space_def is_space_def)
qed

lemma silent_unsubscribe: "\<forall>d. silent (pg_Unsubscribe p d) \<Longrightarrow>
    dev (fold (\<lambda>m r. fst (plugin_call os i (pg_Unsubscribe p (m_DSUID m)) r)) ms r) u = dev r u"
  by (induction ms arbitrary: r) (simp_all add: silent_call)

text \<open>
  Disabling a plugin leaves its devices as they are: they keep their last values and count as
  reachable, whereas a start with the same plugin disabled marks them unreachable.
\<close>

theorem disabled_devices_stay_active:
  assumes "registry_ok r" "map_of (r_configs r) i = Some pc" "\<not> pc_Disabled pc"
    and "\<forall>p. map_of (r_instances r) i = Some p \<longrightarrow> silent (pg_Close p) \<and> (\<forall>d. silent (pg_Unsubscribe p d))"
  shows "case SetEnabled os i False r of (r', e) \<Rightarrow>
    e = None \<and> \<not> IsEnabled r' i \<and> \<not> go_has (r_instances r') i \<and> (\<forall>u. dev r' u = dev r u)"
proof -
  let ?pc = "pc\<lparr>pc_Disabled := True\<rparr>" and ?p = "map_of (r_instances r) i"
  have id: "pc_ID pc = i" using configs_ok_lookup [OF _ assms(2)] assms(1) by (simp add: registry_ok_def)
  have "dev (close_plugin os i ?p (unsubscribe_all os i ?p t)) u = dev t u" for t :: "'a registry" and u
    using assms(4) by (cases ?p) (simp_all add: close_plugin_def unsubscribe_all_def silent_call silent_unsubscribe)
  then have "dev (disable_plugin os ?pc r) u = dev r u" for u
    using id by (simp add: disable_plugin_def Let_def) (simp add: set_config_def)
  moreover have "r_instances (disable_plugin os ?pc r) = AList.delete i (r_instances r)"
    using id by (simp add: disable_plugin_def Let_def) (simp add: set_config_def)
  ultimately show ?thesis using assms(2,3) by (simp add: SetEnabled_def Let_def IsEnabled_def)
qed

definition running :: "bool registry" where
  "running = Start (test_os 5) [test_config] (test_registry True)"

lemma running_ok [simp]: "registry_ok running"
  unfolding running_def by (rule ok_Start [OF test_ok])

lemma running_fields [simp]: "r_instances running = [(''z2m'', test_plugin ''z2m'')]" "map_of (r_configs running) ''z2m'' = Some test_config"
  unfolding running_def
  by (simp_all add: Start_def Let_def core_D [OF core_fold [OF core_start_mapping]] start_config_def)
    (simp add: startPlugin_def Let_def plugin_call_def, simp add: test_plugin_def)

lemma disabled_devices_stay_active_witness:
  "dev (fst (SetEnabled (test_os 9) ''z2m'' False running)) ''D1'' = dev running ''D1'' \<and>
   \<not> IsEnabled (fst (SetEnabled (test_os 9) ''z2m'' False running)) ''z2m''"
  using disabled_devices_stay_active [of running "''z2m''" test_config "test_os 9"] by (simp add: split_beta)

section \<open>Settings from the environment\<close>

lemma lower_lower [simp]: "lower_char (lower_char c) = lower_char c"
  by (metis lower_upper upper_lower)

lemma overlay_other:
  "to_lower k \<noteq> k \<Longrightarrow> map_of (applyEnvOverlay environ plugin cfg) k = map_of cfg k"
proof -
  assume k: "to_lower k \<noteq> k"
  have other: "j \<noteq> k" if "env_override prefix env = Some (j, v)" for prefix env j v
    using that k by (auto simp: env_override_def Let_def to_lower_def comp_def split: if_splits)
  then show ?thesis unfolding applyEnvOverlay_def
    by (induction environ arbitrary: cfg) (auto split: option.split dest!: other)
qed

lemma upper_eq_char: "upper_char c = CHR ''='' \<Longrightarrow> c = CHR ''=''"
proof (cases "97 \<le> (of_char c :: nat) \<and> (of_char c :: nat) \<le> 122")
  case True
  assume "upper_char c = CHR ''=''"
  then have "of_char (upper_char c) = (61 :: nat)" by simp
  moreover have "of_char (upper_char c) = (of_char c :: nat) - 32"
  proof -
    have "(of_char c :: nat) - 32 < 256" using True by linarith
    from of_char_of_small [OF this] True show ?thesis by (simp only: upper_char_def Let_def if_True simp_thms)
  qed
  ultimately have "(of_char c :: nat) = 93" using True by linarith
  with True show ?thesis by linarith
qed (simp add: upper_char_def Let_def)

lemma upper_no_equals: "CHR ''='' \<notin> set s \<Longrightarrow> CHR ''='' \<notin> set (to_upper s)"
  using upper_eq_char by (auto simp: to_upper_def image_iff) metis

lemma prefix_no_equals: "CHR ''='' \<notin> set plugin \<Longrightarrow> CHR ''='' \<notin> set (env_prefix plugin)"
  unfolding env_prefix_def set_append Un_iff
  using upper_no_equals [of "map (\<lambda>c. if c = CHR ''-'' then CHR ''_'' else c) plugin"] by auto

text \<open>
  A variable of the environment overrides a setting of a plugin only if the name of the setting has no
  capital letter; a setting such as baseTopic keeps the value of the configuration.
\<close>

theorem env_overrides_lower_case_only:
  assumes "CHR ''='' \<notin> set plugin" "CHR ''='' \<notin> set k"
  shows "map_of (applyEnvOverlay (environ @ [env_prefix plugin @ to_upper k @ ''='' @ v]) plugin cfg) k =
    (if to_lower k = k then Some (GStr v) else map_of cfg k)"
proof (cases "to_lower k = k")
  case True
  have "to_lower (to_upper k) = k" using True by (simp add: to_lower_def to_upper_def comp_def)
  moreover have "CHR ''='' \<notin> set (env_prefix plugin @ to_upper k)"
    using prefix_no_equals [OF assms(1)] upper_no_equals [OF assms(2)] by simp
  then have "takeWhile (\<lambda>c. c \<noteq> CHR ''='') ((env_prefix plugin @ to_upper k) @ CHR ''='' # v) =
      (env_prefix plugin @ to_upper k) @ takeWhile (\<lambda>c. c \<noteq> CHR ''='') (CHR ''='' # v)"
    by (intro takeWhile_append2) metis
  then have "takeWhile (\<lambda>c. c \<noteq> CHR ''='') (env_prefix plugin @ to_upper k @ CHR ''='' # v) = env_prefix plugin @ to_upper k"
    by simp
  ultimately have "env_override (env_prefix plugin) (env_prefix plugin @ to_upper k @ ''='' @ v) = Some (k, GStr v)"
    by (simp add: env_override_def Let_def) (simp add: env_prefix_def)
  with True show ?thesis by (simp add: applyEnvOverlay_def)
qed (simp add: overlay_other)

lemma env_overrides_lower_case_only_witness:
  "map_of (applyEnvOverlay [''VDCGO_Z2M_BASETOPIC=home''] ''z2m'' [(''baseTopic'', GStr ''zigbee2mqtt'')]) ''baseTopic'' =
     Some (GStr ''zigbee2mqtt'') \<and>
   map_of (applyEnvOverlay [''VDCGO_Z2M_BROKER=mq''] ''z2m'' [(''broker'', GStr ''mqtt'')]) ''broker'' = Some (GStr ''mq'')"
proof -
  have e: "env_prefix ''z2m'' @ to_upper ''baseTopic'' @ ''='' @ ''home'' = ''VDCGO_Z2M_BASETOPIC=home''"
    "env_prefix ''z2m'' @ to_upper ''broker'' @ ''='' @ ''mq'' = ''VDCGO_Z2M_BROKER=mq''" by code_simp+
  have l: "to_lower ''baseTopic'' \<noteq> ''baseTopic''" "to_lower ''broker'' = ''broker''" by code_simp+
  note t = env_overrides_lower_case_only [of "''z2m''" "''baseTopic''" "[]" "''home''" "[(''baseTopic'', GStr ''zigbee2mqtt'')]",
      unfolded append_Nil e]
    env_overrides_lower_case_only [of "''z2m''" "''broker''" "[]" "''mq''" "[(''broker'', GStr ''mqtt'')]", unfolded append_Nil e]
  show ?thesis using t l by simp
qed

section \<open>Identifiers that collide\<close>

text \<open>
  Entities of different plugins can get the same identifier, because the ids of plugin and entity are
  joined by a colon that either may contain: bridging the one is accepted and takes the device and the
  mapping away from the other.
\<close>

theorem bridge_ids_collide:
  assumes "map_of (r_instances r) (p @ '':'' @ q) = Some pl" "GetByRemote (p @ '':'' @ q) e (r_mappings r) = None"
    and "ms_Get (r_mappings r) (BridgeDSUID p (q @ '':'' @ e)) = Some m" "m_PluginID m = p"
  shows "case CreateBridge os (p @ '':'' @ q) e name kind r of
      (r', Inl _) \<Rightarrow> False
    | (r', Inr m') \<Rightarrow> ms_Get (r_mappings r') (BridgeDSUID p (q @ '':'' @ e)) = Some m' \<and>
        m_PluginID m' \<noteq> m_PluginID m \<and> m_RemoteEntityID m' = e"
  using assms by (simp add: CreateBridge_def Let_def add_mapping_def msw.look_put BridgeDSUID_def)

text \<open>The plugin zigbee has the entity tv:lamp, and the plugin zigbee:tv an entity lamp.\<close>

definition colliding :: "bool registry" where
  "colliding = (test_registry True)\<lparr>r_instances := [(''zigbee:tv'', test_plugin ''zigbee:tv'')],
     r_mappings := ms_enter \<lparr>m_PluginID = ''zigbee'', m_RemoteEntityID = ''tv:lamp'',
       m_DSUID = BridgeDSUID ''zigbee'' ''tv:lamp'', m_Kind = ''light'', m_Name = ''TV lamp''\<rparr> (NewMappingStore [])\<rparr>"

lemma bridge_ids_collide_witness:
  "case CreateBridge (test_os 5) ''zigbee:tv'' ''lamp'' ''Lamp'' ''light'' colliding of
      (r', Inl _) \<Rightarrow> False
    | (r', Inr m') \<Rightarrow> ms_Get (r_mappings r') (BridgeDSUID ''zigbee'' ''tv:lamp'') = Some m' \<and> m_PluginID m' \<noteq> ''zigbee''"
  using bridge_ids_collide [of colliding "''zigbee''" "''tv''" "test_plugin ''zigbee:tv''" "''lamp''" _ "test_os 5" "''Lamp''" "''light''"]
  by (simp add: colliding_def GetByRemote_def ms_enter_def NewMappingStore_def ms_Get_def split: prod.splits sum.splits)

end
