(* ===== verification/Bridge_Commander.thy ===== *)
theory Bridge_Commander
  imports Registry_Properties
begin

text \<open>
  The commander of the daemon (\<^verbatim>\<open>pkg/bridge/commander.go\<close>): a command for a bridged device goes to the
  plugin that owns its mapping, any other to a fallback. It is an instance of the commander of the
  vDC methods, whose world is then the registry together with the world of the fallback. The activity buffer
  is the one of the hosts of the plugins, as \<^verbatim>\<open>pkg/vdcgo/service.go\<close> wires it. \<open>q\<close> is
  \<^verbatim>\<open>%q\<close> of \<^verbatim>\<open>fmt\<close>.
\<close>

section \<open>Routing\<close>

definition owner :: "'w registry \<Rightarrow> mapping \<Rightarrow> (mapping \<times> 'w plugin) option" where
  "owner r m = map_option (\<lambda>p. (m, p)) (map_of (r_instances r) (m_PluginID m))"

definition lookupBridge :: "'w registry \<Rightarrow> string \<Rightarrow> (mapping \<times> 'w plugin) option" where
  "lookupBridge r uniqueID =
     (case ms_Get (r_mappings r) uniqueID of
        Some m \<Rightarrow> owner r m
      | None \<Rightarrow>
          (case find (\<lambda>m. to_upper (m_DSUID m) = to_upper uniqueID) (ms_list (r_mappings r)) of
             None \<Rightarrow> None
           | Some m \<Rightarrow> owner r m))"

definition setChannel_command :: "int \<Rightarrow> f64 \<Rightarrow> command" where
  "setChannel_command i x = \<lparr>c_Type = ''setChannel'', c_Channel = i, c_Value = x, c_Scene = 0,
     c_Active = (i = 0 \<and> f64_less f64_zero x)\<rparr>"

definition on_registry :: "('w registry \<Rightarrow> 'w registry) \<Rightarrow> 'w registry \<times> 'f \<Rightarrow> 'w registry \<times> 'f" where
  "on_registry f w = (f (fst w), snd w)"

definition bridge_activity :: "os \<Rightarrow> device_activity \<Rightarrow> 'w registry \<Rightarrow> 'w registry" where
  "bridge_activity os a = upd_host (publish_activity (os_now os) a)"

definition bridge_SetChannelValue ::
  "(string \<Rightarrow> string) \<Rightarrow> os \<Rightarrow> 'f commander option \<Rightarrow> string \<Rightarrow> int \<Rightarrow> f64 \<Rightarrow> 'w registry \<times> 'f \<Rightarrow>
   ('w registry \<times> 'f) \<times> string option" where
  "bridge_SetChannelValue q os fallback uid i x w =
     (case lookupBridge (fst w) uid of
        Some (m, p) \<Rightarrow>
          (case plugin_call os (m_PluginID m) (pg_Apply p m (setChannel_command i x)) (fst w) of
             (r, Some e) \<Rightarrow>
               ((sinkEmit os (m_PluginID m) ''warn'' ''apply_failed'' ''apply command failed''
                   [(''dsuid'', GStr (m_DSUID m)), (''channel'', GInt i), (''value'', GFloat x), (''error'', GStr e)] r,
                 snd w), Some e)
           | (r, None) \<Rightarrow>
               ((bridge_activity os (activity0 (m_DSUID m) ''vdsm'' (m_PluginID m) ''channel''
                   \<lparr>da_Index := i, da_Value := Some x\<rparr>) r, snd w), None))
      | None \<Rightarrow>
          (case fallback of
             None \<Rightarrow> (w, Some (''device with uniqueid '' @ q uid @ '' not connected''))
           | Some c \<Rightarrow> (case cm_SetChannelValue c uid i x (snd w) of (f, e) \<Rightarrow> ((fst w, f), e))))"

definition bridge_CallScene ::
  "(string \<Rightarrow> string) \<Rightarrow> os \<Rightarrow> 'f commander option \<Rightarrow> string \<Rightarrow> int \<Rightarrow> 'w registry \<times> 'f \<Rightarrow>
   ('w registry \<times> 'f) \<times> string option" where
  "bridge_CallScene q os fallback uid scene w =
     (case lookupBridge (fst w) uid of
        Some (m, p) \<Rightarrow>
          (case pg_CallScene p of
             None \<Rightarrow> (w, Some (''plugin '' @ q (m_PluginID m) @ '' does not support native scene recall''))
           | Some call \<Rightarrow>
               (case plugin_call os (m_PluginID m) (call m scene) (fst w) of
                  (r, Some e) \<Rightarrow>
                    ((sinkEmit os (m_PluginID m) ''warn'' ''apply_failed'' ''native scene recall failed''
                        [(''dsuid'', GStr (m_DSUID m)), (''scene'', GInt scene), (''error'', GStr e)] r, snd w), Some e)
                | (r, None) \<Rightarrow>
                    ((bridge_activity os (activity0 (m_DSUID m) ''vdsm'' (m_PluginID m) ''scene''\<lparr>da_Scene := scene\<rparr>) r,
                      snd w), None)))
      | None \<Rightarrow>
          (case fallback of
             None \<Rightarrow> (w, Some (''device with uniqueid '' @ q uid @ '' does not support native scene recall''))
           | Some c \<Rightarrow>
               (case cm_CallScene c of
                  None \<Rightarrow> (w, Some (''device with uniqueid '' @ q uid @ '' does not support native scene recall''))
                | Some call \<Rightarrow> (case call uid scene (snd w) of (f, e) \<Rightarrow> ((fst w, f), e)))))"

definition bridge_commander ::
  "(string \<Rightarrow> string) \<Rightarrow> os \<Rightarrow> 'f commander option \<Rightarrow> ('w registry \<times> 'f) commander" where
  "bridge_commander q os fallback =
     \<lparr>cm_SetLightLevel = (\<lambda>uid x. bridge_SetChannelValue q os fallback uid 0 x),
      cm_SetChannelValue = bridge_SetChannelValue q os fallback,
      cm_CallScene = Some (bridge_CallScene q os fallback)\<rparr>"

section \<open>Finding the plugin\<close>

text \<open>No two mappings differ in the case of their identifiers only.\<close>

definition cases_apart :: "mapping_store \<Rightarrow> bool" where
  "cases_apart ms \<longleftrightarrow> (\<forall>m \<in> set (ms_list ms). \<forall>n \<in> set (ms_list ms). to_upper (m_DSUID m) = to_upper (m_DSUID n) \<longrightarrow> m = n)"

lemma lookupBridge_fold:
  assumes "mappings_wf (r_mappings r)" "cases_apart (r_mappings r)" "ms_Get (r_mappings r) (m_DSUID m) = Some m"
    and "equal_fold uid (m_DSUID m)"
  shows "lookupBridge r uid = owner r m"
proof -
  have up: "to_upper uid = to_upper (m_DSUID m)" using assms(4) by (simp add: equal_fold_upper)
  have mem: "m \<in> set (ms_list (r_mappings r))" using assms(3) ms_Get_iff [OF assms(1)] by blast
  show ?thesis
  proof (cases "ms_Get (r_mappings r) uid")
    case (Some n)
    then have "n \<in> set (ms_list (r_mappings r))" "m_DSUID n = uid" using ms_Get_iff [OF assms(1)] by auto
    with assms(2) mem up have "n = m" by (auto simp: cases_apart_def)
    with Some show ?thesis by (simp add: lookupBridge_def)
  next
    case None
    obtain n where n: "find (\<lambda>m. to_upper (m_DSUID m) = to_upper uid) (ms_list (r_mappings r)) = Some n"
      using mem up by (cases "find (\<lambda>m. to_upper (m_DSUID m) = to_upper uid) (ms_list (r_mappings r))") (auto simp: find_None_iff)
    then have "n \<in> set (ms_list (r_mappings r))" "to_upper (m_DSUID n) = to_upper uid"
      by (auto simp: find_Some_iff)
    with assms(2) mem up have "n = m" by (auto simp: cases_apart_def)
    with None n show ?thesis by (simp add: lookupBridge_def)
  qed
qed

section \<open>Properties\<close>

text \<open>
  C16: a level that the vdSM sets on a bridged light reaches the plugin that owns it, once, as a command on
  channel 0 that says whether the light is on, under whatever case the identifier comes in; the answer of
  the plugin is the answer to the vdSM, and a command that succeeded is recorded as activity of the vdSM.
\<close>

theorem level_reaches_the_plugin:
  assumes "v_commander v = Some (bridge_commander q os fb)" "\<not> is_vdc_target v target" "trim_space target \<noteq> []"
    and "resolve v target = Some d" "isLightOutput (d_Output d)" "v_world v = (r, f)"
    and "mappings_wf (r_mappings r)" "cases_apart (r_mappings r)" "ms_Get (r_mappings r) (m_DSUID m) = Some m"
    and "equal_fold (d_UniqueID d) (m_DSUID m)" "map_of (r_instances r) (m_PluginID m) = Some p"
    and "plugin_call os (m_PluginID m) (pg_Apply p m \<lparr>c_Type = ''setChannel'', c_Channel = 0, c_Value = x, c_Scene = 0,
           c_Active = f64_less f64_zero x\<rparr>) r = (r1, e)"
  shows "\<exists>r2. fst (setLightLevel target x v) = v\<lparr>v_world := (r2, f)\<rparr> \<and>
     (snd (setLightLevel target x v) = None \<longleftrightarrow> e = None) \<and> r_world r2 = r_world r1 \<and> core r2 = core r \<and>
     ho_state (r_host r2) = ho_state (r_host r1) \<and>
     (if e = None then ho_activity (r_host r2) = map_option (ab_Publish (os_now os)
        (activity0 (m_DSUID m) ''vdsm'' (m_PluginID m) ''channel''\<lparr>da_Value := Some x\<rparr>)) (ho_activity (r_host r1))
      else ho_activity (r_host r2) = ho_activity (r_host r1))"
proof -
  have l: "lookupBridge r (d_UniqueID d) = Some (m, p)"
    using lookupBridge_fold [OF assms(7-10)] assms(11) by (simp add: owner_def)
  have c: "core r1 = core r" using core_plugin_call assms(12) by (metis fst_conv)
  have s: "setLightLevel target x v = with_world v (bridge_SetChannelValue q os fb (d_UniqueID d) 0 x (r, f))"
    using assms(1-6) by (simp add: setLightLevel_def validateLightControlTarget_def is_vdc_target_def bridge_commander_def)
  have cmd: "setChannel_command 0 x = \<lparr>c_Type = ''setChannel'', c_Channel = 0, c_Value = x, c_Scene = 0, c_Active = f64_less f64_zero x\<rparr>"
    by (simp add: setChannel_command_def)
  show ?thesis
  proof (cases e)
    case None
    let ?r2 = "bridge_activity os (activity0 (m_DSUID m) ''vdsm'' (m_PluginID m) ''channel''\<lparr>da_Index := 0, da_Value := Some x\<rparr>) r1"
    have "bridge_SetChannelValue q os fb (d_UniqueID d) 0 x (r, f) = ((?r2, f), None)"
      using l assms(12) None by (simp add: bridge_SetChannelValue_def cmd)
    moreover have "core ?r2 = core r" using c by (simp add: bridge_activity_def core_upd_host)
    ultimately show ?thesis using None
      by (intro exI [of _ ?r2]) (simp add: s with_world_def, simp add: bridge_activity_def upd_host_def publish_activity_def activity0_def)
  next
    case (Some err)
    let ?r2 = "sinkEmit os (m_PluginID m) ''warn'' ''apply_failed'' ''apply command failed''
      [(''dsuid'', GStr (m_DSUID m)), (''channel'', GInt 0), (''value'', GFloat x), (''error'', GStr err)] r1"
    have "bridge_SetChannelValue q os fb (d_UniqueID d) 0 x (r, f) = ((?r2, f), Some err)"
      using l assms(12) Some by (simp add: bridge_SetChannelValue_def cmd)
    moreover have "core ?r2 = core r" using c by (simp add: core_sinkEmit)
    ultimately show ?thesis using Some
      by (intro exI [of _ ?r2]) (simp add: s with_world_def, simp add: sinkEmit_def upd_host_def publish_event_def)
  qed
qed

text \<open>A plugin that records its commands and recalls presets, with one mapping whose dSUID is in lower case.\<close>

definition preset_plugin :: "command list plugin" where
  "preset_plugin = \<lparr>pg_Init = \<lambda>_ w. (w, None, []), pg_Subscribe = \<lambda>_ w. (w, None, []), pg_Unsubscribe = \<lambda>_ w. (w, None, []),
     pg_Apply = \<lambda>_ c w. (w @ [c], None, []), pg_CallScene = Some (\<lambda>_ n w. (w, if 10 < n then Some ''no such preset'' else None, [])),
     pg_Close = \<lambda>w. (w, None, [])\<rparr>"

definition bulb :: mapping where
  "bulb = desk_mapping\<lparr>m_DSUID := ''00aa00000000000000000000000000000b''\<rparr>"

definition bulb_registry :: "command list registry" where
  "bulb_registry = NewRegistry test_host (ms_enter bulb (NewMappingStore [])) [] []\<lparr>r_instances := [(''z2m'', preset_plugin)]\<rparr>"

definition bulb_vdc :: "(command list registry \<times> unit) vdc" where
  "bulb_vdc = \<lparr>v_dsuid = ''VDC'', v_description = ''d'', v_state = v_state lamp_vdc,
     v_commander = Some (bridge_commander id (test_os 5) None), v_scenes = Some (NewSceneStore []),
     v_config = Some (NewConfigStore []), v_ramps = Some NewDimRampManager, v_io = True, v_world = (bulb_registry, ())\<rparr>"

lemma bulb_resolves: "resolve bulb_vdc lamp_id = Some lamp" "\<not> is_vdc_target bulb_vdc lamp_id"
  using lamp_resolves lamp_target by (simp_all add: resolve_def snapshot_def bulb_vdc_def is_vdc_target_def del: lamp_resolves lamp_target)

lemma bulb_fields [simp]:
  "r_mappings bulb_registry = ms_enter bulb (NewMappingStore [])" "r_instances bulb_registry = [(''z2m'', preset_plugin)]"
  "r_world bulb_registry = []" "m_PluginID bulb = ''z2m''" "ms_list (ms_enter bulb (NewMappingStore [])) = [bulb]"
  by (simp_all add: bulb_registry_def NewRegistry_def bulb_def ms_enter_def NewMappingStore_def ms_list_def)

lemma level_reaches_the_plugin_witness:
  "\<exists>r2. fst (setLightLevel lamp_id f64_75 bulb_vdc) = bulb_vdc\<lparr>v_world := (r2, ())\<rparr> \<and>
     r_world r2 = [\<lparr>c_Type = ''setChannel'', c_Channel = 0, c_Value = f64_75, c_Scene = 0, c_Active = f64_less f64_zero f64_75\<rparr>]"
proof -
  let ?c = "\<lparr>c_Type = ''setChannel'', c_Channel = 0, c_Value = f64_75, c_Scene = 0, c_Active = f64_less f64_zero f64_75\<rparr>"
  obtain r1 e where pc: "plugin_call (test_os 5) (m_PluginID bulb) (pg_Apply preset_plugin bulb ?c) bulb_registry = (r1, e)"
    by fastforce
  then have r1: "r_world r1 = [?c]" by (auto simp: plugin_call_def preset_plugin_def upd_host_def)
  have "isLightOutput (d_Output lamp)" "trim_space lamp_id \<noteq> []" "d_UniqueID lamp = lamp_id" "equal_fold lamp_id (m_DSUID bulb)"
    by code_simp+
  then show ?thesis
    using level_reaches_the_plugin [of bulb_vdc id "test_os 5" None lamp_id lamp bulb_registry "()" bulb preset_plugin f64_75 r1 e] pc r1
      bulb_resolves by (auto simp: bulb_vdc_def cases_apart_def ms.look_put)
qed

text \<open>
  A scene without stored values is recalled by the plugin itself where the plugin can; where it cannot, or
  its recall fails, the brightness of the scene is sent to the plugin instead.
\<close>

theorem scene_recall_or_level:
  assumes "v_commander v = Some (bridge_commander q os fb)" "v_world v = (r, f)" "lookupBridge r (d_UniqueID d) = Some (m, p)"
  shows "v_world (native_scene_or_level (bridge_commander q os fb) scene x d v) =
    (case pg_CallScene p of
       None \<Rightarrow> fst (bridge_SetChannelValue q os fb (d_UniqueID d) 0 x (r, f))
     | Some call \<Rightarrow>
         (case plugin_call os (m_PluginID m) (call m scene) r of
            (r', None) \<Rightarrow> (bridge_activity os (activity0 (m_DSUID m) ''vdsm'' (m_PluginID m) ''scene''\<lparr>da_Scene := scene\<rparr>) r', f)
          | (r', Some e) \<Rightarrow> fst (bridge_SetChannelValue q os fb (d_UniqueID d) 0 x
              (sinkEmit os (m_PluginID m) ''warn'' ''apply_failed'' ''native scene recall failed''
                 [(''dsuid'', GStr (m_DSUID m)), (''scene'', GInt scene), (''error'', GStr e)] r', f))))"
proof (cases "pg_CallScene p")
  case None
  then show ?thesis using assms
    by (simp add: native_scene_or_level_def bridge_commander_def bridge_CallScene_def set_level_logged_def)
next
  case (Some call)
  obtain r' e where "plugin_call os (m_PluginID m) (call m scene) r = (r', e)" by fastforce
  then show ?thesis using assms Some
    by (cases e) (simp_all add: native_scene_or_level_def bridge_commander_def bridge_CallScene_def set_level_logged_def)
qed

lemma scene_recall_or_level_witness:
  "r_world (fst (v_world (native_scene_or_level (bridge_commander id (test_os 5) None) 5 f64_75 lamp bulb_vdc))) = []"
proof -
  have l: "lookupBridge bulb_registry (d_UniqueID lamp) = Some (bulb, preset_plugin)"
  proof -
    have "equal_fold (d_UniqueID lamp) (m_DSUID bulb)" by code_simp
    then show ?thesis using lookupBridge_fold [of bulb_registry bulb "d_UniqueID lamp"]
      by (simp add: cases_apart_def ms.look_put owner_def)
  qed
  obtain r' e where pc: "plugin_call (test_os 5) ''z2m'' (\<lambda>w. (w, None, [])) bulb_registry = (r', e)" by fastforce
  then have "e = None" "r_world r' = []" by (auto simp: plugin_call_def upd_host_def)
  with scene_recall_or_level [of bulb_vdc id "test_os 5" None bulb_registry "()" lamp bulb preset_plugin 5 f64_75] l pc
  show ?thesis by (simp add: bulb_vdc_def) (simp add: preset_plugin_def bridge_activity_def upd_host_def)
qed

end
