(* ===== verification/Json_Server.thy ===== *)
theory Json_Server
  imports Pbuf_Server
begin

text \<open>
  The dispatcher of the vDC API in its JSON form (\<^verbatim>\<open>pkg/vdcapi/request_dispatch.go\<close>): a request
  carries parameters that are already decoded, a response is a record. A nil map of parameters reads
  like the empty one. \<open>go_fmt\<close> is what \<^verbatim>\<open>fmt\<close> prints for the verbs \<open>%v\<close>, \<open>%T\<close> and \<open>%q\<close>. Both
  dispatchers end in the same methods (\<open>Method_Service\<close>); the last sections compare what they make
  of the same parameters.
\<close>

section \<open>Requests, responses, sessions\<close>

record go_fmt =
  fm_v :: "gany \<Rightarrow> string"
  fm_T :: "gany \<Rightarrow> string"
  fm_q :: "string \<Rightarrow> string"

record json_request =
  jq_ID :: gany
  jq_Method :: string
  jq_Notification :: string
  jq_Params :: obj

record json_response =
  jr_ID :: gany
  jr_Result :: gany
  jr_Error :: int
  jr_ErrorMsg :: string

definition json_ok :: json_response where
  "json_ok = \<lparr>jr_ID = GNil, jr_Result = GNil, jr_Error = 0, jr_ErrorMsg = []\<rparr>"

definition json_error :: "int \<Rightarrow> string \<Rightarrow> json_response" where
  "json_error code msg = json_ok\<lparr>jr_Error := code, jr_ErrorMsg := msg\<rparr>"

section \<open>Whom a notification addresses\<close>

type_synonym json_audience = "json_response + string list \<times> bool"

definition json_raw_targets :: "gany \<Rightarrow> string list" where
  "json_raw_targets x =
     (case x of
        GStr s \<Rightarrow> if trim_space s \<noteq> [] then [s] else []
      | GArr xs \<Rightarrow> filter (\<lambda>s. trim_space s \<noteq> []) (List.map_filter str_value xs)
      | _ \<Rightarrow> [])"

definition json_item_audience :: "'w vdc \<Rightarrow> string \<Rightarrow> json_audience" where
  "json_item_audience v raw =
     (let item = trim_space raw
      in if item = [] then Inl (json_error 404 ''missing/invalid itemSpec'')
         else if is_root v item then Inr ([], True)
         else if ensureAddressableTarget v item = None then Inr ([item], False)
         else Inl (json_error 404 ''missing/invalid itemSpec''))"

definition resolveJSONNotificationAudience :: "'w vdc \<Rightarrow> obj \<Rightarrow> json_audience" where
  "resolveJSONNotificationAudience v params =
     (case json_raw_targets (j_get params ''dSUID'') of
        [raw] \<Rightarrow>
          (let t = trim_space raw
           in if is_root v t then Inr ([], True)
              else case ensureAddressableTarget v t of
                     Some e \<Rightarrow> Inl (json_error 404 (error_text e))
                   | None \<Rightarrow> Inr ([t], False))
      | [] \<Rightarrow>
          (case j_str params ''itemSpec'' of
             Some raw \<Rightarrow> json_item_audience v raw
           | None \<Rightarrow>
               if go_has params ''zone_id'' \<and> go_has params ''group'' then Inr ([], True)
               else Inl (json_error 400 ''notification needs dSUID, itemSpec or zone_id/group parameters''))
      | ts \<Rightarrow> Inr (many_targets v ts))"

section \<open>Notifications\<close>

type_synonym 'w json_handler = "'w vdc \<Rightarrow> json_response \<times> 'w vdc"

definition json_on_audience :: "obj \<Rightarrow> (string list \<Rightarrow> bool \<Rightarrow> 'w json_handler) \<Rightarrow> 'w json_handler" where
  "json_on_audience params act v =
     (case resolveJSONNotificationAudience v params of
        Inl r \<Rightarrow> (r, v)
      | Inr (targets, all) \<Rightarrow> act targets all v)"

definition json_then_ok :: "('w vdc \<Rightarrow> 'w vdc) \<Rightarrow> 'w json_handler" where
  "json_then_ok act v = (json_ok, act v)"

definition json_int :: "obj \<Rightarrow> string \<Rightarrow> int \<Rightarrow> int" where
  "json_int params k dflt = (case asInt (j_get params k) of Some n \<Rightarrow> n | None \<Rightarrow> dflt)"

definition json_checked :: "int \<Rightarrow> string + 'a \<Rightarrow> 'w json_handler" where
  "json_checked code r v = ((case r of Inl e \<Rightarrow> json_error code e | Inr x \<Rightarrow> json_ok), v)"

definition json_identify :: "obj \<Rightarrow> string list \<Rightarrow> bool \<Rightarrow> 'w json_handler" where
  "json_identify params targets all v =
     (case first_some (ensureAddressableTarget v) (if all then [''root''] else targets) of
        Some e \<Rightarrow> (json_error 404 (error_text e), v)
      | None \<Rightarrow> json_checked 415 (validateJSONIdentifyParams params) v)"

definition json_remove :: "nat \<Rightarrow> string \<Rightarrow> 'w json_handler" where
  "json_remove now target v =
     (case removeDeviceByDSUID now target v of
        (v', Some e) \<Rightarrow> (json_error 404 (error_text e), v')
      | (v', None) \<Rightarrow> (json_ok, v'))"

definition handleJSONNotification :: "go_fmt \<Rightarrow> nat \<Rightarrow> string \<Rightarrow> obj \<Rightarrow> 'w json_handler" where
  "handleJSONNotification fm now name params v =
     (let value = asFloat (j_get params ''value''); x = (case value of Some x \<Rightarrow> x | None \<Rightarrow> 0);
          scene = json_int params ''scene'' 0
      in
      if equal_fold name ''ping'' then (json_ok, v)
      else if equal_fold name ''callScene'' then
        json_on_audience params (\<lambda>ts all. json_then_ok (handleCallSceneNotification ts all scene)) v
      else if equal_fold name ''saveScene'' then
        json_on_audience params (\<lambda>ts all. json_then_ok (handleSaveSceneNotification ts all scene)) v
      else if equal_fold name ''undoScene'' then
        json_on_audience params (\<lambda>ts all. json_then_ok (handleSaveSceneNotification ts all scene)) v
      else if equal_fold name ''setLocalPriority'' then json_on_audience params (\<lambda>ts all. json_then_ok id) v
      else if equal_fold name ''callMinScene'' then json_on_audience params (\<lambda>ts all. json_then_ok id) v
      else if equal_fold name ''identify'' then json_on_audience params (json_identify params) v
      else if equal_fold name ''setOutputChannelValue'' then
        json_on_audience params (\<lambda>ts all. json_then_ok
          (handleSetOutputChannelValueNotification ts all (json_int params ''channelIndex'' 0) x True (value \<noteq> None))) v
      else if equal_fold name ''dimChannel'' then
        json_on_audience params (\<lambda>ts all. json_then_ok
          (handleDimChannelNotification ts all (json_int params ''mode'' 0))) v
      else if equal_fold name ''setControlValue'' then
        json_on_audience params (\<lambda>ts all. json_then_ok (handleSetControlValueNotification ts all
          (stringFromAny (fm_v fm) (j_get params ''name'')) x (value \<noteq> None))) v
      else if equal_fold name ''loglevel'' then json_checked 405 (validateJSONLogLevelParams params) v
      else if equal_fold name ''logleveloffset'' then
        json_checked 405 (validateJSONLogLevelOffsetParams (fm_v fm) params) v
      else if equal_fold name ''logoptions'' then
        json_checked 415 (validateJSONLogOptionsParams (fm_T fm) (fm_q fm) params) v
      else if equal_fold name ''scanDevices'' then
        (json_ok\<lparr>jr_Result := GObj [(''status'', GStr ''started'')]\<rparr>, v)
      else if equal_fold name ''pair'' then
        (case ensurePairTimeout (json_int params ''timeout'' 30) of
           Some e \<Rightarrow> (json_error 404 (error_text e), v)
         | None \<Rightarrow> (json_ok, v))
      else if equal_fold name ''remove'' then
        json_remove now (trim_space (stringFromAny (fm_v fm) (j_get params ''dSUID''))) v
      else (json_error 404 (''unknown notification '' @ [CHR 0x27] @ name @ [CHR 0x27]), v))"

section \<open>Methods\<close>

definition handleHello :: "go_fmt \<Rightarrow> nat \<Rightarrow> obj \<Rightarrow> 'w vdc \<Rightarrow> session \<Rightarrow> json_response \<times> session" where
  "handleHello fm now params v sess =
     (let version = f64_to_int (case asFloat (j_get params ''api_version'') of Some x \<Rightarrow> x | None \<Rightarrow> 0);
          vdsm = trim_space (stringFromAny (fm_v fm) (j_get params ''dSUID''))
      in if version < APIVersionMin \<or> APIVersionMax < version then
           (json_error 505 (''Incompatible vDC API version - found '' @ itoa version @ '', expected '' @
              itoa APIVersionMin @ ''..'' @ itoa APIVersionMax), sess)
         else if vdsm = [] then (json_error 505 ''missing dSUID'', sess)
         else (json_ok\<lparr>jr_Result := GObj (fst (buildPropertyTree now (v_dsuid v) (v_description v)
                 (snapshot v) (v_scenes v) (v_config v)))\<rparr>,
               \<lparr>ss_active = True, ss_vdsmDSUID = vdsm, ss_apiVersion = version\<rparr>))"

definition handleGetProperty :: "go_fmt \<Rightarrow> nat \<Rightarrow> obj \<Rightarrow> 'w vdc \<Rightarrow> json_response" where
  "handleGetProperty fm now params v =
     (case resolveGetPropertyTarget now v (trim_space (stringFromAny (fm_v fm) (j_get params ''dSUID''))) of
        Inl e \<Rightarrow> json_error 404 (error_text e)
      | Inr full \<Rightarrow> json_ok\<lparr>jr_Result := GObj
          (case j_obj (j_get params ''query'') of
             Some query \<Rightarrow> if query \<noteq> [] then applyObjectQuery full query else full
           | None \<Rightarrow> full)\<rparr>)"

definition handleSetProperty :: "go_fmt \<Rightarrow> obj \<Rightarrow> 'w json_handler" where
  "handleSetProperty fm params v =
     (case setPropertyFromJSON (fm_v fm) params v of
        (v', Some e) \<Rightarrow> (json_error (setPropertyJSONStatusCode e) (error_text e), v')
      | (v', None) \<Rightarrow> (json_ok, v'))"

definition merge_params :: "obj \<Rightarrow> obj" where
  "merge_params params =
     (case j_obj (j_get params ''params'') of
        Some inner \<Rightarrow> foldl (\<lambda>m (k, x). AList.update k x m) params inner
      | None \<Rightarrow> params)"

definition handleGenericRequest :: "go_fmt \<Rightarrow> nat \<Rightarrow> obj \<Rightarrow> 'w json_handler" where
  "handleGenericRequest fm now params v =
     (let name = trim_space (stringFromAny (fm_v fm) (j_get params ''methodname''))
      in if equal_fold name ''genericRequest'' then (json_error 415 ''recursive call of genericRequest'', v)
         else handleJSONNotification fm now name (merge_params params) v)"

text \<open>The response if any, whether the connection closes, the session and the vDC after a request.\<close>

definition processRequest ::
  "go_fmt \<Rightarrow> nat \<Rightarrow> json_request \<Rightarrow> session \<Rightarrow> 'w vdc \<Rightarrow> json_response option \<times> bool \<times> session \<times> 'w vdc" where
  "processRequest fm now q sess v =
     (let m = to_lower (jq_Method q); params = jq_Params q;
          reply = (\<lambda>(r, v'). (Some (r\<lparr>jr_ID := jq_ID q\<rparr>), False, sess, v'))
      in if jq_Notification q \<noteq> [] then
           (case handleJSONNotification fm now (jq_Notification q) params v of
              (r, v') \<Rightarrow> (Some r, False, sess, v'))
         else if m = ''hello'' then
           (case handleHello fm now params v sess of (r, sess') \<Rightarrow> (Some r, False, sess', v))
         else if m = ''bye'' then (None, True, sess, v)
         else if \<not> ss_active sess then
           (Some (json_error 401 ''no vDC session - cannot call method''\<lparr>jr_ID := jq_ID q\<rparr>), False, sess, v)
         else if m = ''getproperty'' then reply (handleGetProperty fm now params v, v)
         else if m = ''setproperty'' then reply (handleSetProperty fm params v)
         else if m = ''genericrequest'' then reply (handleGenericRequest fm now params v)
         else reply (json_error 404 (''unknown method '' @ [CHR 0x27] @ jq_Method q @ [CHR 0x27]), v))"

section \<open>The same parameters in both protocols\<close>

definition shared_keys :: "string list" where
  "shared_keys = [''dSUID'', ''itemSpec'', ''zone_id'', ''group'', ''scene'', ''mode'', ''name'', ''value'', ''channelIndex'']"

definition pbuf_params :: "obj \<Rightarrow> pelem list" where
  "pbuf_params params = map (\<lambda>(k, x). PElem k x []) params"

definition string_or_absent :: "obj \<Rightarrow> string \<Rightarrow> bool" where
  "string_or_absent params k \<longleftrightarrow> (case map_of params k of None \<Rightarrow> True | Some x \<Rightarrow> str_value x \<noteq> None)"

definition shared_params :: "obj \<Rightarrow> bool" where
  "shared_params params \<longleftrightarrow> distinct (map fst params) \<and> set (map fst params) \<subseteq> set shared_keys \<and>
     list_all (string_or_absent params) [''dSUID'', ''itemSpec'', ''name'']"

lemma shared_keys_apart:
  "k \<in> set shared_keys \<Longrightarrow> j \<in> set shared_keys \<Longrightarrow> is_param k (PElem j x []) \<longleftrightarrow> j = k"
proof -
  have "list_all (\<lambda>k. list_all (\<lambda>j. equal_fold (trim_space j) k \<longleftrightarrow> j = k) shared_keys) shared_keys" by code_simp
  then show "k \<in> set shared_keys \<Longrightarrow> j \<in> set shared_keys \<Longrightarrow> is_param k (PElem j x []) \<longleftrightarrow> j = k"
    by (simp add: list_all_iff is_param_def)
qed

lemma shared_find:
  assumes "set (map fst params) \<subseteq> set shared_keys" "k \<in> set shared_keys"
  shows "findPbufParam (pbuf_params params) k = map_option (\<lambda>x. PElem k x []) (map_of params k)"
  using assms(1)
proof (induction params)
  case (Cons a params)
  obtain j x where "a = (j, x)" by (cases a)
  with Cons shared_keys_apart [OF assms(2), of j x] show ?case
    by (auto simp: findPbufParam_def pbuf_params_def)
qed (simp add: findPbufParam_def pbuf_params_def)

lemma shared_find_all:
  assumes "set (map fst params) \<subseteq> set shared_keys" "k \<in> set shared_keys" "distinct (map fst params)"
  shows "findPbufParams (pbuf_params params) k = (case map_of params k of None \<Rightarrow> [] | Some x \<Rightarrow> [PElem k x []])"
  using assms(1,3)
proof (induction params)
  case (Cons a params)
  obtain j x where a: "a = (j, x)" by (cases a)
  moreover have "map_of params j = None" using Cons.prems(2) a by (auto simp: map_of_eq_None_iff)
  ultimately show ?case using Cons shared_keys_apart [OF assms(2), of j x]
    by (auto simp: findPbufParams_def pbuf_params_def)
qed (simp add: findPbufParams_def pbuf_params_def)

lemma shared_audience:
  assumes "shared_params params"
  shows "case resolvePbufNotificationAudience v [] (pbuf_params params) of
      Inl _ \<Rightarrow> (\<exists>r. resolveJSONNotificationAudience v params = Inl r)
    | Inr a \<Rightarrow> resolveJSONNotificationAudience v params = Inr a"
proof -
  have p: "set (map fst params) \<subseteq> set shared_keys" "distinct (map fst params)" and
    s: "list_all (string_or_absent params) [''dSUID'', ''itemSpec'', ''name'']"
    using assms by (simp_all add: shared_params_def)
  have k: "''dSUID'' \<in> set shared_keys" "''itemSpec'' \<in> set shared_keys" "''zone_id'' \<in> set shared_keys" "''group'' \<in> set shared_keys"
    by (simp_all add: shared_keys_def)
  have e: "trim_space ([] :: string) = []" by code_simp
  note f = shared_find [OF p(1) k(2)] shared_find [OF p(1) k(3)] shared_find [OF p(1) k(4)] shared_find_all [OF p(1) k(1) p(2)]
  have raw: "notification_targets [] (pbuf_params params) = json_raw_targets (j_get params ''dSUID'')"
    using s by (cases "map_of params ''dSUID''")
      (auto simp: notification_targets_def collectPbufParamStrings_def f(4) e j_get_def go_get_def json_raw_targets_def
        string_or_absent_def map_filter_simps elim!: str_value.elims)
  have blank: "json_raw_targets x = [t] \<Longrightarrow> trim_space t \<noteq> []" for x t
    by (cases x) (auto simp: json_raw_targets_def filter_eq_Cons_iff split: if_splits)
  have item: "case item_audience v (GStr t) of Inl _ \<Rightarrow> (\<exists>r. json_item_audience v t = Inl r) | Inr a \<Rightarrow> json_item_audience v t = Inr a" for t
    by (simp add: item_audience_def json_item_audience_def Let_def)
  have rest: "case (case map_of params ''itemSpec'' of Some x \<Rightarrow> item_audience v x | None \<Rightarrow>
        if map_of params ''zone_id'' \<noteq> None \<and> map_of params ''group'' \<noteq> None then Inr ([], True) else Inl y) of
      Inl _ \<Rightarrow> (\<exists>r. (case j_str params ''itemSpec'' of Some raw \<Rightarrow> json_item_audience v raw | None \<Rightarrow>
        if go_has params ''zone_id'' \<and> go_has params ''group'' then Inr ([], True) else Inl z) = Inl r)
    | Inr a \<Rightarrow> (case j_str params ''itemSpec'' of Some raw \<Rightarrow> json_item_audience v raw | None \<Rightarrow>
        if go_has params ''zone_id'' \<and> go_has params ''group'' then Inr ([], True) else Inl z) = Inr a" for y z
  proof (cases "map_of params ''itemSpec''")
    case None
    then have "j_str params ''itemSpec'' = None" by (simp add: j_str_def j_get_def go_get_def)
    with None show ?thesis by (simp add: go_has_def)
  next
    case (Some x)
    then obtain t where "x = GStr t" using s by (auto simp: string_or_absent_def elim: str_value.elims)
    from this Some have j: "j_str params ''itemSpec'' = Some t" by (simp add: j_str_def j_get_def go_get_def)
    show ?thesis unfolding j Some \<open>x = GStr t\<close> option.case by (rule item)
  qed
  show ?thesis
  proof (cases "json_raw_targets (j_get params ''dSUID'')")
    case Nil
    have "resolvePbufNotificationAudience v [] (pbuf_params params) =
        (case map_of params ''itemSpec'' of Some x \<Rightarrow> item_audience v x | None \<Rightarrow>
           if map_of params ''zone_id'' \<noteq> None \<and> map_of params ''group'' \<noteq> None then Inr ([], True)
           else Inl (pbufResultMessageUnknown, ''notification needs dSUID, itemSpec or zone_id/group parameters''))"
      by (simp add: resolvePbufNotificationAudience_def raw Nil f(1-3) split: option.split)
    moreover have "resolveJSONNotificationAudience v params =
        (case j_str params ''itemSpec'' of Some raw \<Rightarrow> json_item_audience v raw | None \<Rightarrow>
           if go_has params ''zone_id'' \<and> go_has params ''group'' then Inr ([], True)
           else Inl (json_error 400 ''notification needs dSUID, itemSpec or zone_id/group parameters''))"
      by (simp add: resolveJSONNotificationAudience_def Nil)
    ultimately show ?thesis by (simp only: rest)
  next
    case (Cons t ts)
    then show ?thesis using blank [of "j_get params ''dSUID''" t]
      by (cases ts) (simp_all add: resolvePbufNotificationAudience_def resolveJSONNotificationAudience_def raw Let_def
          split: option.split)
  qed
qed

lemma shared_notified:
  assumes "shared_params params" "\<And>ts all. snd (act ts all v) = snd (jact ts all v)"
  shows "snd (on_audience pw msgID hasID (resolvePbufNotificationAudience v [] (pbuf_params params)) act v) =
    snd (json_on_audience params jact v)"
  using shared_audience [OF assms(1), of v] assms(2)
  by (auto simp: on_audience_def json_on_audience_def split: sum.splits prod.splits)

lemma shared_values:
  assumes "shared_params params" "k \<in> set shared_keys"
  shows "firstPbufParamFloat (pbuf_params params) k = asFloat (j_get params k)"
    "firstPbufParamInt (pbuf_params params) k = asInt (j_get params k)"
  using shared_find [OF _ assms(2), of params] assms(1)
  by (cases "map_of params k"; simp add: shared_params_def firstPbufParamFloat_def firstPbufParamInt_def j_get_def go_get_def asInt_def)+


subsection \<open>Methods without an effect\<close>

lemma quiet_pbuf [simp]:
  "snd (ok_or pw msgID hasID code r v) = v"
  "snd (handlePbufGetProperty pw now msgID hasID target query v) = v"
  "snd (handle_identify pw msgID hasID params ts all v) = v"
  "snd (handle_ping pw msgID hasID ts all v) = v"
  "snd (then_ok pw msgID hasID act v) = act v"
  "(\<And>ts all. snd (h ts all v) = v) \<Longrightarrow> snd (on_audience pw msgID hasID aud h v) = v"
  by (simp_all add: ok_or_def handlePbufGetProperty_def handle_identify_def handle_ping_def then_ok_def on_audience_def Let_def
      split: sum.split option.split prod.split)

lemma quiet_json [simp]:
  "snd (json_checked code r v) = v" "snd (json_identify params ts all v) = v" "snd (json_then_ok act v) = act v"
  "(\<And>ts all. snd (h ts all v) = v) \<Longrightarrow> snd (json_on_audience params h v) = v"
  by (simp_all add: json_checked_def json_identify_def json_then_ok_def json_on_audience_def split: option.split sum.split prod.split)

lemma method_names [simp]:
  "to_lower ''genericRequest'' = ''genericrequest''" "to_lower ''getProperty'' = ''getproperty''"
  "to_lower ''setProperty'' = ''setproperty''" "to_lower ''scanDevices'' = ''scandevices''" "to_lower ''pair'' = ''pair''"
  "to_lower ''remove'' = ''remove''" "to_lower ''loglevel'' = ''loglevel''" "to_lower ''logleveloffset'' = ''logleveloffset''"
  "to_lower ''logoptions'' = ''logoptions''" "to_lower ''callScene'' = ''callscene''" "to_lower ''dimChannel'' = ''dimchannel''"
  "to_lower ''setControlValue'' = ''setcontrolvalue''" "to_lower ''setOutputChannelValue'' = ''setoutputchannelvalue''"
  "to_lower ''identify'' = ''identify''" "to_lower ''saveScene'' = ''savescene''" "to_lower ''undoScene'' = ''undoscene''"
  "to_lower ''setLocalPriority'' = ''setlocalpriority''" "to_lower ''callSceneMin'' = ''callscenemin''"
  "to_lower ''callMinScene'' = ''callminscene''" "to_lower ''ping'' = ''ping''"
  by code_simp+

definition effective :: "string list" where
  "effective = [''undoscene'', ''remove'', ''setproperty'', ''callscene'', ''savescene'', ''dimchannel'', ''setcontrolvalue'',
     ''setoutputchannelvalue'']"

lemma quiet_requests:
  assumes "to_lower (trim_space m) \<notin> set effective"
  shows "snd (handlePbufGenericRequest pw now msgID hasID target m params v) = v"
    "snd (handleJSONNotification fm now (trim_space m) ps v) = v"
  using assms
  by (simp_all add: handlePbufGenericRequest_def handleJSONNotification_def effective_def equal_fold_def Let_def if_distrib [of snd]
      split: sum.split option.split cong: if_cong)

lemma shared_effects:
  assumes "shared_params params"
    and "to_lower (trim_space m) \<in> {''callscene'', ''savescene'', ''dimchannel'', ''setcontrolvalue'', ''setoutputchannelvalue''}"
  shows "snd (handlePbufGenericRequest pw now msgID hasID [] m (pbuf_params params) v) =
    snd (handleJSONNotification fm now (trim_space m) params v)"
proof -
  have k: "''scene'' \<in> set shared_keys" "''mode'' \<in> set shared_keys" "''value'' \<in> set shared_keys"
      "''channelIndex'' \<in> set shared_keys" "''name'' \<in> set shared_keys"
    by (simp_all add: shared_keys_def)
  note vals = shared_values [OF assms(1) k(1)] shared_values [OF assms(1) k(2)] shared_values [OF assms(1) k(3)]
    shared_values [OF assms(1) k(4)]
  have p: "set (map fst params) \<subseteq> set shared_keys" using assms(1) by (simp add: shared_params_def)
  have name: "(case findPbufParam (pbuf_params params) ''name'' of None \<Rightarrow> []
      | Some p \<Rightarrow> (case str_value (pe_value p) of None \<Rightarrow> [] | Some s \<Rightarrow> s)) = stringFromAny fv (j_get params ''name'')" for fv
    using assms(1) shared_find [OF p k(5)]
    by (cases "map_of params ''name''")
      (auto simp: shared_params_def string_or_absent_def stringFromAny_def j_get_def go_get_def elim!: str_value.elims)
  have "findPbufParam (pbuf_params params) ''apply_now'' = None"
  proof -
    have "list_all (\<lambda>j. \<not> equal_fold (trim_space j) ''apply_now'') shared_keys" by code_simp
    then show ?thesis using p
      by (auto simp: findPbufParam_def find_None_iff pbuf_params_def is_param_def list_all_iff)
  qed
  note notified = shared_notified [OF assms(1)] this name [of "fm_v fm"] vals
  show ?thesis using assms(2)
    by (auto simp: handlePbufGenericRequest_def handleJSONNotification_def equal_fold_def Let_def json_int_def
        parsePbufNotificationParamsCallScene_def parsePbufNotificationParamsDimChannel_def
        parsePbufNotificationParamsSetControlValue_def parsePbufNotificationParamsSetOutputChannelValue_def notified
        intro!: shared_notified [OF assms(1)])
qed


definition ex_fmt :: go_fmt where
  "ex_fmt = \<lparr>fm_v = (\<lambda>x. []), fm_T = (\<lambda>x. []), fm_q = id\<rparr>"

definition no_session :: session where
  "no_session = \<lparr>ss_active = False, ss_vdsmDSUID = [], ss_apiVersion = 0\<rparr>"


text \<open>
  A method needs a session: without one a request that is no notification changes nothing of
  the vDC, every method but hello and bye is refused, and only a hello of a supported version that
  names its vdSM opens a session.
\<close>

theorem json_methods_need_session:
  assumes "jq_Notification q = []" "\<not> ss_active sess"
  shows "case processRequest fm now q sess v of (resp, close, sess', v') \<Rightarrow>
    v' = v \<and> (if to_lower (jq_Method q) = ''bye'' then resp = None \<and> close \<and> sess' = sess
      else if to_lower (jq_Method q) = ''hello'' then \<not> close \<and>
        (if ss_active sess' then APIVersionMin \<le> ss_apiVersion sess' \<and> ss_apiVersion sess' \<le> APIVersionMax \<and>
           ss_vdsmDSUID sess' \<noteq> [] \<and> map_option jr_Error resp = Some 0
         else sess' = sess \<and> map_option jr_Error resp = Some 505)
      else \<not> close \<and> sess' = sess \<and> map_option jr_Error resp = Some 401)"
  using assms
  by (simp add: processRequest_def handleHello_def json_error_def json_ok_def Let_def not_less)

lemma json_methods_need_session_witness:
  "case processRequest ex_fmt 0 \<lparr>jq_ID = GNil, jq_Method = ''setProperty'', jq_Notification = [], jq_Params = []\<rparr>
     \<lparr>ss_active = False, ss_vdsmDSUID = [], ss_apiVersion = 0\<rparr> lamp_vdc of (resp, close, sess', v') \<Rightarrow>
     v' = lamp_vdc \<and> map_option jr_Error resp = Some 401"
  using json_methods_need_session [of "\<lparr>jq_ID = GNil, jq_Method = ''setProperty'', jq_Notification = [], jq_Params = []\<rparr>"
      "\<lparr>ss_active = False, ss_vdsmDSUID = [], ss_apiVersion = 0\<rparr>" lamp_vdc ex_fmt 0]
  by (auto split: prod.splits)

text \<open>
  Undoing a scene overwrites it: undoScene stores the present values of the device under the
  scene that was to be undone and sends nothing to the device. The session plays no part: a
  notification is carried out for whoever sends it.
\<close>

theorem json_undo_overwrites:
  assumes "v_scenes v = Some ss" "v_state v \<noteq> None" "resolve v t = Some d" "distinct (map fst (d_Channels d))"
    and "resolveJSONNotificationAudience v params = Inr ([t], False)" "jq_Notification q = ''undoScene''" "jq_Params q = params"
  shows "\<exists>resp ss' e. processRequest fm now q sess v = (Some resp, False, sess, v\<lparr>v_scenes := Some ss'\<rparr>) \<and> jr_Error resp = 0 \<and>
    GetScene ss' t (json_int params ''scene'' 0) = Some e \<and>
    (\<forall>i x. map_of (d_Channels d) i = Some x \<longrightarrow> map_option cv_Value (map_of (se_Channels e) i) = Some x)"
proof -
  let ?n = "json_int params ''scene'' 0" and ?n' = "''undoScene''"
  let ?ss = "SaveScene (v_io v) t ?n (d_Channels d) ss"
  have "handleJSONNotification fm now ?n' params v = (json_ok, v\<lparr>v_scenes := Some ?ss\<rparr>)"
    using assms(1-3,5)
    by (auto simp: handleJSONNotification_def equal_fold_def Let_def json_on_audience_def json_then_ok_def resolve_def
        handleSaveSceneNotification_def save_scene_of_def upd_scenes_def)
  then show ?thesis using assms(6,7) save_channels [OF assms(4)]
    by (auto simp: processRequest_def Let_def json_ok_def GetScene_SaveScene)
qed

lemma json_undo_overwrites_witness:
  "\<exists>resp ss' e. processRequest ex_fmt 0 \<lparr>jq_ID = GNil, jq_Method = [], jq_Notification = ''undoScene'',
       jq_Params = [(''dSUID'', GStr lamp_id), (''scene'', GInt 5)]\<rparr> no_session lamp_vdc =
     (Some resp, False, no_session, lamp_vdc\<lparr>v_scenes := Some ss'\<rparr>) \<and>
     GetScene ss' lamp_id (json_int [(''dSUID'', GStr lamp_id), (''scene'', GInt 5)] ''scene'' 0) = Some e \<and>
     map_option cv_Value (map_of (se_Channels e) 0) = Some f64_75"
proof -
  let ?p = "[(''dSUID'', GStr lamp_id), (''scene'', GInt 5)]"
  have t: "trim_space lamp_id = lamp_id" "lamp_id \<noteq> []" by code_simp+
  then have a: "resolveJSONNotificationAudience lamp_vdc ?p = Inr ([lamp_id], False)"
    using lamp_target
    by (simp add: resolveJSONNotificationAudience_def json_raw_targets_def j_get_def go_get_def is_root_def is_vdc_target_def
        ensureAddressableTarget_def Let_def)
  have "d_Channels lamp = [(0, f64_75)]" by (simp add: lamp_def)
  with json_undo_overwrites [of lamp_vdc _ lamp_id lamp ?p "\<lparr>jq_ID = GNil, jq_Method = [], jq_Notification = ''undoScene'',
       jq_Params = ?p\<rparr>" ex_fmt 0 no_session] a
  show ?thesis by fastforce
qed

end
