(* ===== verification/Mqtt_Broker.thy ===== *)
theory Mqtt_Broker
  imports Property_Tree
begin

text \<open>
  The MQTT connection that other plugins share (\<^verbatim>\<open>pkg/bridge/mqtt/mqtt.go\<close>) and the register they find
  it in (\<^verbatim>\<open>pkg/services/mqtt/manager.go\<close>). A broker keeps the subscriptions of its consumers by
  topic filter and holds one subscription of the client library per filter, whose callback is
  fanned out. The library, paho, appears as the set of filters that it has been asked for
  (\<open>mb_installed\<close>) and as the outcome of each request. The locked part of an operation and the
  request to the library after it are separate definitions, since another operation may come between.
\<close>

section \<open>Topic filters\<close>

definition splitTopic :: "string \<Rightarrow> string list" where
  "splitTopic t = (if t = [] then [] else split_at_char (CHR ''/'') t)"

text \<open>The loop over the segments of the filter; the index is the number of segments passed.\<close>

fun match_segments :: "string list \<Rightarrow> string list \<Rightarrow> bool option" where
  "match_segments [] tp = None"
| "match_segments (seg # fp) tp =
     (if seg = ''#'' then Some True
      else case tp of
             [] \<Rightarrow> Some False
           | t # tp' \<Rightarrow> if seg = ''+'' then match_segments fp tp'
                        else if seg \<noteq> t then Some False else match_segments fp tp')"

definition topicMatches :: "string \<Rightarrow> string \<Rightarrow> bool" where
  "topicMatches filt topic =
     (if filt = topic then True
      else case match_segments (splitTopic filt) (splitTopic topic) of
             Some r \<Rightarrow> r
           | None \<Rightarrow> length (splitTopic filt) = length (splitTopic topic))"

section \<open>Brokers\<close>

record 'h subscription =
  su_topic :: string
  su_qos :: byte
  su_handler :: 'h
  su_closed :: bool

record 'h mqtt_broker =
  mb_objs :: "(nat, 'h subscription) gomap"
  mb_subs :: "nat list"
  mb_topicSubs :: "(string, nat list) gomap"
  mb_client :: bool
  mb_connected :: bool
  mb_status :: string
  mb_lastErr :: "string option"
  mb_installed :: "(string, byte) gomap"
  mb_next :: nat

definition newBroker :: "'h mqtt_broker" where
  "newBroker = \<lparr>mb_objs = [], mb_subs = [], mb_topicSubs = [], mb_client = False, mb_connected = False,
     mb_status = ''starting'', mb_lastErr = None, mb_installed = [], mb_next = 0\<rparr>"

definition setStatus :: "string \<Rightarrow> string option \<Rightarrow> 'h mqtt_broker \<Rightarrow> 'h mqtt_broker" where
  "setStatus s err b = b\<lparr>mb_status := s, mb_lastErr := err\<rparr>"

text \<open>The part of \<^verbatim>\<open>Subscribe\<close> under the lock: the new subscription and whether to ask the library.\<close>

definition sub_register :: "string \<Rightarrow> byte \<Rightarrow> 'h \<Rightarrow> 'h mqtt_broker \<Rightarrow> nat \<times> bool \<times> 'h mqtt_broker" where
  "sub_register topic qos h b =
     (let i = mb_next b; xs = go_get [] (mb_topicSubs b) topic
      in (i, mb_connected b \<and> xs = [],
          b\<lparr>mb_objs := AList.update i \<lparr>su_topic = topic, su_qos = qos, su_handler = h, su_closed = False\<rparr> (mb_objs b),
            mb_subs := mb_subs b @ [i], mb_topicSubs := AList.update topic (xs @ [i]) (mb_topicSubs b),
            mb_next := Suc i\<rparr>))"

text \<open>The request to the library, with the outcome \<open>err\<close> of its token.\<close>

definition installTopic :: "string option \<Rightarrow> string \<Rightarrow> byte \<Rightarrow> 'h mqtt_broker \<Rightarrow> 'h mqtt_broker \<times> string option" where
  "installTopic err topic qos b =
     (if \<not> mb_client b then (b, Some ''mqtt: not initialised'')
      else case err of
             Some e \<Rightarrow> (b, Some e)
           | None \<Rightarrow> (b\<lparr>mb_installed := AList.update topic qos (mb_installed b)\<rparr>, None))"

definition removeSub :: "nat \<Rightarrow> nat list \<Rightarrow> nat list" where
  "removeSub s xs = remove1 s xs"

text \<open>Out of the list of its topic; a topic with no subscription left loses its entry.\<close>

definition drop_sub :: "nat \<Rightarrow> string \<Rightarrow> 'h mqtt_broker \<Rightarrow> 'h mqtt_broker" where
  "drop_sub s topic b =
     (let xs = removeSub s (go_get [] (mb_topicSubs b) topic)
      in b\<lparr>mb_subs := remove1 s (mb_subs b),
           mb_topicSubs := (if xs = [] then AList.delete topic (mb_topicSubs b)
                            else AList.update topic xs (mb_topicSubs b))\<rparr>)"

definition mb_Subscribe ::
  "string option \<Rightarrow> string \<Rightarrow> byte \<Rightarrow> 'h \<Rightarrow> 'h mqtt_broker \<Rightarrow> 'h mqtt_broker \<times> (string + nat)" where
  "mb_Subscribe err topic qos h b =
     (case sub_register topic qos h b of
        (s, False, b') \<Rightarrow> (b', Inr s)
      | (s, True, b') \<Rightarrow>
          (case installTopic err topic qos b' of
             (b'', None) \<Rightarrow> (b'', Inr s)
           | (b'', Some e) \<Rightarrow> (drop_sub s topic b'', Inl e)))"

text \<open>\<^verbatim>\<open>Close\<close>: whether the library is to be asked to forget the topic.\<close>

definition close_locked :: "nat \<Rightarrow> 'h mqtt_broker \<Rightarrow> string option \<times> 'h mqtt_broker" where
  "close_locked s b =
     (case map_of (mb_objs b) s of
        None \<Rightarrow> (None, b)
      | Some u \<Rightarrow>
          if su_closed u then (None, b)
          else let b' = drop_sub s (su_topic u) (b\<lparr>mb_objs := AList.update s (u\<lparr>su_closed := True\<rparr>) (mb_objs b)\<rparr>)
               in (if \<not> go_has (mb_topicSubs b') (su_topic u) \<and> mb_client b' \<and> mb_connected b'
                   then Some (su_topic u) else None, b'))"

definition uninstall :: "string \<Rightarrow> 'h mqtt_broker \<Rightarrow> 'h mqtt_broker" where
  "uninstall topic b = b\<lparr>mb_installed := AList.delete topic (mb_installed b)\<rparr>"

definition mb_Close :: "nat \<Rightarrow> 'h mqtt_broker \<Rightarrow> 'h mqtt_broker" where
  "mb_Close s b =
     (case close_locked s b of (None, b') \<Rightarrow> b' | (Some topic, b') \<Rightarrow> uninstall topic b')"

section \<open>The connection\<close>

definition max_qos :: "'h mqtt_broker \<Rightarrow> nat list \<Rightarrow> byte" where
  "max_qos b xs = fold (\<lambda>s q. case map_of (mb_objs b) s of None \<Rightarrow> q | Some u \<Rightarrow> max q (su_qos u)) xs 0"

text \<open>The handler of a new connection: it notes the state, then copies the topics under the lock.\<close>

definition connect_noted :: "'h mqtt_broker \<Rightarrow> 'h mqtt_broker" where
  "connect_noted b = setStatus ''connected'' None (b\<lparr>mb_connected := True\<rparr>)"

definition connect_topics :: "'h mqtt_broker \<Rightarrow> (string, byte) gomap" where
  "connect_topics b = map (\<lambda>(topic, xs). (topic, max_qos b xs)) (mb_topicSubs b)"

definition on_connect :: "(string \<Rightarrow> string option) \<Rightarrow> 'h mqtt_broker \<Rightarrow> 'h mqtt_broker" where
  "on_connect outcome b =
     (let b' = connect_noted b
      in fold (\<lambda>(topic, qos) b. fst (installTopic (outcome topic) topic qos b)) (connect_topics b') b')"

text \<open>A lost connection; the session was clean, so the library starts with no filter again.\<close>

definition on_connection_lost :: "string \<Rightarrow> 'h mqtt_broker \<Rightarrow> 'h mqtt_broker" where
  "on_connection_lost err b = setStatus ''reconnecting'' (Some err) (b\<lparr>mb_connected := False, mb_installed := []\<rparr>)"

definition on_reconnecting :: "'h mqtt_broker \<Rightarrow> 'h mqtt_broker" where
  "on_reconnecting b = setStatus ''reconnecting'' None b"

definition broker_run :: "'h mqtt_broker \<Rightarrow> 'h mqtt_broker" where
  "broker_run b = setStatus ''connecting'' None (b\<lparr>mb_client := True\<rparr>)"

definition broker_stopped :: "'h mqtt_broker \<Rightarrow> 'h mqtt_broker" where
  "broker_stopped b = setStatus ''stopped'' None (b\<lparr>mb_connected := False, mb_installed := []\<rparr>)"

section \<open>Messages\<close>

text \<open>
  One callback of the library: the handlers of every subscription whose filter matches. The library
  calls it once for each filter it holds that matches the topic.
\<close>

definition dispatch_subs :: "'h mqtt_broker \<Rightarrow> string \<Rightarrow> nat list" where
  "dispatch_subs b topic =
     concat (map (\<lambda>(filt, xs). if topicMatches filt topic
        then filter (\<lambda>s. case map_of (mb_objs b) s of None \<Rightarrow> False | Some u \<Rightarrow> \<not> su_closed u) xs else [])
       (mb_topicSubs b))"

definition dispatch_handlers :: "'h mqtt_broker \<Rightarrow> string \<Rightarrow> 'h list" where
  "dispatch_handlers b topic = List.map_filter (\<lambda>s. map_option su_handler (map_of (mb_objs b) s)) (dispatch_subs b topic)"

definition arriving :: "(string \<Rightarrow> string \<Rightarrow> bool) \<Rightarrow> 'h mqtt_broker \<Rightarrow> string \<Rightarrow> nat list" where
  "arriving routes b topic =
     concat (map (\<lambda>(filt, q). if routes filt topic then dispatch_subs b topic else []) (mb_installed b))"

definition broker_Publish :: "string option \<Rightarrow> 'h mqtt_broker \<Rightarrow> string option" where
  "broker_Publish err b = (if \<not> mb_client b then Some ''mqtt: not initialised'' else err)"

section \<open>The register of brokers\<close>

text \<open>Listeners are told of every registration, in the order they were added.\<close>

record ('b, 'l) manager =
  mg_brokers :: "(string, 'b) gomap"
  mg_listeners :: "'l list"

definition NewManager :: "('b, 'l) manager" where
  "NewManager = \<lparr>mg_brokers = [], mg_listeners = []\<rparr>"

definition mgr_Register :: "string \<Rightarrow> 'b \<Rightarrow> ('b, 'l) manager \<Rightarrow> ('b, 'l) manager \<times> ('l \<times> string \<times> 'b option \<times> bool) list" where
  "mgr_Register i b m =
     (m\<lparr>mg_brokers := AList.update i b (mg_brokers m)\<rparr>, map (\<lambda>l. (l, i, Some b, True)) (mg_listeners m))"

definition mgr_Unregister :: "string \<Rightarrow> ('b, 'l) manager \<Rightarrow> ('b, 'l) manager \<times> ('l \<times> string \<times> 'b option \<times> bool) list" where
  "mgr_Unregister i m =
     (m\<lparr>mg_brokers := AList.delete i (mg_brokers m)\<rparr>,
      case map_of (mg_brokers m) i of None \<Rightarrow> [] | Some b \<Rightarrow> map (\<lambda>l. (l, i, Some b, False)) (mg_listeners m))"

definition mgr_Get :: "string \<Rightarrow> ('b, 'l) manager \<Rightarrow> string + 'b" where
  "mgr_Get i m = (case map_of (mg_brokers m) i of None \<Rightarrow> Inl ''mqtt: broker not found'' | Some b \<Rightarrow> Inr b)"

definition mgr_IDs :: "('b, 'l) manager \<Rightarrow> string list" where "mgr_IDs m = map fst (mg_brokers m)"

definition mgr_AddListener :: "'l \<Rightarrow> ('b, 'l) manager \<Rightarrow> ('b, 'l) manager" where
  "mgr_AddListener l m = m\<lparr>mg_listeners := mg_listeners m @ [l]\<rparr>"

section \<open>Configuration\<close>

record will_config =
  wl_topic :: string
  wl_payload :: string
  wl_qos :: byte
  wl_retain :: bool

record mqtt_config =
  mc_host :: string
  mc_port :: int
  mc_tls :: bool
  mc_tlsInsecure :: bool
  mc_caCert :: string
  mc_clientID :: string
  mc_username :: string
  mc_password :: string
  mc_keepalive :: int
  mc_cleanSession :: bool
  mc_will :: "will_config option"

definition cfg_str :: "obj \<Rightarrow> string \<Rightarrow> string" where
  "cfg_str m k = (case j_str m k of Some s \<Rightarrow> s | None \<Rightarrow> [])"

definition intField :: "obj \<Rightarrow> string \<Rightarrow> int option" where
  "intField m k =
     (case j_get m k of
        GInt n \<Rightarrow> Some n | GInt64 w \<Rightarrow> Some (sint w) | GFloat x \<Rightarrow> Some (f64_to_int x) | GStr s \<Rightarrow> atoi s | _ \<Rightarrow> None)"

definition parse_bool :: "string \<Rightarrow> bool option" where
  "parse_bool s =
     (if s \<in> {''1'', ''t'', ''T'', ''TRUE'', ''true'', ''True''} then Some True
      else if s \<in> {''0'', ''f'', ''F'', ''FALSE'', ''false'', ''False''} then Some False else None)"

definition cfg_bool :: "obj \<Rightarrow> string \<Rightarrow> bool option" where
  "cfg_bool m k = (case j_get m k of GBool b \<Rightarrow> Some b | GStr s \<Rightarrow> parse_bool s | _ \<Rightarrow> None)"

definition opt_or :: "'a option \<Rightarrow> 'a \<Rightarrow> 'a" where
  "opt_or x y = (case x of None \<Rightarrow> y | Some z \<Rightarrow> z)"

definition parse_will :: "obj \<Rightarrow> will_config option" where
  "parse_will w =
     (if cfg_str w ''topic'' = [] then None
      else Some \<lparr>wl_topic = cfg_str w ''topic'', wl_payload = cfg_str w ''payload'',
        wl_qos = word_of_int (opt_or (intField w ''qos'') 0), wl_retain = opt_or (cfg_bool w ''retain'') False\<rparr>)"

definition parseConfig :: "obj \<Rightarrow> string + mqtt_config" where
  "parseConfig cfg =
     (if cfg_str cfg ''host'' = [] then Inl ([CHR 0x27] @ ''host'' @ [CHR 0x27] @ '' is required'')
      else let port = opt_or (intField cfg ''port'') 1883; tls = opt_or (cfg_bool cfg ''tls'') False
           in Inr \<lparr>mc_host = cfg_str cfg ''host'', mc_port = (if tls \<and> port = 1883 then 8883 else port), mc_tls = tls,
                mc_tlsInsecure = opt_or (cfg_bool cfg ''tlsInsecure'') False, mc_caCert = cfg_str cfg ''caCert'',
                mc_clientID = (if cfg_str cfg ''clientId'' = [] then ''vdcgo'' else cfg_str cfg ''clientId''),
                mc_username = cfg_str cfg ''username'', mc_password = cfg_str cfg ''password'',
                mc_keepalive = opt_or (intField cfg ''keepalive'') 60,
                mc_cleanSession = opt_or (cfg_bool cfg ''cleanSession'') True,
                mc_will = (case j_obj (j_get cfg ''will'') of None \<Rightarrow> None | Some w \<Rightarrow> parse_will w)\<rparr>)"

end
