(* ===== verification/Broker_Properties.thy ===== *)
theory Broker_Properties
  imports Mqtt_Broker
begin

text \<open>
  What the shared MQTT connection does with its subscriptions: filters match as the protocol says,
  every matching subscription is called once, and none is lost while nothing goes wrong between the
  locked part of an operation and its request to the library; and two runs in which one is.
\<close>

section \<open>Matching as the protocol defines it\<close>

text \<open>MQTT 3.1.1, section 4.7: + stands for one level, # for any number of levels at the end.\<close>

fun mqtt_match :: "string list \<Rightarrow> string list \<Rightarrow> bool" where
  "mqtt_match [] ts = (ts = [])"
| "mqtt_match (f # fs) ts =
     (if f = ''#'' \<and> fs = [] then True
      else case ts of [] \<Rightarrow> False | t # ts' \<Rightarrow> (f = ''+'' \<or> f = t) \<and> mqtt_match fs ts')"

definition filter_ok :: "string \<Rightarrow> bool" where
  "filter_ok filt \<longleftrightarrow> ''#'' \<notin> set (butlast (splitTopic filt))"

lemma match_segments_spec:
  "''#'' \<notin> set (butlast fp) \<Longrightarrow>
   (case match_segments fp tp of Some r \<Rightarrow> r | None \<Rightarrow> length fp = length tp) = mqtt_match fp tp"
proof (induction fp arbitrary: tp)
  case (Cons f fp)
  then have "fp \<noteq> [] \<Longrightarrow> f \<noteq> ''#''" "''#'' \<notin> set (butlast fp)" by (auto split: if_splits)
  with Cons.IH [of "tl tp"] show ?case by (cases tp) (auto split: option.splits if_splits)
qed simp

lemma mqtt_match_refl: "''#'' \<notin> set (butlast fp) \<Longrightarrow> mqtt_match fp fp"
  by (induction fp) (auto split: if_splits)



section \<open>Operations that interleave\<close>

text \<open>What an operation still has to ask the library for, after it has released the lock.\<close>

datatype task = Install nat string byte | Release string | CopyTopics | Reinstall string byte

datatype 'h broker_op =
    BRun | BSubscribe string byte 'h | BClose nat | BConnect | BLost string
  | BDo nat "string option"
  \<comment> \<open>the task at the position given goes on, with the outcome the library reports\<close>

fun do_task :: "task \<Rightarrow> string option \<Rightarrow> 'h mqtt_broker \<Rightarrow> 'h mqtt_broker \<times> task list" where
  "do_task (Install s topic qos) err b =
     (case installTopic err topic qos b of (b', None) \<Rightarrow> (b', []) | (b', Some _) \<Rightarrow> (drop_sub s topic b', []))"
| "do_task (Release topic) err b = (uninstall topic b, [])"
| "do_task CopyTopics err b = (b, map (\<lambda>(topic, qos). Reinstall topic qos) (connect_topics b))"
| "do_task (Reinstall topic qos) err b = (fst (installTopic err topic qos b), [])"

fun broker_do :: "'h broker_op \<Rightarrow> 'h mqtt_broker \<times> task list \<Rightarrow> 'h mqtt_broker \<times> task list" where
  "broker_do BRun (b, ts) = (broker_run b, ts)"
| "broker_do (BSubscribe topic qos h) (b, ts) =
     (case sub_register topic qos h b of (s, ask, b') \<Rightarrow> (b', ts @ (if ask then [Install s topic qos] else [])))"
| "broker_do (BClose s) (b, ts) =
     (case close_locked s b of (rel, b') \<Rightarrow> (b', ts @ (case rel of None \<Rightarrow> [] | Some topic \<Rightarrow> [Release topic])))"
| "broker_do BConnect (b, ts) = (if mb_client b then (connect_noted b, ts @ [CopyTopics]) else (b, ts))"
| "broker_do (BLost e) (b, ts) = (on_connection_lost e b, ts)"
| "broker_do (BDo n err) (b, ts) =
     (if n < length ts then case do_task (ts ! n) err b of (b', new) \<Rightarrow> (b', take n ts @ drop (Suc n) ts @ new) else (b, ts))"

text \<open>Subscribing and closing without a break are what the two halves do one after the other.\<close>

lemma subscribe_undisturbed:
  "fst (mb_Subscribe err topic qos h b) =
     (case broker_do (BSubscribe topic qos h) (b, []) of (b', ts) \<Rightarrow> fst (broker_do (BDo 0 err) (b', ts)))"
  by (simp add: mb_Subscribe_def split: option.split prod.split bool.split)

lemma close_undisturbed:
  "mb_Close s b = (case broker_do (BClose s) (b, []) of (b', ts) \<Rightarrow> fst (broker_do (BDo 0 None) (b', ts)))"
  by (simp add: mb_Close_def split: option.split prod.split)

subsection \<open>The lists of subscriptions\<close>

definition sub_listed :: "'h mqtt_broker \<Rightarrow> nat \<Rightarrow> string \<Rightarrow> bool" where
  "sub_listed b s topic \<longleftrightarrow> s \<in> set (go_get [] (mb_topicSubs b) topic)"

definition broker_wf :: "'h mqtt_broker \<Rightarrow> bool" where
  "broker_wf b \<longleftrightarrow> distinct (map fst (mb_topicSubs b)) \<and>
     (\<forall>topic xs. map_of (mb_topicSubs b) topic = Some xs \<longrightarrow> xs \<noteq> [] \<and> distinct xs \<and>
        (\<forall>s \<in> set xs. \<exists>u. map_of (mb_objs b) s = Some u \<and> su_topic u = topic \<and> \<not> su_closed u)) \<and>
     (\<forall>s u. map_of (mb_objs b) s = Some u \<longrightarrow> s < mb_next b)"

lemma wf_cong: "mb_topicSubs b = mb_topicSubs b' \<Longrightarrow> mb_objs b = mb_objs b' \<Longrightarrow> mb_next b = mb_next b' \<Longrightarrow>
    broker_wf b = broker_wf b'"
  by (simp add: broker_wf_def)

lemma wf_simple [simp]:
  "broker_wf (setStatus st e b) = broker_wf b" "broker_wf (uninstall t b) = broker_wf b"
  "broker_wf (b\<lparr>mb_connected := c\<rparr>) = broker_wf b" "broker_wf (b\<lparr>mb_connected := c, mb_installed := i\<rparr>) = broker_wf b"
  "broker_wf (b\<lparr>mb_client := c\<rparr>) = broker_wf b" "broker_wf (fst (installTopic err t q b)) = broker_wf b"
  by (rule wf_cong; simp add: setStatus_def uninstall_def installTopic_def split: option.split)+

lemma wf_new: "broker_wf newBroker" by (simp add: broker_wf_def newBroker_def)

lemma wf_register: "broker_wf b \<Longrightarrow> sub_register t q h b = (s, ask, b') \<Longrightarrow> broker_wf b'"
  by (auto simp: broker_wf_def sub_register_def Let_def go_get_def less_Suc_eq simp del: map_of_eq_Some_iff Some_eq_map_of_iff
      split: option.splits if_splits) (metis less_irrefl_nat)+

lemma wf_drop: "broker_wf b \<Longrightarrow> broker_wf (drop_sub s t b)"
  by (auto simp: broker_wf_def drop_sub_def removeSub_def Let_def go_get_def simp del: map_of_eq_Some_iff Some_eq_map_of_iff
      split: option.splits if_splits dest: notin_set_remove1)

lemma wf_close: "broker_wf b \<Longrightarrow> broker_wf (snd (close_locked s b))"
proof -
  assume wf: "broker_wf b"
  show ?thesis
  proof (cases "map_of (mb_objs b) s")
    case (Some u)
    let ?b = "b\<lparr>mb_objs := AList.update s (u\<lparr>su_closed := True\<rparr>) (mb_objs b)\<rparr>"
    let ?d = "drop_sub s (su_topic u) ?b"
    have t: "map_of (mb_topicSubs ?d) topic = Some xs \<Longrightarrow> xs \<noteq> [] \<and> s \<notin> set xs \<and> distinct xs \<and>
        (\<exists>ys. map_of (mb_topicSubs b) topic = Some ys \<and> set xs \<subseteq> set ys)" for topic xs
      using wf Some by (auto simp: broker_wf_def drop_sub_def removeSub_def Let_def go_get_def simp del: map_of_eq_Some_iff
          Some_eq_map_of_iff split: if_splits option.splits dest: notin_set_remove1) (metis option.inject)+
    have "broker_wf ?d"
      unfolding broker_wf_def
    proof (intro conjI allI impI ballI)
      show "distinct (map fst (mb_topicSubs ?d))" using wf by (simp add: broker_wf_def drop_sub_def Let_def)
      fix i v assume "map_of (mb_objs ?d) i = Some v"
      then show "i < mb_next ?d" using wf Some by (auto simp: broker_wf_def drop_sub_def Let_def split: if_splits)
    next
      fix topic xs i assume x: "map_of (mb_topicSubs ?d) topic = Some xs"
      from t [OF this] show "xs \<noteq> []" "distinct xs" by blast+
      assume "i \<in> set xs"
      with t [OF x] obtain ys where "i \<noteq> s" "map_of (mb_topicSubs b) topic = Some ys" "i \<in> set ys" by auto
      with wf show "\<exists>v. map_of (mb_objs ?d) i = Some v \<and> su_topic v = topic \<and> \<not> su_closed v"
        by (auto simp: broker_wf_def drop_sub_def Let_def simp del: map_of_eq_Some_iff)
    qed
    with Some wf show ?thesis by (simp add: close_locked_def Let_def)
  qed (simp add: close_locked_def wf)
qed

lemma wf_connect [simp]: "broker_wf (connect_noted b) = broker_wf b" "broker_wf (on_connection_lost e b) = broker_wf b"
  "broker_wf (broker_run b) = broker_wf b"
  by (simp_all add: connect_noted_def on_connection_lost_def broker_run_def)

lemma wf_task: "broker_wf b \<Longrightarrow> broker_wf (fst (do_task t err b))"
proof (cases t)
  case (Install s topic qos)
  assume "broker_wf b"
  then have "broker_wf (fst (installTopic err topic qos b))" by simp
  with Install show ?thesis by (cases "installTopic err topic qos b") (auto split: option.split intro: wf_drop)
qed simp_all

lemma wf_do: "broker_wf b \<Longrightarrow> broker_wf (fst (broker_do op (b, ts)))"
proof (cases op)
  case (BSubscribe topic qos h)
  assume "broker_wf b"
  with BSubscribe show ?thesis using wf_register [of b topic qos h] by (cases "sub_register topic qos h b") auto
next
  case (BClose s)
  assume "broker_wf b"
  with BClose show ?thesis using wf_close [of b s] by (cases "close_locked s b") auto
next
  case (BDo n err)
  assume "broker_wf b"
  with BDo show ?thesis using wf_task [of b "ts ! n" err] by (auto split: prod.split)
qed simp_all

inductive broker_reach :: "'h mqtt_broker \<times> task list \<Rightarrow> bool" where
  start: "broker_reach (newBroker, [])"
| step: "broker_reach s \<Longrightarrow> broker_reach (broker_do op s)"

lemma broker_reach_wf: "broker_reach s \<Longrightarrow> broker_wf (fst s)"
  by (induction rule: broker_reach.induct) (auto simp: wf_new intro: wf_do)

section \<open>Who gets a message\<close>

lemma listed_open: "broker_wf b \<Longrightarrow> sub_listed b s topic \<Longrightarrow>
    \<exists>u. map_of (mb_objs b) s = Some u \<and> su_topic u = topic \<and> \<not> su_closed u"
  by (auto simp: broker_wf_def sub_listed_def go_get_def simp del: map_of_eq_Some_iff split: option.splits)

lemma dispatch_subs_wf:
  assumes "broker_wf b"
  shows "dispatch_subs b topic = concat (map (\<lambda>(filt, xs). if topicMatches filt topic then xs else []) (mb_topicSubs b))"
proof -
  have "filter (\<lambda>s. case map_of (mb_objs b) s of None \<Rightarrow> False | Some u \<Rightarrow> \<not> su_closed u) xs = xs"
    if "(filt, xs) \<in> set (mb_topicSubs b)" for filt xs
    using that assms by (auto simp: filter_id_conv broker_wf_def split: option.split) fastforce+
  then show ?thesis unfolding dispatch_subs_def by (intro arg_cong [where f = concat] map_cong) auto
qed

lemma listed_iff:
  assumes "broker_wf b"
  shows "sub_listed b s filt \<longleftrightarrow> (\<exists>xs. (filt, xs) \<in> set (mb_topicSubs b) \<and> s \<in> set xs)"
proof -
  have d: "distinct (map fst (mb_topicSubs b))" using assms by (simp add: broker_wf_def)
  show ?thesis
  proof (cases "map_of (mb_topicSubs b) filt")
    case None
    then have "(filt, xs) \<notin> set (mb_topicSubs b)" for xs by (force simp: map_of_eq_None_iff)
    with None show ?thesis by (simp add: sub_listed_def go_get_def)
  next
    case (Some ys)
    then have "(filt, xs) \<in> set (mb_topicSubs b) \<longleftrightarrow> xs = ys" for xs using map_of_eq_Some_iff [OF d, of filt xs] by auto
    with Some show ?thesis by (simp add: sub_listed_def go_get_def)
  qed
qed

lemma distinct_concat_keyed:
  assumes "distinct (map fst m)" "\<And>k xs. (k, xs) \<in> set m \<Longrightarrow> distinct xs \<and> (\<forall>s \<in> set xs. owner s = k)"
  shows "distinct (concat (map (\<lambda>(k, xs). if P k then xs else []) m))"
  using assms
proof (induction m)
  case (Cons a m)
  obtain k xs where a: "a = (k, xs)" by (cases a)
  let ?rest = "concat (map (\<lambda>(k, xs). if P k then xs else []) m)"
  have "\<forall>s \<in> set ?rest. owner s \<in> fst ` set m"
    using Cons.prems(2) by (force split: if_splits)
  moreover have "k \<notin> fst ` set m" "distinct xs" "\<forall>s \<in> set xs. owner s = k" using Cons.prems a by auto
  ultimately have "set xs \<inter> set ?rest = {}" by (metis disjoint_iff)
  moreover have "distinct ?rest" by (rule Cons.IH) (use Cons.prems in auto)
  ultimately show ?case using a \<open>distinct xs\<close> by simp
qed simp


lemma in_map_filter: "y \<in> set (List.map_filter f xs) \<longleftrightarrow> (\<exists>x \<in> set xs. f x = Some y)"
  by (induction xs) (auto simp: map_filter_simps split: option.split)

lemma handlers_iff:
  assumes "broker_wf b"
  shows "h \<in> set (dispatch_handlers b topic) \<longleftrightarrow>
    (\<exists>s u filt. sub_listed b s filt \<and> topicMatches filt topic \<and> map_of (mb_objs b) s = Some u \<and> su_handler u = h)"
proof -
  have "s \<in> set (dispatch_subs b topic) \<longleftrightarrow> (\<exists>filt. sub_listed b s filt \<and> topicMatches filt topic)" for s
    unfolding dispatch_subs_wf [OF assms] listed_iff [OF assms] by (auto split: if_splits)
  moreover have "h \<in> set (dispatch_handlers b topic) \<longleftrightarrow>
      (\<exists>s \<in> set (dispatch_subs b topic). \<exists>u. map_of (mb_objs b) s = Some u \<and> su_handler u = h)"
    unfolding dispatch_handlers_def in_map_filter by auto
  ultimately show ?thesis by blast
qed

lemma register_topics:
  assumes "sub_register topic q h b = (s, ask, b')"
  shows "s = mb_next b" "mb_objs b' = AList.update s \<lparr>su_topic = topic, su_qos = q, su_handler = h, su_closed = False\<rparr> (mb_objs b)"
    "sub_listed b' j filt \<longleftrightarrow> sub_listed b j filt \<or> j = s \<and> filt = topic" "mb_client b' = mb_client b"
    "mb_connected b' = mb_connected b" "ask \<longrightarrow> mb_connected b"
  using assms by (auto simp: sub_register_def Let_def sub_listed_def split: if_splits)

text \<open>A broker on which subscribing succeeds when the library agrees.\<close>

definition broker_usable :: "'h mqtt_broker \<Rightarrow> bool" where
  "broker_usable b \<longleftrightarrow> broker_wf b \<and> (mb_connected b \<longrightarrow> mb_client b)"

lemma subscribe_serves:
  assumes "broker_usable b" "mb_Subscribe None topic q h b = (b', r)"
  shows "broker_usable b'" "\<exists>n. r = Inr n"
    "set (dispatch_handlers b' t) = set (dispatch_handlers b t) \<union> (if topicMatches topic t then {h} else {})"
proof -
  obtain s ask b1 where reg: "sub_register topic q h b = (s, ask, b1)" by (cases "sub_register topic q h b")
  note v = register_topics [OF reg]
  have wf: "broker_wf b" "broker_wf b1" using assms(1) wf_register [OF _ reg] by (auto simp: broker_usable_def)
  have client: "ask \<longrightarrow> mb_client b1" using v(4,6) assms(1) by (simp add: broker_usable_def)
  have "\<exists>i. b' = b1\<lparr>mb_installed := i\<rparr> \<and> r = Inr s"
  proof (cases ask)
    case True
    then have "b' = b1\<lparr>mb_installed := AList.update topic q (mb_installed b1)\<rparr> \<and> r = Inr s"
      using assms(2) client by (simp add: mb_Subscribe_def reg installTopic_def)
    then show ?thesis by blast
  next
    case False
    then show ?thesis using assms(2) by (auto simp: mb_Subscribe_def reg intro!: exI [of _ "mb_installed b1"])
  qed
  then obtain i where i: "b' = b1\<lparr>mb_installed := i\<rparr>" and r: "r = Inr s" by blast
  have wf': "broker_wf b'" using wf(2) wf_cong [of b' b1] i by simp
  then show "broker_usable b'" using assms(1) v(4,5) i by (simp add: broker_usable_def)
  show "\<exists>n. r = Inr n" using r by blast
  have new: "map_of (mb_objs b) s = None" using wf(1) v(1) unfolding broker_wf_def by (metis less_irrefl_nat not_None_eq)
  have old: "sub_listed b j filt \<Longrightarrow> j \<noteq> s" for j filt using listed_open [OF wf(1)] new by force
  have L: "sub_listed b' j filt \<longleftrightarrow> sub_listed b j filt \<or> j = s \<and> filt = topic" for j filt
    using v(3) i by (simp add: sub_listed_def)
  have M: "map_of (mb_objs b') j = (if j = s then Some \<lparr>su_topic = topic, su_qos = q, su_handler = h, su_closed = False\<rparr>
      else map_of (mb_objs b) j)" for j using v(2) i by simp
  have "h' \<in> set (dispatch_handlers b' t) \<longleftrightarrow> h' \<in> set (dispatch_handlers b t) \<or> topicMatches topic t \<and> h' = h" for h'
  proof
    assume "h' \<in> set (dispatch_handlers b' t)"
    then obtain j u filt where "sub_listed b' j filt" "topicMatches filt t" "map_of (mb_objs b') j = Some u" "su_handler u = h'"
      unfolding handlers_iff [OF wf'] by blast
    then show "h' \<in> set (dispatch_handlers b t) \<or> topicMatches topic t \<and> h' = h"
      unfolding handlers_iff [OF wf(1)] L M using old [of j filt] by (cases "j = s") (auto split: if_splits)
  next
    assume "h' \<in> set (dispatch_handlers b t) \<or> topicMatches topic t \<and> h' = h"
    then show "h' \<in> set (dispatch_handlers b' t)"
    proof
      assume "h' \<in> set (dispatch_handlers b t)"
      then obtain j u filt where "sub_listed b j filt" "topicMatches filt t" "map_of (mb_objs b) j = Some u" "su_handler u = h'"
        unfolding handlers_iff [OF wf(1)] by blast
      then show ?thesis unfolding handlers_iff [OF wf'] L M using old [of j filt] by auto
    next
      assume "topicMatches topic t \<and> h' = h"
      then show ?thesis unfolding handlers_iff [OF wf'] L M by (auto intro!: exI [of _ s])
    qed
  qed
  then show "set (dispatch_handlers b' t) = set (dispatch_handlers b t) \<union> (if topicMatches topic t then {h} else {})" by auto
qed

section \<open>No subscription is lost, and when one is\<close>

text \<open>
  A calm run: every request to the library succeeds, and closing a subscription is not
  interrupted. Subscribing, connecting and losing the connection may still interleave.
\<close>

fun calm_op :: "'h broker_op \<Rightarrow> bool" where
  "calm_op (BClose s) = False"
| "calm_op (BDo n err) = (err = None)"
| "calm_op _ = True"

inductive calm_reach :: "'h mqtt_broker \<times> task list \<Rightarrow> bool" where
  start: "calm_reach (newBroker, [])"
| step: "calm_reach s \<Longrightarrow> calm_op op \<Longrightarrow> calm_reach (broker_do op s)"
| close: "calm_reach (b, ts) \<Longrightarrow> calm_reach (mb_Close s b, ts)"

text \<open>The topic is installed, or a request for it is still to come.\<close>

definition asked_for :: "'h mqtt_broker \<Rightarrow> task list \<Rightarrow> string \<Rightarrow> bool" where
  "asked_for b ts topic \<longleftrightarrow> go_has (mb_installed b) topic \<or> CopyTopics \<in> set ts \<or>
     (\<exists>s q. Install s topic q \<in> set ts) \<or> (\<exists>q. Reinstall topic q \<in> set ts)"

definition calm_ok :: "'h mqtt_broker \<times> task list \<Rightarrow> bool" where
  "calm_ok = (\<lambda>(b, ts). broker_wf b \<and> (\<forall>topic. Release topic \<notin> set ts) \<and> (\<not> mb_client b \<longrightarrow> ts = [] \<and> \<not> mb_connected b) \<and>
     (\<forall>s u. map_of (mb_objs b) s = Some u \<longrightarrow> \<not> su_closed u \<longrightarrow> sub_listed b s (su_topic u)) \<and>
     (mb_connected b \<longrightarrow> (\<forall>topic. go_has (mb_topicSubs b) topic \<longrightarrow> asked_for b ts topic)))"

lemma go_get_delete [simp]: "go_get z (AList.delete k m) j = (if j = k then z else go_get z m j)"
  by (simp add: go_get_def)

lemma has_get: "go_get [] m k \<noteq> [] \<Longrightarrow> go_has m k"
  by (auto simp: go_get_def go_has_def split: option.splits)

lemma drop_fields [simp]:
  "mb_objs (drop_sub s t b) = mb_objs b" "mb_client (drop_sub s t b) = mb_client b" "mb_next (drop_sub s t b) = mb_next b"
  "mb_connected (drop_sub s t b) = mb_connected b" "mb_installed (drop_sub s t b) = mb_installed b"
  by (simp_all add: drop_sub_def Let_def)

lemma drop_topics [simp]:
  "go_get [] (mb_topicSubs (drop_sub s t b)) topic =
     (if topic = t then remove1 s (go_get [] (mb_topicSubs b) t) else go_get [] (mb_topicSubs b) topic)"
  "go_has (mb_topicSubs (drop_sub s t b)) topic \<longleftrightarrow>
     (if topic = t then remove1 s (go_get [] (mb_topicSubs b) t) \<noteq> [] else go_has (mb_topicSubs b) topic)"
  by (cases "remove1 s (go_get [] (mb_topicSubs b) t) = []"; simp add: drop_sub_def removeSub_def Let_def)+

lemma close_fields:
  assumes "close_locked s b = (rel, b')" "map_of (mb_objs b) s = Some u" "\<not> su_closed u"
  shows "mb_objs b' = AList.update s (u\<lparr>su_closed := True\<rparr>) (mb_objs b)" "mb_client b' = mb_client b"
    "mb_connected b' = mb_connected b" "mb_installed b' = mb_installed b"
    "sub_listed b' i topic \<longleftrightarrow> (if topic = su_topic u then i \<in> set (remove1 s (go_get [] (mb_topicSubs b) topic)) else sub_listed b i topic)"
    "go_has (mb_topicSubs b') topic \<longleftrightarrow>
       (if topic = su_topic u then remove1 s (go_get [] (mb_topicSubs b) topic) \<noteq> [] else go_has (mb_topicSubs b) topic)"
    "rel = (if remove1 s (go_get [] (mb_topicSubs b) (su_topic u)) = [] \<and> mb_client b \<and> mb_connected b then Some (su_topic u) else None)"
  using assms by (auto simp: close_locked_def sub_listed_def Let_def)

lemma calm_close:
  assumes "calm_ok (b, ts)"
  shows "calm_ok (mb_Close s b, ts)"
proof (cases "close_locked s b")
  case (Pair rel b')
  show ?thesis
  proof (cases "map_of (mb_objs b) s")
    case None
    then show ?thesis using assms by (simp add: mb_Close_def close_locked_def)
  next
    case (Some u)
    show ?thesis
    proof (cases "su_closed u")
      case True
      then show ?thesis using assms Some by (simp add: mb_Close_def close_locked_def)
    next
      case False
      note f = close_fields [OF Pair Some False]
      have wf: "broker_wf b'" using wf_close [of b s] assms Pair by (simp add: calm_ok_def)
      let ?c = "mb_Close s b"
      have c: "mb_objs ?c = mb_objs b'" "mb_topicSubs ?c = mb_topicSubs b'" "mb_client ?c = mb_client b"
        "mb_connected ?c = mb_connected b" "broker_wf ?c"
        "mb_installed ?c = (case rel of None \<Rightarrow> mb_installed b | Some t \<Rightarrow> AList.delete t (mb_installed b))"
        using f(1-4) wf Pair wf_simple(2) [of _ b'] by (auto simp: mb_Close_def uninstall_def split: option.split)
      then have l: "sub_listed ?c i t = sub_listed b' i t" for i t by (simp add: sub_listed_def)
      have "i \<noteq> s \<Longrightarrow> sub_listed b i t \<Longrightarrow> sub_listed b' i t" for i t
        by (simp add: f(5)) (auto simp: sub_listed_def)
      then have "map_of (mb_objs ?c) i = Some v \<Longrightarrow> \<not> su_closed v \<Longrightarrow> sub_listed ?c i (su_topic v)" for i v
        using assms c(1) f(1) l by (auto simp: calm_ok_def split: if_splits)
      moreover have "go_has (mb_topicSubs ?c) t \<Longrightarrow> asked_for b ts t \<Longrightarrow> asked_for ?c ts t" for t
        using c f(6,7) by (auto simp: asked_for_def split: option.splits if_splits)
      moreover have "go_has (mb_topicSubs ?c) t \<Longrightarrow> go_has (mb_topicSubs b) t" for t
        unfolding c(2) f(6) by (cases "go_get [] (mb_topicSubs b) t = []") (auto simp: has_get split: if_splits)
      ultimately show ?thesis using assms c(3-5) by (auto simp: calm_ok_def)
    qed
  qed
qed

lemma asked_mono: "go_has (mb_installed b) topic \<longrightarrow> go_has (mb_installed b') topic \<Longrightarrow> set ts \<subseteq> set ts' \<Longrightarrow>
    asked_for b ts topic \<Longrightarrow> asked_for b' ts' topic"
  unfolding asked_for_def by blast

lemma sub_listed_cong: "mb_topicSubs b' = mb_topicSubs b \<Longrightarrow> sub_listed b' = sub_listed b"
  by (simp add: fun_eq_iff sub_listed_def)

text \<open>A step that leaves the subscriptions alone.\<close>

lemma calm_keep:
  assumes "calm_ok (b, ts)" "mb_topicSubs b' = mb_topicSubs b" "mb_objs b' = mb_objs b" "mb_next b' = mb_next b"
    "\<forall>topic. Release topic \<notin> set ts'" "\<not> mb_client b' \<longrightarrow> ts' = [] \<and> \<not> mb_connected b'"
    "\<And>topic. mb_connected b' \<Longrightarrow> go_has (mb_topicSubs b) topic \<Longrightarrow> asked_for b' ts' topic"
  shows "calm_ok (b', ts')"
  using assms wf_cong [OF assms(2-4)] sub_listed_cong [OF assms(2)] by (simp add: calm_ok_def)

lemma nth_removed: "n < length ts \<Longrightarrow> x \<in> set ts \<Longrightarrow> x = ts ! n \<or> x \<in> set (take n ts @ drop (Suc n) ts)"
  by (metis Un_iff id_take_nth_drop insert_iff list.simps(15) set_append)

lemma removed_subset: "set (take n ts @ drop (Suc n) ts) \<subseteq> set ts"
  using set_take_subset set_drop_subset by fastforce

lemma calm_task:
  assumes "calm_ok (b, ts)" "n < length ts" "do_task (ts ! n) None b = (b', new)"
  shows "calm_ok (b', take n ts @ drop (Suc n) ts @ new)"
proof -
  let ?ts = "take n ts @ drop (Suc n) ts"
  have c: "mb_client b" using assms(1,2) by (auto simp: calm_ok_def)
  have rel: "\<forall>topic. Release topic \<notin> set ts" using assms(1) by (simp add: calm_ok_def)
  have ask: "go_has (mb_topicSubs b) topic \<Longrightarrow> mb_connected b \<Longrightarrow> asked_for b ts topic" for topic
    using assms(1) by (simp add: calm_ok_def)
  have mem: "x \<in> set ts \<Longrightarrow> x = ts ! n \<or> x \<in> set ?ts" for x by (rule nth_removed [OF assms(2)])
  have f: "mb_topicSubs b' = mb_topicSubs b" "mb_objs b' = mb_objs b" "mb_next b' = mb_next b" "mb_client b'"
      "mb_connected b' = mb_connected b" "\<forall>topic. Release topic \<notin> set new"
    using assms(3) c rel assms(2) nth_mem [OF assms(2)]
    by (cases "ts ! n"; auto simp: installTopic_def connect_topics_def split: prod.splits)+
  have "asked_for b' (?ts @ new) topic" if t: "go_has (mb_topicSubs b) topic" "mb_connected b" for topic
  proof (cases "ts ! n")
    case (Install s t q)
    then have "b' = b\<lparr>mb_installed := AList.update t q (mb_installed b)\<rparr>" using assms(3) c by (simp add: installTopic_def)
    with ask [OF t] mem Install show ?thesis unfolding asked_for_def by (auto dest!: mem)
  next
    case CopyTopics
    then have "new = map (\<lambda>(topic, qos). Reinstall topic qos) (connect_topics b)"
      using assms(3) by (metis do_task.simps(3) prod.inject)
    moreover obtain xs where "(topic, xs) \<in> set (mb_topicSubs b)" using t(1) by (auto simp: go_has_iff_keys)
    ultimately have "Reinstall topic (max_qos b xs) \<in> set new" by (force simp: connect_topics_def)
    then show ?thesis by (auto simp: asked_for_def)
  next
    case (Reinstall t q)
    then have "b' = b\<lparr>mb_installed := AList.update t q (mb_installed b)\<rparr>" using assms(3) c by (simp add: installTopic_def)
    with ask [OF t] mem Reinstall show ?thesis unfolding asked_for_def by (auto dest!: mem)
  next
    case (Release t)
    then show ?thesis using rel nth_mem [OF assms(2)] by auto
  qed
  moreover have "\<forall>topic. Release topic \<notin> set (?ts @ new)" using rel removed_subset [of n ts] f(6) by auto
  moreover have "\<not> mb_client b' \<longrightarrow> ?ts @ new = [] \<and> \<not> mb_connected b'" using f(4) by blast
  ultimately have "calm_ok (b', ?ts @ new)" by (intro calm_keep [OF assms(1) f(1-3)]) (simp_all add: f(5))
  then show ?thesis by simp
qed

lemma conn_fields [simp]:
  "mb_topicSubs (broker_run b) = mb_topicSubs b" "mb_objs (broker_run b) = mb_objs b" "mb_next (broker_run b) = mb_next b"
  "mb_client (broker_run b)" "mb_connected (broker_run b) = mb_connected b" "asked_for (broker_run b) = asked_for b"
  "mb_topicSubs (connect_noted b) = mb_topicSubs b" "mb_objs (connect_noted b) = mb_objs b" "mb_next (connect_noted b) = mb_next b"
  "mb_client (connect_noted b) = mb_client b"
  "mb_topicSubs (on_connection_lost e b) = mb_topicSubs b" "mb_objs (on_connection_lost e b) = mb_objs b"
  "mb_next (on_connection_lost e b) = mb_next b" "mb_client (on_connection_lost e b) = mb_client b"
  "\<not> mb_connected (on_connection_lost e b)"
  by (simp_all add: broker_run_def connect_noted_def on_connection_lost_def setStatus_def asked_for_def fun_eq_iff)

lemma calm_do:
  assumes "calm_ok (b, ts)" "calm_op op"
  shows "calm_ok (broker_do op (b, ts))"
proof (cases op)
  case BRun
  have "calm_ok (broker_run b, ts)"
    by (rule calm_keep [OF assms(1)]) (use assms(1) in \<open>simp_all add: calm_ok_def conn_fields\<close>)
  with BRun show ?thesis by simp
next
  case (BSubscribe topic qos h)
  obtain s ask b' where r: "sub_register topic qos h b = (s, ask, b')" by (cases "sub_register topic qos h b")
  then have f: "mb_client b' = mb_client b" "mb_connected b' = mb_connected b" "mb_installed b' = mb_installed b" "s = mb_next b"
    "ask \<longleftrightarrow> mb_connected b \<and> go_get [] (mb_topicSubs b) topic = []"
    "mb_topicSubs b' = AList.update topic (go_get [] (mb_topicSubs b) topic @ [s]) (mb_topicSubs b)"
    "mb_objs b' = AList.update s \<lparr>su_topic = topic, su_qos = qos, su_handler = h, su_closed = False\<rparr> (mb_objs b)"
    by (auto simp: sub_register_def Let_def)
  have wf: "broker_wf b" "broker_wf b'" using assms(1) wf_register [OF _ r] by (auto simp: calm_ok_def)
  let ?ts = "ts @ (if ask then [Install s topic qos] else [])"
  have known: "go_has (mb_topicSubs b) t" if "go_has (mb_topicSubs b') t" "\<not> (ask \<and> t = topic)" "mb_connected b" for t
    using that f(5,6) by (auto simp: has_get split: if_splits)
  have "asked_for b' ?ts t" if t: "go_has (mb_topicSubs b') t" "mb_connected b'" for t
  proof (cases "ask \<and> t = topic")
    case True
    then show ?thesis by (auto simp: asked_for_def)
  next
    case False
    then have "asked_for b ts t" using assms(1) known t f(2) by (auto simp: calm_ok_def)
    then show ?thesis by (rule asked_mono [rotated 2]) (auto simp: f)
  qed
  moreover have "sub_listed b' i t" if "sub_listed b i t" for i t
    using that by (auto simp: sub_listed_def f(6))
  then have "map_of (mb_objs b') i = Some u \<Longrightarrow> \<not> su_closed u \<Longrightarrow> sub_listed b' i (su_topic u)" for i u
    using assms(1) f(7) by (auto simp: calm_ok_def sub_listed_def f(6) split: if_splits)
  ultimately show ?thesis using assms(1) BSubscribe r wf f(1,2,5) by (auto simp: calm_ok_def)
next
  case BConnect
  have "mb_client b \<Longrightarrow> calm_ok (connect_noted b, ts @ [CopyTopics])"
    by (rule calm_keep [OF assms(1)]) (use assms(1) in \<open>auto simp add: calm_ok_def conn_fields asked_for_def\<close>)
  with BConnect assms(1) show ?thesis by simp
next
  case (BLost e)
  have "calm_ok (on_connection_lost e b, ts)"
    by (rule calm_keep [OF assms(1)]) (use assms(1) in \<open>simp_all add: calm_ok_def conn_fields\<close>)
  with BLost show ?thesis by simp
next
  case (BDo n err)
  then show ?thesis using assms calm_task [of b ts n] by (auto split: prod.split)
qed (use assms(2) in simp)

lemma calm_ok_reach: "calm_reach s \<Longrightarrow> calm_ok s"
proof (induction rule: calm_reach.induct)
  case start
  show ?case by (simp add: calm_ok_def wf_new) (simp add: newBroker_def)
next
  case (step s op)
  from step(3,2) show ?case by (cases s) (auto intro: calm_do)
qed (rule calm_close)

text \<open>
  C19: no subscription is lost: while the requests to the library succeed and no subscription is
  closed in the middle of another operation, then whenever the broker is connected and nothing is
  left to do, every open subscription is installed, and a message on its topic is handed to it.
\<close>

theorem no_lost_subscription:
  assumes "calm_reach (b, [])" "mb_connected b" "map_of (mb_objs b) s = Some u" "\<not> su_closed u"
    and "\<forall>t. routes t t"
  shows "go_has (mb_installed b) (su_topic u) \<and> s \<in> set (arriving routes b (su_topic u))"
proof -
  have ok: "calm_ok (b, [])" using calm_ok_reach [OF assms(1)] .
  then have l: "sub_listed b s (su_topic u)" using assms(3,4) by (auto simp: calm_ok_def)
  then have "go_has (mb_topicSubs b) (su_topic u)" by (auto simp: sub_listed_def intro: has_get)
  with ok assms(2) have i: "go_has (mb_installed b) (su_topic u)" by (simp add: calm_ok_def asked_for_def)
  have wf: "broker_wf b" using ok by (simp add: calm_ok_def)
  have "s \<in> set (dispatch_subs b (su_topic u))"
    unfolding dispatch_subs_wf [OF wf] using l by (force simp: listed_iff [OF wf] topicMatches_def)
  with i assms(5) show ?thesis by (force simp: arriving_def go_has_iff_keys)
qed

text \<open>A broker that subscribes, connects and installs what was subscribed.\<close>

definition lamp_broker :: "bool mqtt_broker" where
  "lamp_broker = fst (fold broker_do [BRun, BSubscribe ''lamp'' 0 True, BConnect, BDo 0 None, BDo 0 None] (newBroker, []))"

lemma lamp_broker_fields [simp]:
  "fold broker_do [BRun, BSubscribe ''lamp'' 0 True, BConnect, BDo 0 None, BDo 0 None] (newBroker, []) = (lamp_broker, [])"
  "mb_client lamp_broker" "mb_connected lamp_broker" "go_get [] (mb_topicSubs lamp_broker) ''lamp'' = [0]" "mb_next lamp_broker = 1"
  "map_of (mb_objs lamp_broker) 0 = Some \<lparr>su_topic = ''lamp'', su_qos = 0, su_handler = True, su_closed = False\<rparr>"
  "mb_installed lamp_broker = [(''lamp'', 0)]"
  by (simp_all add: lamp_broker_def newBroker_def broker_run_def setStatus_def sub_register_def connect_noted_def
      connect_topics_def installTopic_def max_qos_def go_get_def Let_def)

lemma lamp_reach: "calm_reach (lamp_broker, [])"
proof -
  have "calm_reach (fold broker_do ops (newBroker, []))" if "list_all calm_op ops" for ops :: "bool broker_op list"
    using that by (induction ops rule: rev_induct) (auto intro: calm_reach.intros)
  from this [of "[BRun, BSubscribe ''lamp'' 0 True, BConnect, BDo 0 None, BDo 0 None]"]
  show ?thesis unfolding lamp_broker_fields(1) by simp
qed

lemma no_lost_subscription_witness: "0 \<in> set (arriving topicMatches lamp_broker ''lamp'')"
  using no_lost_subscription [OF lamp_reach, of 0 _ topicMatches] by (simp add: topicMatches_def)


text \<open>
  C36: closing races subscribing: \<^verbatim>\<open>Close\<close> asks the library to forget the topic after it has released
  the lock. If another consumer subscribes to the topic in between and is served first, the
  forgetting hits its subscription: it is open, the broker is connected, nothing is left to do,
  and no message will ever reach it.
\<close>

theorem close_races_subscribe:
  assumes "mb_client b" "mb_connected b" "map_of (mb_objs b) s = Some u" "\<not> su_closed u"
    and "go_get [] (mb_topicSubs b) (su_topic u) = [s]" "mb_next b \<noteq> s"
  shows "case broker_do (BDo 0 None) (broker_do (BDo 1 None)
           (broker_do (BSubscribe (su_topic u) qos h) (broker_do (BClose s) (b, [])))) of (b', ts) \<Rightarrow>
    ts = [] \<and> mb_connected b' \<and> \<not> go_has (mb_installed b') (su_topic u) \<and> sub_listed b' (mb_next b) (su_topic u) \<and>
    map_option su_closed (map_of (mb_objs b') (mb_next b)) = Some False"
  using assms
  by (simp add: close_locked_def sub_register_def installTopic_def uninstall_def sub_listed_def Let_def)

lemma close_races_subscribe_witness:
  "case broker_do (BDo 0 None) (broker_do (BDo 1 None)
      (broker_do (BSubscribe ''lamp'' 0 False) (broker_do (BClose 0) (lamp_broker, [])))) of (b', ts) \<Rightarrow>
    ts = [] \<and> \<not> go_has (mb_installed b') ''lamp'' \<and> sub_listed b' 1 ''lamp''"
  using close_races_subscribe [of lamp_broker 0 "\<lparr>su_topic = ''lamp'', su_qos = 0, su_handler = True, su_closed = False\<rparr>" 0 False]
  by (simp only: lamp_broker_fields subscription.simps split: prod.splits) (auto simp del: broker_do.simps)

text \<open>
  A subscription that joins another one on the same topic asks the library for nothing: no retained
  message is sent to it, and when the request of the first one fails, it stays registered and deaf.
\<close>

theorem joined_subscription_deaf:
  assumes "mb_client b" "mb_connected b" "\<not> go_has (mb_topicSubs b) topic" "\<not> go_has (mb_installed b) topic"
  shows "case broker_do (BDo 0 (Some e)) (broker_do (BSubscribe topic q2 h2) (broker_do (BSubscribe topic q1 h1) (b, []))) of (b', ts) \<Rightarrow>
    ts = [] \<and> mb_connected b' \<and> \<not> go_has (mb_installed b') topic \<and> sub_listed b' (Suc (mb_next b)) topic \<and>
    \<not> sub_listed b' (mb_next b) topic"
proof -
  have none: "go_get [] (mb_topicSubs b) topic = []" using has_get [of "mb_topicSubs b" topic] assms(3) by auto
  define b1 where "b1 = snd (snd (sub_register topic q1 h1 b))"
  have 1: "broker_do (BSubscribe topic q1 h1) (b, []) = (b1, [Install (mb_next b) topic q1])" "mb_client b1" "mb_connected b1"
      "go_get [] (mb_topicSubs b1) topic = [mb_next b]" "mb_next b1 = Suc (mb_next b)" "mb_installed b1 = mb_installed b"
    using assms(1,2) none by (simp_all add: b1_def sub_register_def Let_def)
  define b2 where "b2 = snd (snd (sub_register topic q2 h2 b1))"
  have 2: "broker_do (BSubscribe topic q2 h2) (b1, [Install (mb_next b) topic q1]) = (b2, [Install (mb_next b) topic q1])"
      "mb_client b2" "mb_connected b2" "go_get [] (mb_topicSubs b2) topic = [mb_next b, Suc (mb_next b)]" "mb_installed b2 = mb_installed b"
    using 1(2-) by (simp_all add: b2_def sub_register_def Let_def)
  show ?thesis unfolding 1(1) 2(1) using 2(2-) assms(4) by (simp add: installTopic_def sub_listed_def)
qed

lemma joined_subscription_deaf_witness:
  "case broker_do (BDo 0 (Some ''timeout'')) (broker_do (BSubscribe ''desk'' 0 False) (broker_do (BSubscribe ''desk'' 0 True) (lamp_broker, []))) of
     (b', ts) \<Rightarrow> ts = [] \<and> sub_listed b' 2 ''desk'' \<and> \<not> go_has (mb_installed b') ''desk''"
proof -
  have "\<not> go_has (mb_topicSubs lamp_broker) ''desk''" "\<not> go_has (mb_installed lamp_broker) ''desk''"
    by (simp_all add: lamp_broker_def newBroker_def broker_run_def setStatus_def sub_register_def connect_noted_def
        connect_topics_def installTopic_def go_get_def go_has_def Let_def)
  then show ?thesis using joined_subscription_deaf [of lamp_broker "''desk''" "''timeout''" 0 False 0 True]
    by (simp add: numeral_2_eq_2 del: broker_do.simps split: prod.splits)
qed

end
