(* ===== verification/Mqtt_Plugin.thy ===== *)
theory Mqtt_Plugin
  imports Mqtt_Broker Plugin_Registry
begin

text \<open>
  The MQTT plugin (\<^verbatim>\<open>mqtt.go\<close>): it owns a broker, registers it under its own id and passes the
  events of the connection to the log. Brokers are objects that consumers keep references to, so
  they live in a store (\<open>mw_objs\<close>) beside the register; a consumer is a plugin that has looked a
  broker up.
\<close>

section \<open>Callbacks of the connection\<close>

text \<open>The closures the plugin hands to its broker, with what they have captured.\<close>

datatype broker_note = NoteConnected string int | NoteDisconnected string | NoteConnectError string int

record 'h broker_object =
  bo_cfg :: mqtt_config
  bo_broker :: "'h mqtt_broker"
  bo_running :: bool
  bo_onConnect :: "broker_note list"
  bo_onDisconnect :: "broker_note list"
  bo_onConnectErr :: "broker_note list"

definition run_note :: "string \<Rightarrow> broker_note \<Rightarrow> host_call" where
  "run_note err n =
     (case n of
        NoteConnected h p \<Rightarrow> HLog ''info'' ''connect_ok'' ''MQTT broker connected'' [(''host'', GStr h), (''port'', GInt p)]
      | NoteDisconnected h \<Rightarrow> HLog ''warn'' ''connect_failed'' ''MQTT broker disconnected'' [(''host'', GStr h), (''error'', GStr err)]
      | NoteConnectError h p \<Rightarrow> HLog ''error'' ''connect_failed'' ''MQTT initial connect failed''
          [(''host'', GStr h), (''port'', GInt p), (''error'', GStr err)])"

text \<open>A callback for connections is called at once when there is one; a nil callback is ignored.\<close>

definition OnConnect :: "broker_note option \<Rightarrow> 'h broker_object \<Rightarrow> 'h broker_object \<times> broker_note list" where
  "OnConnect cb ob =
     (case cb of None \<Rightarrow> (ob, [])
      | Some f \<Rightarrow> (ob\<lparr>bo_onConnect := bo_onConnect ob @ [f]\<rparr>, if mb_connected (bo_broker ob) then [f] else []))"

definition OnDisconnect :: "broker_note option \<Rightarrow> 'h broker_object \<Rightarrow> 'h broker_object" where
  "OnDisconnect cb ob = (case cb of None \<Rightarrow> ob | Some f \<Rightarrow> ob\<lparr>bo_onDisconnect := bo_onDisconnect ob @ [f]\<rparr>)"

definition OnConnectError :: "broker_note option \<Rightarrow> 'h broker_object \<Rightarrow> 'h broker_object" where
  "OnConnectError cb ob = (case cb of None \<Rightarrow> ob | Some f \<Rightarrow> ob\<lparr>bo_onConnectErr := bo_onConnectErr ob @ [f]\<rparr>)"

definition fireConnectError :: "string \<Rightarrow> 'h broker_object \<Rightarrow> host_call list" where
  "fireConnectError err ob = map (run_note err) (bo_onConnectErr ob)"

text \<open>The three events of the client library, with the calls of the host they cause.\<close>

definition object_connected :: "(string \<Rightarrow> string option) \<Rightarrow> 'h broker_object \<Rightarrow> 'h broker_object \<times> host_call list" where
  "object_connected outcome ob = (ob\<lparr>bo_broker := on_connect outcome (bo_broker ob)\<rparr>, map (run_note []) (bo_onConnect ob))"

definition object_lost :: "string \<Rightarrow> 'h broker_object \<Rightarrow> 'h broker_object \<times> host_call list" where
  "object_lost err ob = (ob\<lparr>bo_broker := on_connection_lost err (bo_broker ob)\<rparr>, map (run_note err) (bo_onDisconnect ob))"

text \<open>The first attempt to connect: \<open>None\<close> when no answer came in time.\<close>

definition object_first_attempt :: "string option option \<Rightarrow> 'h broker_object \<Rightarrow> 'h broker_object \<times> host_call list" where
  "object_first_attempt r ob =
     (case r of
        None \<Rightarrow> (ob\<lparr>bo_broker := setStatus ''connecting'' (Some ''initial connect timeout'') (bo_broker ob)\<rparr>,
                 fireConnectError ''initial connect timeout'' ob)
      | Some None \<Rightarrow> (ob, [])
      | Some (Some e) \<Rightarrow> (ob\<lparr>bo_broker := setStatus ''auth_failed'' (Some e) (bo_broker ob)\<rparr>, fireConnectError e ob))"

section \<open>The plugin\<close>

record ('h, 'l) mqtt_world =
  mw_objs :: "(nat, 'h broker_object) gomap"
  mw_manager :: "(nat, 'l) manager"
  mw_next :: nat

record mqtt_plugin =
  mp_id :: string
  mp_broker :: "nat option"
  mp_manager :: bool
  mp_closed :: bool

definition Factory :: "string \<Rightarrow> mqtt_plugin" where
  "Factory i = \<lparr>mp_id = i, mp_broker = None, mp_manager = False, mp_closed = False\<rparr>"

definition mqtt_Status :: "('h, 'l) mqtt_world \<Rightarrow> mqtt_plugin \<Rightarrow> string" where
  "mqtt_Status w p =
     (case mp_broker p of
        None \<Rightarrow> ''not_initialized''
      | Some b \<Rightarrow> (case map_of (mw_objs w) b of None \<Rightarrow> [] | Some ob \<Rightarrow> mb_status (bo_broker ob)))"

definition new_object :: "mqtt_config \<Rightarrow> 'h broker_object" where
  "new_object c = \<lparr>bo_cfg = c, bo_broker = newBroker, bo_running = False, bo_onConnect = [], bo_onDisconnect = [], bo_onConnectErr = []\<rparr>"

text \<open>
  \<^verbatim>\<open>Init\<close>; \<open>has_manager\<close> says whether the host has one. The goroutine it starts runs \<open>broker_run\<close> first.
\<close>

definition mqtt_Init :: "(string \<Rightarrow> string) \<Rightarrow> bool \<Rightarrow> obj \<Rightarrow> ('h, 'l) mqtt_world \<Rightarrow> mqtt_plugin \<Rightarrow>
    ('h, 'l) mqtt_world \<times> mqtt_plugin \<times> string option" where
  "mqtt_Init quote has_manager cfg w p =
     (case parseConfig cfg of
        Inl e \<Rightarrow> (w, p, Some (''mqtt '' @ quote (mp_id p) @ '': '' @ e))
      | Inr c \<Rightarrow>
          (let b = mw_next w;
               ob = OnConnectError (Some (NoteConnectError (mc_host c) (mc_port c)))
                 (OnDisconnect (Some (NoteDisconnected (mc_host c)))
                   (fst (OnConnect (Some (NoteConnected (mc_host c) (mc_port c))) (new_object c))))
           in (w\<lparr>mw_objs := AList.update b (ob\<lparr>bo_broker := broker_run (bo_broker ob), bo_running := True\<rparr>) (mw_objs w),
                 mw_next := Suc b,
                 mw_manager := (if has_manager then fst (mgr_Register (mp_id p) b (mw_manager w)) else mw_manager w)\<rparr>,
               p\<lparr>mp_broker := Some b, mp_manager := has_manager\<rparr>, None)))"

definition mqtt_Apply :: "mapping \<Rightarrow> command \<Rightarrow> string option" where
  "mqtt_Apply m cmd = Some ''mqtt plugin has no own devices''"

text \<open>\<^verbatim>\<open>Close\<close>; stopping the broker ends its goroutine, which notes the end.\<close>

definition mqtt_Close :: "('h, 'l) mqtt_world \<Rightarrow> mqtt_plugin \<Rightarrow> ('h, 'l) mqtt_world \<times> mqtt_plugin" where
  "mqtt_Close w p =
     (if mp_closed p then (w, p)
      else let w = (if mp_manager p then w\<lparr>mw_manager := fst (mgr_Unregister (mp_id p) (mw_manager w))\<rparr> else w)
           in ((case mp_broker p of
                  None \<Rightarrow> w
                | Some b \<Rightarrow>
                    (case map_of (mw_objs w) b of
                       None \<Rightarrow> w
                     | Some ob \<Rightarrow> w\<lparr>mw_objs := AList.update b (ob\<lparr>bo_broker := broker_stopped (bo_broker ob), bo_running := False\<rparr>) (mw_objs w)\<rparr>)),
               p\<lparr>mp_closed := True\<rparr>))"

section \<open>A restarted broker strands its consumers\<close>

text \<open>
  Restarting the MQTT plugin strands the plugins that use it: after its old instance was
  closed and a new one initialised under the same id, the register answers with a new broker, while
  the broker a consumer looked up before has stopped and is no longer the registered one. The
  register has listeners for this event, but no plugin adds one.
\<close>

theorem restarted_broker_strands_consumers:
  assumes "mp_id p = i" "mp_broker p = Some b" "mp_manager p" "\<not> mp_closed p" "b < mw_next w"
    and "map_of (mw_objs w) b = Some o1" "mgr_Get i (mw_manager w) = Inr b" "parseConfig cfg = Inr c"
  shows "let (w1, p1) = mqtt_Close w p; (w2, p2, e) = mqtt_Init quote True cfg w1 (Factory i)
    in e = None \<and> (\<exists>b2. mgr_Get i (mw_manager w2) = Inr b2 \<and> b2 \<noteq> b) \<and>
       (\<exists>o2. map_of (mw_objs w2) b = Some o2 \<and> \<not> bo_running o2 \<and> mb_status (bo_broker o2) = ''stopped'' \<and>
          \<not> mb_connected (bo_broker o2))"
  using assms
  by (simp add: mqtt_Close_def mqtt_Init_def Let_def Factory_def mgr_Get_def mgr_Register_def mgr_Unregister_def broker_stopped_def
      setStatus_def)

text \<open>A register with one broker, whose plugin is restarted.\<close>

definition ex_mqtt_cfg :: obj where "ex_mqtt_cfg = [(''host'', GStr ''h'')]"

definition ex_mqtt :: "(unit, unit) mqtt_world \<times> mqtt_plugin \<times> string option" where
  "ex_mqtt = mqtt_Init id True ex_mqtt_cfg \<lparr>mw_objs = [], mw_manager = NewManager, mw_next = 0\<rparr> (Factory ''m'')"

theorem restarted_broker_strands_consumers_witness:
  "let (w1, p1) = mqtt_Close (fst ex_mqtt) (fst (snd ex_mqtt)); (w2, p2, e) = mqtt_Init id True ex_mqtt_cfg w1 (Factory ''m'')
   in e = None \<and> (\<exists>b2. mgr_Get ''m'' (mw_manager w2) = Inr b2 \<and> b2 \<noteq> 0) \<and>
      (\<exists>o2. map_of (mw_objs w2) 0 = Some o2 \<and> \<not> bo_running o2 \<and> mb_status (bo_broker o2) = ''stopped'' \<and>
         \<not> mb_connected (bo_broker o2))"
proof -
  have p: "mp_id (fst (snd ex_mqtt)) = ''m''" "mp_broker (fst (snd ex_mqtt)) = Some 0" "mp_manager (fst (snd ex_mqtt))"
    "\<not> mp_closed (fst (snd ex_mqtt))" "0 < mw_next (fst ex_mqtt)" "mgr_Get ''m'' (mw_manager (fst ex_mqtt)) = Inr 0"
    by code_simp+
  have "go_has (mw_objs (fst ex_mqtt)) 0" by code_simp
  then obtain ob where ob: "map_of (mw_objs (fst ex_mqtt)) 0 = Some ob" by (auto simp: go_has_def split: option.splits)
  obtain c where c: "parseConfig ex_mqtt_cfg = Inr c"
    by (auto simp: parseConfig_def ex_mqtt_cfg_def cfg_str_def Let_def j_str_def j_get_def go_get_def)
  show ?thesis using restarted_broker_strands_consumers [OF p(1-5) ob p(6) c] .
qed

end
