(* ===== verification/Float_Ops.thy ===== *)
theory Float_Ops
  imports Go_Float
begin

text \<open>
  Subtraction, multiplication and division of \<^verbatim>\<open>float64\<close> values, as the plugins use them in their
  conversions. A finite value is a significand of at most 53 bits times a power of two; the exact
  result is a ratio of integers that is rounded once, ties to even. Every operation that has no
  number as its result gives the one NaN pattern of \<open>f64_nan\<close>.
\<close>

definition f64_sig :: "f64 \<Rightarrow> int" where
  "f64_sig x = (if f64_expo x = 0 then f64_frac x else 2 ^ 52 + f64_frac x)"

definition f64_pow :: "f64 \<Rightarrow> int" where
  "f64_pow x = max (f64_expo x) 1 - 1075"

text \<open>The magnitude pattern of \<open>p / q * 2 ^ e\<close>.\<close>

definition f64_mag_of :: "int \<Rightarrow> int \<Rightarrow> int \<Rightarrow> int" where
  "f64_mag_of p q e =
     (if p = 0 then 0 else f64_mag_of_ratio (p * 2 ^ nat e) (q * 2 ^ nat (- e)))"

definition f64_neg_of :: "f64 \<Rightarrow> f64" where
  "f64_neg_of x = f64_make (\<not> f64_neg x) (f64_mag x)"

definition f64_sub :: "f64 \<Rightarrow> f64 \<Rightarrow> f64" where
  "f64_sub a b = (if f64_is_nan b then f64_nan else f64_add a (f64_neg_of b))"

definition f64_is_inf :: "f64 \<Rightarrow> bool" where
  "f64_is_inf x \<longleftrightarrow> f64_mag x = f64_inf_mag"

definition f64_mul :: "f64 \<Rightarrow> f64 \<Rightarrow> f64" where
  "f64_mul a b =
     (let neg = (f64_neg a \<noteq> f64_neg b)
      in if f64_is_nan a \<or> f64_is_nan b then f64_nan
         else if f64_is_inf a \<or> f64_is_inf b then
           (if f64_mag a = 0 \<or> f64_mag b = 0 then f64_nan else f64_make neg f64_inf_mag)
         else f64_make neg (f64_mag_of (f64_sig a * f64_sig b) 1 (f64_pow a + f64_pow b)))"

definition f64_div :: "f64 \<Rightarrow> f64 \<Rightarrow> f64" where
  "f64_div a b =
     (let neg = (f64_neg a \<noteq> f64_neg b)
      in if f64_is_nan a \<or> f64_is_nan b then f64_nan
         else if f64_is_inf a then (if f64_is_inf b then f64_nan else f64_make neg f64_inf_mag)
         else if f64_is_inf b then f64_make neg 0
         else if f64_mag b = 0 then (if f64_mag a = 0 then f64_nan else f64_make neg f64_inf_mag)
         else f64_make neg (f64_mag_of (f64_sig a) (f64_sig b) (f64_pow a - f64_pow b)))"

end
