(* ===== verification/Z2m_Discovery.thy ===== *)
theory Z2m_Discovery
  imports Float_Ops Plugin_Registry Control
begin

text \<open>
  What the Zigbee2MQTT plugin makes of the announcements of its service
  (\<^verbatim>\<open>pkg/bridge/zigbee2mqtt/discovery.go\<close>, \<^verbatim>\<open>state.go\<close>): the features of a device become
  endpoints (lights, switches, buttons and one bundle of sensors), each endpoint an entity with an
  id of its own; a group gets the capabilities of its members; values are converted between the two
  worlds. Messages are already decoded: \<^verbatim>\<open>encoding/json\<close> fills the records of this theory.
\<close>

section \<open>Announcements\<close>

datatype expose = Expose
  (ex_Type: string) (ex_Name: string) (ex_Property: string) (ex_Endpoint: string) (ex_Unit: string)
  (ex_ValueMin: "f64 option") (ex_ValueMax: "f64 option") (ex_Values: "string list") (ex_Features: "expose list")

record definition_info =
  df_Model :: string
  df_Vendor :: string
  df_Exposes :: "expose list"

record bridge_device =
  zd_IEEE :: string
  zd_FriendlyName :: string
  zd_Type :: string
  zd_Supported :: bool
  zd_Disabled :: bool
  zd_PowerSource :: string
  zd_SoftwareBuildID :: string
  zd_Definition :: "definition_info option"

text \<open>The elements of an array of any type as strings; \<open>fmtv\<close> is \<^verbatim>\<open>fmt.Sprintf("%v")\<close>.\<close>

definition json_strings :: "(gany \<Rightarrow> string) \<Rightarrow> gany list \<Rightarrow> string list" where
  "json_strings fmtv = map (\<lambda>x. case x of GNil \<Rightarrow> [] | GStr s \<Rightarrow> s | _ \<Rightarrow> fmtv x)"

section \<open>Endpoints\<close>

record sensor_feature =
  sf_Property :: string
  sf_Index :: int
  sf_Meta :: sensor_descriptor

record binary_feature =
  bf_Property :: string
  bf_Index :: int
  bf_Function :: int
  bf_Invert :: bool

record endpoint =
  ep_Name :: string
  ep_Kind :: string
  ep_HasBrightness :: bool
  ep_HasColor :: bool
  ep_StateProp :: string
  ep_BrightnessProp :: string
  ep_ColorProp :: string
  ep_ActionProp :: string
  ep_ActionPrefix :: string
  ep_SensorFeatures :: "sensor_feature list"
  ep_BinaryFeatures :: "binary_feature list"

definition endpoint0 :: "string \<Rightarrow> string \<Rightarrow> endpoint" where
  "endpoint0 name kind = \<lparr>ep_Name = name, ep_Kind = kind, ep_HasBrightness = False, ep_HasColor = False,
     ep_StateProp = [], ep_BrightnessProp = [], ep_ColorProp = [], ep_ActionProp = [], ep_ActionPrefix = [],
     ep_SensorFeatures = [], ep_BinaryFeatures = []\<rparr>"

definition withEP :: "string \<Rightarrow> string \<Rightarrow> string" where
  "withEP base ep = (if ep = [] then base else base @ ''_'' @ ep)"

definition pickProp :: "expose \<Rightarrow> string \<Rightarrow> string" where
  "pickProp f base = (if ex_Property f \<noteq> [] then ex_Property f else withEP base (ex_Endpoint f))"

subsection \<open>Sensors\<close>

definition f64_tenth :: f64 where "f64_tenth = 0x3FB999999999999A"

definition meta :: "int \<Rightarrow> int \<Rightarrow> string \<Rightarrow> int \<Rightarrow> int \<Rightarrow> f64 \<Rightarrow> string \<Rightarrow> string \<Rightarrow> sensor_descriptor" where
  "meta t usage name lo hi res unit symbol = \<lparr>sd_Type = t, sd_Usage = usage, sd_Name = name, sd_Min = f64_of_int lo,
     sd_Max = f64_of_int hi, sd_Resolution = res, sd_SIUnit = unit, sd_Symbol = symbol\<rparr>"

text \<open>The symbols of degree Celsius and of micrograms per cubic metre, in UTF-8.\<close>

definition celsius :: string where "celsius = [CHR 0xC2, CHR 0xB0, CHR ''C'']"
definition ug_per_m3 :: string where
  "ug_per_m3 = [CHR 0xC2, CHR 0xB5] @ ''g/m'' @ [CHR 0xC2, CHR 0xB3]"

definition z2mNumericMeta :: "(string, sensor_descriptor) gomap" where
  "z2mNumericMeta =
    [(''temperature'', meta 1 1 ''temperature'' (-40) 125 f64_tenth ''celsius'' celsius),
     (''humidity'', meta 2 1 ''humidity'' 0 100 f64_tenth ''percent'' ''%''),
     (''illuminance'', meta 3 1 ''illuminance'' 0 150000 f64_one ''lux'' ''lx''),
     (''illuminance_lux'', meta 3 1 ''illuminance'' 0 150000 f64_one ''lux'' ''lx''),
     (''voltage'', meta 4 0 ''voltage'' 0 500 f64_tenth ''volt'' ''V''),
     (''co'', meta 5 1 ''co'' 0 1000 f64_one ''ppm'' ''ppm''),
     (''pm10'', meta 8 1 ''pm10'' 0 1000 f64_one ''microgram_per_cubicmeter'' ug_per_m3),
     (''pm25'', meta 9 1 ''pm2.5'' 0 1000 f64_one ''microgram_per_cubicmeter'' ug_per_m3),
     (''power'', meta 14 0 ''power'' 0 10000 f64_one ''watt'' ''W''),
     (''current'', meta 15 0 ''current'' 0 100 f64_tenth ''ampere'' ''A''),
     (''energy'', meta 16 0 ''energy'' 0 10000000 f64_tenth ''kilowatt_hour'' ''kWh''),
     (''pressure'', meta 18 1 ''pressure'' 800 1200 f64_tenth ''hectopascal'' ''hPa''),
     (''co2'', meta 22 1 ''co2'' 0 5000 f64_one ''ppm'' ''ppm''),
     (''battery'', meta 32 0 ''battery'' 0 100 f64_one ''percent'' ''%''),
     (''linkquality'', meta 0 0 ''linkquality'' 0 255 f64_one [] ''lqi'')]"

definition z2mBinaryMeta :: "(string, int) gomap" where
  "z2mBinaryMeta = [(''occupancy'', 1), (''presence'', 1), (''motion'', 5), (''contact'', 13), (''water_leak'', 0),
     (''smoke'', 7), (''vibration'', 0), (''tamper'', 0), (''sos'', 6), (''gas'', 0), (''carbon_monoxide'', 0)]"

definition numericMetaForExpose :: "expose \<Rightarrow> sensor_descriptor" where
  "numericMetaForExpose ex =
     (case map_of z2mNumericMeta (ex_Property ex) of
        Some m \<Rightarrow> m
      | None \<Rightarrow>
          let lo = (case ex_ValueMin ex of Some x \<Rightarrow> x | None \<Rightarrow> f64_zero);
              hi = (case ex_ValueMax ex of Some x \<Rightarrow> x | None \<Rightarrow> f64_zero)
          in \<lparr>sd_Type = 0, sd_Usage = 0, sd_Name = ex_Property ex, sd_Min = lo, sd_Max = hi,
              sd_Resolution = (if f64_less lo hi then f64_div (f64_sub hi lo) (f64_of_int 1000) else f64_zero),
              sd_SIUnit = [], sd_Symbol = ex_Unit ex\<rparr>)"

subsection \<open>Buttons\<close>

definition buttonActionSuffixes :: "string list" where
  "buttonActionSuffixes = [''press_release'', ''hold_release'', ''long_release'', ''single'', ''double'', ''triple'',
     ''quadruple'', ''click'', ''press'', ''release'', ''long'', ''hold'']"

text \<open>The prefix of an action and its verb, both empty when no verb is known.\<close>

definition has_suffix :: "string \<Rightarrow> string \<Rightarrow> bool" where
  "has_suffix v s \<longleftrightarrow> drop (length v - length s) v = s"

definition split_at_suffix :: "string \<Rightarrow> string \<Rightarrow> (string \<times> string) option" where
  "split_at_suffix v s =
     (if v = s then Some ([], s)
      else if has_suffix v (''_'' @ s) then Some (take (length v - length s - 1) v, s)
      else None)"

definition splitButtonAction :: "string \<Rightarrow> string \<times> string" where
  "splitButtonAction v =
     (case first_some (split_at_suffix v) buttonActionSuffixes of Some r \<Rightarrow> r | None \<Rightarrow> ([], []))"

definition mapActionSuffix :: "string \<Rightarrow> string" where
  "mapActionSuffix s =
     (if s \<in> {''single'', ''click'', ''press''} then ''tip''
      else if s = ''double'' then ''tip2''
      else if s = ''triple'' then ''tip3''
      else if s = ''quadruple'' then ''tip4''
      else if s \<in> {''long'', ''hold''} then ''hold''
      else if s \<in> {''release'', ''hold_release'', ''long_release'', ''press_release''} then ''release''
      else [])"

definition button_endpoint :: "string \<Rightarrow> string \<Rightarrow> endpoint" where
  "button_endpoint prop p = (endpoint0 (if p = [] then ''btn'' else ''btn_'' @ p) ''button'')
     \<lparr>ep_ActionProp := prop, ep_ActionPrefix := p\<rparr>"

definition expandActionButtons :: "string \<Rightarrow> string list \<Rightarrow> endpoint list" where
  "expandActionButtons prop vals =
     map (button_endpoint prop)
       (sort (remdups (map (fst \<circ> splitButtonAction) (filter (\<lambda>v. snd (splitButtonAction v) \<noteq> []) vals))))"

subsection \<open>The endpoints of a device\<close>

record endpoint_opts =
  eo_IncludeBattery :: bool
  eo_IncludeLinkquality :: bool

definition light_feature :: "expose \<Rightarrow> endpoint \<Rightarrow> endpoint" where
  "light_feature f ep =
     (if ex_Name f = ''state'' then ep\<lparr>ep_StateProp := pickProp f ''state''\<rparr>
      else if ex_Name f = ''brightness'' then ep\<lparr>ep_HasBrightness := True, ep_BrightnessProp := pickProp f ''brightness''\<rparr>
      else if ex_Name f \<in> {''color_xy'', ''color_hs''} then ep\<lparr>ep_HasColor := True, ep_ColorProp := pickProp f ''color''\<rparr>
      else ep)"

definition default_state :: "endpoint \<Rightarrow> endpoint" where
  "default_state ep = (if ep_StateProp ep = [] then ep\<lparr>ep_StateProp := withEP ''state'' (ep_Name ep)\<rparr> else ep)"

definition light_endpoint :: "expose \<Rightarrow> endpoint" where
  "light_endpoint ex =
     (let ep = fold light_feature (ex_Features ex) (endpoint0 (ex_Endpoint ex) ''dimmer'')
      in default_state (ep\<lparr>ep_Kind := (if ep_HasColor ep then ''colorlight'' else if \<not> ep_HasBrightness ep then ''light''
                                        else ep_Kind ep)\<rparr>))"

definition switch_endpoint :: "expose \<Rightarrow> endpoint" where
  "switch_endpoint ex =
     default_state (fold (\<lambda>f ep. if ex_Name f = ''state'' then ep\<lparr>ep_StateProp := pickProp f ''state''\<rparr> else ep)
       (ex_Features ex) (endpoint0 (ex_Endpoint ex) ''light''))"

text \<open>One feature after the other: the endpoints so far, the sensors and the binary inputs.\<close>

type_synonym features = "endpoint list \<times> sensor_feature list \<times> binary_feature list"

definition expose_step :: "endpoint_opts \<Rightarrow> expose \<Rightarrow> features \<Rightarrow> features" where
  "expose_step opts ex = (\<lambda>(out, sensors, binaries).
     let prop = ex_Property ex
     in if ex_Type ex = ''light'' then (out @ [light_endpoint ex], sensors, binaries)
        else if ex_Type ex = ''switch'' then (out @ [switch_endpoint ex], sensors, binaries)
        else if ex_Type ex = ''enum'' then
          (if ex_Name ex \<noteq> ''action'' \<or> ex_Values ex = [] then (out, sensors, binaries)
           else (out @ expandActionButtons (if prop = [] then ''action'' else prop) (ex_Values ex), sensors, binaries))
        else if ex_Type ex = ''numeric'' then
          (if prop = [] \<or> (prop = ''battery'' \<and> \<not> eo_IncludeBattery opts) \<or>
              (prop = ''linkquality'' \<and> \<not> eo_IncludeLinkquality opts) then (out, sensors, binaries)
           else (out, sensors @ [\<lparr>sf_Property = prop, sf_Index = int (length sensors), sf_Meta = numericMetaForExpose ex\<rparr>],
                 binaries))
        else if ex_Type ex = ''binary'' then
          (if prop = [] then (out, sensors, binaries)
           else (out, sensors, binaries @ [\<lparr>bf_Property = prop, bf_Index = int (length binaries),
                   bf_Function = go_get 0 z2mBinaryMeta prop, bf_Invert = False\<rparr>]))
        else (out, sensors, binaries))"

definition sensor_endpoint :: "features \<Rightarrow> endpoint list" where
  "sensor_endpoint = (\<lambda>(out, sensors, binaries).
     if sensors = [] \<and> binaries = [] then out
     else out @ [(endpoint0 (if out = [] then [] else ''sensor'') (if sensors = [] then ''binaryInput'' else ''sensor''))
            \<lparr>ep_SensorFeatures := sensors, ep_BinaryFeatures := binaries\<rparr>])"

definition endpointsWithOpts :: "endpoint_opts \<Rightarrow> bridge_device \<Rightarrow> endpoint list" where
  "endpointsWithOpts opts d =
     (case zd_Definition d of
        None \<Rightarrow> []
      | Some df \<Rightarrow> sensor_endpoint (fold (expose_step opts) (df_Exposes df) ([], [], [])))"

section \<open>Entities and topics\<close>

definition entityID :: "bridge_device \<Rightarrow> endpoint \<Rightarrow> string" where
  "entityID d ep = (if ep_Name ep = [] then zd_IEEE d else zd_IEEE d @ '':'' @ ep_Name ep)"

definition middle_dot :: string where "middle_dot = '' '' @ [CHR 0xC2, CHR 0xB7] @ '' ''"

definition displayName :: "bridge_device \<Rightarrow> endpoint \<Rightarrow> string" where
  "displayName d ep =
     (let name = (if zd_FriendlyName d = [] then zd_IEEE d else zd_FriendlyName d)
      in if ep_Kind ep = ''button'' then
           name @ middle_dot @ (if ep_ActionPrefix ep = [] then ''button'' else ep_ActionPrefix ep)
         else if ep_Kind ep = ''sensor'' \<or> ep_Kind ep = ''binaryInput'' then
           (if ep_Name ep = [] then name else name @ middle_dot @ ''sensors'')
         else if ep_Name ep \<noteq> [] then name @ '' ('' @ ep_Name ep @ '')''
         else name)"

definition stateTopic :: "string \<Rightarrow> string \<Rightarrow> string" where
  "stateTopic base friendly = base @ ''/'' @ friendly"

definition setTopic :: "string \<Rightarrow> string \<Rightarrow> string" where
  "setTopic base friendly = base @ ''/'' @ friendly @ ''/set''"

definition availabilityTopic :: "string \<Rightarrow> string \<Rightarrow> string" where
  "availabilityTopic base friendly = base @ ''/'' @ friendly @ ''/availability''"

definition parseEntityID :: "string \<Rightarrow> string \<times> string" where
  "parseEntityID i =
     (if CHR '':'' \<in> set i then (takeWhile (\<lambda>c. c \<noteq> CHR '':'') i, tl (dropWhile (\<lambda>c. c \<noteq> CHR '':'') i)) else (i, []))"

section \<open>Groups\<close>

definition groupEntityPrefix :: string where "groupEntityPrefix = ''z2m-group-''"

record bridge_group =
  zg_ID :: int
  zg_FriendlyName :: string
  zg_Members :: "string list"

record discovered_device =
  dd_dev :: bridge_device
  dd_endpoints :: "endpoint list"

definition groupEntityID :: "bridge_group \<Rightarrow> string" where
  "groupEntityID g = groupEntityPrefix @ itoa (zg_ID g)"

definition groupDisplayName :: "bridge_group \<Rightarrow> string" where
  "groupDisplayName g = (if zg_FriendlyName g \<noteq> [] then zg_FriendlyName g else groupEntityID g)"

definition isGroupEntityID :: "string \<Rightarrow> bool" where
  "isGroupEntityID i \<longleftrightarrow> take (length groupEntityPrefix) i = groupEntityPrefix"

definition better_kind :: "endpoint \<Rightarrow> string \<Rightarrow> string" where
  "better_kind ep best =
     (if ep_Kind ep = ''colorlight'' then ''colorlight''
      else if ep_Kind ep = ''dimmer'' \<and> best \<noteq> ''colorlight'' then ''dimmer'' else best)"

definition member_kind :: "(string, discovered_device) gomap \<Rightarrow> string \<Rightarrow> string \<Rightarrow> string" where
  "member_kind devices ieee best =
     (case map_of devices ieee of None \<Rightarrow> best | Some dd \<Rightarrow> fold better_kind (dd_endpoints dd) best)"

definition inferEndpoint :: "(string, discovered_device) gomap \<Rightarrow> bridge_group \<Rightarrow> endpoint" where
  "inferEndpoint devices g =
     (let best = fold (member_kind devices) (zg_Members g) ''light'';
          best = (if best = ''light'' \<and> zg_Members g = [] then ''dimmer'' else best);
          ep = (endpoint0 [] best)\<lparr>ep_StateProp := ''state''\<rparr>;
          ep = (if best = ''dimmer'' \<or> best = ''colorlight''
                then ep\<lparr>ep_HasBrightness := True, ep_BrightnessProp := ''brightness''\<rparr> else ep)
      in if best = ''colorlight'' then ep\<lparr>ep_HasColor := True, ep_ColorProp := ''color''\<rparr> else ep)"

section \<open>Values\<close>

definition stringField :: "obj \<Rightarrow> string \<Rightarrow> string option" where
  "stringField msg k = (case map_of msg k of Some (GStr s) \<Rightarrow> Some s | _ \<Rightarrow> None)"

definition numberField :: "obj \<Rightarrow> string \<Rightarrow> f64 option" where
  "numberField msg k = (case map_of msg k of Some (GFloat x) \<Rightarrow> Some x | _ \<Rightarrow> None)"

definition colorField :: "obj \<Rightarrow> string \<Rightarrow> obj option" where
  "colorField msg k = (case map_of msg k of Some (GObj c) \<Rightarrow> Some c | _ \<Rightarrow> None)"

definition boolField :: "obj \<Rightarrow> string \<Rightarrow> bool option" where
  "boolField msg k =
     (case map_of msg k of
        Some (GBool b) \<Rightarrow> Some b
      | Some (GStr s) \<Rightarrow> Some (to_lower s \<in> {''true'', ''on'', ''1''})
      | Some (GFloat x) \<Rightarrow> Some (\<not> f64_eq x 0)
      | _ \<Rightarrow> None)"

definition f64_half :: f64 where "f64_half = 0x3FE0000000000000"

definition clampF :: "f64 \<Rightarrow> f64 \<Rightarrow> f64 \<Rightarrow> f64" where
  "clampF v lo hi = (if f64_less v lo then lo else if f64_less hi v then hi else v)"

definition briToVDC :: "f64 \<Rightarrow> bool \<Rightarrow> f64" where
  "briToVDC bri on =
     (if \<not> on then f64_zero
      else let v = f64_div (f64_mul bri (f64_of_int 100)) (f64_of_int 255)
           in if f64_less v f64_zero then f64_zero else if f64_less f64_hundred v then f64_hundred else v)"

definition vdcToBri :: "f64 \<Rightarrow> int" where
  "vdcToBri pct =
     (if f64_le pct f64_zero then 1
      else let v = f64_to_int (f64_add (f64_div (f64_mul pct (f64_of_int 254)) f64_hundred) f64_half);
               v = (if v < 1 then 1 else v)
           in if 254 < v then 254 else v)"

definition stateOn :: "string \<Rightarrow> bool" where
  "stateOn s \<longleftrightarrow> equal_fold (trim_space s) ''ON''"

end
