(* ===== verification/Plugin_Steps.thy ===== *)
theory Plugin_Steps
  imports Plugin_Registry
begin

text \<open>
  How the models of plugins are put together: a step of a plugin takes its state and returns the new
  one with the calls of its host in order. Also what several plugins use of \<^verbatim>\<open>strings\<close> and \<^verbatim>\<open>fmt\<close>.
\<close>

section \<open>Steps\<close>

type_synonym 's plugin_step = "'s \<Rightarrow> 's \<times> host_call list"

definition then_step :: "'s plugin_step \<Rightarrow> 's plugin_step \<Rightarrow> 's plugin_step" where
  "then_step f g z = (case f z of (z', cs) \<Rightarrow> (case g z' of (z'', ds) \<Rightarrow> (z'', cs @ ds)))"

fun each_step :: "('a \<Rightarrow> 's plugin_step) \<Rightarrow> 'a list \<Rightarrow> 's plugin_step" where
  "each_step f [] z = (z, [])"
| "each_step f (x # xs) z = then_step (f x) (each_step f xs) z"

section \<open>Strings\<close>

text \<open>\<^verbatim>\<open>strings.ReplaceAll\<close> for a text to replace that is not empty.\<close>

function replace_all :: "string \<Rightarrow> string \<Rightarrow> string \<Rightarrow> string" where
  "replace_all old new [] = []"
| "replace_all old new (c # s) =
     (if old \<noteq> [] \<and> take (length old) (c # s) = old then new @ replace_all old new (drop (length old) (c # s))
      else c # replace_all old new s)"
  by pat_completeness auto
termination by (relation "measure (\<lambda>(old, new, s). length s)") auto

text \<open>The text before and after the first occurrence, as with \<^verbatim>\<open>strings.Index\<close>.\<close>

fun split_first :: "string \<Rightarrow> string \<Rightarrow> (string \<times> string) option" where
  "split_first sep [] = (if sep = [] then Some ([], []) else None)"
| "split_first sep (c # s) =
     (if take (length sep) (c # s) = sep then Some ([], drop (length sep) (c # s))
      else map_option (\<lambda>(a, b). (c # a, b)) (split_first sep s))"

text \<open>\<^verbatim>\<open>fmt.Sscanf\<close> of one \<^verbatim>\<open>%d\<close>: the integer and the rest; \<open>None\<close> without digits or out of 64 bits.\<close>

definition scan_int :: "string \<Rightarrow> (int \<times> string) option" where
  "scan_int s =
     (let s = dropWhile (\<lambda>c. c \<in> {CHR '' '', CHR 0x09, CHR 0x0B, CHR 0x0C, CHR 0x0D}) s;
          neg = (s \<noteq> [] \<and> hd s = CHR ''-'');
          s = (if s \<noteq> [] \<and> hd s \<in> {CHR ''-'', CHR ''+''} then tl s else s);
          ds = takeWhile (\<lambda>c. digit_val c \<noteq> None) s
      in case digits_val ds of
           None \<Rightarrow> None
         | Some n \<Rightarrow>
             let i = (if neg then - int n else int n)
             in if in_int64 i then Some (i, drop (length ds) s) else None)"

end
