(* ===== verification/Z2m_Plugin.thy ===== *)
theory Z2m_Plugin
  imports Z2m_Discovery Mqtt_Broker Plugin_Steps
begin

text \<open>
  The Zigbee2MQTT plugin (\<^verbatim>\<open>pkg/bridge/zigbee2mqtt/zigbee2mqtt.go\<close>) as a state machine. A subscription
  of a mapping is an object that handlers and timers refer to, so it lives in a store (\<open>z_subs\<close>)
  and \<open>z_subscribed\<close> says which one a device has now. The broker is the one of \<open>Mqtt_Broker\<close>,
  with a datatype for the closures it calls. A hold timer is armed, then due (it has expired and its
  function waits for the lock), then done; stopping one that is due has no effect, as in Go.
  Calls of the host are returned as a list. \<open>z2m_env\<close> is what comes from outside:
  the decoders of \<^verbatim>\<open>encoding/json\<close>, the outcomes of the library, \<^verbatim>\<open>%q\<close>.
\<close>

section \<open>State\<close>

record z2m_env =
  ze_devices :: "string \<Rightarrow> string + bridge_device list"
  ze_groups :: "string \<Rightarrow> string + bridge_group list"
  ze_state :: "string \<Rightarrow> obj option"
  ze_avail :: "string \<Rightarrow> string option"
  ze_subscribe :: "string \<Rightarrow> string option"
  ze_publish :: "string \<Rightarrow> obj \<Rightarrow> string option"
  ze_quote :: "string \<Rightarrow> string"

record z2m_config =
  zc_broker :: string
  zc_baseTopic :: string
  zc_includeBattery :: bool
  zc_includeLinkquality :: bool

record device_sub =
  ds_mapping :: mapping
  ds_ieee :: string
  ds_epName :: string
  ds_isGroup :: bool
  ds_groupID :: string
  ds_subs :: "nat list"
  ds_hue :: f64
  ds_sat :: f64
  ds_held :: "int list"
  ds_timers :: "(int, nat) gomap"

record discovered_group =
  dg_grp :: bridge_group
  dg_endpoint :: endpoint

datatype z_handler = OnDevices | OnGroups | OnState nat discovered_device | OnAvailability nat | OnGroupState nat

record z2m =
  z_id :: string
  z_cfg :: z2m_config
  z_ready :: bool
  z_broker :: "z_handler mqtt_broker"
  z_devicesSub :: "nat option"
  z_groupsSub :: "nat option"
  z_devices :: "(string, discovered_device) gomap"
  z_groups :: "(string, discovered_group) gomap"
  z_subscribed :: "(string, nat) gomap"
  z_subs :: "(nat, device_sub) gomap"
  z_nextSub :: nat
  z_sent :: "(string \<times> obj) list"
  z_armed :: "(nat, nat \<times> int \<times> string) gomap"
  z_due :: "(nat \<times> int \<times> string) list"
  z_nextTimer :: nat

definition no_config :: z2m_config where
  "no_config = \<lparr>zc_broker = [], zc_baseTopic = ''zigbee2mqtt'', zc_includeBattery = False, zc_includeLinkquality = False\<rparr>"

definition NewPlugin :: "string \<Rightarrow> z_handler mqtt_broker \<Rightarrow> z2m" where
  "NewPlugin i b = \<lparr>z_id = i, z_cfg = no_config, z_ready = False, z_broker = b, z_devicesSub = None, z_groupsSub = None,
     z_devices = [], z_groups = [], z_subscribed = [], z_subs = [], z_nextSub = 0, z_sent = [], z_armed = [], z_due = [],
     z_nextTimer = 0\<rparr>"

definition new_sub :: "mapping \<Rightarrow> device_sub" where
  "new_sub m = \<lparr>ds_mapping = m, ds_ieee = [], ds_epName = [], ds_isGroup = False, ds_groupID = [], ds_subs = [],
     ds_hue = f64_zero, ds_sat = f64_zero, ds_held = [], ds_timers = []\<rparr>"

definition get_sub :: "z2m \<Rightarrow> nat \<Rightarrow> device_sub" where
  "get_sub z i = (case map_of (z_subs z) i of Some d \<Rightarrow> d
     | None \<Rightarrow> new_sub \<lparr>m_PluginID = [], m_RemoteEntityID = [], m_DSUID = [], m_Kind = [], m_Name = []\<rparr>)"

definition upd_sub :: "nat \<Rightarrow> (device_sub \<Rightarrow> device_sub) \<Rightarrow> z2m \<Rightarrow> z2m" where
  "upd_sub i f z = z\<lparr>z_subs := AList.update i (f (get_sub z i)) (z_subs z)\<rparr>"

definition sub_dsuid :: "z2m \<Rightarrow> nat \<Rightarrow> string" where
  "sub_dsuid z i = m_DSUID (ds_mapping (get_sub z i))"

type_synonym z_step = "z2m plugin_step"

section \<open>Topics\<close>

definition z_listen :: "z2m_env \<Rightarrow> string \<Rightarrow> z_handler \<Rightarrow> z2m \<Rightarrow> z2m \<times> (string + nat)" where
  "z_listen env topic h z =
     (case mb_Subscribe (ze_subscribe env topic) topic 0 h (z_broker z) of (b, r) \<Rightarrow> (z\<lparr>z_broker := b\<rparr>, r))"

definition z_unlisten :: "nat list \<Rightarrow> z2m \<Rightarrow> z2m" where
  "z_unlisten is z = z\<lparr>z_broker := fold mb_Close is (z_broker z)\<rparr>"

section \<open>Buttons\<close>

definition stop_timer :: "nat option \<Rightarrow> z2m \<Rightarrow> z2m" where
  "stop_timer t z = (case t of None \<Rightarrow> z | Some t \<Rightarrow> z\<lparr>z_armed := AList.delete t (z_armed z)\<rparr>)"

definition hold_timer :: "z2m \<Rightarrow> nat \<Rightarrow> int \<Rightarrow> nat option" where
  "hold_timer z i index = map_of (ds_timers (get_sub z i)) index"

definition release_held :: "nat \<Rightarrow> int \<Rightarrow> z2m \<Rightarrow> z2m" where
  "release_held i index =
     upd_sub i (\<lambda>d. d\<lparr>ds_held := removeAll index (ds_held d), ds_timers := AList.delete index (ds_timers d)\<rparr>)"

definition dispatchButtonAction :: "nat \<Rightarrow> int \<Rightarrow> string \<Rightarrow> z_step" where
  "dispatchButtonAction i index action z =
     (let u = sub_dsuid z i
      in if action = ''release'' then
           (if index \<in> set (ds_held (get_sub z i)) then
              (release_held i index (stop_timer (hold_timer z i index) z),
               [HButtonAction u index ''release'', HButton u index f64_zero])
            else (z, []))
         else if action = ''hold'' then
           (let t = z_nextTimer z; z = stop_timer (hold_timer z i index) z
            in (upd_sub i (\<lambda>d. d\<lparr>ds_held := List.insert index (ds_held d), ds_timers := AList.update index t (ds_timers d)\<rparr>)
                  (z\<lparr>z_armed := AList.update t (i, index, u) (z_armed z), z_nextTimer := Suc t\<rparr>),
                [HButton u index f64_one, HButtonAction u index ''hold'']))
         else (z, [HButton u index f64_one, HButtonAction u index action, HButton u index f64_zero]))"

definition autoReleaseHold :: "nat \<Rightarrow> int \<Rightarrow> string \<Rightarrow> z_step" where
  "autoReleaseHold i index dsuid z =
     (if index \<notin> set (ds_held (get_sub z i)) then (z, [])
      else (release_held i index z, [HButtonAction dsuid index ''release'', HButton dsuid index f64_zero]))"

section \<open>State messages\<close>

definition endpoint_of :: "discovered_device \<Rightarrow> string \<Rightarrow> endpoint option" where
  "endpoint_of d name = find (\<lambda>ep. ep_Name ep = name) (dd_endpoints d)"

definition button_message :: "nat \<Rightarrow> endpoint \<Rightarrow> obj \<Rightarrow> bool \<Rightarrow> z_step" where
  "button_message i ep msg retained z =
     (if retained then (z, [])
      else case stringField msg (ep_ActionProp ep) of
             None \<Rightarrow> (z, [])
           | Some action \<Rightarrow>
               (case splitButtonAction action of (prefix, suffix) \<Rightarrow>
                  if action = [] \<or> suffix = [] \<or> prefix \<noteq> ep_ActionPrefix ep \<or> mapActionSuffix suffix = [] then (z, [])
                  else dispatchButtonAction i 0 (mapActionSuffix suffix) z))"

definition sensor_message :: "string \<Rightarrow> endpoint \<Rightarrow> obj \<Rightarrow> host_call list" where
  "sensor_message u ep msg =
     List.map_filter (\<lambda>sf. map_option (HSensor u (sf_Index sf)) (numberField msg (sf_Property sf))) (ep_SensorFeatures ep) @
     List.map_filter (\<lambda>bf. map_option (\<lambda>v. HInput u (bf_Index bf) (if v \<noteq> bf_Invert bf then f64_one else f64_zero))
       (boolField msg (bf_Property bf))) (ep_BinaryFeatures ep)"

text \<open>Level and colour of a light; the same code serves a device and a group.\<close>

definition applyGroupState :: "nat \<Rightarrow> endpoint \<Rightarrow> obj \<Rightarrow> z_step" where
  "applyGroupState i ep msg z =
     (let u = sub_dsuid z i;
          state = stringField msg (ep_StateProp ep);
          on = (case state of Some s \<Rightarrow> stateOn s | None \<Rightarrow> True);
          level = (if state \<noteq> None \<and> \<not> on then [HChannel u 0 f64_zero]
                   else if state \<noteq> None \<and> \<not> ep_HasBrightness ep then [HChannel u 0 f64_hundred] else []);
          bri = (if ep_HasBrightness ep then
                   (case numberField msg (ep_BrightnessProp ep) of Some b \<Rightarrow> [HChannel u 0 (briToVDC b on)] | None \<Rightarrow> [])
                 else []);
          color = (if ep_HasColor ep then colorField msg (ep_ColorProp ep) else None)
      in case color of
           None \<Rightarrow> (z, level @ bri)
         | Some c \<Rightarrow>
             (case (numberField c ''hue'', numberField c ''saturation'') of
                (Some h, Some s) \<Rightarrow>
                  (upd_sub i (\<lambda>d. d\<lparr>ds_hue := h, ds_sat := s\<rparr>) z, level @ bri @ [HChannel u 1 h, HChannel u 2 s])
              | _ \<Rightarrow> (z, level @ bri)))"

definition applyState :: "nat \<Rightarrow> discovered_device \<Rightarrow> obj \<Rightarrow> bool \<Rightarrow> z_step" where
  "applyState i dev msg retained z =
     (case endpoint_of dev (ds_epName (get_sub z i)) of
        None \<Rightarrow> (z, [])
      | Some ep \<Rightarrow>
          if ep_Kind ep = ''button'' then button_message i ep msg retained z
          else if ep_Kind ep = ''sensor'' \<or> ep_Kind ep = ''binaryInput'' then (z, sensor_message (sub_dsuid z i) ep msg)
          else applyGroupState i ep msg z)"

definition availability_message :: "z2m_env \<Rightarrow> nat \<Rightarrow> string \<Rightarrow> z_step" where
  "availability_message env i payload z =
     (let v = trim_space payload;
          v = (if v \<noteq> [] \<and> hd v = CHR 0x7B then (case ze_avail env payload of Some s \<Rightarrow> s | None \<Rightarrow> v) else v)
      in (z, [HActive (sub_dsuid z i) (equal_fold v ''online'')]))"

section \<open>Activation\<close>

definition descriptor_calls :: "string \<Rightarrow> endpoint \<Rightarrow> host_call list" where
  "descriptor_calls u ep =
     map (\<lambda>sf. HSensorDescriptor u (sf_Index sf) (sf_Meta sf)) (ep_SensorFeatures ep) @
     map (\<lambda>bf. HInputDescriptor u (bf_Index bf) \<lparr>id_Name = bf_Property bf, id_Function = bf_Function bf\<rparr>) (ep_BinaryFeatures ep) @
     [HReAnnounce u]"

definition meta_calls :: "string \<Rightarrow> bridge_device \<Rightarrow> host_call list" where
  "meta_calls u d =
     (case zd_Definition d of
        Some df \<Rightarrow> [HMeta u (df_Vendor df) (df_Model df) (zd_SoftwareBuildID d)]
      | None \<Rightarrow> if zd_SoftwareBuildID d \<noteq> [] then [HMeta u [] [] (zd_SoftwareBuildID d)] else [])"

definition subscribe_failed :: "string \<Rightarrow> string \<Rightarrow> string \<Rightarrow> string \<Rightarrow> string \<Rightarrow> string \<Rightarrow> host_call" where
  "subscribe_failed what u k v topic e =
     HLog ''warn'' ''subscribe_failed'' what [(''dsuid'', GStr u), (k, GStr v), (''topic'', GStr topic), (''error'', GStr e)]"

definition activate :: "z2m_env \<Rightarrow> nat \<Rightarrow> discovered_device \<Rightarrow> z_step" where
  "activate env i dev z =
     (let base = zc_baseTopic (z_cfg z); d = dd_dev dev; u = sub_dsuid z i; sub = get_sub z i;
          topic = stateTopic base (zd_FriendlyName d)
      in case z_listen env topic (OnState i dev) z of (z, r) \<Rightarrow>
         (case z_listen env (availabilityTopic base (zd_FriendlyName d)) (OnAvailability i) z of (z, a) \<Rightarrow>
            (upd_sub i (\<lambda>s. s\<lparr>ds_subs := List.map_filter (\<lambda>x. case x of Inr n \<Rightarrow> Some n | Inl _ \<Rightarrow> None) [r, a]\<rparr>) z,
             (case r of Inr _ \<Rightarrow> [] | Inl e \<Rightarrow>
                [subscribe_failed ''failed to subscribe to zigbee2mqtt state topic'' u ''ieee'' (ds_ieee sub) topic e]) @
             (case endpoint_of dev (ds_epName sub) of
                Some ep \<Rightarrow> if ep_Kind ep = ''sensor'' \<or> ep_Kind ep = ''binaryInput'' then descriptor_calls u ep else []
              | None \<Rightarrow> []) @
             meta_calls u d @
             [HLog ''info'' ''subscribe_ok'' ''device subscribed''
                [(''dsuid'', GStr u), (''ieee'', GStr (ds_ieee sub)), (''endpoint'', GStr (ds_epName sub))]])))"

definition activateGroup :: "z2m_env \<Rightarrow> nat \<Rightarrow> discovered_group \<Rightarrow> z_step" where
  "activateGroup env i dg z =
     (let topic = stateTopic (zc_baseTopic (z_cfg z)) (zg_FriendlyName (dg_grp dg)); u = sub_dsuid z i;
          gid = ds_groupID (get_sub z i)
      in case z_listen env topic (OnGroupState i) z of
           (z, Inl e) \<Rightarrow>
             (z, [subscribe_failed ''failed to subscribe to zigbee2mqtt group state topic'' u ''group_id'' gid topic e])
         | (z, Inr n) \<Rightarrow>
             (upd_sub i (\<lambda>s. s\<lparr>ds_subs := [n]\<rparr>) z,
              [HLog ''info'' ''subscribe_ok'' ''group subscribed'' [(''dsuid'', GStr u), (''group_id'', GStr gid)]]))"

section \<open>Discovery\<close>

text \<open>The subscriptions of an address (or of a group) that are not yet active, in the order of the map.\<close>

definition inactive_subs :: "(device_sub \<Rightarrow> bool) \<Rightarrow> z2m \<Rightarrow> nat list" where
  "inactive_subs p z = filter (\<lambda>i. p (get_sub z i) \<and> ds_subs (get_sub z i) = []) (map snd (z_subscribed z))"

definition bridgeable :: "endpoint_opts \<Rightarrow> bridge_device \<Rightarrow> bool" where
  "bridgeable opts d \<longleftrightarrow> zd_IEEE d \<noteq> [] \<and> \<not> zd_Disabled d \<and> zd_Type d \<noteq> ''Coordinator'' \<and> endpointsWithOpts opts d \<noteq> []"

definition z_opts :: "z2m \<Rightarrow> endpoint_opts" where
  "z_opts z = \<lparr>eo_IncludeBattery = zc_includeBattery (z_cfg z), eo_IncludeLinkquality = zc_includeLinkquality (z_cfg z)\<rparr>"

definition add_device :: "endpoint_opts \<Rightarrow> bridge_device \<Rightarrow> (string, discovered_device) gomap \<Rightarrow> (string, discovered_device) gomap" where
  "add_device opts d = AList.update (zd_IEEE d) \<lparr>dd_dev = d, dd_endpoints = endpointsWithOpts opts d\<rparr>"

text \<open>How many of the keys are new, one after the other.\<close>

fun count_new :: "string list \<Rightarrow> string list \<Rightarrow> nat" where
  "count_new known [] = 0"
| "count_new known (k # ks) = (if k \<in> set known then 0 else 1) + count_new (k # known) ks"

definition keep_keys :: "string list \<Rightarrow> (string, 'a) gomap \<Rightarrow> (string, 'a) gomap" where
  "keep_keys ks = filter (\<lambda>(k, x). k \<in> set ks)"

text \<open>What is reported when the known devices or groups changed.\<close>

definition change_calls :: "string \<Rightarrow> nat \<Rightarrow> nat \<Rightarrow> nat \<Rightarrow> host_call list" where
  "change_calls what added removed n =
     (if 0 < added then [HLog ''info'' ''entity_added'' what [(''added'', GInt (int added)), (''total'', GInt (int n))]] else []) @
     (if 0 < added \<or> 0 < removed then [HDiscovery] else [])"

definition parse_failed :: "string \<Rightarrow> string \<Rightarrow> host_call" where
  "parse_failed what e = HLog ''warn'' ''entity_error'' what [(''error'', GStr e)]"

definition onDevices :: "z2m_env \<Rightarrow> string \<Rightarrow> z_step" where
  "onDevices env payload z =
     (if payload = [] then (z, [])
      else case ze_devices env payload of
             Inl e \<Rightarrow> (z, [parse_failed ''failed to parse zigbee2mqtt devices payload'' e])
           | Inr arr \<Rightarrow>
               (let found = filter (bridgeable (z_opts z)) arr; keys = map zd_IEEE found;
                    devices = fold (add_device (z_opts z)) found (z_devices z);
                    pending = concat (map (\<lambda>k. inactive_subs (\<lambda>s. ds_ieee s = k) z) keys);
                    calls = change_calls ''discovered devices updated'' (count_new (map fst (z_devices z)) keys)
                      (length (filter (\<lambda>k. k \<notin> set keys) (map fst devices))) (card (set keys))
                in then_step (\<lambda>z. (z\<lparr>z_devices := keep_keys keys devices\<rparr>, calls))
                     (each_step (\<lambda>i z. case map_of (z_devices z) (ds_ieee (get_sub z i)) of
                        None \<Rightarrow> (z, []) | Some d \<Rightarrow> activate env i d z) pending) z))"

definition onGroups :: "z2m_env \<Rightarrow> string \<Rightarrow> z_step" where
  "onGroups env payload z =
     (if payload = [] then (z, [])
      else case ze_groups env payload of
             Inl e \<Rightarrow> (z, [parse_failed ''failed to parse zigbee2mqtt groups payload'' e])
           | Inr arr \<Rightarrow>
               (let keys = map groupEntityID arr;
                    groups = fold (\<lambda>g. AList.update (groupEntityID g)
                      \<lparr>dg_grp = g, dg_endpoint = inferEndpoint (z_devices z) g\<rparr>) arr (z_groups z);
                    pending = concat (map (\<lambda>k. inactive_subs (\<lambda>s. ds_isGroup s \<and> ds_groupID s = k) z) keys);
                    calls = change_calls ''discovered groups updated'' (count_new (map fst (z_groups z)) keys)
                      (length (filter (\<lambda>k. k \<notin> set keys) (map fst groups))) (card (set keys))
                in then_step (\<lambda>z. (z\<lparr>z_groups := keep_keys keys groups\<rparr>, calls))
                     (each_step (\<lambda>i z. case map_of (z_groups z) (ds_groupID (get_sub z i)) of
                        None \<Rightarrow> (z, []) | Some g \<Rightarrow> activateGroup env i g z) pending) z))"

section \<open>The plugin interface\<close>

definition parseConfig_z2m :: "obj \<Rightarrow> string + z2m_config" where
  "parseConfig_z2m raw =
     (let broker = trim_space (cfg_str raw ''broker'');
          base = trim_space (rev (dropWhile (\<lambda>c. c = CHR ''/'') (rev (cfg_str raw ''baseTopic''))));
          flag = (\<lambda>k. case j_get raw k of GBool b \<Rightarrow> b | _ \<Rightarrow> False)
      in if broker = [] then Inl ([CHR 0x27] @ ''broker'' @ [CHR 0x27] @ '' is required (id of the MQTT plugin instance)'')
         else Inr \<lparr>zc_broker = broker, zc_baseTopic = (if base = [] then ''zigbee2mqtt'' else base),
                zc_includeBattery = flag ''includeBattery'', zc_includeLinkquality = flag ''includeLinkquality''\<rparr>)"

text \<open>
  \<^verbatim>\<open>Init\<close>: \<open>found\<close> is what the manager answers for the broker, \<open>None\<close> when there is no manager.
\<close>

definition z_Init :: "z2m_env \<Rightarrow> (string \<Rightarrow> (string + z_handler mqtt_broker) option) \<Rightarrow> obj \<Rightarrow> z2m \<Rightarrow> z2m \<times> string option" where
  "z_Init env found raw z =
     (case parseConfig_z2m raw of
        Inl e \<Rightarrow> (z, Some (''zigbee2mqtt '' @ ze_quote env (z_id z) @ '': '' @ e))
      | Inr c \<Rightarrow>
          (let z = z\<lparr>z_cfg := c\<rparr>
           in case found (zc_broker c) of
                None \<Rightarrow> (z, Some ''zigbee2mqtt: MQTT manager is not available'')
              | Some (Inl e) \<Rightarrow> (z, Some (''zigbee2mqtt: broker '' @ ze_quote env (zc_broker c) @ '' not registered: '' @ e))
              | Some (Inr b) \<Rightarrow>
                  (case z_listen env (zc_baseTopic c @ ''/bridge/devices'') OnDevices (z\<lparr>z_broker := b, z_ready := True\<rparr>) of
                     (z, Inl e) \<Rightarrow> (z, Some (''zigbee2mqtt: subscribe '' @ zc_baseTopic c @ ''/bridge/devices: '' @ e))
                   | (z, Inr n) \<Rightarrow>
                       (case z_listen env (zc_baseTopic c @ ''/bridge/groups'') OnGroups (z\<lparr>z_devicesSub := Some n\<rparr>) of
                          (z, Inl e) \<Rightarrow> (z, None)
                        | (z, Inr m) \<Rightarrow> (z\<lparr>z_groupsSub := Some m\<rparr>, None)))))"

record remote_entity =
  re_ID :: string
  re_Name :: string
  re_Kind :: string
  re_Attributes :: obj

definition device_entity :: "discovered_device \<Rightarrow> endpoint \<Rightarrow> remote_entity" where
  "device_entity dd ep =
     (let d = dd_dev dd
      in \<lparr>re_ID = entityID d ep, re_Name = displayName d ep, re_Kind = ep_Kind ep,
          re_Attributes = [(''ieee'', GStr (zd_IEEE d)), (''friendly'', GStr (zd_FriendlyName d)), (''power'', GStr (zd_PowerSource d)),
              (''sw'', GStr (zd_SoftwareBuildID d)), (''supported'', GBool (zd_Supported d))] @
            (case zd_Definition d of None \<Rightarrow> [] | Some df \<Rightarrow> [(''model'', GStr (df_Model df)), (''vendor'', GStr (df_Vendor df))]) @
            (if ep_Name ep = [] then [] else [(''endpoint'', GStr (ep_Name ep))])\<rparr>)"

definition group_entity :: "discovered_group \<Rightarrow> remote_entity" where
  "group_entity dg =
     (let g = dg_grp dg
      in \<lparr>re_ID = groupEntityID g, re_Name = groupDisplayName g, re_Kind = ep_Kind (dg_endpoint dg),
          re_Attributes = [(''friendly'', GStr (zg_FriendlyName g)), (''group_id'', GInt (zg_ID g)),
            (''members'', GInt (int (length (zg_Members g)))), (''type'', GStr ''group'')]\<rparr>)"

definition z_Discover :: "z2m \<Rightarrow> remote_entity list" where
  "z_Discover z = concat (map (\<lambda>(k, dd). map (device_entity dd) (dd_endpoints dd)) (z_devices z)) @
     map (group_entity \<circ> snd) (z_groups z)"

definition z_Stats :: "z2m \<Rightarrow> nat \<times> nat" where
  "z_Stats z = (length (z_devices z) + length (z_groups z), length (z_subscribed z))"

text \<open>A new subscription object for a mapping; the device refers to it from now on.\<close>

definition add_sub :: "device_sub \<Rightarrow> z2m \<Rightarrow> z2m" where
  "add_sub d z = z\<lparr>z_subs := AList.update (z_nextSub z) d (z_subs z),
     z_subscribed := AList.update (m_DSUID (ds_mapping d)) (z_nextSub z) (z_subscribed z), z_nextSub := Suc (z_nextSub z)\<rparr>"

definition z_Subscribe :: "z2m_env \<Rightarrow> mapping \<Rightarrow> z_step" where
  "z_Subscribe env m z =
     (let i = z_nextSub z; eid = m_RemoteEntityID m
      in if isGroupEntityID eid then
           (let z = add_sub ((new_sub m)\<lparr>ds_isGroup := True, ds_groupID := eid\<rparr>) z
            in case map_of (z_groups z) eid of None \<Rightarrow> (z, []) | Some dg \<Rightarrow> activateGroup env i dg z)
         else (case parseEntityID eid of (ieee, name) \<Rightarrow>
           (let z = add_sub ((new_sub m)\<lparr>ds_ieee := ieee, ds_epName := name\<rparr>) z
            in case map_of (z_devices z) ieee of None \<Rightarrow> (z, []) | Some d \<Rightarrow> activate env i d z)))"

definition z_Unsubscribe :: "string \<Rightarrow> z2m \<Rightarrow> z2m" where
  "z_Unsubscribe dsuid z =
     (case map_of (z_subscribed z) dsuid of
        None \<Rightarrow> z
      | Some i \<Rightarrow> z_unlisten (ds_subs (get_sub z i)) (z\<lparr>z_subscribed := AList.delete dsuid (z_subscribed z)\<rparr>))"

definition z_publish :: "z2m_env \<Rightarrow> string \<Rightarrow> obj \<Rightarrow> z2m \<Rightarrow> z2m \<times> string option" where
  "z_publish env topic payload z =
     (case broker_Publish (ze_publish env topic payload) (z_broker z) of
        Some e \<Rightarrow> (z, Some e)
      | None \<Rightarrow> (z\<lparr>z_sent := z_sent z @ [(topic, payload)]\<rparr>, None))"

definition level_payload :: "endpoint \<Rightarrow> f64 \<Rightarrow> obj" where
  "level_payload ep x =
     (if f64_le x f64_zero then [(ep_StateProp ep, GStr ''OFF'')]
      else if \<not> ep_HasBrightness ep then [(ep_StateProp ep, GStr ''ON'')]
      else [(ep_BrightnessProp ep, GInt (vdcToBri x))])"

definition color_payload :: "endpoint \<Rightarrow> f64 \<Rightarrow> f64 \<Rightarrow> obj" where
  "color_payload ep h s = [(ep_ColorProp ep, GObj [(''hue'', GInt (f64_to_int h)), (''saturation'', GInt (f64_to_int s))])]"

definition applyToEndpoint :: "z2m_env \<Rightarrow> nat \<Rightarrow> endpoint \<Rightarrow> string \<Rightarrow> command \<Rightarrow> z2m \<Rightarrow> z2m \<times> string option" where
  "applyToEndpoint env i ep topic cmd z =
     (if c_Type cmd \<noteq> ''setChannel'' then (z, None)
      else if c_Channel cmd = 0 then z_publish env topic (level_payload ep (c_Value cmd)) z
      else if c_Channel cmd \<in> {1, 2} \<and> ep_HasColor ep then
        (let z = upd_sub i (\<lambda>d. if c_Channel cmd = 1 then d\<lparr>ds_hue := clampF (c_Value cmd) f64_zero (f64_of_int 360)\<rparr>
                                else d\<lparr>ds_sat := clampF (c_Value cmd) f64_zero f64_hundred\<rparr>) z
         in z_publish env topic (color_payload ep (ds_hue (get_sub z i)) (ds_sat (get_sub z i))) z)
      else (z, None))"

definition z_Apply :: "z2m_env \<Rightarrow> mapping \<Rightarrow> command \<Rightarrow> z2m \<Rightarrow> z2m \<times> string option" where
  "z_Apply env m cmd z =
     (case map_of (z_subscribed z) (m_DSUID m) of
        None \<Rightarrow> (z, Some (''zigbee2mqtt: not subscribed: '' @ m_DSUID m))
      | Some i \<Rightarrow>
          (let sub = get_sub z i; base = zc_baseTopic (z_cfg z)
           in if ds_isGroup sub then
                (case map_of (z_groups z) (ds_groupID sub) of
                   None \<Rightarrow> (z, Some (''zigbee2mqtt: group '' @ ze_quote env (ds_groupID sub) @ '' not yet discovered''))
                 | Some dg \<Rightarrow> applyToEndpoint env i (dg_endpoint dg) (setTopic base (zg_FriendlyName (dg_grp dg))) cmd z)
              else
                (case map_of (z_devices z) (ds_ieee sub) of
                   None \<Rightarrow> (z, Some (''zigbee2mqtt: device '' @ ze_quote env (ds_ieee sub) @ '' not yet discovered''))
                 | Some dev \<Rightarrow>
                     (case endpoint_of dev (ds_epName sub) of
                        None \<Rightarrow> (z, Some (''zigbee2mqtt: endpoint '' @ ze_quote env (ds_epName sub) @ '' not found on '' @ ds_ieee sub))
                      | Some ep \<Rightarrow> applyToEndpoint env i ep (setTopic base (zd_FriendlyName (dd_dev dev))) cmd z))))"

definition z_Close :: "z2m \<Rightarrow> z2m" where
  "z_Close z =
     z_unlisten ((case z_devicesSub z of None \<Rightarrow> [] | Some n \<Rightarrow> [n]) @ (case z_groupsSub z of None \<Rightarrow> [] | Some n \<Rightarrow> [n]) @
         concat (map (\<lambda>(u, i). ds_subs (get_sub z i)) (z_subscribed z))) (z\<lparr>z_subscribed := []\<rparr>)"

section \<open>What can happen\<close>

text \<open>One call of a closure by the broker.\<close>

fun run_handler :: "z2m_env \<Rightarrow> z_handler \<Rightarrow> string \<Rightarrow> bool \<Rightarrow> z_step" where
  "run_handler env OnDevices payload retained z = onDevices env payload z"
| "run_handler env OnGroups payload retained z = onGroups env payload z"
| "run_handler env (OnState i dev) payload retained z =
     (case ze_state env payload of None \<Rightarrow> (z, []) | Some msg \<Rightarrow> applyState i dev msg retained z)"
| "run_handler env (OnAvailability i) payload retained z = availability_message env i payload z"
| "run_handler env (OnGroupState i) payload retained z =
     (case ze_state env payload of
        None \<Rightarrow> (z, [])
      | Some msg \<Rightarrow>
          (case map_of (z_groups z) (ds_groupID (get_sub z i)) of
             None \<Rightarrow> (z, []) | Some dg \<Rightarrow> applyGroupState i (dg_endpoint dg) msg z))"

datatype z_op =
    ZSubscribe mapping | ZUnsubscribe string | ZApply mapping command | ZClose
  | ZMessage string string bool
  \<comment> \<open>a message with its topic and payload, fanned out to every handler\<close>
  | ZExpire nat
  \<comment> \<open>an armed timer expires\<close>
  | ZRelease nat
  \<comment> \<open>the function of a timer that is due runs\<close>

fun z_do :: "z2m_env \<Rightarrow> z_op \<Rightarrow> z_step" where
  "z_do env (ZSubscribe m) z = z_Subscribe env m z"
| "z_do env (ZUnsubscribe u) z = (z_Unsubscribe u z, [])"
| "z_do env (ZApply m cmd) z = (fst (z_Apply env m cmd z), [])"
| "z_do env ZClose z = (z_Close z, [])"
| "z_do env (ZMessage topic payload retained) z =
     each_step (\<lambda>h. run_handler env h payload retained) (dispatch_handlers (z_broker z) topic) z"
| "z_do env (ZExpire t) z =
     (case map_of (z_armed z) t of
        None \<Rightarrow> (z, []) | Some x \<Rightarrow> (z\<lparr>z_armed := AList.delete t (z_armed z), z_due := z_due z @ [x]\<rparr>, []))"
| "z_do env (ZRelease n) z =
     (if n < length (z_due z) then
        (case z_due z ! n of (i, index, u) \<Rightarrow>
           autoReleaseHold i index u (z\<lparr>z_due := take n (z_due z) @ drop (Suc n) (z_due z)\<rparr>))
      else (z, []))"

end
