(* ===== verification/Z2m_Buttons.thy ===== *)
theory Z2m_Buttons
  imports Z2m_Plugin
begin

text \<open>
  The button gestures of the Zigbee2MQTT plugin: whatever order messages, timers and requests come
  in, a button that was reported as pressed is held by a subscription whose timer is armed or due,
  so its release is still to come.
\<close>

section \<open>Reported values\<close>

fun note_value :: "string \<Rightarrow> int \<Rightarrow> host_call \<Rightarrow> f64 \<Rightarrow> f64" where
  "note_value u x (HButton u' x' w) v = (if u' = u \<and> x' = x then w else v)"
| "note_value u x _ v = v"

text \<open>The value last reported for a button, zero when there is none.\<close>

definition last_value :: "host_call list \<Rightarrow> string \<Rightarrow> int \<Rightarrow> f64" where
  "last_value cs u x = fold (note_value u x) cs f64_zero"

definition no_button :: "host_call list \<Rightarrow> bool" where
  "no_button cs \<longleftrightarrow> (\<forall>u x v. fold (note_value u x) cs v = v)"

lemma last_value_append: "last_value (cs @ ds) u x = fold (note_value u x) ds (last_value cs u x)"
  by (simp add: last_value_def)

lemma no_button_simps [simp]:
  "no_button []" "no_button cs \<Longrightarrow> no_button ds \<Longrightarrow> no_button (cs @ ds)"
  "no_button (HLog l c m fs # cs) = no_button cs" "no_button (HActive u act # cs) = no_button cs"
  "no_button (HChannel u i v # cs) = no_button cs" "no_button (HReAnnounce u # cs) = no_button cs"
  "no_button (HMeta u a b c # cs) = no_button cs" "no_button (HDiscovery # cs) = no_button cs"
  by (simp_all add: no_button_def)

lemma no_button_map: "(\<And>x v. x \<in> set xs \<Longrightarrow> fold (note_value u i) [f x] v = v) \<Longrightarrow> fold (note_value u i) (map f xs) v = v"
  by (induction xs arbitrary: v) auto

lemma no_button_sensors [simp]: "no_button (sensor_message u ep msg)" "no_button (descriptor_calls u ep)" "no_button (meta_calls u d)"
  "no_button (change_calls w a r n)"
proof -
  have filt: "no_button (List.map_filter f xs)" if "\<And>x c. f x = Some c \<Longrightarrow> no_button [c]" for f :: "'a \<Rightarrow> host_call option" and xs
    using that by (induction xs) (auto simp: no_button_def map_filter_simps split: option.split)
  show "no_button (sensor_message u ep msg)"
    unfolding sensor_message_def by (intro no_button_simps(2) filt) (auto simp: no_button_def)
  show "no_button (descriptor_calls u ep)"
    by (auto simp: descriptor_calls_def no_button_def no_button_map)
  show "no_button (meta_calls u d)" "no_button (change_calls w a r n)"
    by (auto simp: meta_calls_def change_calls_def split: option.split)
qed

section \<open>What a step leaves alone\<close>

definition sub_key :: "z2m \<Rightarrow> nat \<Rightarrow> mapping \<times> int list \<times> (int, nat) gomap" where
  "sub_key z i = (ds_mapping (get_sub z i), ds_held (get_sub z i), ds_timers (get_sub z i))"

fun handler_refs :: "z_handler \<Rightarrow> nat list" where
  "handler_refs (OnState i d) = [i]"
| "handler_refs (OnAvailability i) = [i]"
| "handler_refs (OnGroupState i) = [i]"
| "handler_refs _ = []"

definition refs_ok :: "z2m \<Rightarrow> bool" where
  "refs_ok z \<longleftrightarrow> (\<forall>i. z_nextSub z \<le> i \<longrightarrow> map_of (z_subs z) i = None) \<and>
     (\<forall>s u. map_of (mb_objs (z_broker z)) s = Some u \<longrightarrow> (\<forall>i \<in> set (handler_refs (su_handler u)). i < z_nextSub z)) \<and>
     (\<forall>x \<in> set (z_subscribed z). snd x < z_nextSub z)"

text \<open>A step that has nothing to do with buttons.\<close>

definition quiet :: "nat \<Rightarrow> z_step \<Rightarrow> bool" where
  "quiet n f \<longleftrightarrow> (\<forall>z. refs_ok z \<longrightarrow> n \<le> z_nextSub z \<longrightarrow>
     (case f z of (z', cs) \<Rightarrow> refs_ok z' \<and> no_button cs \<and> sub_key z' = sub_key z \<and> z_armed z' = z_armed z \<and> z_due z' = z_due z \<and>
        z_nextTimer z' = z_nextTimer z \<and> z_nextSub z' = z_nextSub z))"

lemma quietD:
  assumes "quiet n f" "refs_ok z" "n \<le> z_nextSub z" "f z = (z', cs)"
  shows "refs_ok z'" "no_button cs" "sub_key z' = sub_key z" "z_armed z' = z_armed z" "z_due z' = z_due z"
    "z_nextTimer z' = z_nextTimer z" "z_nextSub z' = z_nextSub z"
  using assms by (auto simp: quiet_def dest!: spec [of _ z])

lemma quiet_then [intro]: "quiet n f \<Longrightarrow> quiet n g \<Longrightarrow> quiet n (then_step f g)"
proof -
  assume f: "quiet n f" and g: "quiet n g"
  show ?thesis
    unfolding quiet_def
  proof (intro allI impI)
    fix z assume z: "refs_ok z" "n \<le> z_nextSub z"
    obtain z1 cs where 1: "f z = (z1, cs)" by (cases "f z")
    obtain z2 ds where 2: "g z1 = (z2, ds)" by (cases "g z1")
    from quietD [OF f z 1] quietD [OF g _ _ 2] z
    show "case then_step f g z of (z', cs) \<Rightarrow> refs_ok z' \<and> no_button cs \<and> sub_key z' = sub_key z \<and> z_armed z' = z_armed z \<and>
        z_due z' = z_due z \<and> z_nextTimer z' = z_nextTimer z \<and> z_nextSub z' = z_nextSub z"
      by (simp add: then_step_def 1 2)
  qed
qed

lemma quiet_each [intro]: "(\<And>x. x \<in> set xs \<Longrightarrow> quiet n (f x)) \<Longrightarrow> quiet n (each_step f xs)"
proof (induction xs)
  case Nil
  then show ?case by (simp add: quiet_def)
next
  case (Cons x xs)
  have "quiet n (then_step (f x) (each_step f xs))" using Cons by (intro quiet_then) auto
  then show ?case by (simp add: quiet_def)
qed

lemma sub_key_get: "sub_key z' = sub_key z \<longleftrightarrow> (\<forall>i. ds_mapping (get_sub z' i) = ds_mapping (get_sub z i) \<and>
    ds_held (get_sub z' i) = ds_held (get_sub z i) \<and> ds_timers (get_sub z' i) = ds_timers (get_sub z i))"
  by (auto simp: fun_eq_iff sub_key_def)

lemma get_sub_cong: "z_subs z' = z_subs z \<Longrightarrow> get_sub z' = get_sub z"
  by (simp add: fun_eq_iff get_sub_def)

lemma get_upd_sub [simp]: "get_sub (upd_sub i f z) j = (if j = i then f (get_sub z i) else get_sub z j)"
  by (simp add: get_sub_def upd_sub_def)

lemma upd_sub_fields [simp]:
  "z_armed (upd_sub i f z) = z_armed z" "z_due (upd_sub i f z) = z_due z" "z_nextTimer (upd_sub i f z) = z_nextTimer z"
  "z_nextSub (upd_sub i f z) = z_nextSub z" "z_broker (upd_sub i f z) = z_broker z" "z_subscribed (upd_sub i f z) = z_subscribed z"
  "z_devices (upd_sub i f z) = z_devices z" "z_groups (upd_sub i f z) = z_groups z" "z_cfg (upd_sub i f z) = z_cfg z"
  by (simp_all add: upd_sub_def)

lemma refs_upd [simp]: "i < z_nextSub z \<Longrightarrow> refs_ok (upd_sub i f z) = refs_ok z"
  by (auto simp: refs_ok_def upd_sub_def)

section \<open>The broker\<close>

lemma subscribe_objs:
  assumes "mb_Subscribe err topic q h b = (b', r)"
  shows "mb_objs b' = AList.update (mb_next b) \<lparr>su_topic = topic, su_qos = q, su_handler = h, su_closed = False\<rparr> (mb_objs b)"
  using assms by (auto simp: mb_Subscribe_def sub_register_def installTopic_def drop_sub_def Let_def split: bool.splits option.splits if_splits)

lemma listen_frame:
  assumes "z_listen env topic h z = (z', r)" "refs_ok z" "\<forall>i \<in> set (handler_refs h). i < z_nextSub z"
  shows "refs_ok z'" "z_subs z' = z_subs z" "z_armed z' = z_armed z" "z_due z' = z_due z" "z_nextTimer z' = z_nextTimer z"
    "z_nextSub z' = z_nextSub z" "z_cfg z' = z_cfg z" "z_subscribed z' = z_subscribed z"
proof -
  obtain b where b: "mb_Subscribe (ze_subscribe env topic) topic 0 h (z_broker z) = (b, r)" "z' = z\<lparr>z_broker := b\<rparr>"
    using assms(1) by (auto simp: z_listen_def split: prod.splits)
  from b(2) show "z_subs z' = z_subs z" "z_armed z' = z_armed z" "z_due z' = z_due z" "z_nextTimer z' = z_nextTimer z"
    "z_nextSub z' = z_nextSub z" "z_cfg z' = z_cfg z" "z_subscribed z' = z_subscribed z" by simp_all
  show "refs_ok z'" using subscribe_objs [OF b(1)] assms(2,3) b(2) by (auto simp: refs_ok_def)
qed

lemma close_handlers:
  "map_of (mb_objs (mb_Close s b)) i = Some u \<Longrightarrow> \<exists>v. map_of (mb_objs b) i = Some v \<and> su_handler v = su_handler u"
  by (auto simp: mb_Close_def close_locked_def drop_sub_def uninstall_def Let_def split: option.splits if_splits)

lemma closes_handlers:
  "map_of (mb_objs (fold mb_Close ss b)) i = Some u \<Longrightarrow> \<exists>v. map_of (mb_objs b) i = Some v \<and> su_handler v = su_handler u"
proof (induction ss arbitrary: b)
  case (Cons s ss)
  from Cons.IH [OF Cons.prems [simplified]] close_handlers [of s b i] show ?case by fastforce
qed auto

lemma unlisten_refs: "refs_ok z \<Longrightarrow> refs_ok (z_unlisten ss z)"
  using closes_handlers [of ss "z_broker z"] by (fastforce simp: refs_ok_def z_unlisten_def)

lemma dispatched_refs:
  assumes "refs_ok z" "h \<in> set (dispatch_handlers (z_broker z) topic)" "i \<in> set (handler_refs h)"
  shows "i < z_nextSub z"
proof -
  obtain s u where "map_of (mb_objs (z_broker z)) s = Some u" "su_handler u = h"
    using assms(2) by (auto simp: dispatch_handlers_def List.map_filter_def)
  with assms(1,3) show ?thesis by (auto simp: refs_ok_def)
qed

section \<open>Steps that leave the buttons alone\<close>

lemma quietI:
  assumes "\<And>z z' cs. refs_ok z \<Longrightarrow> n \<le> z_nextSub z \<Longrightarrow> f z = (z', cs) \<Longrightarrow>
    refs_ok z' \<and> no_button cs \<and> sub_key z' = sub_key z \<and> z_armed z' = z_armed z \<and> z_due z' = z_due z \<and>
    z_nextTimer z' = z_nextTimer z \<and> z_nextSub z' = z_nextSub z"
  shows "quiet n f"
  unfolding quiet_def
proof (intro allI impI)
  fix z assume z: "refs_ok z" "n \<le> z_nextSub z"
  obtain z' cs where e: "f z = (z', cs)" by (cases "f z")
  show "case f z of (z', cs) \<Rightarrow> refs_ok z' \<and> no_button cs \<and> sub_key z' = sub_key z \<and> z_armed z' = z_armed z \<and>
      z_due z' = z_due z \<and> z_nextTimer z' = z_nextTimer z \<and> z_nextSub z' = z_nextSub z"
    unfolding e prod.case by (rule assms [OF z e])
qed

lemma quiet_calls: "(\<And>z. no_button (f z)) \<Longrightarrow> quiet n (\<lambda>z. (z, f z))"
  by (rule quietI) auto

lemma quiet_upd:
  assumes "i < n" "\<And>d. ds_mapping (g d) = ds_mapping d \<and> ds_held (g d) = ds_held d \<and> ds_timers (g d) = ds_timers d"
    and "\<And>z. no_button (f z)"
  shows "quiet n (\<lambda>z. (upd_sub i g z, f z))"
  using assms by (intro quietI) (auto simp: sub_key_get)

lemma group_state_cases:
  assumes "applyGroupState i ep msg z = (z', cs)"
  shows "no_button cs \<and> (z' = z \<or> (\<exists>h s. z' = upd_sub i (\<lambda>d. d\<lparr>ds_hue := h, ds_sat := s\<rparr>) z))"
proof -
  have n: "no_button ((if a then [HChannel u 0 x] else if b then [HChannel u 0 y] else []) @
      (if c then (case nb of Some w \<Rightarrow> [HChannel u 0 (f w)] | None \<Rightarrow> []) else []))" for a b c u x y nb f
    by (auto intro!: no_button_simps(2) split: option.split)
  note parts = n n [THEN no_button_simps(2), of "[HChannel u 1 h, HChannel u 2 s]" for u h s, simplified]
  show ?thesis
    using assms parts by (auto simp: applyGroupState_def Let_def split: option.splits)
qed

lemma quiet_group_state: "i < n \<Longrightarrow> quiet n (applyGroupState i ep msg)"
  by (rule quietI) (auto dest!: group_state_cases simp: sub_key_get)

lemma quiet_availability: "quiet n (availability_message env i payload)"
  by (rule quietI) (auto simp: availability_message_def Let_def)

lemma quiet_activate: "i < n \<Longrightarrow> quiet n (activate env i dev)"
proof (rule quietI)
  fix z z' cs assume a: "i < n" "refs_ok z" "n \<le> z_nextSub z" "activate env i dev z = (z', cs)"
  let ?t = "stateTopic (zc_baseTopic (z_cfg z)) (zd_FriendlyName (dd_dev dev))"
  let ?u = "availabilityTopic (zc_baseTopic (z_cfg z)) (zd_FriendlyName (dd_dev dev))"
  obtain z1 r where 1: "z_listen env ?t (OnState i dev) z = (z1, r)" by (cases "z_listen env ?t (OnState i dev) z")
  obtain z2 q where 2: "z_listen env ?u (OnAvailability i) z1 = (z2, q)" by (cases "z_listen env ?u (OnAvailability i) z1")
  have r: "\<forall>j \<in> set (handler_refs (OnState i dev)). j < z_nextSub z" using a(1,3) by simp
  note f1 = listen_frame [OF 1 a(2) r]
  have r2: "\<forall>j \<in> set (handler_refs (OnAvailability i)). j < z_nextSub z1" using a(1,3) f1(6) by simp
  note f2 = listen_frame [OF 2 f1(1) r2]
  have sub: "get_sub z2 = get_sub z" using get_sub_cong [of z2 z] f1(2) f2(2) by simp
  have z': "z' = upd_sub i (\<lambda>s. s\<lparr>ds_subs := List.map_filter (\<lambda>x. case x of Inr n \<Rightarrow> Some n | Inl _ \<Rightarrow> None) [r, q]\<rparr>) z2" "no_button cs"
    using a(4) by (auto simp: activate_def Let_def 1 2 subscribe_failed_def split: sum.splits option.splits if_splits
        intro!: no_button_simps(2))
  show "refs_ok z' \<and> no_button cs \<and> sub_key z' = sub_key z \<and> z_armed z' = z_armed z \<and> z_due z' = z_due z \<and>
    z_nextTimer z' = z_nextTimer z \<and> z_nextSub z' = z_nextSub z"
    using z' f1 f2 a(1,3) sub by (simp add: sub_key_get)
qed

lemma quiet_activate_group: "i < n \<Longrightarrow> quiet n (activateGroup env i dg)"
proof (rule quietI)
  fix z z' cs assume a: "i < n" "refs_ok z" "n \<le> z_nextSub z" "activateGroup env i dg z = (z', cs)"
  let ?t = "stateTopic (zc_baseTopic (z_cfg z)) (zg_FriendlyName (dg_grp dg))"
  obtain z1 r where 1: "z_listen env ?t (OnGroupState i) z = (z1, r)" by (cases "z_listen env ?t (OnGroupState i) z")
  have r: "\<forall>j \<in> set (handler_refs (OnGroupState i)). j < z_nextSub z" using a(1,3) by simp
  note f1 = listen_frame [OF 1 a(2) r]
  have sub: "get_sub z1 = get_sub z" using get_sub_cong [OF f1(2)] .
  show "refs_ok z' \<and> no_button cs \<and> sub_key z' = sub_key z \<and> z_armed z' = z_armed z \<and> z_due z' = z_due z \<and>
    z_nextTimer z' = z_nextTimer z \<and> z_nextSub z' = z_nextSub z"
    using a f1 sub by (auto simp: activateGroup_def Let_def 1 subscribe_failed_def sub_key_get split: sum.splits)
qed

lemma refs_z_devices [simp]: "refs_ok (z\<lparr>z_devices := d\<rparr>) = refs_ok z" "refs_ok (z\<lparr>z_groups := g\<rparr>) = refs_ok z"
  "sub_key (z\<lparr>z_devices := d\<rparr>) = sub_key z" "sub_key (z\<lparr>z_groups := g\<rparr>) = sub_key z"
  by (simp_all add: refs_ok_def fun_eq_iff sub_key_def get_sub_def)

lemma inactive_refs: "refs_ok z \<Longrightarrow> i \<in> set (inactive_subs p z) \<Longrightarrow> i < z_nextSub z"
  by (auto simp: inactive_subs_def refs_ok_def)

lemma quiet_case: "(\<And>d. quiet n (g d)) \<Longrightarrow> quiet n (\<lambda>z. case h z of None \<Rightarrow> (z, []) | Some d \<Rightarrow> g d z)"
proof (rule quietI)
  fix z z' cs assume g: "\<And>d. quiet n (g d)" and z: "refs_ok z" "n \<le> z_nextSub z"
    and e: "(case h z of None \<Rightarrow> (z, []) | Some d \<Rightarrow> g d z) = (z', cs)"
  show "refs_ok z' \<and> no_button cs \<and> sub_key z' = sub_key z \<and> z_armed z' = z_armed z \<and> z_due z' = z_due z \<and>
      z_nextTimer z' = z_nextTimer z \<and> z_nextSub z' = z_nextSub z"
  proof (cases "h z")
    case (Some d)
    then show ?thesis using quietD [OF g z, of d z' cs] e by simp
  qed (use e z in auto)
qed

lemma quiet_discovery:
  assumes "then_step (\<lambda>z. (f z, calls)) (each_step (\<lambda>i z. case h i z of None \<Rightarrow> (z, []) | Some d \<Rightarrow> act i d z) is) z = (z', cs)"
    and "refs_ok z" "no_button calls" "\<And>z. refs_ok z \<Longrightarrow> refs_ok (f z)" "\<And>z. sub_key (f z) = sub_key z \<and> z_armed (f z) = z_armed z \<and>
      z_due (f z) = z_due z \<and> z_nextTimer (f z) = z_nextTimer z \<and> z_nextSub (f z) = z_nextSub z"
    and "\<And>i d. i \<in> set is \<Longrightarrow> quiet (z_nextSub z) (act i d)"
  shows "refs_ok z' \<and> no_button cs \<and> sub_key z' = sub_key z \<and> z_armed z' = z_armed z \<and> z_due z' = z_due z \<and>
    z_nextTimer z' = z_nextTimer z \<and> z_nextSub z' = z_nextSub z"
proof -
  have "quiet (z_nextSub z) (\<lambda>z. (f z, calls))" by (rule quietI) (use assms(3-5) in auto)
  moreover have "quiet (z_nextSub z) (each_step (\<lambda>i z. case h i z of None \<Rightarrow> (z, []) | Some d \<Rightarrow> act i d z) is)"
    by (intro quiet_each quiet_case assms(6))
  ultimately show ?thesis using quietD [OF quiet_then assms(2) order.refl assms(1)] by simp
qed

lemma quiet_onDevices: "quiet n (onDevices env payload)"
proof (rule quietI)
  fix z z' cs assume r: "refs_ok z" and e: "onDevices env payload z = (z', cs)"
  show "refs_ok z' \<and> no_button cs \<and> sub_key z' = sub_key z \<and> z_armed z' = z_armed z \<and> z_due z' = z_due z \<and>
    z_nextTimer z' = z_nextTimer z \<and> z_nextSub z' = z_nextSub z"
  proof (cases "payload = [] \<or> (\<exists>e. ze_devices env payload = Inl e)")
    case True
    with e r show ?thesis by (auto simp: onDevices_def parse_failed_def split: if_splits)
  next
    case False
    then obtain arr where "payload \<noteq> []" "ze_devices env payload = Inr arr" by (metis sum.exhaust)
    with e show ?thesis unfolding onDevices_def Let_def
      by (simp del: map_map set_map) (erule quiet_discovery; use r in \<open>auto intro!: quiet_activate dest: inactive_refs [OF r]\<close>)
  qed
qed

lemma quiet_onGroups: "quiet n (onGroups env payload)"
proof (rule quietI)
  fix z z' cs assume r: "refs_ok z" and e: "onGroups env payload z = (z', cs)"
  show "refs_ok z' \<and> no_button cs \<and> sub_key z' = sub_key z \<and> z_armed z' = z_armed z \<and> z_due z' = z_due z \<and>
    z_nextTimer z' = z_nextTimer z \<and> z_nextSub z' = z_nextSub z"
  proof (cases "payload = [] \<or> (\<exists>e. ze_groups env payload = Inl e)")
    case True
    with e r show ?thesis by (auto simp: onGroups_def parse_failed_def split: if_splits)
  next
    case False
    then obtain arr where "payload \<noteq> []" "ze_groups env payload = Inr arr" by (metis sum.exhaust)
    with e show ?thesis unfolding onGroups_def Let_def
      by (simp del: map_map set_map) (erule quiet_discovery; use r in \<open>auto intro!: quiet_activate_group dest: inactive_refs [OF r]\<close>)
  qed
qed

section \<open>The gestures\<close>

definition release_coming :: "z2m \<Rightarrow> nat \<Rightarrow> int \<Rightarrow> bool" where
  "release_coming z i x \<longleftrightarrow>
     (\<exists>t. map_of (z_armed z) t = Some (i, x, sub_dsuid z i)) \<or> (i, x, sub_dsuid z i) \<in> set (z_due z)"

definition timers_ok :: "z2m \<Rightarrow> bool" where
  "timers_ok z \<longleftrightarrow>
     (\<forall>t i x u. map_of (z_armed z) t = Some (i, x, u) \<longrightarrow> t < z_nextTimer z \<and> i < z_nextSub z \<and> u = sub_dsuid z i) \<and>
     (\<forall>(i, x, u) \<in> set (z_due z). i < z_nextSub z \<and> u = sub_dsuid z i) \<and>
     (\<forall>i x t. hold_timer z i x = Some t \<longrightarrow> t < z_nextTimer z \<and>
        (\<forall>j y u. map_of (z_armed z) t = Some (j, y, u) \<longrightarrow> j = i \<and> y = x))"

definition gestures_ok :: "z2m \<Rightarrow> host_call list \<Rightarrow> bool" where
  "gestures_ok z log \<longleftrightarrow> refs_ok z \<and> timers_ok z \<and>
     (\<forall>i x. x \<in> set (ds_held (get_sub z i)) \<longrightarrow> release_coming z i x) \<and>
     (\<forall>u x. last_value log u x \<noteq> f64_zero \<longrightarrow>
        (\<exists>i < z_nextSub z. sub_dsuid z i = u \<and> x \<in> set (ds_held (get_sub z i))))"

lemma sub_key_cong:
  assumes "sub_key z' = sub_key z"
  shows "sub_dsuid z' = sub_dsuid z" "ds_held (get_sub z' i) = ds_held (get_sub z i)" "hold_timer z' = hold_timer z"
  using assms unfolding sub_key_get by (auto simp: sub_dsuid_def hold_timer_def fun_eq_iff)

lemma quiet_ok:
  assumes "quiet n f" "gestures_ok z log" "n \<le> z_nextSub z" "f z = (z', cs)"
  shows "gestures_ok z' (log @ cs)" "z_nextSub z' = z_nextSub z"
proof -
  have r: "refs_ok z" using assms(2) by (simp add: gestures_ok_def)
  note q = quietD [OF assms(1) r assms(3,4)]
  note k = sub_key_cong [OF q(3)]
  have "last_value (log @ cs) u x = last_value log u x" for u x
    using q(2) by (simp add: last_value_append no_button_def)
  moreover have "timers_ok z' = timers_ok z" "release_coming z' = release_coming z"
    by (simp_all add: fun_eq_iff timers_ok_def release_coming_def q k)
  ultimately show "gestures_ok z' (log @ cs)" using assms(2) q(1) by (simp add: gestures_ok_def k q(7))
  show "z_nextSub z' = z_nextSub z" by (rule q(7))
qed

text \<open>Releasing what is held: the held entry and its timer go, and the value is reported as zero.\<close>

lemma release_view:
  assumes "i < z_nextSub z"
  shows "sub_dsuid (release_held i x z) = sub_dsuid z" "refs_ok (release_held i x z) = refs_ok z"
    "ds_held (get_sub (release_held i x z) j) = (if j = i then removeAll x (ds_held (get_sub z i)) else ds_held (get_sub z j))"
    "hold_timer (release_held i x z) j y = (if j = i \<and> y = x then None else hold_timer z j y)"
    "z_armed (release_held i x z) = z_armed z" "z_due (release_held i x z) = z_due z"
    "z_nextTimer (release_held i x z) = z_nextTimer z" "z_nextSub (release_held i x z) = z_nextSub z"
  using assms by (auto simp: release_held_def fun_eq_iff sub_dsuid_def hold_timer_def)

lemma stop_view:
  "get_sub (stop_timer t z) = get_sub z" "refs_ok (stop_timer t z) = refs_ok z" "z_due (stop_timer t z) = z_due z"
  "z_nextTimer (stop_timer t z) = z_nextTimer z" "z_nextSub (stop_timer t z) = z_nextSub z"
  "map_of (z_armed (stop_timer t z)) s = (if t = Some s then None else map_of (z_armed z) s)"
  "sub_dsuid (stop_timer t z) = sub_dsuid z" "hold_timer (stop_timer t z) = hold_timer z"
  by (auto simp: stop_timer_def get_sub_def refs_ok_def fun_eq_iff sub_dsuid_def hold_timer_def split: option.split)

lemma last_release: "last_value (log @ [HButtonAction u x a, HButton u x f64_zero]) v y =
    (if v = u \<and> y = x then f64_zero else last_value log v y)"
  by (auto simp: last_value_append)

text \<open>A release of a held button, after its timer was stopped or became due.\<close>

lemma released_ok:
  assumes "gestures_ok z log" "i < z_nextSub z" "u = sub_dsuid z i"
    and "sub_key z1 = sub_key z" "refs_ok z1" "z_nextTimer z1 = z_nextTimer z" "z_nextSub z1 = z_nextSub z" "timers_ok z1"
    and "\<And>j y. (j, y) \<noteq> (i, x) \<Longrightarrow> release_coming z j y \<Longrightarrow> release_coming z1 j y"
  shows "gestures_ok (release_held i x z1) (log @ [HButtonAction u x a, HButton u x f64_zero])"
proof -
  have i: "i < z_nextSub z1" using assms(2,7) by simp
  note v = release_view [OF i] and k = sub_key_cong [OF assms(4)]
  let ?z = "release_held i x z1"
  have "timers_ok ?z" using assms(8) by (auto simp: timers_ok_def v split: if_splits)
  moreover have "release_coming ?z j y" if "y \<in> set (ds_held (get_sub ?z j))" for j y
  proof -
    have "(j, y) \<noteq> (i, x)" "y \<in> set (ds_held (get_sub z j))" using that by (auto simp: v k split: if_splits)
    then have "release_coming z1 j y" using assms(1,9) by (auto simp: gestures_ok_def)
    then show ?thesis by (simp add: release_coming_def v)
  qed
  moreover have "\<exists>j < z_nextSub ?z. sub_dsuid ?z j = w \<and> y \<in> set (ds_held (get_sub ?z j))"
    if "last_value (log @ [HButtonAction u x a, HButton u x f64_zero]) w y \<noteq> f64_zero" for w y
  proof -
    have "(w, y) \<noteq> (u, x)" "last_value log w y \<noteq> f64_zero" using that by (auto simp: last_release split: if_splits)
    then obtain j where j: "j < z_nextSub z" "sub_dsuid z j = w" "y \<in> set (ds_held (get_sub z j))"
      using assms(1) unfolding gestures_ok_def by blast
    moreover from this \<open>(w, y) \<noteq> (u, x)\<close> assms(3) have "(j, y) \<noteq> (i, x)" by auto
    ultimately show ?thesis using assms(7) by (intro exI [of _ j]) (auto simp: v k)
  qed
  ultimately show ?thesis using assms(5) by (simp add: gestures_ok_def v)
qed

lemma timersD:
  assumes "timers_ok z"
  shows "map_of (z_armed z) t = Some (i, x, u) \<Longrightarrow> t < z_nextTimer z \<and> i < z_nextSub z \<and> u = sub_dsuid z i"
    "hold_timer z i x = Some t \<Longrightarrow> t < z_nextTimer z"
    "hold_timer z i x = Some t \<Longrightarrow> map_of (z_armed z) t = Some (j, y, u) \<Longrightarrow> j = i \<and> y = x"
  using assms unfolding timers_ok_def by blast+

lemma timers_stop: "timers_ok z \<Longrightarrow> timers_ok (stop_timer t z)"
  by (auto simp: timers_ok_def stop_view split: if_splits)

lemma stop_coming:
  assumes "timers_ok z" "(j, y) \<noteq> (i, x)" "release_coming z j y"
  shows "release_coming (stop_timer (hold_timer z i x) z) j y"
proof (cases "(j, y, sub_dsuid z j) \<in> set (z_due z)")
  case True
  then show ?thesis by (simp add: release_coming_def stop_view)
next
  case False
  then obtain t where t: "map_of (z_armed z) t = Some (j, y, sub_dsuid z j)" using assms(3) by (auto simp: release_coming_def)
  moreover have "hold_timer z i x \<noteq> Some t" using timersD(3) [OF assms(1) _ t] assms(2) by blast
  ultimately show ?thesis by (auto simp: release_coming_def stop_view)
qed

lemma button_ok:
  assumes "gestures_ok z log" "i < z_nextSub z" "dispatchButtonAction i x a z = (z', cs)"
  shows "gestures_ok z' (log @ cs) \<and> z_nextSub z' = z_nextSub z"
proof -
  let ?u = "sub_dsuid z i" and ?t = "hold_timer z i x"
  have ok: "timers_ok z" "refs_ok z" using assms(1) by (simp_all add: gestures_ok_def)
  let ?s = "stop_timer ?t z"
  have keep: "sub_key ?s = sub_key z" by (simp add: fun_eq_iff sub_key_def stop_view)
  consider "a = ''release''" "x \<in> set (ds_held (get_sub z i))" | "a = ''release''" "x \<notin> set (ds_held (get_sub z i))"
    | "a = ''hold''" | "a \<noteq> ''release''" "a \<noteq> ''hold''" by blast
  then show ?thesis
  proof cases
    case 1
    then have e: "z' = release_held i x ?s" "cs = [HButtonAction ?u x ''release'', HButton ?u x f64_zero]"
      using assms(3) by (simp_all add: dispatchButtonAction_def Let_def)
    have "gestures_ok z' (log @ cs)"
      unfolding e by (rule released_ok [OF assms(1,2) refl keep])
        (simp_all add: stop_view ok timers_stop stop_coming [OF ok(1)])
    then show ?thesis by (simp add: e release_view stop_view assms(2))
  next
    case 2
    then show ?thesis using assms by (simp add: dispatchButtonAction_def Let_def)
  next
    case 3
    let ?n = "z_nextTimer z"
    define s where "s = ?s"
    have sv: "get_sub s = get_sub z" "z_due s = z_due z" "z_nextSub s = z_nextSub z" "z_nextTimer s = z_nextTimer z" "refs_ok s"
      "map_of (z_armed s) t = (if ?t = Some t then None else map_of (z_armed z) t)" for t
      using ok(2) by (simp_all add: s_def stop_view)
    define y where "y = s\<lparr>z_armed := AList.update ?n (i, x, ?u) (z_armed s), z_nextTimer := Suc ?n\<rparr>"
    let ?f = "\<lambda>d. d\<lparr>ds_held := List.insert x (ds_held d), ds_timers := AList.update x ?n (ds_timers d)\<rparr>"
    have e: "z' = upd_sub i ?f y" "cs = [HButton ?u x f64_one, HButtonAction ?u x ''hold'']"
      using assms(3) 3 by (simp_all add: dispatchButtonAction_def Let_def s_def y_def)
    have yv: "get_sub y = get_sub z" "z_due y = z_due z" "z_nextSub y = z_nextSub z" "z_nextTimer y = Suc ?n" "refs_ok y"
      "map_of (z_armed y) t = (if t = ?n then Some (i, x, ?u) else if ?t = Some t then None else map_of (z_armed z) t)" for t
      using get_sub_cong [of y s] sv by (auto simp: y_def update_conv refs_ok_def)
    have v: "sub_dsuid z' = sub_dsuid z" "z_nextSub z' = z_nextSub z" "z_nextTimer z' = Suc ?n" "z_due z' = z_due z"
      "map_of (z_armed z') t = (if t = ?n then Some (i, x, ?u) else if ?t = Some t then None else map_of (z_armed z) t)"
      "ds_held (get_sub z' j) = (if j = i then List.insert x (ds_held (get_sub z i)) else ds_held (get_sub z j))"
      "hold_timer z' j k = (if j = i \<and> k = x then Some ?n else hold_timer z j k)" for t j k
      by (auto simp: e(1) fun_eq_iff sub_dsuid_def hold_timer_def yv update_conv)
    have "refs_ok z'" using assms(2) yv(3,5) by (simp add: e(1))
    moreover have "timers_ok z'"
      unfolding timers_ok_def
    proof (intro conjI allI impI)
      fix t j y u assume "map_of (z_armed z') t = Some (j, y, u)"
      then show "t < z_nextTimer z'" "j < z_nextSub z'" "u = sub_dsuid z' j"
        using timersD(1) [OF ok(1)] assms(2) by (auto simp: v less_Suc_eq split: if_splits)
    next
      show "\<forall>(j, y, u) \<in> set (z_due z'). j < z_nextSub z' \<and> u = sub_dsuid z' j" using ok(1) by (simp add: timers_ok_def v)
    next
      fix j y t assume t: "hold_timer z' j y = Some t"
      then show "t < z_nextTimer z'" using timersD(2) [OF ok(1)] by (auto simp: v less_Suc_eq split: if_splits)
      fix k w u assume a: "map_of (z_armed z') t = Some (k, w, u)"
      show "k = j" "w = y"
        using t a timersD(2,3) [OF ok(1), of j y t] by (auto simp: v split: if_splits)
    qed
    moreover have "release_coming z' j y" if "y \<in> set (ds_held (get_sub z' j))" for j y
    proof (cases "(j, y) = (i, x)")
      case True
      then show ?thesis by (auto simp: release_coming_def v intro!: exI [of _ ?n])
    next
      case False
      then have "y \<in> set (ds_held (get_sub z j))" using that by (auto simp: v split: if_splits)
      then have c: "release_coming ?s j y" using assms(1) stop_coming [OF ok(1) False] by (simp add: gestures_ok_def)
      show ?thesis
      proof (cases "(j, y, sub_dsuid z j) \<in> set (z_due z)")
        case True
        then show ?thesis by (simp add: release_coming_def v(1,4))
      next
        case False
        then obtain t where t: "?t \<noteq> Some t" "map_of (z_armed z) t = Some (j, y, sub_dsuid z j)"
          using c by (auto simp: release_coming_def stop_view split: if_splits)
        then have "t \<noteq> ?n" using timersD(1) [OF ok(1) t(2)] by simp
        then show ?thesis using t by (auto simp: release_coming_def v(1,5))
      qed
    qed
    moreover have "\<exists>j < z_nextSub z'. sub_dsuid z' j = w \<and> y \<in> set (ds_held (get_sub z' j))"
      if "last_value (log @ cs) w y \<noteq> f64_zero" for w y
    proof (cases "(w, y) = (?u, x)")
      case True
      then show ?thesis using assms(2) by (intro exI [of _ i]) (auto simp: v)
    next
      case False
      then have "last_value log w y \<noteq> f64_zero" using that by (auto simp: e(2) last_value_append split: if_splits)
      then show ?thesis using assms(1) by (fastforce simp: gestures_ok_def v)
    qed
    ultimately show ?thesis by (simp add: gestures_ok_def v(2))
  next
    case 4
    then have e: "z' = z" "cs = [HButton ?u x f64_one, HButtonAction ?u x a, HButton ?u x f64_zero]"
      using assms(3) by (auto simp add: dispatchButtonAction_def Let_def)
    have "last_value (log @ cs) w y \<noteq> f64_zero \<Longrightarrow> last_value log w y \<noteq> f64_zero" for w y
      by (auto simp: e(2) last_value_append split: if_splits)
    with assms(1) show ?thesis by (auto simp: gestures_ok_def e(1))
  qed
qed

section \<open>Every step\<close>

lemma state_ok:
  assumes "gestures_ok z log" "i < z_nextSub z" "applyState i dev msg r z = (z', cs)"
  shows "gestures_ok z' (log @ cs) \<and> z_nextSub z' = z_nextSub z"
proof (cases "endpoint_of dev (ds_epName (get_sub z i))")
  case None
  then show ?thesis using assms by (simp add: applyState_def)
next
  case (Some ep)
  consider "ep_Kind ep = ''button''" | "ep_Kind ep \<noteq> ''button''" "ep_Kind ep = ''sensor'' \<or> ep_Kind ep = ''binaryInput''"
    | "ep_Kind ep \<noteq> ''button''" "\<not> (ep_Kind ep = ''sensor'' \<or> ep_Kind ep = ''binaryInput'')" by blast
  then show ?thesis
  proof cases
    case 1
    then have "z' = z \<and> cs = [] \<or> (\<exists>a. dispatchButtonAction i 0 a z = (z', cs))"
      using assms(3) Some by (auto simp: applyState_def button_message_def split: if_splits option.splits prod.splits)
    then show ?thesis using assms(1) button_ok [OF assms(1,2)] by auto
  next
    case 2
    then have e: "z' = z" "cs = sensor_message (sub_dsuid z i) ep msg"
      using assms(3) Some by (auto simp: applyState_def)
    show ?thesis using quiet_ok [OF quiet_calls assms(1) order.refl, of "\<lambda>_. cs" z cs] e by simp
  next
    case 3
    then have "applyGroupState i ep msg z = (z', cs)" using assms(3) Some by (simp add: applyState_def)
    then show ?thesis using quiet_ok [OF quiet_group_state [OF assms(2)] assms(1) order.refl] by blast
  qed
qed

lemma handler_ok:
  assumes "gestures_ok z log" "\<forall>i \<in> set (handler_refs h). i < z_nextSub z" "run_handler env h payload r z = (z', cs)"
  shows "gestures_ok z' (log @ cs) \<and> z_nextSub z' = z_nextSub z"
proof -
  note q = quiet_ok [OF _ assms(1) order.refl]
  have idle: "gestures_ok z (log @ [])" using assms(1) by simp
  show ?thesis
  proof (cases h)
    case OnDevices
    then show ?thesis using q [OF quiet_onDevices] assms(3) by auto
  next
    case OnGroups
    then show ?thesis using q [OF quiet_onGroups] assms(3) by auto
  next
    case (OnState i dev)
    then show ?thesis using state_ok [OF assms(1)] assms(2,3) idle by (auto split: option.splits)
  next
    case (OnAvailability i)
    then show ?thesis using q [OF quiet_availability] assms(3) by auto
  next
    case (OnGroupState i)
    then show ?thesis using q [OF quiet_group_state] assms(2,3) idle by (auto split: option.splits)
  qed
qed

lemma handlers_ok:
  assumes "gestures_ok z log" "\<forall>h \<in> set hs. \<forall>i \<in> set (handler_refs h). i < z_nextSub z"
    and "each_step (\<lambda>h. run_handler env h payload r) hs z = (z', cs)"
  shows "gestures_ok z' (log @ cs)"
  using assms
proof (induction hs arbitrary: z log cs)
  case (Cons h hs)
  obtain z1 c where 1: "run_handler env h payload r z = (z1, c)" by (cases "run_handler env h payload r z")
  obtain d where 2: "each_step (\<lambda>h. run_handler env h payload r) hs z1 = (z', d)" "cs = c @ d"
    using Cons.prems(3) by (auto simp: then_step_def 1 split: prod.splits)
  have "gestures_ok z1 (log @ c) \<and> z_nextSub z1 = z_nextSub z" using handler_ok [OF Cons.prems(1) _ 1] Cons.prems(2) by simp
  then show ?case using Cons.IH [OF _ _ 2(1), of "log @ c"] Cons.prems(2) 2(2) by simp
qed simp

lemma add_view:
  assumes "refs_ok z"
  shows "get_sub (add_sub d z) j = (if j = z_nextSub z then d else get_sub z j)" "refs_ok (add_sub d z)"
    "z_armed (add_sub d z) = z_armed z" "z_due (add_sub d z) = z_due z" "z_nextTimer (add_sub d z) = z_nextTimer z"
    "z_nextSub (add_sub d z) = Suc (z_nextSub z)"
proof -
  show "refs_ok (add_sub d z)"
    unfolding refs_ok_def
  proof (intro conjI allI ballI impI)
    fix i assume "z_nextSub (add_sub d z) \<le> i"
    then show "map_of (z_subs (add_sub d z)) i = None" using assms by (simp add: refs_ok_def add_sub_def)
  next
    fix s u i assume "map_of (mb_objs (z_broker (add_sub d z))) s = Some u" "i \<in> set (handler_refs (su_handler u))"
    then show "i < z_nextSub (add_sub d z)" using assms by (fastforce simp: refs_ok_def add_sub_def)
  next
    fix x assume "x \<in> set (z_subscribed (add_sub d z))"
    then show "snd x < z_nextSub (add_sub d z)" using assms
      by (fastforce simp: refs_ok_def add_sub_def dest!: set_update_cases)
  qed
qed (auto simp: add_sub_def get_sub_def update_conv)

lemma add_ok:
  assumes "gestures_ok z log" "ds_held d = []" "ds_timers d = []"
  shows "gestures_ok (add_sub d z) log"
proof -
  have ok: "refs_ok z" "timers_ok z" using assms(1) by (simp_all add: gestures_ok_def)
  note v = add_view [OF ok(1), of d]
  have old: "sub_dsuid (add_sub d z) j = sub_dsuid z j" "ds_held (get_sub (add_sub d z) j) = ds_held (get_sub z j)"
    if "j < z_nextSub z" for j using that by (simp_all add: sub_dsuid_def v)
  have tm: "hold_timer (add_sub d z) j y = (if j = z_nextSub z then None else hold_timer z j y)" for j y
    by (simp add: hold_timer_def v assms(3))
  have "timers_ok (add_sub d z)"
    using ok(2) unfolding timers_ok_def by (fastforce simp: v old tm less_Suc_eq split: if_splits)
  moreover have "release_coming (add_sub d z) i x" if "x \<in> set (ds_held (get_sub (add_sub d z) i))" for i x
  proof -
    have "release_coming z i x" using that assms(1,2) by (auto simp: v gestures_ok_def split: if_splits)
    moreover from this have "i < z_nextSub z" using ok(2) by (auto simp: release_coming_def timers_ok_def)
    ultimately show ?thesis by (simp add: release_coming_def v old)
  qed
  moreover have "\<exists>i < z_nextSub (add_sub d z). sub_dsuid (add_sub d z) i = u \<and> x \<in> set (ds_held (get_sub (add_sub d z) i))"
    if nz: "last_value log u x \<noteq> f64_zero" for u x
  proof -
    obtain i where "i < z_nextSub z" "sub_dsuid z i = u" "x \<in> set (ds_held (get_sub z i))"
      using nz assms(1) unfolding gestures_ok_def by blast
    then show ?thesis by (intro exI [of _ i]) (simp add: v old)
  qed
  ultimately show ?thesis using v(2) by (simp add: gestures_ok_def)
qed

lemma unlisten_view [simp]:
  "sub_key (z_unlisten ss z) = sub_key z" "z_armed (z_unlisten ss z) = z_armed z" "z_due (z_unlisten ss z) = z_due z"
  "z_nextTimer (z_unlisten ss z) = z_nextTimer z" "z_nextSub (z_unlisten ss z) = z_nextSub z"
  by (simp_all add: z_unlisten_def fun_eq_iff sub_key_def get_sub_def)

lemma subscribed_view [simp]:
  "sub_key (z\<lparr>z_subscribed := m\<rparr>) = sub_key z" "sub_key (z\<lparr>z_sent := s\<rparr>) = sub_key z"
  "refs_ok (z\<lparr>z_sent := s\<rparr>) = refs_ok z"
  by (simp_all add: fun_eq_iff sub_key_def get_sub_def refs_ok_def)

lemma fewer_subscribed: "refs_ok z \<Longrightarrow> set m \<subseteq> set (z_subscribed z) \<Longrightarrow> refs_ok (z\<lparr>z_subscribed := m\<rparr>)"
  by (auto simp: refs_ok_def)

lemma quiet_unsubscribe: "quiet n (\<lambda>z. (z_Unsubscribe u z, []))"
proof (rule quietI)
  fix z z' and cs :: "host_call list" assume r: "refs_ok z" and e: "(z_Unsubscribe u z, []) = (z', cs)"
  have "refs_ok (z\<lparr>z_subscribed := AList.delete u (z_subscribed z)\<rparr>)"
    by (rule fewer_subscribed [OF r]) (auto dest: set_delete_subset)
  then show "refs_ok z' \<and> no_button cs \<and> sub_key z' = sub_key z \<and> z_armed z' = z_armed z \<and> z_due z' = z_due z \<and>
    z_nextTimer z' = z_nextTimer z \<and> z_nextSub z' = z_nextSub z"
    using e r by (cases "map_of (z_subscribed z) u") (auto simp: z_Unsubscribe_def unlisten_refs)
qed

lemma quiet_close: "quiet n (\<lambda>z. (z_Close z, []))"
  by (rule quietI) (auto simp: z_Close_def intro!: unlisten_refs fewer_subscribed)

lemma publish_view: "fst (z_publish env topic p z) = z \<or> (\<exists>s. fst (z_publish env topic p z) = z\<lparr>z_sent := s\<rparr>)"
  by (auto simp: z_publish_def split: option.split)

lemma apply_view:
  assumes "i < z_nextSub z" "refs_ok z" and z'_def: "z' = fst (applyToEndpoint env i ep topic cmd z)"
  shows "refs_ok z' \<and> sub_key z' = sub_key z \<and> z_armed z' = z_armed z \<and> z_due z' = z_due z \<and>
    z_nextTimer z' = z_nextTimer z \<and> z_nextSub z' = z_nextSub z"
proof -
  consider "z' = z" | p where "z' = fst (z_publish env topic p z)"
    | f p where "\<And>d. ds_mapping (f d) = ds_mapping d \<and> ds_held (f d) = ds_held d \<and> ds_timers (f d) = ds_timers d"
        "z' = fst (z_publish env topic p (upd_sub i f z))"
  proof (cases "c_Type cmd = ''setChannel''")
    case False
    then show ?thesis using that(1) by (simp add: z'_def applyToEndpoint_def)
  next
    case ch: True
    show ?thesis
    proof (cases "c_Channel cmd = 0")
      case True
      then show ?thesis using ch that(2) by (simp add: z'_def applyToEndpoint_def)
    next
      case ne: False
      show ?thesis
      proof (cases "c_Channel cmd \<in> {1, 2} \<and> ep_HasColor ep")
        case True
        show ?thesis
          by (rule that(3) [of "\<lambda>d. if c_Channel cmd = 1 then d\<lparr>ds_hue := clampF (c_Value cmd) f64_zero (f64_of_int 360)\<rparr>
                                else d\<lparr>ds_sat := clampF (c_Value cmd) f64_zero f64_hundred\<rparr>"])
            (use ch ne True in \<open>auto simp: z'_def applyToEndpoint_def Let_def\<close>)
      next
        case False
        then show ?thesis using ch ne that(1) by (auto simp: z'_def applyToEndpoint_def)
      qed
    qed
  qed
  then show ?thesis
  proof cases
    case 1
    then show ?thesis using assms(2) by simp
  next
    case 2
    then show ?thesis using publish_view [of env topic p z] assms(2) by auto
  next
    case 3
    have "sub_key (upd_sub i f z) = sub_key z" using 3(1) by (simp add: sub_key_get)
    then show ?thesis using publish_view [of env topic p "upd_sub i f z"] 3(2) assms(1,2) by auto
  qed
qed

lemma quiet_apply: "quiet n (\<lambda>z. (fst (z_Apply env m cmd z), []))"
proof (rule quietI)
  fix z z' and cs :: "host_call list" assume r: "refs_ok z" and e: "(fst (z_Apply env m cmd z), []) = (z', cs)"
  show "refs_ok z' \<and> no_button cs \<and> sub_key z' = sub_key z \<and> z_armed z' = z_armed z \<and> z_due z' = z_due z \<and>
    z_nextTimer z' = z_nextTimer z \<and> z_nextSub z' = z_nextSub z"
  proof (cases "map_of (z_subscribed z) (m_DSUID m)")
    case None
    then show ?thesis using e r by (auto simp: z_Apply_def)
  next
    case (Some i)
    then have i: "i < z_nextSub z" using r map_of_SomeD by (fastforce simp: refs_ok_def)
    have "fst (z_Apply env m cmd z) = z \<or> (\<exists>ep topic. z_Apply env m cmd z = applyToEndpoint env i ep topic cmd z)"
      unfolding z_Apply_def Let_def Some option.case
      by (cases "ds_isGroup (get_sub z i)"; cases "map_of (z_groups z) (ds_groupID (get_sub z i))";
          cases "map_of (z_devices z) (ds_ieee (get_sub z i))") (auto split: option.split)
    then show ?thesis
    proof (elim disjE exE)
      fix ep topic assume "z_Apply env m cmd z = applyToEndpoint env i ep topic cmd z"
      then show ?thesis using apply_view [OF i r refl, of env ep topic cmd] e by simp
    qed (use e r in simp)
  qed
qed

lemma expire_ok:
  assumes "gestures_ok z log" "map_of (z_armed z) t = Some (i, x, u)"
  shows "gestures_ok (z\<lparr>z_armed := AList.delete t (z_armed z), z_due := z_due z @ [(i, x, u)]\<rparr>) log"
proof -
  define w where "w = z\<lparr>z_armed := AList.delete t (z_armed z), z_due := z_due z @ [(i, x, u)]\<rparr>"
  have ok: "timers_ok z" "refs_ok z" using assms(1) by (simp_all add: gestures_ok_def)
  have g: "get_sub w = get_sub z" by (simp add: fun_eq_iff get_sub_def w_def)
  have v: "sub_dsuid w = sub_dsuid z" "hold_timer w = hold_timer z" "z_nextTimer w = z_nextTimer z" "z_nextSub w = z_nextSub z"
    "map_of (z_armed w) s = (if s = t then None else map_of (z_armed z) s)" "set (z_due w) = insert (i, x, u) (set (z_due z))"
    "refs_ok w" for s
    using ok(2) by (simp_all add: fun_eq_iff sub_dsuid_def hold_timer_def g) (simp_all add: w_def refs_ok_def)
  have "timers_ok w"
    using ok(1) timersD(1) [OF ok(1) assms(2)] by (auto simp: timers_ok_def v split: if_splits)
  moreover have "release_coming w j y" if c: "release_coming z j y" for j y
  proof (cases "(j, y, sub_dsuid z j) \<in> set (z_due z)")
    case False
    then obtain s where "map_of (z_armed z) s = Some (j, y, sub_dsuid z j)" using c by (auto simp: release_coming_def)
    then show ?thesis using assms(2) by (cases "s = t") (auto simp: release_coming_def v)
  qed (simp add: release_coming_def v)
  ultimately have "gestures_ok w log" using assms(1) by (simp add: gestures_ok_def g v)
  then show ?thesis by (simp add: w_def)
qed

lemma watchdog_ok:
  assumes "gestures_ok z log" "n < length (z_due z)" "z_do env (ZRelease n) z = (z', cs)"
  shows "gestures_ok z' (log @ cs)"
proof -
  have ok: "timers_ok z" "refs_ok z" using assms(1) by (simp_all add: gestures_ok_def)
  obtain i x u where d: "z_due z ! n = (i, x, u)" by (cases "z_due z ! n")
  then have i: "i < z_nextSub z" "u = sub_dsuid z i" using ok(1) nth_mem [OF assms(2)] by (auto simp: timers_ok_def)
  define w where "w = z\<lparr>z_due := take n (z_due z) @ drop (Suc n) (z_due z)\<rparr>"
  have g: "get_sub w = get_sub z" by (simp add: fun_eq_iff get_sub_def w_def)
  have v: "sub_dsuid w = sub_dsuid z" "hold_timer w = hold_timer z" "sub_key w = sub_key z" "z_armed w = z_armed z"
    "z_nextTimer w = z_nextTimer z" "z_nextSub w = z_nextSub z" "refs_ok w"
    using ok(2) by (simp_all add: fun_eq_iff sub_dsuid_def hold_timer_def sub_key_def g) (simp_all add: w_def refs_ok_def)
  have due: "set (z_due w) \<subseteq> set (z_due z)" "set (z_due z) \<subseteq> insert (i, x, u) (set (z_due w))"
  proof -
    have "set (z_due z) = set (take n (z_due z) @ z_due z ! n # drop (Suc n) (z_due z))"
      using id_take_nth_drop [OF assms(2)] by simp
    then have "set (z_due z) = insert (i, x, u) (set (z_due w))" by (simp add: d w_def)
    then show "set (z_due w) \<subseteq> set (z_due z)" "set (z_due z) \<subseteq> insert (i, x, u) (set (z_due w))" by auto
  qed
  have t: "timers_ok w" using ok(1) due(1) by (fastforce simp: timers_ok_def v)
  have keep: "(j, y) \<noteq> (i, x) \<Longrightarrow> release_coming z j y \<Longrightarrow> release_coming w j y" for j y
    using due(2) by (auto simp: release_coming_def v)
  show ?thesis
  proof (cases "x \<in> set (ds_held (get_sub z i))")
    case True
    then have e: "z' = release_held i x w" "cs = [HButtonAction u x ''release'', HButton u x f64_zero]"
      using assms(2,3) d by (auto simp: autoReleaseHold_def w_def [symmetric] g)
    show ?thesis unfolding e by (rule released_ok [OF assms(1) i]) (simp_all add: v t keep)
  next
    case False
    then have e: "z' = w" "cs = []" using assms(2,3) d by (auto simp: autoReleaseHold_def w_def [symmetric] g)
    have "release_coming w j y" if "y \<in> set (ds_held (get_sub z j))" for j y
      using that False assms(1) by (intro keep) (auto simp: gestures_ok_def)
    then show ?thesis using assms(1) t by (simp add: e gestures_ok_def g v)
  qed
qed

lemma gestures_step:
  assumes "gestures_ok z log" "z_do env op z = (z', cs)"
  shows "gestures_ok z' (log @ cs)"
proof (cases op)
  case (ZSubscribe m)
  have r: "refs_ok z" using assms(1) by (simp add: gestures_ok_def)
  define is_new where "is_new = (\<lambda>d :: device_sub. ds_held d = [] \<and> ds_timers d = [])"
  have new: "gestures_ok (add_sub d z) log" "z_nextSub z < z_nextSub (add_sub d z)" if "is_new d" for d
    using add_ok [OF assms(1)] that by (simp_all add: is_new_def add_view [OF r])
  have is_new: "is_new (new_sub m\<lparr>ds_isGroup := True, ds_groupID := g\<rparr>)" "is_new (new_sub m\<lparr>ds_ieee := a, ds_epName := b\<rparr>)" for g a b
    by (simp_all add: is_new_def new_sub_def)
  consider d where "is_new d" "(z', cs) = (add_sub d z, [])"
    | d g where "is_new d" "activateGroup env (z_nextSub z) g (add_sub d z) = (z', cs)"
    | d v where "is_new d" "activate env (z_nextSub z) v (add_sub d z) = (z', cs)"
  proof (cases "isGroupEntityID (m_RemoteEntityID m)")
    case True
    let ?d = "(new_sub m)\<lparr>ds_isGroup := True, ds_groupID := m_RemoteEntityID m\<rparr>"
    have e: "(case map_of (z_groups (add_sub ?d z)) (m_RemoteEntityID m) of
        None \<Rightarrow> (add_sub ?d z, []) | Some dg \<Rightarrow> activateGroup env (z_nextSub z) dg (add_sub ?d z)) = (z', cs)"
      using assms(2) ZSubscribe True by (simp add: z_Subscribe_def Let_def)
    show ?thesis
    proof (cases "map_of (z_groups (add_sub ?d z)) (m_RemoteEntityID m)")
      case None
      show ?thesis by (rule that(1) [OF is_new(1) [of "m_RemoteEntityID m"]]) (use e None in simp)
    next
      case (Some g)
      show ?thesis by (rule that(2) [OF is_new(1) [of "m_RemoteEntityID m"]]) (use e Some in simp)
    qed
  next
    case False
    obtain a b where p: "parseEntityID (m_RemoteEntityID m) = (a, b)" by (cases "parseEntityID (m_RemoteEntityID m)")
    let ?d = "(new_sub m)\<lparr>ds_ieee := a, ds_epName := b\<rparr>"
    have e: "(case map_of (z_devices (add_sub ?d z)) a of
        None \<Rightarrow> (add_sub ?d z, []) | Some dv \<Rightarrow> activate env (z_nextSub z) dv (add_sub ?d z)) = (z', cs)"
      using assms(2) ZSubscribe False by (simp add: z_Subscribe_def Let_def p)
    show ?thesis
    proof (cases "map_of (z_devices (add_sub ?d z)) a")
      case None
      show ?thesis by (rule that(1) [OF is_new(2) [of b a]]) (use e None in simp)
    next
      case (Some v)
      show ?thesis by (rule that(3) [OF is_new(2) [of b a]]) (use e Some in simp)
    qed
  qed
  then show ?thesis
  proof cases
    case 1
    then show ?thesis using new by simp
  next
    case 2
    then show ?thesis using quiet_ok(1) [OF quiet_activate_group [OF new(2)] new(1) order.refl] by blast
  next
    case 3
    then show ?thesis using quiet_ok(1) [OF quiet_activate [OF new(2)] new(1) order.refl] by blast
  qed
next
  case (ZUnsubscribe u)
  then show ?thesis using quiet_ok(1) [OF quiet_unsubscribe assms(1) order.refl] assms(2) by auto
next
  case (ZApply m cmd)
  then show ?thesis using quiet_ok(1) [OF quiet_apply assms(1) order.refl] assms(2) by auto
next
  case ZClose
  then show ?thesis using quiet_ok(1) [OF quiet_close assms(1) order.refl] assms(2) by auto
next
  case (ZMessage topic payload r)
  have "refs_ok z" using assms(1) by (simp add: gestures_ok_def)
  then show ?thesis using handlers_ok [OF assms(1)] dispatched_refs assms(2) ZMessage by (metis z_do.simps(5))
next
  case (ZExpire t)
  then show ?thesis using assms expire_ok [OF assms(1)] by (cases "map_of (z_armed z) t") auto
next
  case (ZRelease n)
  show ?thesis
  proof (cases "n < length (z_due z)")
    case True
    then show ?thesis using watchdog_ok [OF assms(1) True] assms(2) ZRelease by blast
  qed (use assms ZRelease in auto)
qed

section \<open>Runs\<close>

text \<open>
  A plugin after \<^verbatim>\<open>Init\<close> with a broker none of whose handlers is one of its subscriptions, and then any
  steps, each with outcomes of its own. Between them the broker may change (the connection comes and
  goes) as long as its subscriptions stay.
\<close>

definition no_refs :: "z_handler mqtt_broker \<Rightarrow> bool" where
  "no_refs b \<longleftrightarrow> (\<forall>(i, u) \<in> set (mb_objs b). handler_refs (su_handler u) = [])"

inductive z_run :: "z2m \<Rightarrow> host_call list \<Rightarrow> bool" where
  init: "no_refs b \<Longrightarrow> (\<forall>k b'. found k = Some (Inr b') \<longrightarrow> no_refs b') \<Longrightarrow> z_run (fst (z_Init env found raw (NewPlugin i b))) []"
| step: "z_run z log \<Longrightarrow> z_do env op z = (z', cs) \<Longrightarrow> z_run z' (log @ cs)"
| broker: "z_run z log \<Longrightarrow> mb_objs b = mb_objs (z_broker z) \<Longrightarrow> z_run (z\<lparr>z_broker := b\<rparr>) log"

definition no_subs :: "z2m \<Rightarrow> bool" where
  "no_subs z \<longleftrightarrow> z_subs z = [] \<and> z_subscribed z = [] \<and> z_armed z = [] \<and> z_due z = [] \<and> refs_ok z"

lemma no_subs_listen:
  assumes "no_subs z" "handler_refs h = []" "z_listen env topic h z = (z', r)"
  shows "no_subs z'"
  using listen_frame [OF assms(3)] assms(1,2) by (simp add: no_subs_def)

lemma no_subs_keep [simp]:
  "no_subs (z\<lparr>z_devicesSub := d\<rparr>) = no_subs z" "no_subs (z\<lparr>z_groupsSub := d\<rparr>) = no_subs z" "no_subs (z\<lparr>z_cfg := c\<rparr>) = no_subs z"
  by (simp_all add: no_subs_def refs_ok_def)

lemma no_subs_broker: "no_subs z \<Longrightarrow> no_refs b \<Longrightarrow> no_subs (z\<lparr>z_broker := b, z_ready := r\<rparr>)"
  by (fastforce simp: no_subs_def refs_ok_def no_refs_def dest: map_of_SomeD)

text \<open>What every part of \<^verbatim>\<open>Init\<close> preserves holds after it.\<close>

lemma init_induct:
  assumes "P z" "\<And>z c. P z \<Longrightarrow> P (z\<lparr>z_cfg := c\<rparr>)"
    and broker: "\<And>z k b. P z \<Longrightarrow> found k = Some (Inr b) \<Longrightarrow> P (z\<lparr>z_broker := b, z_ready := True\<rparr>)"
    and listen: "\<And>z topic h z' r. P z \<Longrightarrow> handler_refs h = [] \<Longrightarrow> z_listen env topic h z = (z', r) \<Longrightarrow> P z'"
    and subs: "\<And>z d. P z \<Longrightarrow> P (z\<lparr>z_devicesSub := d\<rparr>)" "\<And>z d. P z \<Longrightarrow> P (z\<lparr>z_groupsSub := d\<rparr>)"
  shows "P (fst (z_Init env found raw z))"
proof (cases "parseConfig_z2m raw")
  case (Inl e)
  then show ?thesis using assms(1) by (simp add: z_Init_def)
next
  case c: (Inr c)
  have P: "P (z\<lparr>z_cfg := c\<rparr>)" using assms(1,2) by blast
  consider "found (zc_broker c) = None" | e where "found (zc_broker c) = Some (Inl e)" | b where "found (zc_broker c) = Some (Inr b)"
    by (metis option.exhaust sum.exhaust)
  then show ?thesis
  proof cases
    case (3 b)
    let ?z = "z\<lparr>z_cfg := c, z_broker := b, z_ready := True\<rparr>"
    obtain z1 r where 1: "z_listen env (zc_baseTopic c @ ''/bridge/devices'') OnDevices ?z = (z1, r)" by (cases rule: prod.exhaust)
    have z1: "P z1" using listen [OF broker [OF P 3] _ 1] by simp
    show ?thesis
    proof (cases r)
      case (Inl e)
      then show ?thesis using c 3 1 z1 by (simp add: z_Init_def)
    next
      case n: (Inr n)
      obtain z2 q where 2: "z_listen env (zc_baseTopic c @ ''/bridge/groups'') OnGroups (z1\<lparr>z_devicesSub := Some n\<rparr>) = (z2, q)"
        by (cases rule: prod.exhaust)
      have "P z2" using listen [OF subs(1) [OF z1] _ 2] by simp
      then show ?thesis using c 3 1 2 n subs(2) by (cases q) (simp_all add: z_Init_def)
    qed
  qed (use c P in \<open>simp_all add: z_Init_def\<close>)
qed

lemma init_no_subs:
  assumes "no_refs b" "\<forall>k b'. found k = Some (Inr b') \<longrightarrow> no_refs b'"
  shows "no_subs (fst (z_Init env found raw (NewPlugin i b)))"
proof (rule init_induct)
  show "no_subs (NewPlugin i b)"
    using assms(1) by (fastforce simp: no_subs_def refs_ok_def no_refs_def NewPlugin_def dest: map_of_SomeD)
  show "no_subs (z\<lparr>z_broker := b, z_ready := True\<rparr>)" if "no_subs z" "found k = Some (Inr b)" for z k b
    using that assms(2) no_subs_broker by blast
  show "no_subs z'" if "no_subs z" "handler_refs h = []" "z_listen env topic h z = (z', r)" for z topic h z' r
    using no_subs_listen that by blast
qed simp_all

lemma gestures_run: "z_run z log \<Longrightarrow> gestures_ok z log"
proof (induction rule: z_run.induct)
  case (init b found env raw i)
  have "no_subs (fst (z_Init env found raw (NewPlugin i b)))" using init_no_subs init by blast
  then show ?case
    by (auto simp: no_subs_def gestures_ok_def timers_ok_def last_value_def hold_timer_def get_sub_def new_sub_def)
next
  case (step z log env op z' cs)
  then show ?case using gestures_step by blast
next
  case (broker z log b)
  have g: "get_sub (z\<lparr>z_broker := b\<rparr>) = get_sub z" by (simp add: fun_eq_iff get_sub_def)
  have "sub_dsuid (z\<lparr>z_broker := b\<rparr>) = sub_dsuid z" "hold_timer (z\<lparr>z_broker := b\<rparr>) = hold_timer z"
    by (simp_all add: fun_eq_iff sub_dsuid_def hold_timer_def g)
  with broker show ?case by (simp add: gestures_ok_def timers_ok_def release_coming_def refs_ok_def g)
qed

text \<open>The two steps of the clock that bring a button back.\<close>

lemma due_releases:
  assumes "timers_ok z" "n < length (z_due z)" "z_due z ! n = (i, x, sub_dsuid z i)" "x \<in> set (ds_held (get_sub z i))"
    and "z_do env (ZRelease n) z = (z', cs)"
  shows "cs = [HButtonAction (sub_dsuid z i) x ''release'', HButton (sub_dsuid z i) x f64_zero]"
    "last_value (log @ cs) (sub_dsuid z i) x = f64_zero"
proof -
  have g: "get_sub (z\<lparr>z_due := d\<rparr>) = get_sub z" for d by (simp add: fun_eq_iff get_sub_def)
  show "cs = [HButtonAction (sub_dsuid z i) x ''release'', HButton (sub_dsuid z i) x f64_zero]"
    using assms(2-5) by (auto simp: autoReleaseHold_def g)
  then show "last_value (log @ cs) (sub_dsuid z i) x = f64_zero" by (simp add: last_value_append)
qed


end
