(* ===== verification/Z2m_Properties.thy ===== *)
theory Z2m_Properties
  imports Z2m_Buttons Broker_Properties
begin

text \<open>
  What the Zigbee2MQTT plugin promises and where it falls short: gestures of buttons that always end,
  devices that are served whatever order discovery and subscription come in, identifiers that can be read
  back, the capabilities of groups.
\<close>

section \<open>A run to look at\<close>

text \<open>A remote control with one button, announced by any payload; a broker that accepts every request.\<close>

definition ex_remote :: bridge_device where
  "ex_remote = \<lparr>zd_IEEE = ''0x1'', zd_FriendlyName = ''r'', zd_Type = ''EndDevice'', zd_Supported = True, zd_Disabled = False,
     zd_PowerSource = ''Battery'', zd_SoftwareBuildID = [], zd_Definition = Some \<lparr>df_Model = ''M'', df_Vendor = ''V'',
       df_Exposes = [Expose ''enum'' ''action'' ''action'' [] [] None None [''single'', ''hold'', ''release''] []]\<rparr>\<rparr>"

definition ex_env :: z2m_env where
  "ex_env = \<lparr>ze_devices = (\<lambda>s. Inr [ex_remote]), ze_groups = (\<lambda>s. Inr []), ze_state = (\<lambda>s. Some [(''action'', GStr s)]),
     ze_avail = (\<lambda>s. Some s), ze_subscribe = (\<lambda>s. None), ze_publish = (\<lambda>t p. None), ze_quote = id\<rparr>"

definition ex_mapping :: mapping where
  "ex_mapping = \<lparr>m_PluginID = ''z'', m_RemoteEntityID = ''0x1:btn'', m_DSUID = ''u'', m_Kind = ''button'', m_Name = ''r''\<rparr>"

definition ex_found :: "string \<Rightarrow> (string + z_handler mqtt_broker) option" where
  "ex_found k = Some (Inr (newBroker\<lparr>mb_client := True, mb_connected := True\<rparr>))"

definition ex_start :: z2m where
  "ex_start = fst (z_Init ex_env ex_found [(''broker'', GStr ''m'')] (NewPlugin ''z'' newBroker))"

definition ex_ops :: "z_op list" where
  "ex_ops = [ZMessage ''zigbee2mqtt/bridge/devices'' ''d'' False, ZSubscribe ex_mapping, ZMessage ''zigbee2mqtt/r'' ''hold'' False]"

definition ex_held :: "z2m \<times> host_call list" where
  "ex_held = each_step (z_do ex_env) ex_ops ex_start"

lemma run_each:
  "z_run z log \<Longrightarrow> each_step (z_do env) ops z = (z', cs) \<Longrightarrow> z_run z' (log @ cs)"
proof (induction ops arbitrary: z log cs)
  case (Cons op ops)
  obtain z1 c where 1: "z_do env op z = (z1, c)" by (cases "z_do env op z")
  obtain d where 2: "each_step (z_do env) ops z1 = (z', d)" "cs = c @ d"
    using Cons.prems(2) by (auto simp: then_step_def 1 split: prod.splits)
  show ?case using Cons.IH [OF z_run.step [OF Cons.prems(1) 1] 2(1)] 2(2) by simp
qed simp

lemma ex_held_run: "z_run (fst ex_held) (snd ex_held)"
proof -
  have "z_run ex_start []" unfolding ex_start_def by (rule z_run.init) (auto simp: no_refs_def ex_found_def newBroker_def)
  from run_each [OF this, of ex_env ex_ops "fst ex_held" "snd ex_held"] show ?thesis by (simp add: ex_held_def)
qed


text \<open>
  C38: the watchdog of a hold races a new hold: when the timer of an earlier hold has expired
  but its function has not run yet, a second hold cannot stop it, so the function releases the new
  hold at once, and the timer of the new hold stays armed with nothing left to release.
\<close>

theorem late_watchdog_releases_new_hold:
  assumes "n < length (z_due z)" "z_due z ! n = (i, x, u)" "u = sub_dsuid z i"
    and "dispatchButtonAction i x ''hold'' z = (z1, cs)" "z_do env (ZRelease n) z1 = (z2, ds)"
  shows "cs = [HButton u x f64_one, HButtonAction u x ''hold''] \<and> ds = [HButtonAction u x ''release'', HButton u x f64_zero] \<and>
    x \<notin> set (ds_held (get_sub z2 i)) \<and> map_of (z_armed z2) (z_nextTimer z) = Some (i, x, u)"
proof -
  have due: "z_due z1 = z_due z" and held: "x \<in> set (ds_held (get_sub z1 i))"
    and armed: "map_of (z_armed z1) (z_nextTimer z) = Some (i, x, u)"
    using assms(3,4) by (auto simp: dispatchButtonAction_def Let_def stop_view)
  define w where "w = z1\<lparr>z_due := take n (z_due z) @ drop (Suc n) (z_due z)\<rparr>"
  have g: "get_sub w = get_sub z1" by (simp add: fun_eq_iff get_sub_def w_def)
  have "z_do env (ZRelease n) z1 = autoReleaseHold i x u w" using assms(1,2) by (simp add: due w_def)
  then have e: "z2 = release_held i x w" "ds = [HButtonAction u x ''release'', HButton u x f64_zero]"
    using assms(5) held by (auto simp: autoReleaseHold_def g)
  have "x \<notin> set (ds_held (get_sub z2 i))" "z_armed z2 = z_armed z1"
    by (simp_all add: e(1) release_held_def) (simp add: w_def)
  then show ?thesis using e(2) armed assms(3,4) by (auto simp: dispatchButtonAction_def Let_def)
qed

definition ex_late :: z2m where
  "ex_late = fst (z_do ex_env (ZExpire 0) (fst ex_held))"

theorem late_watchdog_releases_new_hold_witness:
  "\<exists>z1 z2 cs ds. dispatchButtonAction 0 0 ''hold'' ex_late = (z1, cs) \<and> z_do ex_env (ZRelease 0) z1 = (z2, ds) \<and>
     cs = [HButton ''u'' 0 f64_one, HButtonAction ''u'' 0 ''hold''] \<and> ds = [HButtonAction ''u'' 0 ''release'', HButton ''u'' 0 f64_zero]"
proof -
  obtain z1 cs where 1: "dispatchButtonAction 0 0 ''hold'' ex_late = (z1, cs)" by (cases "dispatchButtonAction 0 0 ''hold'' ex_late")
  obtain z2 ds where 2: "z_do ex_env (ZRelease 0) z1 = (z2, ds)" by (cases "z_do ex_env (ZRelease 0) z1")
  have "z_due ex_late = [(0, 0, ''u'')] \<and> sub_dsuid ex_late 0 = ''u''" by code_simp
  then have "0 < length (z_due ex_late)" "z_due ex_late ! 0 = (0, 0, ''u'')" "''u'' = sub_dsuid ex_late 0" by simp_all
  from late_watchdog_releases_new_hold [OF this 1 2] 1 2 show ?thesis by blast
qed

section \<open>Discovery and subscription\<close>

definition served :: "z2m \<Rightarrow> string \<Rightarrow> z_handler set" where
  "served z topic = set (dispatch_handlers (z_broker z) topic)"

definition usable :: "z2m \<Rightarrow> bool" where
  "usable z \<longleftrightarrow> broker_usable (z_broker z)"

lemma listen_served:
  assumes "usable z" "ze_subscribe env topic = None" "z_listen env topic h z = (z', r)"
  shows "usable z'" "\<exists>n. r = Inr n" "served z' t = served z t \<union> (if topicMatches topic t then {h} else {})"
proof -
  have "mb_Subscribe None topic 0 h (z_broker z) = (z_broker z', r)"
    using assms(2,3) by (auto simp: z_listen_def split: prod.splits)
  from subscribe_serves [OF _ this] assms(1)
  show "usable z'" "\<exists>n. r = Inr n" "served z' t = served z t \<union> (if topicMatches topic t then {h} else {})"
    by (simp_all add: usable_def served_def)
qed

text \<open>What an activation does to the rest, and what it adds.\<close>

definition z_same :: "z2m \<Rightarrow> z2m \<Rightarrow> bool" where
  "z_same z z' \<longleftrightarrow> z_cfg z' = z_cfg z \<and> z_devices z' = z_devices z \<and> z_groups z' = z_groups z \<and> z_subscribed z' = z_subscribed z \<and>
     z_sent z' = z_sent z \<and> (\<forall>i. ds_ieee (get_sub z' i) = ds_ieee (get_sub z i) \<and> ds_epName (get_sub z' i) = ds_epName (get_sub z i) \<and>
       ds_isGroup (get_sub z' i) = ds_isGroup (get_sub z i))"

lemma z_same_trans: "z_same z z1 \<Longrightarrow> z_same z1 z2 \<Longrightarrow> z_same z z2" by (simp add: z_same_def)

lemma listen_same: "z_listen env topic h z = (z', r) \<Longrightarrow> z' = z\<lparr>z_broker := z_broker z'\<rparr>"
  by (auto simp: z_listen_def split: prod.splits)

definition topics_of :: "z2m \<Rightarrow> discovered_device \<Rightarrow> string \<times> string" where
  "topics_of z dev = (stateTopic (zc_baseTopic (z_cfg z)) (zd_FriendlyName (dd_dev dev)),
     availabilityTopic (zc_baseTopic (z_cfg z)) (zd_FriendlyName (dd_dev dev)))"

lemma activate_serves:
  assumes "usable z" "\<forall>t. ze_subscribe env t = None" "activate env i dev z = (z', cs)"
  shows "usable z'" "z_same z z'" "ds_subs (get_sub z' i) \<noteq> []"
    "served z' t = served z t \<union> (if topicMatches (fst (topics_of z dev)) t then {OnState i dev} else {}) \<union>
       (if topicMatches (snd (topics_of z dev)) t then {OnAvailability i} else {})"
proof -
  let ?s = "stateTopic (zc_baseTopic (z_cfg z)) (zd_FriendlyName (dd_dev dev))"
  let ?a = "availabilityTopic (zc_baseTopic (z_cfg z)) (zd_FriendlyName (dd_dev dev))"
  obtain z1 r where 1: "z_listen env ?s (OnState i dev) z = (z1, r)" by (cases "z_listen env ?s (OnState i dev) z")
  obtain z2 q where 2: "z_listen env ?a (OnAvailability i) z1 = (z2, q)" by (cases "z_listen env ?a (OnAvailability i) z1")
  note s1 = listen_served [OF assms(1) spec [OF assms(2)] 1]
  note s2 = listen_served [OF s1(1) spec [OF assms(2)] 2]
  obtain n m where nm: "r = Inr n" "q = Inr m" using s1(2) s2(2) by blast
  have z': "z' = upd_sub i (\<lambda>s. s\<lparr>ds_subs := [n, m]\<rparr>) z2"
    using assms(3) by (simp add: activate_def Let_def 1 2 nm map_filter_simps)
  show "usable z'" using s2(1) by (simp add: z' usable_def)
  obtain b where b: "z2 = z\<lparr>z_broker := b\<rparr>" using listen_same [OF 1] listen_same [OF 2] by (metis z2m.update_convs(4) z2m.surjective)
  show "z_same z z'" by (simp add: z' b z_same_def) (simp add: get_sub_def upd_sub_def)
  show "ds_subs (get_sub z' i) \<noteq> []" by (simp add: z')
  have "served z' t = served z2 t" by (simp add: served_def z')
  then show "served z' t = served z t \<union> (if topicMatches (fst (topics_of z dev)) t then {OnState i dev} else {}) \<union>
       (if topicMatches (snd (topics_of z dev)) t then {OnAvailability i} else {})"
    using s1(3) s2(3) by (simp add: topics_of_def)
qed

text \<open>The activations that follow an announcement of devices.\<close>

definition adds :: "z2m \<Rightarrow> nat \<Rightarrow> string \<Rightarrow> z_handler set" where
  "adds z i t = (case map_of (z_devices z) (ds_ieee (get_sub z i)) of None \<Rightarrow> {}
     | Some dev \<Rightarrow> (if topicMatches (fst (topics_of z dev)) t then {OnState i dev} else {}) \<union>
                  (if topicMatches (snd (topics_of z dev)) t then {OnAvailability i} else {}))"

lemma adds_same:
  assumes "z_same z z'"
  shows "adds z' = adds z"
proof (intro ext)
  fix i t
  have "z_devices z' = z_devices z" "ds_ieee (get_sub z' i) = ds_ieee (get_sub z i)" "topics_of z' = topics_of z"
    using assms by (simp_all add: z_same_def topics_of_def fun_eq_iff)
  then show "adds z' i t = adds z i t" unfolding adds_def by (simp cong: option.case_cong)
qed

lemma each_activate:
  assumes "usable z" "\<forall>t. ze_subscribe env t = None"
    and "each_step (\<lambda>i z. case map_of (z_devices z) (ds_ieee (get_sub z i)) of None \<Rightarrow> (z, []) | Some d \<Rightarrow> activate env i d z) is z = (z', cs)"
  shows "usable z' \<and> z_same z z' \<and> (\<forall>t. served z' t = served z t \<union> (\<Union>i \<in> set is. adds z i t))"
  using assms
proof (induction "is" arbitrary: z cs)
  case Nil
  then show ?case by (simp add: z_same_def)
next
  case (Cons i js)
  let ?f = "\<lambda>i z. case map_of (z_devices z) (ds_ieee (get_sub z i)) of None \<Rightarrow> (z, []) | Some d \<Rightarrow> activate env i d z"
  obtain z1 c where 1: "?f i z = (z1, c)" by (cases "?f i z")
  obtain d where 2: "each_step ?f js z1 = (z', d)" using Cons.prems(3) by (auto simp: then_step_def 1 split: prod.splits)
  have z1: "usable z1 \<and> z_same z z1 \<and> (\<forall>t. served z1 t = served z t \<union> adds z i t)"
  proof (cases "map_of (z_devices z) (ds_ieee (get_sub z i))")
    case None
    with 1 Cons.prems(1) show ?thesis by (auto simp: z_same_def adds_def)
  next
    case (Some dev)
    with 1 have "activate env i dev z = (z1, c)" by simp
    from activate_serves [OF Cons.prems(1,2) this] show ?thesis by (simp add: adds_def Some Un_assoc)
  qed
  have rest: "usable z' \<and> z_same z1 z' \<and> (\<forall>t. served z' t = served z1 t \<union> (\<Union>i \<in> set js. adds z1 i t))"
    by (rule Cons.IH [OF _ Cons.prems(2) 2]) (use z1 in blast)
  have "z_same z z'" using z1 rest z_same_trans by blast
  then show ?case using z1 rest adds_same [of z z1] by (simp add: Un_assoc)
qed

lemma added_devices:
  "map_of (fold (add_device opts) ds m) k =
     (case find (\<lambda>d. zd_IEEE d = k) (rev ds) of
        Some d \<Rightarrow> Some \<lparr>dd_dev = d, dd_endpoints = endpointsWithOpts opts d\<rparr> | None \<Rightarrow> map_of m k)"
proof (induction ds arbitrary: m)
  case (Cons d ds)
  have "find P (xs @ [x]) = (case find P xs of None \<Rightarrow> if P x then Some x else None | Some y \<Rightarrow> Some y)" for P and x :: bridge_device and xs
    by (induction xs) auto
  then show ?case using Cons by (simp add: add_device_def split: option.split)
qed simp

lemma same_key: "distinct (map f xs) \<Longrightarrow> x \<in> set xs \<Longrightarrow> y \<in> set xs \<Longrightarrow> f x = f y \<Longrightarrow> x = y"
  by (auto simp: distinct_map inj_on_def)

lemma find_in: "find P xs = Some x \<Longrightarrow> x \<in> set xs \<and> P x"
  by (induction xs) (auto split: if_splits)

lemma map_of_keep: "map_of (keep_keys ks m) k = (if k \<in> set ks then map_of m k else None)"
  by (induction m) (auto simp: keep_keys_def)

text \<open>What an announcement leaves behind.\<close>

lemma announced:
  assumes "usable z" "\<forall>t. ze_subscribe env t = None" "payload \<noteq> []" "ze_devices env payload = Inr arr"
    and "d \<in> set arr" "bridgeable (z_opts z) d" "distinct (map zd_IEEE arr)"
  defines "z' \<equiv> fst (onDevices env payload z)" and "dd \<equiv> \<lparr>dd_dev = d, dd_endpoints = endpointsWithOpts (z_opts z) d\<rparr>"
  shows "usable z'" "map_of (z_devices z') (zd_IEEE d) = Some dd"
    "z_cfg z' = z_cfg z \<and> z_subscribed z' = z_subscribed z \<and> z_sent z' = z_sent z"
    "ds_ieee (get_sub z' j) = ds_ieee (get_sub z j)" "ds_epName (get_sub z' j) = ds_epName (get_sub z j)"
    "ds_isGroup (get_sub z' j) = ds_isGroup (get_sub z j)"
    "map_of (z_subscribed z) u = Some i \<Longrightarrow> ds_ieee (get_sub z i) = zd_IEEE d \<Longrightarrow> ds_subs (get_sub z i) = [] \<Longrightarrow>
       OnState i dd \<in> served z' (fst (topics_of z dd)) \<and> OnAvailability i \<in> served z' (snd (topics_of z dd))"
    "ds_subs (get_sub z i) \<noteq> [] \<Longrightarrow> OnState i e \<in> served z' t \<longleftrightarrow> OnState i e \<in> served z t"
proof -
  define found where "found = filter (bridgeable (z_opts z)) arr"
  define devices where "devices = fold (add_device (z_opts z)) found (z_devices z)"
  define pending where "pending = concat (map (\<lambda>k. inactive_subs (\<lambda>s. ds_ieee s = k) z) (map zd_IEEE found))"
  define z0 where "z0 = z\<lparr>z_devices := keep_keys (map zd_IEEE found) devices\<rparr>"
  let ?f = "\<lambda>i z. case map_of (z_devices z) (ds_ieee (get_sub z i)) of None \<Rightarrow> (z, []) | Some d \<Rightarrow> activate env i d z"
  have "\<exists>calls. onDevices env payload z =
      then_step (\<lambda>z. (z\<lparr>z_devices := keep_keys (map zd_IEEE found) devices\<rparr>, calls)) (each_step ?f pending) z"
    unfolding onDevices_def Let_def found_def devices_def pending_def using assms(3,4)
    by (simp del: map_map set_map) (rule exI, rule refl)
  then obtain calls where whole: "onDevices env payload z = then_step (\<lambda>z. (z\<lparr>z_devices := keep_keys (map zd_IEEE found) devices\<rparr>, calls))
      (each_step ?f pending) z" by blast
  obtain w cs where w: "each_step ?f pending z0 = (w, cs)" by (cases "each_step ?f pending z0")
  then have "w = z'" unfolding z'_def whole then_step_def z0_def by simp
  with w have step: "each_step ?f pending z0 = (z', cs)" by simp
  have g: "get_sub z0 = get_sub z" by (simp add: z0_def fun_eq_iff get_sub_def)
  have t: "topics_of z0 = topics_of z" "served z0 = served z" "usable z0 = usable z" "z_cfg z0 = z_cfg z"
      "z_subscribed z0 = z_subscribed z" "z_sent z0 = z_sent z"
    by (simp_all add: z0_def fun_eq_iff topics_of_def served_def usable_def)
  have df: "d \<in> set found" using assms(5,6) by (simp add: found_def)
  have dist: "distinct (map zd_IEEE found)" unfolding found_def using assms(7) by (rule distinct_map_filter)
  have "find (\<lambda>x. zd_IEEE x = zd_IEEE d) (rev found) = Some d"
  proof -
    obtain x where x: "find (\<lambda>x. zd_IEEE x = zd_IEEE d) (rev found) = Some x"
      using df by (cases "find (\<lambda>x. zd_IEEE x = zd_IEEE d) (rev found)") (auto simp: find_None_iff)
    then have "x \<in> set found" "zd_IEEE x = zd_IEEE d" using find_in [OF x] by simp_all
    then have "x = d" using same_key [OF dist] df by blast
    with x show ?thesis by simp
  qed
  then have dev0: "map_of (z_devices z0) (zd_IEEE d) = Some dd"
    using df by (simp add: z0_def map_of_keep devices_def added_devices dd_def)
  note e = each_activate [OF _ assms(2) step]
  have u0: "usable z0" using assms(1) t by simp
  have e: "usable z'" "z_same z0 z'" "\<And>t. served z' t = served z t \<union> (\<Union>i \<in> set pending. adds z0 i t)"
    using e [OF u0] t(2) by auto
  show "usable z'" by (rule e)
  show "map_of (z_devices z') (zd_IEEE d) = Some dd" "ds_ieee (get_sub z' j) = ds_ieee (get_sub z j)"
      "ds_epName (get_sub z' j) = ds_epName (get_sub z j)" "ds_isGroup (get_sub z' j) = ds_isGroup (get_sub z j)"
      "z_cfg z' = z_cfg z \<and> z_subscribed z' = z_subscribed z \<and> z_sent z' = z_sent z"
    using e(2) dev0 g t by (auto simp: z_same_def)
  show "OnState i dd \<in> served z' (fst (topics_of z dd)) \<and> OnAvailability i \<in> served z' (snd (topics_of z dd))"
    if i: "map_of (z_subscribed z) u = Some i" "ds_ieee (get_sub z i) = zd_IEEE d" "ds_subs (get_sub z i) = []"
  proof -
    have "i \<in> set (map snd (z_subscribed z))" using map_of_SomeD [OF i(1)] by force
    then have "i \<in> set pending" using i df by (auto simp: pending_def inactive_subs_def)
    moreover have "OnState i dd \<in> adds z0 i (fst (topics_of z dd))" "OnAvailability i \<in> adds z0 i (snd (topics_of z dd))"
      using i(2) dev0 g by (simp_all add: adds_def t topicMatches_def)
    ultimately show ?thesis by (auto simp: e(3))
  qed
  show "OnState i e \<in> served z' t \<longleftrightarrow> OnState i e \<in> served z t" if "ds_subs (get_sub z i) \<noteq> []"
  proof -
    have "i \<notin> set pending" using that by (auto simp: pending_def inactive_subs_def)
    then have "OnState i e \<notin> (\<Union>i \<in> set pending. adds z0 i t)" by (auto simp: adds_def split: option.splits if_splits)
    then show ?thesis by (simp add: e(3))
  qed
qed

lemma parse_entity:
  assumes "CHR '':'' \<notin> set (zd_IEEE d)"
  shows "parseEntityID (entityID d ep) = (zd_IEEE d, ep_Name ep)"
proof (cases "ep_Name ep = []")
  case False
  have "takeWhile (\<lambda>c. c \<noteq> CHR '':'') (zd_IEEE d @ '':'' @ ep_Name ep) = zd_IEEE d"
    "dropWhile (\<lambda>c. c \<noteq> CHR '':'') (zd_IEEE d @ '':'' @ ep_Name ep) = '':'' @ ep_Name ep"
    by (subst takeWhile_append2 dropWhile_append2; use assms in auto)+
  with False show ?thesis by (simp add: parseEntityID_def entityID_def)
qed (use assms in \<open>simp add: parseEntityID_def entityID_def\<close>)

text \<open>
  The identifier of an entity leads back to its endpoint: parsing what was announced gives the
  address and the name of the endpoint, which is found again when the endpoints of the device have
  different names.
\<close>

theorem entity_ids_lead_back:
  assumes "ep \<in> set (dd_endpoints dd)" "distinct (map ep_Name (dd_endpoints dd))" "CHR '':'' \<notin> set (zd_IEEE (dd_dev dd))"
  shows "case parseEntityID (re_ID (device_entity dd ep)) of (ieee, name) \<Rightarrow>
    ieee = zd_IEEE (dd_dev dd) \<and> endpoint_of dd name = Some ep"
proof -
  obtain x where x: "find (\<lambda>e. ep_Name e = ep_Name ep) (dd_endpoints dd) = Some x"
    using assms(1) by (cases "find (\<lambda>e. ep_Name e = ep_Name ep) (dd_endpoints dd)") (auto simp: find_None_iff)
  then have "x = ep" using find_in [OF x] same_key [OF assms(2)] assms(1) by blast
  with x show ?thesis by (simp add: device_entity_def Let_def parse_entity [OF assms(3)] endpoint_of_def)
qed

text \<open>Subscribing to a device that is known, and to one that is not.\<close>

lemma subscribe_device:
  assumes "m_RemoteEntityID m = entityID d ep" "CHR '':'' \<notin> set (zd_IEEE d)" "\<not> isGroupEntityID (entityID d ep)"
  shows "z_Subscribe env m z =
    (let z1 = add_sub ((new_sub m)\<lparr>ds_ieee := zd_IEEE d, ds_epName := ep_Name ep\<rparr>) z
     in case map_of (z_devices z) (zd_IEEE d) of None \<Rightarrow> (z1, []) | Some dd \<Rightarrow> activate env (z_nextSub z) dd z1)"
  using assms by (simp add: z_Subscribe_def parse_entity add_sub_def Let_def)

lemma add_fields [simp]:
  "z_devices (add_sub d z) = z_devices z" "z_cfg (add_sub d z) = z_cfg z" "served (add_sub d z) = served z"
  "usable (add_sub d z) = usable z" "z_opts (add_sub d z) = z_opts z" "topics_of (add_sub d z) = topics_of z"
  "map_of (z_subscribed (add_sub d z)) (m_DSUID (ds_mapping d)) = Some (z_nextSub z)"
  by (simp_all add: add_sub_def fun_eq_iff served_def usable_def z_opts_def topics_of_def)

text \<open>
  C18: a device is served whether its mapping or its announcement comes first: with a usable
  broker, subscribing and then hearing of the device leads to a handler on the device's state
  topic and one on its availability topic, and so does hearing of it and then subscribing.
\<close>

theorem order_does_not_matter:
  assumes "usable z" "refs_ok z" "\<forall>t. ze_subscribe env t = None" "payload \<noteq> []" "ze_devices env payload = Inr arr"
    and "d \<in> set arr" "bridgeable (z_opts z) d" "distinct (map zd_IEEE arr)" "map_of (z_devices z) (zd_IEEE d) = None"
    and "m_RemoteEntityID m = entityID d ep" "CHR '':'' \<notin> set (zd_IEEE d)" "\<not> isGroupEntityID (entityID d ep)"
  shows "let dd = \<lparr>dd_dev = d, dd_endpoints = endpointsWithOpts (z_opts z) d\<rparr>; i = z_nextSub z;
      z1 = fst (onDevices env payload (fst (z_Subscribe env m z)));
      z2 = fst (z_Subscribe env m (fst (onDevices env payload z)))
    in OnState i dd \<in> served z1 (fst (topics_of z dd)) \<and> OnAvailability i \<in> served z1 (snd (topics_of z dd)) \<and>
       OnState i dd \<in> served z2 (fst (topics_of z dd)) \<and> OnAvailability i \<in> served z2 (snd (topics_of z dd))"
proof -
  define dd where "dd = \<lparr>dd_dev = d, dd_endpoints = endpointsWithOpts (z_opts z) d\<rparr>"
  define s where "s = (new_sub m)\<lparr>ds_ieee := zd_IEEE d, ds_epName := ep_Name ep\<rparr>"
  note sub = subscribe_device [OF assms(10-12), of env]
  have sv: "m_DSUID (ds_mapping s) = m_DSUID m" "ds_ieee s = zd_IEEE d" "ds_subs s = []" by (simp_all add: s_def new_sub_def)
  let ?i = "z_nextSub z"
  have first: "fst (z_Subscribe env m z) = add_sub s z" using sub [of z] assms(9) by (simp add: Let_def s_def)
  have new: "get_sub (add_sub s z) ?i = s" by (simp add: add_view [OF assms(2)])
  have a: "OnState ?i dd \<in> served (fst (onDevices env payload (add_sub s z))) (fst (topics_of z dd)) \<and>
      OnAvailability ?i \<in> served (fst (onDevices env payload (add_sub s z))) (snd (topics_of z dd))"
    using announced(7) [of "add_sub s z" env payload arr d "m_DSUID m" ?i] assms(1,3-8) sv new add_fields(7) [of s z]
    by (simp add: dd_def)
  define y where "y = fst (onDevices env payload z)"
  note an = announced [OF assms(1,3-8), folded dd_def y_def]
  have q: "z_nextSub y = ?i" "refs_ok y"
    using quietD(1,7) [OF quiet_onDevices assms(2) order.refl, of env payload y "snd (onDevices env payload z)"]
    by (simp_all add: y_def)
  have ty: "topics_of y = topics_of z" using an(3) by (simp add: topics_of_def fun_eq_iff)
  define w where "w = fst (activate env ?i dd (add_sub s y))"
  have second: "fst (z_Subscribe env m y) = w"
    using sub [of y] an(2) q(1) by (simp add: Let_def s_def w_def)
  obtain cs where act: "activate env ?i dd (add_sub s y) = (w, cs)" unfolding w_def by (cases "activate env ?i dd (add_sub s y)") simp
  have us: "usable (add_sub s y)" using an(1) by simp
  have "OnState ?i dd \<in> served w (fst (topics_of z dd)) \<and> OnAvailability ?i \<in> served w (snd (topics_of z dd))"
    using activate_serves(4) [OF us assms(3) act] by (simp add: ty topicMatches_def [of "fst (topics_of z dd)" "fst (topics_of z dd)"]
        topicMatches_def [of "snd (topics_of z dd)" "snd (topics_of z dd)"])
  with a show ?thesis by (simp add: Let_def first dd_def [symmetric] second y_def [symmetric])
qed


section \<open>The run again\<close>

lemma start_usable: "usable ex_start"
  unfolding ex_start_def
proof (rule init_induct)
  have n: "usable ((NewPlugin ''z'' newBroker)\<lparr>z_broker := newBroker\<lparr>mb_client := c, mb_connected := c\<rparr>\<rparr>)" for c
    by (simp add: usable_def broker_usable_def wf_cong [of "newBroker\<lparr>mb_client := c, mb_connected := c\<rparr>" newBroker] wf_new)
  show "usable (NewPlugin ''z'' newBroker)" by (simp add: usable_def broker_usable_def NewPlugin_def wf_new) (simp add: newBroker_def)
  show "usable (z\<lparr>z_broker := b, z_ready := True\<rparr>)" if "ex_found k = Some (Inr b)" for z k b
    using that n [of True] by (auto simp: ex_found_def usable_def)
  show "usable z'" if "usable z" "z_listen ex_env topic h z = (z', r)" for z topic h z' r
    using listen_served(1) [OF that(1) _ that(2)] by (simp add: ex_env_def)
qed (simp_all add: usable_def)

lemma start_refs: "refs_ok ex_start"
proof -
  have "z_run ex_start []" unfolding ex_start_def by (rule z_run.init) (auto simp: no_refs_def ex_found_def newBroker_def)
  then show ?thesis using gestures_run by (simp add: gestures_ok_def)
qed

lemma ex_outcomes: "\<forall>t. ze_subscribe ex_env t = None" "ze_devices ex_env s = Inr [ex_remote]" "''d'' \<noteq> []"
  by (simp_all add: ex_env_def)

definition ex_ep :: endpoint where
  "ex_ep = button_endpoint ''action'' []"

theorem order_does_not_matter_witness:
  "OnState 0 \<lparr>dd_dev = ex_remote, dd_endpoints = [ex_ep]\<rparr> \<in>
     served (fst (z_Subscribe ex_env ex_mapping (fst (onDevices ex_env ''d'' ex_start)))) ''zigbee2mqtt/r'' \<and>
   OnState 0 \<lparr>dd_dev = ex_remote, dd_endpoints = [ex_ep]\<rparr> \<in>
     served (fst (onDevices ex_env ''d'' (fst (z_Subscribe ex_env ex_mapping ex_start)))) ''zigbee2mqtt/r''"
proof -
  have 1: "bridgeable (z_opts ex_start) ex_remote" "map_of (z_devices ex_start) (zd_IEEE ex_remote) = None" by code_simp+
  have 2: "ex_remote \<in> set [ex_remote]" "distinct (map zd_IEEE [ex_remote])" by simp_all
  have 3: "m_RemoteEntityID ex_mapping = entityID ex_remote ex_ep" "CHR '':'' \<notin> set (zd_IEEE ex_remote)"
    "\<not> isGroupEntityID (entityID ex_remote ex_ep)" by code_simp+
  have 4: "endpointsWithOpts (z_opts ex_start) ex_remote = [ex_ep] \<and> z_nextSub ex_start = 0 \<and>
      fst (topics_of ex_start \<lparr>dd_dev = ex_remote, dd_endpoints = [ex_ep]\<rparr>) = ''zigbee2mqtt/r''" by code_simp
  show ?thesis
    using order_does_not_matter [OF start_usable start_refs ex_outcomes(1,3,2) 2(1) 1(1) 2(2) 1(2) 3] 4 by (simp add: Let_def)
qed

theorem entity_ids_lead_back_witness:
  "case parseEntityID (re_ID (device_entity \<lparr>dd_dev = ex_remote, dd_endpoints = [ex_ep]\<rparr> ex_ep)) of (ieee, name) \<Rightarrow>
     ieee = ''0x1'' \<and> endpoint_of \<lparr>dd_dev = ex_remote, dd_endpoints = [ex_ep]\<rparr> name = Some ex_ep"
proof -
  have "CHR '':'' \<notin> set (zd_IEEE ex_remote)" "zd_IEEE ex_remote = ''0x1''" by code_simp+
  then show ?thesis
    using entity_ids_lead_back [of ex_ep "\<lparr>dd_dev = ex_remote, dd_endpoints = [ex_ep]\<rparr>"] by simp
qed

text \<open>A lamp under a new name, announced to a plugin that serves it under the old one.\<close>

definition ex_lamp :: "string \<Rightarrow> bridge_device" where
  "ex_lamp name = \<lparr>zd_IEEE = ''0x2'', zd_FriendlyName = name, zd_Type = ''Router'', zd_Supported = True, zd_Disabled = False,
     zd_PowerSource = ''Mains'', zd_SoftwareBuildID = [], zd_Definition = Some \<lparr>df_Model = ''L'', df_Vendor = ''V'',
       df_Exposes = [Expose ''light'' [] [] [] [] None None [] [Expose ''binary'' ''state'' ''state'' [] [] None None [] []]]\<rparr>\<rparr>"

definition ex_lamp_env :: "string \<Rightarrow> z2m_env" where
  "ex_lamp_env name = ex_env\<lparr>ze_devices := (\<lambda>s. Inr [ex_lamp name])\<rparr>"

definition ex_lamp_mapping :: mapping where
  "ex_lamp_mapping = \<lparr>m_PluginID = ''z'', m_RemoteEntityID = ''0x2'', m_DSUID = ''v'', m_Kind = ''light'', m_Name = ''l''\<rparr>"

definition ex_served :: z2m where
  "ex_served = fst (onDevices (ex_lamp_env ''hall'') ''d'' (fst (z_Subscribe ex_env ex_lamp_mapping ex_start)))"

definition ex_level :: command where
  "ex_level = \<lparr>c_Type = ''setChannel'', c_Channel = 0, c_Value = f64_one, c_Scene = 0, c_Active = False\<rparr>"


section \<open>Buttons\<close>

lemma split_known:
  assumes "splitButtonAction v = (p, s)" "s \<noteq> []"
  shows "s \<in> set buttonActionSuffixes" "v \<noteq> []"
proof -
  from assms have "first_some (split_at_suffix v) buttonActionSuffixes = Some (p, s)"
    by (auto simp: splitButtonAction_def split: option.splits)
  from first_some_SomeD [OF this] obtain x where x: "x \<in> set buttonActionSuffixes" "split_at_suffix v x = Some (p, s)" by blast
  then show "s \<in> set buttonActionSuffixes" by (auto simp: split_at_suffix_def split: if_splits)
  from x show "v \<noteq> []" by (auto simp: split_at_suffix_def has_suffix_def buttonActionSuffixes_def)
qed

lemma known_mapped: "s \<in> set buttonActionSuffixes \<Longrightarrow> mapActionSuffix s \<noteq> []"
  by (auto simp: buttonActionSuffixes_def mapActionSuffix_def)

lemma button_fields [simp]:
  "ep_ActionPrefix (button_endpoint prop p) = p" "ep_ActionProp (button_endpoint prop p) = prop"
  "ep_Name (button_endpoint prop p) = (if p = [] then ''btn'' else ''btn_'' @ p)"
  by (simp_all add: button_endpoint_def endpoint0_def)

text \<open>
  An action reaches its button and no other: among the buttons made of the actions a device
  announces there is one for the prefix of each known action, their names differ, and a state
  message with that action runs the gesture on this button while every other button ignores it.
\<close>

theorem action_reaches_its_button:
  assumes "v \<in> set vals" "splitButtonAction v = (p, s)" "s \<noteq> []" "stringField msg prop = Some v"
  shows "button_endpoint prop p \<in> set (expandActionButtons prop vals) \<and>
    distinct (map ep_Name (expandActionButtons prop vals)) \<and>
    (\<forall>ep \<in> set (expandActionButtons prop vals). button_message i ep msg False z =
       (if ep = button_endpoint prop p then dispatchButtonAction i 0 (mapActionSuffix s) z else (z, [])))"
proof (intro conjI ballI)
  let ?ps = "map (fst \<circ> splitButtonAction) (filter (\<lambda>v. snd (splitButtonAction v) \<noteq> []) vals)"
  have "p \<in> set ?ps" using assms(1-3) by (force intro: rev_image_eqI)
  then show "button_endpoint prop p \<in> set (expandActionButtons prop vals)" by (simp add: expandActionButtons_def)
  define qs where "qs = sort (remdups ?ps)"
  have "map ep_Name (expandActionButtons prop vals) = map (\<lambda>p. if p = [] then ''btn'' else ''btn_'' @ p) qs"
    by (simp add: expandActionButtons_def qs_def)
  moreover have "distinct qs" by (simp add: qs_def)
  moreover have "inj_on (\<lambda>p. if p = [] then ''btn'' else ''btn_'' @ p) (set qs)" by (auto simp: inj_on_def split: if_splits)
  ultimately show "distinct (map ep_Name (expandActionButtons prop vals))" by (simp only: distinct_map)
next
  fix ep assume "ep \<in> set (expandActionButtons prop vals)"
  then obtain r where r: "ep = button_endpoint prop r" by (auto simp: expandActionButtons_def)
  have "r = p \<longleftrightarrow> ep = button_endpoint prop p" unfolding r by (metis button_fields(1))
  then show "button_message i ep msg False z =
      (if ep = button_endpoint prop p then dispatchButtonAction i 0 (mapActionSuffix s) z else (z, []))"
    using assms(2-4) split_known [OF assms(2,3)] known_mapped r by (auto simp: button_message_def)
qed

theorem action_reaches_its_button_witness:
  "button_message 0 (button_endpoint ''action'' ''dots_1'') [(''action'', GStr ''dots_1_hold'')] False ex_start =
     dispatchButtonAction 0 0 ''hold'' ex_start \<and>
   button_message 0 (button_endpoint ''action'' []) [(''action'', GStr ''dots_1_hold'')] False ex_start = (ex_start, [])"
proof -
  let ?vals = "[''dots_1_hold'', ''single'']"
  have v: "''dots_1_hold'' \<in> set ?vals" "splitButtonAction ''dots_1_hold'' = (''dots_1'', ''hold'')" "''hold'' \<noteq> []"
    "stringField [(''action'', GStr ''dots_1_hold'')] ''action'' = Some ''dots_1_hold''" by code_simp+
  note act = action_reaches_its_button [OF v, of 0 ex_start]
  have eps: "expandActionButtons ''action'' ?vals = [button_endpoint ''action'' [], button_endpoint ''action'' ''dots_1'']"
    "button_endpoint ''action'' [] \<noteq> button_endpoint ''action'' ''dots_1''" "mapActionSuffix ''hold'' = ''hold''" by code_simp+
  show ?thesis using act by (simp add: eps)
qed

section \<open>Groups\<close>

lemma fold_best:
  "c \<noteq> d \<Longrightarrow> fold (\<lambda>x b. if k x = c then c else if k x = d \<and> b \<noteq> c then d else b) xs b =
     (if c \<in> insert b (k ` set xs) then c else if d \<in> k ` set xs then d else b)"
proof (induction xs arbitrary: b)
  case (Cons x xs)
  then show ?case by (cases "k x = c"; cases "k x = d"; cases "b = c") simp_all
qed simp

lemma better_kinds:
  "fold better_kind eps best = (if ''colorlight'' \<in> insert best (ep_Kind ` set eps) then ''colorlight''
     else if ''dimmer'' \<in> ep_Kind ` set eps then ''dimmer'' else best)"
proof -
  have "better_kind = (\<lambda>x b. if ep_Kind x = ''colorlight'' then ''colorlight'' else if ep_Kind x = ''dimmer'' \<and> b \<noteq> ''colorlight''
      then ''dimmer'' else b)" by (intro ext) (simp only: better_kind_def)
  then show ?thesis using fold_best [of "''colorlight''" "''dimmer''" ep_Kind eps best] by simp
qed

definition group_kinds :: "(string, discovered_device) gomap \<Rightarrow> string list \<Rightarrow> string set" where
  "group_kinds devices ms = (\<Union>ieee \<in> set ms. case map_of devices ieee of None \<Rightarrow> {} | Some dd \<Rightarrow> ep_Kind ` set (dd_endpoints dd))"

lemma member_kinds:
  "fold (member_kind devices) ms best = (if ''colorlight'' \<in> insert best (group_kinds devices ms) then ''colorlight''
     else if ''dimmer'' \<in> group_kinds devices ms then ''dimmer'' else best)"
proof (induction ms arbitrary: best)
  case (Cons a ms)
  define k where "k = (case map_of devices a of None \<Rightarrow> {} | Some dd \<Rightarrow> ep_Kind ` set (dd_endpoints dd))"
  have "group_kinds devices (a # ms) = k \<union> group_kinds devices ms" by (simp add: group_kinds_def k_def)
  moreover have "member_kind devices a best = (if ''colorlight'' \<in> insert best k then ''colorlight''
      else if ''dimmer'' \<in> k then ''dimmer'' else best)"
    by (simp add: member_kind_def better_kinds k_def split: option.split)
  ultimately show ?case by (auto simp: Cons.IH)
qed (simp add: group_kinds_def)

text \<open>
  A group gets the best capability among its members: it is a colour light when a known
  member has a colour light, else a dimmer when a known member has one, else a plain light; a group
  without members is a dimmer. Brightness and colour are supported just as the kind says.
\<close>

theorem group_has_best_capability:
  "let ks = group_kinds devices (zg_Members g); ep = inferEndpoint devices g
   in ep_Kind ep = (if ''colorlight'' \<in> ks then ''colorlight'' else if ''dimmer'' \<in> ks \<or> zg_Members g = [] then ''dimmer''
        else ''light'') \<and>
      ep_HasBrightness ep = (ep_Kind ep \<in> {''dimmer'', ''colorlight''}) \<and> ep_HasColor ep = (ep_Kind ep = ''colorlight'')"
proof -
  have "zg_Members g = [] \<Longrightarrow> group_kinds devices (zg_Members g) = {}" by (simp add: group_kinds_def)
  then show ?thesis by (auto simp: inferEndpoint_def Let_def endpoint0_def member_kinds)
qed

end
