(* ===== verification/Float_Math.thy ===== *)
theory Float_Math
  imports Float_Ops
begin

text \<open>
  What the plugins use of the package \<^verbatim>\<open>math\<close> on \<^verbatim>\<open>float64\<close> values: \<^verbatim>\<open>Abs\<close>, \<^verbatim>\<open>Max\<close>, \<^verbatim>\<open>Min\<close>, \<^verbatim>\<open>Mod\<close>,
  which is exact and has the sign of its first argument, and \<^verbatim>\<open>Round\<close> with the conversion to int that
  follows it everywhere. The conversion of a value that has no integer gives the least integer, as on
  amd64; each operation is rounded on its own.
\<close>

definition f64_abs :: "f64 \<Rightarrow> f64" where
  "f64_abs x = f64_make False (f64_mag x)"

definition f64_max :: "f64 \<Rightarrow> f64 \<Rightarrow> f64" where
  "f64_max a b =
     (if a = f64_make False f64_inf_mag \<or> b = f64_make False f64_inf_mag then f64_make False f64_inf_mag
      else if f64_is_nan a \<or> f64_is_nan b then f64_nan
      else if f64_mag a = 0 \<and> f64_mag b = 0 then (if f64_neg a then b else a)
      else if f64_less b a then a else b)"

definition f64_min :: "f64 \<Rightarrow> f64 \<Rightarrow> f64" where
  "f64_min a b =
     (if a = f64_make True f64_inf_mag \<or> b = f64_make True f64_inf_mag then f64_make True f64_inf_mag
      else if f64_is_nan a \<or> f64_is_nan b then f64_nan
      else if f64_mag a = 0 \<and> f64_mag b = 0 then (if f64_neg a then a else b)
      else if f64_less a b then a else b)"

definition f64_mod :: "f64 \<Rightarrow> f64 \<Rightarrow> f64" where
  "f64_mod x y =
     (if f64_mag y = 0 \<or> f64_is_inf x \<or> f64_is_nan x \<or> f64_is_nan y then f64_nan
      else if f64_is_inf y then x
      else let e = min (f64_pow x) (f64_pow y);
               r = (f64_sig x * 2 ^ nat (f64_pow x - e)) mod (f64_sig y * 2 ^ nat (f64_pow y - e))
           in f64_make (f64_neg x) (f64_mag_of r 1 e))"

text \<open>\<^verbatim>\<open>int(math.Round(x))\<close>: halves away from zero.\<close>

definition f64_round_int :: "f64 \<Rightarrow> int" where
  "f64_round_int x =
     (if f64_inf_mag \<le> f64_mag x then - (2 ^ 63)
      else let e = f64_pow x;
               m = (if 0 \<le> e then f64_sig x * 2 ^ nat e else (2 * f64_sig x div 2 ^ nat (- e) + 1) div 2);
               n = (if f64_neg x then - m else m)
           in if in_int64 n then n else - (2 ^ 63))"

end
