(* ===== verification/Tasmota_Device.thy ===== *)
theory Tasmota_Device
  imports Plugin_Steps Float_Math Control
begin

text \<open>
  What the Tasmota plugin makes of an announcement and of a state message
  (\<^verbatim>\<open>pkg/bridge/tasmota/discovery.go\<close>, \<^verbatim>\<open>state.go\<close>): topics from the template of the device, relays and
  lights with their kinds and identifiers, conversions of values. Messages are already decoded.
\<close>

section \<open>Announcements\<close>

record discovery_config =
  tc_IP :: string
  tc_DevName :: string
  tc_FNames :: "gany list"
  tc_Host :: string
  tc_MAC :: string
  tc_Model :: string
  tc_OflnTxt :: string
  tc_OnlnTxt :: string
  tc_State :: "string list"
  tc_SwVer :: string
  tc_Topic :: string
  tc_FullTop :: string
  tc_Prefix :: "string list"
  tc_RL :: "int list"
  tc_LtSt :: int
  tc_Ver :: int

text \<open>The entry of a list, or the default when it is missing or empty.\<close>

definition entry_or :: "string list \<Rightarrow> nat \<Rightarrow> string \<Rightarrow> string" where
  "entry_or xs i dflt = (if i < length xs \<and> xs ! i \<noteq> [] then xs ! i else dflt)"

definition powerStates :: "discovery_config \<Rightarrow> string \<times> string" where
  "powerStates d = (entry_or (tc_State d) 0 ''OFF'', entry_or (tc_State d) 1 ''ON'')"

definition onlineStates :: "discovery_config \<Rightarrow> string \<times> string" where
  "onlineStates d = (if tc_OnlnTxt d = [] then ''Online'' else tc_OnlnTxt d,
     if tc_OflnTxt d = [] then ''Offline'' else tc_OflnTxt d)"

definition prefixAt :: "discovery_config \<Rightarrow> nat \<Rightarrow> string \<Rightarrow> string" where
  "prefixAt d i dflt = entry_or (tc_Prefix d) i dflt"

definition fullTopic :: "discovery_config \<Rightarrow> string \<Rightarrow> string" where
  "fullTopic d prefix =
     (let t = (if tc_FullTop d = [] then ''%prefix%/%topic%/'' else tc_FullTop d);
          t = replace_all ''%topic%'' (tc_Topic d) (replace_all ''%prefix%'' prefix t)
      in if t \<noteq> [] \<and> last t = CHR ''/'' then t else t @ ''/'')"

definition cmndTopic :: "discovery_config \<Rightarrow> string \<Rightarrow> string" where
  "cmndTopic d suffix = fullTopic d (prefixAt d 0 ''cmnd'') @ suffix"

definition statTopic :: "discovery_config \<Rightarrow> string \<Rightarrow> string" where
  "statTopic d suffix = fullTopic d (prefixAt d 1 ''stat'') @ suffix"

definition teleTopic :: "discovery_config \<Rightarrow> string \<Rightarrow> string" where
  "teleTopic d suffix = fullTopic d (prefixAt d 2 ''tele'') @ suffix"

section \<open>Relays\<close>

definition relayCount :: "discovery_config \<Rightarrow> nat" where
  "relayCount d = length (filter (\<lambda>v. v = 1 \<or> v = 2) (tc_RL d))"

definition friendlyName :: "discovery_config \<Rightarrow> int \<Rightarrow> string" where
  "friendlyName d relay =
     (let i = nat (relay - 1);
          given = (if 0 \<le> relay - 1 \<and> i < length (tc_FNames d)
                   then (case tc_FNames d ! i of GStr s \<Rightarrow> if s \<noteq> [] then Some s else None | _ \<Rightarrow> None) else None)
      in case given of
           Some s \<Rightarrow> s
         | None \<Rightarrow>
             if tc_DevName d \<noteq> [] then (if 1 < relayCount d then tc_DevName d @ '' '' @ itoa relay else tc_DevName d)
             else ''Tasmota '' @ tc_MAC d @ '' #'' @ itoa relay)"

definition powerSuffix :: "discovery_config \<Rightarrow> int \<Rightarrow> string" where
  "powerSuffix d relay = (if relayCount d \<le> 1 then ''POWER'' else ''POWER'' @ itoa relay)"

definition kindFor :: "discovery_config \<Rightarrow> int \<Rightarrow> string" where
  "kindFor d relay =
     (if relay - 1 < 0 \<or> int (length (tc_RL d)) \<le> relay - 1 then ''light''
      else if tc_RL d ! nat (relay - 1) = 2 then
        (if tc_LtSt d \<in> {0, 1, 2} then ''dimmer'' else if tc_LtSt d \<in> {3, 4, 5} then ''colorlight'' else ''light'')
      else ''light'')"

definition entityID_tasmota :: "discovery_config \<Rightarrow> int \<Rightarrow> string" where
  "entityID_tasmota d relay = (if relayCount d \<le> 1 then tc_MAC d else tc_MAC d @ '':R'' @ itoa relay)"

definition parseEntityID_tasmota :: "string \<Rightarrow> string \<times> int" where
  "parseEntityID_tasmota i =
     (case split_first '':R'' i of
        None \<Rightarrow> (i, 1)
      | Some (mac, rest) \<Rightarrow>
          if mac = [] then (i, 1)
          else (mac, case scan_int rest of None \<Rightarrow> 1 | Some (n, _) \<Rightarrow> if n \<le> 0 then 1 else n))"

definition parseMAC :: "string \<Rightarrow> string" where
  "parseMAC i = fst (parseEntityID_tasmota i)"

definition macFromDiscoveryTopic :: "string \<Rightarrow> string" where
  "macFromDiscoveryTopic t =
     (let parts = split_at_char (CHR ''/'') t
      in if length parts < 3 then [] else if last parts \<noteq> ''config'' then [] else parts ! (length parts - 2))"

section \<open>State messages\<close>

text \<open>The fields of a message that the plugin reads; \<open>sm_Powers\<close> are POWER1 to POWER8.\<close>

record state_message =
  sm_POWER :: string
  sm_Powers :: "string list"
  sm_Dimmer :: "int option"
  sm_HSBColor :: string

definition powerForRelay :: "state_message \<Rightarrow> int \<Rightarrow> string option" where
  "powerForRelay m relay =
     (let v = (if 1 \<le> relay \<and> relay \<le> 8 \<and> nat (relay - 1) < length (sm_Powers m) then sm_Powers m ! nat (relay - 1) else []);
          v = (if relay = 1 \<and> v = [] then sm_POWER m else v)
      in if v = [] then None else Some v)"

definition clampF_tasmota :: "f64 \<Rightarrow> f64 \<Rightarrow> f64 \<Rightarrow> f64" where
  "clampF_tasmota v lo hi = (if f64_less v lo then lo else if f64_less hi v then hi else v)"

definition briToVDC_tasmota :: "int \<Rightarrow> bool \<Rightarrow> f64" where
  "briToVDC_tasmota dimmer on = (if \<not> on then f64_zero else clampF_tasmota (f64_of_int dimmer) f64_zero f64_hundred)"

definition vdcToDimmer :: "f64 \<Rightarrow> int" where
  "vdcToDimmer pct =
     (let v = f64_round_int (clampF_tasmota pct f64_zero f64_hundred); v = (if v < 1 then 1 else v)
      in if 100 < v then 100 else v)"

text \<open>The text "h,s,v"; what follows the third number is not looked at.\<close>

definition parseHSB :: "string \<Rightarrow> (f64 \<times> f64 \<times> f64) option" where
  "parseHSB s =
     (case scan_int s of
        Some (h, CHR '','' # s') \<Rightarrow>
          (case scan_int s' of
             Some (t, CHR '','' # s'') \<Rightarrow>
               (case scan_int s'' of Some (v, _) \<Rightarrow> Some (f64_of_int h, f64_of_int t, f64_of_int v) | None \<Rightarrow> None)
           | _ \<Rightarrow> None)
      | _ \<Rightarrow> None)"

end
