(* ===== verification/Tasmota_Plugin.thy ===== *)
theory Tasmota_Plugin
  imports Tasmota_Device Mqtt_Broker
begin

text \<open>
  The Tasmota plugin (\<^verbatim>\<open>pkg/bridge/tasmota/tasmota.go\<close>) as a state machine, in the way of the
  Zigbee2MQTT one: subscriptions are objects that handlers refer to, the broker calls a datatype in
  place of the closures, host calls are returned in order.
\<close>

section \<open>State\<close>

record tasmota_env =
  te_config :: "string \<Rightarrow> string + discovery_config"
  te_state :: "string \<Rightarrow> state_message option"
  te_subscribe :: "string \<Rightarrow> string option"
  te_publish :: "string \<Rightarrow> string \<Rightarrow> string option"
  te_quote :: "string \<Rightarrow> string"

record tasmota_config =
  tf_broker :: string
  tf_discoveryPrefix :: string

record tasmota_sub =
  ts_mapping :: mapping
  ts_mac :: string
  ts_relay :: int
  ts_subs :: "nat list"
  ts_hue :: f64
  ts_sat :: f64

datatype t_handler = TDiscovery | TOnline nat discovery_config | TState nat discovery_config | TPower nat discovery_config

record tasmota =
  t_id :: string
  t_cfg :: tasmota_config
  t_broker :: "t_handler mqtt_broker"
  t_discoverySub :: "nat option"
  t_devices :: "(string, discovery_config) gomap"
  t_subscribed :: "(string, nat) gomap"
  t_subs :: "(nat, tasmota_sub) gomap"
  t_nextSub :: nat
  t_sent :: "(string \<times> string) list"

definition defaultDiscoveryPrefix :: string where "defaultDiscoveryPrefix = ''tasmota/discovery''"

definition tasmota_new :: "string \<Rightarrow> t_handler mqtt_broker \<Rightarrow> tasmota" where
  "tasmota_new i b = \<lparr>t_id = i, t_cfg = \<lparr>tf_broker = [], tf_discoveryPrefix = defaultDiscoveryPrefix\<rparr>, t_broker = b,
     t_discoverySub = None, t_devices = [], t_subscribed = [], t_subs = [], t_nextSub = 0, t_sent = []\<rparr>"

definition t_get :: "tasmota \<Rightarrow> nat \<Rightarrow> tasmota_sub" where
  "t_get z i = (case map_of (t_subs z) i of Some d \<Rightarrow> d
     | None \<Rightarrow> \<lparr>ts_mapping = \<lparr>m_PluginID = [], m_RemoteEntityID = [], m_DSUID = [], m_Kind = [], m_Name = []\<rparr>, ts_mac = [], ts_relay = 0,
         ts_subs = [], ts_hue = f64_zero, ts_sat = f64_zero\<rparr>)"

definition t_upd :: "nat \<Rightarrow> (tasmota_sub \<Rightarrow> tasmota_sub) \<Rightarrow> tasmota \<Rightarrow> tasmota" where
  "t_upd i f z = z\<lparr>t_subs := AList.update i (f (t_get z i)) (t_subs z)\<rparr>"

definition t_dsuid :: "tasmota \<Rightarrow> nat \<Rightarrow> string" where
  "t_dsuid z i = m_DSUID (ts_mapping (t_get z i))"

definition t_listen :: "tasmota_env \<Rightarrow> string \<Rightarrow> t_handler \<Rightarrow> tasmota \<Rightarrow> tasmota \<times> (string + nat)" where
  "t_listen env topic h z =
     (case mb_Subscribe (te_subscribe env topic) topic 0 h (t_broker z) of (b, r) \<Rightarrow> (z\<lparr>t_broker := b\<rparr>, r))"

definition t_publish :: "tasmota_env \<Rightarrow> string \<Rightarrow> string \<Rightarrow> tasmota \<Rightarrow> tasmota \<times> string option" where
  "t_publish env topic payload z =
     (case broker_Publish (te_publish env topic payload) (t_broker z) of
        Some e \<Rightarrow> (z, Some e)
      | None \<Rightarrow> (z\<lparr>t_sent := t_sent z @ [(topic, payload)]\<rparr>, None))"

section \<open>Messages\<close>

definition online_message :: "nat \<Rightarrow> discovery_config \<Rightarrow> string \<Rightarrow> tasmota plugin_step" where
  "online_message i d payload z =
     (let v = trim_space payload in (z, [HActive (t_dsuid z i) (v = fst (onlineStates d) \<and> v \<noteq> snd (onlineStates d))]))"

definition power_message :: "nat \<Rightarrow> discovery_config \<Rightarrow> string \<Rightarrow> tasmota plugin_step" where
  "power_message i d payload z =
     (z, [HChannel (t_dsuid z i) 0 (if equal_fold (trim_space payload) (snd (powerStates d)) then f64_hundred else f64_zero)])"

definition applyState_tasmota :: "nat \<Rightarrow> discovery_config \<Rightarrow> state_message \<Rightarrow> tasmota plugin_step" where
  "applyState_tasmota i d msg z =
     (let u = t_dsuid z i; relay = ts_relay (t_get z i); kind = kindFor d relay;
          on = map_option (\<lambda>p. equal_fold p (snd (powerStates d))) (powerForRelay msg relay);
          power = (case on of
                     None \<Rightarrow> []
                   | Some b \<Rightarrow>
                       if kind = ''light'' then [HChannel u 0 (if b then f64_hundred else f64_zero)]
                       else if \<not> b then [HChannel u 0 f64_zero]
                       else if sm_Dimmer msg = None then [HChannel u 0 f64_hundred] else []);
          dim = (case sm_Dimmer msg of
                   Some n \<Rightarrow> if kind \<noteq> ''light'' then [HChannel u 0 (briToVDC_tasmota n (on \<noteq> Some False))] else []
                 | None \<Rightarrow> [])
      in case (if kind = ''colorlight'' \<and> sm_HSBColor msg \<noteq> [] then parseHSB (sm_HSBColor msg) else None) of
           None \<Rightarrow> (z, power @ dim)
         | Some (h, s, v) \<Rightarrow>
             (t_upd i (\<lambda>x. x\<lparr>ts_hue := h, ts_sat := s\<rparr>) z, power @ dim @ [HChannel u 1 h, HChannel u 2 s]))"

section \<open>Activation and discovery\<close>

text \<open>The four topics of a mapping; those that could not be subscribed are left out.\<close>

definition activate_tasmota :: "tasmota_env \<Rightarrow> nat \<Rightarrow> discovery_config \<Rightarrow> tasmota plugin_step" where
  "activate_tasmota env i d z =
     (let u = t_dsuid z i; sub = t_get z i; lwt = teleTopic d ''LWT''
      in case t_listen env lwt (TOnline i d) z of (z, r1) \<Rightarrow>
         (case t_listen env (teleTopic d ''STATE'') (TState i d) z of (z, r2) \<Rightarrow>
         (case t_listen env (statTopic d ''RESULT'') (TState i d) z of (z, r3) \<Rightarrow>
         (case t_listen env (statTopic d (powerSuffix d (ts_relay sub))) (TPower i d) z of (z, r4) \<Rightarrow>
            (fst (t_publish env (cmndTopic d ''STATE'') []
               (t_upd i (\<lambda>s. s\<lparr>ts_subs := List.map_filter (\<lambda>x. case x of Inr n \<Rightarrow> Some n | Inl _ \<Rightarrow> None) [r1, r2, r3, r4]\<rparr>) z)),
             (case r1 of Inr _ \<Rightarrow> [] | Inl e \<Rightarrow>
                [HLog ''warn'' ''subscribe_failed'' ''failed to subscribe to Tasmota LWT topic''
                   [(''dsuid'', GStr u), (''topic'', GStr lwt), (''error'', GStr e)]]) @
             (if tc_Model d \<noteq> [] \<or> tc_SwVer d \<noteq> [] then [HMeta u ''Tasmota'' (tc_Model d) (tc_SwVer d)] else []) @
             [HLog ''info'' ''subscribe_ok'' ''device subscribed''
                [(''dsuid'', GStr u), (''mac'', GStr (ts_mac sub)), (''relay'', GInt (ts_relay sub))]])))))"

definition onDiscovery :: "tasmota_env \<Rightarrow> string \<Rightarrow> string \<Rightarrow> tasmota plugin_step" where
  "onDiscovery env topic payload z =
     (let mac = macFromDiscoveryTopic topic
      in if mac = [] then (z, [])
         else if payload = [] then
           (z\<lparr>t_devices := AList.delete mac (t_devices z)\<rparr>, if go_has (t_devices z) mac then [HDiscovery] else [])
         else case te_config env payload of
                Inl e \<Rightarrow> (z, [HLog ''warn'' ''entity_error'' ''failed to parse Tasmota discovery payload''
                               [(''topic'', GStr topic), (''error'', GStr e)]])
              | Inr c \<Rightarrow>
                  (let c = (if tc_MAC c = [] then c\<lparr>tc_MAC := mac\<rparr> else c); k = tc_MAC c;
                       calls = (if go_has (t_devices z) k then []
                                else [HLog ''info'' ''entity_added'' ''Tasmota device discovered''
                                        [(''mac'', GStr k), (''model'', GStr (tc_Model c)), (''topic'', GStr (tc_Topic c)),
                                         (''relays'', GInt (int (relayCount c)))], HDiscovery]);
                       pending = filter (\<lambda>i. ts_mac (t_get z i) = k \<and> ts_subs (t_get z i) = []) (map snd (t_subscribed z))
                   in then_step (\<lambda>z. (z\<lparr>t_devices := AList.update k c (t_devices z)\<rparr>, calls))
                        (each_step (\<lambda>i. activate_tasmota env i c) pending) z))"

section \<open>The plugin interface\<close>

definition parseConfig_tasmota :: "obj \<Rightarrow> string + tasmota_config" where
  "parseConfig_tasmota raw =
     (let broker = trim_space (cfg_str raw ''broker''); prefix = trim_space (cfg_str raw ''discoveryPrefix'')
      in if broker = [] then Inl ([CHR 0x27] @ ''broker'' @ [CHR 0x27] @ '' is required (id of the MQTT plugin instance)'')
         else Inr \<lparr>tf_broker = broker, tf_discoveryPrefix = (if prefix = [] then defaultDiscoveryPrefix else prefix)\<rparr>)"

definition t_Init :: "tasmota_env \<Rightarrow> (string \<Rightarrow> (string + t_handler mqtt_broker) option) \<Rightarrow> obj \<Rightarrow> tasmota \<Rightarrow> tasmota \<times> string option" where
  "t_Init env found raw z =
     (case parseConfig_tasmota raw of
        Inl e \<Rightarrow> (z, Some (''tasmota '' @ te_quote env (t_id z) @ '': '' @ e))
      | Inr c \<Rightarrow>
          (let z = z\<lparr>t_cfg := c\<rparr>
           in case found (tf_broker c) of
                None \<Rightarrow> (z, Some ''tasmota: MQTT manager is not available'')
              | Some (Inl e) \<Rightarrow> (z, Some (''tasmota: broker '' @ te_quote env (tf_broker c) @ '' not registered: '' @ e))
              | Some (Inr b) \<Rightarrow>
                  (case t_listen env (rev (dropWhile (\<lambda>c. c = CHR ''/'') (rev (tf_discoveryPrefix c))) @ ''/+/config'')
                          TDiscovery (z\<lparr>t_broker := b\<rparr>) of
                     (z, Inl e) \<Rightarrow> (z, Some (''tasmota: discovery subscribe: '' @ e))
                   | (z, Inr n) \<Rightarrow> (z\<lparr>t_discoverySub := Some n\<rparr>, None))))"

text \<open>An entity as the registry shows it: identifier, name, kind and attributes.\<close>

definition relay_entity :: "string \<Rightarrow> discovery_config \<Rightarrow> int \<Rightarrow> string \<times> string \<times> string \<times> obj" where
  "relay_entity mac d relay =
     (entityID_tasmota d relay, friendlyName d relay, kindFor d relay,
      [(''mac'', GStr mac), (''ip'', GStr (tc_IP d)), (''model'', GStr (tc_Model d)), (''sw'', GStr (tc_SwVer d)),
       (''topic'', GStr (tc_Topic d)), (''relay'', GInt relay)])"

definition t_Discover :: "tasmota \<Rightarrow> (string \<times> string \<times> string \<times> obj) list" where
  "t_Discover z = concat (map (\<lambda>(k, d). map (relay_entity (tc_MAC d) d) [1..int (relayCount d)]) (t_devices z))"

definition t_Stats :: "tasmota \<Rightarrow> nat \<times> nat" where
  "t_Stats z = (length (t_devices z), length (t_subscribed z))"

definition t_add :: "tasmota_sub \<Rightarrow> tasmota \<Rightarrow> tasmota" where
  "t_add d z = z\<lparr>t_subs := AList.update (t_nextSub z) d (t_subs z),
     t_subscribed := AList.update (m_DSUID (ts_mapping d)) (t_nextSub z) (t_subscribed z), t_nextSub := Suc (t_nextSub z)\<rparr>"

definition t_Subscribe :: "tasmota_env \<Rightarrow> mapping \<Rightarrow> tasmota plugin_step" where
  "t_Subscribe env m z =
     (case parseEntityID_tasmota (m_RemoteEntityID m) of (mac, relay) \<Rightarrow>
        let i = t_nextSub z;
            z = t_add \<lparr>ts_mapping = m, ts_mac = mac, ts_relay = relay, ts_subs = [], ts_hue = f64_zero, ts_sat = f64_zero\<rparr> z
        in case map_of (t_devices z) mac of None \<Rightarrow> (z, []) | Some d \<Rightarrow> activate_tasmota env i d z)"

definition t_close :: "nat list \<Rightarrow> tasmota \<Rightarrow> tasmota" where
  "t_close is z = z\<lparr>t_broker := fold mb_Close is (t_broker z)\<rparr>"

definition t_Unsubscribe :: "string \<Rightarrow> tasmota \<Rightarrow> tasmota" where
  "t_Unsubscribe dsuid z =
     (case map_of (t_subscribed z) dsuid of
        None \<Rightarrow> z
      | Some i \<Rightarrow> t_close (ts_subs (t_get z i)) (z\<lparr>t_subscribed := AList.delete dsuid (t_subscribed z)\<rparr>))"

definition t_command :: "tasmota_env \<Rightarrow> nat \<Rightarrow> discovery_config \<Rightarrow> command \<Rightarrow> tasmota \<Rightarrow> tasmota \<times> string option" where
  "t_command env i d cmd z =
     (let relay = ts_relay (t_get z i); power = cmndTopic d (powerSuffix d relay); x = c_Value cmd
      in if c_Type cmd \<noteq> ''setChannel'' then (z, None)
         else if c_Channel cmd = 0 then
           (if f64_le x f64_zero then t_publish env power (fst (powerStates d)) z
            else if kindFor d relay = ''light'' then t_publish env power (snd (powerStates d)) z
            else t_publish env (cmndTopic d ''Dimmer'') (itoa (vdcToDimmer x)) z)
         else if c_Channel cmd \<in> {1, 2} \<and> kindFor d relay = ''colorlight'' then
           (let z = t_upd i (\<lambda>s. if c_Channel cmd = 1 then s\<lparr>ts_hue := clampF_tasmota x f64_zero (f64_of_int 360)\<rparr>
                                 else s\<lparr>ts_sat := clampF_tasmota x f64_zero f64_hundred\<rparr>) z
            in t_publish env (cmndTopic d ''HsbColor'')
                 (itoa (f64_to_int (ts_hue (t_get z i))) @ '','' @ itoa (f64_to_int (ts_sat (t_get z i))) @ '',100'') z)
         else (z, None))"

definition t_Apply :: "tasmota_env \<Rightarrow> mapping \<Rightarrow> command \<Rightarrow> tasmota \<Rightarrow> tasmota \<times> string option" where
  "t_Apply env m cmd z =
     (case map_of (t_subscribed z) (m_DSUID m) of
        None \<Rightarrow> (z, Some (''tasmota: not subscribed: '' @ m_DSUID m))
      | Some i \<Rightarrow>
          (case map_of (t_devices z) (parseMAC (m_RemoteEntityID m)) of
             None \<Rightarrow> (z, Some (''tasmota: device '' @ te_quote env (ts_mac (t_get z i)) @ '' not yet discovered''))
           | Some d \<Rightarrow> t_command env i d cmd z))"

definition t_Close :: "tasmota \<Rightarrow> tasmota" where
  "t_Close z = t_close ((case t_discoverySub z of None \<Rightarrow> [] | Some n \<Rightarrow> [n]) @
     concat (map (\<lambda>(u, i). ts_subs (t_get z i)) (t_subscribed z))) (z\<lparr>t_subscribed := []\<rparr>)"

fun t_run :: "tasmota_env \<Rightarrow> t_handler \<Rightarrow> string \<Rightarrow> string \<Rightarrow> tasmota plugin_step" where
  "t_run env TDiscovery topic payload z = onDiscovery env topic payload z"
| "t_run env (TOnline i d) topic payload z = online_message i d payload z"
| "t_run env (TState i d) topic payload z =
     (case te_state env payload of None \<Rightarrow> (z, []) | Some msg \<Rightarrow> applyState_tasmota i d msg z)"
| "t_run env (TPower i d) topic payload z = power_message i d payload z"

definition t_message :: "tasmota_env \<Rightarrow> string \<Rightarrow> string \<Rightarrow> tasmota plugin_step" where
  "t_message env topic payload z = each_step (\<lambda>h. t_run env h topic payload) (dispatch_handlers (t_broker z) topic) z"

end
