(* ===== verification/Tasmota_Properties.thy ===== *)
theory Tasmota_Properties
  imports Tasmota_Plugin Float_Exact
begin

text \<open>
  What holds of the Tasmota plugin: identifiers that can be read back, whole levels that survive the
  way to the device and back, and a level that is forgotten.
\<close>

section \<open>Whole levels\<close>

lemma bit_length_mono: "0 < n \<Longrightarrow> n \<le> m \<Longrightarrow> bit_length n \<le> bit_length m"
  using bit_length_bounds [of m] bit_length_le [of n "nat (bit_length m)"] by simp

lemma mag_of_int_mono:
  assumes "0 < n" "n \<le> m" "m < 2 ^ 53"
  shows "f64_mag_of_ratio n 1 \<le> f64_mag_of_ratio m 1"
proof -
  note a = mag_of_int [of n] and b = mag_of_int [of m]
  have l: "bit_length n \<le> bit_length m" by (rule bit_length_mono [OF assms(1,2)])
  show ?thesis
  proof (cases "bit_length n = bit_length m")
    case True
    then show ?thesis using a b assms by simp
  next
    case False
    then have "bit_length n + 1 \<le> bit_length m" using l by simp
    then have "(bit_length n + 1 + 1021) * 2 ^ 52 \<le> (bit_length m + 1021) * 2 ^ 52" by (intro mult_right_mono) auto
    then show ?thesis using a b assms by (simp add: algebra_simps)
  qed
qed

lemma of_int_mag:
  assumes "0 < n" "n < 2 ^ 53"
  shows "f64_mag (f64_of_int n) = f64_mag_of_ratio n 1" "\<not> f64_neg (f64_of_int n)" "\<not> f64_is_nan (f64_of_int n)"
    "f64_mag (f64_of_int n) < f64_inf_mag"
proof -
  note m = mag_of_int [OF assms]
  have b: "0 < bit_length n" "bit_length n \<le> 53" using bit_length_bounds [OF assms(1)] bit_length_le [OF assms(1), of 53] assms(2) by simp_all
  then have "(bit_length n + 1021) * 2 ^ 52 \<le> (53 + 1021) * 2 ^ 52" by simp
  then have r: "0 \<le> f64_mag_of_ratio n 1" "f64_mag_of_ratio n 1 < 1080 * 2 ^ 52" using m b by simp_all
  then show mag: "f64_mag (f64_of_int n) = f64_mag_of_ratio n 1" and "\<not> f64_neg (f64_of_int n)"
    using assms(1) by (simp_all add: f64_of_int_def f64_make_fields)
  show "f64_mag (f64_of_int n) < f64_inf_mag" "\<not> f64_is_nan (f64_of_int n)"
    using r mag by (simp_all add: f64_inf_mag_def f64_is_nan_def)
qed

lemma clamp_whole:
  assumes "0 < n" "n \<le> 100"
  shows "clampF_tasmota (f64_of_int n) f64_zero f64_hundred = f64_of_int n"
proof -
  have h: "f64_hundred = f64_of_int 100" by code_simp
  have z: "f64_key f64_zero = 0" "\<not> f64_is_nan f64_zero" by code_simp+
  have n: "n < 2 ^ 53" "0 < (100::int)" "(100::int) < 2 ^ 53" using assms(2) by simp_all
  note a = of_int_mag [OF assms(1) n(1)] and b = of_int_mag [OF n(2,3)] and m = mag_of_int_mono [OF assms n(3)]
  have "0 \<le> f64_mag (f64_of_int n)" by (simp add: f64_mag_def)
  then show ?thesis using a b m z by (simp add: clampF_tasmota_def f64_less_def h f64_key_def)
qed

lemma round_whole:
  assumes "0 < n" "n < 2 ^ 53"
  shows "f64_round_int (f64_of_int n) = n"
proof -
  have b: "0 < bit_length n" "bit_length n \<le> 53" using bit_length_bounds [OF assms(1)] bit_length_le [OF assms(1), of 53] assms(2) by simp_all
  have f: "f64_expo (f64_of_int n) = bit_length n + 1022" "2 ^ 52 + f64_frac (f64_of_int n) = n * 2 ^ nat (53 - bit_length n)"
    using f64_of_int_fields [of n] assms by simp_all
  then have s: "f64_sig (f64_of_int n) = n * 2 ^ nat (53 - bit_length n)" "f64_pow (f64_of_int n) = bit_length n - 53"
    using b by (simp_all add: f64_sig_def f64_pow_def)
  have "2 * (n * 2 ^ nat (53 - bit_length n)) div 2 ^ nat (53 - bit_length n) = 2 * n" by (simp add: mult.assoc [symmetric])
  then have "(if 0 \<le> bit_length n - 53 then n * 2 ^ nat (53 - bit_length n) * 2 ^ nat (bit_length n - 53)
      else (2 * (n * 2 ^ nat (53 - bit_length n)) div 2 ^ nat (- (bit_length n - 53)) + 1) div 2) = n"
    using b by simp
  then have "f64_round_int (f64_of_int n) = (if in_int64 n then n else - (2 ^ 63))"
    using of_int_mag [OF assms] s by (simp only: f64_round_int_def Let_def not_le [symmetric] simp_thms if_False)
  then show ?thesis using assms by (simp add: in_int64_def)
qed

lemma whole_level:
  assumes "0 < n" "n \<le> 100"
  shows "vdcToDimmer (f64_of_int n) = n" "briToVDC_tasmota n True = f64_of_int n" "\<not> f64_le (f64_of_int n) f64_zero"
proof -
  have n: "n < 2 ^ 53" using assms(2) by simp
  show "vdcToDimmer (f64_of_int n) = n"
    using assms round_whole [OF assms(1) n] by (simp add: vdcToDimmer_def clamp_whole Let_def)
  show "briToVDC_tasmota n True = f64_of_int n" using assms by (simp add: briToVDC_tasmota_def clamp_whole)
  have z: "f64_key f64_zero = 0" by code_simp
  have b: "0 < bit_length n" using bit_length_bounds [OF assms(1)] by simp
  then have "0 < f64_mag (f64_of_int n)" using of_int_mag(1) [OF assms(1) n] mag_of_int [OF assms(1) n] by simp
  then show "\<not> f64_le (f64_of_int n) f64_zero" using of_int_mag(2) [OF assms(1) n] z by (simp add: f64_le_def f64_key_def)
qed

text \<open>
  C25: a whole level survives the way to a Tasmota dimmer and back: for every level from 1 to 100
  the command publishes just this number to the Dimmer topic, and the state message with which the
  device confirms it reports the level as it was sent.
\<close>

theorem tasmota_level_round_trip:
  assumes "map_of (t_subscribed z) (m_DSUID m) = Some i" "map_of (t_devices z) (parseMAC (m_RemoteEntityID m)) = Some d"
    and "kindFor d (ts_relay (t_get z i)) = ''dimmer''" "0 < n" "n \<le> 100"
    and "c_Type cmd = ''setChannel''" "c_Channel cmd = 0" "c_Value cmd = f64_of_int n"
    and "sm_Dimmer msg = Some n" "powerForRelay msg (ts_relay (t_get z i)) = Some (snd (powerStates d))"
  shows "t_Apply env m cmd z = t_publish env (cmndTopic d ''Dimmer'') (itoa n) z \<and>
    applyState_tasmota i d msg z = (z, [HChannel (t_dsuid z i) 0 (c_Value cmd)])"
proof -
  note w = whole_level [OF assms(4,5)]
  have "t_Apply env m cmd z = t_publish env (cmndTopic d ''Dimmer'') (itoa n) z"
    using assms(1-3,6-8) w by (simp add: t_Apply_def t_command_def Let_def)
  moreover have "applyState_tasmota i d msg z = (z, [HChannel (t_dsuid z i) 0 (f64_of_int n)])"
    using assms(3,9,10) w by (simp add: applyState_tasmota_def Let_def)
  ultimately show ?thesis using assms(8) by simp
qed

text \<open>
  The power message of a dimmer forgets its level: a device that is switched on or dimmed also
  publishes its power state on a topic of its own, and the handler of this topic reports 100 percent
  for every kind of relay, so the level that the state message before it reported is lost.
\<close>

theorem power_message_forgets_level:
  assumes "kindFor d (ts_relay (t_get z i)) = ''dimmer''" "0 < n" "n \<le> 100"
    and "te_state env result = Some msg" "sm_Dimmer msg = Some n"
    and "powerForRelay msg (ts_relay (t_get z i)) = Some (snd (powerStates d))" "trim_space msg' = snd (powerStates d)"
  shows "then_step (t_run env (TState i d) topic result) (t_run env (TPower i d) topic' msg') z =
    (z, [HChannel (t_dsuid z i) 0 (f64_of_int n), HChannel (t_dsuid z i) 0 f64_hundred])"
  using assms whole_level [OF assms(2,3)]
  by (simp add: then_step_def applyState_tasmota_def power_message_def Let_def)

section \<open>Identifiers\<close>

lemma digit_val_comma: "digit_val CHR '','' = None" "digit_val CHR ''-'' = None" "digit_val CHR ''+'' = None"
  by code_simp+

lemma nat_digits_all: "c \<in> set (nat_digits n) \<Longrightarrow> digit_val c \<noteq> None"
proof (induction n rule: nat_digits.induct)
  case (1 n)
  then show ?case by (cases "n < 10") (subst (asm) nat_digits.simps, auto)+
qed

lemma digit_not_space: "digit_val c \<noteq> None \<Longrightarrow> c \<notin> {CHR '' '', CHR 0x09, CHR 0x0B, CHR 0x0C, CHR 0x0D}"
  by (auto simp: digit_val_def Let_def)

lemma scan_digits:
  assumes "0 < n" "in_int64 n"
  shows "scan_int (itoa n) = Some (n, [])"
proof -
  let ?ds = "nat_digits (nat n)"
  have i: "itoa n = ?ds" using assms(1) by (simp add: itoa_def)
  obtain c cs where c: "?ds = c # cs" by (cases ?ds) simp_all
  have dc: "digit_val c \<noteq> None" using nat_digits_all [of c "nat n"] c by simp
  then have "c \<noteq> CHR ''-''" "c \<noteq> CHR ''+''" using digit_val_comma by auto
  moreover have "dropWhile (\<lambda>c. c \<in> {CHR '' '', CHR 0x09, CHR 0x0B, CHR 0x0C, CHR 0x0D}) ?ds = ?ds"
    unfolding c using digit_not_space [OF dc] by simp
  moreover have "takeWhile (\<lambda>c. digit_val c \<noteq> None) ?ds = ?ds" using nat_digits_all by (auto simp: takeWhile_eq_all_conv)
  moreover have "digits_val ?ds = Some (nat n)" by (simp add: digits_val_def digits_acc_nat_digits)
  ultimately show ?thesis using assms unfolding scan_int_def i by (simp add: Let_def c)
qed

lemma split_first_colon:
  "CHR '':'' \<notin> set a \<Longrightarrow> split_first '':R'' (a @ '':R'' @ b) = Some (a, b)"
  "CHR '':'' \<notin> set a \<Longrightarrow> split_first '':R'' a = None"
  by (induction a) auto

text \<open>
  The identifier of a relay leads back to it: for an address without a colon, parsing what was
  announced gives the address and the number of the relay.
\<close>

theorem relay_ids_lead_back:
  assumes "CHR '':'' \<notin> set (tc_MAC d)" "tc_MAC d \<noteq> []" "1 \<le> relay" "relay \<le> int (relayCount d)" "in_int64 relay"
  shows "parseEntityID_tasmota (fst (relay_entity mac d relay)) = (tc_MAC d, relay)"
proof (cases "relayCount d \<le> 1")
  case True
  then have "relay = 1" using assms(3,4) by simp
  then show ?thesis
    using True split_first_colon(2) [OF assms(1)]
    by (simp add: relay_entity_def entityID_tasmota_def parseEntityID_tasmota_def)
next
  case False
  have "0 < relay" using assms(3) by simp
  from scan_digits [OF this assms(5)] False split_first_colon(1) [OF assms(1), of "itoa relay"] assms(2,3)
  show ?thesis by (simp add: relay_entity_def entityID_tasmota_def parseEntityID_tasmota_def)
qed

section \<open>A dimmer to look at\<close>

definition ex_dimmer :: discovery_config where
  "ex_dimmer = \<lparr>tc_IP = [], tc_DevName = ''Desk'', tc_FNames = [GNil], tc_Host = [], tc_MAC = ''AB12'', tc_Model = ''M'', tc_OflnTxt = [],
     tc_OnlnTxt = [], tc_State = [''OFF'', ''ON''], tc_SwVer = [], tc_Topic = ''desk'', tc_FullTop = [], tc_Prefix = [''cmnd'', ''stat'', ''tele''],
     tc_RL = [2, 0], tc_LtSt = 1, tc_Ver = 1\<rparr>"

definition ex_dimmer_mapping :: mapping where
  "ex_dimmer_mapping = \<lparr>m_PluginID = ''t'', m_RemoteEntityID = ''AB12'', m_DSUID = ''u'', m_Kind = ''dimmer'', m_Name = ''Desk''\<rparr>"

definition ex_dimmer_state :: state_message where
  "ex_dimmer_state = \<lparr>sm_POWER = ''ON'', sm_Powers = [], sm_Dimmer = Some 40, sm_HSBColor = []\<rparr>"

definition ex_tasmota_env :: tasmota_env where
  "ex_tasmota_env = \<lparr>te_config = (\<lambda>s. Inr ex_dimmer), te_state = (\<lambda>s. Some ex_dimmer_state), te_subscribe = (\<lambda>t. None),
     te_publish = (\<lambda>t p. None), te_quote = id\<rparr>"

definition ex_tasmota :: tasmota where
  "ex_tasmota = fst (t_Subscribe ex_tasmota_env ex_dimmer_mapping
     (fst (onDiscovery ex_tasmota_env ''tasmota/discovery/AB12/config'' ''{}''
       (tasmota_new ''t'' (newBroker\<lparr>mb_client := True, mb_connected := True\<rparr>)))))"

definition ex_dimmer_level :: command where
  "ex_dimmer_level = \<lparr>c_Type = ''setChannel'', c_Channel = 0, c_Value = f64_of_int 40, c_Scene = 0, c_Active = False\<rparr>"

lemma ex_tasmota_fields:
  "map_of (t_subscribed ex_tasmota) (m_DSUID ex_dimmer_mapping) = Some 0"
  "map_of (t_devices ex_tasmota) (parseMAC (m_RemoteEntityID ex_dimmer_mapping)) = Some ex_dimmer"
  "kindFor ex_dimmer (ts_relay (t_get ex_tasmota 0)) = ''dimmer''" "t_dsuid ex_tasmota 0 = ''u''"
  "cmndTopic ex_dimmer ''Dimmer'' = ''cmnd/desk/Dimmer''" "itoa 40 = ''40''"
  "powerForRelay ex_dimmer_state (ts_relay (t_get ex_tasmota 0)) = Some (snd (powerStates ex_dimmer))"
  by code_simp+

theorem tasmota_level_round_trip_witness:
  "t_Apply ex_tasmota_env ex_dimmer_mapping ex_dimmer_level ex_tasmota =
     t_publish ex_tasmota_env ''cmnd/desk/Dimmer'' ''40'' ex_tasmota \<and>
   applyState_tasmota 0 ex_dimmer ex_dimmer_state ex_tasmota = (ex_tasmota, [HChannel ''u'' 0 (f64_of_int 40)])"
proof -
  have c: "c_Type ex_dimmer_level = ''setChannel''" "c_Channel ex_dimmer_level = 0" "c_Value ex_dimmer_level = f64_of_int 40"
    "sm_Dimmer ex_dimmer_state = Some 40" by (simp_all add: ex_dimmer_level_def ex_dimmer_state_def)
  note f = ex_tasmota_fields
  show ?thesis
    using tasmota_level_round_trip [OF f(1-3) _ _ c(1-4) f(7), of ex_tasmota_env] by (simp add: f(4-6) c(3))
qed

theorem power_message_forgets_level_witness:
  "snd (then_step (t_run ex_tasmota_env (TState 0 ex_dimmer) ''stat/desk/RESULT'' ''{}'')
     (t_run ex_tasmota_env (TPower 0 ex_dimmer) ''stat/desk/POWER'' ''ON'') ex_tasmota) =
   [HChannel ''u'' 0 (f64_of_int 40), HChannel ''u'' 0 f64_hundred]"
proof -
  have c: "te_state ex_tasmota_env ''{}'' = Some ex_dimmer_state" "sm_Dimmer ex_dimmer_state = Some 40"
    by (simp_all add: ex_tasmota_env_def ex_dimmer_state_def)
  have p: "trim_space ''ON'' = snd (powerStates ex_dimmer)" by code_simp
  note f = ex_tasmota_fields
  show ?thesis using power_message_forgets_level [OF f(3) _ _ c f(7) p] by (simp add: f(4))
qed

theorem relay_ids_lead_back_witness:
  "parseEntityID_tasmota (fst (relay_entity ''AB12'' (ex_dimmer\<lparr>tc_RL := [1, 1, 1]\<rparr>) 3)) = (''AB12'', 3)"
proof -
  have "CHR '':'' \<notin> set (tc_MAC ex_dimmer)" "tc_MAC ex_dimmer = ''AB12''" "relayCount (ex_dimmer\<lparr>tc_RL := [1, 1, 1]\<rparr>) = 3"
    "in_int64 3" by code_simp+
  then show ?thesis using relay_ids_lead_back [of "ex_dimmer\<lparr>tc_RL := [1, 1, 1]\<rparr>" 3 "''AB12''"] by simp
qed

end
