(* ===== verification/Wled_Device.thy ===== *)
theory Wled_Device
  imports Plugin_Steps Float_Math Control
begin

text \<open>
  WLED controllers: the conversions between WLED values and vDC channels
  (\<^verbatim>\<open>pkg/bridge/wled/mapper.go\<close>) and the scanner that finds the devices (\<^verbatim>\<open>scanner.go\<close>). An entry
  of the zeroconf library is a record of what the scanner reads of it, addresses as their texts.
\<close>

unbundle bit_operations_syntax

section \<open>States as WLED sends them\<close>

record wled_segment =
  wg_Col :: "int list list"
  wg_CCT :: int

record wled_state =
  wl_On :: bool
  wl_Bri :: int
  wl_Seg :: "wled_segment list"

record wled_info =
  wi_Name :: string
  wi_MAC :: string
  wi_Ver :: string
  wi_Count :: int
  wi_LC :: int

record wled_si =
  wx_State :: wled_state
  wx_Info :: wled_info

definition lcBitRGB :: int where "lcBitRGB = 1"
definition lcBitCCT :: int where "lcBitCCT = 4"

definition lc_has :: "int \<Rightarrow> int \<Rightarrow> bool" where
  "lc_has lc k \<longleftrightarrow> lc AND k \<noteq> 0"

section \<open>Conversions\<close>

definition clampF_wled :: "f64 \<Rightarrow> f64 \<Rightarrow> f64 \<Rightarrow> f64" where
  "clampF_wled v lo hi = (if f64_less v lo then lo else if f64_less hi v then hi else v)"

definition clampI :: "int \<Rightarrow> int \<Rightarrow> int \<Rightarrow> int" where
  "clampI v lo hi = (if v < lo then lo else if hi < v then hi else v)"

definition briToVDC_wled :: "int \<Rightarrow> bool \<Rightarrow> f64" where
  "briToVDC_wled bri on =
     (if \<not> on then f64_zero
      else clampF_wled (f64_mul (f64_div (f64_of_int bri) (f64_of_int 255)) f64_hundred) f64_zero f64_hundred)"

definition vdcToBri_wled :: "f64 \<Rightarrow> int" where
  "vdcToBri_wled pct =
     (let v = f64_round_int (f64_mul (f64_div pct f64_hundred) (f64_of_int 255)); v = (if v < 0 then 0 else v)
      in if 255 < v then 255 else v)"

definition rgbToHueSat :: "int \<Rightarrow> int \<Rightarrow> int \<Rightarrow> f64 \<times> f64" where
  "rgbToHueSat r g b =
     (let k = f64_of_int 255; rf = f64_div (f64_of_int r) k; gf = f64_div (f64_of_int g) k; bf = f64_div (f64_of_int b) k;
          mx = f64_max rf (f64_max gf bf); mn = f64_min rf (f64_min gf bf); delta = f64_sub mx mn
      in if f64_eq delta f64_zero then (f64_zero, f64_zero)
         else
           let sat = f64_mul (f64_div delta mx) f64_hundred; sixty = f64_of_int 60;
               hue = (if f64_eq mx rf then f64_mul sixty (f64_mod (f64_div (f64_sub gf bf) delta) (f64_of_int 6))
                      else if f64_eq mx gf then f64_mul sixty (f64_add (f64_div (f64_sub bf rf) delta) (f64_of_int 2))
                      else f64_mul sixty (f64_add (f64_div (f64_sub rf gf) delta) (f64_of_int 4)))
           in (if f64_less hue f64_zero then f64_add hue (f64_of_int 360) else hue, sat))"

definition hueSatToRGB :: "f64 \<Rightarrow> f64 \<Rightarrow> int \<times> int \<times> int" where
  "hueSatToRGB hue sat =
     (let c = f64_div sat f64_hundred;
          x = f64_mul c (f64_sub f64_one (f64_abs (f64_sub (f64_mod (f64_div hue (f64_of_int 60)) (f64_of_int 2)) f64_one)));
          m = f64_sub f64_one c; o' = f64_zero;
          (rf, gf, bf) =
            (if f64_less hue (f64_of_int 60) then (c, x, o')
             else if f64_less hue (f64_of_int 120) then (x, c, o')
             else if f64_less hue (f64_of_int 180) then (o', c, x)
             else if f64_less hue (f64_of_int 240) then (o', x, c)
             else if f64_less hue (f64_of_int 300) then (x, o', c)
             else (c, o', x));
          byte = (\<lambda>v. f64_round_int (f64_mul (f64_add v m) (f64_of_int 255)))
      in (byte rf, byte gf, byte bf))"

definition cctToMired :: "int \<Rightarrow> f64" where
  "cctToMired cct =
     (if 255 < cct then f64_div (f64_of_int 1000000) (f64_of_int cct)
      else f64_div (f64_of_int 1000000)
             (f64_add (f64_of_int 2700) (f64_mul (f64_div (f64_of_int cct) (f64_of_int 255)) (f64_of_int 3800))))"

definition miredToCCT :: "f64 \<Rightarrow> int" where
  "miredToCCT mired =
     (if f64_le mired f64_zero then 0
      else let kelvin = f64_div (f64_of_int 1000000) mired;
               v = f64_round_int (f64_mul (f64_div (f64_sub kelvin (f64_of_int 2700)) (f64_of_int 3800)) (f64_of_int 255));
               v = (if v < 0 then 0 else v)
           in if 255 < v then 255 else v)"

definition primaryRGB :: "wled_state \<Rightarrow> int \<times> int \<times> int" where
  "primaryRGB s =
     (case wl_Seg s of
        [] \<Rightarrow> (0, 0, 0)
      | g # _ \<Rightarrow> (case wg_Col g of (r # g' # b # _) # _ \<Rightarrow> (r, g', b) | _ \<Rightarrow> (0, 0, 0)))"

section \<open>The scanner\<close>

record service_entry =
  se_Instance :: string
  se_IPv4 :: "string list"
  se_Port :: int
  se_Text :: "string list"

record wled_device =
  wd_MAC :: string
  wd_Name :: string
  wd_Addr :: string
  wd_Ver :: string

definition normalisedMAC :: "string \<Rightarrow> string" where
  "normalisedMAC s = trim_space (replace_all ''-'' [] (replace_all '':'' [] (to_lower s)))"

text \<open>The records \<^verbatim>\<open>mac=\<close> and \<^verbatim>\<open>ver=\<close> of an entry; the last one of each counts.\<close>

definition txt_step :: "string \<Rightarrow> string \<times> string \<Rightarrow> string \<times> string" where
  "txt_step txt mv =
     (if take 4 (to_lower txt) = ''mac='' then (normalisedMAC (drop 4 txt), snd mv)
      else if take 4 (to_lower txt) = ''ver='' then (fst mv, drop 4 txt) else mv)"

definition entry_device :: "service_entry \<Rightarrow> string \<Rightarrow> wled_device" where
  "entry_device e ip =
     (let (mac, ver) = fold txt_step (se_Text e) ([], []);
          mac = (if mac = [] then replace_all ''.'' ''_'' ip else mac)
      in \<lparr>wd_MAC = mac, wd_Name = se_Instance e, wd_Addr = ip @ '':'' @ itoa (se_Port e), wd_Ver = ver\<rparr>)"

text \<open>The devices with the entry and the device to tell of: one that is new, moved or renamed.\<close>

definition handleEntry :: "service_entry \<Rightarrow> (string, wled_device) gomap \<Rightarrow> (string, wled_device) gomap \<times> wled_device option" where
  "handleEntry e ds =
     (case se_IPv4 e of
        [] \<Rightarrow> (ds, None)
      | ip # _ \<Rightarrow>
          let d = entry_device e ip
          in (AList.update (wd_MAC d) d ds,
              case map_of ds (wd_MAC d) of
                None \<Rightarrow> Some d
              | Some x \<Rightarrow> if wd_Addr x \<noteq> wd_Addr d \<or> wd_Name x \<noteq> wd_Name d then Some d else None))"

end
