(* ===== verification/Wled_Plugin.thy ===== *)
theory Wled_Plugin
  imports Wled_Device
begin

text \<open>
  The WLED plugin (\<^verbatim>\<open>pkg/bridge/wled/wled.go\<close>) and the client it runs for each device (\<^verbatim>\<open>client.go\<close>).
  Clients are objects that subscriptions refer to, and the closures over a mapping are the dSUID
  (\<open>wc_dsuid\<close>) that they report for. What the goroutine of a client does is one event at a time, in
  any order with the operations of the plugin. HTTP is what a request answers (\<open>we_post\<close>).
\<close>

section \<open>State\<close>

record wled_env =
  we_post :: "string \<Rightarrow> obj \<Rightarrow> string option"
  we_quote :: "string \<Rightarrow> string"

record wled_client =
  wc_addr :: string
  wc_mac :: string
  wc_dsuid :: string
  wc_running :: bool

record wled_sub =
  ws_mapping :: mapping
  ws_client :: "nat option"
  ws_hue :: f64
  ws_sat :: f64
  ws_hueSet :: bool
  ws_satSet :: bool

record wled =
  w_id :: string
  w_inited :: bool
  w_closed :: bool
  w_devices :: "(string, wled_device) gomap"
  w_subscribed :: "(string, wled_sub) gomap"
  w_byMAC :: "(string, string) gomap"
  w_clients :: "(nat, wled_client) gomap"
  w_nextClient :: nat
  w_posted :: "(string \<times> obj) list"

definition no_mapping :: mapping where
  "no_mapping = \<lparr>m_PluginID = [], m_RemoteEntityID = [], m_DSUID = [], m_Kind = [], m_Name = []\<rparr>"

definition zero_sub :: wled_sub where
  "zero_sub = \<lparr>ws_mapping = no_mapping, ws_client = None, ws_hue = f64_zero, ws_sat = f64_zero, ws_hueSet = False, ws_satSet = False\<rparr>"

definition wled_new :: "string \<Rightarrow> wled" where
  "wled_new i = \<lparr>w_id = i, w_inited = False, w_closed = False, w_devices = [], w_subscribed = [], w_byMAC = [], w_clients = [],
     w_nextClient = 0, w_posted = []\<rparr>"

definition w_sub :: "wled \<Rightarrow> string \<Rightarrow> wled_sub" where
  "w_sub w u = go_get zero_sub (w_subscribed w) u"

definition w_client :: "wled \<Rightarrow> nat \<Rightarrow> wled_client" where
  "w_client w i = go_get \<lparr>wc_addr = [], wc_mac = [], wc_dsuid = [], wc_running = False\<rparr> (w_clients w) i"

section \<open>Clients\<close>

definition stop_client :: "nat \<Rightarrow> wled \<Rightarrow> wled" where
  "stop_client i w = w\<lparr>w_clients := AList.update i ((w_client w i)\<lparr>wc_running := False\<rparr>) (w_clients w)\<rparr>"

definition stop_if :: "nat option \<Rightarrow> wled \<Rightarrow> wled" where
  "stop_if c w = (case c of None \<Rightarrow> w | Some i \<Rightarrow> stop_client i w)"

definition setStatus_wled :: "string \<Rightarrow> string \<Rightarrow> wled_client \<Rightarrow> host_call list" where
  "setStatus_wled s u c =
     HActive u (s = ''connected'') #
     (let fields = [(''dsuid'', GStr u), (''mac'', GStr (wc_mac c)), (''addr'', GStr (wc_addr c))]
      in if s = ''connected'' then [HLog ''info'' ''connect_ok'' ''WLED device connected'' fields]
         else if s = ''disconnected'' then [HLog ''warn'' ''connect_failed'' ''WLED device disconnected'' fields] else [])"

definition handleState :: "string \<Rightarrow> wled_si \<Rightarrow> host_call list" where
  "handleState u si =
     (let st = wx_State si; lc = wi_LC (wx_Info si); lc = (if lc = 0 then lcBitRGB else lc);
          (r, g, b) = primaryRGB st; (hue, sat) = rgbToHueSat r g b
      in HChannel u 0 (briToVDC_wled (wl_Bri st) (wl_On st)) #
         (if lc_has lc lcBitRGB then [HChannel u 1 hue, HChannel u 2 sat] else []) @
         (case wl_Seg st of
            g # _ \<Rightarrow> if lc_has lc lcBitCCT then [HChannel u 3 (cctToMired (wg_CCT g))] else []
          | [] \<Rightarrow> []) @
         [HActive u True])"

text \<open>A frame that is no JSON or holds neither a MAC nor a state, such as live pixel data, is dropped.\<close>

definition ws_frame :: "string \<Rightarrow> wled_si option \<Rightarrow> host_call list" where
  "ws_frame u frame =
     (case frame of
        None \<Rightarrow> []
      | Some si \<Rightarrow>
          if wi_MAC (wx_Info si) = [] \<and> \<not> wl_On (wx_State si) \<and> wl_Bri (wx_State si) = 0 then [] else handleState u si)"

definition pollOnce :: "string \<Rightarrow> wled_si option \<Rightarrow> host_call list" where
  "pollOnce u answer = (case answer of None \<Rightarrow> [] | Some si \<Rightarrow> handleState u si)"

text \<open>
  The life of one websocket: it cannot be opened, with one poll instead, or it is read until that fails.
  Each frame may follow a poll of the heartbeat, and so may the failure.
\<close>

type_synonym heartbeat = "wled_si option option"

definition heartbeat_calls :: "string \<Rightarrow> heartbeat \<Rightarrow> host_call list" where
  "heartbeat_calls u hb = (case hb of None \<Rightarrow> [] | Some answer \<Rightarrow> pollOnce u answer)"

datatype ws_life = DialFailed "wled_si option" | WsRead "(heartbeat \<times> wled_si option) list" heartbeat

definition runWS :: "wled_client \<Rightarrow> ws_life \<Rightarrow> host_call list" where
  "runWS c life =
     (case life of
        DialFailed a \<Rightarrow> pollOnce (wc_dsuid c) a
      | WsRead ts hb0 \<Rightarrow>
          setStatus_wled ''connected'' (wc_dsuid c) c @
          concat (map (\<lambda>(hb, f). heartbeat_calls (wc_dsuid c) hb @ ws_frame (wc_dsuid c) f) ts) @ heartbeat_calls (wc_dsuid c) hb0)"

text \<open>One turn of the connection loop that no stop interrupts, and the pause in seconds after it.\<close>

definition client_turn :: "nat \<Rightarrow> ws_life \<Rightarrow> wled plugin_step" where
  "client_turn i life w =
     (let c = w_client w i
      in (w, if \<not> wc_running c then []
             else setStatus_wled ''connecting'' (wc_dsuid c) c @ runWS c life @ setStatus_wled ''reconnecting'' (wc_dsuid c) c))"

definition next_backoff :: "nat \<Rightarrow> nat" where
  "next_backoff b = (if 60 < b * 2 then 60 else b * 2)"

definition postState :: "wled_env \<Rightarrow> string \<Rightarrow> obj \<Rightarrow> wled \<Rightarrow> wled \<times> string option" where
  "postState env addr payload w = (w\<lparr>w_posted := w_posted w @ [(addr, payload)]\<rparr>, we_post env addr payload)"

section \<open>The plugin\<close>

definition w_Status :: "wled \<Rightarrow> string" where
  "w_Status w = (if w_inited w then ''connected'' else ''not_initialized'')"

definition w_Stats :: "wled \<Rightarrow> nat \<times> nat" where
  "w_Stats w = (length (w_byMAC w), length (w_subscribed w))"

definition w_Init :: "wled \<Rightarrow> wled" where
  "w_Init w = w\<lparr>w_inited := True, w_closed := False, w_devices := []\<rparr>"

definition w_Discover :: "wled \<Rightarrow> (string \<times> string \<times> string \<times> obj) list" where
  "w_Discover w = map (\<lambda>(k, d). (wd_MAC d, wd_Name d, ''colorlight'',
     [(''mac'', GStr (wd_MAC d)), (''addr'', GStr (wd_Addr d)), (''ver'', GStr (wd_Ver d))])) (w_devices w)"

definition startDeviceClient :: "mapping \<Rightarrow> wled_device \<Rightarrow> wled plugin_step" where
  "startDeviceClient m d w =
     (let i = w_nextClient w; u = m_DSUID m
      in (w\<lparr>w_clients := AList.update i \<lparr>wc_addr = wd_Addr d, wc_mac = wd_MAC d, wc_dsuid = u, wc_running = \<not> w_closed w\<rparr> (w_clients w),
            w_nextClient := Suc i, w_subscribed := AList.update u ((w_sub w u)\<lparr>ws_client := Some i\<rparr>) (w_subscribed w),
            w_byMAC := AList.update (wd_MAC d) u (w_byMAC w)\<rparr>,
          [HLog ''info'' ''subscribe_ok'' ''device subscribed''
             [(''dsuid'', GStr u), (''mac'', GStr (wd_MAC d)), (''addr'', GStr (wd_Addr d))]]))"

definition w_Subscribe :: "mapping \<Rightarrow> wled plugin_step" where
  "w_Subscribe m w =
     (let mac = m_RemoteEntityID m
      in case map_of (w_devices w) mac of
           Some d \<Rightarrow> startDeviceClient m d w
         | None \<Rightarrow>
             (w\<lparr>w_subscribed := AList.update (m_DSUID m) (zero_sub\<lparr>ws_mapping := m\<rparr>) (w_subscribed w),
                w_byMAC := AList.update mac (m_DSUID m) (w_byMAC w)\<rparr>,
              [HLog ''info'' ''subscribe_ok'' ''subscription registered, waiting for device''
                 [(''dsuid'', GStr (m_DSUID m)), (''mac'', GStr mac)]]))"

definition w_Unsubscribe :: "string \<Rightarrow> wled \<Rightarrow> wled" where
  "w_Unsubscribe u w =
     (case map_of (w_subscribed w) u of
        None \<Rightarrow> w
      | Some s \<Rightarrow> stop_if (ws_client s) (w\<lparr>w_byMAC := AList.delete (m_RemoteEntityID (ws_mapping s)) (w_byMAC w),
                                            w_subscribed := AList.delete u (w_subscribed w)\<rparr>))"

definition rgb_payload :: "int \<times> int \<times> int \<Rightarrow> obj" where
  "rgb_payload c = (case c of (r, g, b) \<Rightarrow>
     [(''on'', GBool True), (''seg'', GArr [GObj [(''col'', GArr [GArr [GInt r, GInt g, GInt b]])]])])"

definition buildPayload :: "mapping \<Rightarrow> command \<Rightarrow> wled \<Rightarrow> wled \<times> obj option" where
  "buildPayload m cmd w =
     (let x = c_Value cmd; u = m_DSUID m
      in if c_Type cmd = ''setActive'' then (w, Some [(''on'', GBool (c_Active cmd))])
         else if c_Type cmd \<noteq> ''setChannel'' then (w, None)
         else if c_Channel cmd = 0 then
           (w, Some (if f64_le x f64_zero then [(''on'', GBool False)]
                     else [(''on'', GBool True), (''bri'', GInt (clampI (vdcToBri_wled x) 1 255))]))
         else if c_Channel cmd \<in> {1, 2} then
           (let s = (if c_Channel cmd = 1
                     then (w_sub w u)\<lparr>ws_hue := clampF_wled x f64_zero (f64_of_int 360), ws_hueSet := True\<rparr>
                     else (w_sub w u)\<lparr>ws_sat := clampF_wled x f64_zero f64_hundred, ws_satSet := True\<rparr>)
            in (w\<lparr>w_subscribed := AList.update u s (w_subscribed w)\<rparr>, Some (rgb_payload (hueSatToRGB (ws_hue s) (ws_sat s)))))
         else if c_Channel cmd = 3 then
           (w, Some [(''on'', GBool True), (''seg'', GArr [GObj [(''cct'', GInt (miredToCCT x))]])])
         else (w, None))"

definition not_connected :: "wled_env \<Rightarrow> mapping \<Rightarrow> string" where
  "not_connected env m = ''wled: device '' @ we_quote env (m_RemoteEntityID m) @ '' not connected''"

definition connected_client :: "wled \<Rightarrow> mapping \<Rightarrow> nat option" where
  "connected_client w m = (case map_of (w_subscribed w) (m_DSUID m) of None \<Rightarrow> None | Some s \<Rightarrow> ws_client s)"

definition w_Apply :: "wled_env \<Rightarrow> mapping \<Rightarrow> command \<Rightarrow> wled \<Rightarrow> wled \<times> string option" where
  "w_Apply env m cmd w =
     (case connected_client w m of
        None \<Rightarrow> (w, Some (not_connected env m))
      | Some i \<Rightarrow>
          (case buildPayload m cmd w of
             (w, None) \<Rightarrow> (w, None)
           | (w, Some p) \<Rightarrow> postState env (wc_addr (w_client w i)) p w))"

definition w_CallScene :: "wled_env \<Rightarrow> mapping \<Rightarrow> int \<Rightarrow> wled \<Rightarrow> wled \<times> string option" where
  "w_CallScene env m scene w =
     (case connected_client w m of
        None \<Rightarrow> (w, Some (not_connected env m))
      | Some i \<Rightarrow> postState env (wc_addr (w_client w i))
          (if scene = 0 then [(''on'', GBool False)] else [(''on'', GBool True), (''ps'', GInt scene)]) w)"

definition w_Close :: "wled \<Rightarrow> wled" where
  "w_Close w =
     (let w = w\<lparr>w_closed := w_inited w, w_clients := map (\<lambda>(i, c). (i, c\<lparr>wc_running := False\<rparr>)) (w_clients w)\<rparr>
      in fold (\<lambda>(u, s). stop_if (ws_client s)) (w_subscribed w) w)"

definition onDeviceFound :: "wled_device \<Rightarrow> wled plugin_step" where
  "onDeviceFound d w =
     (let calls = [HLog ''info'' ''entity_added'' ''WLED device found via mDNS''
                     [(''mac'', GStr (wd_MAC d)), (''name'', GStr (wd_Name d)), (''addr'', GStr (wd_Addr d)), (''ver'', GStr (wd_Ver d))],
                   HDiscovery]
      in case map_of (w_byMAC w) (wd_MAC d) of
           None \<Rightarrow> (w, calls)
         | Some u \<Rightarrow>
             let s = w_sub w u
             in if (case ws_client s of Some i \<Rightarrow> wc_addr (w_client w i) = wd_Addr d | None \<Rightarrow> False) then (w, calls)
                else then_step (\<lambda>w. (stop_if (ws_client s) w, calls)) (startDeviceClient (ws_mapping s) d) w)"

text \<open>An entry of the browser, and an error of it.\<close>

definition scanned :: "service_entry \<Rightarrow> wled plugin_step" where
  "scanned e w =
     (case handleEntry e (w_devices w) of
        (ds, found) \<Rightarrow>
          let w = w\<lparr>w_devices := ds\<rparr> in (case found of None \<Rightarrow> (w, []) | Some d \<Rightarrow> onDeviceFound d w))"

definition browse_error :: "string \<Rightarrow> wled plugin_step" where
  "browse_error e w = (w, [HLog ''warn'' ''entity_error'' ''WLED mDNS browse error'' [(''error'', GStr e)]])"

end
