(* ===== verification/Float_Value.thy ===== *)
theory Float_Value
  imports Complex_Main Float_Exact Float_Math
begin

text \<open>
  The real number a \<^verbatim>\<open>float64\<close> stands for and the error of its operations: each result differs from the
  exact one by at most its \<open>2 ^ (-53)\<close>-th part, or by \<open>2 ^ (-53)\<close> if it is small. With this the
  round trips of conversions are shown for all values without computing any of them.
\<close>

section \<open>Values\<close>

definition f64_fin :: "f64 \<Rightarrow> bool" where
  "f64_fin x \<longleftrightarrow> f64_mag x < f64_inf_mag"

definition f64_val :: "f64 \<Rightarrow> real" where
  "f64_val x = real_of_int (f64_scaled x) / 2 ^ 1074"

definition f64_signed :: "bool \<Rightarrow> real \<Rightarrow> real" where
  "f64_signed neg r = (if neg then - r else r)"

lemma fin_not_nan [simp]: "f64_fin x \<Longrightarrow> \<not> f64_is_nan x"
  by (simp add: f64_fin_def f64_is_nan_def)

lemma mag_bounds: "0 \<le> f64_mag x" "f64_mag x < 2 ^ 63"
  by (simp_all add: f64_mag_def)

lemma mag_split: "f64_mag x = f64_expo x * 2 ^ 52 + f64_frac x" "0 \<le> f64_expo x" "0 \<le> f64_frac x" "f64_frac x < 2 ^ 52"
  using mag_bounds [of x] by (simp_all add: f64_expo_def f64_frac_def pos_imp_zdiv_nonneg_iff)

text \<open>The value of a pattern that is put together from a shift and a rounded significand.\<close>

lemma scaled_make:
  assumes "0 \<le> s" "0 \<le> r" "r \<le> 2 ^ 53" "0 < s \<Longrightarrow> 2 ^ 52 \<le> r" "s * 2 ^ 52 + r < f64_inf_mag"
  shows "f64_scaled (f64_make neg (s * 2 ^ 52 + r)) = (if neg then - (r * 2 ^ nat s) else r * 2 ^ nat s)"
proof -
  let ?x = "f64_make neg (s * 2 ^ 52 + r)"
  have "0 \<le> s * 2 ^ 52 + r" "s * 2 ^ 52 + r < 2 ^ 63" using assms by (simp_all add: f64_inf_mag_def)
  note f = f64_make_fields [OF this, of neg]
  consider (low) "r < 2 ^ 52" | (mid) "2 ^ 52 \<le> r" "r < 2 ^ 53" | (top) "r = 2 ^ 53" using assms(3) by linarith
  then have "(if f64_expo ?x = 0 then f64_frac ?x else (2 ^ 52 + f64_frac ?x) * 2 ^ nat (f64_expo ?x - 1)) = r * 2 ^ nat s"
  proof cases
    case low
    then have s: "s = 0" using assms(1,4) by force
    show ?thesis unfolding f64_expo_def f64_frac_def f(1) using low assms(2) by (simp add: s)
  next
    case mid
    have e: "s * 2 ^ 52 + r = (s + 1) * 2 ^ 52 + (r - 2 ^ 52)" by (simp add: algebra_simps)
    have "0 \<le> r - 2 ^ 52" "r - 2 ^ 52 < 2 ^ 52" using mid by simp_all
    note d = split_52 [OF this, of "s + 1"]
    show ?thesis unfolding f64_expo_def f64_frac_def f(1) unfolding e d using assms(1) by simp
  next
    case top
    have e: "s * 2 ^ 52 + r = (s + 2) * 2 ^ 52 + 0" by (simp add: top algebra_simps)
    have d: "((s + 2) * 2 ^ 52 + 0) div 2 ^ 52 = s + 2" "((s + 2) * 2 ^ 52 + 0) mod 2 ^ 52 = 0"
      using split_52 [of 0 "s + 2"] by simp_all
    have n: "nat (s + 2 - 1) = Suc (nat s)" using assms(1) by simp
    show ?thesis unfolding f64_expo_def f64_frac_def f(1) unfolding e d n using assms(1) by (simp add: top)
  qed
  then show ?thesis by (simp only: f64_scaled_def Let_def f(2))
qed

lemma round_half_even_error: "0 < d \<Longrightarrow> 2 * \<bar>n - d * round_half_even n d\<bar> \<le> d"
proof -
  assume d: "0 < d"
  have n: "n = d * (n div d) + n mod d" "0 \<le> n mod d" "n mod d < d" using d by simp_all
  have "round_half_even n d = n div d \<and> 2 * (n mod d) \<le> d \<or> round_half_even n d = n div d + 1 \<and> d \<le> 2 * (n mod d)"
    by (auto simp: round_half_even_def Let_def)
  then consider "round_half_even n d = n div d" "2 * (n mod d) \<le> d" | "round_half_even n d = n div d + 1" "d \<le> 2 * (n mod d)"
    by blast
  then show ?thesis
  proof cases
    case 1
    have "n - d * (n div d) = n mod d" by (rule minus_mult_div_eq_mod)
    with n 1 show ?thesis by simp
  next
    case 2
    have "n - d * (n div d + 1) = n mod d - d" using minus_mult_div_eq_mod [of n d] by (simp only: distrib_left mult_1_right diff_diff_eq [symmetric])
    with n 2 show ?thesis by simp
  qed
qed

lemma round_half_even_between:
  assumes "0 < d" "d * a \<le> n" "n \<le> d * b"
  shows "a \<le> round_half_even n d" "round_half_even n d \<le> b"
proof -
  let ?r = "round_half_even n d"
  have e: "2 * \<bar>n - d * ?r\<bar> \<le> d" by (rule round_half_even_error [OF assms(1)])
  show "a \<le> ?r"
  proof (rule ccontr)
    assume "\<not> a \<le> ?r"
    then have "d * ?r \<le> d * (a - 1)" using assms(1) by simp
    then show False using e assms(1,2) by (simp add: algebra_simps abs_if split: if_splits)
  qed
  show "?r \<le> b"
  proof (rule ccontr)
    assume "\<not> ?r \<le> b"
    then have "d * (b + 1) \<le> d * ?r" using assms(1) by simp
    then show False using e assms(1,3) by (simp add: algebra_simps abs_if split: if_splits)
  qed
qed


section \<open>The error of a rounded ratio\<close>

lemma ratio_bounds:
  fixes n :: int
  assumes "0 < q" "0 \<le> n"
  defines "s \<equiv> max 0 (bit_length (n div q) - 53)"
  defines "r \<equiv> round_half_even n (q * 2 ^ nat s)"
  shows "0 \<le> r" "r \<le> 2 ^ 53" "0 < s \<Longrightarrow> 2 ^ 52 \<le> r" "0 < s \<Longrightarrow> q * 2 ^ nat s * 2 ^ 52 \<le> n"
    "2 * \<bar>n - q * 2 ^ nat s * r\<bar> \<le> q * 2 ^ nat s"
proof -
  let ?m = "n div q" and ?d = "q * 2 ^ nat s"
  have d: "0 < ?d" using assms(1) by simp
  have n: "q * ?m \<le> n" "n < q * (?m + 1)" using assms(1) by (simp_all add: distrib_left) (smt (verit) mult_div_mod_eq pos_mod_bound pos_mod_sign)+
  have "0 \<le> ?m" using assms by (simp add: pos_imp_zdiv_nonneg_iff)
  have up: "?m < 2 ^ nat s * 2 ^ 53"
  proof (cases "?m = 0")
    case False
    then have m: "0 < ?m" using \<open>0 \<le> ?m\<close> by simp
    note b = bit_length_bounds [OF m]
    have "nat (bit_length ?m) \<le> nat s + 53" unfolding s_def by simp
    then have "(2::int) ^ nat (bit_length ?m) \<le> 2 ^ (nat s + 53)" by (rule power_increasing) simp
    then show ?thesis using b by (simp add: power_add)
  qed simp
  have "n \<le> ?d * 2 ^ 53"
  proof -
    have "q * (?m + 1) \<le> q * (2 ^ nat s * 2 ^ 53)" using up assms(1) by (intro mult_left_mono) simp_all
    then show ?thesis using n by (simp add: mult.assoc)
  qed
  then show "r \<le> 2 ^ 53" "0 \<le> r" unfolding r_def
    using round_half_even_between [OF d, of 0 n "2 ^ 53"] assms(2) by simp_all
  show lo: "?d * 2 ^ 52 \<le> n" if "0 < s"
  proof -
    have m: "0 < ?m" using that bit_length_nonpos [of ?m] unfolding s_def by (cases "0 < ?m") simp_all
    note b = bit_length_bounds [OF m]
    have "nat (bit_length ?m - 1) = nat s + 52" using that unfolding s_def by simp
    then have "2 ^ nat s * 2 ^ 52 \<le> ?m" using b by (simp add: power_add)
    then have "q * (2 ^ nat s * 2 ^ 52) \<le> q * ?m" using assms(1) by (intro mult_left_mono) simp_all
    then show ?thesis using n by (simp add: mult.assoc)
  qed
  show "2 ^ 52 \<le> r" if "0 < s"
  proof -
    have "n \<le> ?d * n" using d assms(2) by (metis mult.commute mult_le_cancel_left1 not_less zero_less_imp_eq_int int_one_le_iff_zero_less)
    then show ?thesis unfolding r_def using round_half_even_between(1) [OF d lo [OF that]] by simp
  qed
  show "2 * \<bar>n - ?d * r\<bar> \<le> ?d" unfolding r_def by (rule round_half_even_error [OF d])
qed

lemma real_error:
  fixes n d r :: int
  assumes "0 < d" "2 * \<bar>n - d * r\<bar> \<le> d"
  shows "\<bar>real_of_int n / real_of_int d - real_of_int r\<bar> \<le> 1 / 2"
proof -
  have d: "0 < real_of_int d" using assms(1) by simp
  have "real_of_int (2 * \<bar>n - d * r\<bar>) \<le> real_of_int d" using assms(2) by (simp only: of_int_le_iff)
  then have a: "2 * \<bar>real_of_int n - real_of_int d * real_of_int r\<bar> \<le> real_of_int d" by simp
  have "real_of_int n / real_of_int d - real_of_int r = (real_of_int n - real_of_int d * real_of_int r) / real_of_int d"
    using d by (simp add: diff_divide_distrib)
  also have "\<bar>\<dots>\<bar> = \<bar>real_of_int n - real_of_int d * real_of_int r\<bar> / real_of_int d" by (rule abs_div_pos [OF d, symmetric])
  also have "\<dots> \<le> 1 / 2" using a d by (simp add: pos_divide_le_eq)
  finally show ?thesis .
qed

lemma rounded_ratio:
  fixes p q :: int and neg :: bool
  assumes q: "0 < q" and p: "0 \<le> p" and le: "real_of_int p / real_of_int q \<le> 2 ^ 1000"
  defines "x \<equiv> f64_make neg (f64_mag_of_ratio p q)"
  shows "f64_fin x" "f64_neg x = neg"
    "\<bar>f64_val x - f64_signed neg (real_of_int p / real_of_int q)\<bar> \<le> (real_of_int p / real_of_int q + 1) / 2 ^ 53"
proof -
  define n where "n = p * 2 ^ 1074"
  define s where "s = max 0 (bit_length (n div q) - 53)"
  define r where "r = round_half_even n (q * 2 ^ nat s)"
  have n: "0 \<le> n" unfolding n_def using p by simp
  note b = ratio_bounds [OF q n, folded s_def r_def]
  have s0: "0 \<le> s" unfolding s_def by simp
  have d: "0 < q * 2 ^ nat s" using q by simp
  have nq: "real_of_int n / real_of_int q = real_of_int p / real_of_int q * 2 ^ 1074" unfolding n_def by simp
  have sle: "s \<le> 2022"
  proof (rule ccontr)
    assume "\<not> s \<le> 2022"
    then have s: "0 < s" "2023 \<le> nat s" by simp_all
    have "real_of_int (q * 2 ^ nat s * 2 ^ 52) \<le> real_of_int n" using b(4) [OF s(1)] by (simp only: of_int_le_iff)
    then have "2 ^ nat s * 2 ^ 52 \<le> real_of_int n / real_of_int q" using q by (simp add: field_simps)
    also have "\<dots> \<le> 2 ^ 1000 * 2 ^ 1074" unfolding nq using le by (rule mult_right_mono) simp
    finally have "(2::real) ^ (nat s + 52) \<le> 2 ^ 2074" by (simp only: power_add [symmetric]) simp
    then have "nat s + 52 \<le> 2074" by (simp only: power_increasing_iff)
    then show False using s by simp
  qed
  have fin: "s * 2 ^ 52 + r < f64_inf_mag" using sle b(2) by (simp add: f64_inf_mag_def)
  have m: "f64_mag_of_ratio p q = s * 2 ^ 52 + r"
    unfolding f64_mag_of_ratio_def Let_def n_def [symmetric] s_def [symmetric] r_def [symmetric] using fin by simp
  have "0 \<le> s * 2 ^ 52 + r" "s * 2 ^ 52 + r < 2 ^ 63" using fin s0 b(1) by (simp_all add: f64_inf_mag_def)
  from f64_make_fields [OF this, of neg] fin show "f64_fin x" "f64_neg x = neg" by (simp_all add: f64_fin_def x_def m)
  have v: "f64_val x = f64_signed neg (real_of_int r * 2 ^ nat s / 2 ^ 1074)"
  proof -
    have "f64_scaled (f64_make neg (s * 2 ^ 52 + r)) = (if neg then - (r * 2 ^ nat s) else r * 2 ^ nat s)"
      using s0 b(1,2,3) fin by (rule scaled_make)
    then show ?thesis unfolding f64_val_def x_def m by (simp only: f64_signed_def) simp
  qed
  have e: "\<bar>real_of_int n / real_of_int (q * 2 ^ nat s) - real_of_int r\<bar> \<le> 1 / 2" by (rule real_error [OF d b(5)])
  have ne: "real_of_int n / real_of_int (q * 2 ^ nat s) = real_of_int p / real_of_int q * 2 ^ 1074 / 2 ^ nat s"
    unfolding nq [symmetric] by simp
  note e = e [unfolded ne]
  show "\<bar>f64_val x - f64_signed neg (real_of_int p / real_of_int q)\<bar> \<le> (real_of_int p / real_of_int q + 1) / 2 ^ 53"
  proof -
    define t where "t = real_of_int p / real_of_int q"
    have t: "0 \<le> t" unfolding t_def using p q by simp
    define u :: real where "u = 2 ^ nat s"
    have u: "0 < u" unfolding u_def by simp
    define w :: real where "w = 2 ^ 1074"
    have w: "2 ^ 53 \<le> w" "0 < w" unfolding w_def by simp_all
    have "\<bar>t * w / u - real_of_int r\<bar> * (u / w) \<le> 1 / 2 * (u / w)"
      using e u w unfolding t_def w_def [symmetric] u_def [symmetric] by (intro mult_right_mono) simp_all
    moreover have "\<bar>real_of_int r * u / w - t\<bar> = \<bar>t * w / u - real_of_int r\<bar> * (u / w)"
    proof -
      have "\<bar>t * w / u - real_of_int r\<bar> * (u / w) = \<bar>(t * w / u - real_of_int r) * (u / w)\<bar>" using u w by (simp add: abs_mult)
      also have "(t * w / u - real_of_int r) * (u / w) = t - real_of_int r * u / w" using u w by (simp add: field_simps)
      finally have c: "\<bar>t * w / u - real_of_int r\<bar> * (u / w) = \<bar>t - real_of_int r * u / w\<bar>" .
      show ?thesis unfolding c by (rule abs_minus_commute)
    qed
    moreover have "1 / 2 * (u / w) \<le> (t + 1) / 2 ^ 53"
    proof (cases "0 < s")
      case True
      have "real_of_int (q * 2 ^ nat s * 2 ^ 52) \<le> real_of_int n" using b(4) [OF True] by (simp only: of_int_le_iff)
      then have "u * 2 ^ 52 \<le> real_of_int n / real_of_int q" using q by (simp add: u_def field_simps)
      then have "u * 2 ^ 52 \<le> t * w" unfolding nq t_def [symmetric] w_def [symmetric] .
      then show ?thesis using w t by (simp add: field_simps)
    next
      case False
      then have "u = 1" unfolding u_def by simp
      moreover have "0 \<le> t * w" using w t by simp
      ultimately show ?thesis using w by (simp add: field_simps)
    qed
    ultimately have "\<bar>real_of_int r * u / w - t\<bar> \<le> (t + 1) / 2 ^ 53" by linarith
    then show ?thesis unfolding v t_def [symmetric] u_def [symmetric] w_def [symmetric]
      by (cases neg) (simp_all only: f64_signed_def if_True if_False minus_diff_minus abs_minus_cancel)
  qed
qed

section \<open>The operations\<close>

lemma val_signed: "f64_val x = f64_signed (f64_neg x) \<bar>f64_val x\<bar>"
  and abs_val: "\<bar>f64_val x\<bar> = real_of_int (f64_sig x) * 2 powi f64_pow x"
proof -
  define k where "k = nat (max (f64_expo x) 1 - 1)"
  have sc: "f64_scaled x = (if f64_neg x then - (f64_sig x * 2 ^ k) else f64_sig x * 2 ^ k)"
    using mag_split(2) [of x] by (auto simp: f64_scaled_def f64_sig_def k_def Let_def max_def)
  have sig: "0 \<le> f64_sig x" using mag_split [of x] by (simp add: f64_sig_def)
  have e: "f64_pow x = int k - 1074" using mag_split(2) [of x] by (auto simp: f64_pow_def k_def max_def)
  have p: "(2::real) powi f64_pow x = 2 ^ k / 2 ^ 1074" unfolding e by (subst power_int_diff) (simp_all only: power_int_of_nat power_int_numeral, simp)
  have v: "f64_val x = f64_signed (f64_neg x) (real_of_int (f64_sig x) * 2 powi f64_pow x)"
    unfolding f64_val_def sc p by (simp only: f64_signed_def) simp
  moreover have "0 \<le> real_of_int (f64_sig x) * 2 powi f64_pow x" using sig by simp
  ultimately show "\<bar>f64_val x\<bar> = real_of_int (f64_sig x) * 2 powi f64_pow x" by (simp add: f64_signed_def)
  with v show "f64_val x = f64_signed (f64_neg x) \<bar>f64_val x\<bar>" by simp
qed

lemma powi_split: "real_of_int (p * 2 ^ nat e) / real_of_int (q * 2 ^ nat (- e)) = real_of_int p / real_of_int q * 2 powi e"
  by (cases "0 \<le> e") (simp_all add: power_int_def inverse_eq_divide field_simps)

lemma rounded_mag_of:
  fixes p q e :: int and neg :: bool
  assumes "0 < q" "0 \<le> p" "real_of_int p / real_of_int q * 2 powi e \<le> 2 ^ 1000"
  defines "x \<equiv> f64_make neg (f64_mag_of p q e)" and "t \<equiv> real_of_int p / real_of_int q * 2 powi e"
  shows "f64_fin x" "f64_neg x = neg" "\<bar>f64_val x - f64_signed neg t\<bar> \<le> (t + 1) / 2 ^ 53"
proof -
  have "f64_mag_of_ratio 0 c = 0" if "0 < c" for c using that by (simp add: f64_mag_of_ratio_def Let_def round_half_even_def bit_length_nonpos f64_inf_mag_def)
  then have m: "f64_mag_of p q e = f64_mag_of_ratio (p * 2 ^ nat e) (q * 2 ^ nat (- e))" using assms(1) by (auto simp: f64_mag_of_def)
  have "0 < q * 2 ^ nat (- e)" "0 \<le> p * 2 ^ nat e" "real_of_int (p * 2 ^ nat e) / real_of_int (q * 2 ^ nat (- e)) \<le> 2 ^ 1000"
    unfolding powi_split using assms(1-3) by simp_all
  note r = rounded_ratio [OF this, of neg, folded m, unfolded powi_split]
  show "f64_fin x" "f64_neg x = neg" "\<bar>f64_val x - f64_signed neg t\<bar> \<le> (t + 1) / 2 ^ 53"
    unfolding x_def t_def by (rule r)+
qed

lemma val_mul:
  assumes "f64_fin a" "f64_fin b" "\<bar>f64_val a * f64_val b\<bar> \<le> 2 ^ 1000"
  shows "f64_fin (f64_mul a b)"
    and "\<bar>f64_val (f64_mul a b) - f64_val a * f64_val b\<bar> \<le> (\<bar>f64_val a * f64_val b\<bar> + 1) / 2 ^ 53"
proof -
  let ?t = "real_of_int (f64_sig a * f64_sig b) / real_of_int 1 * 2 powi (f64_pow a + f64_pow b)"
  have t: "\<bar>f64_val a * f64_val b\<bar> = ?t" by (simp add: abs_mult abs_val power_int_add)
  have n: "\<not> f64_is_nan a" "\<not> f64_is_nan b" "\<not> f64_is_inf a" "\<not> f64_is_inf b"
    using assms(1,2) by (simp_all add: f64_is_inf_def f64_fin_def f64_is_nan_def)
  have m: "f64_mul a b = f64_make (f64_neg a \<noteq> f64_neg b) (f64_mag_of (f64_sig a * f64_sig b) 1 (f64_pow a + f64_pow b))"
    using n by (simp add: f64_mul_def Let_def)
  have "0 \<le> f64_sig a * f64_sig b" using mag_split [of a] mag_split [of b] by (simp add: f64_sig_def)
  note r = rounded_mag_of [of 1 "f64_sig a * f64_sig b" "f64_pow a + f64_pow b" "f64_neg a \<noteq> f64_neg b", folded m t, OF _ this assms(3), simplified]
  have s: "f64_signed (f64_neg a \<noteq> f64_neg b) \<bar>f64_val a * f64_val b\<bar> = f64_val a * f64_val b"
    using val_signed [of a] val_signed [of b] by (auto simp: f64_signed_def abs_mult split: if_splits)
  show "f64_fin (f64_mul a b)" "\<bar>f64_val (f64_mul a b) - f64_val a * f64_val b\<bar> \<le> (\<bar>f64_val a * f64_val b\<bar> + 1) / 2 ^ 53"
    using r s by simp_all
qed

lemma val_div:
  assumes "f64_fin a" "f64_fin b" "f64_val b \<noteq> 0" "\<bar>f64_val a / f64_val b\<bar> \<le> 2 ^ 1000"
  shows "f64_fin (f64_div a b)"
    and "\<bar>f64_val (f64_div a b) - f64_val a / f64_val b\<bar> \<le> (\<bar>f64_val a / f64_val b\<bar> + 1) / 2 ^ 53"
proof -
  let ?t = "real_of_int (f64_sig a) / real_of_int (f64_sig b) * 2 powi (f64_pow a - f64_pow b)"
  have t: "\<bar>f64_val a / f64_val b\<bar> = ?t" by (simp add: abs_divide abs_val power_int_diff)
  have n: "\<not> f64_is_nan a" "\<not> f64_is_nan b" "\<not> f64_is_inf a" "\<not> f64_is_inf b"
    using assms(1,2) by (simp_all add: f64_is_inf_def f64_fin_def f64_is_nan_def)
  have p: "0 \<le> f64_sig a" "0 \<le> f64_sig b" using mag_split [of a] mag_split [of b] by (simp_all add: f64_sig_def)
  moreover have "f64_sig b \<noteq> 0" using assms(3) abs_val [of b] by auto
  ultimately have q: "0 < f64_sig b" by simp
  then have z: "f64_mag b \<noteq> 0" by (auto simp: f64_sig_def f64_expo_def f64_frac_def)
  have m: "f64_div a b = f64_make (f64_neg a \<noteq> f64_neg b) (f64_mag_of (f64_sig a) (f64_sig b) (f64_pow a - f64_pow b))"
    using n z by (simp add: f64_div_def Let_def)
  note r = rounded_mag_of [of "f64_sig b" "f64_sig a" "f64_pow a - f64_pow b" "f64_neg a \<noteq> f64_neg b", folded m t, OF q p(1) assms(4)]
  have s: "f64_signed (f64_neg a \<noteq> f64_neg b) \<bar>f64_val a / f64_val b\<bar> = f64_val a / f64_val b"
    using val_signed [of a] val_signed [of b] by (auto simp: f64_signed_def abs_divide split: if_splits)
  show "f64_fin (f64_div a b)" "\<bar>f64_val (f64_div a b) - f64_val a / f64_val b\<bar> \<le> (\<bar>f64_val a / f64_val b\<bar> + 1) / 2 ^ 53"
    using r s by simp_all
qed

lemma val_add:
  assumes "f64_fin a" "f64_fin b" "\<bar>f64_val a + f64_val b\<bar> \<le> 2 ^ 1000"
  shows "f64_fin (f64_add a b)"
    and "\<bar>f64_val (f64_add a b) - (f64_val a + f64_val b)\<bar> \<le> (\<bar>f64_val a + f64_val b\<bar> + 1) / 2 ^ 53"
proof -
  define t where "t = f64_scaled a + f64_scaled b"
  have v: "f64_val a + f64_val b = real_of_int t / 2 ^ 1074" by (simp add: f64_val_def t_def add_divide_distrib)
  have av: "\<bar>f64_val a + f64_val b\<bar> = real_of_int \<bar>t\<bar> / real_of_int (2 ^ 1074)" unfolding v by simp
  have n: "\<not> f64_is_nan a" "\<not> f64_is_nan b" "f64_mag a \<noteq> f64_inf_mag" "f64_mag b \<noteq> f64_inf_mag"
    using assms(1,2) by (simp_all add: f64_fin_def f64_is_nan_def)
  let ?neg = "t < 0 \<or> (t = 0 \<and> f64_neg a \<and> f64_neg b)"
  have m: "f64_add a b = f64_make ?neg (f64_mag_of_ratio \<bar>t\<bar> (2 ^ 1074))"
    unfolding f64_add_def using n by (simp only: Let_def t_def [symmetric] if_False simp_thms)
  have "0 < (2::int) ^ 1074" "0 \<le> \<bar>t\<bar>" by simp_all
  note r = rounded_ratio [OF this, of ?neg, folded m av, OF assms(3)]
  have "f64_signed ?neg \<bar>f64_val a + f64_val b\<bar> = f64_val a + f64_val b" unfolding v by (auto simp: f64_signed_def)
  with r show "f64_fin (f64_add a b)"
    "\<bar>f64_val (f64_add a b) - (f64_val a + f64_val b)\<bar> \<le> (\<bar>f64_val a + f64_val b\<bar> + 1) / 2 ^ 53" by simp_all
qed

lemma make_same: "f64_scaled (f64_make neg (f64_mag x)) = (if neg then - \<bar>f64_scaled x\<bar> else \<bar>f64_scaled x\<bar>)"
  "f64_mag (f64_make neg (f64_mag x)) = f64_mag x"
  using mag_split [of x] f64_make_fields [OF mag_bounds, of neg x]
  by (auto simp: f64_scaled_def Let_def f64_expo_def f64_frac_def abs_mult)

lemma scaled_sign: "f64_scaled x = (if f64_neg x then - \<bar>f64_scaled x\<bar> else \<bar>f64_scaled x\<bar>)"
  using mag_split [of x] by (simp add: f64_scaled_def Let_def)

lemma val_neg_of: "f64_fin x \<Longrightarrow> f64_fin (f64_neg_of x)" "f64_val (f64_neg_of x) = - f64_val x"
  using scaled_sign [of x] by (simp_all add: f64_neg_of_def f64_fin_def f64_val_def make_same split: if_splits)

lemma val_abs: "f64_fin x \<Longrightarrow> f64_fin (f64_abs x)" "f64_val (f64_abs x) = \<bar>f64_val x\<bar>"
  by (simp_all add: f64_abs_def f64_fin_def f64_val_def make_same)

lemma val_sub:
  assumes "f64_fin a" "f64_fin b" "\<bar>f64_val a - f64_val b\<bar> \<le> 2 ^ 1000"
  shows "f64_fin (f64_sub a b)"
    and "\<bar>f64_val (f64_sub a b) - (f64_val a - f64_val b)\<bar> \<le> (\<bar>f64_val a - f64_val b\<bar> + 1) / 2 ^ 53"
  using val_add [of a "f64_neg_of b"] val_neg_of [of b] assms by (simp_all add: f64_sub_def)

section \<open>Integers, comparison and rounding to an integer\<close>

lemma val_of_int [simp]: "\<bar>n\<bar> < 2 ^ 53 \<Longrightarrow> f64_val (f64_of_int n) = real_of_int n" "\<bar>n\<bar> < 2 ^ 53 \<Longrightarrow> f64_fin (f64_of_int n)"
proof -
  assume n: "\<bar>n\<bar> < 2 ^ 53"
  show "f64_val (f64_of_int n) = real_of_int n" unfolding f64_val_def f64_scaled_of_int [OF n] by simp
  show "f64_fin (f64_of_int n)"
  proof (cases "n = 0")
    case True
    then show ?thesis by (simp only: f64_of_int_0) code_simp
  next
    case False
    then show ?thesis using f64_of_int_fields(4) [OF _ n] by (simp add: f64_fin_def)
  qed
qed

lemma val_consts [simp]: "f64_val f64_zero = 0" "f64_val f64_one = 1" "f64_val f64_hundred = 100"
  "f64_fin f64_zero" "f64_fin f64_one" "f64_fin f64_hundred"
proof -
  have c: "f64_zero = f64_of_int 0" "f64_one = f64_of_int 1" "f64_hundred = f64_of_int 100" by code_simp+
  show "f64_val f64_zero = 0" "f64_val f64_one = 1" "f64_val f64_hundred = 100" "f64_fin f64_zero" "f64_fin f64_one" "f64_fin f64_hundred"
    unfolding c by simp_all
qed

definition mag_scaled :: "int \<Rightarrow> int" where
  "mag_scaled m = (if m div 2 ^ 52 = 0 then m mod 2 ^ 52 else (2 ^ 52 + m mod 2 ^ 52) * 2 ^ nat (m div 2 ^ 52 - 1))"

lemma mag_scaled_mono: "0 \<le> m \<Longrightarrow> m < m' \<Longrightarrow> mag_scaled m < mag_scaled m'"
proof -
  assume m: "0 \<le> m" "m < m'"
  define e f where "e = m div 2 ^ 52" and "f = m mod 2 ^ 52"
  define e' f' where "e' = m' div 2 ^ 52" and "f' = m' mod 2 ^ 52"
  have b: "0 \<le> f" "f < 2 ^ 52" "0 \<le> f'" "f' < 2 ^ 52" "0 \<le> e" unfolding f_def f'_def e_def using m by (simp_all add: pos_imp_zdiv_nonneg_iff)
  have s: "m = 2 ^ 52 * e + f" "m' = 2 ^ 52 * e' + f'" unfolding e_def f_def e'_def f'_def by simp_all
  have "e \<le> e'" unfolding e_def e'_def using m by (intro zdiv_mono1) simp_all
  then consider (same) "e' = e" "f < f'" | (less) "e < e'" using s m by (cases "e = e'") auto
  then show ?thesis unfolding mag_scaled_def e_def [symmetric] f_def [symmetric] e'_def [symmetric] f'_def [symmetric]
  proof cases
    case same
    then show "(if e = 0 then f else (2 ^ 52 + f) * 2 ^ nat (e - 1)) < (if e' = 0 then f' else (2 ^ 52 + f') * 2 ^ nat (e' - 1))" by simp
  next
    case less
    have p: "(2::int) ^ nat e \<le> 2 ^ nat (e' - 1)" using less by (intro power_increasing) simp_all
    have "(if e = 0 then f else (2 ^ 52 + f) * 2 ^ nat (e - 1)) < 2 ^ 52 * 2 ^ nat e"
    proof (cases "e = 0")
      case False
      then have "nat e = Suc (nat (e - 1))" using b by simp
      then have "(2::int) ^ nat e = 2 * 2 ^ nat (e - 1)" by simp
      moreover have "(2 ^ 52 + f) * 2 ^ nat (e - 1) < 2 ^ 53 * 2 ^ nat (e - 1)" using b by (intro mult_strict_right_mono) simp_all
      ultimately show ?thesis using False by simp
    qed (use b in simp)
    also have "\<dots> \<le> 2 ^ 52 * 2 ^ nat (e' - 1)" using p by simp
    also have "\<dots> \<le> (2 ^ 52 + f') * 2 ^ nat (e' - 1)" using b by (intro mult_right_mono) simp_all
    finally show "(if e = 0 then f else (2 ^ 52 + f) * 2 ^ nat (e - 1)) < (if e' = 0 then f' else (2 ^ 52 + f') * 2 ^ nat (e' - 1))"
      using less b by simp
  qed
qed

lemma key_less_iff: "f64_key a < f64_key b \<longleftrightarrow> f64_val a < f64_val b"
proof -
  have z: "mag_scaled 0 = 0" by (simp add: mag_scaled_def)
  have s: "f64_scaled x = (if f64_neg x then - mag_scaled (f64_mag x) else mag_scaled (f64_mag x))" for x
    by (simp add: f64_scaled_def mag_scaled_def f64_expo_def f64_frac_def Let_def)
  have pos: "0 \<le> mag_scaled (f64_mag x)" "mag_scaled (f64_mag x) = 0 \<longleftrightarrow> f64_mag x = 0" for x
    using mag_scaled_mono [of 0 "f64_mag x"] mag_bounds [of x] z by (cases "f64_mag x = 0"; force)+
  have lt: "mag_scaled (f64_mag x) < mag_scaled (f64_mag y) \<longleftrightarrow> f64_mag x < f64_mag y" for x y
    using mag_scaled_mono [of "f64_mag x" "f64_mag y"] mag_scaled_mono [of "f64_mag y" "f64_mag x"] mag_bounds [of x] mag_bounds [of y]
    by (cases "f64_mag x" "f64_mag y" rule: linorder_cases) auto
  have "f64_scaled a < f64_scaled b \<longleftrightarrow> f64_key a < f64_key b"
    using pos [of a] pos [of b] lt [of a b] lt [of b a] mag_bounds [of a] mag_bounds [of b]
    unfolding s f64_key_def by (smt (verit))
  then show ?thesis by (simp add: f64_val_def divide_less_cancel)
qed

lemma val_less: "f64_fin a \<Longrightarrow> f64_fin b \<Longrightarrow> f64_less a b \<longleftrightarrow> f64_val a < f64_val b"
  and val_le: "f64_fin a \<Longrightarrow> f64_fin b \<Longrightarrow> f64_le a b \<longleftrightarrow> f64_val a \<le> f64_val b"
  and val_eq: "f64_fin a \<Longrightarrow> f64_fin b \<Longrightarrow> f64_eq a b \<longleftrightarrow> f64_val a = f64_val b"
  using key_less_iff [of a b] key_less_iff [of b a] by (auto simp: f64_less_def f64_le_def f64_eq_def)

lemma round_abs:
  assumes "f64_fin x" "\<bar>f64_val x\<bar> < 2 ^ 62"
  shows "f64_round_int x = (if f64_neg x then - \<lfloor>\<bar>f64_val x\<bar> + 1 / 2\<rfloor> else \<lfloor>\<bar>f64_val x\<bar> + 1 / 2\<rfloor>)"
proof -
  define e where "e = f64_pow x"
  define m where "m = (if 0 \<le> e then f64_sig x * 2 ^ nat e else (2 * f64_sig x div 2 ^ nat (- e) + 1) div 2)"
  have m: "m = \<lfloor>\<bar>f64_val x\<bar> + 1 / 2\<rfloor>"
  proof (cases "0 \<le> e")
    case True
    then have "\<bar>f64_val x\<bar> = real_of_int m" by (simp add: abs_val m_def e_def power_int_def)
    then show ?thesis by simp
  next
    case False
    define d :: int where "d = 2 ^ nat (- e)"
    have d: "0 < d" unfolding d_def by simp
    have "m = (2 * f64_sig x + 1 * d) div d div 2" using False d by (simp add: m_def d_def [symmetric])
    also have "\<dots> = (2 * f64_sig x + d) div (d * 2)" by (simp add: zdiv_zmult2_eq)
    also have "\<dots> = \<lfloor>real_of_int (2 * f64_sig x + d) / real_of_int (d * 2)\<rfloor>" by (simp only: floor_divide_of_int_eq)
    also have "real_of_int (2 * f64_sig x + d) / real_of_int (d * 2) = real_of_int (f64_sig x) / real_of_int d + 1 / 2"
      using d by (simp add: field_simps)
    also have "real_of_int (f64_sig x) / real_of_int d = \<bar>f64_val x\<bar>"
      using False by (simp add: abs_val e_def [symmetric] d_def power_int_def inverse_eq_divide power_one_over)
    finally show ?thesis .
  qed
  have "0 \<le> m" "m \<le> 2 ^ 62" unfolding m using assms(2) by (simp_all add: floor_le_iff)
  then have "in_int64 m" "in_int64 (- m)" by (auto simp: in_int64_def)
  then show ?thesis using assms(1) unfolding m [symmetric]
    by (simp add: f64_round_int_def f64_fin_def e_def [symmetric] m_def [symmetric] Let_def)
qed

lemma round_near:
  assumes "f64_fin x" "\<bar>f64_val x - real_of_int n\<bar> < 1 / 2" "\<bar>n\<bar> < 2 ^ 61"
  shows "f64_round_int x = n"
proof -
  have "n < 2 ^ 61" "- n < 2 ^ 61" using assms(3) by simp_all
  then have "real_of_int n < 2 ^ 61" "real_of_int (- n) < 2 ^ 61" by (simp_all only: of_int_less_numeral_power_cancel_iff)
  then have l: "\<bar>f64_val x\<bar> < 2 ^ 62" using assms(2) unfolding abs_diff_less_iff abs_less_iff by simp
  have s: "f64_neg x \<longrightarrow> f64_val x \<le> 0" "\<not> f64_neg x \<longrightarrow> 0 \<le> f64_val x" using val_signed [of x] by (auto simp: f64_signed_def)
  have d: "real_of_int n - 1 / 2 < f64_val x" "f64_val x < real_of_int n + 1 / 2" using assms(2) unfolding abs_diff_less_iff by simp_all
  have "\<lfloor>f64_val x + 1 / 2\<rfloor> = n" "\<lfloor>- f64_val x + 1 / 2\<rfloor> = - n" using d by (auto intro!: floor_unique)
  then show ?thesis unfolding round_abs [OF assms(1) l] using s by (cases "f64_neg x") simp_all
qed

lemma round_between:
  assumes "f64_fin x" "- (1 / 2) < f64_val x" "f64_val x < real_of_int b + 1 / 2" "0 \<le> b" "b < 2 ^ 61"
  shows "0 \<le> f64_round_int x" "f64_round_int x \<le> b"
proof -
  have "real_of_int b < 2 ^ 61" using assms(5) by (simp only: of_int_less_numeral_power_cancel_iff)
  then have l: "\<bar>f64_val x\<bar> < 2 ^ 62" using assms(2,3) by (simp add: abs_less_iff) 
  have s: "f64_neg x \<longrightarrow> f64_val x \<le> 0" "\<not> f64_neg x \<longrightarrow> 0 \<le> f64_val x" using val_signed [of x] by (auto simp: f64_signed_def)
  show "0 \<le> f64_round_int x" "f64_round_int x \<le> b"
    unfolding round_abs [OF assms(1) l] using s assms(2,3) assms(4) by (cases "f64_neg x"; simp; linarith)+
qed

lemma val_mod:
  assumes "f64_fin x" "f64_fin y" "f64_val y \<noteq> 0" "\<bar>f64_val y\<bar> \<le> 2 ^ 1000"
  shows "f64_fin (f64_mod x y) \<and> (\<exists>t. 0 \<le> t \<and> t < \<bar>f64_val y\<bar> \<and> t \<le> \<bar>f64_val x\<bar> \<and>
    \<bar>f64_val (f64_mod x y) - f64_signed (f64_neg x) t\<bar> \<le> (t + 1) / 2 ^ 53)"
proof -
  define e where "e = min (f64_pow x) (f64_pow y)"
  define b where "b = f64_sig y * 2 ^ nat (f64_pow y - e)"
  define r where "r = (f64_sig x * 2 ^ nat (f64_pow x - e)) mod b"
  have n: "\<not> f64_is_nan x" "\<not> f64_is_nan y" "\<not> f64_is_inf x" "\<not> f64_is_inf y"
    using assms(1,2) by (simp_all add: f64_is_inf_def f64_fin_def f64_is_nan_def)
  have q: "0 < f64_sig y" using mag_split [of y] assms(3) abs_val [of y] by (auto simp: f64_sig_def less_le)
  then have z: "f64_mag y \<noteq> 0" by (auto simp: f64_sig_def f64_expo_def f64_frac_def)
  have m: "f64_mod x y = f64_make (f64_neg x) (f64_mag_of r 1 e)"
    using n z by (simp add: f64_mod_def Let_def e_def r_def b_def)
  have b: "0 < b" unfolding b_def using q by simp
  have r: "0 \<le> r" "r < b" unfolding r_def using b by simp_all
  have "f64_pow y = int (nat (f64_pow y - e)) + e" unfolding e_def by simp
  then have yv: "\<bar>f64_val y\<bar> = real_of_int b * 2 powi e"
    unfolding abs_val b_def by (metis (no_types, opaque_lifting) of_int_mult of_int_numeral of_int_power mult.assoc power_int_add power_int_of_nat zero_neq_numeral)
  define a where "a = f64_sig x * 2 ^ nat (f64_pow x - e)"
  have "f64_pow x = int (nat (f64_pow x - e)) + e" unfolding e_def by simp
  then have xv: "\<bar>f64_val x\<bar> = real_of_int a * 2 powi e"
    unfolding abs_val a_def by (metis (no_types, opaque_lifting) of_int_mult of_int_numeral of_int_power mult.assoc power_int_add power_int_of_nat zero_neq_numeral)
  have "0 \<le> a" unfolding a_def using mag_split [of x] by (simp add: f64_sig_def)
  then have ra: "r \<le> a" unfolding r_def a_def [symmetric] by (rule zmod_le_nonneg_dividend)
  let ?t = "real_of_int r / real_of_int 1 * 2 powi e"
  have t: "0 \<le> ?t" "?t < \<bar>f64_val y\<bar>" "?t \<le> \<bar>f64_val x\<bar>" unfolding yv xv using r ra by simp_all
  from rounded_mag_of [of 1 r e "f64_neg x", OF _ r(1)] t(2,3) assms(4) m t(1) show ?thesis by auto
qed

section \<open>Values of everyday size\<close>

text \<open>Up to a million the error of an operation is below \<open>10 ^ (-9)\<close>, which suffices for the conversions.\<close>

definition f64_near :: "f64 \<Rightarrow> real \<Rightarrow> bool" where
  "f64_near x r \<longleftrightarrow> f64_fin x \<and> \<bar>f64_val x - r\<bar> \<le> 1 / 10 ^ 9"

lemma small_error: "\<bar>t\<bar> \<le> 10 ^ 6 \<Longrightarrow> \<bar>v - t\<bar> \<le> (\<bar>t\<bar> + 1) / 2 ^ 53 \<Longrightarrow> \<bar>v - t\<bar> \<le> 1 / 10 ^ 9" for t v :: real
  by (erule order_trans) simp

lemma near_ops:
  assumes "f64_fin a" "f64_fin b"
  shows "\<bar>f64_val a * f64_val b\<bar> \<le> 10 ^ 6 \<Longrightarrow> f64_near (f64_mul a b) (f64_val a * f64_val b)"
    "f64_val b \<noteq> 0 \<Longrightarrow> \<bar>f64_val a / f64_val b\<bar> \<le> 10 ^ 6 \<Longrightarrow> f64_near (f64_div a b) (f64_val a / f64_val b)"
    "\<bar>f64_val a + f64_val b\<bar> \<le> 10 ^ 6 \<Longrightarrow> f64_near (f64_add a b) (f64_val a + f64_val b)"
    "\<bar>f64_val a - f64_val b\<bar> \<le> 10 ^ 6 \<Longrightarrow> f64_near (f64_sub a b) (f64_val a - f64_val b)"
proof -
  have l: "t \<le> 2 ^ 1000" if "t \<le> 10 ^ 6" for t :: real using that by (rule order_trans) simp
  show "\<bar>f64_val a * f64_val b\<bar> \<le> 10 ^ 6 \<Longrightarrow> f64_near (f64_mul a b) (f64_val a * f64_val b)"
    using val_mul [OF assms l] small_error unfolding f64_near_def by blast
  show "f64_val b \<noteq> 0 \<Longrightarrow> \<bar>f64_val a / f64_val b\<bar> \<le> 10 ^ 6 \<Longrightarrow> f64_near (f64_div a b) (f64_val a / f64_val b)"
    using val_div [OF assms _ l] small_error unfolding f64_near_def by blast
  show "\<bar>f64_val a + f64_val b\<bar> \<le> 10 ^ 6 \<Longrightarrow> f64_near (f64_add a b) (f64_val a + f64_val b)"
    using val_add [OF assms l] small_error unfolding f64_near_def by blast
  show "\<bar>f64_val a - f64_val b\<bar> \<le> 10 ^ 6 \<Longrightarrow> f64_near (f64_sub a b) (f64_val a - f64_val b)"
    using val_sub [OF assms l] small_error unfolding f64_near_def by blast
qed

lemma nearD: "f64_near x r \<Longrightarrow> f64_fin x" "f64_near x r \<Longrightarrow> r - 1 / 10 ^ 9 \<le> f64_val x" "f64_near x r \<Longrightarrow> f64_val x \<le> r + 1 / 10 ^ 9"
  unfolding f64_near_def abs_diff_le_iff by simp_all

text \<open>A value between two finite bounds, the way every plugin clamps it.\<close>

lemma clamped:
  assumes "\<not> f64_is_nan v" "f64_fin lo" "f64_fin hi" "0 \<le> f64_val lo" "f64_val lo \<le> f64_val hi"
  defines "c \<equiv> if f64_less v lo then lo else if f64_less hi v then hi else v"
  shows "f64_fin c" "f64_val lo \<le> f64_val c" "f64_val c \<le> f64_val hi"
proof -
  consider "c = lo" | "c = hi" | "c = v" "f64_key lo \<le> f64_key v" "f64_key v \<le> f64_key hi"
  proof (cases "f64_less v lo \<or> f64_less hi v")
    case True
    then show ?thesis using that(1,2) by (cases "f64_less v lo") (simp_all add: c_def)
  next
    case False
    then show ?thesis using assms(1-3) that(3) by (simp add: c_def f64_less_def)
  qed
  then have "f64_fin c \<and> f64_val lo \<le> f64_val c \<and> f64_val c \<le> f64_val hi"
  proof cases
    case 3
    have "0 \<le> f64_key lo" using key_less_iff [of lo f64_zero] assms(4) by simp
    then have p: "0 \<le> f64_key v" "0 \<le> f64_key hi" using 3 by simp_all
    then have "f64_mag v \<le> f64_mag hi" using 3 mag_bounds [of v] mag_bounds [of hi] by (simp add: f64_key_def split: if_splits)
    then have "f64_fin v" using assms(3) by (simp add: f64_fin_def)
    then show ?thesis using 3 key_less_iff [of v lo] key_less_iff [of hi v] by simp
  qed (use assms in simp_all)
  then show "f64_fin c" "f64_val lo \<le> f64_val c" "f64_val c \<le> f64_val hi" by simp_all
qed

lemma clamped_same:
  assumes "f64_fin v" "f64_fin lo" "f64_fin hi" "f64_val lo \<le> f64_val v" "f64_val v \<le> f64_val hi"
  shows "(if f64_less v lo then lo else if f64_less hi v then hi else v) = v"
  using assms by (simp add: val_less)

end
