(* ===== verification/Wled_Properties.thy ===== *)
theory Wled_Properties
  imports Wled_Plugin Float_Value Bridge_Commander
begin

text \<open>
  What holds of the WLED plugin: values that come back as they were sent, colours that are bytes,
  clients that follow their device, and the subscriptions that lose it.
\<close>

section \<open>Brightness and temperature\<close>

lemma brightness_back:
  assumes "0 \<le> b" "b \<le> 255"
  shows "vdcToBri_wled (briToVDC_wled b True) = b" "f64_fin (briToVDC_wled b True)" "0 < b \<Longrightarrow> 0 < f64_val (briToVDC_wled b True)"
proof -
  define q where "q = f64_div (f64_of_int b) (f64_of_int 255)"
  define p where "p = f64_mul q f64_hundred"
  define v where "v = clampF_wled p f64_zero f64_hundred"
  define d where "d = f64_div v f64_hundred"
  define r where "r = f64_mul d (f64_of_int 255)"
  have v_eq: "briToVDC_wled b True = v" by (simp add: briToVDC_wled_def v_def p_def q_def)
  have b: "0 \<le> real_of_int b" "real_of_int b \<le> 255" using assms by simp_all
  have q: "f64_near q (real_of_int b / 255)" unfolding q_def
    using near_ops(2) [of "f64_of_int b" "f64_of_int 255"] assms b by simp
  note q = nearD [OF q]
  have p: "f64_near p (f64_val q * 100)" unfolding p_def using near_ops(1) [OF q(1), of f64_hundred] q(2,3) b by (simp add: abs_le_iff)
  note p = nearD [OF p]
  have v: "f64_fin v" "real_of_int b / 255 * 100 - 1 / 10 ^ 6 \<le> f64_val v" "f64_val v \<le> real_of_int b / 255 * 100 + 1 / 10 ^ 6"
  proof -
    consider "f64_val p < 0" | "100 < f64_val p" | "0 \<le> f64_val p" "f64_val p \<le> 100" by linarith
    then have "v = (if f64_val p < 0 then f64_zero else if 100 < f64_val p then f64_hundred else p)"
      by cases (simp_all add: v_def clampF_wled_def val_less p(1))
    then show "f64_fin v" "real_of_int b / 255 * 100 - 1 / 10 ^ 6 \<le> f64_val v" "f64_val v \<le> real_of_int b / 255 * 100 + 1 / 10 ^ 6"
      using p q b by auto
  qed
  note v2 = v(2,3)
  have d: "f64_near d (f64_val v / 100)" unfolding d_def using near_ops(2) [OF v(1), of f64_hundred] v2 b by (simp add: abs_le_iff)
  note d = nearD [OF d]
  have r: "f64_near r (f64_val d * 255)" unfolding r_def using near_ops(1) [OF d(1), of "f64_of_int 255"] d(2,3) v2 b by (simp add: abs_le_iff)
  note r = nearD [OF r]
  have "\<bar>f64_val r - real_of_int b\<bar> < 1 / 2" unfolding abs_diff_less_iff using r(2,3) d(2,3) v2 by simp
  from round_near [OF r(1) this] assms have "f64_round_int r = b" by simp
  then show "vdcToBri_wled (briToVDC_wled b True) = b"
    using assms by (simp add: v_eq vdcToBri_wled_def d_def [symmetric] r_def [symmetric] Let_def)
  show "f64_fin (briToVDC_wled b True)" using v(1) by (simp add: v_eq)
  show "0 < f64_val (briToVDC_wled b True)" if "0 < b"
  proof -
    have "1 \<le> real_of_int b" using that by simp
    then show ?thesis using v2(1) unfolding v_eq by simp
  qed
qed

lemma temperature_back:
  assumes "0 \<le> c" "c \<le> 255"
  shows "miredToCCT (cctToMired c) = c"
proof -
  define q where "q = f64_div (f64_of_int c) (f64_of_int 255)"
  define s where "s = f64_mul q (f64_of_int 3800)"
  define k where "k = f64_add (f64_of_int 2700) s"
  define v where "v = f64_div (f64_of_int 1000000) k"
  define k' where "k' = f64_div (f64_of_int 1000000) v"
  define e where "e = f64_sub k' (f64_of_int 2700)"
  define d where "d = f64_div e (f64_of_int 3800)"
  define r where "r = f64_mul d (f64_of_int 255)"
  have v_eq: "cctToMired c = v" using assms by (simp add: cctToMired_def v_def k_def s_def q_def)
  have c: "0 \<le> real_of_int c" "real_of_int c \<le> 255" using assms by simp_all
  have "f64_near q (real_of_int c / 255)" unfolding q_def
    using near_ops(2) [of "f64_of_int c" "f64_of_int 255"] assms c by simp
  note q = nearD [OF this]
  have "f64_near s (f64_val q * 3800)" unfolding s_def using near_ops(1) [OF q(1), of "f64_of_int 3800"] q(2,3) c by (simp add: abs_le_iff)
  note s = nearD [OF this]
  have "f64_near k (2700 + f64_val s)" unfolding k_def using near_ops(3) [OF _ s(1), of "f64_of_int 2700"] s(2,3) q(2,3) c by (simp add: abs_le_iff)
  note k = nearD [OF this]
  have kb: "2699 \<le> f64_val k" "f64_val k \<le> 6501" using k(2,3) s(2,3) q(2,3) c by simp_all
  have t: "1000000 / f64_val k \<le> 1000" "100 \<le> 1000000 / f64_val k" using kb by (simp_all add: pos_divide_le_eq pos_le_divide_eq)
  have "f64_near v (1000000 / f64_val k)" unfolding v_def using near_ops(2) [OF _ k(1), of "f64_of_int 1000000"] t kb by (simp add: abs_le_iff)
  note v = nearD [OF this]
  have vb: "99 \<le> f64_val v" "f64_val v \<le> 1001" using v(2,3) t by simp_all
  have inv: "\<bar>1000000 / f64_val v - f64_val k\<bar> \<le> 1 / 10 ^ 6"
  proof -
    have "1000000 / f64_val v - f64_val k = (1000000 / f64_val k - f64_val v) * (f64_val k / f64_val v)"
      using vb kb by (simp add: field_simps)
    then have "\<bar>1000000 / f64_val v - f64_val k\<bar> = \<bar>(1000000 / f64_val k - f64_val v) * (f64_val k / f64_val v)\<bar>" by (rule arg_cong)
    also have "\<dots> \<le> 1 / 10 ^ 9 * 100"
    proof -
      have "f64_val k / f64_val v \<le> 100" using vb kb by (simp add: pos_divide_le_eq)
      moreover have "0 \<le> f64_val k / f64_val v" using vb kb by simp
      moreover have "\<bar>1000000 / f64_val k - f64_val v\<bar> \<le> 1 / 10 ^ 9" using v(2,3) unfolding abs_diff_le_iff by simp
      ultimately show ?thesis unfolding abs_mult by (intro mult_mono) simp_all
    qed
    finally show ?thesis by simp
  qed
  then have inv: "f64_val k - 1 / 10 ^ 6 \<le> 1000000 / f64_val v" "1000000 / f64_val v \<le> f64_val k + 1 / 10 ^ 6"
    unfolding abs_diff_le_iff by simp_all
  have "f64_near k' (1000000 / f64_val v)" unfolding k'_def using near_ops(2) [OF _ v(1), of "f64_of_int 1000000"] inv kb vb by (simp add: abs_le_iff)
  note k' = nearD [OF this]
  have "f64_near e (f64_val k' - 2700)" unfolding e_def using near_ops(4) [OF k'(1), of "f64_of_int 2700"] k'(2,3) inv kb by (simp add: abs_le_iff)
  note e = nearD [OF this]
  have eb: "\<bar>f64_val e - (f64_val k - 2700)\<bar> \<le> 1 / 10 ^ 5" unfolding abs_diff_le_iff using e(2,3) k'(2,3) inv by simp
  then have eb: "f64_val k - 2700 - 1 / 10 ^ 5 \<le> f64_val e" "f64_val e \<le> f64_val k - 2700 + 1 / 10 ^ 5" unfolding abs_diff_le_iff by simp_all
  have "f64_near d (f64_val e / 3800)" unfolding d_def using near_ops(2) [OF e(1), of "f64_of_int 3800"] eb kb by (simp add: abs_le_iff)
  note d = nearD [OF this]
  have "f64_near r (f64_val d * 255)" unfolding r_def using near_ops(1) [OF d(1), of "f64_of_int 255"] d(2,3) eb kb by (simp add: abs_le_iff)
  note r = nearD [OF this]
  have "\<bar>f64_val r - real_of_int c\<bar> < 1 / 2" unfolding abs_diff_less_iff using r(2,3) d(2,3) eb k(2,3) s(2,3) q(2,3) by simp
  from round_near [OF r(1) this] assms have rr: "f64_round_int r = c" by simp
  have "\<not> f64_le v f64_zero" using vb by (simp add: val_le v(1))
  then show ?thesis
    using assms rr by (simp add: v_eq miredToCCT_def k'_def [symmetric] e_def [symmetric] d_def [symmetric] r_def [symmetric] Let_def)
qed

section \<open>Colours\<close>

lemma product_range:
  fixes c w :: real
  assumes "- (1 / 10 ^ 6) \<le> c" "c \<le> 1 + 1 / 10 ^ 6" "- (1 / 10 ^ 6) \<le> w" "w \<le> 1 + 1 / 10 ^ 6"
  shows "- (1 / 10 ^ 5) \<le> c * w" "c * w \<le> 1 + 1 / 10 ^ 5"
proof -
  have "0 \<le> (c + 1 / 10 ^ 6) * (w + 1 / 10 ^ 6)" "0 \<le> (c + 1 / 10 ^ 6) * (1 + 1 / 10 ^ 6 - w)"
    using assms by (intro mult_nonneg_nonneg; simp)+
  then show "- (1 / 10 ^ 5) \<le> c * w" "c * w \<le> 1 + 1 / 10 ^ 5" using assms by (simp_all add: algebra_simps)
qed

lemma byte_range:
  assumes "f64_fin v" "f64_fin m" "- (1 / 10 ^ 4) \<le> f64_val v + f64_val m" "f64_val v + f64_val m \<le> 1 + 1 / 10 ^ 4"
  defines "b \<equiv> f64_round_int (f64_mul (f64_add v m) (f64_of_int 255))"
  shows "0 \<le> b \<and> b \<le> 255"
proof -
  define s where "s = f64_add v m"
  have "f64_near s (f64_val v + f64_val m)" unfolding s_def using near_ops(3) [OF assms(1,2)] assms(3,4) by (simp add: abs_le_iff)
  note s = nearD [OF this]
  have "f64_near (f64_mul s (f64_of_int 255)) (f64_val s * 255)"
    using near_ops(1) [OF s(1), of "f64_of_int 255"] s(2,3) assms(3,4) by (simp add: abs_le_iff)
  note r = nearD [OF this]
  have "- (1 / 2) < f64_val (f64_mul s (f64_of_int 255))" "f64_val (f64_mul s (f64_of_int 255)) < real_of_int 255 + 1 / 2"
    using r(2,3) s(2,3) assms(3,4) by simp_all
  from round_between [OF r(1) this] show ?thesis unfolding b_def s_def by simp
qed

definition colour_byte :: "f64 \<Rightarrow> f64 \<Rightarrow> int" where
  "colour_byte m v = f64_round_int (f64_mul (f64_add v m) (f64_of_int 255))"

lemma rgb_parts:
  assumes h: "f64_fin hue" "0 \<le> f64_val hue" "f64_val hue \<le> 360" and sat: "f64_fin sat" "0 \<le> f64_val sat" "f64_val sat \<le> 100"
  obtains c x m w p1 p2 p3 where "f64_near c (f64_val sat / 100)" "f64_near m (1 - f64_val c)" "f64_near x (f64_val c - f64_val c * w)"
    "- (1 / 10 ^ 6) \<le> w" "w \<le> 1 + 1 / 10 ^ 6"
    "hueSatToRGB hue sat = (colour_byte m p1, colour_byte m p2, colour_byte m p3)" "{p1, p2, p3} \<subseteq> {c, x, f64_zero}"
proof -
  define c where "c = f64_div sat f64_hundred"
  define q where "q = f64_div hue (f64_of_int 60)"
  define o1 where "o1 = f64_mod q (f64_of_int 2)"
  define a where "a = f64_sub o1 f64_one"
  define o2 where "o2 = f64_sub f64_one (f64_abs a)"
  define x where "x = f64_mul c o2"
  define m where "m = f64_sub f64_one c"
  have "f64_near c (f64_val sat / 100)" unfolding c_def using near_ops(2) [OF sat(1), of f64_hundred] sat by (simp add: abs_le_iff)
  note cn = this and c = nearD [OF this]
  have "f64_near q (f64_val hue / 60)" unfolding q_def using near_ops(2) [OF h(1), of "f64_of_int 60"] h by (simp add: abs_le_iff)
  note q = nearD [OF this]
  have o1: "f64_fin o1" "- (1 / 10 ^ 8) \<le> f64_val o1" "f64_val o1 \<le> 2 + 1 / 10 ^ 8"
  proof -
    from val_mod [OF q(1), of "f64_of_int 2"] obtain t where t: "f64_fin o1" "0 \<le> t" "t < 2" "t \<le> \<bar>f64_val q\<bar>"
      "\<bar>f64_val o1 - f64_signed (f64_neg q) t\<bar> \<le> (t + 1) / 2 ^ 53" unfolding o1_def by auto
    have "(t + 1) / 2 ^ 53 \<le> 1 / 10 ^ 9" using t(3) by simp
    with t(5) have "\<bar>f64_val o1 - f64_signed (f64_neg q) t\<bar> \<le> 1 / 10 ^ 9" by linarith
    then have e: "f64_signed (f64_neg q) t - 1 / 10 ^ 9 \<le> f64_val o1" "f64_val o1 \<le> f64_signed (f64_neg q) t + 1 / 10 ^ 9"
      unfolding abs_diff_le_iff by simp_all
    have "f64_neg q \<longrightarrow> f64_val q \<le> 0" using val_signed [of q] by (auto simp: f64_signed_def)
    then show "f64_fin o1" "- (1 / 10 ^ 8) \<le> f64_val o1" "f64_val o1 \<le> 2 + 1 / 10 ^ 8"
      using e t(1-4) q(2) h(2) by (cases "f64_neg q"; simp add: f64_signed_def)+
  qed
  have "f64_near a (f64_val o1 - 1)" unfolding a_def using near_ops(4) [OF o1(1), of f64_one] o1(2,3) by (simp add: abs_le_iff)
  note a = nearD [OF this]
  have av: "\<bar>f64_val a\<bar> \<le> 1 + 1 / 10 ^ 7" unfolding abs_le_iff using a(2,3) o1(2,3) by simp
  define a' where "a' = \<bar>f64_val a\<bar>"
  have av: "0 \<le> a'" "a' \<le> 1 + 1 / 10 ^ 7" using av unfolding a'_def by simp_all
  then have "\<bar>1 - a'\<bar> \<le> 10 ^ 6" by (simp add: abs_le_iff)
  then have "f64_near o2 (1 - a')" unfolding o2_def a'_def
    using near_ops(4) [OF _ val_abs(1) [OF a(1)], of f64_one] by (simp only: val_consts val_abs(2))
  note o2 = nearD [OF this]
  have ob: "0 \<le> 1 - f64_val o2 + 1 / 10 ^ 6" "1 - f64_val o2 \<le> 1 + 1 / 10 ^ 6" using o2(2,3) av by simp_all
  have cb: "- (1 / 10 ^ 8) \<le> f64_val c" "f64_val c \<le> 1 + 1 / 10 ^ 8" using c(2,3) sat(2,3) by simp_all
  have prod: "- (1 / 10 ^ 5) \<le> f64_val c * (1 - f64_val o2)" "f64_val c * (1 - f64_val o2) \<le> 1 + 1 / 10 ^ 5"
    using product_range [of "f64_val c" "1 - f64_val o2"] cb ob by simp_all
  have co: "f64_val c * f64_val o2 = f64_val c - f64_val c * (1 - f64_val o2)" by (simp add: algebra_simps)
  from co have "f64_near x (f64_val c * f64_val o2)" unfolding x_def using near_ops(1) [OF c(1) o2(1)] prod cb by (simp add: abs_le_iff)
  then have xn: "f64_near x (f64_val c - f64_val c * (1 - f64_val o2))" by (simp add: co)
  have mn: "f64_near m (1 - f64_val c)" unfolding m_def using near_ops(4) [OF _ c(1), of f64_one] cb by (simp add: abs_le_iff)
  let ?rgb = "hueSatToRGB hue sat"
  have "?rgb \<in> (\<lambda>(p1, p2, p3). (colour_byte m p1, colour_byte m p2, colour_byte m p3)) ` ({c, x, f64_zero} \<times> {c, x, f64_zero} \<times> {c, x, f64_zero})"
    by (simp add: hueSatToRGB_def colour_byte_def c_def [symmetric] q_def [symmetric] o1_def [symmetric] a_def [symmetric] o2_def [symmetric]
      x_def [symmetric] m_def [symmetric] Let_def image_iff)
  then obtain p1 p2 p3 where "?rgb = (colour_byte m p1, colour_byte m p2, colour_byte m p3)" "{p1, p2, p3} \<subseteq> {c, x, f64_zero}" by auto
  then show ?thesis using that [OF cn mn xn] ob by simp
qed

lemma rgb_bytes:
  assumes h: "f64_fin hue" "0 \<le> f64_val hue" "f64_val hue \<le> 360" and sat: "f64_fin sat" "0 \<le> f64_val sat" "f64_val sat \<le> 100"
    and rgb: "hueSatToRGB hue sat = (r, g, b)"
  shows "{r, g, b} \<subseteq> {0..255}"
proof -
  from rgb_parts [OF h sat] obtain c x m w p1 p2 p3 where n: "f64_near c (f64_val sat / 100)" "f64_near m (1 - f64_val c)"
    "f64_near x (f64_val c - f64_val c * w)" "- (1 / 10 ^ 6) \<le> w" "w \<le> 1 + 1 / 10 ^ 6"
    and p: "hueSatToRGB hue sat = (colour_byte m p1, colour_byte m p2, colour_byte m p3)" "{p1, p2, p3} \<subseteq> {c, x, f64_zero}" by metis
  note c = nearD [OF n(1)] and m = nearD [OF n(2)] and x = nearD [OF n(3)]
  have cb: "- (1 / 10 ^ 6) \<le> f64_val c" "f64_val c \<le> 1 + 1 / 10 ^ 6" using c(2,3) sat(2,3) by simp_all
  note prod = product_range [OF cb n(4,5)]
  have "0 \<le> colour_byte m v \<and> colour_byte m v \<le> 255" if "v \<in> {c, x, f64_zero}" for v
    using that byte_range [OF c(1) m(1)] byte_range [OF x(1) m(1)] byte_range [OF _ m(1), of f64_zero] x(2,3) m(2,3) cb prod
    unfolding colour_byte_def by auto
  then show ?thesis using p rgb by auto
qed

text \<open>Without saturation every hue is white.\<close>

lemma rgb_white:
  assumes "f64_fin hue" "0 \<le> f64_val hue" "f64_val hue \<le> 360"
  shows "hueSatToRGB hue f64_zero = (255, 255, 255)"
proof -
  have "0 \<le> f64_val f64_zero" "f64_val f64_zero \<le> 100" by simp_all
  from rgb_parts [OF assms val_consts(4) this] obtain c x m w p1 p2 p3 where n: "f64_near c (f64_val f64_zero / 100)" "f64_near m (1 - f64_val c)"
    "f64_near x (f64_val c - f64_val c * w)" "- (1 / 10 ^ 6) \<le> w" "w \<le> 1 + 1 / 10 ^ 6"
    and p: "hueSatToRGB hue f64_zero = (colour_byte m p1, colour_byte m p2, colour_byte m p3)" "{p1, p2, p3} \<subseteq> {c, x, f64_zero}" by metis
  note c = nearD [OF n(1), simplified] and m = nearD [OF n(2)] and x = nearD [OF n(3)]
  have "\<bar>f64_val c * w\<bar> \<le> 1 / 10 ^ 9 * 2" unfolding abs_mult using c(2,3) n(4,5) by (intro mult_mono) (simp_all add: abs_le_iff)
  then have cw: "- (2 / 10 ^ 9) \<le> f64_val c * w" "f64_val c * w \<le> 2 / 10 ^ 9" by (simp_all add: abs_le_iff)
  have "colour_byte m v = 255" if v: "v \<in> {c, x, f64_zero}" for v
  proof -
    have vb: "f64_fin v" "- (1 / 10 ^ 7) \<le> f64_val v" "f64_val v \<le> 1 / 10 ^ 7" using v c x cw by auto
    have "f64_near (f64_add v m) (f64_val v + f64_val m)" using near_ops(3) [OF vb(1) m(1)] vb(2,3) m(2,3) c(2,3) by (simp add: abs_le_iff)
    note s = nearD [OF this]
    have "f64_near (f64_mul (f64_add v m) (f64_of_int 255)) (f64_val (f64_add v m) * 255)"
      using near_ops(1) [OF s(1), of "f64_of_int 255"] s(2,3) vb(2,3) m(2,3) c(2,3) by (simp add: abs_le_iff)
    note r = nearD [OF this]
    have "\<bar>f64_val (f64_mul (f64_add v m) (f64_of_int 255)) - real_of_int 255\<bar> < 1 / 2"
      unfolding abs_diff_less_iff using r(2,3) s(2,3) vb(2,3) m(2,3) c(2,3) by simp
    from round_near [OF r(1) this] show ?thesis by (simp add: colour_byte_def)
  qed
  then show ?thesis using p by auto
qed

section \<open>Reachable states\<close>

definition colours_in_range :: "wled \<Rightarrow> bool" where
  "colours_in_range w \<longleftrightarrow> (\<forall>(u, s) \<in> set (w_subscribed w).
     f64_le f64_zero (ws_hue s) \<and> f64_le (ws_hue s) (f64_of_int 360) \<and> f64_le f64_zero (ws_sat s) \<and> f64_le (ws_sat s) f64_hundred)"

inductive wled_reach :: "wled_env \<Rightarrow> string \<Rightarrow> wled \<Rightarrow> bool" for env i where
  reach_new: "wled_reach env i (wled_new i)"
| reach_init: "wled_reach env i w \<Longrightarrow> wled_reach env i (w_Init w)"
| reach_subscribe: "wled_reach env i w \<Longrightarrow> wled_reach env i (fst (w_Subscribe m w))"
| reach_unsubscribe: "wled_reach env i w \<Longrightarrow> wled_reach env i (w_Unsubscribe u w)"
| reach_apply: "wled_reach env i w \<Longrightarrow> \<not> f64_is_nan (c_Value cmd) \<Longrightarrow> wled_reach env i (fst (w_Apply env m cmd w))"
| reach_scene: "wled_reach env i w \<Longrightarrow> wled_reach env i (fst (w_CallScene env m n w))"
| reach_scanned: "wled_reach env i w \<Longrightarrow> wled_reach env i (fst (scanned e w))"
| reach_turn: "wled_reach env i w \<Longrightarrow> wled_reach env i (fst (client_turn k life w))"
| reach_close: "wled_reach env i w \<Longrightarrow> wled_reach env i (w_Close w)"

lemma stop_keeps [simp]: "w_subscribed (stop_client k w) = w_subscribed w" "w_subscribed (stop_if c w) = w_subscribed w"
  "w_byMAC (stop_if c w) = w_byMAC w" "w_devices (stop_if c w) = w_devices w" "w_closed (stop_if c w) = w_closed w"
  "w_nextClient (stop_if c w) = w_nextClient w"
  by (simp_all add: stop_client_def stop_if_def split: option.split)

lemma stop_all_keeps: "w_subscribed (fold (\<lambda>(u, s). stop_if (ws_client s)) xs w) = w_subscribed w"
  by (induction xs arbitrary: w) auto

lemma range_consts: "f64_le f64_zero f64_zero" "f64_le f64_zero (f64_of_int 360)" "f64_le f64_zero f64_hundred"
  by (simp_all add: val_le)

lemma colours_update:
  assumes "colours_in_range w" "f64_le f64_zero (ws_hue s)" "f64_le (ws_hue s) (f64_of_int 360)"
    "f64_le f64_zero (ws_sat s)" "f64_le (ws_sat s) f64_hundred" "w_subscribed w' = AList.update u s (w_subscribed w)"
  shows "colours_in_range w'"
  using assms(1-5) unfolding colours_in_range_def assms(6) by (auto dest!: set_update_cases)

lemma sub_colours:
  assumes "colours_in_range w"
  shows "f64_le f64_zero (ws_hue (w_sub w u))" "f64_le (ws_hue (w_sub w u)) (f64_of_int 360)"
    "f64_le f64_zero (ws_sat (w_sub w u))" "f64_le (ws_sat (w_sub w u)) f64_hundred"
  using assms range_consts unfolding colours_in_range_def w_sub_def go_get_def zero_sub_def
  by (auto split: option.split dest!: map_of_SomeD)

lemma clamp_le:
  assumes "\<not> f64_is_nan v" "f64_fin hi" "0 \<le> f64_val hi"
  shows "f64_le f64_zero (clampF_wled v f64_zero hi)" "f64_le (clampF_wled v f64_zero hi) hi"
  using clamped [OF assms(1) _ assms(2), of f64_zero] assms by (simp_all add: clampF_wled_def val_le)

lemma between_vals:
  assumes "f64_le f64_zero v" "f64_le v hi" "f64_fin hi"
  shows "f64_fin v" "0 \<le> f64_val v" "f64_val v \<le> f64_val hi"
proof -
  have "\<not> f64_is_nan v" "f64_less hi v = False" "f64_less v f64_zero = False" using assms by (auto simp: f64_le_def f64_less_def)
  moreover have "0 \<le> f64_val hi" using assms key_less_iff [of hi f64_zero] by (auto simp: f64_le_def)
  ultimately show "f64_fin v" "0 \<le> f64_val v" "f64_val v \<le> f64_val hi" using clamped [of v f64_zero hi] assms(3) by simp_all
qed

lemma start_colours: "colours_in_range w \<Longrightarrow> colours_in_range (fst (startDeviceClient m d w))"
  by (rule colours_update [where w = w and s = "(w_sub w (m_DSUID m))\<lparr>ws_client := Some (w_nextClient w)\<rparr>" and u = "m_DSUID m"])
    (simp_all add: startDeviceClient_def Let_def sub_colours)

lemma build_colours:
  assumes "colours_in_range w" "\<not> f64_is_nan (c_Value cmd)"
  shows "colours_in_range (fst (buildPayload m cmd w))"
proof -
  let ?x = "c_Value cmd"
  let ?s = "if c_Channel cmd = 1
            then (w_sub w (m_DSUID m))\<lparr>ws_hue := clampF_wled ?x f64_zero (f64_of_int 360), ws_hueSet := True\<rparr>
            else (w_sub w (m_DSUID m))\<lparr>ws_sat := clampF_wled ?x f64_zero f64_hundred, ws_satSet := True\<rparr>"
  have s: "f64_le f64_zero (ws_hue ?s)" "f64_le (ws_hue ?s) (f64_of_int 360)" "f64_le f64_zero (ws_sat ?s)" "f64_le (ws_sat ?s) f64_hundred"
    using sub_colours [OF assms(1)] clamp_le [OF assms(2)] by simp_all
  have "fst (buildPayload m cmd w) = w \<or> w_subscribed (fst (buildPayload m cmd w)) = AList.update (m_DSUID m) ?s (w_subscribed w)"
    by (simp add: buildPayload_def Let_def)
  with colours_update [OF assms(1) s] assms(1) show ?thesis by metis
qed

lemma found_colours: "colours_in_range w \<Longrightarrow> colours_in_range (fst (onDeviceFound d w))"
proof -
  assume c: "colours_in_range w"
  have k: "colours_in_range (stop_if x w)" for x using c by (simp add: colours_in_range_def)
  show ?thesis using c start_colours [OF k]
    by (auto simp: onDeviceFound_def Let_def then_step_def split: option.split prod.split) (metis fst_conv)+
qed

lemma reach_colours: "wled_reach env i w \<Longrightarrow> colours_in_range w"
proof (induction rule: wled_reach.induct)
  case reach_new
  show ?case by (simp add: colours_in_range_def wled_new_def)
next
  case (reach_subscribe w m)
  have z: "ws_hue (zero_sub\<lparr>ws_mapping := m\<rparr>) = f64_zero" "ws_sat (zero_sub\<lparr>ws_mapping := m\<rparr>) = f64_zero" by (simp_all add: zero_sub_def)
  show ?case
  proof (cases "map_of (w_devices w) (m_RemoteEntityID m)")
    case None
    show ?thesis by (rule colours_update [OF reach_subscribe.IH, where s = "zero_sub\<lparr>ws_mapping := m\<rparr>" and u = "m_DSUID m"])
      (simp_all add: z range_consts w_Subscribe_def None Let_def)
  next
    case (Some d)
    then show ?thesis using start_colours [OF reach_subscribe.IH] by (simp add: w_Subscribe_def Let_def)
  qed
next
  case (reach_unsubscribe w u)
  have sub: "x \<in> set (AList.delete u (w_subscribed w)) \<Longrightarrow> x \<in> set (w_subscribed w)" for x by (cases x) (auto dest: set_delete_subset)
  have "colours_in_range w'" if "w_subscribed w' = AList.delete u (w_subscribed w)" for w'
    unfolding colours_in_range_def that by (rule ballI) (rule bspec [OF reach_unsubscribe.IH [unfolded colours_in_range_def]], erule sub)
  then show ?case using reach_unsubscribe.IH by (simp add: w_Unsubscribe_def split: option.split)
next
  case (reach_apply w cmd m)
  have p: "colours_in_range (fst (postState env a x w)) \<longleftrightarrow> colours_in_range w" for a x w by (simp add: postState_def colours_in_range_def)
  show ?case using build_colours [OF reach_apply.IH reach_apply.hyps(2), of m] reach_apply.IH
    by (auto simp: w_Apply_def p split: option.split prod.split)
next
  case (reach_scanned w e)
  have d: "colours_in_range (w\<lparr>w_devices := ds\<rparr>)" for ds using reach_scanned.IH by (simp add: colours_in_range_def)
  show ?case using found_colours [OF d] d by (auto simp: scanned_def Let_def split: option.split prod.split)
next
  case (reach_close w)
  then show ?case by (simp add: w_Close_def Let_def colours_in_range_def stop_all_keeps)
qed (simp_all add: w_Init_def w_CallScene_def postState_def client_turn_def colours_in_range_def Let_def split: option.split)

text \<open>
  C40: the colours that are sent to a WLED device are bytes: in every reachable state, whatever hue or
  saturation is commanded (infinities included, NaN not), red, green and blue lie between 0 and 255.
\<close>

theorem wled_colours_are_bytes:
  assumes "wled_reach env i w" "\<not> f64_is_nan (c_Value cmd)" "c_Type cmd = ''setChannel''" "c_Channel cmd \<in> {1, 2}"
  shows "\<exists>r g b. snd (buildPayload m cmd w) = Some (rgb_payload (r, g, b)) \<and> {r, g, b} \<subseteq> {0..255}"
proof -
  let ?s = "if c_Channel cmd = 1 then (w_sub w (m_DSUID m))\<lparr>ws_hue := clampF_wled (c_Value cmd) f64_zero (f64_of_int 360), ws_hueSet := True\<rparr>
            else (w_sub w (m_DSUID m))\<lparr>ws_sat := clampF_wled (c_Value cmd) f64_zero f64_hundred, ws_satSet := True\<rparr>"
  have s: "f64_le f64_zero (ws_hue ?s)" "f64_le (ws_hue ?s) (f64_of_int 360)" "f64_le f64_zero (ws_sat ?s)" "f64_le (ws_sat ?s) f64_hundred"
    using sub_colours [OF reach_colours [OF assms(1)]] clamp_le [OF assms(2)] by simp_all
  obtain r g b where rgb: "hueSatToRGB (ws_hue ?s) (ws_sat ?s) = (r, g, b)" by (cases "hueSatToRGB (ws_hue ?s) (ws_sat ?s)") auto
  have "{r, g, b} \<subseteq> {0..255}" using between_vals [OF s(1,2)] between_vals [OF s(3,4)] by (intro rgb_bytes [OF _ _ _ _ _ _ rgb]) simp_all
  moreover have "snd (buildPayload m cmd w) = Some (rgb_payload (r, g, b))"
    using assms(3,4) by (auto simp: buildPayload_def Let_def rgb [symmetric])
  ultimately show ?thesis by blast
qed

text \<open>
  C32: values come back as they were sent: for a device that is on with brightness 1 to 255 and a
  relative colour temperature, setting the channels to the levels it reports posts the same brightness
  and the same temperature.
\<close>

theorem wled_values_come_back:
  assumes "wl_On (wx_State si)" "wl_Bri (wx_State si) = b" "1 \<le> b" "b \<le> 255"
    and "wl_Seg (wx_State si) = g # gs" "0 \<le> wg_CCT g" "wg_CCT g \<le> 255" "lc_has (wi_LC (wx_Info si)) lcBitCCT"
  shows "\<exists>v t. HChannel u 0 v \<in> set (handleState u si) \<and> HChannel u 3 t \<in> set (handleState u si) \<and>
    buildPayload m (setChannel_command 0 v) w = (w, Some [(''on'', GBool True), (''bri'', GInt b)]) \<and>
    buildPayload m (setChannel_command 3 t) w = (w, Some [(''on'', GBool True), (''seg'', GArr [GObj [(''cct'', GInt (wg_CCT g))]])])"
proof (intro exI conjI)
  obtain r' g' b' h s where rgb: "primaryRGB (wx_State si) = (r', g', b')" "rgbToHueSat r' g' b' = (h, s)"
    by (metis prod_cases3 surj_pair)
  have z: "wi_LC (wx_Info si) \<noteq> 0" using assms(8) by (auto simp: lc_has_def)
  note bb = brightness_back [of b] and tb = temperature_back [of "wg_CCT g"]
  have pos: "\<not> f64_le (briToVDC_wled b True) f64_zero" using bb assms(3,4) by (simp add: val_le)
  show "HChannel u 0 (briToVDC_wled b True) \<in> set (handleState u si)" using assms rgb by (simp add: handleState_def Let_def)
  show "HChannel u 3 (cctToMired (wg_CCT g)) \<in> set (handleState u si)" using assms z rgb by (simp add: handleState_def Let_def)
  show "buildPayload m (setChannel_command 0 (briToVDC_wled b True)) w = (w, Some [(''on'', GBool True), (''bri'', GInt b)])"
    using pos bb(1) assms(3,4) by (simp add: buildPayload_def setChannel_command_def Let_def clampI_def)
  show "buildPayload m (setChannel_command 3 (cctToMired (wg_CCT g))) w =
      (w, Some [(''on'', GBool True), (''seg'', GArr [GObj [(''cct'', GInt (wg_CCT g))]])])"
    using tb assms(6,7) by (simp add: buildPayload_def setChannel_command_def Let_def)
qed

text \<open>
  The first hue turns a WLED light white: the cached saturation starts at zero and is never taken
  from the states the device reports, so that after a subscription the first command to set a hue
  posts white, whatever the hue and whatever the colour of the light.
\<close>

theorem first_hue_is_white:
  assumes "map_of (w_subscribed w) (m_DSUID m) = None" "\<not> f64_is_nan x"
  shows "snd (buildPayload m (setChannel_command 1 x) (fst (w_Subscribe m w))) = Some (rgb_payload (255, 255, 255))"
proof -
  have z: "ws_sat (w_sub (fst (w_Subscribe m w)) (m_DSUID m)) = f64_zero"
    using assms(1) by (simp add: w_Subscribe_def startDeviceClient_def w_sub_def Let_def go_get_def zero_sub_def update_conv' split: option.split)
  have "hueSatToRGB (clampF_wled x f64_zero (f64_of_int 360)) f64_zero = (255, 255, 255)"
    using between_vals [OF clamp_le [OF assms(2), of "f64_of_int 360"]] by (intro rgb_white) simp_all
  then show ?thesis by (simp add: buildPayload_def setChannel_command_def Let_def z)
qed

section \<open>Clients and addresses\<close>

text \<open>A mapping is served at an address: its subscription knows it and its client runs there.\<close>

definition served_at :: "mapping \<Rightarrow> string \<Rightarrow> wled \<Rightarrow> bool" where
  "served_at m a w \<longleftrightarrow> \<not> w_closed w \<and> map_of (w_byMAC w) (m_RemoteEntityID m) = Some (m_DSUID m) \<and>
     ws_mapping (w_sub w (m_DSUID m)) = m \<and>
     (case connected_client w m of
        None \<Rightarrow> False
      | Some i \<Rightarrow> w_client w i = \<lparr>wc_addr = a, wc_mac = m_RemoteEntityID m, wc_dsuid = m_DSUID m, wc_running = True\<rparr>)"

definition entry_of :: "service_entry \<Rightarrow> wled_device" where
  "entry_of e = entry_device e (hd (se_IPv4 e))"

lemma handleEntry_of: "se_IPv4 e \<noteq> [] \<Longrightarrow> handleEntry e ds = (AList.update (wd_MAC (entry_of e)) (entry_of e) ds,
    case map_of ds (wd_MAC (entry_of e)) of None \<Rightarrow> Some (entry_of e)
    | Some x \<Rightarrow> if wd_Addr x \<noteq> wd_Addr (entry_of e) \<or> wd_Name x \<noteq> wd_Name (entry_of e) then Some (entry_of e) else None)"
  by (cases "se_IPv4 e") (simp_all add: handleEntry_def entry_of_def Let_def split: option.split)

lemma started_served:
  assumes "ws_mapping (w_sub w (m_DSUID m)) = m" "\<not> w_closed w" "wd_MAC d = m_RemoteEntityID m"
  shows "served_at m (wd_Addr d) (fst (startDeviceClient m d w))"
  using assms by (simp add: served_at_def startDeviceClient_def connected_client_def w_sub_def w_client_def Let_def update_conv')

lemma found_served:
  assumes "map_of (w_byMAC w) (m_RemoteEntityID m) = Some (m_DSUID m)" "ws_mapping (w_sub w (m_DSUID m)) = m" "\<not> w_closed w"
    and "wd_MAC d = m_RemoteEntityID m" and "ws_client (w_sub w (m_DSUID m)) = None \<or> served_at m a w"
  shows "served_at m (wd_Addr d) (fst (onDeviceFound d w))"
proof (cases "case ws_client (w_sub w (m_DSUID m)) of Some i \<Rightarrow> wc_addr (w_client w i) = wd_Addr d | None \<Rightarrow> False")
  case True
  then have s: "served_at m a w" using assms(5) by (auto split: option.splits)
  then have "a = wd_Addr d" using True
    by (auto simp: served_at_def connected_client_def w_sub_def go_get_def zero_sub_def split: option.splits)
  then show ?thesis using True s assms(1,4) by (simp add: onDeviceFound_def Let_def)
next
  case False
  let ?c = "ws_client (w_sub w (m_DSUID m))"
  have m: "ws_mapping (w_sub (stop_if ?c w) (m_DSUID m)) = m" "\<not> w_closed (stop_if ?c w)"
    using assms(2,3) by (simp_all add: w_sub_def)
  have "fst (onDeviceFound d w) = fst (startDeviceClient m d (stop_if ?c w))"
    using False assms(1,2,4) by (simp add: onDeviceFound_def Let_def then_step_def split: prod.split)
  then show ?thesis using started_served [OF m assms(4)] by simp
qed

lemma devices_irrelevant [simp]: "w_sub (w\<lparr>w_devices := ds\<rparr>) u = w_sub w u" "w_client (w\<lparr>w_devices := ds\<rparr>) i = w_client w i"
  "connected_client (w\<lparr>w_devices := ds\<rparr>) m = connected_client w m"
  by (simp_all add: connected_client_def w_sub_def w_client_def)

lemma served_devices [simp]: "served_at m a (w\<lparr>w_devices := ds\<rparr>) = served_at m a w"
  by (simp add: served_at_def cong: option.case_cong)

lemma scan_served:
  assumes "served_at m a w" "map_of (w_devices w) (m_RemoteEntityID m) = Some d" "wd_Addr d = a"
    and "se_IPv4 e \<noteq> []" "wd_MAC (entry_of e) = m_RemoteEntityID m"
  shows "served_at m (wd_Addr (entry_of e)) (fst (scanned e w))"
    and "map_of (w_devices (fst (scanned e w))) (m_RemoteEntityID m) = Some (entry_of e)"
proof -
  let ?w = "w\<lparr>w_devices := AList.update (m_RemoteEntityID m) (entry_of e) (w_devices w)\<rparr>"
  have f: "served_at m (wd_Addr (entry_of e)) (fst (onDeviceFound (entry_of e) ?w))"
    using assms(1,5) by (intro found_served [where a = a]) (simp_all, simp_all add: served_at_def)
  then show "served_at m (wd_Addr (entry_of e)) (fst (scanned e w))"
    using assms by (auto simp: scanned_def handleEntry_of Let_def)
  have "w_devices (fst (onDeviceFound d' v)) = w_devices v" for d' v
    by (simp add: onDeviceFound_def Let_def then_step_def startDeviceClient_def split: option.split prod.split)
  then show "map_of (w_devices (fst (scanned e w))) (m_RemoteEntityID m) = Some (entry_of e)"
    using assms by (simp add: scanned_def handleEntry_of Let_def update_conv')
qed

lemma scans_served:
  assumes "served_at m (wd_Addr d) w" "map_of (w_devices w) (m_RemoteEntityID m) = Some d"
    and "\<And>e. e \<in> set es \<Longrightarrow> se_IPv4 e \<noteq> [] \<and> wd_MAC (entry_of e) = m_RemoteEntityID m"
  shows "served_at m (wd_Addr (last (d # map entry_of es))) (fst (each_step scanned es w))"
  using assms
proof (induction es arbitrary: w d)
  case (Cons e es)
  from Cons.prems(3) [of e] have e: "se_IPv4 e \<noteq> []" "wd_MAC (entry_of e) = m_RemoteEntityID m" by simp_all
  note s = scan_served [OF Cons.prems(1,2) refl e]
  from Cons.IH [OF s] Cons.prems(3) show ?case
    by (cases es) (simp_all add: then_step_def case_prod_unfold)
qed simp

text \<open>
  C24: a subscription that waits for its device follows it: once the browser reports the device, and
  whatever address it moves to later, the subscription has a running client at the last address that
  reports under the dSUID of the mapping.
\<close>

theorem waiting_subscription_follows:
  assumes "map_of (w_devices w) (m_RemoteEntityID m) = None" "\<not> w_closed w"
    and "\<forall>e \<in> set (e # es). se_IPv4 e \<noteq> [] \<and> wd_MAC (entry_of e) = m_RemoteEntityID m"
  shows "\<exists>i. connected_client (fst (each_step scanned (e # es) (fst (w_Subscribe m w)))) m = Some i \<and>
    w_client (fst (each_step scanned (e # es) (fst (w_Subscribe m w)))) i =
      \<lparr>wc_addr = wd_Addr (entry_of (last (e # es))), wc_mac = m_RemoteEntityID m, wc_dsuid = m_DSUID m, wc_running = True\<rparr>"
proof -
  define w1 where "w1 = fst (w_Subscribe m w)"
  have w1: "w_devices w1 = w_devices w" "map_of (w_byMAC w1) (m_RemoteEntityID m) = Some (m_DSUID m)" "\<not> w_closed w1"
    "w_sub w1 (m_DSUID m) = zero_sub\<lparr>ws_mapping := m\<rparr>"
    using assms(1,2) by (simp_all add: w1_def w_Subscribe_def Let_def w_sub_def update_conv')
  have e: "se_IPv4 e \<noteq> []" "wd_MAC (entry_of e) = m_RemoteEntityID m" using assms(3) by simp_all
  let ?v = "w1\<lparr>w_devices := AList.update (m_RemoteEntityID m) (entry_of e) (w_devices w)\<rparr>"
  have s: "scanned e w1 = onDeviceFound (entry_of e) ?v" using e assms(1) w1(1) by (simp add: scanned_def handleEntry_of Let_def)
  have f: "served_at m (wd_Addr (entry_of e)) (fst (scanned e w1))"
    unfolding s using w1 e by (intro found_served) (simp_all add: zero_sub_def)
  have "w_devices (fst (onDeviceFound d' v)) = w_devices v" for d' v
    by (simp add: onDeviceFound_def Let_def then_step_def startDeviceClient_def split: option.split prod.split)
  then have "map_of (w_devices (fst (scanned e w1))) (m_RemoteEntityID m) = Some (entry_of e)" unfolding s by (simp add: update_conv')
  from scans_served [OF f this] assms(3)
  have "served_at m (wd_Addr (last (entry_of e # map entry_of es))) (fst (each_step scanned (e # es) w1))"
    by (simp add: then_step_def case_prod_unfold)
  then show ?thesis unfolding w1_def [symmetric]
    by (auto simp: served_at_def last_map split: option.splits if_splits)
qed

text \<open>
  C37: a WLED device that is known when it is subscribed is lost when it moves: the subscription is
  stored without its mapping, so that the client at the old address is stopped and the one at the new
  address reports for no dSUID, while commands still go to the old address.
\<close>

theorem moved_device_lost:
  assumes "map_of (w_devices w) (m_RemoteEntityID m) = Some d" "wd_MAC d = m_RemoteEntityID m"
    and "map_of (w_subscribed w) (m_DSUID m) = None" "m_DSUID m \<noteq> []" "c_Type cmd = ''setActive''"
    and "se_IPv4 e \<noteq> []" "wd_MAC (entry_of e) = m_RemoteEntityID m" "wd_Addr (entry_of e) \<noteq> wd_Addr d"
  shows "\<exists>i j. i \<noteq> j \<and> connected_client (fst (then_step (w_Subscribe m) (scanned e) w)) m = Some i \<and>
    \<not> wc_running (w_client (fst (then_step (w_Subscribe m) (scanned e) w)) i) \<and>
    wc_addr (w_client (fst (then_step (w_Subscribe m) (scanned e) w)) j) = wd_Addr (entry_of e) \<and>
    wc_dsuid (w_client (fst (then_step (w_Subscribe m) (scanned e) w)) j) = [] \<and>
    w_posted (fst (w_Apply env m cmd (fst (then_step (w_Subscribe m) (scanned e) w)))) =
      w_posted w @ [(wd_Addr d, [(''on'', GBool (c_Active cmd))])]"
proof -
  define i where "i = w_nextClient w"
  define w1 where "w1 = fst (w_Subscribe m w)"
  have w1: "map_of (w_byMAC w1) (m_RemoteEntityID m) = Some (m_DSUID m)" "w_sub w1 (m_DSUID m) = zero_sub\<lparr>ws_client := Some i\<rparr>"
    "wc_addr (w_client w1 i) = wd_Addr d" "w_nextClient w1 = Suc i" "w_devices w1 = w_devices w" "w_posted w1 = w_posted w"
    using assms(1-3) by (simp_all add: w1_def i_def w_Subscribe_def startDeviceClient_def w_sub_def w_client_def Let_def update_conv' go_get_def)
  let ?v = "w1\<lparr>w_devices := AList.update (m_RemoteEntityID m) (entry_of e) (w_devices w)\<rparr>"
  have s: "fst (then_step (w_Subscribe m) (scanned e) w) = fst (startDeviceClient no_mapping (entry_of e) (stop_client i ?v))"
    using assms w1 by (simp add: then_step_def case_prod_unfold w1_def [symmetric] scanned_def handleEntry_of onDeviceFound_def Let_def
      zero_sub_def stop_if_def)
  let ?u = "fst (startDeviceClient no_mapping (entry_of e) (stop_client i ?v))"
  have sub: "map_of (w_subscribed w1) (m_DSUID m) = Some (zero_sub\<lparr>ws_client := Some i\<rparr>)"
    using assms(1-3) by (simp add: w1_def i_def w_Subscribe_def startDeviceClient_def w_sub_def Let_def update_conv' go_get_def)
  have u: "connected_client ?u m = Some i" "\<not> wc_running (w_client ?u i)" "wc_addr (w_client ?u i) = wd_Addr d"
    "wc_addr (w_client ?u (Suc i)) = wd_Addr (entry_of e)" "wc_dsuid (w_client ?u (Suc i)) = []" "w_posted ?u = w_posted w"
    using assms(4) w1 sub
    by (simp_all add: startDeviceClient_def stop_client_def connected_client_def w_client_def no_mapping_def Let_def update_conv' go_get_def)
  have "w_posted (fst (w_Apply env m cmd ?u)) = w_posted w @ [(wd_Addr d, [(''on'', GBool (c_Active cmd))])]"
    using u assms(5) by (simp add: w_Apply_def buildPayload_def postState_def Let_def)
  with u show ?thesis unfolding s by (intro exI [of _ i] exI [of _ "Suc i"]) simp
qed

text \<open>
  A WLED device that answers polls but no websocket is reported inactive: its state is taken from
  the poll, which reports it as active, and the turn of the loop ends by reporting it inactive.
\<close>

theorem polled_device_inactive:
  assumes "wc_running (w_client w i)"
  shows "\<exists>cs. client_turn i (DialFailed (Some si)) w =
    (w, HActive (wc_dsuid (w_client w i)) False # cs @ [HActive (wc_dsuid (w_client w i)) True, HActive (wc_dsuid (w_client w i)) False]) \<and>
    HChannel (wc_dsuid (w_client w i)) 0 (briToVDC_wled (wl_Bri (wx_State si)) (wl_On (wx_State si))) \<in> set cs"
proof -
  let ?u = "wc_dsuid (w_client w i)"
  have "\<exists>ds. handleState ?u si = HChannel ?u 0 (briToVDC_wled (wl_Bri (wx_State si)) (wl_On (wx_State si))) # ds @ [HActive ?u True]"
    by (auto simp: handleState_def Let_def case_prod_unfold split: list.split)
  then obtain ds where "handleState ?u si = HChannel ?u 0 (briToVDC_wled (wl_Bri (wx_State si)) (wl_On (wx_State si))) # ds @ [HActive ?u True]" ..
  then show ?thesis using assms
    by (intro exI [of _ "HChannel ?u 0 (briToVDC_wled (wl_Bri (wx_State si)) (wl_On (wx_State si))) # ds"])
      (simp add: client_turn_def runWS_def pollOnce_def setStatus_wled_def Let_def)
qed

section \<open>Examples\<close>

definition ex_wled_env :: wled_env where
  "ex_wled_env = \<lparr>we_post = \<lambda>_ _. None, we_quote = (\<lambda>s. s)\<rparr>"

definition ex_strip :: mapping where
  "ex_strip = \<lparr>m_PluginID = ''wled'', m_RemoteEntityID = ''aa'', m_DSUID = ''u'', m_Kind = ''colorlight'', m_Name = ''Strip''\<rparr>"

definition ex_entry :: "string \<Rightarrow> service_entry" where
  "ex_entry ip = \<lparr>se_Instance = ''Strip'', se_IPv4 = [ip], se_Port = 80, se_Text = [''mac=AA'']\<rparr>"

definition ex_si :: wled_si where
  "ex_si = \<lparr>wx_State = \<lparr>wl_On = True, wl_Bri = 128, wl_Seg = [\<lparr>wg_Col = [[255, 0, 0]], wg_CCT = 200\<rparr>]\<rparr>,
     wx_Info = \<lparr>wi_Name = [], wi_MAC = ''aa'', wi_Ver = [], wi_Count = 30, wi_LC = 5\<rparr>\<rparr>"

abbreviation "ex_found \<equiv> fst (scanned (ex_entry ''10.0.0.1'') (w_Init (wled_new ''wled'')))"

lemma ex_entries: "entry_of (ex_entry ''10.0.0.1'') = \<lparr>wd_MAC = ''aa'', wd_Name = ''Strip'', wd_Addr = ''10.0.0.1:80'', wd_Ver = []\<rparr>"
  "entry_of (ex_entry ''10.0.0.2'') = \<lparr>wd_MAC = ''aa'', wd_Name = ''Strip'', wd_Addr = ''10.0.0.2:80'', wd_Ver = []\<rparr>"
  "se_IPv4 (ex_entry ip) \<noteq> []" "m_RemoteEntityID ex_strip = ''aa''" "m_DSUID ex_strip = ''u''"
  by (code_simp, code_simp) (simp_all add: ex_entry_def ex_strip_def)

theorem waiting_subscription_follows_witness:
  "\<exists>i. wc_addr (w_client (fst (each_step scanned [ex_entry ''10.0.0.1'', ex_entry ''10.0.0.2'']
      (fst (w_Subscribe ex_strip (w_Init (wled_new ''wled'')))))) i) = ''10.0.0.2:80''"
  using waiting_subscription_follows [of "w_Init (wled_new ''wled'')" ex_strip "ex_entry ''10.0.0.1''" "[ex_entry ''10.0.0.2'']"]
  by (auto simp: ex_entries w_Init_def wled_new_def) (metis wled_client.select_convs(1))

theorem moved_device_lost_witness:
  "\<exists>i. connected_client (fst (then_step (w_Subscribe ex_strip) (scanned (ex_entry ''10.0.0.2'')) ex_found)) ex_strip = Some i \<and>
    \<not> wc_running (w_client (fst (then_step (w_Subscribe ex_strip) (scanned (ex_entry ''10.0.0.2'')) ex_found)) i)"
proof -
  have "map_of (w_devices ex_found) ''aa'' = Some (entry_of (ex_entry ''10.0.0.1''))" "map_of (w_subscribed ex_found) ''u'' = None"
    by code_simp+
  then show ?thesis
    using moved_device_lost [of ex_found ex_strip "entry_of (ex_entry ''10.0.0.1'')" "setChannel_command 0 f64_hundred\<lparr>c_Type := ''setActive''\<rparr>" "ex_entry ''10.0.0.2''" ex_wled_env]
    by (auto simp: ex_entries)
qed

theorem polled_device_inactive_witness:
  "\<exists>cs. snd (client_turn 0 (DialFailed (Some ex_si)) (fst (w_Subscribe ex_strip ex_found))) = cs @ [HActive ''u'' False]"
proof -
  have "wc_running (w_client (fst (w_Subscribe ex_strip ex_found)) 0)" "wc_dsuid (w_client (fst (w_Subscribe ex_strip ex_found)) 0) = ''u''"
    by code_simp+
  then show ?thesis using polled_device_inactive [of "fst (w_Subscribe ex_strip ex_found)" 0 ex_si] by auto
qed

theorem wled_values_come_back_witness:
  "\<exists>v. buildPayload ex_strip (setChannel_command 0 v) (wled_new ''wled'') = (wled_new ''wled'', Some [(''on'', GBool True), (''bri'', GInt 128)])"
proof -
  have "lc_has (wi_LC (wx_Info ex_si)) lcBitCCT" by code_simp
  then show ?thesis
    using wled_values_come_back [of ex_si 128 "\<lparr>wg_Col = [[255, 0, 0]], wg_CCT = 200\<rparr>" "[]" "''u''" ex_strip "wled_new ''wled''"]
    by (auto simp: ex_si_def)
qed

theorem first_hue_is_white_witness:
  "snd (buildPayload ex_strip (setChannel_command 1 f64_hundred) (fst (w_Subscribe ex_strip (wled_new ''wled'')))) = Some (rgb_payload (255, 255, 255))"
  by (rule first_hue_is_white) (simp_all add: wled_new_def)

theorem wled_colours_are_bytes_witness:
  "\<exists>r g b. snd (buildPayload ex_strip (setChannel_command 2 f64_hundred) (wled_new ''wled'')) = Some (rgb_payload (r, g, b)) \<and> {r, g, b} \<subseteq> {0..255}"
  by (rule wled_colours_are_bytes [OF reach_new [of ex_wled_env "''wled''"]]) (simp_all add: setChannel_command_def)

end
