(* ===== verification/Shelly_Device.thy ===== *)
theory Shelly_Device
  imports Plugin_Steps Z2m_Discovery Control
begin

text \<open>
  Shelly devices: components and the entities they are bridged as
  (\<^verbatim>\<open>pkg/bridge/shelly/components.go\<close>), and the cache of their status (\<^verbatim>\<open>state.go\<close>). Values of decoded
  JSON are objects, numbers \<open>GFloat\<close> and null \<open>GNil\<close>.
\<close>

section \<open>Components and their names\<close>

record shelly_component =
  sc_Kind :: string
  sc_Index :: int

definition component_key :: "shelly_component \<Rightarrow> string" where
  "component_key c = sc_Kind c @ '':'' @ itoa (sc_Index c)"

definition entityID_shelly :: "string \<Rightarrow> shelly_component \<Rightarrow> string" where
  "entityID_shelly dev c = dev @ '':'' @ component_key c"

text \<open>The text before and after the last colon, if there is one with a text before it.\<close>

definition at_last_colon :: "string \<Rightarrow> (string \<times> string) option" where
  "at_last_colon s =
     (let after = rev (takeWhile (\<lambda>c. c \<noteq> CHR '':'') (rev s)); before = rev (dropWhile (\<lambda>c. c \<noteq> CHR '':'') (rev s))
      in if length before \<le> 1 then None else Some (butlast before, after))"

definition keyed_component :: "string \<Rightarrow> (string \<times> int) option" where
  "keyed_component key =
     (case at_last_colon key of
        None \<Rightarrow> None
      | Some (before, after) \<Rightarrow> if after = [] then None else map_option (Pair before) (atoi after))"

definition parseEntityID_shelly :: "string \<Rightarrow> (string \<times> shelly_component) option" where
  "parseEntityID_shelly i =
     (case keyed_component i of
        None \<Rightarrow> None
      | Some (rest, n) \<Rightarrow>
          (case at_last_colon rest of
             None \<Rightarrow> None
           | Some (dev, kind) \<Rightarrow> Some (dev, \<lparr>sc_Kind = kind, sc_Index = n\<rparr>)))"

definition parseComponents :: "(string, obj) gomap \<Rightarrow> shelly_component list" where
  "parseComponents status =
     sort_key sc_Kind (sort_key sc_Index
       (List.map_filter (\<lambda>(key, _). map_option (\<lambda>(k, n). \<lparr>sc_Kind = k, sc_Index = n\<rparr>) (keyed_component key)) status))"

definition sameComponents :: "shelly_component list \<Rightarrow> shelly_component list \<Rightarrow> bool" where
  "sameComponents a b \<longleftrightarrow> a = b"

section \<open>Status\<close>

text \<open>One component of a payload merged onto the cache: a null takes the field away.\<close>

definition merge_fields :: "obj \<Rightarrow> obj \<Rightarrow> obj" where
  "merge_fields delta existing =
     fold (\<lambda>(k, v) m. if v = GNil then AList.delete k m else AList.update k v m) delta existing"

definition merge_status :: "obj \<Rightarrow> (string, obj) gomap \<Rightarrow> (string, obj) gomap" where
  "merge_status payload cache =
     fold (\<lambda>(k, v) m. if k = ''ts'' then m
                       else case v of GObj delta \<Rightarrow> AList.update k (merge_fields delta (go_get [] m k)) m | _ \<Rightarrow> m) payload cache"

fun lookup_path :: "string list \<Rightarrow> gany \<Rightarrow> gany option" where
  "lookup_path [] v = Some v"
| "lookup_path (p # ps) (GObj m) = (case map_of m p of None \<Rightarrow> None | Some v \<Rightarrow> lookup_path ps v)"
| "lookup_path (p # ps) _ = None"

definition lookupDotted :: "obj option \<Rightarrow> string \<Rightarrow> gany option" where
  "lookupDotted fm path = (case fm of None \<Rightarrow> None | Some m \<Rightarrow> lookup_path (split_at_char (CHR ''.'') path) (GObj m))"

definition as_number :: "gany option \<Rightarrow> f64 option" where
  "as_number v = (case v of Some (GFloat x) \<Rightarrow> Some x | _ \<Rightarrow> None)"

definition numberFieldDotted :: "obj option \<Rightarrow> string \<Rightarrow> f64 option" where
  "numberFieldDotted fm path = as_number (lookupDotted fm path)"

definition boolField_shelly :: "obj option \<Rightarrow> string \<Rightarrow> bool option" where
  "boolField_shelly m key = (case Option.bind m (\<lambda>x. map_of x key) of Some (GBool b) \<Rightarrow> Some b | _ \<Rightarrow> None)"

definition numberField_shelly :: "obj option \<Rightarrow> string \<Rightarrow> f64 option" where
  "numberField_shelly m key = as_number (Option.bind m (\<lambda>x. map_of x key))"

definition clampF_shelly :: "f64 \<Rightarrow> f64 \<Rightarrow> f64 \<Rightarrow> f64" where
  "clampF_shelly v lo hi = (if f64_less v lo then lo else if f64_less hi v then hi else v)"

definition switchChannelValue :: "obj option \<Rightarrow> f64 option" where
  "switchChannelValue fm = map_option (\<lambda>on. if on then f64_hundred else f64_zero) (boolField_shelly fm ''output'')"

definition lightChannelValue :: "obj option \<Rightarrow> f64 option" where
  "lightChannelValue fm =
     (case boolField_shelly fm ''output'' of
        None \<Rightarrow> None
      | Some on \<Rightarrow>
          if \<not> on then Some f64_zero
          else (case numberField_shelly fm ''brightness'' of
                  Some bri \<Rightarrow> Some (clampF_shelly bri f64_zero f64_hundred)
                | None \<Rightarrow> Some f64_hundred))"

section \<open>Entities\<close>

definition shellySensorMeta :: "string \<Rightarrow> sensor_descriptor option" where
  "shellySensorMeta = map_of
    [(''voltage'', meta 4 0 ''voltage'' 0 500 f64_tenth ''volt'' ''V''),
     (''apower'', meta 14 0 ''power'' 0 10000 f64_one ''watt'' ''W''),
     (''current'', meta 15 0 ''current'' 0 100 f64_tenth ''ampere'' ''A''),
     (''aenergy.total'', meta 16 0 ''energy'' 0 10000000 f64_tenth ''kilowatt_hour'' ''kWh''),
     (''temperature.tC'', meta 1 1 ''temperature'' (-40) 125 f64_tenth ''celsius'' celsius)]"

record shelly_sensor =
  hf_Source :: shelly_component
  hf_Field :: string
  hf_Index :: int
  hf_Meta :: sensor_descriptor

record shelly_binary =
  hb_Source :: shelly_component
  hb_Field :: string
  hb_Index :: int

record entity_spec =
  en_Component :: shelly_component
  en_Kind :: string
  en_SensorFeatures :: "shelly_sensor list"
  en_BinaryFeatures :: "shelly_binary list"

definition entity_spec0 :: "shelly_component \<Rightarrow> string \<Rightarrow> entity_spec" where
  "entity_spec0 c kind = \<lparr>en_Component = c, en_Kind = kind, en_SensorFeatures = [], en_BinaryFeatures = []\<rparr>"

definition appendPresentSensorFeatures ::
  "shelly_component \<Rightarrow> obj option \<Rightarrow> string list \<Rightarrow> shelly_sensor list \<Rightarrow> shelly_sensor list" where
  "appendPresentSensorFeatures src fm names feats =
     fold (\<lambda>name fs.
       case (lookupDotted fm name, shellySensorMeta name) of
         (Some _, Some m) \<Rightarrow> fs @ [\<lparr>hf_Source = src, hf_Field = name, hf_Index = int (length fs), hf_Meta = m\<rparr>]
       | _ \<Rightarrow> fs) names feats"

definition meter_fields :: "string list" where
  "meter_fields = [''apower'', ''voltage'', ''current'', ''aenergy.total'']"

text \<open>What one component adds to the entities, the sensors and the inputs.\<close>

definition component_step :: "(string, obj) gomap \<Rightarrow> (int, string) gomap \<Rightarrow> shelly_component \<Rightarrow>
    entity_spec list \<times> shelly_sensor list \<times> shelly_binary list \<Rightarrow> entity_spec list \<times> shelly_sensor list \<times> shelly_binary list" where
  "component_step status input_types c acc =
     (case acc of (es, ss, bs) \<Rightarrow>
        let fm = map_of status (component_key c)
        in if sc_Kind c = ''switch'' then
             (es @ [entity_spec0 c ''light''], appendPresentSensorFeatures c fm (meter_fields @ [''temperature.tC'']) ss, bs)
           else if sc_Kind c = ''light'' then
             (es @ [entity_spec0 c ''dimmer''], appendPresentSensorFeatures c fm (meter_fields @ [''temperature.tC'']) ss, bs)
           else if sc_Kind c = ''pm1'' then (es, appendPresentSensorFeatures c fm meter_fields ss, bs)
           else if sc_Kind c = ''input'' then
             (if map_of input_types (sc_Index c) = Some ''button'' then (es @ [entity_spec0 c ''button''], ss, bs)
              else (es, ss, bs @ [\<lparr>hb_Source = c, hb_Field = ''state'', hb_Index = int (length bs)\<rparr>]))
           else acc)"

definition buildEntities :: "shelly_component list \<Rightarrow> (string, obj) gomap \<Rightarrow> (int, string) gomap \<Rightarrow> entity_spec list" where
  "buildEntities components status input_types =
     (case fold (component_step status input_types) components ([], [], []) of
        (es, ss, bs) \<Rightarrow>
          if ss = [] \<and> bs = [] then es
          else es @ [\<lparr>en_Component = \<lparr>sc_Kind = ''sensor'', sc_Index = 0\<rparr>, en_Kind = (if ss = [] then ''binary'' else ''sensor''),
                      en_SensorFeatures = ss, en_BinaryFeatures = bs\<rparr>])"

definition entityForComponent :: "entity_spec list \<Rightarrow> shelly_component \<Rightarrow> entity_spec option" where
  "entityForComponent es c = find (\<lambda>e. en_Component e = c) es"

end
