(* ===== verification/Shelly_Plugin.thy ===== *)
theory Shelly_Plugin
  imports Shelly_Device
begin

text \<open>
  The Shelly plugin (\<^verbatim>\<open>pkg/bridge/shelly/shelly.go\<close>), its scanner (\<^verbatim>\<open>scanner.go\<close>) and the client of
  a device (\<^verbatim>\<open>client.go\<close>, \<^verbatim>\<open>rpc.go\<close>). The subscriptions of a device share one client that counts
  them. What the goroutines of the scanner and of a client do is one step each, in any order with the
  operations of the plugin. Requests are outcomes (\<open>he_call\<close>), JSON is decoded by parameters.
\<close>

section \<open>State\<close>

record shelly_event =
  hv_Component :: string
  hv_Event :: string

record rpc_frame =
  rf_ID :: "int option"
  rf_Method :: string
  rf_Params :: string
  rf_Result :: string
  rf_Error :: bool

record shelly_env =
  he_frame :: "string \<Rightarrow> rpc_frame option"
  he_events :: "string \<Rightarrow> shelly_event list option"
  he_status :: "string \<Rightarrow> obj option"
  he_call :: "string \<Rightarrow> string \<Rightarrow> obj \<Rightarrow> string option"
  he_quote :: "string \<Rightarrow> string"

record shelly_device =
  hd_ID :: string
  hd_Name :: string
  hd_Model :: string
  hd_Gen :: int
  hd_FW :: string
  hd_Addr :: string
  hd_Components :: "shelly_component list"
  hd_Entities :: "entity_spec list"

record shelly_client =
  hc_addr :: string
  hc_status :: "(string, obj) gomap"
  hc_refs :: int

record shelly_sub =
  hs_mapping :: mapping
  hs_deviceID :: string
  hs_identity :: shelly_component
  hs_spec :: entity_spec
  hs_activated :: bool

record shelly =
  h_id :: string
  h_status :: string
  h_devices :: "(string, shelly_device) gomap"
  h_byAddr :: "(string, string) gomap"
  h_inFlight :: "string list"
  h_subscribed :: "(string, shelly_sub) gomap"
  h_clients :: "(string, shelly_client) gomap"
  h_sent :: "(string \<times> string \<times> obj) list"

definition shelly_new :: "string \<Rightarrow> shelly" where
  "shelly_new i = \<lparr>h_id = i, h_status = ''not_initialized'', h_devices = [], h_byAddr = [], h_inFlight = [], h_subscribed = [],
     h_clients = [], h_sent = []\<rparr>"

text \<open>The subscriptions of a device that satisfy a condition, with their dSUIDs, in the order of the map.\<close>

definition subs_of :: "(shelly_sub \<Rightarrow> bool) \<Rightarrow> string \<Rightarrow> shelly \<Rightarrow> (string \<times> shelly_sub) list" where
  "subs_of p dev s = filter (\<lambda>(u, x). hs_deviceID x = dev \<and> p x) (h_subscribed s)"

section \<open>Reporting\<close>

definition sensor_call :: "string \<Rightarrow> (string, obj) gomap \<Rightarrow> shelly_sensor \<Rightarrow> host_call list" where
  "sensor_call u status sf =
     (case numberFieldDotted (map_of status (component_key (hf_Source sf))) (hf_Field sf) of
        None \<Rightarrow> []
      | Some v \<Rightarrow> [HSensor u (hf_Index sf) (if hf_Field sf = ''aenergy.total'' then f64_div v (f64_of_int 1000) else v)])"

definition input_call :: "string \<Rightarrow> (string, obj) gomap \<Rightarrow> shelly_binary \<Rightarrow> host_call list" where
  "input_call u status bf =
     (case boolField_shelly (map_of status (component_key (hb_Source bf))) (hb_Field bf) of
        None \<Rightarrow> []
      | Some v \<Rightarrow> [HInput u (hb_Index bf) (if v then f64_one else f64_zero)])"

definition channel_call :: "string \<Rightarrow> f64 option \<Rightarrow> host_call list" where
  "channel_call u v = (case v of None \<Rightarrow> [] | Some x \<Rightarrow> [HChannel u 0 x])"

definition applySpec :: "(string, obj) gomap \<Rightarrow> shelly_sub \<Rightarrow> host_call list" where
  "applySpec status sub =
     (let u = m_DSUID (hs_mapping sub); kind = en_Kind (hs_spec sub); own = map_of status (component_key (hs_identity sub))
      in if kind = ''light'' then channel_call u (switchChannelValue own) @ [HActive u True]
         else if kind = ''dimmer'' then channel_call u (lightChannelValue own) @ [HActive u True]
         else if kind = ''sensor'' \<or> kind = ''binary'' then
           concat (map (sensor_call u status) (en_SensorFeatures (hs_spec sub))) @
           concat (map (input_call u status) (en_BinaryFeatures (hs_spec sub))) @ [HActive u True]
         else [])"

definition handleStatus :: "string \<Rightarrow> (string, obj) gomap \<Rightarrow> shelly \<Rightarrow> host_call list" where
  "handleStatus dev status s = concat (map (\<lambda>(u, x). applySpec status x) (subs_of hs_activated dev s))"

definition mapInputEvent :: "string \<Rightarrow> string" where
  "mapInputEvent ev = (case map_of [(''single_push'', ''tip''), (''double_push'', ''tip2''), (''triple_push'', ''tip3''), (''long_push'', ''hold'')] ev of
     Some a \<Rightarrow> a | None \<Rightarrow> [])"

definition dispatch_button :: "string \<Rightarrow> shelly_sub \<Rightarrow> host_call list" where
  "dispatch_button action sub =
     (let u = m_DSUID (hs_mapping sub) in [HButton u 0 f64_one, HButtonAction u 0 action, HButton u 0 f64_zero])"

definition handleEvents :: "string \<Rightarrow> shelly_event list \<Rightarrow> shelly \<Rightarrow> host_call list" where
  "handleEvents dev evs s =
     concat (map (\<lambda>ev. let action = mapInputEvent (hv_Event ev)
        in if action = [] then []
           else concat (map (\<lambda>(u, x). if component_key (hs_identity x) = hv_Component ev then dispatch_button action x else [])
                  (subs_of (\<lambda>x. hs_activated x \<and> en_Kind (hs_spec x) = ''button'') dev s))) evs)"

definition handleConnState :: "string \<Rightarrow> string \<Rightarrow> shelly \<Rightarrow> host_call list" where
  "handleConnState dev state s =
     map (\<lambda>(u, x). HActive u (state = ''connected'')) (subs_of (\<lambda>_. True) dev s) @
     (if state = ''connected'' then [HLog ''info'' ''connect_ok'' ''Shelly device connected'' [(''device_id'', GStr dev)]]
      else if state = ''reconnecting'' then [HLog ''warn'' ''connect_failed'' ''Shelly device disconnected'' [(''device_id'', GStr dev)]]
      else [])"

section \<open>The client of a device\<close>

definition merged :: "string \<Rightarrow> obj \<Rightarrow> shelly plugin_step" where
  "merged dev payload s =
     (case map_of (h_clients s) dev of
        None \<Rightarrow> (s, [])
      | Some c \<Rightarrow>
          let status = merge_status payload (hc_status c)
          in (s\<lparr>h_clients := AList.update dev (c\<lparr>hc_status := status\<rparr>) (h_clients s)\<rparr>, handleStatus dev status s))"

definition handleFrame :: "shelly_env \<Rightarrow> string \<Rightarrow> string \<Rightarrow> shelly plugin_step" where
  "handleFrame env dev msg s =
     (case he_frame env msg of
        None \<Rightarrow> (s, [])
      | Some f \<Rightarrow>
          if rf_Error f then (s, [])
          else if rf_Method f = ''NotifyEvent'' then
            (s, case he_events env (rf_Params f) of None \<Rightarrow> [] | Some evs \<Rightarrow> handleEvents dev evs s)
          else
            (case (if rf_Method f = ''NotifyStatus'' \<or> rf_Method f = ''NotifyFullStatus'' then he_status env (rf_Params f)
                   else if rf_ID f \<noteq> None \<and> rf_Result f \<noteq> [] then he_status env (rf_Result f) else None) of
               None \<Rightarrow> (s, [])
             | Some payload \<Rightarrow> merged dev payload s))"

text \<open>A poll that failed, or whose answer is no object, is \<open>None\<close>.\<close>

definition pollOnce_shelly :: "string \<Rightarrow> obj option \<Rightarrow> shelly plugin_step" where
  "pollOnce_shelly dev answer s = (case answer of None \<Rightarrow> (s, []) | Some payload \<Rightarrow> merged dev payload s)"

definition setConnState :: "string \<Rightarrow> string \<Rightarrow> shelly plugin_step" where
  "setConnState dev state s = (s, if go_has (h_clients s) dev then handleConnState dev state s else [])"

datatype shelly_input = SFrame string | SHeartbeat "obj option"

fun client_input :: "shelly_env \<Rightarrow> string \<Rightarrow> shelly_input \<Rightarrow> shelly plugin_step" where
  "client_input env dev (SFrame msg) s = handleFrame env dev msg s"
| "client_input env dev (SHeartbeat a) s = pollOnce_shelly dev a s"

text \<open>The websocket cannot be opened, the first request cannot be written, or it is read until it fails.\<close>

datatype shelly_life = SDialFailed "obj option" | SWriteFailed | SRead "shelly_input list"

definition runWS_shelly :: "shelly_env \<Rightarrow> string \<Rightarrow> shelly_life \<Rightarrow> shelly plugin_step" where
  "runWS_shelly env dev life =
     (case life of
        SDialFailed a \<Rightarrow> pollOnce_shelly dev a
      | SWriteFailed \<Rightarrow> (\<lambda>s. (s, []))
      | SRead xs \<Rightarrow> then_step (setConnState dev ''connected'') (each_step (client_input env dev) xs))"

definition run_turn :: "shelly_env \<Rightarrow> string \<Rightarrow> shelly_life \<Rightarrow> shelly plugin_step" where
  "run_turn env dev life =
     then_step (setConnState dev ''connecting'') (then_step (runWS_shelly env dev life) (setConnState dev ''reconnecting''))"

definition call_rpc :: "shelly_env \<Rightarrow> string \<Rightarrow> string \<Rightarrow> obj \<Rightarrow> shelly \<Rightarrow> shelly \<times> string option" where
  "call_rpc env addr rpc params s = (s\<lparr>h_sent := h_sent s @ [(addr, rpc, params)]\<rparr>, he_call env addr rpc params)"

definition setSwitch :: "shelly_env \<Rightarrow> string \<Rightarrow> int \<Rightarrow> bool \<Rightarrow> shelly \<Rightarrow> shelly \<times> string option" where
  "setSwitch env addr i on = call_rpc env addr ''Switch.Set'' [(''id'', GInt i), (''on'', GBool on)]"

definition setLight :: "shelly_env \<Rightarrow> string \<Rightarrow> int \<Rightarrow> bool \<Rightarrow> f64 option \<Rightarrow> shelly \<Rightarrow> shelly \<times> string option" where
  "setLight env addr i on bri = call_rpc env addr ''Light.Set''
     ([(''id'', GInt i), (''on'', GBool on)] @ (case bri of None \<Rightarrow> [] | Some b \<Rightarrow> [(''brightness'', GFloat b)]))"

section \<open>Subscriptions\<close>

definition pushDescriptors :: "shelly_sub \<Rightarrow> host_call list" where
  "pushDescriptors sub =
     (let u = m_DSUID (hs_mapping sub)
      in map (\<lambda>sf. HSensorDescriptor u (hf_Index sf) (hf_Meta sf)) (en_SensorFeatures (hs_spec sub)) @
         map (\<lambda>bf. HInputDescriptor u (hb_Index bf) \<lparr>id_Name = ''input '' @ itoa (sc_Index (hb_Source bf)), id_Function = 0\<rparr>)
           (en_BinaryFeatures (hs_spec sub)) @
         [HReAnnounce u])"

definition new_client :: "string \<Rightarrow> shelly_client" where
  "new_client addr = \<lparr>hc_addr = addr, hc_status = [], hc_refs = 0\<rparr>"

definition activate_shelly :: "string \<Rightarrow> shelly_device \<Rightarrow> shelly plugin_step" where
  "activate_shelly u dev s =
     (case map_of (h_subscribed s) u of
        None \<Rightarrow> (s, [])
      | Some sub \<Rightarrow>
          if hs_activated sub then (s, [])
          else
            (case entityForComponent (hd_Entities dev) (hs_identity sub) of
               None \<Rightarrow> (s, [])
             | Some spec \<Rightarrow>
                 let sub = sub\<lparr>hs_spec := spec, hs_activated := True\<rparr>;
                     c = go_get (new_client (hd_Addr dev)) (h_clients s) (hd_ID dev)
                 in (s\<lparr>h_subscribed := AList.update u sub (h_subscribed s),
                       h_clients := AList.update (hd_ID dev) (c\<lparr>hc_refs := hc_refs c + 1\<rparr>) (h_clients s)\<rparr>,
                     (if en_Kind spec = ''sensor'' \<or> en_Kind spec = ''binary'' then pushDescriptors sub else []) @
                     applySpec (hc_status c) sub @
                     [HLog ''info'' ''subscribe_ok'' ''device subscribed''
                        [(''dsuid'', GStr (m_DSUID (hs_mapping sub))), (''device_id'', GStr (hd_ID dev)),
                         (''component'', GStr (component_key (hs_identity sub)))]])))"

definition no_spec :: entity_spec where
  "no_spec = entity_spec0 \<lparr>sc_Kind = [], sc_Index = 0\<rparr> []"

definition h_Subscribe :: "shelly_env \<Rightarrow> mapping \<Rightarrow> shelly \<Rightarrow> shelly \<times> string option \<times> host_call list" where
  "h_Subscribe env m s =
     (case parseEntityID_shelly (m_RemoteEntityID m) of
        None \<Rightarrow> (s, Some (''shelly: invalid remote entity id '' @ he_quote env (m_RemoteEntityID m)), [])
      | Some (dev, c) \<Rightarrow>
          let s = s\<lparr>h_subscribed := AList.update (m_DSUID m)
                \<lparr>hs_mapping = m, hs_deviceID = dev, hs_identity = c, hs_spec = no_spec, hs_activated = False\<rparr> (h_subscribed s)\<rparr>
          in case map_of (h_devices s) dev of
               None \<Rightarrow> (s, None, [HLog ''info'' ''subscribe_ok'' ''subscription registered, waiting for device''
                                    [(''dsuid'', GStr (m_DSUID m)), (''device_id'', GStr dev)]])
             | Some d \<Rightarrow> (case activate_shelly (m_DSUID m) d s of (s, cs) \<Rightarrow> (s, None, cs)))"

definition release_client :: "string \<Rightarrow> shelly \<Rightarrow> shelly" where
  "release_client dev s =
     (case map_of (h_clients s) dev of
        None \<Rightarrow> s
      | Some c \<Rightarrow> s\<lparr>h_clients := (if hc_refs c - 1 \<le> 0 then AList.delete dev (h_clients s)
                                 else AList.update dev (c\<lparr>hc_refs := hc_refs c - 1\<rparr>) (h_clients s))\<rparr>)"

definition h_Unsubscribe :: "string \<Rightarrow> shelly \<Rightarrow> shelly" where
  "h_Unsubscribe u s =
     (case map_of (h_subscribed s) u of
        None \<Rightarrow> s
      | Some sub \<Rightarrow> release_client (hs_deviceID sub) (s\<lparr>h_subscribed := AList.delete u (h_subscribed s)\<rparr>))"

definition h_Apply :: "shelly_env \<Rightarrow> mapping \<Rightarrow> command \<Rightarrow> shelly \<Rightarrow> shelly \<times> string option" where
  "h_Apply env m cmd s =
     (case map_of (h_subscribed s) (m_DSUID m) of
        None \<Rightarrow> (s, Some (''shelly: device '' @ he_quote env (m_RemoteEntityID m) @ '' not connected''))
      | Some sub \<Rightarrow>
          (case map_of (h_clients s) (hs_deviceID sub) of
             None \<Rightarrow> (s, Some (''shelly: device '' @ he_quote env (m_RemoteEntityID m) @ '' not connected''))
           | Some c \<Rightarrow>
               let i = sc_Index (hs_identity sub); kind = sc_Kind (hs_identity sub); x = c_Value cmd
               in if c_Type cmd \<noteq> ''setChannel'' \<or> c_Channel cmd \<noteq> 0 then (s, None)
                  else if kind = ''switch'' then setSwitch env (hc_addr c) i (f64_less f64_zero x) s
                  else if kind = ''light'' then
                    (if f64_le x f64_zero then setLight env (hc_addr c) i False None s
                     else setLight env (hc_addr c) i True (Some (clampF_shelly x f64_zero f64_hundred)) s)
                  else (s, None)))"

definition h_Close :: "shelly \<Rightarrow> shelly" where
  "h_Close s = s\<lparr>h_clients := [], h_subscribed := []\<rparr>"

section \<open>The scanner\<close>

definition deactivate :: "string \<Rightarrow> shelly_sub \<Rightarrow> shelly_sub" where
  "deactivate i x = (if hs_deviceID x = i then x\<lparr>hs_activated := False\<rparr> else x)"

definition drop_stale :: "shelly_device \<Rightarrow> shelly \<Rightarrow> shelly" where
  "drop_stale dev s =
     (case map_of (h_clients s) (hd_ID dev) of
        Some c \<Rightarrow>
          if hc_addr c \<noteq> hd_Addr dev then
            s\<lparr>h_clients := AList.delete (hd_ID dev) (h_clients s),
              h_subscribed := map (\<lambda>(u, x). (u, deactivate (hd_ID dev) x)) (h_subscribed s)\<rparr>
          else s
      | None \<Rightarrow> s)"

definition onDeviceFound_shelly :: "shelly_device \<Rightarrow> shelly plugin_step" where
  "onDeviceFound_shelly dev s =
     (let s = drop_stale dev s
      in then_step
           (\<lambda>s. (s, [HLog ''info'' ''entity_added'' ''Shelly device found via mDNS''
                       [(''id'', GStr (hd_ID dev)), (''model'', GStr (hd_Model dev)), (''addr'', GStr (hd_Addr dev)), (''gen'', GInt (hd_Gen dev))],
                     HDiscovery]))
           (each_step (\<lambda>u. activate_shelly u dev) (map fst (subs_of (\<lambda>x. \<not> hs_activated x) (hd_ID dev) s))) s)"

record shelly_entry =
  ht_IPv4 :: "string list"
  ht_Port :: int
  ht_Text :: "string list"

text \<open>A generation that is no number counts as 0 (and so does one beyond 64 bits, which no device has).\<close>

definition entry_gen :: "string list \<Rightarrow> int" where
  "entry_gen txts = fold (\<lambda>txt g. if take 4 (to_lower txt) = ''gen='' then (case atoi (drop 4 txt) of Some n \<Rightarrow> n | None \<Rightarrow> 0) else g) txts 0"

definition handleEntry_shelly :: "shelly_entry \<Rightarrow> shelly \<Rightarrow> shelly" where
  "handleEntry_shelly e s =
     (case ht_IPv4 e of
        [] \<Rightarrow> s
      | ip # _ \<Rightarrow>
          let addr = ip @ '':'' @ itoa (ht_Port e)
          in if entry_gen (ht_Text e) < 2 \<or> go_has (h_byAddr s) addr \<or> addr \<in> set (h_inFlight s) then s
             else s\<lparr>h_inFlight := h_inFlight s @ [addr]\<rparr>)"

record device_info =
  di_ID :: string
  di_Gen :: int
  di_App :: string
  di_Ver :: string
  di_Name :: "string option"
  di_AuthEnabled :: bool

text \<open>The answers to the requests of one enrichment; the configuration of an input may fail.\<close>

record enrich_answers =
  ea_info :: "string + device_info"
  ea_status :: "string + (string, obj) gomap"
  ea_inputs :: "int \<Rightarrow> string option"

definition scan_error :: "string \<Rightarrow> shelly plugin_step" where
  "scan_error e s =
     (s\<lparr>h_status := ''degraded''\<rparr>, [HLog ''warn'' ''entity_error'' ''Shelly discovery error'' [(''error'', GStr e)]])"

text \<open>A dash in UTF-8.\<close>

definition em_dash :: string where "em_dash = [CHR 0xE2, CHR 0x80, CHR 0x94]"

definition scan_started :: "shelly \<Rightarrow> shelly" where
  "scan_started s = s\<lparr>h_status := ''connected''\<rparr>"

definition input_types :: "(int \<Rightarrow> string option) \<Rightarrow> shelly_component list \<Rightarrow> (int, string) gomap" where
  "input_types cfg cs =
     fold (\<lambda>c m. if sc_Kind c \<noteq> ''input'' then m
                 else case cfg (sc_Index c) of None \<Rightarrow> m | Some t \<Rightarrow> AList.update (sc_Index c) t m) cs []"

definition enriched_device :: "string \<Rightarrow> device_info \<Rightarrow> (string, obj) gomap \<Rightarrow> (int \<Rightarrow> string option) \<Rightarrow> shelly_device" where
  "enriched_device addr info status cfg =
     (let cs = parseComponents status
      in \<lparr>hd_ID = di_ID info, hd_Name = (case di_Name info of None \<Rightarrow> [] | Some n \<Rightarrow> n), hd_Model = di_App info, hd_Gen = di_Gen info,
          hd_FW = di_Ver info, hd_Addr = addr, hd_Components = cs, hd_Entities = buildEntities cs status (input_types cfg cs)\<rparr>)"

definition record_device :: "shelly_device \<Rightarrow> shelly plugin_step" where
  "record_device d s =
     (let old = map_of (h_devices s) (hd_ID d);
          s = s\<lparr>h_devices := AList.update (hd_ID d) d (h_devices s), h_byAddr := AList.update (hd_Addr d) (hd_ID d) (h_byAddr s)\<rparr>
      in case old of
           Some x \<Rightarrow> if hd_Addr x \<noteq> hd_Addr d \<or> \<not> sameComponents (hd_Components x) (hd_Components d) then onDeviceFound_shelly d s else (s, [])
         | None \<Rightarrow> onDeviceFound_shelly d s)"

definition enrich :: "string \<Rightarrow> enrich_answers \<Rightarrow> shelly plugin_step" where
  "enrich addr a =
     then_step
       (\<lambda>s. case ea_info a of
              Inl e \<Rightarrow> scan_error (''shelly '' @ addr @ '': '' @ e) s
            | Inr info \<Rightarrow>
                if di_AuthEnabled info then
                  scan_error (''shelly '' @ addr @ '' ('' @ di_ID info @ ''): authentication is enabled, unsupported '' @ em_dash @ '' skipping'') s
                else (case ea_status a of
                        Inl e \<Rightarrow> scan_error (''shelly '' @ addr @ '': '' @ e) s
                      | Inr status \<Rightarrow> record_device (enriched_device addr info status (ea_inputs a)) s))
       (\<lambda>s. (s\<lparr>h_inFlight := removeAll addr (h_inFlight s)\<rparr>, []))"

section \<open>The rest of the plugin interface\<close>

definition h_Init :: "shelly \<Rightarrow> shelly" where
  "h_Init s = s\<lparr>h_status := ''starting'', h_devices := [], h_byAddr := [], h_inFlight := []\<rparr>"

definition h_Stats :: "shelly \<Rightarrow> nat \<times> nat" where
  "h_Stats s = (sum_list (map (\<lambda>(k, d). length (hd_Entities d)) (h_devices s)), length (h_subscribed s))"

definition entitySuffix :: "entity_spec \<Rightarrow> string" where
  "entitySuffix e =
     (if en_Kind e = ''sensor'' \<or> en_Kind e = ''binary'' then ''sensors''
      else if en_Kind e = ''button'' then ''button '' @ itoa (sc_Index (en_Component e))
      else component_key (en_Component e))"

definition displayName_shelly :: "shelly_device \<Rightarrow> string" where
  "displayName_shelly d = (if hd_Name d \<noteq> [] then hd_Name d else if hd_Model d \<noteq> [] then hd_Model d else hd_ID d)"

definition shelly_entity :: "shelly_device \<Rightarrow> entity_spec \<Rightarrow> string \<times> string \<times> string \<times> obj" where
  "shelly_entity d e =
     (entityID_shelly (hd_ID d) (en_Component e),
      (if 1 < length (hd_Entities d) then displayName_shelly d @ middle_dot @ entitySuffix e else displayName_shelly d),
      en_Kind e,
      [(''device_id'', GStr (hd_ID d)), (''addr'', GStr (hd_Addr d)), (''model'', GStr (hd_Model d)), (''gen'', GInt (hd_Gen d)),
       (''fw'', GStr (hd_FW d)), (''component'', GStr (component_key (en_Component e)))])"

definition h_Discover :: "shelly \<Rightarrow> (string \<times> string \<times> string \<times> obj) list" where
  "h_Discover s = concat (map (\<lambda>(k, d). map (shelly_entity d) (hd_Entities d)) (h_devices s))"

end
