(* ===== verification/Shelly_Properties.thy ===== *)
theory Shelly_Properties
  imports Shelly_Plugin Float_Value
begin

text \<open>
  What holds of the Shelly plugin: the client of a device counts its subscriptions, what that count
  misses, the devices the scanner never looks at again, and levels that come back.
\<close>

section \<open>The references of a client\<close>

definition counted :: "shelly \<Rightarrow> bool" where
  "counted s \<longleftrightarrow> distinct (map fst (h_subscribed s)) \<and> list_all (\<lambda>(k, d). hd_ID d = k) (h_devices s) \<and>
     (\<forall>dev. case map_of (h_clients s) dev of
        None \<Rightarrow> subs_of hs_activated dev s = []
      | Some c \<Rightarrow> hc_refs c = int (length (subs_of hs_activated dev s)) \<and> 0 < hc_refs c)"

definition refs :: "string \<Rightarrow> shelly \<Rightarrow> int" where
  "refs dev s = (case map_of (h_clients s) dev of None \<Rightarrow> 0 | Some c \<Rightarrow> hc_refs c)"

definition active_subs :: "string \<Rightarrow> (string, shelly_sub) gomap \<Rightarrow> (string, shelly_sub) gomap" where
  "active_subs dev m = filter (\<lambda>(u, x). hs_deviceID x = dev \<and> hs_activated x) m"

lemma subs_of_active: "subs_of hs_activated dev s = active_subs dev (h_subscribed s)"
  by (simp add: subs_of_def active_subs_def)

text \<open>The length of a filtered map when one entry is stored or deleted.\<close>

lemma length_update:
  assumes "distinct (map fst m)"
  shows "length (active_subs dev (AList.update k v m)) + (case map_of m k of Some x \<Rightarrow> if hs_deviceID x = dev \<and> hs_activated x then 1 else 0 | None \<Rightarrow> 0) =
    length (active_subs dev m) + (if hs_deviceID v = dev \<and> hs_activated v then 1 else 0)"
  using assms by (induction m) (auto simp: active_subs_def split: option.splits)

lemma delete_absent: "k \<notin> fst ` set m \<Longrightarrow> AList.delete k m = m"
  by (simp add: delete_id)

lemma length_delete:
  assumes "distinct (map fst m)" "map_of m k = Some x"
  shows "length (active_subs dev (AList.delete k m)) + (if hs_deviceID x = dev \<and> hs_activated x then 1 else 0) = length (active_subs dev m)"
  using assms
proof (induction m)
  case (Cons a m)
  show ?case
  proof (cases "fst a = k")
    case True
    then have "AList.delete k m = m" using Cons.prems(1) by (intro delete_absent) auto
    then show ?thesis using True Cons.prems by (cases a) (auto simp: active_subs_def)
  next
    case False
    then show ?thesis using Cons by (cases a) (auto simp: active_subs_def)
  qed
qed simp

lemma counted_refs:
  "counted s \<longleftrightarrow> distinct (map fst (h_subscribed s)) \<and> list_all (\<lambda>(k, d). hd_ID d = k) (h_devices s) \<and>
     (\<forall>dev. refs dev s = int (length (active_subs dev (h_subscribed s)))) \<and> (\<forall>dev c. map_of (h_clients s) dev = Some c \<longrightarrow> 0 < hc_refs c)"
  unfolding counted_def refs_def subs_of_active by (fastforce split: option.splits)

lemma counted_activate:
  assumes "counted s" "\<And>x. map_of (h_subscribed s) u = Some x \<Longrightarrow> hs_deviceID x = hd_ID dev"
  shows "counted (fst (activate_shelly u dev s))"
proof (cases "\<exists>x spec. map_of (h_subscribed s) u = Some x \<and> \<not> hs_activated x \<and> entityForComponent (hd_Entities dev) (hs_identity x) = Some spec")
  case True
  then obtain x spec where x: "map_of (h_subscribed s) u = Some x" "\<not> hs_activated x"
    "entityForComponent (hd_Entities dev) (hs_identity x) = Some spec" by blast
  let ?x = "x\<lparr>hs_spec := spec, hs_activated := True\<rparr>"
  let ?c = "go_get (new_client (hd_Addr dev)) (h_clients s) (hd_ID dev)"
  let ?s = "fst (activate_shelly u dev s)"
  have s: "h_subscribed ?s = AList.update u ?x (h_subscribed s)" "h_devices ?s = h_devices s"
    "h_clients ?s = AList.update (hd_ID dev) (?c\<lparr>hc_refs := hc_refs ?c + 1\<rparr>) (h_clients s)"
    using x by (simp_all add: activate_shelly_def Let_def)
  have d: "distinct (map fst (h_subscribed s))" and r: "\<And>dv. refs dv s = int (length (active_subs dv (h_subscribed s)))"
    and p: "\<And>dv c. map_of (h_clients s) dv = Some c \<Longrightarrow> 0 < hc_refs c" and h: "list_all (\<lambda>(k, d). hd_ID d = k) (h_devices s)"
    using assms(1) unfolding counted_refs by auto
  have c: "hc_refs ?c = refs (hd_ID dev) s" by (simp add: go_get_def refs_def new_client_def split: option.split)
  have "0 \<le> refs (hd_ID dev) s" using r by simp
  then have pos: "\<And>dv c. map_of (h_clients ?s) dv = Some c \<Longrightarrow> 0 < hc_refs c" using p c by (auto simp: s(3) update_conv' split: if_splits)
  have "refs dv ?s = int (length (active_subs dv (h_subscribed ?s)))" for dv
  proof -
    have "refs dv ?s = refs dv s + (if dv = hd_ID dev then 1 else 0)" using c by (simp add: refs_def s(3) update_conv')
    moreover have "length (active_subs dv (h_subscribed ?s)) = length (active_subs dv (h_subscribed s)) + (if dv = hd_ID dev then 1 else 0)"
      using length_update [OF d, of dv u ?x] x assms(2) [OF x(1)] by (simp add: s(1) split: if_splits)
    ultimately show ?thesis using r by simp
  qed
  then show ?thesis using pos d h unfolding counted_refs by (simp add: s distinct_update)
next
  case False
  then have "fst (activate_shelly u dev s) = s" by (auto simp: activate_shelly_def split: option.split)
  then show ?thesis using assms(1) by simp
qed

lemma activate_keeps:
  "h_devices (fst (activate_shelly u dev s)) = h_devices s"
  "map_of (h_subscribed (fst (activate_shelly u dev s))) v = Some y \<Longrightarrow> \<exists>x. map_of (h_subscribed s) v = Some x \<and> hs_deviceID y = hs_deviceID x"
  by (auto simp: activate_shelly_def Let_def update_conv' split: option.splits if_splits)

lemma counted_each:
  assumes "counted s" "\<And>u x. u \<in> set us \<Longrightarrow> map_of (h_subscribed s) u = Some x \<Longrightarrow> hs_deviceID x = hd_ID dev"
  shows "counted (fst (each_step (\<lambda>u. activate_shelly u dev) us s))"
  using assms
proof (induction us arbitrary: s)
  case (Cons u us)
  have "counted (fst (activate_shelly u dev s))" using Cons.prems by (intro counted_activate) auto
  moreover have "hs_deviceID y = hd_ID dev" if "v \<in> set us" "map_of (h_subscribed (fst (activate_shelly u dev s))) v = Some y" for v y
    using activate_keeps(2) [OF that(2)] Cons.prems(2) that(1) by fastforce
  ultimately have "counted (fst (each_step (\<lambda>u. activate_shelly u dev) us (fst (activate_shelly u dev s))))" by (rule Cons.IH)
  then show ?case by (simp add: then_step_def case_prod_unfold)
qed simp

lemma deactivate_simps [simp]: "hs_deviceID (deactivate i x) = hs_deviceID x" "hs_activated (deactivate i x) \<longleftrightarrow> hs_activated x \<and> hs_deviceID x \<noteq> i"
  by (simp_all add: deactivate_def)

lemma length_drop: "length (active_subs dv (map (\<lambda>(u, x). (u, deactivate i x)) m)) = (if dv = i then 0 else length (active_subs dv m))"
  by (cases "dv = i") (auto simp: active_subs_def filter_map comp_def case_prod_unfold filter_empty_conv intro!: arg_cong [where f = length] filter_cong)

lemma counted_drop_stale: "counted s \<Longrightarrow> counted (drop_stale dev s)"
proof -
  assume c: "counted s"
  then have r: "\<And>dv. refs dv s = int (length (active_subs dv (h_subscribed s)))" "distinct (map fst (h_subscribed s))"
    "list_all (\<lambda>(k, d). hd_ID d = k) (h_devices s)" "\<And>dv c. map_of (h_clients s) dv = Some c \<Longrightarrow> 0 < hc_refs c"
    unfolding counted_refs by auto
  let ?s = "s\<lparr>h_clients := AList.delete (hd_ID dev) (h_clients s),
      h_subscribed := map (\<lambda>(u, x). (u, deactivate (hd_ID dev) x)) (h_subscribed s)\<rparr>"
  have mm: "map fst (map (\<lambda>(u, x). (u, deactivate (hd_ID dev) x)) m) = map fst m" for m by (induction m) auto
  have k: "distinct (map fst (h_subscribed ?s))" using r(2) by (simp add: mm del: map_map)
  have "refs dv ?s = int (length (active_subs dv (h_subscribed ?s)))" for dv
    using r(1) [of dv] by (simp add: refs_def length_drop delete_conv')
  then have "counted ?s" unfolding counted_refs using r(3,4) k by (auto simp: delete_conv' split: if_splits)
  then show ?thesis using c by (simp add: drop_stale_def split: option.split)
qed

lemma counted_found: "counted s \<Longrightarrow> counted (fst (onDeviceFound_shelly dev s))"
proof -
  assume "counted s"
  then have c: "counted (drop_stale dev s)" by (rule counted_drop_stale)
  let ?us = "map fst (subs_of (\<lambda>x. \<not> hs_activated x) (hd_ID dev) (drop_stale dev s))"
  have "hs_deviceID x = hd_ID dev" if "u \<in> set ?us" "map_of (h_subscribed (drop_stale dev s)) u = Some x" for u x
  proof -
    from that(1) obtain y where y: "(u, y) \<in> set (h_subscribed (drop_stale dev s))" "hs_deviceID y = hd_ID dev" by (auto simp: subs_of_def)
    moreover have "distinct (map fst (h_subscribed (drop_stale dev s)))" using c by (simp add: counted_def)
    ultimately show ?thesis using that(2) by simp
  qed
  then have "counted (fst (each_step (\<lambda>u. activate_shelly u dev) ?us (drop_stale dev s)))" by (rule counted_each [OF c])
  then show ?thesis by (simp add: onDeviceFound_shelly_def Let_def then_step_def case_prod_unfold)
qed

text \<open>
  The reachable states of a plugin that is never subscribed twice under one dSUID and in which only
  those subscriptions are taken back that found their component or whose device has no client.
\<close>

inductive shelly_reach :: "shelly_env \<Rightarrow> string \<Rightarrow> shelly \<Rightarrow> bool" for env i where
  reach_new: "shelly_reach env i (shelly_new i)"
| reach_init: "shelly_reach env i s \<Longrightarrow> shelly_reach env i (h_Init s)"
| reach_subscribe: "shelly_reach env i s \<Longrightarrow> map_of (h_subscribed s) (m_DSUID m) = None \<Longrightarrow> shelly_reach env i (fst (h_Subscribe env m s))"
| reach_unsubscribe: "shelly_reach env i s \<Longrightarrow>
    (\<And>x. map_of (h_subscribed s) u = Some x \<Longrightarrow> hs_activated x \<or> map_of (h_clients s) (hs_deviceID x) = None) \<Longrightarrow>
    shelly_reach env i (h_Unsubscribe u s)"
| reach_apply: "shelly_reach env i s \<Longrightarrow> shelly_reach env i (fst (h_Apply env m cmd s))"
| reach_entry: "shelly_reach env i s \<Longrightarrow> shelly_reach env i (handleEntry_shelly e s)"
| reach_enrich: "shelly_reach env i s \<Longrightarrow> shelly_reach env i (fst (enrich addr a s))"
| reach_turn: "shelly_reach env i s \<Longrightarrow> shelly_reach env i (fst (run_turn env dev life s))"
| reach_input: "shelly_reach env i s \<Longrightarrow> shelly_reach env i (fst (client_input env dev x s))"
| reach_close: "shelly_reach env i s \<Longrightarrow> shelly_reach env i (h_Close s)"

text \<open>Steps that leave subscriptions, references and devices as they are.\<close>

definition same_counts :: "shelly \<Rightarrow> shelly \<Rightarrow> bool" where
  "same_counts s s' \<longleftrightarrow> h_subscribed s' = h_subscribed s \<and> h_devices s' = h_devices s \<and>
     (\<forall>dv. map_option hc_refs (map_of (h_clients s') dv) = map_option hc_refs (map_of (h_clients s) dv))"

lemma same_counts_refl [simp]: "same_counts s s"
  by (simp add: same_counts_def)

lemma same_counts_trans: "same_counts s s' \<Longrightarrow> same_counts s' s'' \<Longrightarrow> same_counts s s''"
  by (simp add: same_counts_def)

lemma same_counts_counted: "same_counts s s' \<Longrightarrow> counted s \<Longrightarrow> counted s'"
proof -
  assume c: "same_counts s s'" "counted s"
  then have m: "map_option hc_refs (map_of (h_clients s') dv) = map_option hc_refs (map_of (h_clients s) dv)" for dv
    by (simp add: same_counts_def)
  have "refs dv s' = refs dv s" for dv using m [of dv] by (auto simp: refs_def split: option.splits)
  moreover have "0 < hc_refs c'" if cl: "map_of (h_clients s') dv = Some c'" for dv c'
  proof -
    obtain c0 where "map_of (h_clients s) dv = Some c0" "hc_refs c0 = hc_refs c'" using m [of dv] cl by (cases "map_of (h_clients s) dv") auto
    then show ?thesis using c(2) unfolding counted_refs by metis
  qed
  ultimately show ?thesis using c unfolding counted_refs same_counts_def by simp
qed

lemma same_then: "same_counts s (fst (f s)) \<Longrightarrow> same_counts (fst (f s)) (fst (g (fst (f s)))) \<Longrightarrow> same_counts s (fst (then_step f g s))"
  by (simp add: then_step_def case_prod_unfold same_counts_trans)

lemma same_each: "(\<And>x s. same_counts s (fst (f x s))) \<Longrightarrow> same_counts s (fst (each_step f xs s))"
  by (induction xs arbitrary: s) (auto intro: same_then)

lemma same_merged: "same_counts s (fst (merged dev payload s))"
  by (auto simp: merged_def same_counts_def Let_def update_conv' split: option.split)

lemma same_input: "same_counts s (fst (client_input env dev x s))"
  by (cases x) (auto simp: handleFrame_def pollOnce_shelly_def Let_def same_merged split: option.split)

lemma same_turn: "same_counts s (fst (run_turn env dev life s))"
proof -
  have c: "same_counts s (fst (setConnState dev x s))" for x s by (simp add: setConnState_def)
  have "same_counts s (fst (runWS_shelly env dev life s))" for s
    by (cases life) (auto simp: runWS_shelly_def pollOnce_shelly_def same_merged intro!: same_then same_each same_input c split: option.split)
  then show ?thesis unfolding run_turn_def by (intro same_then c)
qed

lemma counted_subscribe:
  assumes "counted s" "map_of (h_subscribed s) (m_DSUID m) = None"
  shows "counted (fst (h_Subscribe env m s))"
proof (cases "parseEntityID_shelly (m_RemoteEntityID m)")
  case None
  then show ?thesis using assms(1) by (simp add: h_Subscribe_def)
next
  case (Some p)
  obtain dv c where p: "p = (dv, c)" by (cases p)
  let ?x = "\<lparr>hs_mapping = m, hs_deviceID = dv, hs_identity = c, hs_spec = no_spec, hs_activated = False\<rparr>"
  let ?s = "s\<lparr>h_subscribed := AList.update (m_DSUID m) ?x (h_subscribed s)\<rparr>"
  have d: "distinct (map fst (h_subscribed s))" using assms(1) by (simp add: counted_def)
  have "length (active_subs d' (AList.update (m_DSUID m) ?x (h_subscribed s))) = length (active_subs d' (h_subscribed s))" for d'
    using length_update [OF d, of d' "m_DSUID m" ?x] assms(2) by simp
  then have s: "counted ?s" using assms(1) unfolding counted_refs by (simp add: refs_def distinct_update)
  show ?thesis
  proof (cases "map_of (h_devices s) dv")
    case None
    then show ?thesis using s by (simp add: h_Subscribe_def Some p Let_def)
  next
    case (Some dev)
    then have "hd_ID dev = dv" using assms(1) by (auto simp: counted_def list_all_iff dest!: map_of_SomeD)
    then have "counted (fst (activate_shelly (m_DSUID m) dev ?s))" by (intro counted_activate [OF s]) (auto simp: update_conv')
    then show ?thesis using Some by (simp add: h_Subscribe_def \<open>parseEntityID_shelly (m_RemoteEntityID m) = Some p\<close> p Let_def case_prod_unfold)
  qed
qed

lemma counted_unsubscribe:
  assumes "counted s" "\<And>x. map_of (h_subscribed s) u = Some x \<Longrightarrow> hs_activated x \<or> map_of (h_clients s) (hs_deviceID x) = None"
  shows "counted (h_Unsubscribe u s)"
proof (cases "map_of (h_subscribed s) u")
  case None
  then show ?thesis using assms(1) by (simp add: h_Unsubscribe_def)
next
  case (Some x)
  have r: "\<And>dv. refs dv s = int (length (active_subs dv (h_subscribed s)))" "distinct (map fst (h_subscribed s))"
    "list_all (\<lambda>(k, d). hd_ID d = k) (h_devices s)" "\<And>dv c. map_of (h_clients s) dv = Some c \<Longrightarrow> 0 < hc_refs c"
    using assms(1) unfolding counted_refs by auto
  note l = length_delete [OF r(2) Some]
  let ?s = "h_Unsubscribe u s" and ?m = "AList.delete u (h_subscribed s)"
  have s: "h_subscribed ?s = ?m" "h_devices ?s = h_devices s" by (simp_all add: h_Unsubscribe_def Some release_client_def split: option.split)
  have d: "distinct (map fst ?m)" using r(2) by (rule distinct_delete)
  show ?thesis
  proof (cases "map_of (h_clients s) (hs_deviceID x)")
    case None
    then have c: "h_clients ?s = h_clients s" by (simp add: h_Unsubscribe_def Some release_client_def)
    have "\<not> hs_activated x"
    proof
      assume "hs_activated x"
      then have "active_subs (hs_deviceID x) (h_subscribed s) \<noteq> []" using Some by (auto simp: active_subs_def filter_empty_conv dest!: map_of_SomeD)
      then show False using r(1) [of "hs_deviceID x"] None by (simp add: refs_def)
    qed
    then have "length (active_subs dv ?m) = length (active_subs dv (h_subscribed s))" for dv using l [of dv] by simp
    then show ?thesis using r d unfolding counted_refs s c by (simp add: refs_def c)
  next
    case (Some c)
    then have a: "hs_activated x" using assms(2) [OF \<open>map_of (h_subscribed s) u = Some x\<close>] by simp
    have n: "hc_refs c = int (length (active_subs (hs_deviceID x) (h_subscribed s)))" using r(1) [of "hs_deviceID x"] Some by (simp add: refs_def)
    have c: "h_clients ?s = (if hc_refs c - 1 \<le> 0 then AList.delete (hs_deviceID x) (h_clients s)
        else AList.update (hs_deviceID x) (c\<lparr>hc_refs := hc_refs c - 1\<rparr>) (h_clients s))"
      using Some by (simp add: h_Unsubscribe_def \<open>map_of (h_subscribed s) u = Some x\<close> release_client_def)
    have "refs dv ?s = int (length (active_subs dv ?m))" for dv
    proof (cases "dv = hs_deviceID x")
      case True
      then have "int (length (active_subs dv ?m)) = hc_refs c - 1" using l [of dv] a n by simp
      then show ?thesis using True r(4) [OF Some] by (simp add: refs_def c update_conv' delete_conv')
    next
      case False
      then show ?thesis using l [of dv] r(1) [of dv] by (simp add: refs_def c update_conv' delete_conv')
    qed
    moreover have "0 < hc_refs c'" if "map_of (h_clients ?s) dv = Some c'" for dv c'
      using that r(4) by (auto simp: c update_conv' delete_conv' split: if_splits)
    ultimately show ?thesis using r(3) d unfolding counted_refs s by simp
  qed
qed

lemma reach_counted: "shelly_reach env i s \<Longrightarrow> counted s"
proof (induction rule: shelly_reach.induct)
  case reach_new
  show ?case by (simp add: counted_def shelly_new_def subs_of_def)
next
  case (reach_subscribe s m)
  then show ?case by (intro counted_subscribe)
next
  case (reach_unsubscribe s u)
  then show ?case by (intro counted_unsubscribe)
next
  case (reach_apply s m cmd)
  have "same_counts s (fst (h_Apply env m cmd s))"
    by (auto simp: h_Apply_def setSwitch_def setLight_def call_rpc_def same_counts_def Let_def split: option.split)
  then show ?case using reach_apply.IH by (rule same_counts_counted)
next
  case (reach_entry s e)
  have "same_counts s (handleEntry_shelly e s)" by (simp add: handleEntry_shelly_def same_counts_def Let_def split: list.split)
  then show ?case using reach_entry.IH by (rule same_counts_counted)
next
  case (reach_enrich s addr a)
  have sc: "same_counts t (fst (scan_error e t))" for t e by (simp add: scan_error_def same_counts_def)
  have rd: "counted (fst (record_device d s))" for d
  proof -
    let ?s = "s\<lparr>h_devices := AList.update (hd_ID d) d (h_devices s), h_byAddr := AList.update (hd_Addr d) (hd_ID d) (h_byAddr s)\<rparr>"
    have "list_all (\<lambda>(k, d). hd_ID d = k) (AList.update (hd_ID d) d (h_devices s))"
      using reach_enrich.IH unfolding counted_def list_all_iff by (auto dest!: set_update_cases)
    then have "counted ?s" using reach_enrich.IH unfolding counted_refs by (simp add: refs_def)
    then show ?thesis using counted_found [of ?s d] by (simp add: record_device_def Let_def split: option.split)
  qed
  have f: "counted (t\<lparr>h_inFlight := xs\<rparr>) \<longleftrightarrow> counted t" for t xs by (simp add: counted_refs refs_def)
  show ?case using rd same_counts_counted [OF sc reach_enrich.IH]
    by (simp add: enrich_def then_step_def case_prod_unfold f split: sum.split)
next
  case (reach_turn s dev life)
  then show ?case using same_counts_counted [OF same_turn] by blast
next
  case (reach_input s dev x)
  then show ?case using same_counts_counted [OF same_input] by blast
qed (simp_all add: h_Init_def h_Close_def counted_refs refs_def active_subs_def)


section \<open>What the count misses\<close>

text \<open>
  C35: taking back a subscription of a component that the device does not have cuts the device off:
  the subscription was never counted, yet its removal stops the client that another one uses. That
  one cannot be commanded any more and stays so when the scanner reports the device again.
\<close>

theorem missing_component_kills_device:
  assumes "map_of (h_subscribed s) (m_DSUID m) = Some x" "hs_activated x" "map_of (h_subscribed s) v = Some y" "v \<noteq> m_DSUID m"
    and "subs_of (\<lambda>z. \<not> hs_activated z) (hs_deviceID x) s = [(v, y)]" "hs_deviceID y = hs_deviceID x"
    and "map_of (h_clients s) (hs_deviceID x) = Some c" "hc_refs c = 1" "hd_ID d = hs_deviceID x"
  shows "snd (h_Apply env m cmd (h_Unsubscribe v s)) = Some (''shelly: device '' @ he_quote env (m_RemoteEntityID m) @ '' not connected'') \<and>
    snd (h_Apply env m cmd (fst (onDeviceFound_shelly d (h_Unsubscribe v s)))) =
      Some (''shelly: device '' @ he_quote env (m_RemoteEntityID m) @ '' not connected'')"
proof -
  let ?s = "h_Unsubscribe v s"
  have s: "h_subscribed ?s = AList.delete v (h_subscribed s)" "map_of (h_clients ?s) (hs_deviceID x) = None"
    using assms by (simp_all add: h_Unsubscribe_def release_client_def delete_conv')
  have x: "map_of (h_subscribed ?s) (m_DSUID m) = Some x" using assms(1,4) by (simp add: s(1) delete_conv')
  have "subs_of (\<lambda>z. \<not> hs_activated z) (hs_deviceID x) ?s = filter (\<lambda>p. fst p \<noteq> v) (subs_of (\<lambda>z. \<not> hs_activated z) (hs_deviceID x) s)"
    by (auto simp: subs_of_def s(1) AList.delete_eq case_prod_unfold intro: filter_cong)
  then have n: "subs_of (\<lambda>z. \<not> hs_activated z) (hs_deviceID x) ?s = []" by (simp add: assms(5))
  have "drop_stale d ?s = ?s" using s(2) assms(9) by (simp add: drop_stale_def)
  then have "fst (onDeviceFound_shelly d ?s) = ?s" using n assms(9) by (simp add: onDeviceFound_shelly_def Let_def then_step_def)
  then show ?thesis using x s(2) by (simp add: h_Apply_def)
qed

text \<open>
  A Shelly device that moves to another address and back is lost: the scanner looks at an address
  only once, so that the entries of the first address are ignored, while the device stays recorded
  under the second one.
\<close>

theorem returning_device_ignored:
  assumes "ea_info a = Inr info" "\<not> di_AuthEnabled info" "ea_status a = Inr st"
    and "ea_info b = Inr info" "ea_status b = Inr st'" "addr \<noteq> addr'"
    and "ht_IPv4 e = ip # ips" "addr = ip @ '':'' @ itoa (ht_Port e)"
  shows "handleEntry_shelly e (fst (then_step (enrich addr a) (enrich addr' b) s)) = fst (then_step (enrich addr a) (enrich addr' b) s) \<and>
    map_option hd_Addr (map_of (h_devices (fst (then_step (enrich addr a) (enrich addr' b) s))) (di_ID info)) = Some addr'"
proof -
  have f: "h_byAddr (fst (onDeviceFound_shelly d t)) = h_byAddr t \<and> h_devices (fst (onDeviceFound_shelly d t)) = h_devices t" for d t
  proof -
    have act: "h_byAddr (fst (activate_shelly u d t)) = h_byAddr t \<and> h_devices (fst (activate_shelly u d t)) = h_devices t" for u t
      by (simp add: activate_shelly_def Let_def split: option.split)
    have "h_byAddr (fst (each_step (\<lambda>u. activate_shelly u d) us t)) = h_byAddr t \<and>
        h_devices (fst (each_step (\<lambda>u. activate_shelly u d) us t)) = h_devices t" for us t
      using act by (induction us arbitrary: t) (simp_all add: then_step_def case_prod_unfold)
    moreover have "h_byAddr (drop_stale d t) = h_byAddr t \<and> h_devices (drop_stale d t) = h_devices t"
      by (simp add: drop_stale_def split: option.split)
    ultimately show ?thesis by (simp add: onDeviceFound_shelly_def Let_def then_step_def case_prod_unfold)
  qed
  have r: "h_byAddr (fst (record_device d t)) = AList.update (hd_Addr d) (hd_ID d) (h_byAddr t) \<and>
      h_devices (fst (record_device d t)) = AList.update (hd_ID d) d (h_devices t)" for d t
    using f by (simp add: record_device_def Let_def split: option.split)
  have e: "h_byAddr (fst (enrich ad q t)) = AList.update ad (di_ID info) (h_byAddr t) \<and>
      h_devices (fst (enrich ad q t)) = AList.update (di_ID info) (enriched_device ad info w (ea_inputs q)) (h_devices t)"
    if "ea_info q = Inr info" "ea_status q = Inr w" for ad q t w
    using r that assms(2) by (simp add: enrich_def then_step_def case_prod_unfold enriched_device_def Let_def)
  have "map_of (h_byAddr (fst (then_step (enrich addr a) (enrich addr' b) s))) addr = Some (di_ID info)"
    "map_option hd_Addr (map_of (h_devices (fst (then_step (enrich addr a) (enrich addr' b) s))) (di_ID info)) = Some addr'"
    using e [OF assms(1,3)] e [OF assms(4,5)] assms(6)
    by (simp_all add: then_step_def case_prod_unfold update_conv' enriched_device_def Let_def)
  then show ?thesis using assms(7,8) by (simp add: handleEntry_shelly_def Let_def go_has_def)
qed

section \<open>Levels\<close>

lemma key_not_ts: "component_key c \<noteq> ''ts''"
proof
  assume "component_key c = ''ts''"
  then have "CHR '':'' \<in> set ''ts''" by (metis component_key_def in_set_conv_decomp append_Cons append_Nil)
  then show False by simp
qed

text \<open>
  A level survives the way to a Shelly dimmer and back: any level above 0 and up to 100 is sent
  unchanged, and the notification with which the device confirms it reports the same level, whatever
  was known of the device before.
\<close>

theorem shelly_level_round_trip:
  assumes "map_of (h_subscribed s) (m_DSUID m) = Some x" "hs_mapping x = m" "hs_activated x" "en_Kind (hs_spec x) = ''dimmer''"
    and "sc_Kind (hs_identity x) = ''light''" "map_of (h_clients s) (hs_deviceID x) = Some c"
    and "c_Type cmd = ''setChannel''" "c_Channel cmd = 0" "f64_less f64_zero (c_Value cmd)" "f64_le (c_Value cmd) f64_hundred"
  shows "h_Apply env m cmd s = call_rpc env (hc_addr c) ''Light.Set''
      [(''id'', GInt (sc_Index (hs_identity x))), (''on'', GBool True), (''brightness'', GFloat (c_Value cmd))] s \<and>
    HChannel (m_DSUID m) 0 (c_Value cmd) \<in> set (snd (merged (hs_deviceID x)
      [(component_key (hs_identity x), GObj [(''output'', GBool True), (''brightness'', GFloat (c_Value cmd))])] s))"
proof -
  let ?v = "c_Value cmd" and ?k = "component_key (hs_identity x)"
  let ?payload = "[(?k, GObj [(''output'', GBool True), (''brightness'', GFloat ?v)])]"
  have cl: "clampF_shelly ?v f64_zero f64_hundred = ?v" "\<not> f64_le ?v f64_zero"
    using assms(9,10) by (auto simp: clampF_shelly_def f64_less_def f64_le_def)
  define old where "old = go_get [] (hc_status c) ?k"
  let ?new = "AList.update ''brightness'' (GFloat ?v) (AList.update ''output'' (GBool True) old)"
  have st: "merge_status ?payload (hc_status c) = AList.update ?k ?new (hc_status c)"
    using key_not_ts by (simp add: merge_status_def merge_fields_def old_def)
  have "lightChannelValue (Some ?new) = Some ?v"
    using cl by (simp add: lightChannelValue_def boolField_shelly_def numberField_shelly_def as_number_def update_conv')
  then have "HChannel (m_DSUID m) 0 ?v \<in> set (applySpec (merge_status ?payload (hc_status c)) x)"
    using assms(2,4) by (simp add: applySpec_def st channel_call_def update_conv' Let_def)
  moreover have "(m_DSUID m, x) \<in> set (subs_of hs_activated (hs_deviceID x) s)" using assms(1,3) by (auto simp: subs_of_def dest: map_of_SomeD)
  ultimately have "HChannel (m_DSUID m) 0 ?v \<in> set (snd (merged (hs_deviceID x) ?payload s))"
    using assms(6) by (force simp: merged_def handleStatus_def Let_def)
  moreover have "h_Apply env m cmd s = call_rpc env (hc_addr c) ''Light.Set''
      [(''id'', GInt (sc_Index (hs_identity x))), (''on'', GBool True), (''brightness'', GFloat ?v)] s"
    using assms cl by (simp add: h_Apply_def setLight_def Let_def)
  ultimately show ?thesis by simp
qed

section \<open>Examples\<close>

definition ex_shelly_env :: shelly_env where
  "ex_shelly_env = \<lparr>he_frame = \<lambda>_. None, he_events = \<lambda>_. None, he_status = \<lambda>_. None, he_call = \<lambda>_ _ _. None, he_quote = (\<lambda>s. s)\<rparr>"

definition ex_info :: device_info where
  "ex_info = \<lparr>di_ID = ''sh1'', di_Gen = 2, di_App = ''Plus1'', di_Ver = ''1.0'', di_Name = None, di_AuthEnabled = False\<rparr>"

definition ex_answers :: enrich_answers where
  "ex_answers = \<lparr>ea_info = Inr ex_info, ea_status = Inr [(''input:0'', []), (''sys'', [])], ea_inputs = \<lambda>_. Some ''button''\<rparr>"

definition ex_button :: "string \<Rightarrow> string \<Rightarrow> mapping" where
  "ex_button u e = \<lparr>m_PluginID = ''shelly'', m_RemoteEntityID = e, m_DSUID = u, m_Kind = ''button'', m_Name = ''B''\<rparr>"

definition ex_known :: shelly where
  "ex_known = fst (enrich ''10.0.0.1:80'' ex_answers (shelly_new ''shelly''))"

definition ex_one :: shelly where
  "ex_one = fst (h_Subscribe ex_shelly_env (ex_button ''u'' ''sh1:input:0'') ex_known)"

definition ex_two :: shelly where
  "ex_two = fst (h_Subscribe ex_shelly_env (ex_button ''v'' ''sh1:input:5'') ex_one)"

lemma ex_one_reach: "shelly_reach ex_shelly_env ''shelly'' ex_one"
proof -
  have "map_of (h_subscribed ex_known) (m_DSUID (ex_button ''u'' ''sh1:input:0'')) = None" by code_simp
  then show ?thesis unfolding ex_one_def ex_known_def by (intro reach_subscribe reach_enrich reach_new)
qed


theorem missing_component_kills_device_witness:
  "snd (h_Apply ex_shelly_env (ex_button ''u'' ''sh1:input:0'') (\<lparr>c_Type = ''setActive'', c_Channel = 0, c_Value = f64_zero, c_Scene = 0, c_Active = True\<rparr>)
     (h_Unsubscribe ''v'' ex_two)) = Some ''shelly: device sh1:input:0 not connected''"
proof -
  let ?x = "the (map_of (h_subscribed ex_two) ''u'')" and ?y = "the (map_of (h_subscribed ex_two) ''v'')" and ?c = "the (map_of (h_clients ex_two) ''sh1'')"
  have "map_of (h_subscribed ex_two) ''u'' = Some ?x" "hs_activated ?x" "map_of (h_subscribed ex_two) ''v'' = Some ?y" "hs_deviceID ?x = ''sh1''"
    "hs_deviceID ?y = ''sh1''" "subs_of (\<lambda>z. \<not> hs_activated z) ''sh1'' ex_two = [(''v'', ?y)]" "map_of (h_clients ex_two) ''sh1'' = Some ?c" "hc_refs ?c = 1"
    "hd_ID (enriched_device ''10.0.0.1:80'' ex_info [] (\<lambda>_. None)) = ''sh1''" "m_DSUID (ex_button ''u'' ''sh1:input:0'') = ''u''"
    "he_quote ex_shelly_env (m_RemoteEntityID (ex_button ''u'' ''sh1:input:0'')) = ''sh1:input:0''"
    by code_simp+
  then show ?thesis
    using missing_component_kills_device [of ex_two "ex_button ''u'' ''sh1:input:0''" ?x "''v''" ?y ?c "enriched_device ''10.0.0.1:80'' ex_info [] (\<lambda>_. None)" ex_shelly_env
      "\<lparr>c_Type = ''setActive'', c_Channel = 0, c_Value = f64_zero, c_Scene = 0, c_Active = True\<rparr>"]
    by simp
qed

theorem returning_device_ignored_witness:
  "handleEntry_shelly \<lparr>ht_IPv4 = [''10.0.0.1''], ht_Port = 80, ht_Text = [''gen=2'']\<rparr>
     (fst (then_step (enrich ''10.0.0.1:80'' ex_answers) (enrich ''10.0.0.2:80'' ex_answers) (shelly_new ''shelly''))) =
   fst (then_step (enrich ''10.0.0.1:80'' ex_answers) (enrich ''10.0.0.2:80'' ex_answers) (shelly_new ''shelly''))"
proof -
  let ?e = "\<lparr>ht_IPv4 = [''10.0.0.1''], ht_Port = 80, ht_Text = [''gen=2'']\<rparr>"
  have i: "itoa 80 = ''80''" by code_simp
  have p: "ea_info ex_answers = Inr ex_info" "\<not> di_AuthEnabled ex_info" "ea_status ex_answers = Inr [(''input:0'', []), (''sys'', [])]"
    by (simp_all add: ex_answers_def ex_info_def)
  have q: "''10.0.0.1:80'' \<noteq> ''10.0.0.2:80''" "ht_IPv4 ?e = [''10.0.0.1'']" "''10.0.0.1:80'' = ''10.0.0.1'' @ '':'' @ itoa (ht_Port ?e)"
    by (simp_all add: i)
  show ?thesis using returning_device_ignored [OF p p(1,3) q, of "shelly_new ''shelly''"] by (rule conjunct1)
qed

definition ex_light :: shelly_component where
  "ex_light = \<lparr>sc_Kind = ''light'', sc_Index = 0\<rparr>"

definition ex_dimmer_state :: shelly where
  "ex_dimmer_state = (shelly_new ''shelly'')\<lparr>h_subscribed := [(''u'', \<lparr>hs_mapping = ex_button ''u'' ''sh1:light:0'', hs_deviceID = ''sh1'',
     hs_identity = ex_light, hs_spec = entity_spec0 ex_light ''dimmer'', hs_activated = True\<rparr>)], h_clients := [(''sh1'', new_client ''10.0.0.1:80'')]\<rparr>"

theorem shelly_level_round_trip_witness:
  "h_Apply ex_shelly_env (ex_button ''u'' ''sh1:light:0'') \<lparr>c_Type = ''setChannel'', c_Channel = 0, c_Value = f64_one, c_Scene = 0, c_Active = True\<rparr> ex_dimmer_state =
     call_rpc ex_shelly_env ''10.0.0.1:80'' ''Light.Set'' [(''id'', GInt 0), (''on'', GBool True), (''brightness'', GFloat f64_one)] ex_dimmer_state"
  using shelly_level_round_trip [of ex_dimmer_state "ex_button ''u'' ''sh1:light:0''" "snd (hd (h_subscribed ex_dimmer_state))" "new_client ''10.0.0.1:80''"
    "\<lparr>c_Type = ''setChannel'', c_Channel = 0, c_Value = f64_one, c_Scene = 0, c_Active = True\<rparr>" ex_shelly_env]
  by (simp add: ex_dimmer_state_def ex_button_def shelly_new_def entity_spec0_def ex_light_def new_client_def val_less val_le)

end
